(* ===== verification/Prelude.thy ===== *)
theory Prelude
  imports Main "HOL-Library.Finite_Map" "HOL-Library.List_Lexorder" "HOL-Library.Char_ord"
    "HOL-Library.Product_Lexorder" "HOL-Library.Multiset"
begin

text \<open>
  Shared vocabulary of the development: Go maps, loops over maps, results with errors, and the
  list lemmas several components use.

  A Go \<open>map[string]V\<close> is a finite map. The nil map and the empty map are one value: every read
  treats them alike, and every write of the modelled code is preceded by the code's own nil check.
  A \<open>for k, v := range m\<close> loop visits the entries in an unspecified order; the model visits them
  in key order (\<open>entries\<close>), and the lemmas \<open>fold_upd_perm\<close> and \<open>fold_upd_entries\<close> show that for
  the copy loops of the code the order makes no difference.
\<close>

type_synonym 'v gomap = "(string, 'v) fmap"

named_theorems go_lookup \<open>lookup equations of map-building loops\<close>
named_theorems go_defs \<open>definitions that unfold to case distinctions\<close>

definition entries :: "('k::linorder, 'v) fmap \<Rightarrow> ('k \<times> 'v) list" where
  "entries m = sorted_list_of_fmap m"

definition keys :: "('k::linorder, 'v) fmap \<Rightarrow> 'k list" where
  "keys m = map fst (entries m)"

lemma map_of_entries [simp]: "map_of (entries m) = fmlookup m"
  by (simp add: entries_def)

lemma keys_eq: "keys m = sorted_list_of_fset (fmdom m)"
  by (simp add: keys_def entries_def sorted_list_of_fmap_def comp_def)

lemma distinct_keys [simp]: "distinct (keys m)"
  by (simp add: keys_eq sorted_list_of_fset.rep_eq)

lemma sorted_keys [simp]: "sorted (keys m)"
  by (simp add: keys_eq sorted_list_of_fset.rep_eq)

lemma set_keys [simp]: "set (keys m) = fset (fmdom m)"
  by (simp add: keys_eq sorted_list_of_fset.rep_eq)

lemma distinct_fst_entries [simp]: "distinct (map fst (entries m))"
  using distinct_keys [of m] by (simp add: keys_def)

lemma set_entries: "set (entries m) = {(k, v). fmlookup m k = Some v}"
proof -
  have "(k, v) \<in> set (entries m) \<longleftrightarrow> map_of (entries m) k = Some v" for k v
    by (rule map_of_eq_Some_iff [symmetric]) simp
  then show ?thesis by auto
qed

lemma in_entries [simp]: "(k, v) \<in> set (entries m) \<longleftrightarrow> fmlookup m k = Some v"
  by (simp add: set_entries)

lemma entries_fmempty [simp]: "entries fmempty = []"
  using set_entries [of "fmempty :: ('a::linorder, 'b) fmap"] by auto

text \<open>The loop \<open>for k, v := range xs { result[k] = f k v }\<close>.\<close>

definition put_all :: "('k \<times> 'v) list \<Rightarrow> ('k, 'v) fmap \<Rightarrow> ('k, 'v) fmap" where
  "put_all xs m = fold (\<lambda>(k, v) r. fmupd k v r) xs m"

lemma put_all_simps [simp]:
  "put_all [] m = m"
  "put_all ((k, v) # xs) m = put_all xs (fmupd k v m)"
  by (simp_all add: put_all_def)

lemma put_all_lookup:
  "distinct (map fst xs) \<Longrightarrow>
    fmlookup (put_all xs m) k = (case map_of xs k of Some v \<Rightarrow> Some v | None \<Rightarrow> fmlookup m k)"
proof (induction xs arbitrary: m)
  case Nil
  then show ?case by simp
next
  case (Cons x xs)
  obtain a b where x: "x = (a, b)" by (cases x)
  from Cons.prems x have "map_of xs a = None"
    by (auto simp: map_of_eq_None_iff)
  with Cons x show ?case by (auto split: option.splits)
qed

lemma fold_upd_entries [go_lookup]: "put_all (entries n) m = fmadd m n"
  by (rule fmap_ext) (auto simp: put_all_lookup split: option.splits dest: fmdomI)

lemma fold_upd_perm:
  "distinct (map fst xs) \<Longrightarrow> mset xs = mset ys \<Longrightarrow> put_all xs m = put_all ys m"
proof (rule fmap_ext)
  fix k
  assume d: "distinct (map fst xs)" and p: "mset xs = mset ys"
  then have d': "distinct (map fst ys)"
    by (metis mset_map mset_eq_imp_distinct_iff)
  have "map_of xs = map_of ys"
    by (metis d d' p map_of_inject_set set_mset_mset)
  with d d' show "fmlookup (put_all xs m) k = fmlookup (put_all ys m) k"
    by (simp add: put_all_lookup)
qed

text \<open>The loop \<open>for k, v := range m { if w, ok := f(k, v); ok { result[k] = w } }\<close>.\<close>

definition collect_map :: "('k::linorder \<Rightarrow> 'v \<Rightarrow> 'w option) \<Rightarrow> ('k, 'v) fmap \<Rightarrow> ('k, 'w) fmap" where
  "collect_map f m =
     fold (\<lambda>(k, v) r. case f k v of None \<Rightarrow> r | Some w \<Rightarrow> fmupd k w r) (entries m) fmempty"

lemma fold_collect_lookup:
  "distinct (map fst xs) \<Longrightarrow>
    fmlookup (fold (\<lambda>(k, v) r. case f k v of None \<Rightarrow> r | Some w \<Rightarrow> fmupd k w r) xs r0) k =
    (case map_of xs k of None \<Rightarrow> fmlookup r0 k
     | Some v \<Rightarrow> (case f k v of None \<Rightarrow> fmlookup r0 k | Some w \<Rightarrow> Some w))"
proof (induction xs arbitrary: r0)
  case Nil
  then show ?case by simp
next
  case (Cons x xs)
  obtain a b where x: "x = (a, b)" by (cases x)
  from Cons.prems x have "map_of xs a = None"
    by (auto simp: map_of_eq_None_iff)
  with Cons x show ?case by (auto split: option.splits)
qed

lemma collect_map_lookup [go_lookup]:
  "fmlookup (collect_map f m) k = Option.bind (fmlookup m k) (f k)"
  by (simp add: collect_map_def fold_collect_lookup split: option.splits)

text \<open>The loop that combines each entry with the one already stored under its key.\<close>

lemma fold_combine_lookup:
  "distinct (map fst xs) \<Longrightarrow>
    fmlookup (fold (\<lambda>(k, v) r. case fmlookup r k of Some w \<Rightarrow> fmupd k (f w v) r | None \<Rightarrow> fmupd k v r)
      xs r0) k =
    (case map_of xs k of None \<Rightarrow> fmlookup r0 k
     | Some v \<Rightarrow> Some (case fmlookup r0 k of Some w \<Rightarrow> f w v | None \<Rightarrow> v))"
proof (induction xs arbitrary: r0)
  case Nil
  then show ?case by simp
next
  case (Cons x xs)
  obtain a b where x: "x = (a, b)" by (cases x)
  from Cons.prems x have "map_of xs a = None"
    by (auto simp: map_of_eq_None_iff)
  with Cons x show ?case by (auto split: option.splits)
qed

subsection \<open>Lookups in keyed lists\<close>

text \<open>First element of a list with a given key, as the code's \<open>for i := range xs\<close> search loops.\<close>

definition find_key :: "('a \<Rightarrow> 'k) \<Rightarrow> 'k \<Rightarrow> 'a list \<Rightarrow> 'a option" where
  "find_key f k xs = find (\<lambda>x. f x = k) xs"

lemma find_key_simps [simp]:
  "find_key f k [] = None"
  "find_key f k (x # xs) = (if f x = k then Some x else find_key f k xs)"
  by (simp_all add: find_key_def)

lemma find_key_append [simp]:
  "find_key f k (xs @ ys) = (case find_key f k xs of Some x \<Rightarrow> Some x | None \<Rightarrow> find_key f k ys)"
  by (induction xs) auto

lemma find_key_None: "find_key f k xs = None \<longleftrightarrow> k \<notin> f ` set xs"
  by (induction xs) auto

lemma find_key_map: "find_key f k (map h xs) = map_option h (find_key (f \<circ> h) k xs)"
  by (induction xs) auto

lemma find_key_SomeD: "find_key f k xs = Some x \<Longrightarrow> x \<in> set xs \<and> f x = k"
  by (induction xs) (auto split: if_splits)

text \<open>In-place update of the first element with a key.\<close>

fun update_key :: "('a \<Rightarrow> 'k) \<Rightarrow> 'k \<Rightarrow> ('a \<Rightarrow> 'a) \<Rightarrow> 'a list \<Rightarrow> 'a list" where
  "update_key f k g [] = []"
| "update_key f k g (x # xs) = (if f x = k then g x # xs else x # update_key f k g xs)"

lemma update_key_keys:
  "(\<And>x. f x = k \<Longrightarrow> f (g x) = k) \<Longrightarrow> map f (update_key f k g xs) = map f xs"
  by (induction xs) auto

lemma find_key_update_same:
  "(\<And>x. f x = k \<Longrightarrow> f (g x) = k) \<Longrightarrow>
    find_key f k (update_key f k g xs) = map_option g (find_key f k xs)"
  by (induction xs) auto

lemma find_key_update_other:
  "(\<And>x. f x = k \<Longrightarrow> f (g x) = k) \<Longrightarrow> k' \<noteq> k \<Longrightarrow>
    find_key f k' (update_key f k g xs) = find_key f k' xs"
  by (induction xs) auto

lemma update_key_id:
  "(\<And>x. find_key f k xs = Some x \<Longrightarrow> g x = x) \<Longrightarrow> update_key f k g xs = xs"
  by (induction xs) auto

lemma length_update_key [simp]: "length (update_key f k g xs) = length xs"
  by (induction xs) auto

lemma in_map_filter: "y \<in> set (List.map_filter f xs) \<longleftrightarrow> (\<exists>x \<in> set xs. f x = Some y)"
  by (induction xs) (auto simp: List.map_filter_def split: option.splits)

lemma ball_map_filter:
  "(\<forall>y \<in> set (List.map_filter f xs). P y) \<longleftrightarrow> (\<forall>x \<in> set xs. \<forall>y. f x = Some y \<longrightarrow> P y)"
  by (induction xs) (auto simp: List.map_filter_def split: option.splits)

subsection \<open>Layers\<close>

text \<open>The layers that are present, and the value the highest of them that states one gives.\<close>

definition present :: "'a option list \<Rightarrow> 'a list" where
  "present ovs = List.map_filter id ovs"

lemma present_simps [simp]:
  "present [] = []" "present (None # ovs) = present ovs" "present (Some ov # ovs) = ov # present ovs"
  by (simp_all add: present_def List.map_filter_def)

lemma present_append [simp]: "present (ovs @ ovs') = present ovs @ present ovs'"
  by (simp add: present_def List.map_filter_def)

definition wins :: "('a \<Rightarrow> 'v option) \<Rightarrow> 'a list \<Rightarrow> 'v \<Rightarrow> bool" where
  "wins f os v \<longleftrightarrow> (\<exists>xs ov ys. os = xs @ ov # ys \<and> f ov = Some v \<and> (\<forall>y \<in> set ys. f y = None))"

lemma wins_Nil [simp]: "\<not> wins f [] v"
  by (simp add: wins_def)

lemma wins_snoc [simp]: "wins f (os @ [ov]) v \<longleftrightarrow> (case f ov of Some w \<Rightarrow> v = w | None \<Rightarrow> wins f os v)"
proof (cases "f ov")
  case None
  show ?thesis
  proof
    assume "wins f (os @ [ov]) v"
    then obtain xs x ys where d: "os @ [ov] = xs @ x # ys" "f x = Some v" "\<forall>y \<in> set ys. f y = None"
      by (auto simp: wins_def)
    with None have "ys \<noteq> []" by auto
    then obtain zs z where "ys = zs @ [z]" by (metis rev_exhaust)
    with d None show "case f ov of Some w \<Rightarrow> v = w | None \<Rightarrow> wins f os v"
      by (auto simp: wins_def)
  next
    assume "case f ov of Some w \<Rightarrow> v = w | None \<Rightarrow> wins f os v"
    with None obtain xs x ys where "os = xs @ x # ys" "f x = Some v" "\<forall>y \<in> set ys. f y = None"
      by (auto simp: wins_def)
    with None show "wins f (os @ [ov]) v"
      unfolding wins_def by (intro exI [of _ xs] exI [of _ x] exI [of _ "ys @ [ov]"]) auto
  qed
next
  case (Some w)
  show ?thesis
  proof
    assume "wins f (os @ [ov]) v"
    then obtain xs x ys where d: "os @ [ov] = xs @ x # ys" "f x = Some v" "\<forall>y \<in> set ys. f y = None"
      by (auto simp: wins_def)
    then show "case f ov of Some w \<Rightarrow> v = w | None \<Rightarrow> wins f os v"
      using Some by (cases ys rule: rev_cases) auto
  next
    assume "case f ov of Some w \<Rightarrow> v = w | None \<Rightarrow> wins f os v"
    with Some show "wins f (os @ [ov]) v"
      unfolding wins_def by (intro exI [of _ os] exI [of _ ov] exI [of _ "[]"]) auto
  qed
qed

subsection \<open>Stable sorting\<close>

lemma sort_key_stable_key: "filter (\<lambda>x. c = f x) (sort_key f xs) = filter (\<lambda>x. c = f x) xs"
  using sort_key_stable [of f c xs] by (simp add: eq_commute [of c])

lemma sort_key_snoc: "sort_key f (sort_key f xs @ [x]) = sort_key f (xs @ [x])"
  by (rule properties_for_sort_key) (auto simp: sort_key_stable_key simp del: filter_sort)

lemma insort_key_map: "insort_key g (h x) (map h xs) = map h (insort_key (g \<circ> h) x xs)"
  by (induction xs) auto

lemma sort_key_map: "sort_key g (map h xs) = map h (sort_key (g \<circ> h) xs)"
  by (induction xs) (auto simp: insort_key_map comp_def)

text \<open>A label or annotation that is only set under a condition.\<close>

definition put_if :: "bool \<Rightarrow> string \<Rightarrow> string \<Rightarrow> string gomap \<Rightarrow> string gomap" where
  "put_if c k v m = (if c then fmupd k v m else m)"

subsection \<open>Strings\<close>

text \<open>\<open>strings.Join\<close> and the decimal rendering of \<open>%d\<close>.\<close>

fun join_strings :: "string \<Rightarrow> string list \<Rightarrow> string" where
  "join_strings sep [] = []"
| "join_strings sep [x] = x"
| "join_strings sep (x # y # ys) = x @ sep @ join_strings sep (y # ys)"

fun decimal :: "nat \<Rightarrow> string" where
  "decimal n = (if n < 10 then [char_of (48 + n)] else decimal (n div 10) @ [char_of (48 + n mod 10)])"

declare decimal.simps [simp del]

definition int_text :: "int \<Rightarrow> string" where
  "int_text n = (if n < 0 then ''-'' @ decimal (nat (- n)) else decimal (nat n))"

end
