(* ===== verification/Errors.thy ===== *)
theory Errors
  imports Prelude
begin

text \<open>
  The error values of the framework: \<open>pkg/common/errors.go\<close>, \<open>pkg/common/extension.go\<close>
  (\<open>ExtensionError\<close>), \<open>pkg/reconciler/errors.go\<close> and the error type of
  \<open>pkg/reconciler/dependency.go\<close>.  A Go error is a tree: a leaf, a wrapper with at most one cause
  (\<open>Unwrap() error\<close>) or an \<open>errors.Join\<close> (\<open>Unwrap() []error\<close>).  The classification of a failed
  reconcile as "waiting" or "failed" is a function of that tree.
\<close>

section \<open>Error trees\<close>

text \<open>Durations are nanoseconds, as \<open>time.Duration\<close>.\<close>

type_synonym duration = int

definition second :: duration where
  "second = 1000000000"

record requeue =
  rq_after :: duration
  rq_reason :: string
  rq_message :: string

text \<open>The wrapper types of the code, without their \<open>Cause\<close>.\<close>

datatype wrapper =
    ConfigError string string
  | ReconcileError string string
  | ResourceBuildError string string string string
  | ResourceApplyError string string string string
  | ValidationError string string string
  | RateLimitError duration
  | DependencyError string string
  | ExtensionError string
  | FmtErrorf string

text \<open>Errors of the Kubernetes API (\<open>apierrors.StatusError\<close>): the reasons the code inspects.\<close>

datatype api_reason =
    NotFound
  | AlreadyExists
  | Conflict
  | TooManyRequests "int option"
  | OtherStatus string

datatype err =
    RequeueAfterError requeue
  | PlainError string
  | StatusError api_reason
  | Wrapped wrapper "err option"
  | Joined "err list"

text \<open>\<open>errors.Join(errs...)\<close> for non-nil members: nil when there are none.\<close>

definition errors_join :: "err list \<Rightarrow> err option" where
  "errors_join es = (if es = [] then None else Some (Joined es))"

definition NewExtensionError :: "string \<Rightarrow> err \<Rightarrow> err" where
  "NewExtensionError name e = Wrapped (ExtensionError name) (Some e)"

definition NewConfigError :: "string \<Rightarrow> string \<Rightarrow> err" where
  "NewConfigError field message = Wrapped (ConfigError field message) None"

definition WrapConfigError :: "string \<Rightarrow> err \<Rightarrow> err" where
  "WrapConfigError field cause = Wrapped (ConfigError field []) (Some cause)"

definition NewReconcileError :: "string \<Rightarrow> string \<Rightarrow> err option \<Rightarrow> err" where
  "NewReconcileError phase message cause = Wrapped (ReconcileError phase message) cause"

definition NewResourceBuildError ::
    "string \<Rightarrow> string \<Rightarrow> string \<Rightarrow> string \<Rightarrow> err option \<Rightarrow> err" where
  "NewResourceBuildError rtype role grp message cause =
     Wrapped (ResourceBuildError rtype role grp message) cause"

definition NewResourceApplyError ::
    "string \<Rightarrow> string \<Rightarrow> string \<Rightarrow> string \<Rightarrow> err option \<Rightarrow> err" where
  "NewResourceApplyError rtype ns name message cause =
     Wrapped (ResourceApplyError rtype name ns message) cause"

definition NewValidationError :: "string \<Rightarrow> string \<Rightarrow> string \<Rightarrow> err option \<Rightarrow> err" where
  "NewValidationError subject role grp cause = Wrapped (ValidationError subject role grp) cause"

definition NewRateLimitError :: "duration \<Rightarrow> err option \<Rightarrow> err" where
  "NewRateLimitError retry cause = Wrapped (RateLimitError retry) cause"

text \<open>\<open>errors.As\<close>: pre-order, depth-first search of the tree for the first match.\<close>

fun errors_as :: "(err \<Rightarrow> 'a option) \<Rightarrow> err \<Rightarrow> 'a option"
  and errors_as_list :: "(err \<Rightarrow> 'a option) \<Rightarrow> err list \<Rightarrow> 'a option" where
  "errors_as p (Wrapped w (Some e)) =
     (case p (Wrapped w (Some e)) of Some a \<Rightarrow> Some a | None \<Rightarrow> errors_as p e)"
| "errors_as p (Joined es) =
     (case p (Joined es) of Some a \<Rightarrow> Some a | None \<Rightarrow> errors_as_list p es)"
| "errors_as p e = p e"
| "errors_as_list p [] = None"
| "errors_as_list p (e # es) =
     (case errors_as p e of Some a \<Rightarrow> Some a | None \<Rightarrow> errors_as_list p es)"

text \<open>Type assertions \<open>err.(*T)\<close> look at the root only.\<close>

fun as_requeue :: "err \<Rightarrow> requeue option" where
  "as_requeue (RequeueAfterError r) = Some r"
| "as_requeue _ = None"

fun wrapper_of :: "err \<Rightarrow> wrapper option" where
  "wrapper_of (Wrapped w _) = Some w"
| "wrapper_of _ = None"

fun as_validation :: "err \<Rightarrow> (string \<times> string \<times> string) option" where
  "as_validation (Wrapped (ValidationError s r g) _) = Some (s, r, g)"
| "as_validation _ = None"

fun as_rate_limit :: "err \<Rightarrow> duration option" where
  "as_rate_limit (Wrapped (RateLimitError d) _) = Some d"
| "as_rate_limit _ = None"

definition IsRequeueAfterError :: "err \<Rightarrow> bool" where
  "IsRequeueAfterError e \<longleftrightarrow> errors_as as_requeue e \<noteq> None"

definition IsValidationError :: "err \<Rightarrow> bool" where
  "IsValidationError e \<longleftrightarrow> errors_as as_validation e \<noteq> None"

definition IsRateLimitError :: "err \<Rightarrow> bool" where
  "IsRateLimitError e \<longleftrightarrow> errors_as as_rate_limit e \<noteq> None"

definition IsReconcileError :: "err \<Rightarrow> bool" where
  "IsReconcileError e \<longleftrightarrow>
     (case wrapper_of e of Some (ReconcileError _ _) \<Rightarrow> True | _ \<Rightarrow> False)"

definition IsConfigError :: "err \<Rightarrow> bool" where
  "IsConfigError e \<longleftrightarrow>
     (case wrapper_of e of Some (ConfigError _ _) \<Rightarrow> True | _ \<Rightarrow> False)"

definition IsResourceBuildError :: "err \<Rightarrow> bool" where
  "IsResourceBuildError e \<longleftrightarrow>
     (case wrapper_of e of Some (ResourceBuildError _ _ _ _) \<Rightarrow> True | _ \<Rightarrow> False)"

definition IsResourceApplyError :: "err \<Rightarrow> bool" where
  "IsResourceApplyError e \<longleftrightarrow>
     (case wrapper_of e of Some (ResourceApplyError _ _ _ _) \<Rightarrow> True | _ \<Rightarrow> False)"

section \<open>Waiting\<close>

definition MinRequeueAfter :: duration where
  "MinRequeueAfter = 1 * second"

definition DefaultRequeueAfter :: duration where
  "DefaultRequeueAfter = 10 * second"

definition ClampRequeueAfter :: "duration \<Rightarrow> duration" where
  "ClampRequeueAfter after =
     (if after \<le> 0 then DefaultRequeueAfter
      else if after < MinRequeueAfter then MinRequeueAfter
      else after)"

definition NewRequeueAfterError :: "duration \<Rightarrow> string \<Rightarrow> string \<Rightarrow> requeue" where
  "NewRequeueAfterError after reason message =
     \<lparr>rq_after = ClampRequeueAfter after, rq_reason = reason, rq_message = message\<rparr>"

definition requeue_text :: "requeue \<Rightarrow> string" where
  "requeue_text r = ''waiting ('' @ rq_reason r @ ''): '' @ rq_message r"

text \<open>
  \<open>WaitingErrors\<close>: the second function is the loop over the members of a join, its argument the
  shortest wait so far.
\<close>

fun WaitingErrors :: "err \<Rightarrow> requeue option"
  and waiting_members :: "requeue option \<Rightarrow> err list \<Rightarrow> requeue option" where
  "WaitingErrors (RequeueAfterError r) = Some r"
| "WaitingErrors (Joined es) = (if es = [] then None else waiting_members None es)"
| "WaitingErrors (Wrapped w (Some e)) = WaitingErrors e"
| "WaitingErrors (Wrapped w None) = None"
| "WaitingErrors (PlainError s) = None"
| "WaitingErrors (StatusError a) = None"
| "waiting_members shortest [] = shortest"
| "waiting_members shortest (e # es) =
     (case WaitingErrors e of
        None \<Rightarrow> None
      | Some member_err \<Rightarrow>
          waiting_members
            (case shortest of
               None \<Rightarrow> Some member_err
             | Some s \<Rightarrow>
                 if ClampRequeueAfter (rq_after member_err) < ClampRequeueAfter (rq_after s)
                 then Some member_err else Some s)
            es)"

record wait_state =
  ws_after :: duration
  ws_reason :: string
  ws_message :: string

definition ReasonWaiting :: string where "ReasonWaiting = ''Waiting''"
definition ReasonWaitSatisfied :: string where "ReasonWaitSatisfied = ''WaitSatisfied''"

definition newWaitState :: "requeue option \<Rightarrow> wait_state option" where
  "newWaitState waitErr =
     (case waitErr of
        None \<Rightarrow> None
      | Some r \<Rightarrow> Some
          \<lparr>ws_after = ClampRequeueAfter (rq_after r),
           ws_reason = (if rq_reason r = [] then ReasonWaiting else rq_reason r),
           ws_message = (if rq_message r = [] then requeue_text r else rq_message r)\<rparr>)"

definition mergeWait :: "wait_state option \<Rightarrow> wait_state option \<Rightarrow> wait_state option" where
  "mergeWait existing next =
     (case existing of
        None \<Rightarrow> next
      | Some a \<Rightarrow>
          (case next of
             None \<Rightarrow> existing
           | Some b \<Rightarrow> if ws_after b < ws_after a then next else existing))"

section \<open>Specification: the leaves of an error tree\<close>

text \<open>
  The leaves of a tree are the errors no \<open>Unwrap\<close> looks behind: an empty join and a wrapper
  without a cause are opaque.
\<close>

fun leaves :: "err \<Rightarrow> err list" where
  "leaves (Joined es) = (if es = [] then [Joined []] else concat (map leaves es))"
| "leaves (Wrapped w (Some e)) = leaves e"
| "leaves e = [e]"

definition shorter :: "requeue \<Rightarrow> requeue \<Rightarrow> requeue" where
  "shorter a b = (if ClampRequeueAfter (rq_after b) < ClampRequeueAfter (rq_after a) then b else a)"

fun shortest_wait :: "requeue list \<Rightarrow> requeue option" where
  "shortest_wait [] = None"
| "shortest_wait (r # rs) = (case shortest_wait rs of None \<Rightarrow> Some r | Some q \<Rightarrow> Some (shorter r q))"

definition all_waiting :: "err list \<Rightarrow> bool" where
  "all_waiting es \<longleftrightarrow> (\<forall>e \<in> set es. as_requeue e \<noteq> None)"

lemma all_waiting_simps [simp]:
  "all_waiting []"
  "all_waiting (e # es) \<longleftrightarrow> as_requeue e \<noteq> None \<and> all_waiting es"
  "all_waiting (es @ fs) \<longleftrightarrow> all_waiting es \<and> all_waiting fs"
  by (auto simp: all_waiting_def)

lemma as_requeue_Some [simp]: "as_requeue e = Some r \<longleftrightarrow> e = RequeueAfterError r"
  by (cases e) auto

lemma leaves_not_Nil [simp]: "leaves e \<noteq> []"
proof (induction e rule: leaves.induct)
  case (1 es)
  then show ?case by (cases es) auto
qed auto

lemma shorter_assoc: "shorter (shorter a b) c = shorter a (shorter b c)"
  by (auto simp: shorter_def)

lemma shortest_wait_None [simp]: "shortest_wait rs = None \<longleftrightarrow> rs = []"
  by (cases rs) (auto split: option.splits)

lemma shortest_wait_append:
  "shortest_wait (rs @ qs) =
     (case shortest_wait rs of
        None \<Rightarrow> shortest_wait qs
      | Some r \<Rightarrow> (case shortest_wait qs of None \<Rightarrow> Some r | Some q \<Rightarrow> Some (shorter r q)))"
  by (induction rs) (auto split: option.splits simp: shorter_assoc)

lemma shortest_wait_in: "shortest_wait rs = Some r \<Longrightarrow> r \<in> set rs"
  by (induction rs arbitrary: r) (auto split: option.splits if_splits simp: shorter_def)

lemma shortest_wait_least:
  "shortest_wait rs = Some r \<Longrightarrow> q \<in> set rs \<Longrightarrow>
    ClampRequeueAfter (rq_after r) \<le> ClampRequeueAfter (rq_after q)"
  by (induction rs arbitrary: r q) (fastforce split: option.splits if_splits simp: shorter_def)+

text \<open>What a tree reports, from its leaves: a wait exactly when every leaf waits.\<close>

fun waits :: "err list \<Rightarrow> requeue list" where
  "waits [] = []"
| "waits (e # es) = (case as_requeue e of Some r \<Rightarrow> r # waits es | None \<Rightarrow> waits es)"

lemma waits_append [simp]: "waits (es @ fs) = waits es @ waits fs"
  by (induction es) (auto split: option.splits)

lemma in_waits [simp]: "r \<in> set (waits es) \<longleftrightarrow> RequeueAfterError r \<in> set es"
proof (induction es)
  case (Cons e es)
  then show ?case by (cases "as_requeue e") auto
qed simp

lemma waits_eq_Nil: "all_waiting es \<Longrightarrow> waits es = [] \<longleftrightarrow> es = []"
  by (cases es) (auto split: option.splits)

lemma WaitingErrors_members_spec:
  "WaitingErrors e =
     (if all_waiting (leaves e) then shortest_wait (waits (leaves e)) else None)"
  "waiting_members s es =
     (if all_waiting (concat (map leaves es))
      then (case s of
              None \<Rightarrow> shortest_wait (waits (concat (map leaves es)))
            | Some r \<Rightarrow> shortest_wait (r # waits (concat (map leaves es))))
      else None)"
proof (induction e and s es rule: WaitingErrors_waiting_members.induct)
  case (8 s e es)
  show ?case
  proof (cases "all_waiting (leaves e)")
    case False
    with 8(1) show ?thesis by simp
  next
    case True
    then obtain m where m: "shortest_wait (waits (leaves e)) = Some m"
      using waits_eq_Nil [OF True] by fastforce
    from True 8(1) m have W: "WaitingErrors e = Some m" by simp
    show ?thesis
      using 8(2) [OF W] W True m
      by (auto split: option.splits simp: shortest_wait_append shorter_def)
  qed
qed (auto simp: all_waiting_def split: option.splits)

lemmas WaitingErrors_spec = WaitingErrors_members_spec(1)

lemma WaitingErrors_eq_None: "WaitingErrors e = None \<longleftrightarrow> \<not> all_waiting (leaves e)"
  by (simp add: WaitingErrors_spec waits_eq_Nil)

lemma leaves_NewExtensionError [simp]: "leaves (NewExtensionError n e) = leaves e"
  by (simp add: NewExtensionError_def)

lemma leaves_errors_join:
  "errors_join es = Some e \<Longrightarrow> leaves e = concat (map leaves es)"
  by (auto simp: errors_join_def split: if_splits)

lemma WaitingErrors_NewExtensionError [simp]:
  "WaitingErrors (NewExtensionError n e) = WaitingErrors e"
  by (simp add: NewExtensionError_def)

lemma ClampRequeueAfter_ge: "MinRequeueAfter \<le> ClampRequeueAfter d"
  by (simp add: ClampRequeueAfter_def MinRequeueAfter_def DefaultRequeueAfter_def second_def)

lemma ClampRequeueAfter_idem [simp]: "ClampRequeueAfter (ClampRequeueAfter d) = ClampRequeueAfter d"
  by (simp add: ClampRequeueAfter_def MinRequeueAfter_def DefaultRequeueAfter_def second_def)

lemma mergeWait_assoc: "mergeWait (mergeWait a b) c = mergeWait a (mergeWait b c)"
  by (auto simp: mergeWait_def split: option.splits)

section \<open>Properties\<close>

text \<open>
  C36. A failed pass is classified as waiting exactly when every leaf of its error tree is a
  \<open>RequeueAfterError\<close>: a genuine failure joined with, or wrapped around, waits is never reported as
  a wait.  The wait that is reported is one of the leaves, and no other leaf asks for a shorter
  (clamped) delay.
\<close>

theorem waiting_classification:
  "(WaitingErrors e \<noteq> None \<longleftrightarrow> (\<forall>l \<in> set (leaves e). \<exists>r. l = RequeueAfterError r)) \<and>
   (\<forall>r. WaitingErrors e = Some r \<longrightarrow>
      RequeueAfterError r \<in> set (leaves e) \<and>
      (\<forall>q. RequeueAfterError q \<in> set (leaves e) \<longrightarrow>
         ClampRequeueAfter (rq_after r) \<le> ClampRequeueAfter (rq_after q)))"
proof (intro conjI allI impI)
  show "WaitingErrors e \<noteq> None \<longleftrightarrow> (\<forall>l \<in> set (leaves e). \<exists>r. l = RequeueAfterError r)"
    by (auto simp: WaitingErrors_eq_None all_waiting_def)
next
  fix r assume "WaitingErrors e = Some r"
  then have r: "shortest_wait (waits (leaves e)) = Some r"
    by (simp add: WaitingErrors_spec split: if_splits)
  show "RequeueAfterError r \<in> set (leaves e)"
    using shortest_wait_in [OF r] by simp
  fix q assume "RequeueAfterError q \<in> set (leaves e)"
  then show "ClampRequeueAfter (rq_after r) \<le> ClampRequeueAfter (rq_after q)"
    using shortest_wait_least [OF r, of q] by simp
qed

theorem waiting_classification_witness:
  "WaitingErrors (Joined [Wrapped (ExtensionError ''a'')
       (Some (RequeueAfterError \<lparr>rq_after = 600 * second, rq_reason = ''Db'', rq_message = ''m''\<rparr>)),
     RequeueAfterError \<lparr>rq_after = 5 * second, rq_reason = ''Peer'', rq_message = ''p''\<rparr>])
   = Some \<lparr>rq_after = 5 * second, rq_reason = ''Peer'', rq_message = ''p''\<rparr> \<and>
   (5 * second :: int) \<le> 600 * second"
proof -
  let ?a = "\<lparr>rq_after = 600 * second, rq_reason = ''Db'', rq_message = ''m''\<rparr>"
  let ?b = "\<lparr>rq_after = 5 * second, rq_reason = ''Peer'', rq_message = ''p''\<rparr>"
  let ?e = "Joined [Wrapped (ExtensionError ''a'') (Some (RequeueAfterError ?a)), RequeueAfterError ?b]"
  have w: "WaitingErrors ?e = Some ?b"
    by (simp add: second_def ClampRequeueAfter_def MinRequeueAfter_def)
  with waiting_classification [of ?e]
  have "ClampRequeueAfter (rq_after ?b) \<le> ClampRequeueAfter (rq_after ?a)" by simp
  with w show ?thesis by (simp add: ClampRequeueAfter_def second_def MinRequeueAfter_def)
qed

text \<open>
  The waits a pass raises are merged into one whose delay is the shortest of their clamped
  delays and at least one second, so the requeue it asks for always happens (a non-positive
  \<open>RequeueAfter\<close> does not requeue), and its reason and message are never empty.
\<close>

theorem merged_wait_requeues:
  assumes "fold (\<lambda>w acc. mergeWait acc (newWaitState (Some w))) ws None = Some st"
  shows "MinRequeueAfter \<le> ws_after st \<and>
    ws_after st = Min ((\<lambda>w. ClampRequeueAfter (rq_after w)) ` set ws) \<and>
    ws_reason st \<noteq> [] \<and> ws_message st \<noteq> []"
  using assms
proof (induction ws arbitrary: st rule: rev_induct)
  case Nil
  then show ?case by simp
next
  case (snoc w ws)
  let ?acc = "fold (\<lambda>w acc. mergeWait acc (newWaitState (Some w))) ws None"
  obtain n where n: "newWaitState (Some w) = Some n"
      "ws_after n = ClampRequeueAfter (rq_after w)" "ws_reason n \<noteq> []" "ws_message n \<noteq> []"
    by (auto simp: newWaitState_def ReasonWaiting_def requeue_text_def)
  show ?case
  proof (cases ?acc)
    case None
    have "ws = []"
    proof (rule ccontr)
      assume "ws \<noteq> []"
      then obtain v vs where "ws = vs @ [v]" by (metis rev_exhaust)
      with None show False
        by (auto simp: mergeWait_def newWaitState_def split: option.splits if_splits)
    qed
    with snoc.prems n show ?thesis
      by (auto simp: mergeWait_def ClampRequeueAfter_ge)
  next
    case (Some a)
    with snoc.IH have a: "MinRequeueAfter \<le> ws_after a"
        "ws_after a = Min ((\<lambda>w. ClampRequeueAfter (rq_after w)) ` set ws)"
        "ws_reason a \<noteq> []" "ws_message a \<noteq> []"
      by blast+
    from Some have "ws \<noteq> []" by auto
    then have "Min ((\<lambda>w. ClampRequeueAfter (rq_after w)) ` set (ws @ [w])) =
        min (ClampRequeueAfter (rq_after w)) (ws_after a)"
      by (simp add: a(2))
    with snoc.prems n a Some show ?thesis
      by (auto simp: mergeWait_def ClampRequeueAfter_ge split: if_splits)
  qed
qed

theorem merged_wait_requeues_witness:
  "MinRequeueAfter \<le> ws_after \<lparr>ws_after = 1 * second, ws_reason = ''Waiting'', ws_message = ''m''\<rparr>"
proof -
  let ?ws = "[\<lparr>rq_after = 60 * second, rq_reason = ''Db'', rq_message = ''d''\<rparr>,
              \<lparr>rq_after = 3, rq_reason = [], rq_message = ''m''\<rparr>]"
  have "fold (\<lambda>w acc. mergeWait acc (newWaitState (Some w))) ?ws None =
      Some \<lparr>ws_after = 1 * second, ws_reason = ''Waiting'', ws_message = ''m''\<rparr>"
    by (simp add: mergeWait_def newWaitState_def ClampRequeueAfter_def MinRequeueAfter_def
        DefaultRequeueAfter_def second_def ReasonWaiting_def)
  from merged_wait_requeues [OF this] show ?thesis by blast
qed

end
