(* ===== verification/Extensions.thy ===== *)
theory Extensions
  imports Errors "HOL-Library.Word"
begin

text \<open>
  The extension registry, \<open>pkg/common/extension_registry.go\<close> with the priorities of
  \<open>pkg/common/extension.go\<close>: registration at three levels, the execution order, and the
  fault-tolerant hook loop \<open>executeHooks\<close>.

  An extension is product code, so it is a value of an arbitrary type; its \<open>Name()\<close> and its hooks
  are arguments.  A hook is a state transformer that may fail, \<open>'x \<Rightarrow> 's \<Rightarrow> err option \<times> 's\<close>, where the
  state is whatever the hooks can change.  The registry's mutex makes each operation atomic, so an
  operation is a function from registry to registry; logging is left out.
\<close>

section \<open>Entries and registration options\<close>

definition PriorityLowest :: int where "PriorityLowest = 0"
definition PriorityLow :: int where "PriorityLow = 25"
definition PriorityNormal :: int where "PriorityNormal = 50"
definition PriorityHigh :: int where "PriorityHigh = 75"
definition PriorityHighest :: int where "PriorityHighest = 100"

record 'x extension_entry =
  ext :: 'x
  priority :: int
  seq :: "64 word"
  stop_on_error :: "bool option"

definition stopsOnError :: "'x extension_entry \<Rightarrow> bool \<Rightarrow> bool" where
  "stopsOnError e hook_default =
     (case stop_on_error e of Some b \<Rightarrow> b | None \<Rightarrow> hook_default)"

record registration_options =
  opt_priority :: int
  opt_stop_on_error :: "bool option"

datatype registration_option = WithPriority int | WithStopOnError bool

fun apply_option :: "registration_option \<Rightarrow> registration_options \<Rightarrow> registration_options" where
  "apply_option (WithPriority p) o' = o'\<lparr>opt_priority := p\<rparr>"
| "apply_option (WithStopOnError b) o' = o'\<lparr>opt_stop_on_error := Some b\<rparr>"

definition options_of :: "registration_option list \<Rightarrow> registration_options" where
  "options_of opts =
     fold apply_option opts \<lparr>opt_priority = PriorityNormal, opt_stop_on_error = None\<rparr>"

definition new_entry :: "'x \<Rightarrow> 64 word \<Rightarrow> registration_option list \<Rightarrow> 'x extension_entry" where
  "new_entry x n opts =
     \<lparr>ext = x, priority = opt_priority (options_of opts), seq = n,
      stop_on_error = opt_stop_on_error (options_of opts)\<rparr>"

text \<open>
  \<open>sort.SliceStable\<close> with the comparator "higher priority first, then lower sequence number" is a
  stable sort by the pair of the negated priority and the sequence number.
\<close>

definition order_key :: "'x extension_entry \<Rightarrow> int \<times> 64 word" where
  "order_key e = (- priority e, seq e)"

definition addEntry ::
    "'x extension_entry list \<Rightarrow> 'x \<Rightarrow> 64 word \<Rightarrow> registration_option list \<Rightarrow> 'x extension_entry list"
  where
  "addEntry es x n opts = sort_key order_key (es @ [new_entry x n opts])"

definition extensionsOf :: "'x extension_entry list \<Rightarrow> 'x list" where
  "extensionsOf es = map ext es"

section \<open>The registry\<close>

record ('c, 'r, 'g) extension_registry =
  clusterExtensions :: "'c extension_entry list"
  roleExtensions :: "'r extension_entry list"
  roleGroupExtensions :: "'g extension_entry list"
  nextSeq :: "64 word"

definition NewExtensionRegistry :: "('c, 'r, 'g) extension_registry" where
  "NewExtensionRegistry =
     \<lparr>clusterExtensions = [], roleExtensions = [], roleGroupExtensions = [], nextSeq = 0\<rparr>"

definition takeSeq ::
    "('c, 'r, 'g) extension_registry \<Rightarrow> 64 word \<times> ('c, 'r, 'g) extension_registry" where
  "takeSeq r = (nextSeq r, r\<lparr>nextSeq := nextSeq r + 1\<rparr>)"

definition RegisterClusterExtension ::
    "('c, 'r, 'g) extension_registry \<Rightarrow> 'c \<Rightarrow> registration_option list
      \<Rightarrow> ('c, 'r, 'g) extension_registry" where
  "RegisterClusterExtension r x opts =
     (let (n, r') = takeSeq r
      in r'\<lparr>clusterExtensions := addEntry (clusterExtensions r') x n opts\<rparr>)"

definition RegisterRoleExtension ::
    "('c, 'r, 'g) extension_registry \<Rightarrow> 'r \<Rightarrow> registration_option list
      \<Rightarrow> ('c, 'r, 'g) extension_registry" where
  "RegisterRoleExtension r x opts =
     (let (n, r') = takeSeq r
      in r'\<lparr>roleExtensions := addEntry (roleExtensions r') x n opts\<rparr>)"

definition RegisterRoleGroupExtension ::
    "('c, 'r, 'g) extension_registry \<Rightarrow> 'g \<Rightarrow> registration_option list
      \<Rightarrow> ('c, 'r, 'g) extension_registry" where
  "RegisterRoleGroupExtension r x opts =
     (let (n, r') = takeSeq r
      in r'\<lparr>roleGroupExtensions := addEntry (roleGroupExtensions r') x n opts\<rparr>)"

definition GetClusterExtensions :: "('c, 'r, 'g) extension_registry \<Rightarrow> 'c list" where
  "GetClusterExtensions r = extensionsOf (clusterExtensions r)"

definition GetRoleExtensions :: "('c, 'r, 'g) extension_registry \<Rightarrow> 'r list" where
  "GetRoleExtensions r = extensionsOf (roleExtensions r)"

definition GetRoleGroupExtensions :: "('c, 'r, 'g) extension_registry \<Rightarrow> 'g list" where
  "GetRoleGroupExtensions r = extensionsOf (roleGroupExtensions r)"

definition HasClusterExtensions :: "('c, 'r, 'g) extension_registry \<Rightarrow> bool" where
  "HasClusterExtensions r \<longleftrightarrow> length (clusterExtensions r) > 0"

definition HasRoleExtensions :: "('c, 'r, 'g) extension_registry \<Rightarrow> bool" where
  "HasRoleExtensions r \<longleftrightarrow> length (roleExtensions r) > 0"

definition HasRoleGroupExtensions :: "('c, 'r, 'g) extension_registry \<Rightarrow> bool" where
  "HasRoleGroupExtensions r \<longleftrightarrow> length (roleGroupExtensions r) > 0"

definition Clear :: "('c, 'r, 'g) extension_registry \<Rightarrow> ('c, 'r, 'g) extension_registry" where
  "Clear r = r\<lparr>clusterExtensions := [], roleExtensions := [], roleGroupExtensions := [],
               nextSeq := 0\<rparr>"

definition Count :: "('c, 'r, 'g) extension_registry \<Rightarrow> nat" where
  "Count r = length (clusterExtensions r) + length (roleExtensions r)
             + length (roleGroupExtensions r)"

text \<open>Any sequence of registrations.\<close>

datatype ('c, 'r, 'g) reg_op =
    RegCluster 'c "registration_option list"
  | RegRole 'r "registration_option list"
  | RegRoleGroup 'g "registration_option list"

fun register :: "('c, 'r, 'g) reg_op \<Rightarrow> ('c, 'r, 'g) extension_registry
    \<Rightarrow> ('c, 'r, 'g) extension_registry" where
  "register (RegCluster x opts) r = RegisterClusterExtension r x opts"
| "register (RegRole x opts) r = RegisterRoleExtension r x opts"
| "register (RegRoleGroup x opts) r = RegisterRoleGroupExtension r x opts"

definition register_all :: "('c, 'r, 'g) reg_op list \<Rightarrow> ('c, 'r, 'g) extension_registry" where
  "register_all ops = fold register ops NewExtensionRegistry"

section \<open>Executing hooks\<close>

record hook_policy =
  policy_stopOnError :: bool
  policy_aggregate :: bool

definition reconcileHookPolicy :: hook_policy where
  "reconcileHookPolicy = \<lparr>policy_stopOnError = True, policy_aggregate = True\<rparr>"

definition errorHookPolicy :: hook_policy where
  "errorHookPolicy = \<lparr>policy_stopOnError = False, policy_aggregate = False\<rparr>"

type_synonym ('x, 's) hook = "'x \<Rightarrow> 's \<Rightarrow> err option \<times> 's"

text \<open>The loop of \<open>executeHooks\<close>; \<open>errs\<close> is the slice of collected errors.\<close>

fun hook_loop :: "('x \<Rightarrow> string) \<Rightarrow> hook_policy \<Rightarrow> ('x, 's) hook \<Rightarrow> err list
    \<Rightarrow> 'x extension_entry list \<Rightarrow> 's \<Rightarrow> err option \<times> 's" where
  "hook_loop nm policy hook errs [] s = (errors_join errs, s)"
| "hook_loop nm policy hook errs (entry # rest) s =
     (case hook (ext entry) s of
        (None, s') \<Rightarrow> hook_loop nm policy hook errs rest s'
      | (Some e, s') \<Rightarrow>
          (let extensionErr = NewExtensionError (nm (ext entry)) e in
           if WaitingErrors e \<noteq> None
           then hook_loop nm policy hook (errs @ [extensionErr]) rest s'
           else if stopsOnError entry (policy_stopOnError policy)
           then (if errs = [] then (Some extensionErr, s')
                 else (errors_join (errs @ [extensionErr]), s'))
           else hook_loop nm policy hook
                  (if policy_aggregate policy then errs @ [extensionErr] else errs) rest s'))"

definition executeHooks :: "('x \<Rightarrow> string) \<Rightarrow> 'x extension_entry list \<Rightarrow> hook_policy
    \<Rightarrow> ('x, 's) hook \<Rightarrow> 's \<Rightarrow> err option \<times> 's" where
  "executeHooks nm es policy hook s = hook_loop nm policy hook [] es s"

definition ExecuteClusterHook ::
    "('c \<Rightarrow> string) \<Rightarrow> ('c, 'r, 'g) extension_registry \<Rightarrow> ('c, 's) hook \<Rightarrow> 's \<Rightarrow> err option \<times> 's" where
  "ExecuteClusterHook nm r hook s = executeHooks nm (clusterExtensions r) reconcileHookPolicy hook s"

definition ExecuteClusterOnError ::
    "('c \<Rightarrow> string) \<Rightarrow> ('c, 'r, 'g) extension_registry \<Rightarrow> ('c, 's) hook \<Rightarrow> 's \<Rightarrow> err option \<times> 's" where
  "ExecuteClusterOnError nm r hook s = executeHooks nm (clusterExtensions r) errorHookPolicy hook s"

definition ExecuteRoleHook ::
    "('r \<Rightarrow> string) \<Rightarrow> ('c, 'r, 'g) extension_registry \<Rightarrow> ('r, 's) hook \<Rightarrow> 's \<Rightarrow> err option \<times> 's" where
  "ExecuteRoleHook nm r hook s = executeHooks nm (roleExtensions r) reconcileHookPolicy hook s"

definition ExecuteRoleGroupHook ::
    "('g \<Rightarrow> string) \<Rightarrow> ('c, 'r, 'g) extension_registry \<Rightarrow> ('g, 's) hook \<Rightarrow> 's \<Rightarrow> err option \<times> 's" where
  "ExecuteRoleGroupHook nm r hook s =
     executeHooks nm (roleGroupExtensions r) reconcileHookPolicy hook s"

section \<open>The execution order\<close>

text \<open>
  The three levels of the registry share one contract: a registration at the level adds an entry
  with the next sequence number, a registration at another level leaves the level's entries alone,
  and each takes one sequence number.  \<open>mine\<close> selects the operations of the level.
\<close>

definition sorted_entries :: "'x extension_entry list \<Rightarrow> bool" where
  "sorted_entries es \<longleftrightarrow> sorted (map order_key es)"

fun built :: "('op \<Rightarrow> ('x \<times> registration_option list) option) \<Rightarrow> 64 word \<Rightarrow> 'op list
    \<Rightarrow> 'x extension_entry list" where
  "built mine n [] = []"
| "built mine n (o' # ops) =
     (case mine o' of
        Some (x, opts) \<Rightarrow> new_entry x n opts # built mine (n + 1) ops
      | None \<Rightarrow> built mine (n + 1) ops)"

lemma built_append:
  "built mine n (ops @ ops') = built mine n ops @ built mine (n + of_nat (length ops)) ops'"
  by (induction ops arbitrary: n) (auto split: option.splits simp: algebra_simps)


lemma built_seq:
  "e \<in> set (built mine n ops) \<Longrightarrow> unat n + length ops \<le> 2 ^ 64 \<Longrightarrow>
    unat n \<le> unat (seq e) \<and> unat (seq e) < unat n + length ops"
proof (induction ops arbitrary: n)
  case Nil
  then show ?case by simp
next
  case (Cons o' ops)
  show ?case
  proof (cases "ops = []")
    case True
    with Cons.prems show ?thesis by (auto simp: new_entry_def split: option.splits)
  next
    case False
    with Cons.prems(2) have "unat n + 1 < 2 ^ 64" by (cases ops) auto
    then have n1: "unat (n + 1) = unat n + 1"
      by (simp add: unat_word_ariths)
    with Cons show ?thesis
      by (fastforce simp: new_entry_def split: option.splits)
  qed
qed

lemma built_sorted_seq:
  "unat n + length ops \<le> 2 ^ 64 \<Longrightarrow> sorted_wrt (\<lambda>a b. seq a < seq b) (built mine n ops)"
proof (induction ops arbitrary: n)
  case Nil
  then show ?case by simp
next
  case (Cons o' ops)
  show ?case
  proof (cases "ops = []")
    case True
    then show ?thesis by (auto split: option.splits)
  next
    case False
    with Cons.prems have "unat n + 1 < 2 ^ 64" by (cases ops) auto
    then have n1: "unat (n + 1) = unat n + 1"
      by (simp add: unat_word_ariths)
    have "n < seq e" if "e \<in> set (built mine (n + 1) ops)" for e
      using built_seq [OF that] Cons.prems n1 by (simp add: word_less_nat_alt)
    with Cons n1 show ?thesis by (auto simp: new_entry_def split: option.splits)
  qed
qed

text \<open>
  Sorting by priority and sequence number orders entries with increasing sequence numbers as the
  stable sort by priority alone.
\<close>

lemma sort_order_key_stable:
  assumes "sorted_wrt (\<lambda>a b. seq a < seq b) es"
  shows "sort_key order_key es = sort_key (\<lambda>e. - priority e) es"
proof (rule properties_for_sort_key [symmetric])
  show "mset (sort_key order_key es) = mset es" by simp
  have "sorted (map order_key (sort_key order_key es))" by simp
  then show "sorted (map (\<lambda>e. - priority e) (sort_key order_key es))"
    by (fastforce simp: sorted_wrt_map order_key_def less_eq_prod_def elim: sorted_wrt_mono_rel [rotated])
next
  fix e assume "e \<in> set (sort_key order_key es)"
  let ?same = "filter (\<lambda>x. - priority e = - priority x)"
  have "?same (sort_key order_key es) = sort_key order_key (?same es)"
    by (simp add: filter_sort)
  moreover have "sorted_wrt (\<lambda>a b. order_key a \<le> order_key b) (?same es)"
  proof -
    from assms have "sorted_wrt (\<lambda>a b. seq a < seq b) (?same es)"
      by (rule sorted_wrt_filter)
    then show ?thesis
      by (rule sorted_wrt_mono_rel [rotated])
        (auto simp: order_key_def less_eq_prod_def)
  qed
  ultimately show "?same (sort_key order_key es) = ?same es"
    by (simp add: sort_key_id_if_sorted sorted_wrt_map)
qed

locale extension_level =
  fixes apply_op :: "'op \<Rightarrow> 'reg \<Rightarrow> 'reg"
    and new_registry :: 'reg
    and level_entries :: "'reg \<Rightarrow> 'x extension_entry list"
    and next_seq :: "'reg \<Rightarrow> 64 word"
    and mine :: "'op \<Rightarrow> ('x \<times> registration_option list) option"
  assumes new_entries: "level_entries new_registry = []"
    and new_seq: "next_seq new_registry = 0"
    and apply_mine: "mine op' = Some (x, opts) \<Longrightarrow>
      level_entries (apply_op op' r) = addEntry (level_entries r) x (next_seq r) opts"
    and apply_other: "mine op' = None \<Longrightarrow> level_entries (apply_op op' r) = level_entries r"
    and apply_seq: "next_seq (apply_op op' r) = next_seq r + 1"
begin

lemma run_seq: "next_seq (fold apply_op ops new_registry) = of_nat (length ops)"
  by (induction ops rule: rev_induct) (auto simp: new_seq apply_seq)

lemma run_entries:
  "level_entries (fold apply_op ops new_registry) = sort_key order_key (built mine 0 ops)"
proof (induction ops rule: rev_induct)
  case Nil
  then show ?case by (simp add: new_entries)
next
  case (snoc o' ops)
  then show ?case
    by (cases "mine o'")
      (auto simp: built_append apply_mine apply_other addEntry_def sort_key_snoc run_seq)
qed

lemma run_sorted: "sorted_entries (level_entries (fold apply_op ops new_registry))"
  by (simp add: run_entries sorted_entries_def)

lemma run_length:
  "length (level_entries (fold apply_op ops new_registry)) = length (List.map_filter mine ops)"
proof -
  have "length (built mine n ops) = length (List.map_filter mine ops)" for n
    by (induction ops arbitrary: n) (auto simp: List.map_filter_def split: option.splits)
  then show ?thesis by (simp add: run_entries)
qed

lemma run_order:
  assumes "length ops \<le> 2 ^ 64"
  shows "extensionsOf (level_entries (fold apply_op ops new_registry)) =
    map fst (sort_key (\<lambda>(x, opts). - opt_priority (options_of opts)) (List.map_filter mine ops))"
proof -
  let ?b = "built mine 0 ops"
  have "map (\<lambda>e. (ext e, - priority e)) (built mine n ops) =
      map (\<lambda>(x, opts). (x, - opt_priority (options_of opts))) (List.map_filter mine ops)" for n
    by (induction ops arbitrary: n)
      (auto simp: List.map_filter_def new_entry_def split: option.splits)
  then have eq: "map (\<lambda>e. (ext e, - priority e)) ?b =
      map (\<lambda>(x, opts). (x, - opt_priority (options_of opts))) (List.map_filter mine ops)" .
  have "sort_key order_key ?b = sort_key (\<lambda>e. - priority e) ?b"
    using assms by (intro sort_order_key_stable built_sorted_seq) simp
  then have "extensionsOf (level_entries (fold apply_op ops new_registry)) =
      map fst (sort_key snd (map (\<lambda>e. (ext e, - priority e)) ?b))"
    by (simp add: run_entries extensionsOf_def sort_key_map comp_def)
  also have "\<dots> = map fst (sort_key (\<lambda>(x, opts). - opt_priority (options_of opts))
      (List.map_filter mine ops))"
    by (simp add: eq sort_key_map comp_def case_prod_unfold)
  finally show ?thesis .
qed

end

fun cluster_op :: "('c, 'r, 'g) reg_op \<Rightarrow> ('c \<times> registration_option list) option" where
  "cluster_op (RegCluster x opts) = Some (x, opts)"
| "cluster_op _ = None"

fun role_op :: "('c, 'r, 'g) reg_op \<Rightarrow> ('r \<times> registration_option list) option" where
  "role_op (RegRole x opts) = Some (x, opts)"
| "role_op _ = None"

fun role_group_op :: "('c, 'r, 'g) reg_op \<Rightarrow> ('g \<times> registration_option list) option" where
  "role_group_op (RegRoleGroup x opts) = Some (x, opts)"
| "role_group_op _ = None"

lemmas register_defs = RegisterClusterExtension_def RegisterRoleExtension_def
  RegisterRoleGroupExtension_def takeSeq_def NewExtensionRegistry_def

interpretation cluster_level: extension_level register NewExtensionRegistry clusterExtensions
    nextSeq cluster_op
proof (unfold_locales, goal_cases)
  case (3 op' x opts r)
  then show ?case by (cases op') (auto simp: register_defs)
next
  case (4 op' r)
  then show ?case by (cases op') (auto simp: register_defs)
next
  case (5 op' r)
  then show ?case by (cases op') (auto simp: register_defs)
qed (simp_all add: NewExtensionRegistry_def)

interpretation role_level: extension_level register NewExtensionRegistry roleExtensions
    nextSeq role_op
proof (unfold_locales, goal_cases)
  case (3 op' x opts r)
  then show ?case by (cases op') (auto simp: register_defs)
next
  case (4 op' r)
  then show ?case by (cases op') (auto simp: register_defs)
next
  case (5 op' r)
  then show ?case by (cases op') (auto simp: register_defs)
qed (simp_all add: NewExtensionRegistry_def)

interpretation role_group_level: extension_level register NewExtensionRegistry roleGroupExtensions
    nextSeq role_group_op
proof (unfold_locales, goal_cases)
  case (3 op' x opts r)
  then show ?case by (cases op') (auto simp: register_defs)
next
  case (4 op' r)
  then show ?case by (cases op') (auto simp: register_defs)
next
  case (5 op' r)
  then show ?case by (cases op') (auto simp: register_defs)
qed (simp_all add: NewExtensionRegistry_def)

lemma register_all_counts: "Count (register_all ops) = length ops"
proof -
  have "length (List.map_filter cluster_op ops) + length (List.map_filter role_op ops)
      + length (List.map_filter role_group_op ops) = length ops"
  proof (induction ops)
    case (Cons o' ops)
    then show ?case by (cases o') (auto simp: List.map_filter_def)
  qed (simp add: List.map_filter_def)
  then show ?thesis
    by (simp add: Count_def register_all_def cluster_level.run_length role_level.run_length
        role_group_level.run_length)
qed

section \<open>What a hook run does\<close>

text \<open>
  The specification of \<open>executeHooks\<close>: call the hooks one after the other (\<open>outcomes\<close>), cut the
  run after the first outcome that stops it (\<open>executed\<close>), and report the failures of what was
  run (\<open>reported\<close>).
\<close>

type_synonym ('x, 's) outcome = "'x extension_entry \<times> err option \<times> 's"

fun outcomes :: "('x, 's) hook \<Rightarrow> 'x extension_entry list \<Rightarrow> 's \<Rightarrow> ('x, 's) outcome list" where
  "outcomes hook [] s = []"
| "outcomes hook (e # es) s =
     (let (r, s') = hook (ext e) s in (e, r, s') # outcomes hook es s')"

fun stops :: "hook_policy \<Rightarrow> ('x, 's) outcome \<Rightarrow> bool" where
  "stops policy (e, None, s) = False"
| "stops policy (e, Some err, s) =
     (WaitingErrors err = None \<and> stopsOnError e (policy_stopOnError policy))"

fun take_until :: "('a \<Rightarrow> bool) \<Rightarrow> 'a list \<Rightarrow> 'a list" where
  "take_until p [] = []"
| "take_until p (x # xs) = x # (if p x then [] else take_until p xs)"

definition executed :: "hook_policy \<Rightarrow> ('x, 's) hook \<Rightarrow> 'x extension_entry list \<Rightarrow> 's
    \<Rightarrow> ('x, 's) outcome list" where
  "executed policy hook es s = take_until (stops policy) (outcomes hook es s)"

fun reported :: "('x \<Rightarrow> string) \<Rightarrow> hook_policy \<Rightarrow> ('x, 's) outcome \<Rightarrow> err list" where
  "reported nm policy (e, None, s) = []"
| "reported nm policy (e, Some err, s) =
     (if WaitingErrors err \<noteq> None \<or> policy_aggregate policy
         \<or> stopsOnError e (policy_stopOnError policy)
      then [NewExtensionError (nm (ext e)) err] else [])"

lemma executed_simps [simp]:
  "executed policy hook [] s = []"
  "executed policy hook (e # es) s =
     (let (r, s') = hook (ext e) s
      in (e, r, s') # (if stops policy (e, r, s') then [] else executed policy hook es s'))"
  by (simp_all add: executed_def Let_def split: prod.splits)

definition final_state :: "('x, 's) outcome list \<Rightarrow> 's \<Rightarrow> 's" where
  "final_state os s = (if os = [] then s else snd (snd (last os)))"

lemma final_state_Cons [simp]: "final_state ((e, r, s') # os) s = final_state os s'"
  by (simp add: final_state_def)

lemma final_state_Nil [simp]: "final_state [] s = s"
  by (simp add: final_state_def)

lemma hook_loop_state:
  "snd (hook_loop nm policy hook errs es s) = final_state (executed policy hook es s) s"
proof (induction es arbitrary: errs s)
  case Nil
  then show ?case by simp
next
  case (Cons e es)
  obtain r s' where "hook (ext e) s = (r, s')" by (cases "hook (ext e) s")
  with Cons.IH show ?case by (cases r) (auto simp: Let_def)
qed

text \<open>The error of the loop, up to the one-element join: the errors it carries are those reported.\<close>

definition carries :: "err option \<Rightarrow> err list \<Rightarrow> bool" where
  "carries r es \<longleftrightarrow> r = errors_join es \<or> (\<exists>e. es = [e] \<and> r = Some e)"

lemma hook_loop_error:
  "carries (fst (hook_loop nm policy hook errs es s))
     (errs @ concat (map (reported nm policy) (executed policy hook es s)))"
proof (induction es arbitrary: errs s)
  case Nil
  then show ?case by (simp add: carries_def)
next
  case (Cons e es)
  obtain r s' where h: "hook (ext e) s = (r, s')" by (cases "hook (ext e) s")
  show ?case
  proof (cases r)
    case None
    with Cons.IH h show ?thesis by simp
  next
    case (Some err)
    let ?x = "NewExtensionError (nm (ext e)) err"
    consider (wait) "WaitingErrors err \<noteq> None"
      | (stop) "WaitingErrors err = None" "stopsOnError e (policy_stopOnError policy)"
      | (go) "WaitingErrors err = None" "\<not> stopsOnError e (policy_stopOnError policy)"
      by blast
    then show ?thesis
    proof cases
      case wait
      with Cons.IH [of "errs @ [?x]" s'] h Some show ?thesis by (auto simp: Let_def)
    next
      case stop
      with h Some show ?thesis by (auto simp: Let_def carries_def)
    next
      case go
      with Cons.IH [of "errs @ [?x]" s'] Cons.IH [of errs s'] h Some
      show ?thesis by (auto simp: Let_def)
    qed
  qed
qed

lemma carries_None [simp]: "carries None es \<longleftrightarrow> es = []"
  by (auto simp: carries_def errors_join_def)

lemma carries_nil: "carries r es \<Longrightarrow> r = None \<longleftrightarrow> es = []"
  by (auto simp: carries_def errors_join_def split: if_splits)

lemma all_waiting_concat: "all_waiting (concat xss) \<longleftrightarrow> (\<forall>xs \<in> set xss. all_waiting xs)"
  by (induction xss) auto

lemma carries_leaves: "carries (Some e) es \<Longrightarrow> es \<noteq> [] \<and> leaves e = concat (map leaves es)"
  by (auto simp: carries_def errors_join_def split: if_splits)

lemma executeHooks_carries:
  "carries (fst (executeHooks nm es policy hook s))
     (concat (map (reported nm policy) (executed policy hook es s)))"
  using hook_loop_error [of nm policy hook "[]" es s] by (simp add: executeHooks_def)

lemma take_until_all: "(\<And>x. x \<in> set xs \<Longrightarrow> \<not> p x) \<Longrightarrow> take_until p xs = xs"
  by (induction xs) auto

lemma take_until_prefix: "\<exists>ys. xs = take_until p xs @ ys"
  by (induction xs) auto

lemma take_until_complete:
  "\<forall>x \<in> set (take_until p xs). \<not> p x \<Longrightarrow> take_until p xs = xs"
  by (induction xs) (auto split: if_splits)

lemma executed_complete:
  "\<forall>x \<in> set (executed policy hook es s). \<not> stops policy x \<Longrightarrow>
    executed policy hook es s = outcomes hook es s"
  unfolding executed_def by (rule take_until_complete)

lemma outcomes_entries [simp]: "map fst (outcomes hook es s) = es"
  by (induction es arbitrary: s) (auto simp: Let_def split: prod.splits)

lemma length_outcomes [simp]: "length (outcomes hook es s) = length es"
  by (metis length_map outcomes_entries)

text \<open>A failed outcome and its error.\<close>

fun failure :: "('x, 's) outcome \<Rightarrow> err option" where
  "failure (e, r, s) = r"

lemma concat_reported_aggregate:
  "policy_aggregate policy \<Longrightarrow>
    concat (map (leaves) (concat (map (reported nm policy) os))) =
    concat (map leaves (List.map_filter failure os))"
proof (induction os)
  case (Cons o' os)
  then show ?case by (cases o' rule: failure.cases; cases "failure o'") (auto simp: List.map_filter_def)
qed (simp add: List.map_filter_def)

lemma reported_Nil_aggregate:
  "policy_aggregate policy \<Longrightarrow>
    concat (map (reported nm policy) os) = [] \<longleftrightarrow> (\<forall>x \<in> set os. failure x = None)"
proof (induction os)
  case (Cons o' os)
  then show ?case by (cases o' rule: failure.cases; cases "failure o'") auto
qed simp

lemma wait_only_failures:
  assumes "policy_aggregate policy" and "fst (executeHooks nm es policy hook s) = Some e"
  shows "all_waiting (leaves e) \<longleftrightarrow>
    (\<forall>x \<in> set (executed policy hook es s). \<forall>err. failure x = Some err \<longrightarrow> WaitingErrors err \<noteq> None)"
proof -
  let ?ex = "executed policy hook es s"
  have "leaves e = concat (map leaves (List.map_filter failure ?ex))"
    using executeHooks_carries [of nm es policy hook s] assms
    by (auto dest!: carries_leaves simp flip: concat_reported_aggregate [of policy nm])
  then show ?thesis
    by (simp add: all_waiting_concat WaitingErrors_eq_None ball_map_filter)
qed

lemma waiting_failures_run_all:
  assumes "\<forall>x \<in> set (executed policy hook es s). \<forall>err. failure x = Some err \<longrightarrow> WaitingErrors err \<noteq> None"
  shows "executed policy hook es s = outcomes hook es s"
proof (rule executed_complete, rule ballI)
  fix x assume "x \<in> set (executed policy hook es s)"
  with assms show "\<not> stops policy x" by (cases x rule: failure.cases; cases "failure x") auto
qed

section \<open>Properties\<close>

text \<open>
  C35. Whatever the order in which extensions of the three levels are registered, each level
  executes its own extensions from highest to lowest priority and, at equal priority, in
  registration order (at most \<open>2 ^ 64\<close> registrations, so the sequence numbers do not wrap).
\<close>

theorem execution_order:
  assumes "length ops \<le> 2 ^ 64"
  shows "GetClusterExtensions (register_all ops) =
      map fst (sort_key (\<lambda>(x, opts). - opt_priority (options_of opts)) (List.map_filter cluster_op ops)) \<and>
    GetRoleExtensions (register_all ops) =
      map fst (sort_key (\<lambda>(x, opts). - opt_priority (options_of opts)) (List.map_filter role_op ops)) \<and>
    GetRoleGroupExtensions (register_all ops) =
      map fst (sort_key (\<lambda>(x, opts). - opt_priority (options_of opts)) (List.map_filter role_group_op ops))"
  using cluster_level.run_order [OF assms] role_level.run_order [OF assms]
    role_group_level.run_order [OF assms]
  by (simp add: GetClusterExtensions_def GetRoleExtensions_def GetRoleGroupExtensions_def
      register_all_def)

theorem execution_order_witness:
  "GetClusterExtensions (register_all
     [RegCluster ''a'' [], RegRole ''r'' [], RegCluster ''b'' [WithPriority 75],
      RegRoleGroup ''g'' [], RegCluster ''c'' [WithStopOnError False]]) = [''b'', ''a'', ''c'']"
proof -
  let ?ops = "[RegCluster ''a'' [], RegRole ''r'' [], RegCluster ''b'' [WithPriority 75],
      RegRoleGroup ''g'' [], RegCluster ''c'' [WithStopOnError False]]"
  have "length ?ops \<le> 2 ^ 64" by simp
  from conjunct1 [OF execution_order [OF this]] show ?thesis
    by (simp add: List.map_filter_def options_of_def PriorityNormal_def)
qed

text \<open>
  \<open>executeHooks\<close> calls the hooks in order, each on the state its predecessor left, and stops
  after the first failure that is not a wait and whose (possibly overridden) setting stops; the
  error it returns carries, in order and each wrapped with its extension's name, the failures of
  the hooks that ran, and is nil exactly when it carries none.
\<close>

theorem executeHooks_run:
  "snd (executeHooks nm es policy hook s) = final_state (executed policy hook es s) s \<and>
   carries (fst (executeHooks nm es policy hook s))
     (concat (map (reported nm policy) (executed policy hook es s))) \<and>
   (fst (executeHooks nm es policy hook s) = None \<longleftrightarrow>
     (\<forall>x \<in> set (executed policy hook es s). reported nm policy x = []))"
proof -
  have "fst (executeHooks nm es policy hook s) = None \<longleftrightarrow>
      concat (map (reported nm policy) (executed policy hook es s)) = []"
    by (rule carries_nil [OF executeHooks_carries])
  then show ?thesis
    using executeHooks_carries [of nm es policy hook s]
    by (simp add: executeHooks_def hook_loop_state)
qed

theorem executeHooks_run_witness:
  "executeHooks id [\<lparr>ext = ''a'', priority = 50, seq = 0, stop_on_error = Some False\<rparr>,
      \<lparr>ext = ''b'', priority = 50, seq = 1, stop_on_error = None\<rparr>,
      \<lparr>ext = ''c'', priority = 50, seq = 2, stop_on_error = None\<rparr>]
     reconcileHookPolicy (\<lambda>x tr. (Some (PlainError x), tr @ [x])) [] =
   (Some (Joined [NewExtensionError ''a'' (PlainError ''a''), NewExtensionError ''b'' (PlainError ''b'')]),
    [''a'', ''b'']) \<and>
   snd (executeHooks id [] reconcileHookPolicy (\<lambda>x tr. (Some (PlainError x), tr @ [x])) []) = []"
  using executeHooks_run [of id "[]" reconcileHookPolicy "\<lambda>x tr. (Some (PlainError x), tr @ [x])" "[]"]
  by (simp add: executeHooks_def reconcileHookPolicy_def stopsOnError_def errors_join_def)

text \<open>
  Under the policy of the \<open>PreReconcile\<close> and \<open>PostReconcile\<close> hooks the run reports success
  exactly when every hook succeeded, and reports a wait exactly when every hook was called, at
  least one failed, and every failure was itself a wait: waiting extensions do not hide their
  siblings, and a failure is never laundered into a wait.
\<close>

theorem reconcile_hooks_classification:
  "(fst (executeHooks nm es reconcileHookPolicy hook s) = None \<longleftrightarrow>
     (\<forall>x \<in> set (outcomes hook es s). failure x = None)) \<and>
   ((\<exists>e. fst (executeHooks nm es reconcileHookPolicy hook s) = Some e \<and> WaitingErrors e \<noteq> None) \<longleftrightarrow>
     (\<exists>x \<in> set (outcomes hook es s). failure x \<noteq> None) \<and>
     (\<forall>x \<in> set (outcomes hook es s). \<forall>err. failure x = Some err \<longrightarrow> WaitingErrors err \<noteq> None))"
proof -
  let ?p = reconcileHookPolicy
  let ?r = "fst (executeHooks nm es ?p hook s)"
  let ?ex = "executed ?p hook es s"
  have agg: "policy_aggregate ?p" by (simp add: reconcileHookPolicy_def)
  have sub: "set ?ex \<subseteq> set (outcomes hook es s)"
    using take_until_prefix [of "outcomes hook es s" "stops ?p"]
    by (metis executed_def set_append sup_ge1)
  have nil: "?r = None \<longleftrightarrow> (\<forall>x \<in> set ?ex. failure x = None)"
    using carries_nil [OF executeHooks_carries [of nm es ?p hook s]]
      reported_Nil_aggregate [OF agg, of nm ?ex] by simp
  have all: "(\<forall>x \<in> set ?ex. \<forall>err. failure x = Some err \<longrightarrow> WaitingErrors err \<noteq> None) \<longleftrightarrow>
      (\<forall>x \<in> set (outcomes hook es s). \<forall>err. failure x = Some err \<longrightarrow> WaitingErrors err \<noteq> None)"
    using waiting_failures_run_all [of ?p hook es s] sub by auto
  have "?r = None \<longleftrightarrow> (\<forall>x \<in> set (outcomes hook es s). failure x = None)"
    using nil sub waiting_failures_run_all [of ?p hook es s] by fastforce
  moreover have "(\<exists>e. ?r = Some e \<and> WaitingErrors e \<noteq> None) \<longleftrightarrow> ?r \<noteq> None \<and>
      (\<forall>x \<in> set ?ex. \<forall>err. failure x = Some err \<longrightarrow> WaitingErrors err \<noteq> None)"
    using wait_only_failures [OF agg, of nm es hook s] by (auto simp: WaitingErrors_eq_None)
  moreover have "(\<exists>x \<in> set (outcomes hook es s). failure x \<noteq> None) \<longleftrightarrow>
      \<not> (\<forall>x \<in> set (outcomes hook es s). failure x = None)"
    by simp
  ultimately show ?thesis using all by argo
qed

theorem reconcile_hooks_classification_witness:
  "fst (executeHooks id [\<lparr>ext = ''a'', priority = 50, seq = 0, stop_on_error = None\<rparr>]
     reconcileHookPolicy (\<lambda>x s. (None, s)) ()) = None"
  using reconcile_hooks_classification [of id "[\<lparr>ext = ''a'', priority = 50, seq = 0, stop_on_error = None\<rparr>]"
      "\<lambda>x s. (None, s)" "()"]
  by simp

text \<open>
  An \<open>OnReconcileError\<close> pass calls every handler that did not opt into stopping, whatever the
  others return, and returns nil or a wait: a broken handler never replaces the original error.
\<close>

theorem error_handlers_all_run:
  assumes "\<forall>e \<in> set (clusterExtensions r). stop_on_error e \<noteq> Some True"
  shows "snd (ExecuteClusterOnError nm r hook s) =
      final_state (outcomes hook (clusterExtensions r) s) s \<and>
    (\<forall>e. fst (ExecuteClusterOnError nm r hook s) = Some e \<longrightarrow> WaitingErrors e \<noteq> None)"
proof -
  let ?p = errorHookPolicy
  let ?es = "clusterExtensions r"
  have tolerant: "\<not> stopsOnError e False" if "e \<in> set ?es" for e
    using assms that by (auto simp: stopsOnError_def split: option.splits)
  have no_stop: "\<not> stops ?p x" if "x \<in> set (outcomes hook ?es s)" for x
  proof -
    from that have "fst x \<in> set (map fst (outcomes hook ?es s))" by (metis imageI set_map)
    then have "fst x \<in> set ?es" by simp
    with tolerant show ?thesis
      by (cases x rule: failure.cases; cases "failure x") (auto simp: errorHookPolicy_def)
  qed
  then have ex: "executed ?p hook ?es s = outcomes hook ?es s"
    by (simp add: executed_def take_until_all)
  have "WaitingErrors e \<noteq> None" if "fst (ExecuteClusterOnError nm r hook s) = Some e" for e
  proof -
    let ?rep = "concat (map (reported nm ?p) (outcomes hook ?es s))"
    have "leaves e = concat (map leaves ?rep)"
      using executeHooks_carries [of nm ?es ?p hook s] that ex
      by (auto simp: ExecuteClusterOnError_def dest: carries_leaves)
    moreover have "WaitingErrors y \<noteq> None" if "y \<in> set ?rep" for y
    proof -
      from that obtain x where x: "x \<in> set (outcomes hook ?es s)" "y \<in> set (reported nm ?p x)"
        by auto
      from x(2) no_stop [OF x(1)] show ?thesis
        by (cases x rule: failure.cases; cases "failure x")
          (auto simp: errorHookPolicy_def split: if_splits)
    qed
    ultimately show ?thesis
      by (auto simp: WaitingErrors_eq_None all_waiting_def)
  qed
  then show ?thesis
    by (simp add: ExecuteClusterOnError_def executeHooks_def hook_loop_state ex)
qed

theorem error_handlers_all_run_witness:
  "snd (ExecuteClusterOnError id (register_all
       [RegCluster ''a'' [], RegCluster ''b'' [WithStopOnError False]] ::
       (string, unit, unit) extension_registry)
     (\<lambda>x tr. (Some (PlainError x), tr @ [x])) []) = [''a'', ''b'']"
proof -
  let ?r = "register_all [RegCluster ''a'' [], RegCluster ''b'' [WithStopOnError False]] ::
    (string, unit, unit) extension_registry"
  have es: "clusterExtensions ?r =
      [\<lparr>ext = ''a'', priority = 50, seq = 0, stop_on_error = None\<rparr>,
       \<lparr>ext = ''b'', priority = 50, seq = 1, stop_on_error = Some False\<rparr>]"
    by (simp add: register_all_def register_defs addEntry_def new_entry_def options_of_def
        PriorityNormal_def order_key_def less_eq_prod_def)
  then have "\<forall>e \<in> set (clusterExtensions ?r). stop_on_error e \<noteq> Some True" by simp
  from conjunct1 [OF error_handlers_all_run [OF this,
      of id "\<lambda>x tr. (Some (PlainError x), tr @ [x])" "[]"]]
  show ?thesis by (simp add: es final_state_def)
qed

end
