(* ===== verification/ClusterSpec.thy ===== *)
theory ClusterSpec
  imports Prelude
begin

text \<open>
  The API types of \<open>pkg/apis/commons/v1alpha1\<close> that the framework folds and traverses: cluster,
  role and role group specs, the flattened overrides, the workload config block with its
  resources and logging, and the disruption budget.

  A pointer field is an option.  The nil-ness of the four override fields is observable
  (\<open>GetOverrides\<close>), so they are options of maps and lists.  A \<open>resource.Quantity\<close> is only copied by
  the modelled code and is represented by its literal; a \<open>RawExtension\<close> is its raw JSON text.
\<close>

type_synonym quantity = string
type_synonym raw_extension = "string option"

definition DefaultStorageCapacity :: quantity where
  "DefaultStorageCapacity = ''10Gi''"

definition DefaultGracefulShutdownTimeout :: string where
  "DefaultGracefulShutdownTimeout = ''30s''"

record cpu_resource =
  cpu_max :: "quantity option"
  cpu_min :: "quantity option"

record memory_resource =
  memory_limit :: "quantity option"

record storage_resource =
  storage_capacity :: "quantity option"
  storage_class :: "string option"

record resources_spec =
  res_cpu :: "cpu_resource option"
  res_memory :: "memory_resource option"
  res_storage :: "storage_resource option"

definition GetCapacity :: "storage_resource option \<Rightarrow> quantity" where
  "GetCapacity s =
     (case s of
        None \<Rightarrow> DefaultStorageCapacity
      | Some st \<Rightarrow> (case storage_capacity st of None \<Rightarrow> DefaultStorageCapacity | Some c \<Rightarrow> c))"

text \<open>A \<open>LogLevelSpec\<close> is its level; the empty level states nothing.\<close>

record log_level_spec =
  log_level :: string

record logging_config_spec =
  log_loggers :: "log_level_spec option gomap option"
  log_console :: "log_level_spec option"
  log_file :: "log_level_spec option"

record logging_spec =
  log_containers :: "logging_config_spec gomap option"
  enable_vector_agent :: "bool option"

record role_group_config_spec =
  affinity :: "raw_extension option"
  graceful_shutdown_timeout :: "string option"
  logging :: "logging_spec option"
  resources :: "resources_spec option"

definition empty_config :: role_group_config_spec where
  "empty_config =
     \<lparr>affinity = None, graceful_shutdown_timeout = None, logging = None, resources = None\<rparr>"

definition GetGracefulShutdownTimeout :: "role_group_config_spec option \<Rightarrow> string" where
  "GetGracefulShutdownTimeout c =
     (case c of
        None \<Rightarrow> DefaultGracefulShutdownTimeout
      | Some cfg \<Rightarrow> (case graceful_shutdown_timeout cfg of
                        None \<Rightarrow> DefaultGracefulShutdownTimeout | Some t \<Rightarrow> t))"

record overrides_spec =
  CliOverrides :: "string list option"
  EnvOverrides :: "string gomap option"
  ConfigOverrides :: "string gomap gomap option"
  PodOverrides :: "raw_extension option"

record role_group_spec =
  rg_replicas :: "int option"
  rg_config :: "role_group_config_spec option"
  rg_config_overrides :: "string gomap gomap option"
  rg_env_overrides :: "string gomap option"
  rg_cli_overrides :: "string list option"
  rg_pod_overrides :: "raw_extension option"

record pdb_spec =
  pdb_enabled :: "bool option"
  pdb_max_unavailable :: "int option"

record role_config_spec =
  pod_disruption_budget :: "pdb_spec option"

record role_spec =
  role_role_config :: "role_config_spec option"
  role_config :: "role_group_config_spec option"
  role_role_groups :: "role_group_spec gomap"
  role_config_overrides :: "string gomap gomap option"
  role_env_overrides :: "string gomap option"
  role_cli_overrides :: "string list option"
  role_pod_overrides :: "raw_extension option"

record cluster_operation_spec =
  reconciliation_paused :: bool
  op_stopped :: bool

record image_spec =
  image_custom :: string
  image_repo :: string
  image_product_version :: string
  image_kubedoop_version :: string
  image_pull_policy :: string
  image_pull_secret_name :: string

record generic_cluster_spec =
  spec_image :: "image_spec option"
  spec_cluster_operation :: "cluster_operation_spec option"
  spec_roles :: "role_spec gomap"

definition IsEnabled :: "pdb_spec option \<Rightarrow> bool" where
  "IsEnabled p =
     (case p of
        None \<Rightarrow> True
      | Some q \<Rightarrow> (case pdb_enabled q of None \<Rightarrow> True | Some b \<Rightarrow> b))"

definition GetReplicas :: "role_group_spec \<Rightarrow> int" where
  "GetReplicas r = (case rg_replicas r of None \<Rightarrow> 1 | Some n \<Rightarrow> n)"

definition GetRoleGroups :: "role_spec \<Rightarrow> role_group_spec gomap" where
  "GetRoleGroups r = role_role_groups r"

definition RoleSpec_GetOverrides :: "role_spec \<Rightarrow> overrides_spec option" where
  "RoleSpec_GetOverrides r =
     (if role_config_overrides r = None \<and> role_env_overrides r = None
         \<and> role_cli_overrides r = None \<and> role_pod_overrides r = None
      then None
      else Some \<lparr>CliOverrides = role_cli_overrides r, EnvOverrides = role_env_overrides r,
                 ConfigOverrides = role_config_overrides r, PodOverrides = role_pod_overrides r\<rparr>)"

definition RoleGroupSpec_GetOverrides :: "role_group_spec \<Rightarrow> overrides_spec option" where
  "RoleGroupSpec_GetOverrides r =
     (if rg_config_overrides r = None \<and> rg_env_overrides r = None
         \<and> rg_cli_overrides r = None \<and> rg_pod_overrides r = None
      then None
      else Some \<lparr>CliOverrides = rg_cli_overrides r, EnvOverrides = rg_env_overrides r,
                 ConfigOverrides = rg_config_overrides r, PodOverrides = rg_pod_overrides r\<rparr>)"

definition HasRoleConfig :: "role_spec \<Rightarrow> bool" where
  "HasRoleConfig r \<longleftrightarrow> role_role_config r \<noteq> None"

definition GetRoleConfig :: "role_spec \<Rightarrow> role_config_spec" where
  "GetRoleConfig r =
     (case role_role_config r of None \<Rightarrow> \<lparr>pod_disruption_budget = None\<rparr> | Some c \<Rightarrow> c)"

definition RoleSpec_GetConfig :: "role_spec \<Rightarrow> role_group_config_spec" where
  "RoleSpec_GetConfig r = (case role_config r of None \<Rightarrow> empty_config | Some c \<Rightarrow> c)"

definition RoleGroupSpec_GetConfig :: "role_group_spec \<Rightarrow> role_group_config_spec" where
  "RoleGroupSpec_GetConfig r = (case rg_config r of None \<Rightarrow> empty_config | Some c \<Rightarrow> c)"

text \<open>Reading a map or slice that may be nil.\<close>

definition go_map :: "'v gomap option \<Rightarrow> 'v gomap" where
  "go_map m = (case m of None \<Rightarrow> fmempty | Some x \<Rightarrow> x)"

definition go_list :: "'a list option \<Rightarrow> 'a list" where
  "go_list xs = (case xs of None \<Rightarrow> [] | Some ys \<Rightarrow> ys)"

lemma go_map_simps [simp]: "go_map None = fmempty" "go_map (Some m) = m"
  by (simp_all add: go_map_def)

lemma go_list_simps [simp]: "go_list None = []" "go_list (Some xs) = xs"
  by (simp_all add: go_list_def)

end
