(* ===== verification/ClusterStatus.thy ===== *)
theory ClusterStatus
  imports ClusterSpec
begin

text \<open>
  \<open>pkg/apis/commons/v1alpha1/cluster_status.go\<close>: the conditions of a cluster and the record of
  the role groups the framework has deployed.

  The clock of \<open>metav1.Now()\<close> is an argument; the zero time is 0.
\<close>

section \<open>Conditions\<close>

datatype condition_status = ConditionTrue | ConditionFalse | ConditionUnknown

record condition =
  c_type :: string
  c_status :: condition_status
  c_reason :: string
  c_message :: string
  c_transition :: int
  c_generation :: int

definition ConditionAvailable :: string where "ConditionAvailable = ''Available''"
definition ConditionProgressing :: string where "ConditionProgressing = ''Progressing''"
definition ConditionDegraded :: string where "ConditionDegraded = ''Degraded''"
definition ConditionPaused :: string where "ConditionPaused = ''Paused''"
definition ConditionServiceHealthy :: string where "ConditionServiceHealthy = ''ServiceHealthy''"
definition ConditionReconcileComplete :: string where
  "ConditionReconcileComplete = ''ReconcileComplete''"

lemmas condition_types = ConditionAvailable_def ConditionProgressing_def ConditionDegraded_def
  ConditionPaused_def ConditionServiceHealthy_def ConditionReconcileComplete_def

record cluster_status =
  conditions :: "condition list"
  status_role_groups :: "string list gomap"
  observed_generation :: int

definition GetCondition :: "cluster_status \<Rightarrow> string \<Rightarrow> condition option" where
  "GetCondition s t = find_key c_type t (conditions s)"

definition stamp :: "int \<Rightarrow> cluster_status \<Rightarrow> condition \<Rightarrow> condition" where
  "stamp now s c =
     (let c1 = (if c_transition c = 0 then c\<lparr>c_transition := now\<rparr> else c)
      in (if c_generation c1 = 0 then c1\<lparr>c_generation := observed_generation s\<rparr> else c1))"

definition update_existing :: "condition \<Rightarrow> condition \<Rightarrow> condition" where
  "update_existing c existing =
     (let e1 = (if c_status existing \<noteq> c_status c
                then existing\<lparr>c_status := c_status c, c_transition := c_transition c\<rparr>
                else existing)
      in e1\<lparr>c_reason := c_reason c, c_message := c_message c, c_generation := c_generation c\<rparr>)"

definition SetCondition :: "int \<Rightarrow> condition \<Rightarrow> cluster_status \<Rightarrow> cluster_status" where
  "SetCondition now condition s =
     (let c = stamp now s condition in
      case GetCondition s (c_type c) of
        None \<Rightarrow> s\<lparr>conditions := conditions s @ [c]\<rparr>
      | Some _ \<Rightarrow> s\<lparr>conditions := update_key c_type (c_type c) (update_existing c) (conditions s)\<rparr>)"

definition SetObservedGeneration :: "int \<Rightarrow> cluster_status \<Rightarrow> cluster_status" where
  "SetObservedGeneration g s = s\<lparr>observed_generation := g\<rparr>"

text \<open>The \<open>Set*\<close> helpers supply type, status, reason and message and leave the rest zero.\<close>

definition mk_condition :: "string \<Rightarrow> condition_status \<Rightarrow> string \<Rightarrow> string \<Rightarrow> condition" where
  "mk_condition t st reason message =
     \<lparr>c_type = t, c_status = st, c_reason = reason, c_message = message,
      c_transition = 0, c_generation = 0\<rparr>"

definition cond_of_bool :: "bool \<Rightarrow> condition_status" where
  "cond_of_bool b = (if b then ConditionTrue else ConditionFalse)"

definition SetAvailable :: "int \<Rightarrow> string \<Rightarrow> string \<Rightarrow> cluster_status \<Rightarrow> cluster_status" where
  "SetAvailable now reason message =
     SetCondition now (mk_condition ConditionAvailable ConditionTrue reason message)"

definition SetUnavailable :: "int \<Rightarrow> string \<Rightarrow> string \<Rightarrow> cluster_status \<Rightarrow> cluster_status" where
  "SetUnavailable now reason message =
     SetCondition now (mk_condition ConditionAvailable ConditionFalse reason message)"

definition SetProgressing ::
    "int \<Rightarrow> bool \<Rightarrow> string \<Rightarrow> string \<Rightarrow> cluster_status \<Rightarrow> cluster_status" where
  "SetProgressing now b reason message =
     SetCondition now (mk_condition ConditionProgressing (cond_of_bool b) reason message)"

definition SetDegraded ::
    "int \<Rightarrow> bool \<Rightarrow> string \<Rightarrow> string \<Rightarrow> cluster_status \<Rightarrow> cluster_status" where
  "SetDegraded now b reason message =
     SetCondition now (mk_condition ConditionDegraded (cond_of_bool b) reason message)"

definition SetPaused ::
    "int \<Rightarrow> bool \<Rightarrow> string \<Rightarrow> string \<Rightarrow> cluster_status \<Rightarrow> cluster_status" where
  "SetPaused now b reason message =
     SetCondition now (mk_condition ConditionPaused (cond_of_bool b) reason message)"

definition SetServiceHealthyUnknown ::
    "int \<Rightarrow> string \<Rightarrow> string \<Rightarrow> cluster_status \<Rightarrow> cluster_status" where
  "SetServiceHealthyUnknown now reason message =
     SetCondition now (mk_condition ConditionServiceHealthy ConditionUnknown reason message)"

definition SetServiceHealthy ::
    "int \<Rightarrow> bool \<Rightarrow> string \<Rightarrow> string \<Rightarrow> cluster_status \<Rightarrow> cluster_status" where
  "SetServiceHealthy now b reason message =
     SetCondition now (mk_condition ConditionServiceHealthy (cond_of_bool b) reason message)"

definition SetReconcileComplete ::
    "int \<Rightarrow> bool \<Rightarrow> string \<Rightarrow> string \<Rightarrow> cluster_status \<Rightarrow> cluster_status" where
  "SetReconcileComplete now b reason message =
     SetCondition now (mk_condition ConditionReconcileComplete (cond_of_bool b) reason message)"

definition condition_is_true :: "string \<Rightarrow> cluster_status \<Rightarrow> bool" where
  "condition_is_true t s =
     (case GetCondition s t of None \<Rightarrow> False | Some c \<Rightarrow> c_status c = ConditionTrue)"

definition IsAvailable :: "cluster_status \<Rightarrow> bool" where
  "IsAvailable = condition_is_true ConditionAvailable"
definition IsDegraded :: "cluster_status \<Rightarrow> bool" where
  "IsDegraded = condition_is_true ConditionDegraded"
definition IsProgressing :: "cluster_status \<Rightarrow> bool" where
  "IsProgressing = condition_is_true ConditionProgressing"
definition IsServiceHealthy :: "cluster_status \<Rightarrow> bool" where
  "IsServiceHealthy = condition_is_true ConditionServiceHealthy"
definition IsPaused :: "cluster_status \<Rightarrow> bool" where
  "IsPaused = condition_is_true ConditionPaused"
definition IsReconcileComplete :: "cluster_status \<Rightarrow> bool" where
  "IsReconcileComplete = condition_is_true ConditionReconcileComplete"

section \<open>Deployed role groups\<close>

definition GetStatusRoleGroups :: "cluster_status \<Rightarrow> string list gomap" where
  "GetStatusRoleGroups s = status_role_groups s"

definition SetRoleGroup :: "string \<Rightarrow> string \<Rightarrow> cluster_status \<Rightarrow> cluster_status" where
  "SetRoleGroup role grp s =
     (let groups = (case fmlookup (status_role_groups s) role of None \<Rightarrow> [] | Some gs \<Rightarrow> gs) in
      if grp \<in> set groups then s
      else s\<lparr>status_role_groups := fmupd role (groups @ [grp]) (status_role_groups s)\<rparr>)"

definition RemoveRoleGroup :: "string \<Rightarrow> string \<Rightarrow> cluster_status \<Rightarrow> cluster_status" where
  "RemoveRoleGroup role grp s =
     (case fmlookup (status_role_groups s) role of
        None \<Rightarrow> s
      | Some groups \<Rightarrow>
          (let newGroups = filter (\<lambda>g. g \<noteq> grp) groups in
           s\<lparr>status_role_groups :=
               (if length newGroups = 0 then fmdrop role (status_role_groups s)
                else fmupd role newGroups (status_role_groups s))\<rparr>))"

text \<open>The body of the loop of \<open>GetOrphanedRoleGroups\<close>, and the loop.\<close>

definition orphaned_of :: "role_spec gomap \<Rightarrow> string \<Rightarrow> string list \<Rightarrow> string list option" where
  "orphaned_of desiredRoles role actualGroups =
     (case fmlookup desiredRoles role of
        None \<Rightarrow> Some actualGroups
      | Some desiredRole \<Rightarrow>
          (let orphanedGroups =
                 filter (\<lambda>g. fmlookup (GetRoleGroups desiredRole) g = None) actualGroups
           in if length orphanedGroups > 0 then Some orphanedGroups else None))"

definition GetOrphanedRoleGroups :: "role_spec gomap \<Rightarrow> cluster_status \<Rightarrow> string list gomap" where
  "GetOrphanedRoleGroups desiredRoles s =
     collect_map (orphaned_of desiredRoles) (GetStatusRoleGroups s)"

section \<open>The condition store\<close>

text \<open>
  What the reconciler and the health manager rely on when they write conditions.  A condition is
  settled when the store holds it with the status, reason, message and generation it asks for;
  writing a settled condition changes nothing, whatever the clock says.
\<close>

locale condition_store =
  fixes get :: "'s \<Rightarrow> string \<Rightarrow> condition option"
    and put :: "int \<Rightarrow> condition \<Rightarrow> 's \<Rightarrow> 's"
    and generation :: "'s \<Rightarrow> int"
  assumes get_put_same: "\<exists>e. get (put now c s) (c_type c) = Some e \<and> c_status e = c_status c \<and>
      c_reason e = c_reason c \<and> c_message e = c_message c \<and>
      c_generation e = (if c_generation c = 0 then generation s else c_generation c)"
    and get_put_other: "t \<noteq> c_type c \<Longrightarrow> get (put now c s) t = get s t"
    and generation_put: "generation (put now c s) = generation s"
    and put_settled: "get s (c_type c) = Some e \<Longrightarrow> c_status e = c_status c \<Longrightarrow>
      c_reason e = c_reason c \<Longrightarrow> c_message e = c_message c \<Longrightarrow>
      c_generation e = (if c_generation c = 0 then generation s else c_generation c) \<Longrightarrow>
      put now c s = s"
begin

definition settled :: "'s \<Rightarrow> condition \<Rightarrow> bool" where
  "settled s c \<longleftrightarrow> (\<exists>e. get s (c_type c) = Some e \<and> c_status e = c_status c \<and>
      c_reason e = c_reason c \<and> c_message e = c_message c \<and>
      c_generation e = (if c_generation c = 0 then generation s else c_generation c))"

lemma put_settles: "settled (put now c s) c"
  unfolding settled_def generation_put by (rule get_put_same)

lemma settled_put_other: "c_type c \<noteq> c_type d \<Longrightarrow> settled (put now d s) c \<longleftrightarrow> settled s c"
  by (simp add: settled_def get_put_other generation_put)

lemma put_settled_id: "settled s c \<Longrightarrow> put now c s = s"
  by (auto simp: settled_def intro: put_settled)

lemma run_other: "t \<notin> c_type ` set cs \<Longrightarrow> get (fold (put now) cs s) t = get s t"
  by (induction cs arbitrary: s) (auto simp: get_put_other)

lemma run_keeps_settled:
  "c_type c \<notin> c_type ` set cs \<Longrightarrow> settled (fold (put now) cs s) c \<longleftrightarrow> settled s c"
  by (induction cs arbitrary: s) (auto simp: settled_put_other)

lemma run_settles:
  "distinct (map c_type cs) \<Longrightarrow> c \<in> set cs \<Longrightarrow> settled (fold (put now) cs s) c"
proof (induction cs arbitrary: s)
  case Nil
  then show ?case by simp
next
  case (Cons d cs)
  then show ?case
    using put_settles [of now d s] by (auto simp: run_keeps_settled)
qed

lemma run_settled_id: "\<forall>c \<in> set cs. settled s c \<Longrightarrow> fold (put now) cs s = s"
  by (induction cs) (auto simp: put_settled_id)

lemma run_stable:
  "distinct (map c_type cs) \<Longrightarrow> fold (put later) cs (fold (put now) cs s) = fold (put now) cs s"
  by (rule run_settled_id) (simp add: run_settles)

end

lemma stamp_fields [simp]:
  "c_type (stamp now s c) = c_type c"
  "c_status (stamp now s c) = c_status c"
  "c_reason (stamp now s c) = c_reason c"
  "c_message (stamp now s c) = c_message c"
  "c_transition (stamp now s c) = (if c_transition c = 0 then now else c_transition c)"
  "c_generation (stamp now s c) =
     (if c_generation c = 0 then observed_generation s else c_generation c)"
  by (auto simp: stamp_def Let_def)

lemma update_existing_fields [simp]:
  "c_type (update_existing c e) = c_type e"
  "c_status (update_existing c e) = c_status c"
  "c_reason (update_existing c e) = c_reason c"
  "c_message (update_existing c e) = c_message c"
  "c_transition (update_existing c e) =
     (if c_status e = c_status c then c_transition e else c_transition c)"
  "c_generation (update_existing c e) = c_generation c"
  by (auto simp: update_existing_def Let_def)

lemma update_existing_id:
  "c_status e = c_status c \<Longrightarrow> c_reason e = c_reason c \<Longrightarrow> c_message e = c_message c \<Longrightarrow>
    c_generation e = c_generation c \<Longrightarrow> update_existing c e = e"
  by (auto simp: update_existing_def)

lemma GetCondition_SetCondition:
  "GetCondition (SetCondition now c s) t =
     (if t = c_type c
      then Some (case GetCondition s t of
                   None \<Rightarrow> stamp now s c | Some e \<Rightarrow> update_existing (stamp now s c) e)
      else GetCondition s t)"
proof -
  have keep: "find_key c_type (c_type c)
      (update_key c_type (c_type c) (update_existing (stamp now s c)) (conditions s)) =
      map_option (update_existing (stamp now s c)) (find_key c_type (c_type c) (conditions s))"
    by (rule find_key_update_same) simp
  have other: "t \<noteq> c_type c \<Longrightarrow> find_key c_type t
      (update_key c_type (c_type c) (update_existing (stamp now s c)) (conditions s)) =
      find_key c_type t (conditions s)" for t
    by (rule find_key_update_other) simp_all
  show ?thesis
    by (auto simp: SetCondition_def GetCondition_def Let_def keep other split: option.splits)
qed

lemma SetCondition_frame [simp]:
  "observed_generation (SetCondition now c s) = observed_generation s"
  "status_role_groups (SetCondition now c s) = status_role_groups s"
  by (auto simp: SetCondition_def Let_def split: option.splits)

lemma SetCondition_types:
  "map c_type (conditions (SetCondition now c s)) =
     (if c_type c \<in> c_type ` set (conditions s) then map c_type (conditions s)
      else map c_type (conditions s) @ [c_type c])"
proof (cases "GetCondition s (c_type c)")
  case None
  then have "c_type c \<notin> c_type ` set (conditions s)"
    by (simp add: GetCondition_def find_key_None)
  with None show ?thesis by (simp add: SetCondition_def Let_def)
next
  case (Some e)
  then have "c_type c \<in> c_type ` set (conditions s)"
    by (metis GetCondition_def find_key_None option.distinct(1))
  moreover have "map c_type (update_key c_type (c_type c) (update_existing (stamp now s c)) (conditions s))
      = map c_type (conditions s)"
    by (rule update_key_keys) simp
  ultimately show ?thesis using Some by (simp add: SetCondition_def Let_def)
qed

lemma SetCondition_settled:
  assumes "GetCondition s (c_type c) = Some e" and "c_status e = c_status c"
    and "c_reason e = c_reason c" and "c_message e = c_message c"
    and "c_generation e = (if c_generation c = 0 then observed_generation s else c_generation c)"
  shows "SetCondition now c s = s"
proof -
  have "update_key c_type (c_type c) (update_existing (stamp now s c)) (conditions s) = conditions s"
    using assms by (intro update_key_id) (auto simp: GetCondition_def update_existing_id)
  with assms(1) show ?thesis by (simp add: SetCondition_def Let_def)
qed

interpretation conditions: condition_store GetCondition SetCondition observed_generation
  by unfold_locales
    (auto simp: GetCondition_SetCondition SetCondition_settled split: option.splits)

section \<open>The role group record\<close>

text \<open>
  The set of deployed role groups behind the map, and what the reconciler and the cleaner rely
  on: recording inserts one role group, forgetting removes one.
\<close>

locale role_group_tracker =
  fixes tracked :: "'s \<Rightarrow> (string \<times> string) set"
    and track :: "string \<Rightarrow> string \<Rightarrow> 's \<Rightarrow> 's"
    and untrack :: "string \<Rightarrow> string \<Rightarrow> 's \<Rightarrow> 's"
  assumes tracked_track: "tracked (track r g s) = insert (r, g) (tracked s)"
    and tracked_untrack: "tracked (untrack r g s) = tracked s - {(r, g)}"
begin

lemma track_all: "tracked (fold (\<lambda>(r, g). track r g) ps s) = tracked s \<union> set ps"
  by (induction ps arbitrary: s) (auto simp: tracked_track)

lemma untrack_all: "tracked (fold (\<lambda>(r, g). untrack r g) ps s) = tracked s - set ps"
  by (induction ps arbitrary: s) (auto simp: tracked_untrack)

lemma converge:
  assumes "set orphans = tracked s - set desired"
  shows "tracked (fold (\<lambda>(r, g). untrack r g) orphans (fold (\<lambda>(r, g). track r g) desired s))
    = set desired"
  using assms by (auto simp: untrack_all track_all)

end

definition tracked :: "cluster_status \<Rightarrow> (string \<times> string) set" where
  "tracked s = {(r, g). \<exists>gs. fmlookup (status_role_groups s) r = Some gs \<and> g \<in> set gs}"

lemma tracked_SetRoleGroup: "tracked (SetRoleGroup r g s) = insert (r, g) (tracked s)"
  by (auto simp: tracked_def SetRoleGroup_def Let_def split: option.splits if_splits)

lemma tracked_RemoveRoleGroup: "tracked (RemoveRoleGroup r g s) = tracked s - {(r, g)}"
proof (cases "fmlookup (status_role_groups s) r")
  case None
  then show ?thesis by (auto simp: tracked_def RemoveRoleGroup_def)
next
  case (Some gs)
  show ?thesis
  proof (cases "filter (\<lambda>h. h \<noteq> g) gs = []")
    case True
    then have "set gs \<subseteq> {g}" by (auto simp: filter_empty_conv)
    moreover have "tracked (RemoveRoleGroup r g s) = {(a, b). a \<noteq> r \<and> (a, b) \<in> tracked s}"
      using True Some by (auto simp: tracked_def RemoveRoleGroup_def Let_def split: if_splits)
    ultimately show ?thesis using Some by (auto simp: tracked_def)
  next
    case False
    with Some show ?thesis
      by (auto simp: tracked_def RemoveRoleGroup_def Let_def split: if_splits)
  qed
qed

interpretation status_groups: role_group_tracker tracked SetRoleGroup RemoveRoleGroup
  by unfold_locales (simp_all add: tracked_SetRoleGroup tracked_RemoveRoleGroup)

text \<open>Well-formedness of the record: no role without role groups, no role group twice.\<close>

definition wf_groups :: "cluster_status \<Rightarrow> bool" where
  "wf_groups s \<longleftrightarrow> (\<forall>r gs. fmlookup (status_role_groups s) r = Some gs \<longrightarrow> gs \<noteq> [] \<and> distinct gs)"

lemma wf_SetRoleGroup: "wf_groups s \<Longrightarrow> wf_groups (SetRoleGroup r g s)"
  by (auto simp: wf_groups_def SetRoleGroup_def Let_def split: option.splits if_splits)

lemma wf_RemoveRoleGroup: "wf_groups s \<Longrightarrow> wf_groups (RemoveRoleGroup r g s)"
  by (auto simp: wf_groups_def RemoveRoleGroup_def Let_def split: option.splits if_splits)

definition desired_groups :: "role_spec gomap \<Rightarrow> (string \<times> string) set" where
  "desired_groups d =
     {(r, g). \<exists>spec. fmlookup d r = Some spec \<and> fmlookup (GetRoleGroups spec) g \<noteq> None}"

definition pairs_of :: "string list gomap \<Rightarrow> (string \<times> string) list" where
  "pairs_of m = concat (map (\<lambda>(r, gs). map (Pair r) gs) (entries m))"

lemma set_pairs_of: "set (pairs_of m) = {(r, g). \<exists>gs. fmlookup m r = Some gs \<and> g \<in> set gs}"
  by (auto simp: pairs_of_def) (metis (mono_tags, lifting) case_prod_conv image_eqI in_entries)

lemma orphans_lookup:
  "fmlookup (GetOrphanedRoleGroups d s) r =
     Option.bind (fmlookup (status_role_groups s) r) (orphaned_of d r)"
  by (simp add: GetOrphanedRoleGroups_def GetStatusRoleGroups_def collect_map_lookup)

lemma orphans_pairs: "set (pairs_of (GetOrphanedRoleGroups d s)) = tracked s - desired_groups d"
proof -
  have "(\<exists>gs. fmlookup (GetOrphanedRoleGroups d s) r = Some gs \<and> g \<in> set gs) \<longleftrightarrow>
      (r, g) \<in> tracked s \<and> (r, g) \<notin> desired_groups d" for r g
    by (cases "fmlookup (status_role_groups s) r"; cases "fmlookup d r")
      (auto simp: orphans_lookup orphaned_of_def Let_def tracked_def desired_groups_def
        filter_empty_conv split: if_splits)
  then show ?thesis by (auto simp: set_pairs_of)
qed

section \<open>Properties\<close>

text \<open>
  Setting a condition stores its status, reason and message under its type and touches no
  other condition; the transition time moves only when the status changes, and no condition type
  ever occurs twice.
\<close>

theorem SetCondition_correct:
  assumes "distinct (map c_type (conditions s))"
  shows "(\<exists>e. GetCondition (SetCondition now c s) (c_type c) = Some e \<and>
      c_status e = c_status c \<and> c_reason e = c_reason c \<and> c_message e = c_message c \<and>
      (\<forall>old. GetCondition s (c_type c) = Some old \<longrightarrow>
         c_transition e = (if c_status old = c_status c then c_transition old
                           else if c_transition c = 0 then now else c_transition c))) \<and>
    (\<forall>t. t \<noteq> c_type c \<longrightarrow> GetCondition (SetCondition now c s) t = GetCondition s t) \<and>
    distinct (map c_type (conditions (SetCondition now c s)))"
proof (intro conjI)
  show "distinct (map c_type (conditions (SetCondition now c s)))"
    using assms by (simp add: SetCondition_types)
qed (auto simp: GetCondition_SetCondition split: option.splits)

theorem SetCondition_correct_witness:
  "\<exists>e. GetCondition (SetCondition 9 (mk_condition ''Degraded'' ConditionTrue ''R'' ''m'')
      \<lparr>conditions = [\<lparr>c_type = ''Degraded'', c_status = ConditionFalse, c_reason = ''Ok'',
         c_message = [], c_transition = 4, c_generation = 1\<rparr>],
       status_role_groups = fmempty, observed_generation = 2\<rparr>) ''Degraded'' = Some e \<and>
     c_transition e = 9"
proof -
  let ?old = "\<lparr>c_type = ''Degraded'', c_status = ConditionFalse, c_reason = ''Ok'',
         c_message = [], c_transition = 4, c_generation = 1\<rparr>"
  let ?s = "\<lparr>conditions = [?old], status_role_groups = fmempty, observed_generation = 2\<rparr>"
  let ?c = "mk_condition ''Degraded'' ConditionTrue ''R'' ''m''"
  have "distinct (map c_type (conditions ?s))" by simp
  from SetCondition_correct [OF this, of 9 ?c] show ?thesis
    by (simp add: mk_condition_def GetCondition_def) blast
qed

text \<open>
  Reconciling twice writes the status once: a pass that sets conditions of distinct types
  leaves a status on which the same pass, at any later time, changes nothing, so an unchanged
  cluster does not wake its own reconciler.
\<close>

theorem status_pass_stable:
  assumes "distinct (map c_type cs)"
  shows "fold (SetCondition later) cs (fold (SetCondition now) cs s) = fold (SetCondition now) cs s"
  using assms by (rule conditions.run_stable)

theorem status_pass_stable_witness:
  "SetDegraded 20 False ''Ok'' ''m'' (SetDegraded 10 False ''Ok'' ''m''
     \<lparr>conditions = [], status_role_groups = fmempty, observed_generation = 2\<rparr>) =
   SetDegraded 10 False ''Ok'' ''m''
     \<lparr>conditions = [], status_role_groups = fmempty, observed_generation = 2\<rparr>"
proof -
  let ?c = "mk_condition ConditionDegraded (cond_of_bool False) ''Ok'' ''m''"
  have "distinct (map c_type [?c])" by simp
  from status_pass_stable [OF this] show ?thesis by (simp add: SetDegraded_def)
qed

text \<open>
  The orphaned role groups are exactly the recorded role groups the spec does not declare,
  and a pass that records every declared role group and forgets every orphan leaves a record of
  exactly the declared role groups, well-formed, with no orphans.
\<close>

theorem orphan_convergence:
  assumes "wf_groups s" and "set desired = desired_groups d"
  defines "s1 \<equiv> fold (\<lambda>(r, g). SetRoleGroup r g) desired s"
  defines "s2 \<equiv> fold (\<lambda>(r, g). RemoveRoleGroup r g) (pairs_of (GetOrphanedRoleGroups d s1)) s1"
  shows "set (pairs_of (GetOrphanedRoleGroups d s)) = tracked s - desired_groups d \<and>
    tracked s2 = desired_groups d \<and> wf_groups s2 \<and> GetOrphanedRoleGroups d s2 = fmempty"
proof -
  have s1: "tracked s1 = tracked s \<union> set desired"
    by (simp add: s1_def status_groups.track_all)
  have t2: "tracked s2 = desired_groups d"
    using assms(2) by (auto simp: s2_def status_groups.untrack_all orphans_pairs s1)
  have "wf_groups (fold (\<lambda>(r, g). SetRoleGroup r g) ps s)" if "wf_groups s" for ps s
    using that by (induction ps arbitrary: s) (auto simp: wf_SetRoleGroup)
  moreover have "wf_groups (fold (\<lambda>(r, g). RemoveRoleGroup r g) ps s)" if "wf_groups s" for ps s
    using that by (induction ps arbitrary: s) (auto simp: wf_RemoveRoleGroup)
  ultimately have wf2: "wf_groups s2" using assms(1) by (simp add: s1_def s2_def)
  have "fmlookup (GetOrphanedRoleGroups d s2) r = None" for r
  proof (cases "fmlookup (status_role_groups s2) r")
    case None
    then show ?thesis by (simp add: orphans_lookup)
  next
    case (Some gs)
    then have "hd gs \<in> set gs" using wf2 by (simp add: wf_groups_def)
    moreover have d: "(r, g) \<in> desired_groups d" if "g \<in> set gs" for g
      using Some that unfolding t2 [symmetric] by (auto simp: tracked_def)
    ultimately obtain spec where spec: "fmlookup d r = Some spec"
      by (auto simp: desired_groups_def)
    have "fmlookup (GetRoleGroups spec) g \<noteq> None" if "g \<in> set gs" for g
      using d [OF that] spec by (simp add: desired_groups_def)
    with spec show ?thesis by (simp add: orphans_lookup orphaned_of_def Some filter_empty_conv)
  qed
  then have "GetOrphanedRoleGroups d s2 = fmempty" by (intro fmap_ext) simp
  with t2 wf2 show ?thesis by (simp add: orphans_pairs)
qed

theorem orphan_convergence_witness:
  "set (pairs_of (GetOrphanedRoleGroups fmempty
     (SetRoleGroup ''r'' ''g'' \<lparr>conditions = [], status_role_groups = fmempty, observed_generation = 2\<rparr>)))
   = {(''r'', ''g'')}"
proof -
  let ?init = "\<lparr>conditions = [], status_role_groups = fmempty, observed_generation = 2\<rparr>"
  let ?s = "SetRoleGroup ''r'' ''g'' ?init"
  have "wf_groups ?init" by (simp add: wf_groups_def)
  then have "wf_groups ?s" by (rule wf_SetRoleGroup)
  moreover have "set [] = desired_groups fmempty" by (simp add: desired_groups_def)
  ultimately have "set (pairs_of (GetOrphanedRoleGroups fmempty ?s)) = tracked ?s - desired_groups fmempty"
    using orphan_convergence by blast
  then show ?thesis by (simp add: tracked_SetRoleGroup) (simp add: tracked_def desired_groups_def)
qed

end
