(* ===== verification/ConfigMerge.thy ===== *)
theory ConfigMerge
  imports ClusterSpec Errors
begin

text \<open>
  \<open>pkg/config/merger.go\<close>: folding the override layers (product, role, role group) into one
  configuration.

  Pod templates are Kubernetes objects: their type, their JSON codec and the strategic merge patch
  are the parameters collected in \<open>pod_codec\<close>.  Everything else is as in the code.
\<close>

section \<open>Data\<close>

datatype merge_strategy = MergeStrategyReplace | MergeStrategyAppend | OtherStrategy string

record 'pod merged_config =
  ConfigFiles :: "string gomap gomap"
  EnvVars :: "string gomap"
  CliArgs :: "string list"
  JvmArgs :: "string list"
  MergedPodOverrides :: "'pod option"
  PodOverrideErrors :: "err list"
  MergedLogging :: "logging_spec option"

definition NewMergedConfig :: "'pod merged_config" where
  "NewMergedConfig =
     \<lparr>ConfigFiles = fmempty, EnvVars = fmempty, CliArgs = [], JvmArgs = [],
      MergedPodOverrides = None, PodOverrideErrors = [], MergedLogging = None\<rparr>"

record ('pod, 'meta) pod_codec =
  pod_unmarshal :: "string \<Rightarrow> err + 'pod"
  pod_marshal :: "'pod \<Rightarrow> err + string"
  pod_patch_meta :: "'pod \<Rightarrow> err + 'meta"
  pod_strategic_merge :: "string \<Rightarrow> string \<Rightarrow> 'meta \<Rightarrow> err + string"

record config_merger =
  SliceMergeStrategy :: merge_strategy

definition NewConfigMerger :: config_merger where
  "NewConfigMerger = \<lparr>SliceMergeStrategy = MergeStrategyReplace\<rparr>"

section \<open>Merging\<close>

definition mergeMaps :: "string gomap \<Rightarrow> string gomap \<Rightarrow> string gomap" where
  "mergeMaps base override = put_all (entries override) (put_all (entries base) fmempty)"

definition mergeConfigFiles ::
    "string gomap gomap \<Rightarrow> string gomap gomap \<Rightarrow> string gomap gomap" where
  "mergeConfigFiles base override =
     (let copied =
        fold (\<lambda>(filename, config) result.
                fmupd filename (put_all (entries config) fmempty) result)
          (entries base) fmempty
      in fold (\<lambda>(filename, config) result.
                 let inner = (case fmlookup result filename of None \<Rightarrow> fmempty | Some m \<Rightarrow> m)
                 in fmupd filename (put_all (entries config) inner) result)
           (entries override) copied)"

definition mergeSlices :: "config_merger \<Rightarrow> string list \<Rightarrow> string list \<Rightarrow> string list" where
  "mergeSlices m base override =
     (if length override = 0 then base
      else (case SliceMergeStrategy m of
              MergeStrategyAppend \<Rightarrow> base @ override
            | _ \<Rightarrow> override))"

definition mergePodTemplates ::
    "('pod, 'meta) pod_codec \<Rightarrow> 'pod option \<Rightarrow> 'pod option \<Rightarrow> 'pod option \<times> err option" where
  "mergePodTemplates codec base overridePod =
     (case (base, overridePod) of
        (None, None) \<Rightarrow> (None, None)
      | (None, Some ov) \<Rightarrow> (Some ov, None)
      | (Some b, None) \<Rightarrow> (Some b, None)
      | (Some b, Some ov) \<Rightarrow>
          (case pod_marshal codec b of
             Inl e \<Rightarrow> (Some ov, Some (Wrapped (FmtErrorf ''failed to encode the merged pod template'') (Some e)))
           | Inr baseBytes \<Rightarrow>
          (case pod_marshal codec ov of
             Inl e \<Rightarrow> (Some b, Some (Wrapped (FmtErrorf ''failed to encode the podOverrides layer'') (Some e)))
           | Inr overrideBytes \<Rightarrow>
          (case pod_patch_meta codec b of
             Inl e \<Rightarrow> (Some ov, Some (Wrapped (FmtErrorf ''failed to build the pod template patch metadata'') (Some e)))
           | Inr schema \<Rightarrow>
          (case pod_strategic_merge codec baseBytes overrideBytes schema of
             Inl e \<Rightarrow> (Some ov, Some (Wrapped (FmtErrorf ''failed to strategic-merge the podOverrides layer'') (Some e)))
           | Inr mergedBytes \<Rightarrow>
          (case pod_unmarshal codec mergedBytes of
             Inl e \<Rightarrow> (Some ov, Some (Wrapped (FmtErrorf ''failed to decode the strategic-merged pod template'') (Some e)))
           | Inr mergedPod \<Rightarrow> (Some mergedPod, None)))))))"

text \<open>An override without raw bytes (a nil pointer or a nil \<open>Raw\<close>) is absent.\<close>

definition raw_bytes :: "raw_extension option \<Rightarrow> string option" where
  "raw_bytes override = (case override of None \<Rightarrow> None | Some raw \<Rightarrow> raw)"

definition mergePodOverrideInto ::
    "('pod, 'meta) pod_codec \<Rightarrow> 'pod option \<Rightarrow> raw_extension option \<Rightarrow> 'pod option \<times> err option"
  where
  "mergePodOverrideInto codec base override =
     (case raw_bytes override of
        None \<Rightarrow> mergePodTemplates codec base None
      | Some raw \<Rightarrow>
          (case pod_unmarshal codec raw of
             Inl e \<Rightarrow> (base, Some (Wrapped (FmtErrorf ''podOverrides layer is not a valid PodTemplateSpec'') (Some e)))
           | Inr parsed \<Rightarrow> mergePodTemplates codec base (Some parsed)))"

definition merge_layer ::
    "('pod, 'meta) pod_codec \<Rightarrow> config_merger \<Rightarrow> overrides_spec option
      \<Rightarrow> 'pod merged_config \<Rightarrow> 'pod merged_config" where
  "merge_layer codec m layer result =
     (case layer of
        None \<Rightarrow> result
      | Some ov \<Rightarrow>
          (let (merged, e) = mergePodOverrideInto codec (MergedPodOverrides result) (PodOverrides ov)
           in result
             \<lparr>ConfigFiles := mergeConfigFiles (ConfigFiles result) (go_map (ConfigOverrides ov)),
              EnvVars := mergeMaps (EnvVars result) (go_map (EnvOverrides ov)),
              CliArgs := mergeSlices m (CliArgs result) (go_list (CliOverrides ov)),
              PodOverrideErrors := (case e of None \<Rightarrow> PodOverrideErrors result
                                      | Some x \<Rightarrow> PodOverrideErrors result @ [x]),
              MergedPodOverrides := merged\<rparr>))"

definition Merge ::
    "('pod, 'meta) pod_codec \<Rightarrow> config_merger \<Rightarrow> overrides_spec option list \<Rightarrow> 'pod merged_config"
  where
  "Merge codec m overrides = fold (merge_layer codec m) overrides NewMergedConfig"

definition Clone :: "'pod merged_config \<Rightarrow> 'pod merged_config" where
  "Clone c =
     NewMergedConfig
       \<lparr>ConfigFiles := fold (\<lambda>(filename, config) result.
            fmupd filename (put_all (entries config) fmempty) result) (entries (ConfigFiles c)) fmempty,
        EnvVars := put_all (entries (EnvVars c)) fmempty,
        CliArgs := CliArgs c,
        JvmArgs := JvmArgs c,
        MergedPodOverrides := MergedPodOverrides c,
        PodOverrideErrors := PodOverrideErrors c\<rparr>"

definition AddConfigFile :: "string \<Rightarrow> string gomap \<Rightarrow> 'pod merged_config \<Rightarrow> 'pod merged_config" where
  "AddConfigFile filename config c = c\<lparr>ConfigFiles := fmupd filename config (ConfigFiles c)\<rparr>"

definition AddEnvVar :: "string \<Rightarrow> string \<Rightarrow> 'pod merged_config \<Rightarrow> 'pod merged_config" where
  "AddEnvVar key val c = c\<lparr>EnvVars := fmupd key val (EnvVars c)\<rparr>"

definition AddCliArg :: "string \<Rightarrow> 'pod merged_config \<Rightarrow> 'pod merged_config" where
  "AddCliArg arg c = c\<lparr>CliArgs := CliArgs c @ [arg]\<rparr>"

definition AddJvmArg :: "string \<Rightarrow> 'pod merged_config \<Rightarrow> 'pod merged_config" where
  "AddJvmArg arg c = c\<lparr>JvmArgs := JvmArgs c @ [arg]\<rparr>"

definition GetConfigFile :: "string \<Rightarrow> 'pod merged_config \<Rightarrow> string gomap option" where
  "GetConfigFile filename c = fmlookup (ConfigFiles c) filename"

section \<open>The loops as map operations\<close>

lemma mergeMaps_eq: "mergeMaps base override = fmadd base override"
  by (simp add: mergeMaps_def go_lookup fmap_ext)

lemma copy_files_eq:
  "fold (\<lambda>(filename, config) result. fmupd filename (put_all (entries config) fmempty) result)
     (entries m) fmempty = m"
proof -
  have "fold (\<lambda>(filename, config) result. fmupd filename (put_all (entries config) fmempty) result)
      (entries m) fmempty = put_all (entries m) fmempty"
    unfolding put_all_def [of "entries m"]
    by (rule fold_cong) (auto simp: go_lookup)
  then show ?thesis by (simp add: go_lookup)
qed

lemma fold_files_lookup:
  "distinct (map fst xs) \<Longrightarrow>
    fmlookup (fold (\<lambda>(filename, config) result.
        let inner = (case fmlookup result filename of None \<Rightarrow> fmempty | Some m \<Rightarrow> m)
        in fmupd filename (put_all (entries config) inner) result) xs r) f =
    (case map_of xs f of
       None \<Rightarrow> fmlookup r f
     | Some config \<Rightarrow> Some (fmadd (case fmlookup r f of None \<Rightarrow> fmempty | Some m \<Rightarrow> m) config))"
proof (induction xs arbitrary: r)
  case Nil
  then show ?case by simp
next
  case (Cons x xs)
  obtain a b where x: "x = (a, b)" by (cases x)
  from Cons.prems x have "map_of xs a = None"
    by (auto simp: map_of_eq_None_iff)
  with Cons x show ?case by (auto simp: Let_def go_lookup split: option.splits)
qed

lemma mergeConfigFiles_lookup [go_lookup]:
  "fmlookup (mergeConfigFiles base override) f =
     (case fmlookup override f of
        None \<Rightarrow> fmlookup base f
      | Some config \<Rightarrow>
          Some (fmadd (case fmlookup base f of None \<Rightarrow> fmempty | Some m \<Rightarrow> m) config))"
  unfolding mergeConfigFiles_def copy_files_eq Let_def
  by (simp add: fold_files_lookup [unfolded Let_def] split: option.splits)

lemma Merge_snoc: "Merge codec m (ovs @ [ov]) = merge_layer codec m ov (Merge codec m ovs)"
  by (simp add: Merge_def)

lemma Merge_Nil [simp]: "Merge codec m [] = NewMergedConfig"
  by (simp add: Merge_def)

lemma merge_layer_None [simp]: "merge_layer codec m None result = result"
  by (simp add: merge_layer_def)

lemma merge_layer_fields [simp]:
  "ConfigFiles (merge_layer codec m (Some ov) result) =
     mergeConfigFiles (ConfigFiles result) (go_map (ConfigOverrides ov))"
  "EnvVars (merge_layer codec m (Some ov) result) =
     mergeMaps (EnvVars result) (go_map (EnvOverrides ov))"
  "CliArgs (merge_layer codec m (Some ov) result) =
     mergeSlices m (CliArgs result) (go_list (CliOverrides ov))"
  "JvmArgs (merge_layer codec m (Some ov) result) = JvmArgs result"
  "MergedLogging (merge_layer codec m (Some ov) result) = MergedLogging result"
  "MergedPodOverrides (merge_layer codec m (Some ov) result) =
     fst (mergePodOverrideInto codec (MergedPodOverrides result) (PodOverrides ov))"
  "PodOverrideErrors (merge_layer codec m (Some ov) result) =
     PodOverrideErrors result @
       (case snd (mergePodOverrideInto codec (MergedPodOverrides result) (PodOverrides ov)) of
          None \<Rightarrow> [] | Some e \<Rightarrow> [e])"
  by (simp_all add: merge_layer_def case_prod_unfold Let_def split: option.splits)

definition file_value :: "string gomap gomap \<Rightarrow> string \<Rightarrow> string \<Rightarrow> string option" where
  "file_value files f k = Option.bind (fmlookup files f) (\<lambda>config. fmlookup config k)"

lemma file_value_merge:
  "file_value (mergeConfigFiles base override) f k =
     (case file_value override f k of Some v \<Rightarrow> Some v | None \<Rightarrow> file_value base f k)"
  by (auto simp: file_value_def go_lookup split: option.splits bind_splits dest: fmdomI)

lemma env_value_merge:
  "fmlookup (mergeMaps base override) k =
     (case fmlookup override k of Some v \<Rightarrow> Some v | None \<Rightarrow> fmlookup base k)"
  by (auto simp: mergeMaps_eq split: option.splits dest: fmdomI)

lemma Merge_file_value:
  "file_value (ConfigFiles (Merge codec m ovs)) f k = Some v \<longleftrightarrow>
     wins (\<lambda>ov. file_value (go_map (ConfigOverrides ov)) f k) (present ovs) v"
proof (induction ovs rule: rev_induct)
  case Nil
  then show ?case by (simp add: NewMergedConfig_def file_value_def)
next
  case (snoc ov ovs)
  then show ?case by (cases ov) (auto simp: Merge_snoc file_value_merge split: option.splits)
qed

lemma Merge_env_value:
  "fmlookup (EnvVars (Merge codec m ovs)) k = Some v \<longleftrightarrow>
     wins (\<lambda>ov. fmlookup (go_map (EnvOverrides ov)) k) (present ovs) v"
proof (induction ovs rule: rev_induct)
  case Nil
  then show ?case by (simp add: NewMergedConfig_def)
next
  case (snoc ov ovs)
  then show ?case by (cases ov) (auto simp: Merge_snoc env_value_merge split: option.splits)
qed

definition stated_args :: "overrides_spec \<Rightarrow> string list option" where
  "stated_args ov = (if go_list (CliOverrides ov) = [] then None else Some (go_list (CliOverrides ov)))"

lemma Merge_args_append:
  "SliceMergeStrategy m = MergeStrategyAppend \<Longrightarrow>
    CliArgs (Merge codec m ovs) = concat (map (\<lambda>ov. go_list (CliOverrides ov)) (present ovs))"
proof (induction ovs rule: rev_induct)
  case Nil
  then show ?case by (simp add: NewMergedConfig_def)
next
  case (snoc ov ovs)
  then show ?case by (cases ov) (auto simp: Merge_snoc mergeSlices_def)
qed

lemma mergeSlices_replace:
  "SliceMergeStrategy m \<noteq> MergeStrategyAppend \<Longrightarrow>
    mergeSlices m base override = (if override = [] then base else override)"
  by (auto simp: mergeSlices_def split: merge_strategy.splits)

lemma Merge_args_replace:
  "SliceMergeStrategy m \<noteq> MergeStrategyAppend \<Longrightarrow> args \<noteq> [] \<Longrightarrow>
    CliArgs (Merge codec m ovs) = args \<longleftrightarrow> wins stated_args (present ovs) args"
proof (induction ovs rule: rev_induct)
  case Nil
  then show ?case by (simp add: NewMergedConfig_def)
next
  case (snoc ov ovs)
  then show ?case
    by (cases ov) (auto simp: Merge_snoc mergeSlices_replace stated_args_def)
qed

text \<open>A layer whose pod overrides do not decode, and the layer without them.\<close>

definition malformed :: "('pod, 'meta) pod_codec \<Rightarrow> overrides_spec \<Rightarrow> bool" where
  "malformed codec ov =
     (case raw_bytes (PodOverrides ov) of
        None \<Rightarrow> False
      | Some raw \<Rightarrow> (case pod_unmarshal codec raw of Inl _ \<Rightarrow> True | Inr _ \<Rightarrow> False))"

definition drop_malformed :: "('pod, 'meta) pod_codec \<Rightarrow> overrides_spec \<Rightarrow> overrides_spec" where
  "drop_malformed codec ov = (if malformed codec ov then ov\<lparr>PodOverrides := None\<rparr> else ov)"

lemma drop_malformed_simps:
  "malformed codec ov \<Longrightarrow> drop_malformed codec ov = ov\<lparr>PodOverrides := None\<rparr>"
  "\<not> malformed codec ov \<Longrightarrow> drop_malformed codec ov = ov"
  by (simp_all add: drop_malformed_def)

lemma mergePodTemplates_None [simp]: "mergePodTemplates codec base None = (base, None)"
  by (cases base) (simp_all add: mergePodTemplates_def)

lemma into_malformed:
  "malformed codec ov \<Longrightarrow>
    fst (mergePodOverrideInto codec base (PodOverrides ov)) = base \<and>
    snd (mergePodOverrideInto codec base (PodOverrides ov)) \<noteq> None"
  by (auto simp: malformed_def mergePodOverrideInto_def split: option.splits sum.splits)

lemma into_None [simp]: "mergePodOverrideInto codec base None = (base, None)"
  by (simp add: mergePodOverrideInto_def raw_bytes_def)

section \<open>Properties\<close>

text \<open>
  C33. After a merge, a configuration key of a file has a value exactly when some layer states one,
  and it is the value of the highest layer that does; the same for environment variables.  So the
  user's role group beats the role, which beats the product, per key, and no other key appears.
\<close>

theorem Merge_precedence:
  "(file_value (ConfigFiles (Merge codec m ovs)) f k = Some v \<longleftrightarrow>
      wins (\<lambda>ov. file_value (go_map (ConfigOverrides ov)) f k) (present ovs) v) \<and>
   (fmlookup (EnvVars (Merge codec m ovs)) k = Some v \<longleftrightarrow>
      wins (\<lambda>ov. fmlookup (go_map (EnvOverrides ov)) k) (present ovs) v)"
  by (simp add: Merge_file_value Merge_env_value)

text \<open>
  CLI arguments under the Replace strategy (and any unknown one) are those of the highest layer
  with a non-empty list: an empty list inherits and never clears.  Under Append they are the
  concatenation of all layers.
\<close>

theorem Merge_cli_args:
  "(SliceMergeStrategy m = MergeStrategyAppend \<longrightarrow>
      CliArgs (Merge codec m ovs) = concat (map (\<lambda>ov. go_list (CliOverrides ov)) (present ovs))) \<and>
   (SliceMergeStrategy m \<noteq> MergeStrategyAppend \<longrightarrow> args \<noteq> [] \<longrightarrow>
      (CliArgs (Merge codec m ovs) = args \<longleftrightarrow> wins stated_args (present ovs) args))"
  by (simp add: Merge_args_append Merge_args_replace)

theorem Merge_cli_args_witness:
  "wins stated_args (present [Some \<lparr>CliOverrides = Some [''-a''], EnvOverrides = None,
      ConfigOverrides = None, PodOverrides = None\<rparr>, None]) [''-a'']"
proof -
  let ?ovs = "[Some \<lparr>CliOverrides = Some [''-a''], EnvOverrides = None,
      ConfigOverrides = None, PodOverrides = None\<rparr>, None]"
  let ?codec = "\<lparr>pod_unmarshal = \<lambda>s. Inr s, pod_marshal = \<lambda>s. Inr s,
      pod_patch_meta = \<lambda>s. Inr (), pod_strategic_merge = \<lambda>a b u. Inr b\<rparr>"
  have "SliceMergeStrategy NewConfigMerger \<noteq> MergeStrategyAppend" "[''-a''] \<noteq> []"
    by (simp_all add: NewConfigMerger_def)
  then have "(CliArgs (Merge ?codec NewConfigMerger ?ovs) = [''-a''])
      \<longleftrightarrow> wins stated_args (present ?ovs) [''-a'']"
    using Merge_cli_args by blast
  then show ?thesis
    by (simp add: Merge_def merge_layer_def NewMergedConfig_def mergeSlices_def NewConfigMerger_def)
qed

text \<open>
  A pod override layer that does not decode never takes part in the merge: everything but the
  recorded errors is as if the layer had no pod override, and each such layer records one error.
\<close>

theorem Merge_malformed_pod_override:
  "(Merge codec m ovs)\<lparr>PodOverrideErrors := []\<rparr> =
     (Merge codec m (map (map_option (drop_malformed codec)) ovs))\<lparr>PodOverrideErrors := []\<rparr> \<and>
   length (PodOverrideErrors (Merge codec m ovs)) =
     length (PodOverrideErrors (Merge codec m (map (map_option (drop_malformed codec)) ovs)))
     + length (filter (malformed codec) (present ovs))"
proof (induction ovs rule: rev_induct)
  case Nil
  then show ?case by simp
next
  case (snoc ov ovs)
  let ?a = "Merge codec m ovs"
  let ?b = "Merge codec m (map (map_option (drop_malformed codec)) ovs)"
  from snoc have same: "?a\<lparr>PodOverrideErrors := []\<rparr> = ?b\<lparr>PodOverrideErrors := []\<rparr>" by blast
  have eq: "ConfigFiles ?a = ConfigFiles ?b" "EnvVars ?a = EnvVars ?b" "CliArgs ?a = CliArgs ?b"
      "JvmArgs ?a = JvmArgs ?b" "MergedLogging ?a = MergedLogging ?b"
      "MergedPodOverrides ?a = MergedPodOverrides ?b"
    using same by (cases ?a; cases ?b; simp)+
  show ?case
  proof (cases ov)
    case None
    with snoc show ?thesis by (simp add: Merge_snoc)
  next
    case (Some x)
    show ?thesis
    proof (cases "malformed codec x")
      case False
      with Some snoc eq show ?thesis
        by (auto simp: Merge_snoc drop_malformed_simps intro!: merged_config.equality)
    next
      case True
      with Some snoc eq into_malformed [OF True, of "MergedPodOverrides ?b"] show ?thesis
        by (auto simp: Merge_snoc drop_malformed_simps intro!: merged_config.equality)
    qed
  qed
qed

text \<open>
  \<open>Clone\<close> copies every field but the logging configuration, which the copy loses.
\<close>

theorem Clone_drops_logging: "Clone c = c\<lparr>MergedLogging := None\<rparr>"
  unfolding Clone_def copy_files_eq
  by (cases c) (simp add: NewMergedConfig_def go_lookup)

end
