(* ===== verification/ConfigFold.thy ===== *)
theory ConfigFold
  imports ClusterSpec Errors
begin

text \<open>
  Folding the workload config block: \<open>pkg/reconciler/config_fold.go\<close>,
  \<open>pkg/reconciler/affinity.go\<close> and \<open>MergeLoggingSpec\<close> of \<open>pkg/productlogging/logging.go\<close>.

  Values are pure, so the deep copies of the code are the identity.  The JSON codec of the
  Kubernetes affinity type is the parameter \<open>affinity_codec\<close>; its scheduling terms are opaque.
\<close>

section \<open>Logging\<close>

definition states_level :: "log_level_spec option \<Rightarrow> bool" where
  "states_level v = (case v of None \<Rightarrow> False | Some l \<Rightarrow> log_level l \<noteq> [])"

definition merge_loggers ::
    "log_level_spec option gomap option \<Rightarrow> log_level_spec option gomap \<Rightarrow> log_level_spec option gomap"
  where
  "merge_loggers lgs merged =
     fold (\<lambda>(k, v) m. if states_level v then fmupd k v m else m) (entries (go_map lgs)) merged"

definition mergeContainerLogging ::
    "logging_config_spec \<Rightarrow> logging_config_spec \<Rightarrow> logging_config_spec" where
  "mergeContainerLogging role grp =
     \<lparr>log_loggers =
        (if log_loggers role \<noteq> None \<or> log_loggers grp \<noteq> None
         then Some (fold merge_loggers [log_loggers role, log_loggers grp] fmempty)
         else None),
      log_console = (if states_level (log_console grp) then log_console grp else log_console role),
      log_file = (if states_level (log_file grp) then log_file grp else log_file role)\<rparr>"

definition MergeLoggingSpec :: "logging_spec option \<Rightarrow> logging_spec option \<Rightarrow> logging_spec option" where
  "MergeLoggingSpec role grp =
     (case (role, grp) of
        (None, _) \<Rightarrow> grp
      | (_, None) \<Rightarrow> role
      | (Some r, Some g) \<Rightarrow> Some
          \<lparr>log_containers =
             (if log_containers r \<noteq> None \<or> log_containers g \<noteq> None
              then Some
                (fold (\<lambda>(name, gc) merged.
                    case fmlookup merged name of
                      Some rc \<Rightarrow> fmupd name (mergeContainerLogging rc gc) merged
                    | None \<Rightarrow> fmupd name gc merged)
                  (entries (go_map (log_containers g)))
                  (put_all (entries (go_map (log_containers r))) fmempty))
              else None),
           enable_vector_agent =
             (if enable_vector_agent g \<noteq> None then enable_vector_agent g
              else enable_vector_agent r)\<rparr>)"

section \<open>Resources\<close>

definition inherit :: "'a option \<Rightarrow> 'a option \<Rightarrow> 'a option" where
  "inherit upper lower = (if upper = None then lower else upper)"

definition foldResources ::
    "resources_spec option \<Rightarrow> resources_spec option \<Rightarrow> resources_spec option" where
  "foldResources lower upper =
     (case (lower, upper) of
        (None, None) \<Rightarrow> None
      | (None, Some u) \<Rightarrow> Some u
      | (Some l, None) \<Rightarrow> Some l
      | (Some l, Some u) \<Rightarrow> Some
          \<lparr>res_cpu =
             (case res_cpu u of
                None \<Rightarrow> res_cpu l
              | Some uc \<Rightarrow> (case res_cpu l of
                    None \<Rightarrow> Some uc
                  | Some lc \<Rightarrow> Some \<lparr>cpu_max = inherit (cpu_max uc) (cpu_max lc),
                                    cpu_min = inherit (cpu_min uc) (cpu_min lc)\<rparr>)),
           res_memory =
             (case res_memory u of
                None \<Rightarrow> res_memory l
              | Some um \<Rightarrow> (case res_memory l of
                    None \<Rightarrow> Some um
                  | Some lm \<Rightarrow> Some \<lparr>memory_limit = inherit (memory_limit um) (memory_limit lm)\<rparr>)),
           res_storage =
             (case res_storage u of
                None \<Rightarrow> res_storage l
              | Some us \<Rightarrow> (case res_storage l of
                    None \<Rightarrow> Some us
                  | Some ls \<Rightarrow> Some
                      \<lparr>storage_capacity = inherit (storage_capacity us) (storage_capacity ls),
                       storage_class = inherit (storage_class us) (storage_class ls)\<rparr>))\<rparr>)"

section \<open>Affinity\<close>

type_synonym sched_term = string

record node_affinity =
  na_required :: "sched_term option"
  na_preferred :: "sched_term list"

record pod_affinity =
  pa_required :: "sched_term list"
  pa_preferred :: "sched_term list"

record k8s_affinity =
  nodeAffinity :: "node_affinity option"
  podAffinity :: "pod_affinity option"
  podAntiAffinity :: "pod_affinity option"

record affinity_codec =
  json_valid :: "string \<Rightarrow> bool"
  strict_decode :: "string \<Rightarrow> err + k8s_affinity"
  marshal_affinity :: "k8s_affinity \<Rightarrow> err + string"

definition DecodeAffinity ::
    "affinity_codec \<Rightarrow> raw_extension option \<Rightarrow> err + k8s_affinity option" where
  "DecodeAffinity ac raw =
     (case raw of
        None \<Rightarrow> Inr None
      | Some bytes \<Rightarrow>
          (case bytes of
             None \<Rightarrow> Inr None
           | Some b \<Rightarrow>
               if length b = 0 then Inr None
               else if \<not> json_valid ac b
               then Inl (PlainError ''affinity is not a single valid JSON value'')
               else (case strict_decode ac b of Inl e \<Rightarrow> Inl e | Inr a \<Rightarrow> Inr (Some a))))"

definition EncodeAffinity ::
    "affinity_codec \<Rightarrow> k8s_affinity option \<Rightarrow> err + raw_extension option" where
  "EncodeAffinity ac a =
     (case a of
        None \<Rightarrow> Inr None
      | Some x \<Rightarrow>
          (case marshal_affinity ac x of
             Inl e \<Rightarrow> Inl (Wrapped (FmtErrorf ''encoding affinity'') (Some e))
           | Inr raw \<Rightarrow> Inr (Some (Some raw))))"

definition node_states_nothing :: "node_affinity option \<Rightarrow> bool" where
  "node_states_nothing n =
     (case n of None \<Rightarrow> False | Some a \<Rightarrow> na_required a = None \<and> length (na_preferred a) = 0)"

definition pod_states_nothing :: "pod_affinity option \<Rightarrow> bool" where
  "pod_states_nothing p =
     (case p of None \<Rightarrow> False
      | Some a \<Rightarrow> length (pa_required a) = 0 \<and> length (pa_preferred a) = 0)"

definition NormalizeAffinity :: "k8s_affinity option \<Rightarrow> k8s_affinity option" where
  "NormalizeAffinity a =
     (case a of
        None \<Rightarrow> None
      | Some x \<Rightarrow>
          (let out = \<lparr>nodeAffinity = (if node_states_nothing (nodeAffinity x) then None else nodeAffinity x),
                      podAffinity = (if pod_states_nothing (podAffinity x) then None else podAffinity x),
                      podAntiAffinity =
                        (if pod_states_nothing (podAntiAffinity x) then None else podAntiAffinity x)\<rparr>
           in if nodeAffinity out = None \<and> podAffinity out = None \<and> podAntiAffinity out = None
              then None else Some out))"

definition droppedAffinityMembers :: "k8s_affinity option \<Rightarrow> k8s_affinity \<Rightarrow> string list" where
  "droppedAffinityMembers lower upper =
     (case NormalizeAffinity lower of
        None \<Rightarrow> []
      | Some l \<Rightarrow>
          (if nodeAffinity l \<noteq> None \<and> nodeAffinity upper = None then [''nodeAffinity''] else []) @
          (if podAffinity l \<noteq> None \<and> podAffinity upper = None then [''podAffinity''] else []) @
          (if podAntiAffinity l \<noteq> None \<and> podAntiAffinity upper = None
           then [''podAntiAffinity''] else []))"

definition foldAffinity ::
    "k8s_affinity option \<Rightarrow> k8s_affinity option \<Rightarrow> k8s_affinity option \<times> string list" where
  "foldAffinity lower upper =
     (case upper of
        None \<Rightarrow> (lower, [])
      | Some u \<Rightarrow>
          if NormalizeAffinity (Some u) = None then (None, [])
          else (Some u, droppedAffinityMembers lower u))"

section \<open>The fold\<close>

record affinity_replacement =
  ar_layer :: nat
  ar_dropped :: "string list"

text \<open>The fields a layer states, over the fields of the layers below it.\<close>

definition overlay_layer ::
    "role_group_config_spec \<Rightarrow> role_group_config_spec \<Rightarrow> role_group_config_spec" where
  "overlay_layer out layer = out
       \<lparr>graceful_shutdown_timeout :=
          (if graceful_shutdown_timeout layer \<noteq> None then graceful_shutdown_timeout layer
           else graceful_shutdown_timeout out),
        resources := foldResources (resources out) (resources layer),
        logging := MergeLoggingSpec (logging out) (logging layer)\<rparr>"

text \<open>The loop over the layers; \<open>i\<close> is the index of the next layer.\<close>

fun fold_layers :: "affinity_codec \<Rightarrow> nat \<Rightarrow> role_group_config_spec option list
    \<Rightarrow> role_group_config_spec \<Rightarrow> k8s_affinity option \<Rightarrow> affinity_replacement list
    \<Rightarrow> err + role_group_config_spec \<times> k8s_affinity option \<times> affinity_replacement list" where
  "fold_layers ac i [] out aff replaced = Inr (out, aff, replaced)"
| "fold_layers ac i (None # ls) out aff replaced = fold_layers ac (Suc i) ls out aff replaced"
| "fold_layers ac i (Some layer # ls) out aff replaced =
     (case DecodeAffinity ac (affinity layer) of
           Inl e \<Rightarrow> Inl e
         | Inr decoded \<Rightarrow>
             (let (nxt, dropped) = foldAffinity aff decoded
              in fold_layers ac (Suc i) ls (overlay_layer out layer) nxt
                   (if length dropped > 0
                    then replaced @ [\<lparr>ar_layer = i, ar_dropped = dropped\<rparr>] else replaced)))"

definition FoldCommonConfig :: "affinity_codec \<Rightarrow> role_group_config_spec option list
    \<Rightarrow> err + role_group_config_spec \<times> affinity_replacement list" where
  "FoldCommonConfig ac ls =
     (case fold_layers ac 0 ls empty_config None [] of
        Inl e \<Rightarrow> Inl e
      | Inr (out, aff, replaced) \<Rightarrow>
          (case EncodeAffinity ac (NormalizeAffinity aff) of
             Inl e \<Rightarrow> Inl e
           | Inr encoded \<Rightarrow> Inr (out\<lparr>affinity := encoded\<rparr>, replaced)))"

section \<open>Effective log levels\<close>

text \<open>
  What a merged logging spec means to its readers: the level stated for a container's console,
  file or logger, where an absent entry, a null entry and an entry without a level state nothing.
\<close>

definition eff :: "log_level_spec option \<Rightarrow> string option" where
  "eff v = (case v of None \<Rightarrow> None | Some l \<Rightarrow> if log_level l = [] then None else Some (log_level l))"

definition on_container ::
    "(logging_config_spec \<Rightarrow> string option) \<Rightarrow> string \<Rightarrow> logging_spec option \<Rightarrow> string option" where
  "on_container f c spec =
     Option.bind spec (\<lambda>s. Option.bind (fmlookup (go_map (log_containers s)) c) f)"

definition cfg_logger :: "string \<Rightarrow> logging_config_spec \<Rightarrow> string option" where
  "cfg_logger l cfg = Option.bind (fmlookup (go_map (log_loggers cfg)) l) eff"

definition logger_level :: "string \<Rightarrow> string \<Rightarrow> logging_spec option \<Rightarrow> string option" where
  "logger_level c l = on_container (cfg_logger l) c"

definition console_level :: "string \<Rightarrow> logging_spec option \<Rightarrow> string option" where
  "console_level c = on_container (\<lambda>cfg. eff (log_console cfg)) c"

definition file_level :: "string \<Rightarrow> logging_spec option \<Rightarrow> string option" where
  "file_level c = on_container (\<lambda>cfg. eff (log_file cfg)) c"

definition vector_choice :: "logging_spec option \<Rightarrow> bool option" where
  "vector_choice spec = Option.bind spec enable_vector_agent"

lemma eff_None_iff: "eff v = None \<longleftrightarrow> \<not> states_level v"
  by (auto simp: eff_def states_level_def split: option.splits)

lemma merge_loggers_lookup:
  "fmlookup (merge_loggers lgs m) k =
     (case fmlookup (go_map lgs) k of
        None \<Rightarrow> fmlookup m k
      | Some v \<Rightarrow> if states_level v then Some v else fmlookup m k)"
proof -
  have step: "(\<lambda>(k, v) m. if states_level v then fmupd k v m else m) =
      (\<lambda>(k :: string, v) m. case (if states_level v then Some v else None) of
          None \<Rightarrow> m | Some w \<Rightarrow> fmupd k w m)"
    by (auto simp: fun_eq_iff)
  show ?thesis
    unfolding merge_loggers_def step
    by (subst fold_collect_lookup) (auto split: option.splits)
qed

lemma eff_unstated: "\<not> states_level v \<Longrightarrow> eff v = None"
  by (simp add: eff_None_iff)

lemma cfg_logger_inherit:
  "Option.bind (case b of None \<Rightarrow> a
      | Some v \<Rightarrow> if states_level v then Some v else a) eff =
    inherit (Option.bind b eff) (Option.bind a eff)"
  by (auto simp: inherit_def eff_None_iff eff_unstated split: option.splits)

lemma states_level_keep:
  "(case x of None \<Rightarrow> None | Some v \<Rightarrow> if states_level v then Some v else None) =
    Option.bind x (\<lambda>v. if states_level v then Some v else None)"
  by (cases x) auto

lemma bind_states_level: "Option.bind (Option.bind x (\<lambda>v. if states_level v then Some v else None)) eff
    = Option.bind x eff"
  by (cases x) (auto simp: eff_unstated)

lemma cfg_logger_merge:
  "cfg_logger l (mergeContainerLogging r g) = inherit (cfg_logger l g) (cfg_logger l r)"
proof (cases "log_loggers r = None \<and> log_loggers g = None")
  case True
  then show ?thesis by (simp add: cfg_logger_def mergeContainerLogging_def inherit_def)
next
  case False
  then have "cfg_logger l (mergeContainerLogging r g) =
      Option.bind (fmlookup (merge_loggers (log_loggers g) (merge_loggers (log_loggers r) fmempty)) l) eff"
    by (auto simp: cfg_logger_def mergeContainerLogging_def)
  then show ?thesis
    by (simp only: merge_loggers_lookup cfg_logger_inherit fmempty_lookup states_level_keep
        bind_states_level cfg_logger_def)
qed

lemma cfg_console_merge:
  "eff (log_console (mergeContainerLogging r g)) = inherit (eff (log_console g)) (eff (log_console r))"
  by (auto simp: mergeContainerLogging_def inherit_def eff_None_iff)

lemma cfg_file_merge:
  "eff (log_file (mergeContainerLogging r g)) = inherit (eff (log_file g)) (eff (log_file r))"
  by (auto simp: mergeContainerLogging_def inherit_def eff_None_iff)

lemma inherit_None [simp]: "inherit None l = l" "inherit u None = u" "inherit (Some a) l = Some a"
  by (auto simp: inherit_def)

lemma on_container_None [simp]: "on_container f c None = None"
  by (simp add: on_container_def)

text \<open>A reader that each container merge inherits is inherited by the merge of the specs.\<close>

lemma on_container_merge:
  assumes "\<And>rc gc. f (mergeContainerLogging rc gc) = inherit (f gc) (f rc)"
  shows "on_container f c (MergeLoggingSpec role grp) =
    inherit (on_container f c grp) (on_container f c role)"
proof (cases role)
  case None
  then show ?thesis by (simp add: MergeLoggingSpec_def)
next
  case (Some r)
  show ?thesis
  proof (cases grp)
    case None
    with Some show ?thesis by (simp add: MergeLoggingSpec_def)
  next
    case (Some g)
    with \<open>role = Some r\<close> show ?thesis
      by (auto simp: MergeLoggingSpec_def on_container_def fold_combine_lookup fold_upd_entries
          assms split: option.splits dest: fmdomI)
  qed
qed

lemma vector_choice_merge:
  "vector_choice (MergeLoggingSpec role grp) = inherit (vector_choice grp) (vector_choice role)"
  by (auto simp: vector_choice_def MergeLoggingSpec_def inherit_def split: option.splits)

lemmas logging_merge = on_container_merge [OF cfg_logger_merge]
  on_container_merge [OF cfg_console_merge] on_container_merge [OF cfg_file_merge]
  vector_choice_merge

section \<open>Leaves of the config block\<close>

definition of_resources :: "(resources_spec \<Rightarrow> 'a option) \<Rightarrow> role_group_config_spec \<Rightarrow> 'a option" where
  "of_resources f cfg = Option.bind (resources cfg) f"

definition cpu_max_of :: "resources_spec \<Rightarrow> quantity option" where
  "cpu_max_of r = Option.bind (res_cpu r) cpu_max"
definition cpu_min_of :: "resources_spec \<Rightarrow> quantity option" where
  "cpu_min_of r = Option.bind (res_cpu r) cpu_min"
definition memory_limit_of :: "resources_spec \<Rightarrow> quantity option" where
  "memory_limit_of r = Option.bind (res_memory r) memory_limit"
definition capacity_of :: "resources_spec \<Rightarrow> quantity option" where
  "capacity_of r = Option.bind (res_storage r) storage_capacity"
definition storage_class_of :: "resources_spec \<Rightarrow> string option" where
  "storage_class_of r = Option.bind (res_storage r) storage_class"

lemmas resource_leaves = cpu_max_of_def cpu_min_of_def memory_limit_of_def capacity_of_def
  storage_class_of_def

lemma foldResources_leaf:
  assumes "f \<in> {cpu_max_of, cpu_min_of, memory_limit_of, capacity_of, storage_class_of}"
  shows "Option.bind (foldResources lower upper) f =
    inherit (Option.bind upper f) (Option.bind lower f)"
  using assms
  by (cases lower; cases upper)
    (auto simp: foldResources_def resource_leaves split: option.splits)

text \<open>A reader of the config block that each layer of the loop inherits.\<close>

definition layered :: "(role_group_config_spec \<Rightarrow> 'a option) \<Rightarrow> bool" where
  "layered f \<longleftrightarrow> f empty_config = None \<and>
     (\<forall>out a. f (out\<lparr>affinity := a\<rparr>) = f out) \<and>
     (\<forall>out layer. f (overlay_layer out layer) = inherit (f layer) (f out))"

lemma layered_resources:
  "f \<in> {cpu_max_of, cpu_min_of, memory_limit_of, capacity_of, storage_class_of} \<Longrightarrow>
    layered (of_resources f)"
  using foldResources_leaf [of f]
  by (simp add: layered_def overlay_layer_def of_resources_def empty_config_def)

lemma layered_timeout: "layered graceful_shutdown_timeout"
  by (auto simp: layered_def overlay_layer_def empty_config_def inherit_def)

lemma layered_logging:
  "layered (\<lambda>cfg. logger_level c l (logging cfg))"
  "layered (\<lambda>cfg. console_level c (logging cfg))"
  "layered (\<lambda>cfg. file_level c (logging cfg))"
  "layered (\<lambda>cfg. vector_choice (logging cfg))"
  by (simp_all add: layered_def overlay_layer_def empty_config_def logger_level_def console_level_def file_level_def
      logging_merge) (simp_all add: vector_choice_def)

lemma fold_layers_layered:
  assumes "layered f" and "fold_layers ac i ls out aff rep = Inr (out', aff', rep')"
  shows "f out' = fold (\<lambda>layer acc. inherit (f layer) acc) (present ls) (f out)"
  using assms(2)
proof (induction ac i ls out aff rep rule: fold_layers.induct)
  case (3 ac i layer ls out aff rep)
  from assms(1) 3 show ?case
    by (auto simp: layered_def Let_def split: sum.splits prod.splits)
qed auto

lemma fold_inherit_wins:
  "fold (\<lambda>layer acc. inherit (f layer) acc) os None = Some v \<longleftrightarrow> wins f os v"
  by (induction os rule: rev_induct) (auto simp: inherit_def split: option.splits)

lemma FoldCommonConfig_layered:
  assumes "layered f" and "FoldCommonConfig ac ls = Inr (cfg, rep)"
  shows "f cfg = Some v \<longleftrightarrow> wins f (present ls) v"
proof -
  from assms(2) obtain out aff enc where o':
      "fold_layers ac 0 ls empty_config None [] = Inr (out, aff, rep)" "cfg = out\<lparr>affinity := enc\<rparr>"
    by (auto simp: FoldCommonConfig_def split: sum.splits prod.splits)
  with assms(1) have "f cfg = f out" and e: "f empty_config = None"
    by (simp_all add: layered_def)
  with fold_layers_layered [OF assms(1) o'(1)] show ?thesis
    by (simp add: e fold_inherit_wins)
qed

section \<open>The affinity of the fold\<close>

definition decoded :: "affinity_codec \<Rightarrow> role_group_config_spec \<Rightarrow> k8s_affinity option" where
  "decoded ac layer =
     (case DecodeAffinity ac (affinity layer) of Inl e \<Rightarrow> None | Inr a \<Rightarrow> a)"

text \<open>The affinity the highest stating layer declares.\<close>

definition top_affinity ::
    "affinity_codec \<Rightarrow> role_group_config_spec option list \<Rightarrow> k8s_affinity option" where
  "top_affinity ac ls = fold (\<lambda>layer acc. inherit (decoded ac layer) acc) (present ls) None"

lemma top_affinity_wins: "top_affinity ac ls = Some u \<longleftrightarrow> wins (decoded ac) (present ls) u"
  by (simp add: top_affinity_def fold_inherit_wins)

lemma top_affinity_simps [simp]:
  "top_affinity ac [] = None"
  "top_affinity ac (ls @ [None]) = top_affinity ac ls"
  "top_affinity ac (ls @ [Some layer]) = inherit (decoded ac layer) (top_affinity ac ls)"
  by (simp_all add: top_affinity_def)

text \<open>A declaration that states nothing is a clear: the fold keeps no declaration then.\<close>

definition uncleared :: "k8s_affinity option \<Rightarrow> k8s_affinity option" where
  "uncleared a = (if NormalizeAffinity a = None then None else a)"

lemma NormalizeAffinity_None [simp]: "NormalizeAffinity None = None"
  by (simp add: NormalizeAffinity_def)

lemma normalize_uncleared [simp]: "NormalizeAffinity (uncleared a) = NormalizeAffinity a"
  by (simp add: uncleared_def)

lemma dropped_uncleared [simp]:
  "droppedAffinityMembers (uncleared a) u = droppedAffinityMembers a u"
  by (simp add: droppedAffinityMembers_def)

lemma foldAffinity_uncleared:
  "foldAffinity (uncleared a) d =
    (uncleared (inherit d a),
     (case d of None \<Rightarrow> []
      | Some u \<Rightarrow> if NormalizeAffinity (Some u) = None then [] else droppedAffinityMembers a u))"
  by (auto simp: foldAffinity_def split: option.splits) (auto simp: uncleared_def)

text \<open>The report of the layer at index \<open>j\<close>: what its declaration drops from the layers below.\<close>

definition replacement_at ::
    "affinity_codec \<Rightarrow> role_group_config_spec option list \<Rightarrow> nat \<Rightarrow> affinity_replacement option" where
  "replacement_at ac ls j =
     Option.bind (ls ! j) (\<lambda>layer. Option.bind (decoded ac layer) (\<lambda>u.
       let d = droppedAffinityMembers (top_affinity ac (take j ls)) u
       in if NormalizeAffinity (Some u) = None \<or> d = [] then None
          else Some \<lparr>ar_layer = j, ar_dropped = d\<rparr>))"

lemma fold_layers_append:
  "fold_layers ac i (ls @ ms) out aff rep =
    (case fold_layers ac i ls out aff rep of
       Inl e \<Rightarrow> Inl e
     | Inr (out', aff', rep') \<Rightarrow> fold_layers ac (i + length ls) ms out' aff' rep')"
  by (induction ac i ls out aff rep rule: fold_layers.induct)
    (auto simp: Let_def split: sum.splits prod.splits)

lemma map_filter_upt_snoc:
  "List.map_filter f [0..<Suc n] =
    List.map_filter f [0..<n] @ (case f n of None \<Rightarrow> [] | Some y \<Rightarrow> [y])"
  by (auto simp: List.map_filter_def split: option.splits)

lemma replacement_at_prefix:
  "j < length ls \<Longrightarrow> replacement_at ac (ls @ ms) j = replacement_at ac ls j"
  by (simp add: replacement_at_def nth_append)

lemma map_filter_cong:
  "(\<And>x. x \<in> set xs \<Longrightarrow> f x = g x) \<Longrightarrow> List.map_filter f xs = List.map_filter g xs"
  by (induction xs) (auto simp: List.map_filter_def)

lemma fold_layers_affinity:
  "fold_layers ac 0 ls out0 None [] = Inr (out, aff, rep) \<Longrightarrow>
    aff = uncleared (top_affinity ac ls) \<and>
    rep = List.map_filter (replacement_at ac ls) [0..<length ls] \<and>
    (\<forall>layer \<in> set (present ls). \<exists>a. DecodeAffinity ac (affinity layer) = Inr a)"
proof (induction ls arbitrary: out aff rep rule: rev_induct)
  case Nil
  then show ?case by (simp add: uncleared_def List.map_filter_def)
next
  case (snoc l ls)
  from snoc.prems obtain o1 a1 r1 where 1: "fold_layers ac 0 ls out0 None [] = Inr (o1, a1, r1)"
    and 2: "fold_layers ac (length ls) [l] o1 a1 r1 = Inr (out, aff, rep)"
    by (auto simp: fold_layers_append simp del: fold_layers.simps split: sum.splits)
  note IH = snoc.IH [OF 1]
  have reports: "List.map_filter (replacement_at ac (ls @ [l])) [0..<length ls] =
      List.map_filter (replacement_at ac ls) [0..<length ls]"
    by (rule map_filter_cong) (simp add: replacement_at_prefix)
  show ?case
  proof (cases l)
    case None
    then have "replacement_at ac (ls @ [l]) (length ls) = None"
      by (simp add: replacement_at_def)
    with None IH 2 reports show ?thesis
      by (simp add: map_filter_upt_snoc del: upt.simps upt_Suc)
  next
    case (Some layer)
    with 2 obtain d where d: "DecodeAffinity ac (affinity layer) = Inr d"
      by (auto simp: Let_def split: sum.splits)
    then have dd: "decoded ac layer = d" by (simp add: decoded_def)
    from 2 Some d IH have "aff = uncleared (inherit d (top_affinity ac ls))"
      and "rep = r1 @ (case replacement_at ac (ls @ [l]) (length ls) of None \<Rightarrow> [] | Some y \<Rightarrow> [y])"
      by (auto simp: Let_def foldAffinity_uncleared replacement_at_def dd split: option.splits if_splits)
    with IH d dd Some reports show ?thesis
      by (simp add: map_filter_upt_snoc del: upt.simps upt_Suc)
  qed
qed

lemma FoldCommonConfig_affinity:
  assumes "FoldCommonConfig ac ls = Inr (cfg, rep)"
  shows "EncodeAffinity ac (NormalizeAffinity (top_affinity ac ls)) = Inr (affinity cfg)"
    and "rep = List.map_filter (replacement_at ac ls) [0..<length ls]"
    and "\<forall>layer \<in> set (present ls). \<exists>a. DecodeAffinity ac (affinity layer) = Inr a"
proof -
  from assms obtain out aff enc where f:
      "fold_layers ac 0 ls empty_config None [] = Inr (out, aff, rep)"
      "EncodeAffinity ac (NormalizeAffinity aff) = Inr enc" "cfg = out\<lparr>affinity := enc\<rparr>"
    by (auto simp: FoldCommonConfig_def split: sum.splits prod.splits)
  note a = fold_layers_affinity [OF f(1)]
  from a f show "EncodeAffinity ac (NormalizeAffinity (top_affinity ac ls)) = Inr (affinity cfg)"
    by simp
  from a show "rep = List.map_filter (replacement_at ac ls) [0..<length ls]"
    and "\<forall>layer \<in> set (present ls). \<exists>a. DecodeAffinity ac (affinity layer) = Inr a" by blast+
qed

definition has_member :: "k8s_affinity \<Rightarrow> string \<Rightarrow> bool" where
  "has_member a m \<longleftrightarrow>
     m = ''nodeAffinity'' \<and> nodeAffinity a \<noteq> None \<or>
     m = ''podAffinity'' \<and> podAffinity a \<noteq> None \<or>
     m = ''podAntiAffinity'' \<and> podAntiAffinity a \<noteq> None"

lemma in_guarded: "x \<in> set (if b then [y] else []) \<longleftrightarrow> b \<and> x = y"
  by auto

lemma in_dropped_Some:
  assumes "NormalizeAffinity lower = Some l"
  shows "m \<in> set (droppedAffinityMembers lower u) \<longleftrightarrow> has_member l m \<and> \<not> has_member u m"
proof -
  consider "m = ''nodeAffinity''" | "m = ''podAffinity''"
    | "m \<noteq> ''nodeAffinity''" "m \<noteq> ''podAffinity''" by argo
  then show ?thesis
    unfolding droppedAffinityMembers_def has_member_def assms option.case set_append Un_iff in_guarded
    by cases (simp, simp, argo)
qed

lemma in_dropped:
  "m \<in> set (droppedAffinityMembers lower u) \<longleftrightarrow>
    (\<exists>l. NormalizeAffinity lower = Some l \<and> has_member l m \<and> \<not> has_member u m)"
proof (cases "NormalizeAffinity lower")
  case None
  then show ?thesis by (simp add: droppedAffinityMembers_def)
next
  case (Some l)
  with in_dropped_Some [OF Some] show ?thesis by simp
qed

lemma replacement_at_eq:
  "ls ! j = Some layer \<Longrightarrow> decoded ac layer = Some u \<Longrightarrow> replacement_at ac ls j =
    (let d = droppedAffinityMembers (top_affinity ac (take j ls)) u
     in if NormalizeAffinity (Some u) = None \<or> d = [] then None
        else Some \<lparr>ar_layer = j, ar_dropped = d\<rparr>)"
  by (simp add: replacement_at_def)

lemma replacement_at_SomeD:
  "replacement_at ac ls j = Some r \<Longrightarrow>
    \<exists>layer u. ls ! j = Some layer \<and> decoded ac layer = Some u"
  by (auto simp: replacement_at_def bind_eq_Some_conv)

lemma replacement_at_member:
  "(\<exists>r. replacement_at ac ls j = Some r \<and> m \<in> set (ar_dropped r)) \<longleftrightarrow>
    (\<exists>layer u l. ls ! j = Some layer \<and> decoded ac layer = Some u \<and>
      NormalizeAffinity (Some u) \<noteq> None \<and>
      NormalizeAffinity (top_affinity ac (take j ls)) = Some l \<and> has_member l m \<and>
      \<not> has_member u m)" (is "?A \<longleftrightarrow> ?B")
proof (cases "\<exists>layer u. ls ! j = Some layer \<and> decoded ac layer = Some u")
  case False
  then show ?thesis using replacement_at_SomeD by blast
next
  case True
  then obtain layer u where lu: "ls ! j = Some layer" "decoded ac layer = Some u" by blast
  have "?A \<longleftrightarrow> NormalizeAffinity (Some u) \<noteq> None \<and>
      m \<in> set (droppedAffinityMembers (top_affinity ac (take j ls)) u)"
    by (auto simp: replacement_at_eq [OF lu] Let_def split: if_splits)
  also have "\<dots> \<longleftrightarrow> ?B"
    by (simp add: in_dropped lu)
  finally show ?thesis .
qed

lemma replacement_at_layer: "replacement_at ac ls j = Some r \<Longrightarrow> ar_layer r = j"
  by (auto simp: replacement_at_def Let_def bind_eq_Some_conv split: if_splits)

section \<open>Properties of the config fold\<close>

text \<open>
  C30. Every leaf of the folded config block is the value of the highest layer that states it, and
  absent when none does: cpu, memory and storage quantities, the storage class, the graceful shutdown
  timeout, the level of each logger, console and file of each container, and the vector switch. No
  layer's sibling leaf is lost and an empty block states nothing.
\<close>

theorem FoldCommonConfig_precedence:
  assumes "FoldCommonConfig ac ls = Inr (cfg, rep)"
  shows "(\<forall>f \<in> {cpu_max_of, cpu_min_of, memory_limit_of, capacity_of, storage_class_of}. \<forall>v.
      of_resources f cfg = Some v \<longleftrightarrow> wins (of_resources f) (present ls) v) \<and>
    (\<forall>v. graceful_shutdown_timeout cfg = Some v \<longleftrightarrow> wins graceful_shutdown_timeout (present ls) v) \<and>
    (\<forall>c l v. logger_level c l (logging cfg) = Some v \<longleftrightarrow>
      wins (\<lambda>layer. logger_level c l (logging layer)) (present ls) v) \<and>
    (\<forall>c v. console_level c (logging cfg) = Some v \<longleftrightarrow>
      wins (\<lambda>layer. console_level c (logging layer)) (present ls) v) \<and>
    (\<forall>c v. file_level c (logging cfg) = Some v \<longleftrightarrow>
      wins (\<lambda>layer. file_level c (logging layer)) (present ls) v) \<and>
    (\<forall>v. vector_choice (logging cfg) = Some v \<longleftrightarrow>
      wins (\<lambda>layer. vector_choice (logging layer)) (present ls) v)"
  using FoldCommonConfig_layered [OF layered_resources assms]
    FoldCommonConfig_layered [OF layered_timeout assms]
    FoldCommonConfig_layered [OF layered_logging(1) assms]
    FoldCommonConfig_layered [OF layered_logging(2) assms]
    FoldCommonConfig_layered [OF layered_logging(3) assms]
    FoldCommonConfig_layered [OF layered_logging(4) assms]
  by blast

definition sample_codec :: affinity_codec where
  "sample_codec =
     \<lparr>json_valid = (\<lambda>b. b \<noteq> ''?''),
      strict_decode = (\<lambda>b.
        if b = ''spread'' then Inr \<lparr>nodeAffinity = None, podAffinity = None,
          podAntiAffinity = Some \<lparr>pa_required = [''spread''], pa_preferred = []\<rparr>\<rparr>
        else if b = ''pin'' then Inr \<lparr>nodeAffinity = Some \<lparr>na_required = Some ''pin'', na_preferred = []\<rparr>,
          podAffinity = None, podAntiAffinity = None\<rparr>
        else Inl (PlainError ''unknown field'')),
      marshal_affinity = (\<lambda>a. Inr (if nodeAffinity a \<noteq> None then ''pin'' else ''spread''))\<rparr>"

definition sample_layers :: "role_group_config_spec option list" where
  "sample_layers =
     [Some (empty_config\<lparr>affinity := Some (Some ''spread''), graceful_shutdown_timeout := Some ''2m'',
        resources := Some \<lparr>res_cpu = Some \<lparr>cpu_max = Some ''4'', cpu_min = Some ''1''\<rparr>,
          res_memory = None, res_storage = None\<rparr>\<rparr>),
      None,
      Some (empty_config\<lparr>affinity := Some (Some ''pin''),
        resources := Some \<lparr>res_cpu = Some \<lparr>cpu_max = Some ''8'', cpu_min = None\<rparr>,
          res_memory = None, res_storage = None\<rparr>\<rparr>)]"

definition sample_config :: role_group_config_spec where
  "sample_config = empty_config\<lparr>affinity := Some (Some ''pin''), graceful_shutdown_timeout := Some ''2m'',
     resources := Some \<lparr>res_cpu = Some \<lparr>cpu_max = Some ''8'', cpu_min = Some ''1''\<rparr>,
       res_memory = None, res_storage = None\<rparr>\<rparr>"

definition spread :: k8s_affinity where
  "spread = \<lparr>nodeAffinity = None, podAffinity = None,
          podAntiAffinity = Some \<lparr>pa_required = [''spread''], pa_preferred = []\<rparr>\<rparr>"

definition pin :: k8s_affinity where
  "pin = \<lparr>nodeAffinity = Some \<lparr>na_required = Some ''pin'', na_preferred = []\<rparr>,
          podAffinity = None, podAntiAffinity = None\<rparr>"

lemma sample_affinities:
  "DecodeAffinity sample_codec (Some (Some ''spread'')) = Inr (Some spread)"
  "DecodeAffinity sample_codec (Some (Some ''pin'')) = Inr (Some pin)"
  "EncodeAffinity sample_codec (Some pin) = Inr (Some (Some ''pin''))"
  "NormalizeAffinity (Some spread) = Some spread" "NormalizeAffinity (Some pin) = Some pin"
  "foldAffinity None (Some spread) = (Some spread, [])"
  "foldAffinity (Some spread) (Some pin) = (Some pin, [''podAntiAffinity''])"
  by code_simp+

lemma sample_layers_fold:
  "fold_layers sample_codec 0 sample_layers empty_config None [] =
    Inr (empty_config\<lparr>graceful_shutdown_timeout := Some ''2m'',
       resources := Some \<lparr>res_cpu = Some \<lparr>cpu_max = Some ''8'', cpu_min = Some ''1''\<rparr>,
         res_memory = None, res_storage = None\<rparr>\<rparr>,
      Some pin, [\<lparr>ar_layer = 2, ar_dropped = [''podAntiAffinity'']\<rparr>])"
  by (simp add: sample_layers_def overlay_layer_def empty_config_def sample_affinities
      foldResources_def inherit_def MergeLoggingSpec_def)

lemma sample_fold:
  "FoldCommonConfig sample_codec sample_layers =
    Inr (sample_config, [\<lparr>ar_layer = 2, ar_dropped = [''podAntiAffinity'']\<rparr>])"
  by (simp add: FoldCommonConfig_def sample_layers_fold sample_affinities sample_config_def)

theorem FoldCommonConfig_precedence_witness:
  "wins (of_resources cpu_max_of) (present sample_layers) ''8'' \<and>
   wins (of_resources cpu_min_of) (present sample_layers) ''1'' \<and>
   wins graceful_shutdown_timeout (present sample_layers) ''2m''"
proof -
  note p = FoldCommonConfig_precedence [OF sample_fold]
  have "of_resources cpu_max_of sample_config = Some ''8''"
    and "of_resources cpu_min_of sample_config = Some ''1''"
    and "graceful_shutdown_timeout sample_config = Some ''2m''"
    by (simp_all add: sample_config_def of_resources_def cpu_max_of_def cpu_min_of_def)
  with p show ?thesis by blast
qed

text \<open>
  Affinity is replaced wholesale and never silently: a fold succeeds only when every layer's
  affinity decodes, its result is the normalized declaration of the highest layer that states one
  (nothing when no layer does), and the reports name exactly the members a layer's declaration drops
  from the effective declaration below it, a clearing declaration excepted.
\<close>

theorem FoldCommonConfig_affinity_replaced:
  assumes "FoldCommonConfig ac ls = Inr (cfg, rep)"
  shows "(\<forall>layer \<in> set (present ls). \<exists>a. DecodeAffinity ac (affinity layer) = Inr a) \<and>
    (\<forall>u. wins (decoded ac) (present ls) u \<longrightarrow>
      EncodeAffinity ac (NormalizeAffinity (Some u)) = Inr (affinity cfg)) \<and>
    ((\<nexists>u. wins (decoded ac) (present ls) u) \<longrightarrow> affinity cfg = None) \<and>
    (\<forall>j m. (\<exists>r \<in> set rep. ar_layer r = j \<and> m \<in> set (ar_dropped r)) \<longleftrightarrow>
      j < length ls \<and> (\<exists>layer u l. ls ! j = Some layer \<and> decoded ac layer = Some u \<and>
        NormalizeAffinity (Some u) \<noteq> None \<and>
        NormalizeAffinity (top_affinity ac (take j ls)) = Some l \<and>
        has_member l m \<and> \<not> has_member u m))"
proof (intro conjI)
  note f = FoldCommonConfig_affinity [OF assms]
  show "\<forall>layer \<in> set (present ls). \<exists>a. DecodeAffinity ac (affinity layer) = Inr a"
    by (rule f(3))
  show "\<forall>u. wins (decoded ac) (present ls) u \<longrightarrow>
      EncodeAffinity ac (NormalizeAffinity (Some u)) = Inr (affinity cfg)"
    using f(1) by (auto simp: top_affinity_wins [symmetric])
  show "(\<nexists>u. wins (decoded ac) (present ls) u) \<longrightarrow> affinity cfg = None"
    using f(1) by (auto simp: top_affinity_wins [symmetric] EncodeAffinity_def)
  have "(\<exists>r \<in> set rep. ar_layer r = j \<and> m \<in> set (ar_dropped r)) \<longleftrightarrow>
      j < length ls \<and> (\<exists>r. replacement_at ac ls j = Some r \<and> m \<in> set (ar_dropped r))" for j m
    by (auto simp: f(2) in_map_filter Bex_def dest: replacement_at_layer)
  then show "\<forall>j m. (\<exists>r \<in> set rep. ar_layer r = j \<and> m \<in> set (ar_dropped r)) \<longleftrightarrow>
      j < length ls \<and> (\<exists>layer u l. ls ! j = Some layer \<and> decoded ac layer = Some u \<and>
        NormalizeAffinity (Some u) \<noteq> None \<and>
        NormalizeAffinity (top_affinity ac (take j ls)) = Some l \<and>
        has_member l m \<and> \<not> has_member u m)"
    by (simp only: replacement_at_member simp_thms)
qed

theorem FoldCommonConfig_affinity_replaced_witness:
  "has_member spread ''podAntiAffinity'' \<and> \<not> has_member pin ''podAntiAffinity'' \<and>
   EncodeAffinity sample_codec (NormalizeAffinity (Some pin)) = Inr (affinity sample_config)"
proof -
  have "present sample_layers =
      [the (sample_layers ! 0)] @ [the (sample_layers ! 2)]"
    by (simp add: sample_layers_def)
  moreover have "decoded sample_codec (the (sample_layers ! 2)) = Some pin"
    by (simp add: decoded_def sample_layers_def empty_config_def sample_affinities)
  ultimately have "wins (decoded sample_codec) (present sample_layers) pin"
    using wins_snoc [of "decoded sample_codec" "[the (sample_layers ! 0)]"] by simp
  with FoldCommonConfig_affinity_replaced [OF sample_fold]
  have "EncodeAffinity sample_codec (NormalizeAffinity (Some pin)) = Inr (affinity sample_config)"
    by blast
  then show ?thesis by (simp add: has_member_def spread_def pin_def)
qed

end
