(* ===== verification/Apply.thy ===== *)
theory Apply
  imports Prelude Errors
begin

text \<open>
  Copying the desired state onto a live object: \<open>pkg/reconciler/apply.go\<close>.

  Mutation of the live object is a function from the old to the new value. Parts of the Kubernetes
  types the code only moves as a whole (an update strategy, the rest of a container) are opaque
  strings, and values the code compares with \<open>apiequality.Semantic.DeepEqual\<close> are canonical: two
  semantically equal values are one HOL value. The order in which Go enumerates a set of claim names
  is the parameter \<open>rng\<close>; the unstructured converter of apimachinery is the parameter
  \<open>object_converter\<close>.
\<close>

section \<open>Objects\<close>

record volume_mount =
  mount_name :: string
  mount_path :: string
  mount_rest :: string

record container =
  c_name :: string
  c_mounts :: "volume_mount list"
  c_rest :: string

record pod_volume =
  vol_name :: string
  vol_rest :: string

record pod_spec =
  init_containers :: "container list"
  containers :: "container list"
  volumes :: "pod_volume list"
  pod_rest :: string

record pod_template =
  tpl_labels :: "string gomap"
  tpl_annotations :: "string gomap"
  tpl_spec :: pod_spec

record pvc =
  pvc_name :: string
  pvc_volume_mode :: "string option"
  pvc_status :: string
  pvc_rest :: string

record label_selector =
  match_labels :: "string gomap"
  match_expressions :: string

record sts_spec =
  sts_replicas :: "int option"
  sts_selector :: "label_selector option"
  sts_service_name :: string
  sts_template :: pod_template
  sts_claims :: "pvc list"
  sts_policy :: string
  sts_rest :: string

record service_port =
  port_name :: string
  port_number :: int
  node_port :: int
  port_rest :: string

record service_spec =
  cluster_ip :: string
  cluster_ips :: "string list"
  ip_families :: "string list"
  ip_family_policy :: "string option"
  health_check_node_port :: int
  load_balancer_class :: "string option"
  svc_ports :: "service_port list"
  svc_rest :: string

record job_spec =
  job_selector :: "string option"
  job_template :: pod_template
  job_completions :: "int option"
  job_completion_mode :: "string option"
  job_manual_selector :: "bool option"
  job_rest :: string

section \<open>Volume mounts of preserved claims\<close>

definition claimTemplateNames :: "pvc list \<Rightarrow> string fset" where
  "claimTemplateNames claims = fset_of_list (map pvc_name claims)"

definition hasVolume :: "pod_volume list \<Rightarrow> string \<Rightarrow> bool" where
  "hasVolume vs name = list_ex (\<lambda>v. vol_name v = name) vs"

definition forEachContainer :: "(container \<Rightarrow> container) \<Rightarrow> pod_template \<Rightarrow> pod_template" where
  "forEachContainer f t = t\<lparr>tpl_spec := (tpl_spec t)
     \<lparr>init_containers := map f (init_containers (tpl_spec t)),
      containers := map f (containers (tpl_spec t))\<rparr>\<rparr>"

definition allContainers :: "pod_template \<Rightarrow> container list" where
  "allContainers t = init_containers (tpl_spec t) @ containers (tpl_spec t)"

definition dropVolumeMount :: "string \<Rightarrow> pod_template \<Rightarrow> pod_template" where
  "dropVolumeMount name =
     forEachContainer (\<lambda>c. c\<lparr>c_mounts := filter (\<lambda>m. mount_name m \<noteq> name) (c_mounts c)\<rparr>)"

definition findTemplateContainer :: "pod_template \<Rightarrow> string \<Rightarrow> container option" where
  "findTemplateContainer t name = find_key c_name name (allContainers t)"

text \<open>A write through the pointer \<open>findTemplateContainer\<close> returns.\<close>

definition updateTemplateContainer ::
    "string \<Rightarrow> (container \<Rightarrow> container) \<Rightarrow> pod_template \<Rightarrow> pod_template" where
  "updateTemplateContainer name g t =
     (if find_key c_name name (init_containers (tpl_spec t)) \<noteq> None
      then t\<lparr>tpl_spec := (tpl_spec t)
        \<lparr>init_containers := update_key c_name name g (init_containers (tpl_spec t))\<rparr>\<rparr>
      else t\<lparr>tpl_spec := (tpl_spec t)
        \<lparr>containers := update_key c_name name g (containers (tpl_spec t))\<rparr>\<rparr>)"

definition mountsPath :: "volume_mount list \<Rightarrow> string \<Rightarrow> bool" where
  "mountsPath ms path = list_ex (\<lambda>m. mount_path m = path) ms"

definition restore_mount :: "string \<Rightarrow> volume_mount \<Rightarrow> volume_mount list \<Rightarrow> volume_mount list" where
  "restore_mount name m acc =
     (if mount_name m \<noteq> name then acc
      else if mountsPath acc (mount_path m) then acc
      else acc @ [m])"

definition restoreVolumeMount :: "string \<Rightarrow> pod_template \<Rightarrow> pod_template \<Rightarrow> pod_template" where
  "restoreVolumeMount name liveTemplate t =
     fold (\<lambda>lc t. updateTemplateContainer (c_name lc)
             (\<lambda>c. c\<lparr>c_mounts := fold (restore_mount name) (c_mounts lc) (c_mounts c)\<rparr>) t)
       (allContainers liveTemplate) t"

definition reconcileClaimVolumeMounts ::
    "(string fset \<Rightarrow> string list) \<Rightarrow> pod_template \<Rightarrow> pvc list \<Rightarrow> pvc list \<Rightarrow> pod_template option
      \<Rightarrow> pod_template" where
  "reconcileClaimVolumeMounts rng t desiredClaims liveClaims liveTemplate =
     (let liveNames = claimTemplateNames liveClaims;
          desiredNames = claimTemplateNames desiredClaims;
          t1 = fold (\<lambda>name t.
                 if name |\<in>| liveNames then t
                 else if hasVolume (volumes (tpl_spec t)) name then t
                 else dropVolumeMount name t) (rng desiredNames) t
      in case liveTemplate of
           None \<Rightarrow> t1
         | Some lt \<Rightarrow>
             fold (\<lambda>name t. if name |\<in>| desiredNames then t else restoreVolumeMount name lt t)
               (rng liveNames) t1)"

section \<open>StatefulSet\<close>

definition claimTemplateAsRequested :: "pvc \<Rightarrow> pvc \<Rightarrow> pvc" where
  "claimTemplateAsRequested desired live =
     (let requested = (if pvc_volume_mode desired = None then live\<lparr>pvc_volume_mode := None\<rparr> else live)
      in if pvc_status desired = [] then requested\<lparr>pvc_status := []\<rparr> else requested)"

definition claimTemplatesDiffer :: "pvc list \<Rightarrow> pvc list \<Rightarrow> bool" where
  "claimTemplatesDiffer desired live =
     (length desired \<noteq> length live \<or>
      list_ex (\<lambda>(d, l). d \<noteq> claimTemplateAsRequested d l) (zip desired live))"

definition mergeAnnotations :: "string gomap \<Rightarrow> string gomap \<Rightarrow> string gomap" where
  "mergeAnnotations live desired =
     (if live = fmempty then desired
      else put_all (entries desired) (put_all (entries live) fmempty))"

definition copyStatefulSetState ::
    "(string fset \<Rightarrow> string list) \<Rightarrow> sts_spec \<Rightarrow> sts_spec \<Rightarrow> sts_spec \<times> string list" where
  "copyStatefulSetState rng desired live =
     (let claimsDiffer = claimTemplatesDiffer (sts_claims desired) (sts_claims live);
          liveTemplate = (if claimsDiffer then Some (sts_template live) else None);
          ignored =
            (if sts_selector desired \<noteq> None \<and> sts_selector desired \<noteq> sts_selector live
             then [''spec.selector''] else []) @
            (if sts_service_name desired \<noteq> [] \<and> sts_service_name desired \<noteq> sts_service_name live
             then [''spec.serviceName''] else []) @
            (if claimsDiffer then [''spec.volumeClaimTemplates''] else []) @
            (if sts_policy desired \<noteq> [] \<and> sts_policy desired \<noteq> sts_policy live
             then [''spec.podManagementPolicy''] else []);
          templateAnnotations = tpl_annotations (sts_template live);
          spec1 = desired\<lparr>sts_selector := sts_selector live,
                          sts_service_name := sts_service_name live,
                          sts_claims := sts_claims live,
                          sts_policy := sts_policy live\<rparr>;
          tpl = (if claimsDiffer
                 then reconcileClaimVolumeMounts rng (sts_template desired) (sts_claims desired)
                        (sts_claims live) liveTemplate
                 else sts_template spec1)
      in (spec1\<lparr>sts_template := tpl\<lparr>tpl_annotations :=
             mergeAnnotations templateAnnotations (tpl_annotations (sts_template desired))\<rparr>\<rparr>,
          ignored))"

section \<open>Service and Job\<close>

definition findServicePort :: "service_port list \<Rightarrow> service_port \<Rightarrow> service_port option" where
  "findServicePort livePorts desired =
     (case (if port_name desired \<noteq> [] then find_key port_name (port_name desired) livePorts else None) of
        Some p \<Rightarrow> Some p
      | None \<Rightarrow> find_key port_number (port_number desired) livePorts)"

definition carry_node_port :: "service_port list \<Rightarrow> service_port \<Rightarrow> service_port" where
  "carry_node_port livePorts p =
     (if node_port p \<noteq> 0 then p
      else case findServicePort livePorts p of
             Some allocated \<Rightarrow> p\<lparr>node_port := node_port allocated\<rparr>
           | None \<Rightarrow> p)"

definition copyServiceState :: "service_spec \<Rightarrow> service_spec \<Rightarrow> service_spec \<times> string list" where
  "copyServiceState desired live =
     (desired
        \<lparr>cluster_ip := cluster_ip live,
         cluster_ips := cluster_ips live,
         ip_families := ip_families live,
         ip_family_policy := ip_family_policy live,
         health_check_node_port := health_check_node_port live,
         load_balancer_class := load_balancer_class live,
         svc_ports := map (carry_node_port (svc_ports live)) (svc_ports desired)\<rparr>,
      if cluster_ip desired \<noteq> [] \<and> cluster_ip desired \<noteq> cluster_ip live
      then [''spec.clusterIP''] else [])"

definition copyJobState :: "job_spec \<Rightarrow> job_spec \<Rightarrow> job_spec \<times> string list" where
  "copyJobState desired live =
     (desired
        \<lparr>job_selector := job_selector live,
         job_template := job_template live,
         job_completions := job_completions live,
         job_completion_mode := job_completion_mode live,
         job_manual_selector := job_manual_selector live\<rparr>,
      (if tpl_spec (job_template desired) \<noteq> tpl_spec (job_template live)
       then [''spec.template''] else []) @
      (if job_completions desired \<noteq> None \<and> job_completions desired \<noteq> job_completions live
       then [''spec.completions''] else []))"

section \<open>Any object\<close>

type_synonym json = string

text \<open>The reference of a role binding, and its subjects.\<close>

record role_ref =
  ref_api_group :: string
  ref_kind :: string
  ref_name :: string

record subject =
  sub_kind :: string
  sub_name :: string
  sub_namespace :: string

datatype payload =
    StatefulSet sts_spec
  | ConfigMap "string gomap" "string gomap"
  | Service service_spec
  | ServiceAccount string
  | Job job_spec
  | PodDisruptionBudget string
  | RBACRole "string list"
  | RBACBinding role_ref "subject list"
  | Secret "string gomap" string
  | Unstructured "json gomap"
  | Typed string string

record object =
  labels :: "string gomap"
  annotations :: "string gomap"
  payload :: payload

record object_converter =
  ToUnstructured :: "object \<Rightarrow> err + json gomap"
  FromUnstructured :: "json gomap \<Rightarrow> object \<Rightarrow> err + object"

definition isReservedTopLevelField :: "string \<Rightarrow> bool" where
  "isReservedTopLevelField f =
     (f = ''apiVersion'' \<or> f = ''kind'' \<or> f = ''metadata'' \<or> f = ''status'')"

definition copy_fields :: "json gomap \<Rightarrow> json gomap \<Rightarrow> json gomap" where
  "copy_fields desiredMap m =
     fold (\<lambda>(f, v) m. if isReservedTopLevelField f then m else fmupd f v m) (entries desiredMap) m"

definition copyGenericState :: "object_converter \<Rightarrow> object \<Rightarrow> object \<Rightarrow> err + object" where
  "copyGenericState conv desired live =
     (case ToUnstructured conv desired of
        Inl e \<Rightarrow> Inl (Wrapped (FmtErrorf ''failed to convert desired object to unstructured'') (Some e))
      | Inr desiredMap \<Rightarrow>
          (case payload live of
             Unstructured content \<Rightarrow>
               Inr (live\<lparr>payload := Unstructured (copy_fields desiredMap content)\<rparr>)
           | _ \<Rightarrow>
               (case ToUnstructured conv live of
                  Inl e \<Rightarrow>
                    Inl (Wrapped (FmtErrorf ''failed to convert live object to unstructured'') (Some e))
                | Inr liveMap \<Rightarrow>
                    (case FromUnstructured conv (copy_fields desiredMap liveMap) live of
                       Inl e \<Rightarrow> Inl (Wrapped
                         (FmtErrorf ''failed to convert merged state back into live object'') (Some e))
                     | Inr obj \<Rightarrow> Inr obj))))"

definition type_mismatch :: "'a \<Rightarrow> err + 'b" where
  "type_mismatch live = Inl (PlainError ''desired object type does not match live object type'')"

definition copyDesiredState ::
    "(string fset \<Rightarrow> string list) \<Rightarrow> object_converter \<Rightarrow> object \<Rightarrow> object
      \<Rightarrow> err + object \<times> string list" where
  "copyDesiredState rng conv desired live0 =
     (let live1 = live0\<lparr>labels := labels desired\<rparr>;
          live = (if annotations desired \<noteq> fmempty
                  then live1\<lparr>annotations := put_all (entries (annotations desired)) (annotations live1)\<rparr>
                  else live1)
      in case payload live of
           StatefulSet l \<Rightarrow> (case payload desired of
               StatefulSet d \<Rightarrow>
                 (let (s, ignored) = copyStatefulSetState rng d l
                  in Inr (live\<lparr>payload := StatefulSet s\<rparr>, ignored))
             | _ \<Rightarrow> type_mismatch live)
         | ConfigMap data bin \<Rightarrow> (case payload desired of
               ConfigMap d b \<Rightarrow> Inr (live\<lparr>payload := ConfigMap d b\<rparr>, [])
             | _ \<Rightarrow> type_mismatch live)
         | Service l \<Rightarrow> (case payload desired of
               Service d \<Rightarrow>
                 (let (s, ignored) = copyServiceState d l
                  in Inr (live\<lparr>payload := Service s\<rparr>, ignored))
             | _ \<Rightarrow> type_mismatch live)
         | ServiceAccount s \<Rightarrow> Inr (live, [])
         | Job l \<Rightarrow> (case payload desired of
               Job d \<Rightarrow>
                 (let (s, ignored) = copyJobState d l
                  in Inr (live\<lparr>payload := Job s\<rparr>, ignored))
             | _ \<Rightarrow> type_mismatch live)
         | PodDisruptionBudget s \<Rightarrow> (case payload desired of
               PodDisruptionBudget d \<Rightarrow> Inr (live\<lparr>payload := PodDisruptionBudget d\<rparr>, [])
             | _ \<Rightarrow> type_mismatch live)
         | _ \<Rightarrow> (case copyGenericState conv desired live of
               Inl e \<Rightarrow> Inl e
             | Inr obj \<Rightarrow> Inr (obj, [])))"

section \<open>The mount reconciliation in closed form\<close>

definition container_names :: "pod_template \<Rightarrow> string list" where
  "container_names t = map c_name (allContainers t)"

lemma forEachContainer_comp:
  "forEachContainer f (forEachContainer g t) = forEachContainer (f \<circ> g) t"
  by (simp add: forEachContainer_def)

lemma forEachContainer_cong:
  "(\<And>c. c \<in> set (allContainers t) \<Longrightarrow> f c = g c) \<Longrightarrow> forEachContainer f t = forEachContainer g t"
  by (simp add: forEachContainer_def allContainers_def)

lemma forEachContainer_id [simp]: "forEachContainer (\<lambda>c. c) t = t"
  by (simp add: forEachContainer_def)

lemma allContainers_forEach [simp]: "allContainers (forEachContainer f t) = map f (allContainers t)"
  by (simp add: forEachContainer_def allContainers_def)

lemma forEachContainer_fields [simp]:
  "tpl_labels (forEachContainer f t) = tpl_labels t"
  "tpl_annotations (forEachContainer f t) = tpl_annotations t"
  "volumes (tpl_spec (forEachContainer f t)) = volumes (tpl_spec t)"
  "pod_rest (tpl_spec (forEachContainer f t)) = pod_rest (tpl_spec t)"
  by (simp_all add: forEachContainer_def)

lemma container_names_forEach:
  "(\<And>c. c_name (f c) = c_name c) \<Longrightarrow> container_names (forEachContainer f t) = container_names t"
  by (simp add: container_names_def)

lemma update_key_distinct:
  "distinct (map f xs) \<Longrightarrow> update_key f k g xs = map (\<lambda>x. if f x = k then g x else x) xs"
proof (induction xs)
  case (Cons x xs)
  show ?case
  proof (cases "f x = k")
    case True
    with Cons.prems have "\<forall>y \<in> set xs. f y \<noteq> k" by (auto simp: image_iff)
    then have "map (\<lambda>x. if f x = k then g x else x) xs = xs"
      by (simp add: map_idI)
    with True show ?thesis by simp
  next
    case False
    with Cons show ?thesis by simp
  qed
qed simp

lemma updateTemplateContainer_forEach:
  assumes "distinct (container_names t)"
  shows "updateTemplateContainer n g t = forEachContainer (\<lambda>c. if c_name c = n then g c else c) t"
proof -
  have d: "distinct (map c_name (init_containers (tpl_spec t)))"
      "distinct (map c_name (containers (tpl_spec t)))"
    and disj: "set (map c_name (init_containers (tpl_spec t))) \<inter>
      set (map c_name (containers (tpl_spec t))) = {}"
    using assms by (auto simp: container_names_def allContainers_def)
  show ?thesis
  proof (cases "find_key c_name n (init_containers (tpl_spec t)) = None")
    case True
    then have "\<forall>c \<in> set (init_containers (tpl_spec t)). c_name c \<noteq> n"
      by (auto simp: find_key_None)
    then have "map (\<lambda>c. if c_name c = n then g c else c) (init_containers (tpl_spec t)) =
        init_containers (tpl_spec t)"
      by (simp add: map_idI)
    with True show ?thesis
      by (simp add: updateTemplateContainer_def forEachContainer_def update_key_distinct d)
  next
    case False
    then have "n \<in> set (map c_name (init_containers (tpl_spec t)))"
      by (auto simp: find_key_None)
    with disj have "\<forall>c \<in> set (containers (tpl_spec t)). c_name c \<noteq> n"
      by auto
    then have "map (\<lambda>c. if c_name c = n then g c else c) (containers (tpl_spec t)) =
        containers (tpl_spec t)"
      by (simp add: map_idI)
    with False show ?thesis
      by (simp add: updateTemplateContainer_def forEachContainer_def update_key_distinct d)
  qed
qed

lemma fold_update_forEach:
  assumes "distinct (map c_name L)" and "distinct (container_names t)"
    and name: "\<And>lc c. c_name (G lc c) = c_name c"
  shows "fold (\<lambda>lc t. updateTemplateContainer (c_name lc) (G lc) t) L t =
    forEachContainer (\<lambda>c. case find_key c_name (c_name c) L of None \<Rightarrow> c | Some lc \<Rightarrow> G lc c) t"
  using assms(1,2)
proof (induction L arbitrary: t)
  case (Cons a L)
  let ?f = "\<lambda>c. if c_name c = c_name a then G a c else c"
  have n: "container_names (forEachContainer ?f t) = container_names t"
    by (rule container_names_forEach) (simp add: name)
  have "find_key c_name (c_name a) L = None"
    using Cons.prems(1) by (auto simp: find_key_None)
  then show ?case
    using Cons.IH [of "forEachContainer ?f t"] Cons.prems
    by (auto simp: updateTemplateContainer_forEach n forEachContainer_comp name
        intro!: forEachContainer_cong)
qed simp

definition live_mounts :: "pod_template \<Rightarrow> string \<Rightarrow> volume_mount list" where
  "live_mounts t n = (case findTemplateContainer t n of None \<Rightarrow> [] | Some c \<Rightarrow> c_mounts c)"

lemma restoreVolumeMount_forEach:
  assumes "distinct (container_names lt)" and "distinct (container_names t)"
  shows "restoreVolumeMount name lt t = forEachContainer
    (\<lambda>c. c\<lparr>c_mounts := fold (restore_mount name) (live_mounts lt (c_name c)) (c_mounts c)\<rparr>) t"
proof -
  have "restoreVolumeMount name lt t = forEachContainer
      (\<lambda>c. case find_key c_name (c_name c) (allContainers lt) of None \<Rightarrow> c
        | Some lc \<Rightarrow> c\<lparr>c_mounts := fold (restore_mount name) (c_mounts lc) (c_mounts c)\<rparr>) t"
    unfolding restoreVolumeMount_def
    by (rule fold_update_forEach) (use assms in \<open>simp_all add: container_names_def\<close>)
  also have "\<dots> = forEachContainer
    (\<lambda>c. c\<lparr>c_mounts := fold (restore_mount name) (live_mounts lt (c_name c)) (c_mounts c)\<rparr>) t"
    by (rule forEachContainer_cong)
      (simp add: live_mounts_def findTemplateContainer_def split: option.splits)
  finally show ?thesis .
qed

text \<open>The mounts of one container after the drops and after the restores.\<close>

definition dropped_names :: "pvc list \<Rightarrow> pvc list \<Rightarrow> pod_volume list \<Rightarrow> string set" where
  "dropped_names desiredClaims liveClaims vs =
     {n \<in> fset (claimTemplateNames desiredClaims).
        n |\<notin>| claimTemplateNames liveClaims \<and> \<not> hasVolume vs n}"

definition kept_mounts :: "string set \<Rightarrow> volume_mount list \<Rightarrow> volume_mount list" where
  "kept_mounts D ms = filter (\<lambda>m. mount_name m \<notin> D) ms"

definition restored_mounts ::
    "string list \<Rightarrow> volume_mount list \<Rightarrow> volume_mount list \<Rightarrow> volume_mount list" where
  "restored_mounts ns lms ms = fold (\<lambda>n. fold (restore_mount n) lms) ns ms"

definition set_mounts :: "(container \<Rightarrow> volume_mount list) \<Rightarrow> container \<Rightarrow> container" where
  "set_mounts f c = c\<lparr>c_mounts := f c\<rparr>"

lemma set_mounts_fields [simp]:
  "c_name (set_mounts f c) = c_name c" "c_mounts (set_mounts f c) = f c"
  "c_rest (set_mounts f c) = c_rest c"
  by (simp_all add: set_mounts_def)

lemma set_mounts_set_mounts [simp]:
  "set_mounts f \<circ> set_mounts g = set_mounts (\<lambda>c. f (set_mounts g c))"
  by (simp add: fun_eq_iff set_mounts_def)

lemma drops_forEach:
  "fold (\<lambda>name t. if Q name then t else if hasVolume (volumes (tpl_spec t)) name then t
      else dropVolumeMount name t) ns t =
    forEachContainer (set_mounts (\<lambda>c. kept_mounts
      {n \<in> set ns. \<not> Q n \<and> \<not> hasVolume (volumes (tpl_spec t)) n} (c_mounts c))) t"
proof (induction ns arbitrary: t)
  case Nil
  then show ?case by (simp add: kept_mounts_def set_mounts_def)
next
  case (Cons n ns)
  have "kept_mounts A (filter (\<lambda>m. mount_name m \<noteq> n) ms) = kept_mounts (insert n A) ms" for A ms
    by (induction ms) (auto simp: kept_mounts_def)
  moreover have "dropVolumeMount n =
      forEachContainer (set_mounts (\<lambda>c. filter (\<lambda>m. mount_name m \<noteq> n) (c_mounts c)))"
    by (simp add: dropVolumeMount_def set_mounts_def [abs_def])
  moreover have "{x. (x = n \<or> x \<in> set ns) \<and> P x} =
      (if P n then insert n {x \<in> set ns. P x} else {x \<in> set ns. P x})" for P
    by auto
  ultimately show ?case
    by (simp add: Cons.IH forEachContainer_comp)
qed

lemma restores_forEach:
  assumes "distinct (container_names lt)"
  shows "distinct (container_names t) \<Longrightarrow>
    fold (\<lambda>name t. if Q name then t else restoreVolumeMount name lt t) ns t =
    forEachContainer (set_mounts (\<lambda>c. restored_mounts (filter (\<lambda>n. \<not> Q n) ns)
      (live_mounts lt (c_name c)) (c_mounts c))) t"
proof (induction ns arbitrary: t)
  case Nil
  then show ?case by (simp add: restored_mounts_def set_mounts_def)
next
  case (Cons n ns)
  let ?f = "set_mounts (\<lambda>c. fold (restore_mount n) (live_mounts lt (c_name c)) (c_mounts c))"
  have "restoreVolumeMount n lt t = forEachContainer ?f t"
    by (simp add: restoreVolumeMount_forEach assms Cons.prems set_mounts_def [abs_def])
  moreover have "container_names (forEachContainer ?f t) = container_names t"
    by (rule container_names_forEach) simp
  ultimately show ?case
    using Cons by (simp add: forEachContainer_comp restored_mounts_def)
qed

definition reconciled_mounts ::
    "(string fset \<Rightarrow> string list) \<Rightarrow> pvc list \<Rightarrow> pvc list \<Rightarrow> pod_volume list \<Rightarrow> volume_mount list
      \<Rightarrow> volume_mount list \<Rightarrow> volume_mount list" where
  "reconciled_mounts rng dc lc vs lms ms =
     restored_mounts (filter (\<lambda>n. n |\<notin>| claimTemplateNames dc) (rng (claimTemplateNames lc))) lms
       (kept_mounts (dropped_names dc lc vs) ms)"

definition range_ok :: "(string fset \<Rightarrow> string list) \<Rightarrow> bool" where
  "range_ok rng \<longleftrightarrow> (\<forall>S. set (rng S) = fset S \<and> distinct (rng S))"

lemma reconcile_forEach:
  assumes "range_ok rng" and "distinct (container_names lt)" and "distinct (container_names t)"
  shows "reconcileClaimVolumeMounts rng t dc lc (Some lt) = forEachContainer
    (set_mounts (\<lambda>c. reconciled_mounts rng dc lc (volumes (tpl_spec t)) (live_mounts lt (c_name c))
      (c_mounts c))) t"
proof -
  have D: "{n \<in> set (rng (claimTemplateNames dc)). n |\<notin>| claimTemplateNames lc \<and>
      \<not> hasVolume (volumes (tpl_spec t)) n} = dropped_names dc lc (volumes (tpl_spec t))"
    using assms(1) by (simp add: range_ok_def dropped_names_def)
  let ?t1 = "forEachContainer (set_mounts (\<lambda>c. kept_mounts
      (dropped_names dc lc (volumes (tpl_spec t))) (c_mounts c))) t"
  have "container_names ?t1 = container_names t"
    by (rule container_names_forEach) simp
  then show ?thesis
    using assms
    by (simp add: reconcileClaimVolumeMounts_def drops_forEach D restores_forEach
        forEachContainer_comp reconciled_mounts_def)
qed

section \<open>Restored mounts\<close>

fun new_mounts :: "string set \<Rightarrow> volume_mount list \<Rightarrow> volume_mount list" where
  "new_mounts P [] = []"
| "new_mounts P (x # xs) =
     (if mount_path x \<in> P then new_mounts P xs else x # new_mounts (insert (mount_path x) P) xs)"

definition claim_mounts :: "string list \<Rightarrow> volume_mount list \<Rightarrow> volume_mount list" where
  "claim_mounts ns lms = concat (map (\<lambda>n. filter (\<lambda>m. mount_name m = n) lms) ns)"

lemma mountsPath_iff: "mountsPath ms p \<longleftrightarrow> p \<in> mount_path ` set ms"
  by (auto simp: mountsPath_def list_ex_iff)

lemma fold_restore_mount:
  "fold (restore_mount n) lms ms =
    ms @ new_mounts (mount_path ` set ms) (filter (\<lambda>m. mount_name m = n) lms)"
  by (induction lms arbitrary: ms) (auto simp: restore_mount_def mountsPath_iff)

lemma new_mounts_append:
  "new_mounts P (xs @ ys) =
    new_mounts P xs @ new_mounts (P \<union> mount_path ` set (new_mounts P xs)) ys"
  by (induction xs arbitrary: P) auto

lemma new_mounts_subset: "set (new_mounts P xs) \<subseteq> set xs"
  by (induction P xs rule: new_mounts.induct) auto

lemma new_mounts_distinct:
  "distinct (map mount_path (new_mounts P xs)) \<and> mount_path ` set (new_mounts P xs) \<inter> P = {}"
  by (induction P xs rule: new_mounts.induct) auto

lemma new_mounts_covers: "x \<in> set xs \<Longrightarrow> mount_path x \<in> P \<union> mount_path ` set (new_mounts P xs)"
  by (induction P xs rule: new_mounts.induct) auto

lemma new_mounts_id:
  "distinct (map mount_path xs) \<Longrightarrow> mount_path ` set xs \<inter> P = {} \<Longrightarrow> new_mounts P xs = xs"
  by (induction P xs rule: new_mounts.induct) auto

lemma new_mounts_skip:
  "new_mounts P xs = new_mounts P (filter (\<lambda>m. mount_path m \<notin> P) xs)"
proof -
  have "P \<subseteq> Q \<Longrightarrow> new_mounts Q xs = new_mounts Q (filter (\<lambda>m. mount_path m \<notin> P) xs)" for Q
    by (induction xs arbitrary: Q) (auto simp: subset_insertI2)
  then show ?thesis by simp
qed

lemma restored_mounts_eq:
  "restored_mounts ns lms ms = ms @ new_mounts (mount_path ` set ms) (claim_mounts ns lms)"
  by (induction ns arbitrary: ms)
    (simp_all add: restored_mounts_def claim_mounts_def fold_restore_mount new_mounts_append image_Un)

lemma claim_mounts_in: "m \<in> set (claim_mounts ns lms) \<longleftrightarrow> m \<in> set lms \<and> mount_name m \<in> set ns"
  by (auto simp: claim_mounts_def)

lemma claim_mounts_filter:
  "claim_mounts ns (filter Q lms) = filter Q (claim_mounts ns lms)"
  by (induction ns) (simp_all add: claim_mounts_def conj_commute)

lemma claim_mounts_grouped:
  "distinct ns \<Longrightarrow> claim_mounts ns (new_mounts P (claim_mounts ns lms)) = new_mounts P (claim_mounts ns lms)"
proof (induction ns arbitrary: P)
  case Nil
  then show ?case by (simp add: claim_mounts_def)
next
  case (Cons n ns)
  let ?F = "filter (\<lambda>m. mount_name m = n) lms"
  let ?R = "new_mounts P ?F"
  let ?S = "new_mounts (P \<union> mount_path ` set ?R) (claim_mounts ns lms)"
  have split: "new_mounts P (claim_mounts (n # ns) lms) = ?R @ ?S"
    by (simp add: claim_mounts_def new_mounts_append)
  have R: "\<forall>m \<in> set ?R. mount_name m = n"
    using new_mounts_subset [of P ?F] by auto
  have S: "\<forall>m \<in> set ?S. mount_name m \<in> set ns"
    using new_mounts_subset claim_mounts_in by blast
  have "n \<notin> set ns" using Cons.prems by simp
  have S': "\<forall>m \<in> set ?S. mount_name m \<noteq> n"
  proof
    fix m assume "m \<in> set ?S"
    with S have "mount_name m \<in> set ns" by (rule bspec)
    with \<open>n \<notin> set ns\<close> show "mount_name m \<noteq> n" by metis
  qed
  have "filter (\<lambda>m. mount_name m = n) ?R = ?R"
    unfolding filter_id_conv by (rule R)
  moreover have "filter (\<lambda>m. mount_name m = n) ?S = []"
    unfolding filter_empty_conv by (rule S')
  ultimately have "filter (\<lambda>m. mount_name m = n) (?R @ ?S) = ?R"
    by simp
  moreover have "claim_mounts ns (?R @ ?S) = claim_mounts ns ?S"
  proof -
    have "filter (\<lambda>m. mount_name m = n') ?R = []" if "n' \<in> set ns" for n'
    proof -
      from that Cons.prems have "n' \<noteq> n" by auto
      then show ?thesis unfolding filter_empty_conv by (metis R)
    qed
    then show ?thesis unfolding claim_mounts_def
      by (intro arg_cong [where f = concat] map_cong) simp_all
  qed
  ultimately have "claim_mounts (n # ns) (?R @ ?S) = ?R @ claim_mounts ns ?S"
    by (simp add: claim_mounts_def)
  also have "\<dots> = ?R @ ?S"
    using Cons.IH Cons.prems by simp
  finally show ?case by (simp only: split)
qed

text \<open>Restoring from a list that was itself restored changes nothing.\<close>

lemma restored_mounts_again:
  assumes "distinct ns"
  shows "restored_mounts ns (restored_mounts ns lms ms) ms = restored_mounts ns lms ms"
proof -
  let ?P = "mount_path ` set ms"
  let ?R = "new_mounts ?P (claim_mounts ns lms)"
  have "filter (\<lambda>m. mount_path m \<notin> ?P) (ms @ ?R) = ?R"
    using new_mounts_distinct [of ?P "claim_mounts ns lms"]
    by (auto simp: filter_empty_conv filter_id_conv)
  then have "new_mounts ?P (claim_mounts ns (ms @ ?R)) = new_mounts ?P (claim_mounts ns ?R)"
    by (metis new_mounts_skip claim_mounts_filter)
  also have "\<dots> = ?R"
    using new_mounts_distinct by (simp add: claim_mounts_grouped assms new_mounts_id)
  finally show ?thesis by (simp add: restored_mounts_eq)
qed

lemma live_mounts_forEach:
  assumes "distinct (container_names t)" and "c \<in> set (allContainers t)"
  shows "live_mounts (forEachContainer (set_mounts f) t) (c_name c) = f c"
proof -
  have "distinct (map c_name xs) \<Longrightarrow> c \<in> set xs \<Longrightarrow>
      find_key c_name (c_name c) (map (set_mounts f) xs) = Some (set_mounts f c)" for xs
    by (induction xs) (auto simp: image_iff)
  with assms show ?thesis
    by (simp add: live_mounts_def findTemplateContainer_def container_names_def)
qed

lemma live_mounts_in:
  assumes "distinct (container_names t)" and "c \<in> set (allContainers t)"
  shows "live_mounts t (c_name c) = c_mounts c"
proof -
  have "forEachContainer (set_mounts c_mounts) t = t"
    by (simp add: set_mounts_def [abs_def])
  with live_mounts_forEach [OF assms, of c_mounts] show ?thesis by simp
qed

lemma live_mountsD:
  "m \<in> set (live_mounts t n) \<Longrightarrow> \<exists>c \<in> set (allContainers t). c_name c = n \<and> m \<in> set (c_mounts c)"
  unfolding live_mounts_def findTemplateContainer_def
  by (cases "find_key c_name n (allContainers t)") (auto dest: find_key_SomeD)

section \<open>The StatefulSet copy\<close>

definition sts_preserved :: "sts_spec \<Rightarrow> label_selector option \<times> string \<times> pvc list \<times> string" where
  "sts_preserved s = (sts_selector s, sts_service_name s, sts_claims s, sts_policy s)"

lemma mergeAnnotations_eq: "mergeAnnotations live desired = fmadd live desired"
  by (simp add: mergeAnnotations_def fold_upd_entries)

definition reconciled_template ::
    "(string fset \<Rightarrow> string list) \<Rightarrow> sts_spec \<Rightarrow> sts_spec \<Rightarrow> pod_template" where
  "reconciled_template rng desired live = forEachContainer
     (set_mounts (\<lambda>c. reconciled_mounts rng (sts_claims desired) (sts_claims live)
        (volumes (tpl_spec (sts_template desired))) (live_mounts (sts_template live) (c_name c))
        (c_mounts c))) (sts_template desired)"

lemma claimTemplatesDiffer_names:
  assumes "\<not> claimTemplatesDiffer d l"
  shows "map pvc_name d = map pvc_name l"
proof -
  have "\<forall>(a, b) \<in> set (zip d l). a = claimTemplateAsRequested a b" and n: "length d = length l"
    using assms by (auto simp: claimTemplatesDiffer_def list_ex_iff)
  moreover have "pvc_name (claimTemplateAsRequested a b) = pvc_name b" for a b
    by (simp add: claimTemplateAsRequested_def Let_def)
  ultimately have "\<forall>(a, b) \<in> set (zip d l). pvc_name a = pvc_name b"
    by (metis (mono_tags, lifting) case_prodD case_prodI2)
  with n show ?thesis
    by (induction d l rule: list_induct2) auto
qed

text \<open>Where the claims agree, reconciling the mounts would be the identity.\<close>

lemma reconciled_same_names:
  assumes "range_ok rng" and "claimTemplateNames dc = claimTemplateNames lc"
  shows "reconciled_mounts rng dc lc vs lms ms = ms"
proof -
  have "filter (\<lambda>n. n |\<notin>| claimTemplateNames lc) (rng (claimTemplateNames lc)) = []"
    using assms(1) by (simp add: range_ok_def filter_empty_conv)
  moreover have "dropped_names dc lc vs = {}"
    using assms(2) by (auto simp: dropped_names_def)
  ultimately show ?thesis
    by (simp add: reconciled_mounts_def assms(2) restored_mounts_def kept_mounts_def)
qed

lemma copyStatefulSetState_eq:
  assumes "range_ok rng" and "distinct (container_names (sts_template live))"
    and "distinct (container_names (sts_template desired))"
  shows "fst (copyStatefulSetState rng desired live) = desired
    \<lparr>sts_selector := sts_selector live, sts_service_name := sts_service_name live,
     sts_claims := sts_claims live, sts_policy := sts_policy live,
     sts_template := (reconciled_template rng desired live)\<lparr>tpl_annotations :=
       fmadd (tpl_annotations (sts_template live)) (tpl_annotations (sts_template desired))\<rparr>\<rparr>"
proof (cases "claimTemplatesDiffer (sts_claims desired) (sts_claims live)")
  case True
  with assms show ?thesis
    by (simp add: copyStatefulSetState_def Let_def mergeAnnotations_eq reconcile_forEach
        reconciled_template_def)
next
  case False
  then have "claimTemplateNames (sts_claims desired) = claimTemplateNames (sts_claims live)"
    using claimTemplatesDiffer_names by (simp add: claimTemplateNames_def)
  then have "reconciled_template rng desired live = sts_template desired"
    by (simp add: reconciled_template_def reconciled_same_names assms(1) set_mounts_def [abs_def])
  with False show ?thesis
    by (simp add: copyStatefulSetState_def Let_def mergeAnnotations_eq)
qed

definition claim_requested :: "pvc \<Rightarrow> pvc \<Rightarrow> bool" where
  "claim_requested d l \<longleftrightarrow> pvc_name d = pvc_name l \<and> pvc_rest d = pvc_rest l \<and>
     (pvc_volume_mode d = None \<or> pvc_volume_mode d = pvc_volume_mode l) \<and>
     (pvc_status d = [] \<or> pvc_status d = pvc_status l)"

lemma claim_requested_iff: "d = claimTemplateAsRequested d l \<longleftrightarrow> claim_requested d l"
  by (cases d; cases l) (auto simp: claimTemplateAsRequested_def claim_requested_def Let_def)

lemma claimTemplatesDiffer_iff: "claimTemplatesDiffer ds ls \<longleftrightarrow> \<not> list_all2 claim_requested ds ls"
  by (auto simp: claimTemplatesDiffer_def list_all2_iff list_ex_iff claim_requested_iff)

lemma set_guarded: "set (if b then [y] else []) = {x. b \<and> x = y}"
  by auto

lemma in_ignored:
  "f \<in> set (snd (copyStatefulSetState rng d l)) \<longleftrightarrow>
    f = ''spec.selector'' \<and> sts_selector d \<noteq> None \<and> sts_selector d \<noteq> sts_selector l \<or>
    f = ''spec.serviceName'' \<and> sts_service_name d \<noteq> [] \<and> sts_service_name d \<noteq> sts_service_name l \<or>
    f = ''spec.volumeClaimTemplates'' \<and> \<not> list_all2 claim_requested (sts_claims d) (sts_claims l) \<or>
    f = ''spec.podManagementPolicy'' \<and> sts_policy d \<noteq> [] \<and> sts_policy d \<noteq> sts_policy l"
  unfolding copyStatefulSetState_def Let_def snd_conv set_append set_guarded Un_iff mem_Collect_eq
    claimTemplatesDiffer_iff by argo

lemma copyStatefulSetState_parts:
  assumes "range_ok rng" and "distinct (container_names (sts_template l))"
    and "distinct (container_names (sts_template d))"
    and c: "copyStatefulSetState rng d l = (s, ignored)"
  shows "sts_preserved s = sts_preserved l" "sts_replicas s = sts_replicas d"
    "sts_rest s = sts_rest d" "tpl_labels (sts_template s) = tpl_labels (sts_template d)"
    "volumes (tpl_spec (sts_template s)) = volumes (tpl_spec (sts_template d))"
    "pod_rest (tpl_spec (sts_template s)) = pod_rest (tpl_spec (sts_template d))"
    "container_names (sts_template s) = container_names (sts_template d)"
    "tpl_annotations (sts_template s) =
      fmadd (tpl_annotations (sts_template l)) (tpl_annotations (sts_template d))"
    "tpl_spec (sts_template s) = tpl_spec (reconciled_template rng d l)"
    "allContainers (sts_template s) = allContainers (reconciled_template rng d l)"
  using copyStatefulSetState_eq [OF assms(1-3)] c
  by (simp_all add: sts_preserved_def container_names_def allContainers_def reconciled_template_def
      forEachContainer_def)

lemma reconciled_template_same:
  assumes "range_ok rng" and "list_all2 claim_requested (sts_claims d) (sts_claims l)"
  shows "reconciled_template rng d l = sts_template d"
proof -
  have "claimTemplateNames (sts_claims d) = claimTemplateNames (sts_claims l)"
    using assms(2) claimTemplatesDiffer_names claimTemplatesDiffer_iff
    by (simp add: claimTemplateNames_def)
  then show ?thesis
    by (simp add: reconciled_template_def reconciled_same_names assms(1) set_mounts_def [abs_def])
qed

section \<open>A sample\<close>

definition sorted_range :: "string fset \<Rightarrow> string list" where
  "sorted_range S = sorted_list_of_fset S"

lemma range_ok_sorted: "range_ok sorted_range"
  by (simp add: range_ok_def sorted_range_def sorted_list_of_fset.rep_eq)

definition sample_template :: "volume_mount list \<Rightarrow> pod_template" where
  "sample_template ms =
     \<lparr>tpl_labels = fmempty, tpl_annotations = fmempty,
      tpl_spec = \<lparr>init_containers = [], containers = [\<lparr>c_name = ''main'', c_mounts = ms, c_rest = []\<rparr>],
        volumes = [], pod_rest = []\<rparr>\<rparr>"

definition sample_mount :: volume_mount where
  "sample_mount = \<lparr>mount_name = ''data'', mount_path = ''/data'', mount_rest = []\<rparr>"

definition sample_claim :: "string option \<Rightarrow> string \<Rightarrow> pvc" where
  "sample_claim mode st =
     \<lparr>pvc_name = ''data'', pvc_volume_mode = mode, pvc_status = st, pvc_rest = ''1Gi''\<rparr>"

definition sample_sts :: "int \<Rightarrow> string \<Rightarrow> pvc list \<Rightarrow> volume_mount list \<Rightarrow> sts_spec" where
  "sample_sts n sel claims ms =
     \<lparr>sts_replicas = Some n, sts_selector = Some \<lparr>match_labels = fmempty, match_expressions = sel\<rparr>, sts_service_name = ''svc'',
      sts_template = sample_template ms, sts_claims = claims, sts_policy = ''Parallel'', sts_rest = []\<rparr>"

definition sample_live :: sts_spec where
  "sample_live = sample_sts 1 ''app=a'' [sample_claim (Some ''Filesystem'') ''Pending''] [sample_mount]"

lemma sample_names [simp]: "distinct (container_names (sts_template (sample_sts n sel claims ms)))"
  by (simp add: container_names_def allContainers_def sample_sts_def sample_template_def)

lemma sample_live_names [simp]: "distinct (container_names (sts_template sample_live))"
  by (simp add: sample_live_def)

section \<open>Properties of the apply path\<close>

text \<open>
  Copying a desired StatefulSet onto the live one keeps the four immutable fields at their live
  values, takes the replicas, the rest of the spec and the pod template's labels and volumes from the
  desired object, merges the template annotations with the desired value winning per key, and reports
  exactly the immutable fields whose stated desired value was dropped. With unchanged claims the pod
  spec is the desired one.
\<close>

theorem copyStatefulSetState_fields:
  assumes "range_ok rng" and "distinct (container_names (sts_template l))"
    and "distinct (container_names (sts_template d))"
    and "copyStatefulSetState rng d l = (s, ignored)"
  shows "sts_preserved s = sts_preserved l \<and>
    sts_replicas s = sts_replicas d \<and> sts_rest s = sts_rest d \<and>
    tpl_labels (sts_template s) = tpl_labels (sts_template d) \<and>
    volumes (tpl_spec (sts_template s)) = volumes (tpl_spec (sts_template d)) \<and>
    pod_rest (tpl_spec (sts_template s)) = pod_rest (tpl_spec (sts_template d)) \<and>
    container_names (sts_template s) = container_names (sts_template d) \<and>
    (\<forall>k. fmlookup (tpl_annotations (sts_template s)) k =
      (case fmlookup (tpl_annotations (sts_template d)) k of
         Some v \<Rightarrow> Some v | None \<Rightarrow> fmlookup (tpl_annotations (sts_template l)) k)) \<and>
    (list_all2 claim_requested (sts_claims d) (sts_claims l) \<longrightarrow>
      tpl_spec (sts_template s) = tpl_spec (sts_template d)) \<and>
    (\<forall>f. f \<in> set ignored \<longleftrightarrow>
      f = ''spec.selector'' \<and> sts_selector d \<noteq> None \<and> sts_selector d \<noteq> sts_selector l \<or>
      f = ''spec.serviceName'' \<and> sts_service_name d \<noteq> [] \<and> sts_service_name d \<noteq> sts_service_name l \<or>
      f = ''spec.volumeClaimTemplates'' \<and> \<not> list_all2 claim_requested (sts_claims d) (sts_claims l) \<or>
      f = ''spec.podManagementPolicy'' \<and> sts_policy d \<noteq> [] \<and> sts_policy d \<noteq> sts_policy l)"
proof (intro conjI copyStatefulSetState_parts [OF assms])
  show "\<forall>f. f \<in> set ignored \<longleftrightarrow>
      f = ''spec.selector'' \<and> sts_selector d \<noteq> None \<and> sts_selector d \<noteq> sts_selector l \<or>
      f = ''spec.serviceName'' \<and> sts_service_name d \<noteq> [] \<and> sts_service_name d \<noteq> sts_service_name l \<or>
      f = ''spec.volumeClaimTemplates'' \<and> \<not> list_all2 claim_requested (sts_claims d) (sts_claims l) \<or>
      f = ''spec.podManagementPolicy'' \<and> sts_policy d \<noteq> [] \<and> sts_policy d \<noteq> sts_policy l"
    using in_ignored [of _ rng d l] by (simp only: assms(4) snd_conv simp_thms)
  show "list_all2 claim_requested (sts_claims d) (sts_claims l) \<longrightarrow>
      tpl_spec (sts_template s) = tpl_spec (sts_template d)"
    using copyStatefulSetState_parts(9) [OF assms] reconciled_template_same [OF assms(1)] by metis
qed (auto simp: copyStatefulSetState_parts(8) [OF assms] split: option.splits dest: fmdomI)

theorem copyStatefulSetState_fields_witness:
  "fst (copyStatefulSetState sorted_range
       (sample_sts 3 ''app=b'' [sample_claim None []] [sample_mount]) sample_live) =
     sample_sts 3 ''app=a'' [sample_claim (Some ''Filesystem'') ''Pending''] [sample_mount] \<and>
   ''spec.selector'' \<in> set (snd (copyStatefulSetState sorted_range
       (sample_sts 3 ''app=b'' [sample_claim None []] [sample_mount]) sample_live))"
proof -
  let ?d = "sample_sts 3 ''app=b'' [sample_claim None []] [sample_mount]"
  obtain s ig where c: "copyStatefulSetState sorted_range ?d sample_live = (s, ig)" by fastforce
  note p = copyStatefulSetState_fields [OF range_ok_sorted sample_live_names sample_names c]
  have "claim_requested (sample_claim None []) (sample_claim (Some ''Filesystem'') ''Pending'')"
    by (simp add: claim_requested_def sample_claim_def)
  with p have "tpl_spec (sts_template s) = tpl_spec (sts_template ?d)"
    by (simp add: sample_live_def sample_sts_def)
  with p have "s = sample_sts 3 ''app=a'' [sample_claim (Some ''Filesystem'') ''Pending''] [sample_mount]"
    by (simp add: copyStatefulSetState_parts(8) [OF range_ok_sorted sample_live_names sample_names c]
        sts_preserved_def sample_sts_def sample_live_def sample_template_def)
  moreover from p have "''spec.selector'' \<in> set ig"
    by (simp add: sample_sts_def sample_live_def)
  ultimately show ?thesis by (simp add: c)
qed

lemma reconciled_mounts_eq:
  "reconciled_mounts rng dc lc vs lms ms =
    (let K = kept_mounts (dropped_names dc lc vs) ms
     in K @ new_mounts (mount_path ` set K)
       (claim_mounts (filter (\<lambda>n. n |\<notin>| claimTemplateNames dc) (rng (claimTemplateNames lc))) lms))"
  by (simp add: reconciled_mounts_def restored_mounts_eq Let_def)

lemma in_reconciled_mounts:
  assumes "range_ok rng" and "m \<in> set (reconciled_mounts rng dc lc vs lms ms)"
  shows "m \<in> set ms \<and> mount_name m \<notin> dropped_names dc lc vs \<or>
    m \<in> set lms \<and> mount_name m |\<in>| claimTemplateNames lc \<and> mount_name m |\<notin>| claimTemplateNames dc"
proof -
  let ?ns = "filter (\<lambda>n. n |\<notin>| claimTemplateNames dc) (rng (claimTemplateNames lc))"
  from assms(2) consider "m \<in> set (kept_mounts (dropped_names dc lc vs) ms)"
    | "m \<in> set (claim_mounts ?ns lms)"
    unfolding reconciled_mounts_eq Let_def set_append using new_mounts_subset by blast
  then show ?thesis
    using assms(1) by cases (simp_all add: kept_mounts_def claim_mounts_in range_ok_def)
qed

lemma reconciled_mounts_covers:
  assumes "range_ok rng" and "m \<in> set lms"
    and "mount_name m |\<in>| claimTemplateNames lc" and "mount_name m |\<notin>| claimTemplateNames dc"
  shows "mountsPath (reconciled_mounts rng dc lc vs lms ms) (mount_path m)"
proof -
  let ?ns = "filter (\<lambda>n. n |\<notin>| claimTemplateNames dc) (rng (claimTemplateNames lc))"
  have "m \<in> set (claim_mounts ?ns lms)"
    using assms by (simp add: claim_mounts_in range_ok_def)
  from new_mounts_covers [OF this] show ?thesis
    by (auto simp: mountsPath_iff reconciled_mounts_eq Let_def image_Un)
qed

lemma reconciled_mounts_distinct:
  assumes "distinct (map mount_path ms)"
  shows "distinct (map mount_path (reconciled_mounts rng dc lc vs lms ms))"
proof -
  have "distinct (map mount_path (kept_mounts D ms))" for D
    using assms by (simp add: kept_mounts_def distinct_map_filter)
  with new_mounts_distinct show ?thesis
    by (simp add: reconciled_mounts_eq Let_def inf_commute)
qed

lemma reconciled_mounts_again:
  assumes "range_ok rng"
  shows "reconciled_mounts rng dc lc vs (reconciled_mounts rng dc lc vs lms ms) ms =
    reconciled_mounts rng dc lc vs lms ms"
  using assms unfolding reconciled_mounts_def
  by (intro restored_mounts_again) (simp add: range_ok_def)

lemma in_dropped_names:
  "n \<notin> dropped_names dc lc vs \<longleftrightarrow>
    (n |\<in>| claimTemplateNames dc \<longrightarrow> n |\<in>| claimTemplateNames lc \<or> hasVolume vs n)"
  by (auto simp: dropped_names_def)

text \<open>
  C12. The pod template stays coherent with the claim templates that were preserved. Every mount of
  the result that names a desired claim is backed by a live claim or an ordinary volume; every mount
  is a desired mount or a live mount of a preserved claim; every live mount of a preserved claim that
  the handler no longer asks for has its path mounted in the same container; and no container gets
  two mounts at one path.
\<close>

theorem copyStatefulSetState_coherent:
  assumes "range_ok rng" and "distinct (container_names (sts_template l))"
    and "distinct (container_names (sts_template d))"
    and "copyStatefulSetState rng d l = (s, ignored)"
    and "c \<in> set (allContainers (sts_template s))"
    and "distinct (map mount_path (live_mounts (sts_template d) (c_name c)))"
  shows "(\<forall>m \<in> set (c_mounts c). mount_name m \<in> pvc_name ` set (sts_claims d) \<longrightarrow>
      mount_name m \<in> pvc_name ` set (sts_claims s) \<or>
      hasVolume (volumes (tpl_spec (sts_template s))) (mount_name m)) \<and>
    (\<forall>m \<in> set (c_mounts c). m \<in> set (live_mounts (sts_template d) (c_name c)) \<or>
      m \<in> set (live_mounts (sts_template l) (c_name c)) \<and>
      mount_name m \<in> pvc_name ` set (sts_claims l) - pvc_name ` set (sts_claims d)) \<and>
    (\<forall>m \<in> set (live_mounts (sts_template l) (c_name c)).
      mount_name m \<in> pvc_name ` set (sts_claims l) - pvc_name ` set (sts_claims d) \<longrightarrow>
      mountsPath (c_mounts c) (mount_path m)) \<and>
    distinct (map mount_path (c_mounts c))"
proof -
  note parts = copyStatefulSetState_parts [OF assms(1-4)]
  obtain dc where dc: "dc \<in> set (allContainers (sts_template d))" "c_name c = c_name dc"
    and cm: "c_mounts c = reconciled_mounts rng (sts_claims d) (sts_claims l)
      (volumes (tpl_spec (sts_template d))) (live_mounts (sts_template l) (c_name c)) (c_mounts dc)"
    using assms(5) by (auto simp: parts(10) reconciled_template_def)
  have dm: "live_mounts (sts_template d) (c_name c) = c_mounts dc"
    using live_mounts_in [OF assms(3) dc(1)] dc(2) by simp
  have cl: "sts_claims s = sts_claims l" using parts(1) by (simp add: sts_preserved_def)
  have names: "n \<in> pvc_name ` set cs \<longleftrightarrow> n |\<in>| claimTemplateNames cs" for n cs
    by (simp add: claimTemplateNames_def fset_of_list.rep_eq)
  show ?thesis
    unfolding names Diff_iff cl parts(5) dm
  proof (intro conjI ballI impI)
    fix m assume "m \<in> set (c_mounts c)"
    note m = in_reconciled_mounts [OF assms(1) this [unfolded cm]]
    from m show "m \<in> set (c_mounts dc) \<or> m \<in> set (live_mounts (sts_template l) (c_name c)) \<and>
        mount_name m |\<in>| claimTemplateNames (sts_claims l) \<and>
        mount_name m |\<notin>| claimTemplateNames (sts_claims d)" by argo
    assume "mount_name m |\<in>| claimTemplateNames (sts_claims d)"
    with m show "mount_name m |\<in>| claimTemplateNames (sts_claims l) \<or>
        hasVolume (volumes (tpl_spec (sts_template d))) (mount_name m)"
      unfolding in_dropped_names by argo
  next
    fix m assume "m \<in> set (live_mounts (sts_template l) (c_name c))"
      "mount_name m |\<in>| claimTemplateNames (sts_claims l) \<and>
        mount_name m |\<notin>| claimTemplateNames (sts_claims d)"
    then show "mountsPath (c_mounts c) (mount_path m)"
      unfolding cm by (intro reconciled_mounts_covers [OF assms(1)]) blast+
  next
    show "distinct (map mount_path (c_mounts c))"
      unfolding cm by (rule reconciled_mounts_distinct) (use assms(6) dm in simp)
  qed
qed

text \<open>The handler stops asking for storage: the live claim stays mounted where it was.\<close>

theorem copyStatefulSetState_coherent_witness:
  "\<exists>c \<in> set (allContainers (sts_template
      (fst (copyStatefulSetState sorted_range (sample_sts 1 ''app=a'' [] []) sample_live)))).
    mountsPath (c_mounts c) ''/data''"
proof -
  let ?d = "sample_sts 1 ''app=a'' [] []"
  obtain s ig where c: "copyStatefulSetState sorted_range ?d sample_live = (s, ig)" by fastforce
  have "container_names (sts_template s) = [''main'']"
    using copyStatefulSetState_parts(7) [OF range_ok_sorted sample_live_names sample_names c]
    by (simp add: sample_sts_def sample_template_def container_names_def allContainers_def)
  then obtain x where x: "x \<in> set (allContainers (sts_template s))" "c_name x = ''main''"
    by (auto simp: container_names_def)
  have dist: "distinct (map mount_path (live_mounts (sts_template ?d) (c_name x)))"
    by (simp add: live_mounts_def findTemplateContainer_def allContainers_def sample_sts_def
        sample_template_def x(2))
  have "sample_mount \<in> set (live_mounts (sts_template sample_live) (c_name x))"
    by (simp add: live_mounts_def findTemplateContainer_def allContainers_def sample_sts_def
        sample_template_def x(2) sample_live_def)
  moreover have "mount_name sample_mount \<in>
      pvc_name ` set (sts_claims sample_live) - pvc_name ` set (sts_claims ?d)"
    by (simp add: sample_mount_def sample_live_def sample_sts_def sample_claim_def)
  ultimately have "mountsPath (c_mounts x) (mount_path sample_mount)"
    using copyStatefulSetState_coherent
      [OF range_ok_sorted sample_live_names sample_names c x(1) dist] by blast
  with x(1) show ?thesis by (auto simp: c sample_mount_def)
qed

lemma fmadd_again: "fmadd (fmadd m n) n = fmadd m n"
  by (rule fmap_ext) simp

lemma snd_copyStatefulSetState:
  "sts_preserved l = sts_preserved l' \<Longrightarrow>
    snd (copyStatefulSetState rng d l) = snd (copyStatefulSetState rng d l')"
  by (simp add: copyStatefulSetState_def Let_def sts_preserved_def)

lemma reconciled_template_again:
  assumes "range_ok rng" and "distinct (container_names (sts_template d))"
    and "sts_claims s = sts_claims l"
    and "allContainers (sts_template s) = allContainers (reconciled_template rng d l)"
  shows "reconciled_template rng d s = reconciled_template rng d l"
  unfolding reconciled_template_def
proof (rule forEachContainer_cong)
  fix c assume c: "c \<in> set (allContainers (sts_template d))"
  have "live_mounts (sts_template s) (c_name c) = live_mounts (reconciled_template rng d l) (c_name c)"
    by (simp add: live_mounts_def findTemplateContainer_def assms(4))
  also have "\<dots> = reconciled_mounts rng (sts_claims d) (sts_claims l)
      (volumes (tpl_spec (sts_template d))) (live_mounts (sts_template l) (c_name c)) (c_mounts c)"
    unfolding reconciled_template_def by (rule live_mounts_forEach [OF assms(2) c])
  finally show "set_mounts (\<lambda>c. reconciled_mounts rng (sts_claims d) (sts_claims s)
      (volumes (tpl_spec (sts_template d))) (live_mounts (sts_template s) (c_name c)) (c_mounts c)) c =
    set_mounts (\<lambda>c. reconciled_mounts rng (sts_claims d) (sts_claims l)
      (volumes (tpl_spec (sts_template d))) (live_mounts (sts_template l) (c_name c)) (c_mounts c)) c"
    by (simp add: set_mounts_def assms(3) reconciled_mounts_again [OF assms(1)])
qed

text \<open>
  The copy converges: copying the same desired StatefulSet onto its own result changes nothing
  and reports the same ignored fields, provided the claim names are enumerated in the same order.
\<close>

theorem copyStatefulSetState_idempotent:
  assumes "range_ok rng" and "distinct (container_names (sts_template l))"
    and "distinct (container_names (sts_template d))"
    and "copyStatefulSetState rng d l = (s, ignored)"
  shows "copyStatefulSetState rng d s = (s, ignored)"
proof -
  note parts = copyStatefulSetState_parts [OF assms]
  have ns: "distinct (container_names (sts_template s))" using assms(3) by (simp add: parts(7))
  have keep: "sts_selector s = sts_selector l" "sts_service_name s = sts_service_name l"
      "sts_claims s = sts_claims l" "sts_policy s = sts_policy l"
    using parts(1) by (simp_all add: sts_preserved_def)
  have "reconciled_template rng d s = reconciled_template rng d l"
    by (rule reconciled_template_again [OF assms(1,3) keep(3) parts(10)])
  then have "fst (copyStatefulSetState rng d s) = fst (copyStatefulSetState rng d l)"
    by (simp add: copyStatefulSetState_eq [OF assms(1) ns assms(3)]
        copyStatefulSetState_eq [OF assms(1-3)] keep parts(8) fmadd_again)
  moreover have "snd (copyStatefulSetState rng d s) = snd (copyStatefulSetState rng d l)"
    by (rule snd_copyStatefulSetState [OF parts(1)])
  ultimately show ?thesis by (simp add: prod_eq_iff assms(4))
qed

theorem copyStatefulSetState_idempotent_witness:
  "let r = copyStatefulSetState sorted_range (sample_sts 1 ''app=a'' [] []) sample_live
   in copyStatefulSetState sorted_range (sample_sts 1 ''app=a'' [] []) (fst r) = r"
  using copyStatefulSetState_idempotent [OF range_ok_sorted sample_live_names sample_names prod.collapse
      [symmetric], of 1 "''app=a''" "[]" "[]"]
  by (simp add: Let_def)

text \<open>
  Without that proviso the mounts of two preserved claims may swap: the code enumerates a Go map.
\<close>

definition two_claims :: "pvc list" where
  "two_claims = [(sample_claim None [])\<lparr>pvc_name := ''a''\<rparr>, (sample_claim None [])\<lparr>pvc_name := ''b''\<rparr>]"

definition two_mounts :: "volume_mount list" where
  "two_mounts = [sample_mount\<lparr>mount_name := ''a'', mount_path := ''/a''\<rparr>,
     sample_mount\<lparr>mount_name := ''b'', mount_path := ''/b''\<rparr>]"

lemma restore_order_depends_on_range:
  "restored_mounts [''a'', ''b''] two_mounts [] \<noteq> restored_mounts [''b'', ''a''] two_mounts []"
  by (simp add: restored_mounts_eq claim_mounts_def two_mounts_def sample_mount_def)

lemma no_claim_names: "claimTemplateNames [] = {||}"
  by (simp add: claimTemplateNames_def)

lemma preserved_mounts_depend_on_range:
  "\<exists>rng rng'. range_ok rng \<and> range_ok rng' \<and>
    fst (copyStatefulSetState rng (sample_sts 1 ''app=a'' [] [])
      (sample_sts 1 ''app=a'' two_claims two_mounts)) \<noteq>
    fst (copyStatefulSetState rng' (sample_sts 1 ''app=a'' [] [])
      (sample_sts 1 ''app=a'' two_claims two_mounts))"
proof (intro exI conjI)
  let ?r1 = "\<lambda>S. if S = claimTemplateNames two_claims then [''a'', ''b''] else sorted_range S"
  let ?r2 = "\<lambda>S. if S = claimTemplateNames two_claims then [''b'', ''a''] else sorted_range S"
  have "set [''a'', ''b''] = fset (claimTemplateNames two_claims)"
    "set [''b'', ''a''] = fset (claimTemplateNames two_claims)"
    by (auto simp: claimTemplateNames_def two_claims_def)
  then show r1: "range_ok ?r1" and r2: "range_ok ?r2"
    using range_ok_sorted by (simp_all add: range_ok_def)
  let ?d = "sample_sts 1 ''app=a'' [] []" and ?l = "sample_sts 1 ''app=a'' two_claims two_mounts"
  have e: "containers (tpl_spec (sts_template (fst (copyStatefulSetState rng ?d ?l)))) =
      [\<lparr>c_name = ''main'', c_mounts = restored_mounts (rng (claimTemplateNames two_claims))
        two_mounts [], c_rest = []\<rparr>]" if "range_ok rng" for rng
    unfolding copyStatefulSetState_eq [OF that sample_names sample_names]
    by (simp add: reconciled_template_def no_claim_names
        reconciled_mounts_def forEachContainer_def sample_sts_def sample_template_def set_mounts_def
        live_mounts_def findTemplateContainer_def allContainers_def kept_mounts_def)
  from e [OF r1] e [OF r2] restore_order_depends_on_range
  show "fst (copyStatefulSetState ?r1 ?d ?l) \<noteq> fst (copyStatefulSetState ?r2 ?d ?l)"
    by fastforce
qed

section \<open>Services and other objects\<close>

lemma carry_node_port_fields [simp]:
  "port_name (carry_node_port ps p) = port_name p"
  "port_number (carry_node_port ps p) = port_number p"
  "port_rest (carry_node_port ps p) = port_rest p"
  by (auto simp: carry_node_port_def split: option.splits)

lemma find_key_self:
  "distinct (map f xs) \<Longrightarrow> x \<in> set xs \<Longrightarrow> find_key f (f x) xs = Some x"
  by (induction xs) (auto simp: image_iff)

text \<open>The ports of a Service Kubernetes accepts: distinct names, and a name unless there is one port.\<close>

definition ports_valid :: "service_port list \<Rightarrow> bool" where
  "ports_valid ps \<longleftrightarrow> distinct (map port_name ps) \<and>
     (length ps \<le> 1 \<or> (\<forall>p \<in> set ps. port_name p \<noteq> []))"

lemma findServicePort_self:
  assumes "ports_valid ps" and "p \<in> set ps"
  shows "findServicePort ps p = Some p"
proof (cases "port_name p = []")
  case False
  with assms show ?thesis
    by (simp add: findServicePort_def ports_valid_def find_key_self)
next
  case True
  with assms have "ps = [p]" by (auto simp: ports_valid_def length_Suc_conv le_Suc_eq)
  with True show ?thesis by (simp add: findServicePort_def)
qed

lemma findServicePort_carried:
  assumes "ports_valid ps" and "p \<in> set ps"
  shows "findServicePort (map (carry_node_port lps) ps) p = Some (carry_node_port lps p)"
proof -
  have keys: "port_name \<circ> carry_node_port lps = port_name"
      "port_number \<circ> carry_node_port lps = port_number"
    by (simp_all add: fun_eq_iff)
  have "findServicePort (map (carry_node_port lps) ps) p =
      map_option (carry_node_port lps) (findServicePort ps p)"
    unfolding findServicePort_def find_key_map keys by (auto split: option.splits)
  with findServicePort_self [OF assms] show ?thesis by simp
qed

lemma carry_node_port_again:
  assumes "ports_valid ps" and "p \<in> set ps"
  shows "carry_node_port (map (carry_node_port lps) ps) p = carry_node_port lps p"
proof (cases "node_port p = 0")
  case False
  then show ?thesis by (simp add: carry_node_port_def)
next
  case True
  then have "carry_node_port (map (carry_node_port lps) ps) p =
      p\<lparr>node_port := node_port (carry_node_port lps p)\<rparr>"
    by (subst carry_node_port_def) (simp add: findServicePort_carried [OF assms])
  with True show ?thesis
    by (cases "findServicePort lps p") (simp_all add: carry_node_port_def)
qed

text \<open>
  Copying a desired Service keeps every field the API server allocates or declares immutable,
  takes each desired port in order, and gives a port without an explicit node port the node port of
  the live port of that name, else of that number: renaming a port never loses its node port. An
  explicit node port is taken as it is, a changed cluster IP is reported, and a second copy changes
  nothing.
\<close>

theorem copyServiceState_correct:
  assumes "copyServiceState d l = (s, ignored)" and "ports_valid (svc_ports d)"
  shows "cluster_ip s = cluster_ip l \<and> cluster_ips s = cluster_ips l \<and>
    ip_families s = ip_families l \<and> ip_family_policy s = ip_family_policy l \<and>
    health_check_node_port s = health_check_node_port l \<and>
    load_balancer_class s = load_balancer_class l \<and> svc_rest s = svc_rest d \<and>
    list_all2 (\<lambda>p q.
        (port_name q, port_number q, port_rest q) = (port_name p, port_number p, port_rest p) \<and>
        (node_port p \<noteq> 0 \<longrightarrow> node_port q = node_port p) \<and>
        (node_port p = 0 \<longrightarrow>
          (\<forall>a. port_name p \<noteq> [] \<longrightarrow> find_key port_name (port_name p) (svc_ports l) = Some a \<longrightarrow>
            node_port q = node_port a) \<and>
          (\<forall>a. port_name p \<notin> port_name ` set (svc_ports l) \<longrightarrow>
            find_key port_number (port_number p) (svc_ports l) = Some a \<longrightarrow>
            node_port q = node_port a)))
      (svc_ports d) (svc_ports s) \<and>
    (ignored \<noteq> [] \<longleftrightarrow> cluster_ip d \<noteq> [] \<and> cluster_ip d \<noteq> cluster_ip l) \<and>
    copyServiceState d s = (s, ignored)"
proof -
  have s: "s = fst (copyServiceState d l)" "ignored = snd (copyServiceState d l)"
    using assms(1) by simp_all
  have ports: "list_all2 (\<lambda>p q.
        (port_name q, port_number q, port_rest q) = (port_name p, port_number p, port_rest p) \<and>
        (node_port p \<noteq> 0 \<longrightarrow> node_port q = node_port p) \<and>
        (node_port p = 0 \<longrightarrow>
          (\<forall>a. port_name p \<noteq> [] \<longrightarrow> find_key port_name (port_name p) (svc_ports l) = Some a \<longrightarrow>
            node_port q = node_port a) \<and>
          (\<forall>a. port_name p \<notin> port_name ` set (svc_ports l) \<longrightarrow>
            find_key port_number (port_number p) (svc_ports l) = Some a \<longrightarrow>
            node_port q = node_port a)))
      (svc_ports d) (map (carry_node_port (svc_ports l)) (svc_ports d))"
    unfolding list_all2_map2
    by (rule list.rel_refl)
      (auto simp: carry_node_port_def findServicePort_def find_key_None [symmetric]
        split: option.splits)
  have "map (carry_node_port (map (carry_node_port (svc_ports l)) (svc_ports d))) (svc_ports d) =
      map (carry_node_port (svc_ports l)) (svc_ports d)"
    using carry_node_port_again [OF assms(2)] by simp
  then have again: "copyServiceState d s = (s, ignored)"
    by (simp add: s copyServiceState_def)
  show ?thesis
    using ports again by (simp add: s copyServiceState_def)
qed

definition sample_port :: "string \<Rightarrow> int \<Rightarrow> int \<Rightarrow> service_port" where
  "sample_port name n np = \<lparr>port_name = name, port_number = n, node_port = np, port_rest = ''TCP''\<rparr>"

definition sample_service :: "string \<Rightarrow> service_port list \<Rightarrow> service_spec" where
  "sample_service ip ps =
     \<lparr>cluster_ip = ip, cluster_ips = [], ip_families = [], ip_family_policy = None,
      health_check_node_port = 0, load_balancer_class = None, svc_ports = ps, svc_rest = ''NodePort''\<rparr>"

text \<open>A renamed port keeps the node port its number had.\<close>

theorem copyServiceState_correct_witness:
  "copyServiceState (sample_service [] [sample_port ''web'' 80 0])
     (sample_service ''10.0.0.1'' [sample_port ''http'' 80 31965]) =
   (sample_service ''10.0.0.1'' [sample_port ''web'' 80 31965], [])"
proof -
  let ?d = "sample_service [] [sample_port ''web'' 80 0]"
  let ?l = "sample_service ''10.0.0.1'' [sample_port ''http'' 80 31965]"
  obtain s ig where c: "copyServiceState ?d ?l = (s, ig)" by fastforce
  have "ports_valid (svc_ports ?d)" by (simp add: ports_valid_def sample_service_def)
  from copyServiceState_correct [OF c this]
  have "s = sample_service ''10.0.0.1'' [sample_port ''web'' 80 31965] \<and> ig = []"
    by (auto simp: sample_service_def sample_port_def list_all2_Cons1)
  then show ?thesis by (simp add: c)
qed

lemma copy_fields_lookup:
  "fmlookup (copy_fields dm m) f =
    (if isReservedTopLevelField f then fmlookup m f
     else case fmlookup dm f of Some v \<Rightarrow> Some v | None \<Rightarrow> fmlookup m f)"
proof -
  have step: "(\<lambda>(f, v) m. if isReservedTopLevelField f then m else fmupd f v m) =
      (\<lambda>(f :: string, v) m. case (if isReservedTopLevelField f then None else Some v) of
          None \<Rightarrow> m | Some w \<Rightarrow> fmupd f w m)"
    by (auto simp: fun_eq_iff)
  show ?thesis
    unfolding copy_fields_def step
    by (subst fold_collect_lookup) (auto split: option.splits)
qed

text \<open>The kind of a typed payload; the kinds without a typed rule have none.\<close>

definition typed_kind :: "payload \<Rightarrow> string option" where
  "typed_kind p = (case p of
       StatefulSet _ \<Rightarrow> Some ''StatefulSet'' | ConfigMap _ _ \<Rightarrow> Some ''ConfigMap''
     | Service _ \<Rightarrow> Some ''Service'' | ServiceAccount _ \<Rightarrow> Some ''ServiceAccount''
     | Job _ \<Rightarrow> Some ''Job'' | PodDisruptionBudget _ \<Rightarrow> Some ''PodDisruptionBudget''
     | _ \<Rightarrow> None)"

text \<open>What the copy does to the payload of an object whose kind has a rule.\<close>

definition payload_copied ::
    "(string fset \<Rightarrow> string list) \<Rightarrow> payload \<Rightarrow> payload \<Rightarrow> payload \<Rightarrow> string list \<Rightarrow> bool" where
  "payload_copied rng d l p ignored =
     (case (l, d) of
        (StatefulSet ls, StatefulSet ds) \<Rightarrow>
          p = StatefulSet (fst (copyStatefulSetState rng ds ls)) \<and>
          ignored = snd (copyStatefulSetState rng ds ls)
      | (Service ls, Service ds) \<Rightarrow>
          p = Service (fst (copyServiceState ds ls)) \<and> ignored = snd (copyServiceState ds ls)
      | (Job ls, Job ds) \<Rightarrow>
          p = Job (fst (copyJobState ds ls)) \<and> ignored = snd (copyJobState ds ls)
      | (ConfigMap _ _, ConfigMap _ _) \<Rightarrow> p = d \<and> ignored = []
      | (PodDisruptionBudget _, PodDisruptionBudget _) \<Rightarrow> p = d \<and> ignored = []
      | (ServiceAccount _, _) \<Rightarrow> p = l \<and> ignored = []
      | _ \<Rightarrow> False)"

lemma copyDesiredState_typed:
  assumes "typed_kind (payload l) \<noteq> None"
  shows "(case copyDesiredState rng conv d l of
      Inr (s, ignored) \<Rightarrow> payload_copied rng (payload d) (payload l) (payload s) ignored
    | Inl e \<Rightarrow> typed_kind (payload l) \<noteq> Some ''ServiceAccount'' \<and>
        typed_kind (payload d) \<noteq> typed_kind (payload l))"
  using assms
  by (cases "payload l"; cases "payload d")
    (simp_all add: copyDesiredState_def Let_def type_mismatch_def typed_kind_def payload_copied_def
      split: prod.splits)

text \<open>The kinds whose metadata the copy settles itself, without a converter.\<close>

definition wholesale :: "payload \<Rightarrow> bool" where
  "wholesale p \<longleftrightarrow> typed_kind p \<noteq> None \<or> (\<exists>m. p = Unstructured m)"

lemma copyDesiredState_metadata:
  assumes "copyDesiredState rng conv d l = Inr (s, ignored)"
    and "wholesale (payload l)"
  shows "labels s = labels d \<and> annotations s = fmadd (annotations l) (annotations d)"
  using assms
  by (cases "payload l"; cases "payload d")
    (auto simp: copyDesiredState_def Let_def type_mismatch_def copyGenericState_def
      wholesale_def typed_kind_def fold_upd_entries split: prod.splits sum.splits if_splits)

lemma copyDesiredState_unstructured:
  assumes "payload l = Unstructured content" and "copyDesiredState rng conv d l = Inr (s, ignored)"
  shows "\<exists>dm m. ToUnstructured conv d = Inr dm \<and> payload s = Unstructured m \<and>
    m = copy_fields dm content"
  using assms
  by (cases "payload d")
    (auto simp: copyDesiredState_def Let_def copyGenericState_def split: sum.splits if_splits)

text \<open>
  The desired state reaches a live object of every kind: labels are replaced wholesale,
  annotations merged with the desired value winning; a typed kind follows its own rule (a ConfigMap
  and a disruption budget are taken from the desired object, a ServiceAccount is left alone) and fails
  only when the two kinds differ; an unstructured object keeps its reserved fields and the fields the
  desired object does not have, and takes every other field from it.
\<close>

theorem copyDesiredState_correct:
  "(\<forall>s ignored. copyDesiredState rng conv d l = Inr (s, ignored) \<longrightarrow>
      wholesale (payload l) \<longrightarrow>
      labels s = labels d \<and>
      (\<forall>k. fmlookup (annotations s) k =
        (case fmlookup (annotations d) k of Some v \<Rightarrow> Some v | None \<Rightarrow> fmlookup (annotations l) k))) \<and>
   (typed_kind (payload l) \<noteq> None \<longrightarrow>
     (case copyDesiredState rng conv d l of
        Inr (s, ignored) \<Rightarrow> payload_copied rng (payload d) (payload l) (payload s) ignored
      | Inl e \<Rightarrow> typed_kind (payload l) \<noteq> Some ''ServiceAccount'' \<and>
          typed_kind (payload d) \<noteq> typed_kind (payload l))) \<and>
   (\<forall>content s ignored. payload l = Unstructured content \<longrightarrow>
      copyDesiredState rng conv d l = Inr (s, ignored) \<longrightarrow>
      (\<exists>dm m. ToUnstructured conv d = Inr dm \<and> payload s = Unstructured m \<and>
        (\<forall>f. fmlookup m f =
          (if isReservedTopLevelField f then fmlookup content f
           else case fmlookup dm f of Some v \<Rightarrow> Some v | None \<Rightarrow> fmlookup content f))))"
proof (intro conjI allI impI)
  fix s ignored k
  assume "copyDesiredState rng conv d l = Inr (s, ignored)" "wholesale (payload l)"
  from copyDesiredState_metadata [OF this] show "labels s = labels d"
    and "fmlookup (annotations s) k =
        (case fmlookup (annotations d) k of Some v \<Rightarrow> Some v | None \<Rightarrow> fmlookup (annotations l) k)"
    by (auto split: option.splits dest: fmdomI)
next
  fix content s ignored
  assume "payload l = Unstructured content" "copyDesiredState rng conv d l = Inr (s, ignored)"
  from copyDesiredState_unstructured [OF this] copy_fields_lookup
  show "\<exists>dm m. ToUnstructured conv d = Inr dm \<and> payload s = Unstructured m \<and>
        (\<forall>f. fmlookup m f =
          (if isReservedTopLevelField f then fmlookup content f
           else case fmlookup dm f of Some v \<Rightarrow> Some v | None \<Rightarrow> fmlookup content f))"
    by metis
qed (rule copyDesiredState_typed)

definition sample_object :: "string gomap \<Rightarrow> payload \<Rightarrow> object" where
  "sample_object ls p = \<lparr>labels = ls, annotations = fmempty, payload = p\<rparr>"

theorem copyDesiredState_correct_witness:
  "(case copyDesiredState sorted_range \<lparr>ToUnstructured = \<lambda>_. Inr fmempty, FromUnstructured = \<lambda>_ x. Inr x\<rparr>
      (sample_object fmempty (PodDisruptionBudget ''max 1''))
      (sample_object fmempty (PodDisruptionBudget ''max 2'')) of
     Inr (s, ignored) \<Rightarrow> payload s = PodDisruptionBudget ''max 1'' \<and> ignored = []
   | Inl e \<Rightarrow> False)"
  using copyDesiredState_correct [of sorted_range
      "\<lparr>ToUnstructured = \<lambda>_. Inr fmempty, FromUnstructured = \<lambda>_ x. Inr x\<rparr>"
      "sample_object fmempty (PodDisruptionBudget ''max 1'')"
      "sample_object fmempty (PodDisruptionBudget ''max 2'')", THEN conjunct2, THEN conjunct1]
  by (simp add: sample_object_def typed_kind_def payload_copied_def split: sum.splits prod.splits)

end
