(* ===== verification/Naming.thy ===== *)
theory Naming
  imports Prelude
begin

text \<open>
  The names the framework derives: \<open>RoleGroupResourceName\<close>, \<open>RoleResourceName\<close>,
  \<open>ServiceAccountResourceName\<close> and \<open>RoleGroupMarkerLabelKey\<close> of
  \<open>pkg/reconciler/generic_reconciler.go\<close>, and the label keys of \<open>pkg/constant/label.go\<close>.

  Names are byte strings. The first eight hex digits of the SHA-256 digest are the parameter \<open>sha8\<close>
  and the label-key validation of apimachinery the parameter \<open>is_qualified\<close>.
\<close>

section \<open>Labels\<close>

definition LabelKubernetesComponent :: string where
  "LabelKubernetesComponent = ''app.kubernetes.io/component''"
definition LabelKubernetesName :: string where "LabelKubernetesName = ''app.kubernetes.io/name''"
definition LabelKubernetesVersion :: string where "LabelKubernetesVersion = ''app.kubernetes.io/version''"
definition LabelKubernetesInstance :: string where
  "LabelKubernetesInstance = ''app.kubernetes.io/instance''"
definition LabelKubernetesManagedBy :: string where
  "LabelKubernetesManagedBy = ''app.kubernetes.io/managed-by''"
definition LabelKubernetesRoleGroup :: string where
  "LabelKubernetesRoleGroup = ''app.kubernetes.io/role-group''"
definition managedByValue :: string where "managedByValue = ''operator-go''"
definition valueTrue :: string where "valueTrue = ''true''"

definition LabelMetricsService :: string where
  "LabelMetricsService = ''metrics.kubedoop.dev/service''"
definition LabelRolePodDisruptionBudget :: string where
  "LabelRolePodDisruptionBudget = ''pdb.kubedoop.dev/role''"
definition LabelRoleGroupPodDisruptionBudget :: string where
  "LabelRoleGroupPodDisruptionBudget = ''pdb.kubedoop.dev/role-group''"

lemmas label_keys = LabelKubernetesComponent_def LabelKubernetesInstance_def
  LabelKubernetesManagedBy_def LabelKubernetesRoleGroup_def LabelMetricsService_def
  LabelRolePodDisruptionBudget_def LabelRoleGroupPodDisruptionBudget_def

section \<open>Names\<close>

definition dash :: char where "dash = CHR ''-''"

definition TrimRight :: "char \<Rightarrow> string \<Rightarrow> string" where
  "TrimRight c s = rev (dropWhile (\<lambda>x. x = c) (rev s))"

text \<open>A name cut to a bound, with a hash suffix.\<close>

definition bounded_name :: "(string \<Rightarrow> string) \<Rightarrow> nat \<Rightarrow> string \<Rightarrow> string" where
  "bounded_name sha8 bound name =
     (if length name \<le> bound then name
      else let suffix = sha8 name;
               head = TrimRight dash (take (bound - length suffix - 1) name)
           in head @ [dash] @ suffix)"

definition maxRoleGroupNameLen :: nat where "maxRoleGroupNameLen = 54"

definition RoleGroupResourceName :: "(string \<Rightarrow> string) \<Rightarrow> string \<Rightarrow> string \<Rightarrow> string \<Rightarrow> string" where
  "RoleGroupResourceName sha8 cluster role grp =
     bounded_name sha8 maxRoleGroupNameLen (cluster @ [dash] @ role @ [dash] @ grp)"

definition RoleResourceName :: "string \<Rightarrow> string \<Rightarrow> string" where
  "RoleResourceName cluster role = cluster @ [dash] @ role"

definition maxServiceAccountNameLen :: nat where "maxServiceAccountNameLen = 253"

definition to_lower :: "char \<Rightarrow> char" where
  "to_lower c = (let n = of_char c :: nat in if 65 \<le> n \<and> n \<le> 90 then char_of (n + 32) else c)"

definition ServiceAccountResourceName :: "(string \<Rightarrow> string) \<Rightarrow> string \<Rightarrow> string \<Rightarrow> string" where
  "ServiceAccountResourceName sha8 kind cluster =
     bounded_name sha8 maxServiceAccountNameLen (map to_lower kind @ [dash] @ cluster)"

definition RoleGroupMarkerLabelKey ::
    "(string \<Rightarrow> string) \<Rightarrow> (string \<Rightarrow> bool) \<Rightarrow> string \<Rightarrow> string \<Rightarrow> string \<Rightarrow> string" where
  "RoleGroupMarkerLabelKey sha8 is_qualified cluster role grp =
     (let key = cluster @ [dash] @ grp
      in if is_qualified key then key else RoleGroupResourceName sha8 cluster role grp)"

section \<open>Lemmas\<close>

lemma TrimRight_length: "length (TrimRight c s) \<le> length s"
  using length_dropWhile_le [of "\<lambda>x. x = c" "rev s"] by (simp add: TrimRight_def)

lemma TrimRight_prefix: "\<exists>t. s = TrimRight c s @ t"
proof
  show "s = TrimRight c s @ rev (takeWhile (\<lambda>x. x = c) (rev s))"
    by (metis TrimRight_def rev_append rev_rev_ident takeWhile_dropWhile_id)
qed

lemma TrimRight_last: "TrimRight c s \<noteq> [] \<Longrightarrow> last (TrimRight c s) \<noteq> c"
  using hd_dropWhile [of "\<lambda>x. x = c" "rev s"] by (auto simp: TrimRight_def last_rev)

lemma bounded_name_length:
  assumes "\<forall>s. length (sha8 s) = 8" and "9 \<le> bound"
  shows "length (bounded_name sha8 bound name) \<le> bound"
  using assms TrimRight_length [of dash "take (bound - 9) name"]
  by (auto simp: bounded_name_def Let_def)

lemma bounded_name_truncated:
  assumes "\<forall>s. length (sha8 s) = 8" and "bound < length name"
  obtains head rest where "name = head @ rest" and "head = [] \<or> last head \<noteq> dash"
    and "bounded_name sha8 bound name = head @ [dash] @ sha8 name"
proof
  let ?t = "take (bound - 9) name"
  let ?h = "TrimRight dash ?t"
  show "?h = [] \<or> last ?h \<noteq> dash" using TrimRight_last by blast
  show "bounded_name sha8 bound name = ?h @ [dash] @ sha8 name"
    using assms by (simp add: bounded_name_def Let_def)
  obtain t where "?t = ?h @ t" using TrimRight_prefix by blast
  then show "name = ?h @ drop (length ?h) name"
    by (metis append_eq_conv_conj append_take_drop_id append_assoc)
qed

lemma bounded_name_inj:
  assumes "\<forall>s. length (sha8 s) = 8" and "sha8 a = sha8 b \<Longrightarrow> a = b"
    and "length a \<le> bound \<longleftrightarrow> length b \<le> bound"
    and "bounded_name sha8 bound a = bounded_name sha8 bound b"
  shows "a = b"
proof (cases "length a \<le> bound")
  case True
  with assms show ?thesis by (simp add: bounded_name_def)
next
  case False
  with assms(3) have "bound < length a" "bound < length b" by simp_all
  then obtain h k where "bounded_name sha8 bound a = (h @ [dash]) @ sha8 a"
      and "bounded_name sha8 bound b = (k @ [dash]) @ sha8 b"
    using bounded_name_truncated [OF assms(1), of bound a] bounded_name_truncated [OF assms(1), of bound b]
    by (metis append_assoc)
  with assms(4) have "(h @ [dash]) @ sha8 a = (k @ [dash]) @ sha8 b" by simp
  with assms(1,2) show ?thesis by (metis append_eq_append_conv)
qed

text \<open>A name splits at its first dash in one way.\<close>

lemma split_at_first:
  "x @ c # y = x' @ c # y' \<Longrightarrow> c \<notin> set x \<Longrightarrow> c \<notin> set x' \<Longrightarrow> x = x' \<and> y = y'"
proof (induction x arbitrary: x')
  case Nil
  then show ?case by (cases x') auto
next
  case (Cons a x)
  then show ?case by (cases x') auto
qed

text \<open>The name before the bound is applied.\<close>

definition role_group_full_name :: "string \<Rightarrow> string \<Rightarrow> string \<Rightarrow> string" where
  "role_group_full_name cluster role grp = cluster @ [dash] @ role @ [dash] @ grp"

lemma RoleGroupResourceName_full:
  "RoleGroupResourceName sha8 cluster role grp =
    bounded_name sha8 54 (role_group_full_name cluster role grp)"
  by (simp add: RoleGroupResourceName_def role_group_full_name_def maxRoleGroupNameLen_def)

section \<open>Properties\<close>

text \<open>
  C40. A role group's resource name is at most 54 bytes, so that it stays within the 63-byte DNS
  label limit with the longest suffix the framework appends; a name that fits is not changed, and a
  longer one is a prefix of it without a trailing dash, a dash and the digest of the whole name.
\<close>

theorem RoleGroupResourceName_bounded:
  assumes "\<forall>s. length (sha8 s) = 8"
  shows "(let full = role_group_full_name cluster role grp;
      name = RoleGroupResourceName sha8 cluster role grp
    in length name \<le> 54 \<and> length (name @ ''-headless'') \<le> 63 \<and> length (name @ ''-metrics'') \<le> 63 \<and>
      (if length full \<le> 54 then name = full
       else \<exists>head rest. full = head @ rest \<and> (head = [] \<or> last head \<noteq> dash) \<and>
         name = head @ [dash] @ sha8 full))"
proof -
  let ?full = "role_group_full_name cluster role grp"
  have "length (bounded_name sha8 54 ?full) \<le> 54"
    by (rule bounded_name_length [OF assms]) simp
  moreover have "\<exists>head rest. ?full = head @ rest \<and> (head = [] \<or> last head \<noteq> dash) \<and>
      bounded_name sha8 54 ?full = head @ [dash] @ sha8 ?full" if "\<not> length ?full \<le> 54"
    using bounded_name_truncated [OF assms, of 54 ?full] that by (metis not_le)
  moreover have "bounded_name sha8 54 ?full = ?full" if "length ?full \<le> 54"
    using that by (simp add: bounded_name_def)
  ultimately show ?thesis
    by (simp add: Let_def RoleGroupResourceName_full)
qed

theorem RoleGroupResourceName_bounded_witness:
  "length (RoleGroupResourceName (\<lambda>s. ''12345678'') (replicate 43 CHR ''c'') (replicate 10 CHR ''r'')
     (replicate 21 CHR ''g'')) \<le> 54"
  using RoleGroupResourceName_bounded [of "\<lambda>s. ''12345678''" "replicate 43 CHR ''c''"
      "replicate 10 CHR ''r''" "replicate 21 CHR ''g''"]
  by (simp add: Let_def)

text \<open>
  Within a cluster two role groups of dash-free roles share a resource name only if they are the
  same, provided their digests do not collide and both names are truncated or neither is. With dashes
  in the role name the derivation is ambiguous: group \<open>c\<close> of role \<open>a-b\<close> and group \<open>b-c\<close> of role
  \<open>a\<close> share their name.
\<close>

theorem RoleGroupResourceName_inj:
  assumes "\<forall>s. length (sha8 s) = 8"
    and "sha8 (role_group_full_name cluster role grp) = sha8 (role_group_full_name cluster role' grp') \<Longrightarrow>
      role_group_full_name cluster role grp = role_group_full_name cluster role' grp'"
    and "length (role_group_full_name cluster role grp) \<le> 54 \<longleftrightarrow>
      length (role_group_full_name cluster role' grp') \<le> 54"
    and "dash \<notin> set role" and "dash \<notin> set role'"
    and "RoleGroupResourceName sha8 cluster role grp = RoleGroupResourceName sha8 cluster role' grp'"
  shows "role = role' \<and> grp = grp' \<and>
    RoleGroupResourceName sha8 cluster ''a-b'' ''c'' = RoleGroupResourceName sha8 cluster ''a'' ''b-c''"
proof -
  have "role_group_full_name cluster role grp = role_group_full_name cluster role' grp'"
    using bounded_name_inj [OF assms(1-3)] assms(6) by (simp add: RoleGroupResourceName_full)
  then have "role @ dash # grp = role' @ dash # grp'"
    by (simp add: role_group_full_name_def)
  from split_at_first [OF this assms(4,5)] show ?thesis
    by (simp add: RoleGroupResourceName_def dash_def)
qed

theorem RoleGroupResourceName_inj_witness:
  "dash \<notin> set ''namenode'' \<and> RoleGroupResourceName (\<lambda>s. ''12345678'') ''hdfs'' ''namenode'' ''a-b'' =
     ''hdfs-namenode-a-b'' \<and>
   RoleGroupResourceName (\<lambda>s. ''12345678'') ''hdfs'' ''a-b'' ''c'' =
     RoleGroupResourceName (\<lambda>s. ''12345678'') ''hdfs'' ''a'' ''b-c''"
  using RoleGroupResourceName_inj [of "\<lambda>s. ''12345678''" "''hdfs''" "''namenode''" "''a-b''"
      "''namenode''" "''a-b''"]
  by (simp add: dash_def RoleGroupResourceName_def bounded_name_def maxRoleGroupNameLen_def)

end
