(* ===== verification/Health.thy ===== *)
theory Health
  imports ClusterStatus Errors Naming
begin

text \<open>
  The health pass: \<open>pkg/reconciler/health.go\<close> and the composite check of
  \<open>pkg/common/health_interface.go\<close>.

  What the pass reads from the API server is the record \<open>health_view\<close>; the product's health check is
  its result. The text of an error is the parameter \<open>err_text\<close>. Map iterations visit the keys in
  order; the code sorts every list it builds from one.
\<close>

section \<open>What is observed\<close>

record sts_status =
  ready_replicas :: int
  current_revision :: string
  update_revision :: string
  current_replicas :: int
  status_replicas :: int

record pod_condition =
  pc_type :: string
  pc_status :: string
  pc_reason :: string

record pod =
  pod_name :: string
  pod_deleting :: bool
  pod_conditions :: "pod_condition list"
  init_waiting :: "string option list"
  container_waiting :: "string option list"

record health_view =
  hv_sts :: "string \<Rightarrow> err + sts_status"
  hv_pods :: "err + pod list"
  hv_service :: "(err + bool) option"

text \<open>\<open>CompositeHealthCheck.CheckHealthy\<close> over the results of its members.\<close>

fun composite_check :: "(err + bool) list \<Rightarrow> err + bool" where
  "composite_check [] = Inr True"
| "composite_check (c # cs) =
     (case c of
        Inl e \<Rightarrow> Inl e
      | Inr healthy \<Rightarrow> if \<not> healthy then Inr False else composite_check cs)"

section \<open>Reasons\<close>

definition ReasonCreating :: string where "ReasonCreating = ''Creating''"
definition ReasonAvailable :: string where "ReasonAvailable = ''Available''"
definition ReasonProgressing :: string where "ReasonProgressing = ''Progressing''"
definition ReasonDegraded :: string where "ReasonDegraded = ''Degraded''"
definition ReasonReconcileComplete :: string where "ReasonReconcileComplete = ''ReconcileComplete''"
definition ReasonReconcileError :: string where "ReasonReconcileError = ''ReconcileError''"
definition ReasonReconciliationPaused :: string where
  "ReasonReconciliationPaused = ''ReconciliationPaused''"
definition ReasonStopped :: string where "ReasonStopped = ''Stopped''"
definition ReasonPodsNotReady :: string where "ReasonPodsNotReady = ''PodsNotReady''"
definition ReasonPodFailure :: string where "ReasonPodFailure = ''PodFailure''"
definition ReasonWorkloadUnreadable :: string where
  "ReasonWorkloadUnreadable = ''WorkloadUnreadable''"

section \<open>Role groups\<close>

definition inLedger :: "cluster_status \<Rightarrow> string \<Rightarrow> string \<Rightarrow> bool" where
  "inLedger status role grp =
     (case fmlookup (GetStatusRoleGroups status) role of
        None \<Rightarrow> False | Some recorded \<Rightarrow> list_ex (\<lambda>r. r = grp) recorded)"

definition checkRoleGroupHealth :: "health_view \<Rightarrow> string \<Rightarrow> int \<Rightarrow> err + bool \<times> bool" where
  "checkRoleGroupHealth view name expected =
     (case hv_sts view name of
        Inl e \<Rightarrow> Inl e
      | Inr st \<Rightarrow> Inr
          (ready_replicas st \<ge> expected,
           current_revision st \<noteq> update_revision st \<or> current_replicas st \<noteq> status_replicas st))"

datatype group_state = GroupReady | GroupShort | GroupUnreadable | GroupCreating

definition declared_groups :: "generic_cluster_spec \<Rightarrow> (string \<times> string \<times> role_group_spec) list" where
  "declared_groups spec = concat (map (\<lambda>(role, rs).
     map (\<lambda>(grp, gs). (role, grp, gs)) (entries (role_role_groups rs))) (entries (spec_roles spec)))"

text \<open>One iteration of the evaluation loop: the list the group goes to, and whether it progresses.\<close>

definition group_state ::
    "(string \<Rightarrow> string) \<Rightarrow> health_view \<Rightarrow> string \<Rightarrow> cluster_status \<Rightarrow> string \<times> string \<times> role_group_spec
      \<Rightarrow> group_state \<times> bool" where
  "group_state sha8 view cluster status =
     (\<lambda>(role, grp, gs).
        case checkRoleGroupHealth view (RoleGroupResourceName sha8 cluster role grp) (GetReplicas gs) of
          Inl e \<Rightarrow> if \<not> inLedger status role grp then (GroupCreating, False) else (GroupUnreadable, False)
        | Inr (available, progressing) \<Rightarrow>
            (if available then GroupReady else GroupShort, progressing))"

definition group_label :: "string \<times> string \<times> role_group_spec \<Rightarrow> string" where
  "group_label = (\<lambda>(role, grp, _). role @ ''/'' @ grp)"

definition unavailableReason :: "string list \<Rightarrow> string list \<Rightarrow> string" where
  "unavailableReason shortOfReplicas unreadable =
     (if length shortOfReplicas > 0 then ReasonPodsNotReady
      else if length unreadable > 0 then ReasonWorkloadUnreadable
      else ReasonCreating)"

section \<open>Pods\<close>

definition stuckContainerReasons :: "string list" where
  "stuckContainerReasons =
     [''CrashLoopBackOff'', ''ImagePullBackOff'', ''ErrImagePull'', ''InvalidImageName'',
      ''CreateContainerConfigError'', ''CreateContainerError'', ''RunContainerError'']"

fun first_stuck :: "string option list \<Rightarrow> string" where
  "first_stuck [] = []"
| "first_stuck (None # ws) = first_stuck ws"
| "first_stuck (Some r # ws) = (if r \<in> set stuckContainerReasons then r else first_stuck ws)"

definition unschedulable :: "pod_condition \<Rightarrow> bool" where
  "unschedulable c \<longleftrightarrow> pc_type c = ''PodScheduled'' \<and> pc_status c = ''False'' \<and>
     pc_reason c = ''Unschedulable''"

definition podFailureReason :: "pod \<Rightarrow> string" where
  "podFailureReason p =
     (if list_ex unschedulable (pod_conditions p) then ''Unschedulable''
      else first_stuck (init_waiting p @ container_waiting p))"

definition findFailingPods :: "health_view \<Rightarrow> err + (string \<times> string) list" where
  "findFailingPods view =
     (case hv_pods view of
        Inl e \<Rightarrow> Inl e
      | Inr pods \<Rightarrow> Inr (sort_key fst (List.map_filter
          (\<lambda>p. if pod_deleting p then None
               else if podFailureReason p \<noteq> [] then Some (pod_name p, podFailureReason p)
               else None) pods)))"

definition maxReportedPodFailures :: nat where "maxReportedPodFailures = 3"

definition summarizePodFailures :: "(string \<times> string) list \<Rightarrow> string" where
  "summarizePodFailures failures =
     (let shown = take maxReportedPodFailures failures;
          parts = map (\<lambda>(p, r). p @ '' ('' @ r @ '')'') shown;
          message = ''Pods requiring attention: '' @ join_strings '', '' parts;
          remaining = length failures - length shown
      in if remaining > 0 then message @ '', and '' @ decimal remaining @ '' more'' else message)"

section \<open>The pass\<close>

definition em_dash :: string where "em_dash = [CHR 0xE2, CHR 0x80, CHR 0x94]"

definition cluster_paused :: "generic_cluster_spec \<Rightarrow> bool" where
  "cluster_paused spec =
     (case spec_cluster_operation spec of None \<Rightarrow> False | Some op \<Rightarrow> reconciliation_paused op)"

definition cluster_stopped :: "generic_cluster_spec \<Rightarrow> bool" where
  "cluster_stopped spec =
     (case spec_cluster_operation spec of None \<Rightarrow> False | Some op \<Rightarrow> op_stopped op)"

definition check_stopped :: "int \<Rightarrow> health_view \<Rightarrow> cluster_status \<Rightarrow> cluster_status" where
  "check_stopped now view status =
     (let s1 = SetUnavailable now ReasonStopped ''Cluster is stopped'' status;
          s2 = SetDegraded now False ReasonStopped ''Cluster is intentionally stopped'' s1;
          s3 = SetProgressing now False ReasonStopped ''Cluster is stopped'' s2;
          s4 = SetPaused now False ReasonStopped ''Cluster is stopped, not paused'' s3
      in if hv_service view \<noteq> None
         then SetServiceHealthy now False ReasonStopped ''Cluster is stopped'' s4 else s4)"

definition unavailable_message :: "string list \<Rightarrow> string list \<Rightarrow> string list \<Rightarrow> string" where
  "unavailable_message shortOfReplicas unreadable creating =
     ''Role groups '' @ em_dash @ '' '' @ join_strings ''; ''
       ((if length shortOfReplicas > 0
         then [''fewer ready replicas than desired: '' @ join_strings '', '' shortOfReplicas] else []) @
        (if length unreadable > 0
         then [''StatefulSet could not be read: '' @ join_strings '', '' unreadable] else []) @
        (if length creating > 0
         then [''not created yet: '' @ join_strings '', '' creating] else []))"

type_synonym verdict = "bool \<times> string \<times> string"

text \<open>The Degraded verdict of the workloads.\<close>

definition workload_verdict :: "health_view \<Rightarrow> string list \<Rightarrow> verdict" where
  "workload_verdict view unreadable =
     (if length unreadable > 0
      then (True, ReasonWorkloadUnreadable,
        ''StatefulSet could not be read for role groups: '' @ join_strings '', '' unreadable)
      else case findFailingPods view of
             Inl e \<Rightarrow> (False, ReasonAvailable, ''No failing pods'')
           | Inr failures \<Rightarrow>
               if length failures > 0 then (True, ReasonPodFailure, summarizePodFailures failures)
               else (False, ReasonAvailable, ''No failing pods''))"

text \<open>The product's check: its condition, and the verdict it leaves.\<close>

definition service_step ::
    "int \<Rightarrow> (err \<Rightarrow> string) \<Rightarrow> health_view \<Rightarrow> bool \<Rightarrow> verdict \<times> cluster_status \<Rightarrow> verdict \<times> cluster_status"
  where
  "service_step now err_text view paused = (\<lambda>(v, s).
     case hv_service view of
       None \<Rightarrow> (v, s)
     | Some result \<Rightarrow>
         if paused
         then (v, SetServiceHealthyUnknown now ReasonReconciliationPaused
                 ''Not probed while reconciliation is paused'' s)
         else (case result of
             Inl e \<Rightarrow>
               (let message = ''Service health check error: '' @ err_text e
                in ((True, ReasonDegraded, message), SetServiceHealthy now False ReasonDegraded message s))
           | Inr healthy \<Rightarrow>
               if \<not> healthy
               then ((True, ReasonDegraded, ''Service health check reported unhealthy''),
                     SetServiceHealthy now False ReasonDegraded ''Service is not healthy'' s)
               else (v, SetServiceHealthy now True ReasonAvailable ''Service is healthy'' s)))"

text \<open>The switch over the evaluated role groups.\<close>

definition availability_step ::
    "int \<Rightarrow> nat \<Rightarrow> string list \<Rightarrow> string list \<Rightarrow> string list \<Rightarrow> cluster_status \<Rightarrow> cluster_status" where
  "availability_step now evaluated shortOfReplicas unreadable creating s =
     (if evaluated = 0
      then SetUnavailable now ReasonCreating ''Cluster declares no role groups'' s
      else if length shortOfReplicas = 0 \<and> length unreadable = 0 \<and> length creating = 0
      then SetAvailable now ReasonAvailable ''All replicas are available'' s
      else SetUnavailable now (unavailableReason shortOfReplicas unreadable)
             (unavailable_message shortOfReplicas unreadable creating) s)"

definition progressing_step :: "int \<Rightarrow> bool \<Rightarrow> cluster_status \<Rightarrow> cluster_status" where
  "progressing_step now progressing s =
     (if progressing
      then SetProgressing now True ReasonProgressing ''Cluster is progressing'' s
      else SetProgressing now False ReasonAvailable ''Cluster is stable'' s)"

definition pause_step :: "int \<Rightarrow> bool \<Rightarrow> verdict \<times> cluster_status \<Rightarrow> cluster_status" where
  "pause_step now paused = (\<lambda>((degraded, reason, message), s).
     if paused
     then SetDegraded now False ReasonReconciliationPaused
            ''Reconciliation is paused; the cluster is not being reconciled''
            (SetPaused now True ReasonReconciliationPaused ''Reconciliation is paused'' s)
     else SetDegraded now degraded reason message
            (SetPaused now False ReasonReconcileComplete ''Reconciliation is active'' s))"

text \<open>The sorted labels of the role groups in a state.\<close>

definition groups_in ::
    "(string \<Rightarrow> string) \<Rightarrow> health_view \<Rightarrow> string \<Rightarrow> generic_cluster_spec \<Rightarrow> cluster_status
      \<Rightarrow> group_state \<Rightarrow> string list" where
  "groups_in sha8 view cluster spec status st = sort (map group_label
     (filter (\<lambda>g. fst (group_state sha8 view cluster status g) = st) (declared_groups spec)))"

definition Check ::
    "(string \<Rightarrow> string) \<Rightarrow> (err \<Rightarrow> string) \<Rightarrow> health_view \<Rightarrow> string \<Rightarrow> generic_cluster_spec \<Rightarrow> int
      \<Rightarrow> cluster_status \<Rightarrow> cluster_status" where
  "Check sha8 err_text view cluster spec now status =
     (if cluster_stopped spec \<and> \<not> cluster_paused spec then check_stopped now view status
      else
        let groups = declared_groups spec;
            named = groups_in sha8 view cluster spec status;
            s1 = availability_step now (length groups) (named GroupShort) (named GroupUnreadable)
                   (named GroupCreating) status;
            s2 = progressing_step now
                   (list_ex (\<lambda>g. snd (group_state sha8 view cluster status g)) groups) s1
        in pause_step now (cluster_paused spec)
             (service_step now err_text view (cluster_paused spec)
               (workload_verdict view (named GroupUnreadable), s2)))"

section \<open>The conditions of a pass\<close>

text \<open>What a reader sees of a condition.\<close>

definition shown :: "string \<Rightarrow> cluster_status \<Rightarrow> (condition_status \<times> string \<times> string) option" where
  "shown t s = map_option (\<lambda>c. (c_status c, c_reason c, c_message c)) (GetCondition s t)"

definition available_write ::
    "(string \<Rightarrow> string) \<Rightarrow> health_view \<Rightarrow> string \<Rightarrow> generic_cluster_spec \<Rightarrow> cluster_status \<Rightarrow> condition" where
  "available_write sha8 view cluster spec status =
     (let g = groups_in sha8 view cluster spec status in
      if declared_groups spec = []
      then mk_condition ConditionAvailable ConditionFalse ReasonCreating ''Cluster declares no role groups''
      else if g GroupShort = [] \<and> g GroupUnreadable = [] \<and> g GroupCreating = []
      then mk_condition ConditionAvailable ConditionTrue ReasonAvailable ''All replicas are available''
      else mk_condition ConditionAvailable ConditionFalse
        (unavailableReason (g GroupShort) (g GroupUnreadable))
        (unavailable_message (g GroupShort) (g GroupUnreadable) (g GroupCreating)))"

definition progressing_write ::
    "(string \<Rightarrow> string) \<Rightarrow> health_view \<Rightarrow> string \<Rightarrow> generic_cluster_spec \<Rightarrow> cluster_status \<Rightarrow> condition" where
  "progressing_write sha8 view cluster spec status =
     (if \<exists>g \<in> set (declared_groups spec). snd (group_state sha8 view cluster status g)
      then mk_condition ConditionProgressing ConditionTrue ReasonProgressing ''Cluster is progressing''
      else mk_condition ConditionProgressing ConditionFalse ReasonAvailable ''Cluster is stable'')"

definition service_writes :: "(err \<Rightarrow> string) \<Rightarrow> health_view \<Rightarrow> bool \<Rightarrow> condition list" where
  "service_writes err_text view paused =
     (case hv_service view of
        None \<Rightarrow> []
      | Some result \<Rightarrow>
          [if paused then mk_condition ConditionServiceHealthy ConditionUnknown
             ReasonReconciliationPaused ''Not probed while reconciliation is paused''
           else case result of
             Inl e \<Rightarrow> mk_condition ConditionServiceHealthy ConditionFalse ReasonDegraded
               (''Service health check error: '' @ err_text e)
           | Inr healthy \<Rightarrow>
               if healthy then mk_condition ConditionServiceHealthy ConditionTrue ReasonAvailable
                 ''Service is healthy''
               else mk_condition ConditionServiceHealthy ConditionFalse ReasonDegraded
                 ''Service is not healthy''])"

definition final_verdict :: "(err \<Rightarrow> string) \<Rightarrow> health_view \<Rightarrow> string list \<Rightarrow> verdict" where
  "final_verdict err_text view unreadable =
     (case hv_service view of
        Some (Inl e) \<Rightarrow> (True, ReasonDegraded, ''Service health check error: '' @ err_text e)
      | Some (Inr False) \<Rightarrow> (True, ReasonDegraded, ''Service health check reported unhealthy'')
      | _ \<Rightarrow> workload_verdict view unreadable)"

definition stopped_writes :: "health_view \<Rightarrow> condition list" where
  "stopped_writes view =
     [mk_condition ConditionAvailable ConditionFalse ReasonStopped ''Cluster is stopped'',
      mk_condition ConditionDegraded ConditionFalse ReasonStopped ''Cluster is intentionally stopped'',
      mk_condition ConditionProgressing ConditionFalse ReasonStopped ''Cluster is stopped'',
      mk_condition ConditionPaused ConditionFalse ReasonStopped ''Cluster is stopped, not paused''] @
     (if hv_service view \<noteq> None
      then [mk_condition ConditionServiceHealthy ConditionFalse ReasonStopped ''Cluster is stopped'']
      else [])"

definition pause_writes ::
    "(err \<Rightarrow> string) \<Rightarrow> health_view \<Rightarrow> bool \<Rightarrow> string list \<Rightarrow> condition list" where
  "pause_writes err_text view paused unreadable =
     (if paused
      then [mk_condition ConditionPaused ConditionTrue ReasonReconciliationPaused ''Reconciliation is paused'',
            mk_condition ConditionDegraded ConditionFalse ReasonReconciliationPaused
              ''Reconciliation is paused; the cluster is not being reconciled'']
      else (case final_verdict err_text view unreadable of (degraded, reason, message) \<Rightarrow>
           [mk_condition ConditionPaused ConditionFalse ReasonReconcileComplete ''Reconciliation is active'',
            mk_condition ConditionDegraded (cond_of_bool degraded) reason message]))"

definition health_writes ::
    "(string \<Rightarrow> string) \<Rightarrow> (err \<Rightarrow> string) \<Rightarrow> health_view \<Rightarrow> string \<Rightarrow> generic_cluster_spec
      \<Rightarrow> cluster_status \<Rightarrow> condition list" where
  "health_writes sha8 err_text view cluster spec status =
     (if cluster_stopped spec \<and> \<not> cluster_paused spec then stopped_writes view
      else [available_write sha8 view cluster spec status,
            progressing_write sha8 view cluster spec status] @
        service_writes err_text view (cluster_paused spec) @
        pause_writes err_text view (cluster_paused spec)
          (groups_in sha8 view cluster spec status GroupUnreadable))"

lemmas setters = SetAvailable_def SetUnavailable_def SetProgressing_def SetDegraded_def SetPaused_def
  SetServiceHealthyUnknown_def SetServiceHealthy_def

lemma service_step_writes:
  "snd (service_step now err_text view paused (v, s)) =
    fold (SetCondition now) (service_writes err_text view paused) s"
  by (auto simp: service_step_def service_writes_def setters cond_of_bool_def Let_def
      split: option.splits sum.splits)

lemma service_step_verdict:
  "\<not> paused \<Longrightarrow> fst (service_step now err_text view paused (workload_verdict view u, s)) =
    final_verdict err_text view u"
  by (auto simp: service_step_def final_verdict_def Let_def split: option.splits sum.splits bool.splits)

lemma availability_step_writes:
  "availability_step now (length (declared_groups spec)) (groups_in sha8 view cluster spec status GroupShort)
      (groups_in sha8 view cluster spec status GroupUnreadable)
      (groups_in sha8 view cluster spec status GroupCreating) s =
    SetCondition now (available_write sha8 view cluster spec status) s"
  by (simp add: availability_step_def available_write_def Let_def setters)

lemma progressing_step_writes:
  "progressing_step now (list_ex (\<lambda>g. snd (group_state sha8 view cluster status g)) (declared_groups spec)) s =
    SetCondition now (progressing_write sha8 view cluster spec status) s"
  by (simp add: progressing_step_def progressing_write_def setters cond_of_bool_def list_ex_iff)

lemma pause_step_writes:
  "pause_step now paused (service_step now err_text view paused (workload_verdict view u, s)) =
    fold (SetCondition now) (service_writes err_text view paused @ pause_writes err_text view paused u) s"
proof -
  obtain v s' where r: "service_step now err_text view paused (workload_verdict view u, s) = (v, s')"
    by fastforce
  then have s': "s' = fold (SetCondition now) (service_writes err_text view paused) s"
    using service_step_writes [of now err_text view paused "workload_verdict view u" s] by simp
  have "\<not> paused \<Longrightarrow> v = final_verdict err_text view u"
    using service_step_verdict [of paused now err_text view u s] r by simp
  then show ?thesis
    by (cases v)
      (auto simp: r s' pause_step_def pause_writes_def setters cond_of_bool_def split: prod.splits)
qed

lemma Check_writes:
  "Check sha8 err_text view cluster spec now status =
    fold (SetCondition now) (health_writes sha8 err_text view cluster spec status) status"
proof (cases "cluster_stopped spec \<and> \<not> cluster_paused spec")
  case True
  then show ?thesis
    by (auto simp: Check_def health_writes_def check_stopped_def stopped_writes_def setters
        cond_of_bool_def Let_def)
next
  case False
  then show ?thesis
    unfolding Check_def health_writes_def Let_def availability_step_writes progressing_step_writes
      pause_step_writes by auto
qed

lemma mk_condition_fields [simp]:
  "c_type (mk_condition t st r m) = t" "c_status (mk_condition t st r m) = st"
  "c_reason (mk_condition t st r m) = r" "c_message (mk_condition t st r m) = m"
  "c_generation (mk_condition t st r m) = 0"
  by (simp_all add: mk_condition_def)

lemma write_types [simp]:
  "c_type (available_write sha8 view cluster spec status) = ConditionAvailable"
  "c_type (progressing_write sha8 view cluster spec status) = ConditionProgressing"
  "map c_type (service_writes err_text view paused) =
    (if hv_service view = None then [] else [ConditionServiceHealthy])"
  "map c_type (pause_writes err_text view paused u) = [ConditionPaused, ConditionDegraded]"
  "map c_type (stopped_writes view) =
    [ConditionAvailable, ConditionDegraded, ConditionProgressing, ConditionPaused] @
      (if hv_service view = None then [] else [ConditionServiceHealthy])"
      apply (simp add: available_write_def Let_def)
     apply (simp add: progressing_write_def)
    apply (cases "hv_service view")
     apply (simp add: service_writes_def)
    apply (simp add: service_writes_def split: sum.split)
   apply (simp add: pause_writes_def split: prod.split)
  apply (simp add: stopped_writes_def)
  done

lemma health_types:
  "map c_type (health_writes sha8 err_text view cluster spec status) =
    (if cluster_stopped spec \<and> \<not> cluster_paused spec
     then [ConditionAvailable, ConditionDegraded, ConditionProgressing, ConditionPaused] @
       (if hv_service view = None then [] else [ConditionServiceHealthy])
     else [ConditionAvailable, ConditionProgressing] @
       (if hv_service view = None then [] else [ConditionServiceHealthy]) @
       [ConditionPaused, ConditionDegraded])"
  by (simp add: health_writes_def)

lemma health_types_distinct: "distinct (map c_type (health_writes sha8 err_text view cluster spec status))"
  unfolding health_types by (simp add: condition_types)

lemma shown_written:
  assumes "c \<in> set (health_writes sha8 err_text view cluster spec status)"
  shows "shown (c_type c) (Check sha8 err_text view cluster spec now status) =
    Some (c_status c, c_reason c, c_message c)"
  using conditions.run_settles [OF health_types_distinct assms, where now = now and s = status]
  unfolding conditions.settled_def by (auto simp: shown_def Check_writes)

lemma condition_is_true_shown:
  "condition_is_true t s \<longleftrightarrow> (\<exists>r m. shown t s = Some (ConditionTrue, r, m))"
  by (auto simp: condition_is_true_def shown_def split: option.splits)

lemma health_writes_ledger:
  "status_role_groups s = status_role_groups s' \<Longrightarrow>
    health_writes sha8 err_text view cluster spec s = health_writes sha8 err_text view cluster spec s'"
proof -
  assume "status_role_groups s = status_role_groups s'"
  then have "group_state sha8 view cluster s = group_state sha8 view cluster s'"
    by (simp add: group_state_def inLedger_def GetStatusRoleGroups_def fun_eq_iff)
  moreover from this have "groups_in sha8 view cluster spec s = groups_in sha8 view cluster spec s'"
    by (intro ext) (simp only: groups_in_def)
  ultimately show ?thesis
    unfolding health_writes_def available_write_def progressing_write_def by simp
qed

lemma fold_SetCondition_ledger [simp]:
  "status_role_groups (fold (SetCondition now) cs s) = status_role_groups s"
  by (induction cs arbitrary: s) simp_all

lemma sort_key_Nil [simp]: "sort_key f xs = [] \<longleftrightarrow> xs = []"
  by (metis length_0_conv length_sort)

lemma in_groups_in:
  "groups_in sha8 view cluster spec status st = [] \<longleftrightarrow>
    (\<forall>g \<in> set (declared_groups spec). fst (group_state sha8 view cluster status g) \<noteq> st)"
  by (auto simp: groups_in_def filter_empty_conv)

lemma in_declared_groups:
  "(role, grp, gs) \<in> set (declared_groups spec) \<longleftrightarrow>
    (\<exists>rs. fmlookup (spec_roles spec) role = Some rs \<and> fmlookup (role_role_groups rs) grp = Some gs)"
  by (force simp: declared_groups_def)

lemma first_stuck_iff:
  "first_stuck ws \<noteq> [] \<longleftrightarrow> (\<exists>r. Some r \<in> set ws \<and> r \<in> set stuckContainerReasons)"
proof (induction ws rule: first_stuck.induct)
  case (3 r ws)
  have "[] \<notin> set stuckContainerReasons" by (simp add: stuckContainerReasons_def)
  with 3 show ?case by auto
qed auto

text \<open>What makes a pod one a human must look at.\<close>

definition pod_stuck :: "pod \<Rightarrow> bool" where
  "pod_stuck p \<longleftrightarrow> \<not> pod_deleting p \<and>
     ((\<exists>c \<in> set (pod_conditions p). unschedulable c) \<or>
      (\<exists>r. Some r \<in> set (init_waiting p) \<union> set (container_waiting p) \<and> r \<in> set stuckContainerReasons))"

lemma podFailureReason_iff: "podFailureReason p \<noteq> [] \<and> \<not> pod_deleting p \<longleftrightarrow> pod_stuck p"
  using first_stuck_iff [of "init_waiting p @ container_waiting p"]
  by (auto simp: podFailureReason_def pod_stuck_def list_ex_iff)

lemma findFailingPods_empty:
  "findFailingPods view = Inr fs \<Longrightarrow>
    (fs = [] \<longleftrightarrow> (\<forall>pods. hv_pods view = Inr pods \<longrightarrow> (\<forall>p \<in> set pods. \<not> pod_stuck p)))"
proof -
  assume f: "findFailingPods view = Inr fs"
  then obtain pods where p: "hv_pods view = Inr pods"
    by (auto simp: findFailingPods_def split: sum.splits)
  let ?f = "\<lambda>p. if pod_deleting p then None
      else if podFailureReason p \<noteq> [] then Some (pod_name p, podFailureReason p) else None"
  have "fs = [] \<longleftrightarrow> (\<forall>p \<in> set pods. ?f p = None)"
    using f p by (auto simp: findFailingPods_def List.map_filter_def filter_empty_conv
        split: if_splits)
  also have "\<dots> \<longleftrightarrow> (\<forall>p \<in> set pods. \<not> pod_stuck p)"
    using podFailureReason_iff by (auto split: if_splits)
  finally show ?thesis by (simp add: p)
qed

lemma final_verdict_degraded:
  "fst (final_verdict err_text view u) \<longleftrightarrow>
    u \<noteq> [] \<or> (\<exists>pods. hv_pods view = Inr pods \<and> (\<exists>p \<in> set pods. pod_stuck p)) \<or>
    (\<exists>e. hv_service view = Some (Inl e)) \<or> hv_service view = Some (Inr False)"
proof -
  have wv: "fst (workload_verdict view u) \<longleftrightarrow>
      u \<noteq> [] \<or> (\<exists>pods. hv_pods view = Inr pods \<and> (\<exists>p \<in> set pods. pod_stuck p))"
  proof (cases "findFailingPods view")
    case (Inl e)
    then have "\<exists>e. hv_pods view = Inl e" by (auto simp: findFailingPods_def split: sum.splits)
    with Inl show ?thesis by (auto simp: workload_verdict_def)
  next
    case (Inr fs)
    then have "\<exists>pods. hv_pods view = Inr pods" by (auto simp: findFailingPods_def split: sum.splits)
    with Inr findFailingPods_empty [OF Inr] show ?thesis by (auto simp: workload_verdict_def)
  qed
  consider "hv_service view = None" | e where "hv_service view = Some (Inl e)"
    | "hv_service view = Some (Inr True)" | "hv_service view = Some (Inr False)"
    by (metis option.exhaust sum.exhaust bool.exhaust)
  then show ?thesis
    by cases (simp_all add: final_verdict_def wv)
qed

lemma group_state_unreadable:
  "fst (group_state sha8 view cluster status (role, grp, gs)) = GroupUnreadable \<longleftrightarrow>
    inLedger status role grp \<and> (\<exists>e. hv_sts view (RoleGroupResourceName sha8 cluster role grp) = Inl e)"
  by (auto simp: group_state_def checkRoleGroupHealth_def split: sum.splits)

lemma group_state_ready:
  "fst (group_state sha8 view cluster status (role, grp, gs)) = GroupReady \<longleftrightarrow>
    (\<exists>st. hv_sts view (RoleGroupResourceName sha8 cluster role grp) = Inr st \<and>
      GetReplicas gs \<le> ready_replicas st)"
  by (auto simp: group_state_def checkRoleGroupHealth_def split: sum.splits)

lemma all_ready:
  "(\<forall>st \<in> {GroupShort, GroupUnreadable, GroupCreating}. groups_in sha8 view cluster spec status st = []) \<longleftrightarrow>
    (\<forall>g \<in> set (declared_groups spec). fst (group_state sha8 view cluster status g) = GroupReady)"
proof -
  have "st = GroupReady \<longleftrightarrow> st \<noteq> GroupShort \<and> st \<noteq> GroupUnreadable \<and> st \<noteq> GroupCreating" for st
    by (cases st) simp_all
  then show ?thesis by (auto simp: in_groups_in)
qed

section \<open>A sample\<close>

text \<open>A cluster without role groups whose only pod cannot pull its image.\<close>

definition sample_spec :: generic_cluster_spec where
  "sample_spec = \<lparr>spec_image = None, spec_cluster_operation = None, spec_roles = fmempty\<rparr>"

definition sample_view :: health_view where
  "sample_view =
     \<lparr>hv_sts = (\<lambda>n. Inl (StatusError NotFound)),
      hv_pods = Inr [\<lparr>pod_name = ''a-0'', pod_deleting = False, pod_conditions = [],
        init_waiting = [], container_waiting = [None, Some ''ErrImagePull'']\<rparr>],
      hv_service = None\<rparr>"

definition sample_status :: cluster_status where
  "sample_status = \<lparr>conditions = [], status_role_groups = fmempty, observed_generation = 1\<rparr>"

lemma sample_running: "\<not> cluster_stopped sample_spec" "\<not> cluster_paused sample_spec"
  by (simp_all add: cluster_stopped_def cluster_paused_def sample_spec_def)

lemma sample_stuck: "\<exists>pods. hv_pods sample_view = Inr pods \<and> (\<exists>p \<in> set pods. pod_stuck p)"
  by (simp add: sample_view_def pod_stuck_def stuckContainerReasons_def)

section \<open>Properties of the health pass\<close>

lemma running_writes:
  assumes "\<not> cluster_stopped spec" and "\<not> cluster_paused spec"
  shows "available_write sha8 view cluster spec s \<in> set (health_writes sha8 err_text view cluster spec s)"
    and "progressing_write sha8 view cluster spec s \<in> set (health_writes sha8 err_text view cluster spec s)"
  using assms by (auto simp: health_writes_def)

lemma running_degraded:
  assumes "\<not> cluster_stopped spec" and "\<not> cluster_paused spec"
  shows "IsDegraded (Check sha8 err_text view cluster spec now s) \<longleftrightarrow>
    fst (final_verdict err_text view (groups_in sha8 view cluster spec s GroupUnreadable))"
proof -
  obtain d r m where v:
      "final_verdict err_text view (groups_in sha8 view cluster spec s GroupUnreadable) = (d, r, m)"
    by (metis prod_cases3)
  with assms have "mk_condition ConditionDegraded (cond_of_bool d) r m \<in>
      set (health_writes sha8 err_text view cluster spec s)"
    by (simp add: health_writes_def pause_writes_def)
  from shown_written [OF this, where now = now] show ?thesis
    by (simp add: IsDegraded_def condition_is_true_shown cond_of_bool_def v)
qed

text \<open>
  A running cluster is Degraded exactly when a human must look: a role group the framework has
  already applied cannot be read, a pod that is not being deleted is unschedulable or has a container
  the kubelet has given up on, or the product's own check fails. Replica counts and rollouts do not
  matter, and a failed pod list is not the cluster's fault.
\<close>

theorem Check_degraded:
  assumes "\<not> cluster_stopped spec" and "\<not> cluster_paused spec"
  shows "IsDegraded (Check sha8 err_text view cluster spec now s) \<longleftrightarrow>
    (\<exists>role rs grp gs e. fmlookup (spec_roles spec) role = Some rs \<and>
      fmlookup (role_role_groups rs) grp = Some gs \<and> inLedger s role grp \<and>
      hv_sts view (RoleGroupResourceName sha8 cluster role grp) = Inl e) \<or>
    (\<exists>pods. hv_pods view = Inr pods \<and> (\<exists>p \<in> set pods. pod_stuck p)) \<or>
    (\<exists>e. hv_service view = Some (Inl e)) \<or> hv_service view = Some (Inr False)"
proof -
  let ?u = "groups_in sha8 view cluster spec s GroupUnreadable"
  have "?u \<noteq> [] \<longleftrightarrow> (\<exists>role rs grp gs e. fmlookup (spec_roles spec) role = Some rs \<and>
      fmlookup (role_role_groups rs) grp = Some gs \<and> inLedger s role grp \<and>
      hv_sts view (RoleGroupResourceName sha8 cluster role grp) = Inl e)"
    by (simp add: in_groups_in Ball_def in_declared_groups group_state_unreadable) blast
  then show ?thesis unfolding running_degraded [OF assms] final_verdict_degraded by simp
qed

theorem Check_degraded_witness:
  "IsDegraded (Check (\<lambda>s. s) (\<lambda>e. []) sample_view ''c'' sample_spec 7 sample_status)"
  using Check_degraded [OF sample_running, of "\<lambda>s. s" "\<lambda>e. []" sample_view "''c''" 7 sample_status]
    sample_stuck by blast

text \<open>
  A running cluster is Available exactly when it declares a role group and every declared role
  group has at least as many ready replicas as its spec asks for (a scale-down keeps it available, an
  unreadable role group does not), and Progressing exactly when some readable role group is in a
  rollout or has replicas the controller has not finished changing.
\<close>

theorem Check_available:
  assumes "\<not> cluster_stopped spec" and "\<not> cluster_paused spec"
  shows "(IsAvailable (Check sha8 err_text view cluster spec now s) \<longleftrightarrow>
      declared_groups spec \<noteq> [] \<and>
      (\<forall>(role, grp, gs) \<in> set (declared_groups spec). \<exists>st.
        hv_sts view (RoleGroupResourceName sha8 cluster role grp) = Inr st \<and>
        GetReplicas gs \<le> ready_replicas st)) \<and>
    (IsProgressing (Check sha8 err_text view cluster spec now s) \<longleftrightarrow>
      (\<exists>(role, grp, gs) \<in> set (declared_groups spec). \<exists>st.
        hv_sts view (RoleGroupResourceName sha8 cluster role grp) = Inr st \<and>
        (current_revision st \<noteq> update_revision st \<or> current_replicas st \<noteq> status_replicas st)))"
proof
  let ?a = "available_write sha8 view cluster spec s" and ?p = "progressing_write sha8 view cluster spec s"
  have "IsAvailable (Check sha8 err_text view cluster spec now s) \<longleftrightarrow> c_status ?a = ConditionTrue"
    using shown_written [OF running_writes(1) [OF assms], where now = now]
    by (simp add: IsAvailable_def condition_is_true_shown)
  also have "\<dots> \<longleftrightarrow> declared_groups spec \<noteq> [] \<and>
      (\<forall>g \<in> set (declared_groups spec). fst (group_state sha8 view cluster s g) = GroupReady)"
    unfolding all_ready [symmetric] by (simp add: available_write_def Let_def)
  finally show "IsAvailable (Check sha8 err_text view cluster spec now s) \<longleftrightarrow>
      declared_groups spec \<noteq> [] \<and>
      (\<forall>(role, grp, gs) \<in> set (declared_groups spec). \<exists>st.
        hv_sts view (RoleGroupResourceName sha8 cluster role grp) = Inr st \<and>
        GetReplicas gs \<le> ready_replicas st)"
    by (simp add: group_state_ready case_prod_unfold split_paired_Ball_Sigma Ball_def)
  have "IsProgressing (Check sha8 err_text view cluster spec now s) \<longleftrightarrow> c_status ?p = ConditionTrue"
    using shown_written [OF running_writes(2) [OF assms], where now = now]
    by (simp add: IsProgressing_def condition_is_true_shown)
  also have "\<dots> \<longleftrightarrow> (\<exists>g \<in> set (declared_groups spec). snd (group_state sha8 view cluster s g))"
    by (simp add: progressing_write_def)
  also have "\<dots> \<longleftrightarrow> (\<exists>(role, grp, gs) \<in> set (declared_groups spec). \<exists>st.
        hv_sts view (RoleGroupResourceName sha8 cluster role grp) = Inr st \<and>
        (current_revision st \<noteq> update_revision st \<or> current_replicas st \<noteq> status_replicas st))"
    by (rule bex_cong [OF refl])
      (simp add: group_state_def checkRoleGroupHealth_def case_prod_unfold split: sum.split)
  finally show "IsProgressing (Check sha8 err_text view cluster spec now s) \<longleftrightarrow>
      (\<exists>(role, grp, gs) \<in> set (declared_groups spec). \<exists>st.
        hv_sts view (RoleGroupResourceName sha8 cluster role grp) = Inr st \<and>
        (current_revision st \<noteq> update_revision st \<or> current_replicas st \<noteq> status_replicas st))" .
qed

theorem Check_available_witness:
  "\<not> IsAvailable (Check (\<lambda>s. s) (\<lambda>e. []) sample_view ''c'' sample_spec 7 sample_status) \<and>
   \<not> IsProgressing (Check (\<lambda>s. s) (\<lambda>e. []) sample_view ''c'' sample_spec 7 sample_status)"
proof -
  have "declared_groups sample_spec = []"
    by (simp add: declared_groups_def sample_spec_def)
  with Check_available [OF sample_running, of "\<lambda>s. s" "\<lambda>e. []" sample_view "''c''" 7 sample_status]
  show ?thesis by simp
qed

text \<open>
  A pass leaves no stale condition and settles: every workload condition (and the service
  condition, where a check is configured) is written from what this pass observed, whatever the
  status said before; a stopped or paused cluster is not Degraded; no other condition and no ledger
  entry is touched; and a later pass over the same observations changes nothing at all.
\<close>

theorem Check_settles:
  "(\<forall>t \<in> {ConditionAvailable, ConditionProgressing, ConditionDegraded, ConditionPaused} \<union>
        (if hv_service view = None then {} else {ConditionServiceHealthy}).
      \<forall>s'. status_role_groups s' = status_role_groups s \<longrightarrow>
        shown t (Check sha8 err_text view cluster spec now s') =
          shown t (Check sha8 err_text view cluster spec now s) \<and>
        shown t (Check sha8 err_text view cluster spec now s) \<noteq> None) \<and>
   (cluster_stopped spec \<or> cluster_paused spec \<longrightarrow>
      \<not> IsDegraded (Check sha8 err_text view cluster spec now s)) \<and>
   (\<forall>t. t \<notin> {ConditionAvailable, ConditionProgressing, ConditionDegraded, ConditionPaused,
        ConditionServiceHealthy} \<longrightarrow>
      GetCondition (Check sha8 err_text view cluster spec now s) t = GetCondition s t) \<and>
   status_role_groups (Check sha8 err_text view cluster spec now s) = status_role_groups s \<and>
   Check sha8 err_text view cluster spec later (Check sha8 err_text view cluster spec now s) =
     Check sha8 err_text view cluster spec now s"
proof (intro conjI ballI allI impI)
  fix t assume t: "t \<in> {ConditionAvailable, ConditionProgressing, ConditionDegraded, ConditionPaused} \<union>
        (if hv_service view = None then {} else {ConditionServiceHealthy})"
  have "t \<in> set (map c_type (health_writes sha8 err_text view cluster spec s))"
    using t unfolding health_types by (auto split: if_splits)
  then obtain c where c: "c \<in> set (health_writes sha8 err_text view cluster spec s)" "c_type c = t"
    by auto
  from shown_written [OF c(1)] c(2)
  have e: "shown t (Check sha8 err_text view cluster spec now s) = Some (c_status c, c_reason c, c_message c)"
    by simp
  then show "shown t (Check sha8 err_text view cluster spec now s) \<noteq> None" by simp
  fix s' :: cluster_status assume "status_role_groups s' = status_role_groups s"
  from health_writes_ledger [OF this, of sha8 err_text view cluster spec] c
  have "shown t (Check sha8 err_text view cluster spec now s') = Some (c_status c, c_reason c, c_message c)"
    using shown_written [of c sha8 err_text view cluster spec s', where now = now] by simp
  with e show "shown t (Check sha8 err_text view cluster spec now s') =
      shown t (Check sha8 err_text view cluster spec now s)" by simp
next
  assume "cluster_stopped spec \<or> cluster_paused spec"
  then have "\<exists>r m. mk_condition ConditionDegraded ConditionFalse r m \<in>
      set (health_writes sha8 err_text view cluster spec s)"
  proof (cases "cluster_paused spec")
    case True
    then show ?thesis by (simp add: health_writes_def pause_writes_def) blast
  next
    case False
    moreover assume "cluster_stopped spec \<or> cluster_paused spec"
    ultimately show ?thesis by (simp add: health_writes_def stopped_writes_def) blast
  qed
  then obtain r m where "mk_condition ConditionDegraded ConditionFalse r m \<in>
      set (health_writes sha8 err_text view cluster spec s)" by blast
  from shown_written [OF this, where now = now] show "\<not> IsDegraded (Check sha8 err_text view cluster spec now s)"
    by (simp add: IsDegraded_def condition_is_true_shown)
next
  fix t assume "t \<notin> {ConditionAvailable, ConditionProgressing, ConditionDegraded, ConditionPaused,
        ConditionServiceHealthy}"
  then have "t \<notin> set (map c_type (health_writes sha8 err_text view cluster spec s))"
    unfolding health_types by (auto split: if_splits)
  then show "GetCondition (Check sha8 err_text view cluster spec now s) t = GetCondition s t"
    unfolding Check_writes by (intro conditions.run_other) simp
next
  show "status_role_groups (Check sha8 err_text view cluster spec now s) = status_role_groups s"
    by (simp add: Check_writes)
  then have "health_writes sha8 err_text view cluster spec (Check sha8 err_text view cluster spec now s) =
      health_writes sha8 err_text view cluster spec s"
    by (rule health_writes_ledger)
  then show "Check sha8 err_text view cluster spec later (Check sha8 err_text view cluster spec now s) =
      Check sha8 err_text view cluster spec now s"
    by (simp add: Check_writes conditions.run_stable [OF health_types_distinct])
qed


theorem Check_settles_witness:
  "Check (\<lambda>s. s) (\<lambda>e. []) sample_view ''c'' sample_spec 9
     (Check (\<lambda>s. s) (\<lambda>e. []) sample_view ''c'' sample_spec 7 sample_status) =
   Check (\<lambda>s. s) (\<lambda>e. []) sample_view ''c'' sample_spec 7 sample_status"
  using Check_settles [of sample_view sample_status "\<lambda>s. s" "\<lambda>e. []" "''c''" sample_spec 7 9]
  by blast

end
