(* ===== verification/Api.thy ===== *)
theory Api
  imports Apply Naming ClusterStatus
begin

text \<open>
  The API server as the reconciler sees it. A world holds the objects of the cluster's namespace by
  kind and name; requests are numbered, and the environment decides which of them fail, what the
  manager's cache answers at each of them and what time it is. Reads through the manager's client go
  to the cache, reads through the uncached reader and all writes to the objects themselves. What the server fills
  in is part of the environment; an update that changes nothing once it has done so keeps object and version.

  An operation of the code is a function from the world to a result and the next world; an error is
  the left summand. The combinators below are the control flow the code repeats.
\<close>

section \<open>Kinds\<close>

datatype kind =
    KStatefulSet | KConfigMap | KService | KPodDisruptionBudget | KServiceAccount
  | KPersistentVolumeClaim | KExtra string

fun kind_rank :: "kind \<Rightarrow> nat \<times> string" where
  "kind_rank KStatefulSet = (0, [])"
| "kind_rank KConfigMap = (1, [])"
| "kind_rank KService = (2, [])"
| "kind_rank KPodDisruptionBudget = (3, [])"
| "kind_rank KServiceAccount = (4, [])"
| "kind_rank KPersistentVolumeClaim = (5, [])"
| "kind_rank (KExtra s) = (6, s)"

lemma kind_rank_inj: "kind_rank a = kind_rank b \<longleftrightarrow> a = b"
  by (cases a; cases b) simp_all

instantiation kind :: linorder
begin

definition less_eq_kind :: "kind \<Rightarrow> kind \<Rightarrow> bool" where "less_eq_kind a b \<longleftrightarrow> kind_rank a \<le> kind_rank b"
definition less_kind :: "kind \<Rightarrow> kind \<Rightarrow> bool" where "less_kind a b \<longleftrightarrow> kind_rank a < kind_rank b"

instance
  by standard (auto simp: less_eq_kind_def less_kind_def kind_rank_inj [symmetric] less_le_not_le)

end

section \<open>The world\<close>

type_synonym key = "kind \<times> string"

text \<open>A stored object: its owner references are pairs of a UID and the controller flag.\<close>

record live = object +
  lv_owners :: "(string \<times> bool) list"
  lv_finalizers :: bool
  lv_deleting :: bool
  lv_version :: nat
  lv_status_replicas :: int

type_synonym store = "(key, live) fmap"

text \<open>
  The custom resource a reconcile serves; \<open>cr_product\<close> stands for everything of it the framework
  does not read.
\<close>

record cluster_resource =
  cr_kind :: string
  cr_name :: string
  cr_namespace :: string
  cr_uid :: string
  cr_generation :: int
  cr_labels :: "string gomap"
  cr_annotations :: "string gomap"
  cr_deleting :: bool
  cr_version :: nat
  cr_spec :: generic_cluster_spec
  cr_status :: cluster_status
  cr_product :: string

record world =
  objs :: store
  stored :: "cluster_resource option"
  calls :: nat
  deleted_events :: "(string \<times> key) list"
  applied_events :: "(string \<times> key) list"
  warnings :: "(string \<times> string) list"

text \<open>
  What the API server fills in when it stores an object, a parameter: defaults are a function of what is stated;
  what it allocates, addresses and ports and the selector of a job, depends on the request as well. The other
  kinds of the model have no field the server fills in.
\<close>

record server_defaults =
  df_sts :: "sts_spec \<Rightarrow> sts_spec"
  df_service :: "nat \<Rightarrow> service_spec \<Rightarrow> service_spec"
  df_job :: "nat \<Rightarrow> job_spec \<Rightarrow> job_spec"
  df_unstructured :: "nat \<Rightarrow> json gomap \<Rightarrow> json gomap"
  df_typed :: "nat \<Rightarrow> string \<Rightarrow> string \<Rightarrow> string"

record env =
  fault :: "nat \<Rightarrow> err option"
  cache :: "nat \<Rightarrow> store \<Rightarrow> store"
  cr_cache :: "nat \<Rightarrow> cluster_resource option \<Rightarrow> cluster_resource option"
  clock :: "nat \<Rightarrow> int"
  server :: server_defaults

text \<open>An operation on a state \<open>'s\<close>; a \<open>run\<close> works on the world alone.\<close>

type_synonym ('s, 'a) op = "'s \<Rightarrow> (err + 'a) \<times> 's"
type_synonym 'a run = "(world, 'a) op"

fun as_status :: "err \<Rightarrow> api_reason option" where
  "as_status (StatusError r) = Some r"
| "as_status _ = None"

definition IsNotFound :: "err \<Rightarrow> bool" where
  "IsNotFound e \<longleftrightarrow> errors_as as_status e = Some NotFound"

definition IsConflict :: "err \<Rightarrow> bool" where
  "IsConflict e \<longleftrightarrow> errors_as as_status e = Some Conflict"

definition IsTooManyRequests :: "err \<Rightarrow> bool" where
  "IsTooManyRequests e \<longleftrightarrow>
     (case errors_as as_status e of Some (TooManyRequests _) \<Rightarrow> True | _ \<Rightarrow> False)"

section \<open>Control flow\<close>

definition returnE :: "'a \<Rightarrow> ('s, 'a) op" where "returnE a w = (Inr a, w)"
definition throwE :: "err \<Rightarrow> ('s, 'a) op" where "throwE e w = (Inl e, w)"

definition handleE ::
    "('s, 'a) op \<Rightarrow> (err \<Rightarrow> ('s, 'b) op) \<Rightarrow> ('a \<Rightarrow> ('s, 'b) op) \<Rightarrow> ('s, 'b) op" where
  "handleE m h f w = (case m w of (Inl e, w') \<Rightarrow> h e w' | (Inr a, w') \<Rightarrow> f a w')"

definition bindE :: "('s, 'a) op \<Rightarrow> ('a \<Rightarrow> ('s, 'b) op) \<Rightarrow> ('s, 'b) op" where
  "bindE m f = handleE m throwE f"

text \<open>\<open>if IsNotFound(err) { return d }\<close>, any other error mapped by \<open>g\<close>.\<close>

definition or_missing ::
    "(err \<Rightarrow> err) \<Rightarrow> ('s, 'a) op \<Rightarrow> 'b \<Rightarrow> ('a \<Rightarrow> ('s, 'b) op) \<Rightarrow> ('s, 'b) op" where
  "or_missing g m d f =
     handleE m (\<lambda>e. if IsNotFound e then returnE d else throwE (g e)) f"

text \<open>An error wrapped on its way out, and a sequence that stops at the first error.\<close>

definition wrapE :: "(err \<Rightarrow> err) \<Rightarrow> ('s, 'a) op \<Rightarrow> ('s, 'a) op" where
  "wrapE g m = handleE m (\<lambda>e. throwE (g e)) returnE"

fun seqE :: "('s, unit) op list \<Rightarrow> ('s, unit) op" where
  "seqE [] = returnE ()"
| "seqE (m # ms) = bindE m (\<lambda>_. seqE ms)"

section \<open>Requests\<close>

definition request :: "env \<Rightarrow> (nat \<Rightarrow> 'a run) \<Rightarrow> 'a run" where
  "request env f w =
     (let n = calls w; w1 = w\<lparr>calls := Suc n\<rparr>
      in case fault env n of Some e \<Rightarrow> (Inl e, w1) | None \<Rightarrow> f n w1)"

definition found :: "live option \<Rightarrow> err + live" where
  "found x = (case x of None \<Rightarrow> Inl (StatusError NotFound) | Some o' \<Rightarrow> Inr o')"

definition client_get :: "env \<Rightarrow> key \<Rightarrow> live run" where
  "client_get env k = request env (\<lambda>n w. (found (fmlookup (cache env n (objs w)) k), w))"

definition api_get :: "env \<Rightarrow> key \<Rightarrow> live run" where
  "api_get env k = request env (\<lambda>n w. (found (fmlookup (objs w) k), w))"

definition select_objs :: "(key \<Rightarrow> live \<Rightarrow> bool) \<Rightarrow> store \<Rightarrow> (key \<times> live) list" where
  "select_objs P s = filter (\<lambda>(k, x). P k x) (entries s)"

definition client_list :: "env \<Rightarrow> (key \<Rightarrow> live \<Rightarrow> bool) \<Rightarrow> (key \<times> live) list run" where
  "client_list env P = request env (\<lambda>n w. (Inr (select_objs P (cache env n (objs w))), w))"

definition api_list :: "env \<Rightarrow> (key \<Rightarrow> live \<Rightarrow> bool) \<Rightarrow> (key \<times> live) list run" where
  "api_list env P = request env (\<lambda>n w. (Inr (select_objs P (objs w)), w))"

text \<open>A delete of an object a finalizer holds only marks it.\<close>

definition api_delete :: "env \<Rightarrow> key \<Rightarrow> unit run" where
  "api_delete env k = request env (\<lambda>n w.
     case fmlookup (objs w) k of
       None \<Rightarrow> (Inl (StatusError NotFound), w)
     | Some x \<Rightarrow>
         (Inr (), w\<lparr>objs := (if lv_finalizers x then fmupd k (x\<lparr>lv_deleting := True\<rparr>) (objs w)
                           else fmdrop k (objs w))\<rparr>))"

text \<open>
  A payload as the server stores it. The default of the replica count, which the cleanup reads back, is written
  out; a stated count is kept.
\<close>

definition default_replicas :: "int option \<Rightarrow> int option" where
  "default_replicas r = Some (case r of None \<Rightarrow> 1 | Some n \<Rightarrow> n)"

definition admitted :: "env \<Rightarrow> nat \<Rightarrow> payload \<Rightarrow> payload" where
  "admitted env n p = (case p of
       StatefulSet s \<Rightarrow> StatefulSet ((df_sts (server env) s)\<lparr>sts_replicas := default_replicas (sts_replicas s)\<rparr>)
     | Service s \<Rightarrow> Service (df_service (server env) n s)
     | Job s \<Rightarrow> Job (df_job (server env) n s)
     | Unstructured m \<Rightarrow> Unstructured (df_unstructured (server env) n m)
     | Typed t v \<Rightarrow> Typed t (df_typed (server env) n t v)
     | _ \<Rightarrow> p)"

definition created :: "env \<Rightarrow> nat \<Rightarrow> live \<Rightarrow> live" where
  "created env n new = new\<lparr>payload := admitted env n (payload new), lv_version := 1, lv_deleting := False,
     lv_status_replicas := 0\<rparr>"

text \<open>
  A stored payload has its defaults, so an update that leaves it alone has nothing to fill in. An update that
  comes to the stored object changes nothing, not even its resource version.
\<close>

definition updated :: "env \<Rightarrow> nat \<Rightarrow> live \<Rightarrow> live \<Rightarrow> live" where
  "updated env n x new =
     (let y = new\<lparr>payload := (if payload new = payload x then payload x else admitted env n (payload new))\<rparr>
      in if y = x then x else y\<lparr>lv_version := Suc (lv_version x)\<rparr>)"

definition api_create :: "env \<Rightarrow> key \<Rightarrow> live \<Rightarrow> unit run" where
  "api_create env k new = request env (\<lambda>n w.
     case fmlookup (objs w) k of
       Some _ \<Rightarrow> (Inl (StatusError AlreadyExists), w)
     | None \<Rightarrow> (Inr (), w\<lparr>objs := fmupd k (created env n new) (objs w)\<rparr>))"

text \<open>An update with a stale resource version conflicts.\<close>

definition api_update :: "env \<Rightarrow> key \<Rightarrow> live \<Rightarrow> unit run" where
  "api_update env k new = request env (\<lambda>n w.
     case fmlookup (objs w) k of
       None \<Rightarrow> (Inl (StatusError NotFound), w)
     | Some x \<Rightarrow>
         if lv_version x \<noteq> lv_version new then (Inl (StatusError Conflict), w)
         else (Inr (), w\<lparr>objs := fmupd k (updated env n x new) (objs w)\<rparr>))"

text \<open>Everything but the payload and the version is stored as it was sent.\<close>

lemma created_fields [simp]:
  "labels (created env n new) = labels new" "annotations (created env n new) = annotations new"
  "payload (created env n new) = admitted env n (payload new)" "lv_owners (created env n new) = lv_owners new"
  "lv_finalizers (created env n new) = lv_finalizers new" "lv_version (created env n new) = 1"
  by (simp_all add: created_def)

lemma updated_is:
  "\<exists>v. updated env n x new =
    new\<lparr>payload := (if payload new = payload x then payload x else admitted env n (payload new)), lv_version := v\<rparr>"
proof -
  define p where "p = (if payload new = payload x then payload x else admitted env n (payload new))"
  have "new\<lparr>payload := p\<rparr> = new\<lparr>payload := p, lv_version := lv_version new\<rparr>" by (cases new) simp
  then have "updated env n x new = new\<lparr>payload := p, lv_version := lv_version new\<rparr> \<or>
      updated env n x new = new\<lparr>payload := p, lv_version := Suc (lv_version x)\<rparr>"
    by (simp add: updated_def Let_def p_def [symmetric])
  then show ?thesis unfolding p_def [symmetric] by blast
qed

lemma updated_fields [simp]:
  "labels (updated env n x new) = labels new" "annotations (updated env n x new) = annotations new"
  "lv_owners (updated env n x new) = lv_owners new" "lv_finalizers (updated env n x new) = lv_finalizers new"
  "lv_deleting (updated env n x new) = lv_deleting new"
  "lv_status_replicas (updated env n x new) = lv_status_replicas new"
  using updated_is [of env n x new] by auto

lemma updated_payload:
  "payload (updated env n x new) = (if payload new = payload x then payload x else admitted env n (payload new))"
  using updated_is [of env n x new] by auto

lemma updated_again [simp]: "updated env n x x = x"
  by (simp add: updated_def)

lemma updated_plain:
  assumes "payload new = payload x \<or> admitted env n (payload new) = payload new"
  shows "updated env n x new = (if new = x then x else new\<lparr>lv_version := Suc (lv_version x)\<rparr>)"
proof -
  have "(if payload new = payload x then payload x else admitted env n (payload new)) = payload new" using assms by auto
  then show ?thesis by (simp add: updated_def Let_def)
qed

lemma updated_version:
  "lv_version new = lv_version x \<Longrightarrow>
    lv_version (updated env n x new) = (if updated env n x new = x then lv_version x else Suc (lv_version x))"
  by (auto simp: updated_def Let_def)

lemma admitted_plain [simp]:
  "admitted env n (ConfigMap d b) = ConfigMap d b" "admitted env n (Secret d t) = Secret d t"
  "admitted env n (ServiceAccount s) = ServiceAccount s" "admitted env n (PodDisruptionBudget s) = PodDisruptionBudget s"
  "admitted env n (RBACRole rs) = RBACRole rs" "admitted env n (RBACBinding r ss) = RBACBinding r ss"
  by (simp_all add: admitted_def)

text \<open>\<open>retry.RetryOnConflict\<close> with a number of steps.\<close>

fun retry_on_conflict :: "nat \<Rightarrow> ('s, unit) op \<Rightarrow> ('s, unit) op" where
  "retry_on_conflict 0 f = f"
| "retry_on_conflict (Suc n) f =
     handleE f (\<lambda>e. if IsConflict e then retry_on_conflict n f else throwE e) returnE"

definition DefaultBackoffRetries :: nat where "DefaultBackoffRetries = 3"

section \<open>Frames\<close>

text \<open>Every run of an operation relates the states before and after it.\<close>

definition preserves :: "('s \<Rightarrow> 's \<Rightarrow> bool) \<Rightarrow> ('s, 'a) op \<Rightarrow> bool" where
  "preserves R m \<longleftrightarrow> (\<forall>s. R s (snd (m s)))"

text \<open>A frame is a reflexive and transitive relation; the operations of the code compose inside it.\<close>

locale frame =
  fixes R :: "'s \<Rightarrow> 's \<Rightarrow> bool"
  assumes refl: "R s s" and trans: "R s t \<Longrightarrow> R t u \<Longrightarrow> R s u"
begin

lemma preserves_return: "preserves R (returnE a)"
  by (simp add: preserves_def returnE_def refl)

lemma preserves_throw: "preserves R (throwE e)"
  by (simp add: preserves_def throwE_def refl)

lemma preserves_handle:
  assumes "preserves R m" and "\<And>e. preserves R (h e)" and "\<And>a. preserves R (f a)"
  shows "preserves R (handleE m h f)"
proof (unfold preserves_def, intro allI)
  fix s
  have m: "\<forall>s. R s (snd (m s))" and h: "\<forall>s. R s (snd (h e s))" and f: "\<forall>s. R s (snd (f a s))" for e a
    using assms by (simp_all add: preserves_def)
  obtain r s' where ms: "m s = (r, s')" by fastforce
  have 1: "R s s'" using m [rule_format, of s] ms by simp
  show "R s (snd (handleE m h f s))"
  proof (cases r)
    case (Inl e)
    with ms have "handleE m h f s = h e s'" by (simp add: handleE_def)
    with 1 h [of e] show ?thesis by (auto intro: trans)
  next
    case (Inr a)
    with ms have "handleE m h f s = f a s'" by (simp add: handleE_def)
    with 1 f [of a] show ?thesis by (auto intro: trans)
  qed
qed

lemma preserves_bind:
  "preserves R m \<Longrightarrow> (\<And>a. preserves R (f a)) \<Longrightarrow> preserves R (bindE m f)"
  unfolding bindE_def by (intro preserves_handle) (simp_all add: preserves_throw)

lemma preserves_or_missing:
  "preserves R m \<Longrightarrow> (\<And>a. preserves R (f a)) \<Longrightarrow> preserves R (or_missing g m d f)"
  unfolding or_missing_def
  by (intro preserves_handle) (simp_all add: preserves_return preserves_throw)

lemma preserves_retry: "preserves R f \<Longrightarrow> preserves R (retry_on_conflict n f)"
  by (induction n) (auto intro!: preserves_handle simp: preserves_return preserves_throw)

lemma preserves_wrap: "preserves R m \<Longrightarrow> preserves R (wrapE g m)"
  unfolding wrapE_def by (intro preserves_handle) (simp_all add: preserves_return preserves_throw)

lemma preserves_seq: "list_all (preserves R) ms \<Longrightarrow> preserves R (seqE ms)"
  by (induction ms) (auto intro!: preserves_bind simp: preserves_return)

end

text \<open>A frame on worlds that ignores the request counter and the events.\<close>

locale world_frame =
  fixes R :: "world \<Rightarrow> world \<Rightarrow> bool"
  assumes frame_objs: "objs w = objs w' \<Longrightarrow> R w w'"
    and frame_trans: "R u v \<Longrightarrow> R v w \<Longrightarrow> R u w"

sublocale world_frame \<subseteq> frame R
  by unfold_locales (blast intro: frame_objs frame_trans)+

context world_frame
begin

lemma preserves_read:
  "(\<And>n w. snd (f n w) = w) \<Longrightarrow> preserves R (request env f)"
  by (auto simp: preserves_def request_def Let_def intro!: frame_objs split: option.split)

lemma preserves_reads:
  "preserves R (client_get env k)" "preserves R (api_get env k)"
  "preserves R (client_list env P)" "preserves R (api_list env P)"
  unfolding client_get_def api_get_def client_list_def api_list_def
  by (rule preserves_read, simp)+

end

end
