(* ===== verification/Cleaner.thy ===== *)
theory Cleaner
  imports Api ClusterStatus
begin

text \<open>
  Reclaiming the resources of role groups that left the spec: \<open>pkg/reconciler/cleaner.go\<close>.

  A deletion is a state machine driven over several reconciles; one pass of it is a run over the
  world of \<open>Api\<close>. Durations and clock readings are nanoseconds; the RFC 3339 codec and the digest
  are fields of the cleaner. The logger and the metrics are not modelled.
\<close>

section \<open>The cleaner\<close>

definition AnnotationPendingDeletion :: string where
  "AnnotationPendingDeletion = ''orphan.zncdata.dev/pending-deletion''"
definition AnnotationDeletePVCs :: string where
  "AnnotationDeletePVCs = ''operator.zncdata.dev/delete-pvcs''"
definition AnnotationDrainStarted :: string where
  "AnnotationDrainStarted = ''orphan.zncdata.dev/drain-started''"
definition ConditionOrphanCleanupPending :: string where
  "ConditionOrphanCleanupPending = ''OrphanCleanupPending''"
definition ReasonOrphanCleanupPending :: string where
  "ReasonOrphanCleanupPending = ''OrphanCleanupPending''"
definition ReasonOrphanCleanupComplete :: string where
  "ReasonOrphanCleanupComplete = ''OrphanCleanupComplete''"

record cleaner =
  grayDeleteGracePeriod :: duration
  drainPollInterval :: duration
  drainTimeout :: duration
  rateLimitRetryAfter :: duration
  reader_wired :: bool
  extraResourceKinds :: "kind option list"
  format_time :: "int \<Rightarrow> string"
  parse_time :: "string \<Rightarrow> int option"
  digest :: "string \<Rightarrow> string"

definition NewRoleGroupCleaner ::
    "(int \<Rightarrow> string) \<Rightarrow> (string \<Rightarrow> int option) \<Rightarrow> (string \<Rightarrow> string) \<Rightarrow> cleaner" where
  "NewRoleGroupCleaner fmt parse dig = \<lparr>grayDeleteGracePeriod = 0, drainPollInterval = 0,
     drainTimeout = 0, rateLimitRetryAfter = 0, reader_wired = False, extraResourceKinds = [],
     format_time = fmt, parse_time = parse, digest = dig\<rparr>"

definition WithGrayDeleteGracePeriod :: "duration \<Rightarrow> cleaner \<Rightarrow> cleaner" where
  "WithGrayDeleteGracePeriod d c = c\<lparr>grayDeleteGracePeriod := d\<rparr>"
definition WithDrainPollInterval :: "duration \<Rightarrow> cleaner \<Rightarrow> cleaner" where
  "WithDrainPollInterval d c = c\<lparr>drainPollInterval := d\<rparr>"
definition WithDrainTimeout :: "duration \<Rightarrow> cleaner \<Rightarrow> cleaner" where
  "WithDrainTimeout d c = c\<lparr>drainTimeout := d\<rparr>"
definition WithAPIReader :: "bool \<Rightarrow> cleaner \<Rightarrow> cleaner" where
  "WithAPIReader wired c = c\<lparr>reader_wired := wired\<rparr>"
definition WithRateLimitRetryAfter :: "duration \<Rightarrow> cleaner \<Rightarrow> cleaner" where
  "WithRateLimitRetryAfter d c = c\<lparr>rateLimitRetryAfter := d\<rparr>"
definition WithExtraResourceKinds :: "kind option list \<Rightarrow> cleaner \<Rightarrow> cleaner" where
  "WithExtraResourceKinds kinds c =
     c\<lparr>extraResourceKinds := extraResourceKinds c @ filter (\<lambda>k. k \<noteq> None) kinds\<rparr>"

definition pollInterval :: "cleaner \<Rightarrow> duration" where
  "pollInterval c = (if drainPollInterval c > 0 then drainPollInterval c else 5 * second)"

definition drainDeadline :: "cleaner \<Rightarrow> duration" where
  "drainDeadline c = (if drainTimeout c > 0 then drainTimeout c else 600 * second)"

definition apiError :: "cleaner \<Rightarrow> err \<Rightarrow> err" where
  "apiError c e =
     (if IsTooManyRequests e
      then NewRateLimitError (if rateLimitRetryAfter c \<le> 0 then 10 * second else rateLimitRetryAfter c)
             (Some e)
      else e)"

definition isOwnedByCluster :: "live \<Rightarrow> string \<Rightarrow> bool" where
  "isOwnedByCluster x uid =
     (if uid = [] then True else list_ex (\<lambda>(u, controller). u = uid \<and> controller) (lv_owners x))"

datatype deletion_state = Settled | InFlight

definition emitDeleted :: "string \<Rightarrow> key \<Rightarrow> unit run" where
  "emitDeleted cluster k w = (Inr (), w\<lparr>deleted_events := deleted_events w @ [(cluster, k)]\<rparr>)"

definition read_clock :: "env \<Rightarrow> int run" where
  "read_clock env w = (Inr (clock env (calls w)), w)"

definition confirm_get :: "cleaner \<Rightarrow> env \<Rightarrow> key \<Rightarrow> live run" where
  "confirm_get c env k = (if reader_wired c then api_get env k else client_get env k)"

definition confirm_list :: "cleaner \<Rightarrow> env \<Rightarrow> (key \<Rightarrow> live \<Rightarrow> bool) \<Rightarrow> (key \<times> live) list run" where
  "confirm_list c env P = (if reader_wired c then api_list env P else client_list env P)"

section \<open>Deleting one resource\<close>

definition confirmDeleted :: "cleaner \<Rightarrow> env \<Rightarrow> key \<Rightarrow> deletion_state run" where
  "confirmDeleted c env k =
     or_missing (apiError c) (client_get env k) Settled (\<lambda>_. returnE InFlight)"

definition deleteOwned :: "cleaner \<Rightarrow> env \<Rightarrow> string \<Rightarrow> string \<Rightarrow> key \<Rightarrow> deletion_state run" where
  "deleteOwned c env uid cluster k =
     or_missing (apiError c) (client_get env k) Settled (\<lambda>x.
       if \<not> isOwnedByCluster x uid then returnE Settled
       else or_missing (apiError c) (api_delete env k) Settled (\<lambda>_.
         bindE (emitDeleted cluster k) (\<lambda>_. confirmDeleted c env k)))"

definition deletePDB :: "cleaner \<Rightarrow> env \<Rightarrow> string \<Rightarrow> string \<Rightarrow> string \<Rightarrow> unit run" where
  "deletePDB c env uid cluster name =
     bindE (deleteOwned c env uid cluster (KPodDisruptionBudget, name)) (\<lambda>_. returnE ())"

definition deleteService :: "cleaner \<Rightarrow> env \<Rightarrow> string \<Rightarrow> string \<Rightarrow> string \<Rightarrow> unit run" where
  "deleteService c env uid cluster name =
     bindE (deleteOwned c env uid cluster (KService, name)) (\<lambda>_. returnE ())"

section \<open>The StatefulSet\<close>

definition live_sts :: "live \<Rightarrow> sts_spec option" where
  "live_sts x = (case payload x of StatefulSet s \<Rightarrow> Some s | _ \<Rightarrow> None)"

definition live_replicas :: "live \<Rightarrow> int option" where
  "live_replicas x = Option.bind (live_sts x) sts_replicas"

definition set_replicas :: "int \<Rightarrow> live \<Rightarrow> live" where
  "set_replicas n x =
     (case payload x of
        StatefulSet s \<Rightarrow> x\<lparr>payload := StatefulSet (s\<lparr>sts_replicas := Some n\<rparr>)\<rparr>
      | _ \<Rightarrow> x)"

definition scaleToZero :: "cleaner \<Rightarrow> env \<Rightarrow> key \<Rightarrow> unit run" where
  "scaleToZero c env k =
     or_missing (apiError c)
       (retry_on_conflict DefaultBackoffRetries (bindE (client_get env k) (\<lambda>x.
          if live_replicas x = Some 0 then returnE () else api_update env k (set_replicas 0 x))))
       () returnE"

definition annotate :: "string \<Rightarrow> string \<Rightarrow> live \<Rightarrow> live" where
  "annotate a v x = x\<lparr>annotations := fmupd a v (annotations x)\<rparr>"

definition drainDeadlineExpired :: "cleaner \<Rightarrow> env \<Rightarrow> live \<Rightarrow> key \<Rightarrow> bool run" where
  "drainDeadlineExpired c env sts k =
     (case Option.bind (fmlookup (annotations sts) AnnotationDrainStarted) (parse_time c) of
        Some started \<Rightarrow> bindE (read_clock env) (\<lambda>now. returnE (now - started \<ge> drainDeadline c))
      | None \<Rightarrow>
          or_missing (apiError c)
            (retry_on_conflict DefaultBackoffRetries (bindE (client_get env k) (\<lambda>x.
               bindE (read_clock env) (\<lambda>now.
                 api_update env k (annotate AnnotationDrainStarted (format_time c now) x)))))
            False (\<lambda>_. returnE False))"

definition labels_match :: "string gomap \<Rightarrow> live \<Rightarrow> bool" where
  "labels_match sel x = list_all (\<lambda>(k, v). fmlookup (labels x) k = Some v) (entries sel)"

fun delete_pvcs :: "cleaner \<Rightarrow> env \<Rightarrow> (key \<times> live) list \<Rightarrow> unit run" where
  "delete_pvcs c env [] = returnE ()"
| "delete_pvcs c env ((k, _) # ks) =
     handleE (api_delete env k)
       (\<lambda>e. if \<not> IsNotFound e
             then throwE (Wrapped (FmtErrorf ''failed to delete PVC'') (Some (apiError c e)))
             else delete_pvcs c env ks)
       (\<lambda>_. delete_pvcs c env ks)"

definition deletePVCsForStatefulSet :: "cleaner \<Rightarrow> env \<Rightarrow> live \<Rightarrow> unit run" where
  "deletePVCsForStatefulSet c env sts =
     (case live_sts sts of
        None \<Rightarrow> returnE ()
      | Some s \<Rightarrow>
          if length (sts_claims s) = 0 then returnE ()
          else (case sts_selector s of
             None \<Rightarrow> throwE (PlainError ''nil pointer dereference'')
           | Some sel \<Rightarrow>
               handleE (client_list env (\<lambda>k x. fst k = KPersistentVolumeClaim \<and>
                   labels_match (match_labels sel) x))
                 (\<lambda>e. throwE (Wrapped (FmtErrorf ''failed to list PVCs for StatefulSet'')
                        (Some (apiError c e))))
                 (delete_pvcs c env)))"

definition deleteStatefulSet ::
    "cleaner \<Rightarrow> env \<Rightarrow> string \<Rightarrow> string \<Rightarrow> bool \<Rightarrow> string \<Rightarrow> deletion_state run" where
  "deleteStatefulSet c env uid cluster deletePVCs name =
     (let k = (KStatefulSet, name) in
      or_missing (apiError c) (client_get env k) Settled (\<lambda>sts.
        if \<not> isOwnedByCluster sts uid then returnE Settled
        else if (case live_replicas sts of None \<Rightarrow> True | Some n \<Rightarrow> n > 0)
        then bindE (scaleToZero c env k) (\<lambda>_. returnE InFlight)
        else bindE (if lv_status_replicas sts > 0 then drainDeadlineExpired c env sts k else returnE True)
          (\<lambda>proceed.
            if \<not> proceed then returnE InFlight
            else bindE (if deletePVCs then deletePVCsForStatefulSet c env sts else returnE ()) (\<lambda>_.
              or_missing (apiError c) (api_delete env k) Settled (\<lambda>_.
                bindE (emitDeleted cluster k) (\<lambda>_. confirmDeleted c env k))))))"

section \<open>Gray deletion\<close>

definition opt_get :: "cleaner \<Rightarrow> env \<Rightarrow> key \<Rightarrow> live option run" where
  "opt_get c env k = or_missing (apiError c) (client_get env k) None (\<lambda>x. returnE (Some x))"

fun grayDeleteMark :: "cleaner \<Rightarrow> (key \<times> live) list \<Rightarrow> int option" where
  "grayDeleteMark c [] = None"
| "grayDeleteMark c ((_, x) # xs) =
     (case Option.bind (fmlookup (annotations x) AnnotationPendingDeletion) (parse_time c) of
        Some t \<Rightarrow> Some t | None \<Rightarrow> grayDeleteMark c xs)"

fun mark_primaries :: "cleaner \<Rightarrow> env \<Rightarrow> string \<Rightarrow> (key \<times> live) list \<Rightarrow> unit run" where
  "mark_primaries c env mark [] = returnE ()"
| "mark_primaries c env mark ((k, x) # xs) =
     (if (case fmlookup (annotations x) AnnotationPendingDeletion of None \<Rightarrow> [] | Some v \<Rightarrow> v) = mark
      then mark_primaries c env mark xs
      else handleE (api_update env k (annotate AnnotationPendingDeletion mark x))
        (\<lambda>e. throwE (Wrapped (FmtErrorf ''failed to mark resource for gray deletion'')
               (Some (apiError c e))))
        (\<lambda>_. mark_primaries c env mark xs))"

text \<open>\<open>Duration.Round\<close> of a non-negative duration.\<close>

definition round_to :: "duration \<Rightarrow> duration \<Rightarrow> duration" where
  "round_to m d = (let r = d mod m in if r + r < m then d - r else d + m - r)"

definition keyed :: "key \<Rightarrow> live option \<Rightarrow> (key \<times> live) list" where
  "keyed k x = (case x of None \<Rightarrow> [] | Some y \<Rightarrow> [(k, y)])"

definition checkOrMarkGrayDelete :: "cleaner \<Rightarrow> env \<Rightarrow> string \<Rightarrow> string \<Rightarrow> (bool \<times> duration) run" where
  "checkOrMarkGrayDelete c env uid name =
     bindE (opt_get c env (KStatefulSet, name)) (\<lambda>sts.
     bindE (opt_get c env (KConfigMap, name)) (\<lambda>cm.
       let primaries = keyed (KStatefulSet, name) sts @ keyed (KConfigMap, name) cm in
       if length primaries = 0 then returnE (True, 0)
       else if list_ex (\<lambda>(_, x). \<not> isOwnedByCluster x uid) primaries then returnE (True, 0)
       else bindE (read_clock env) (\<lambda>now.
         let mark = grayDeleteMark c primaries;
             markedTime = (case mark of Some t \<Rightarrow> t | None \<Rightarrow> now)
         in bindE (mark_primaries c env (format_time c markedTime) primaries) (\<lambda>_.
           if mark = None then returnE (False, grayDeleteGracePeriod c)
           else bindE (read_clock env) (\<lambda>later.
             if later - markedTime \<ge> grayDeleteGracePeriod c then returnE (True, 0)
             else returnE (False,
               round_to second (markedTime + grayDeleteGracePeriod c - later) + second))))))"

section \<open>Extra resources\<close>

definition role_group_selector :: "string \<Rightarrow> string \<Rightarrow> string \<Rightarrow> string gomap" where
  "role_group_selector cluster role grp =
     fmap_of_list [(LabelKubernetesInstance, cluster), (LabelKubernetesManagedBy, managedByValue),
       (LabelKubernetesComponent, role), (LabelKubernetesRoleGroup, grp)]"

fun delete_extras :: "cleaner \<Rightarrow> env \<Rightarrow> string \<Rightarrow> string \<Rightarrow> (key \<times> live) list \<Rightarrow> deletion_state
    \<Rightarrow> deletion_state run" where
  "delete_extras c env uid cluster [] state = returnE state"
| "delete_extras c env uid cluster ((k, x) # xs) state =
     (if \<not> isOwnedByCluster x uid then delete_extras c env uid cluster xs state
      else if lv_deleting x then delete_extras c env uid cluster xs InFlight
      else handleE (api_delete env k)
        (\<lambda>e. if IsNotFound e then delete_extras c env uid cluster xs state
             else throwE (Wrapped (FmtErrorf ''failed to delete extra'') (Some (apiError c e))))
        (\<lambda>_. bindE (emitDeleted cluster k) (\<lambda>_. delete_extras c env uid cluster xs InFlight)))"

fun extras_of_kinds :: "cleaner \<Rightarrow> env \<Rightarrow> string \<Rightarrow> string \<Rightarrow> string gomap \<Rightarrow> kind option list
    \<Rightarrow> deletion_state \<Rightarrow> deletion_state run" where
  "extras_of_kinds c env uid cluster sel [] state = returnE state"
| "extras_of_kinds c env uid cluster sel (None # kinds) state =
     extras_of_kinds c env uid cluster sel kinds state"
| "extras_of_kinds c env uid cluster sel (Some kd # kinds) state =
     handleE (confirm_list c env (\<lambda>k x. fst k = kd \<and> labels_match sel x))
       (\<lambda>e. throwE (Wrapped (FmtErrorf ''failed to list extra resources'') (Some (apiError c e))))
       (\<lambda>items. bindE (delete_extras c env uid cluster items state)
          (extras_of_kinds c env uid cluster sel kinds))"

definition deleteRoleGroupExtras ::
    "cleaner \<Rightarrow> env \<Rightarrow> string \<Rightarrow> string \<Rightarrow> string \<Rightarrow> string \<Rightarrow> deletion_state run" where
  "deleteRoleGroupExtras c env uid cluster role grp =
     (if length (extraResourceKinds c) = 0 \<or> uid = [] \<or> role = [] \<or> grp = [] then returnE Settled
      else extras_of_kinds c env uid cluster (role_group_selector cluster role grp)
             (extraResourceKinds c) Settled)"

section \<open>One role group\<close>

record orphan_ref =
  or_resource :: string
  or_role :: string
  or_group :: string

definition describe :: "orphan_ref \<Rightarrow> string" where
  "describe r = (if or_role r = [] then or_resource r else or_role r @ ''/'' @ or_group r)"

fun run_steps :: "deletion_state run list \<Rightarrow> deletion_state run" where
  "run_steps [] = returnE Settled"
| "run_steps (step # steps) =
     bindE step (\<lambda>state. if state = InFlight then returnE InFlight else run_steps steps)"

definition derivedServices :: "string \<Rightarrow> string fset \<Rightarrow> string list" where
  "derivedServices name liveNames =
     filter (\<lambda>n. n |\<notin>| liveNames) [name @ ''-headless'', name @ ''-metrics'']"

definition stillOwned :: "cleaner \<Rightarrow> env \<Rightarrow> string \<Rightarrow> key \<Rightarrow> bool run" where
  "stillOwned c env uid k =
     or_missing (apiError c) (confirm_get c env k) False (\<lambda>x. returnE (isOwnedByCluster x uid))"

fun confirm_all :: "cleaner \<Rightarrow> env \<Rightarrow> string \<Rightarrow> key list \<Rightarrow> deletion_state run" where
  "confirm_all c env uid [] = returnE Settled"
| "confirm_all c env uid (k # ks) =
     bindE (stillOwned c env uid k) (\<lambda>present.
       if present then returnE InFlight else confirm_all c env uid ks)"

definition slot_keys :: "string \<Rightarrow> string list \<Rightarrow> key list" where
  "slot_keys name derived =
     [(KPodDisruptionBudget, name), (KStatefulSet, name), (KConfigMap, name), (KService, name)] @
     map (Pair KService) derived"

definition confirmRoleGroupReclaimed ::
    "cleaner \<Rightarrow> env \<Rightarrow> string \<Rightarrow> string \<Rightarrow> string list \<Rightarrow> deletion_state run" where
  "confirmRoleGroupReclaimed c env uid name derived = confirm_all c env uid (slot_keys name derived)"

definition teardown_steps ::
    "cleaner \<Rightarrow> env \<Rightarrow> string \<Rightarrow> string \<Rightarrow> bool \<Rightarrow> orphan_ref \<Rightarrow> string list \<Rightarrow> deletion_state run list"
  where
  "teardown_steps c env uid cluster deletePVCs orphan derived =
     (let name = or_resource orphan in
      [deleteOwned c env uid cluster (KPodDisruptionBudget, name),
       deleteStatefulSet c env uid cluster deletePVCs name,
       deleteRoleGroupExtras c env uid cluster (or_role orphan) (or_group orphan),
       deleteOwned c env uid cluster (KConfigMap, name),
       deleteOwned c env uid cluster (KService, name)] @
      map (\<lambda>d. deleteOwned c env uid cluster (KService, d)) derived)"

definition cleanupRoleGroup ::
    "cleaner \<Rightarrow> env \<Rightarrow> string \<Rightarrow> string \<Rightarrow> bool \<Rightarrow> string fset \<Rightarrow> orphan_ref \<Rightarrow> (bool \<times> duration) run" where
  "cleanupRoleGroup c env uid cluster deletePVCs liveNames orphan =
     (let name = or_resource orphan;
          derived = derivedServices name liveNames;
          teardown = bindE (run_steps (teardown_steps c env uid cluster deletePVCs orphan derived))
            (\<lambda>state. if state = InFlight then returnE (False, pollInterval c)
              else bindE (confirmRoleGroupReclaimed c env uid name derived)
                (\<lambda>state. if state = InFlight then returnE (False, pollInterval c)
                  else returnE (True, 0)))
      in if grayDeleteGracePeriod c > 0
         then bindE (checkOrMarkGrayDelete c env uid name)
           (\<lambda>(ready, remaining). if \<not> ready then returnE (False, remaining) else teardown)
         else teardown)"

section \<open>The pass\<close>

text \<open>The names of the role groups the spec declares, by role and by resource.\<close>

definition spec_group_names :: "generic_cluster_spec \<Rightarrow> (string \<times> string) list" where
  "spec_group_names spec = concat (map (\<lambda>(role, rs).
     map (Pair role) (keys (role_role_groups rs))) (entries (spec_roles spec)))"

definition liveResourceNames :: "cleaner \<Rightarrow> string \<Rightarrow> generic_cluster_spec \<Rightarrow> string fset" where
  "liveResourceNames c cluster spec = fset_of_list
     (map (\<lambda>(role, grp). RoleGroupResourceName (digest c) cluster role grp) (spec_group_names spec))"

definition remove_annotations :: "string list \<Rightarrow> live \<Rightarrow> live" where
  "remove_annotations as x = x\<lparr>annotations := fold fmdrop as (annotations x)\<rparr>"

text \<open>One primary of \<open>clearTeardownProgress\<close>; failures are collected.\<close>

definition clear_primary :: "env \<Rightarrow> string \<Rightarrow> key \<Rightarrow> err list run" where
  "clear_primary env uid k =
     handleE (client_get env k)
       (\<lambda>e. if IsNotFound e then returnE [] else returnE [e])
       (\<lambda>x. if \<not> isOwnedByCluster x uid then returnE []
          else if fmlookup (annotations x) AnnotationPendingDeletion = None \<and>
                  fmlookup (annotations x) AnnotationDrainStarted = None then returnE []
          else handleE (api_update env k
                 (remove_annotations [AnnotationPendingDeletion, AnnotationDrainStarted] x))
               (\<lambda>e. returnE [e]) (\<lambda>_. returnE []))"

definition clearTeardownProgress :: "env \<Rightarrow> string \<Rightarrow> string \<Rightarrow> err option run" where
  "clearTeardownProgress env uid name =
     bindE (clear_primary env uid (KStatefulSet, name)) (\<lambda>e1.
     bindE (clear_primary env uid (KConfigMap, name)) (\<lambda>e2. returnE (errors_join (e1 @ e2))))"

fun clear_all :: "cleaner \<Rightarrow> env \<Rightarrow> string \<Rightarrow> string \<Rightarrow> (string \<times> string) list \<Rightarrow> unit run" where
  "clear_all c env uid cluster [] = returnE ()"
| "clear_all c env uid cluster ((role, grp) # gs) =
     bindE (clearTeardownProgress env uid (RoleGroupResourceName (digest c) cluster role grp))
       (\<lambda>_. clear_all c env uid cluster gs)"

fun reclaim_role_pdbs ::
    "cleaner \<Rightarrow> env \<Rightarrow> string \<Rightarrow> string \<Rightarrow> generic_cluster_spec \<Rightarrow> (key \<times> live) list \<Rightarrow> deletion_state
      \<Rightarrow> deletion_state run" where
  "reclaim_role_pdbs c env uid cluster spec [] state = returnE state"
| "reclaim_role_pdbs c env uid cluster spec ((k, x) # xs) state =
     (let role = (case fmlookup (labels x) LabelRolePodDisruptionBudget of None \<Rightarrow> [] | Some r \<Rightarrow> r) in
      if \<not> isOwnedByCluster x uid then reclaim_role_pdbs c env uid cluster spec xs state
      else if fmlookup (spec_roles spec) role \<noteq> None
      then reclaim_role_pdbs c env uid cluster spec xs state
      else handleE (deleteOwned c env uid cluster (KPodDisruptionBudget, snd k))
        (\<lambda>e. throwE (Wrapped (FmtErrorf ''failed to cleanup PodDisruptionBudget of removed role'') (Some e)))
        (\<lambda>stepState. reclaim_role_pdbs c env uid cluster spec xs
           (if stepState = InFlight then InFlight else state)))"

text \<open>An error is always returned together with the state in flight.\<close>

definition cleanupOrphanedRolePDBs ::
    "cleaner \<Rightarrow> env \<Rightarrow> string \<Rightarrow> string \<Rightarrow> generic_cluster_spec \<Rightarrow> deletion_state run" where
  "cleanupOrphanedRolePDBs c env uid cluster spec =
     (if uid = [] then returnE Settled
      else handleE (client_list env (\<lambda>k x. fst k = KPodDisruptionBudget \<and>
             fmlookup (labels x) LabelRolePodDisruptionBudget \<noteq> None))
        (\<lambda>e. throwE (Wrapped (FmtErrorf ''failed to list role PodDisruptionBudgets'')
               (Some (apiError c e))))
        (\<lambda>pdbs. reclaim_role_pdbs c env uid cluster spec pdbs Settled))"

definition label_of :: "string \<Rightarrow> live \<Rightarrow> string" where
  "label_of l x = (case fmlookup (labels x) l of None \<Rightarrow> [] | Some v \<Rightarrow> v)"

definition roleGroupSlotOf :: "cleaner \<Rightarrow> string \<Rightarrow> string \<Rightarrow> string \<Rightarrow> live \<Rightarrow> orphan_ref option" where
  "roleGroupSlotOf c cluster uid name x =
     (let role = label_of LabelKubernetesComponent x; grp = label_of LabelKubernetesRoleGroup x in
      if \<not> isOwnedByCluster x uid then None
      else if role = [] \<or> grp = [] then None
      else if name \<noteq> RoleGroupResourceName (digest c) cluster role grp then None
      else Some \<lparr>or_resource = name, or_role = role, or_group = grp\<rparr>)"

definition declared_in :: "generic_cluster_spec \<Rightarrow> orphan_ref \<Rightarrow> bool" where
  "declared_in spec ref =
     (case fmlookup (spec_roles spec) (or_role ref) of
        None \<Rightarrow> False
      | Some rs \<Rightarrow> fmlookup (GetRoleGroups rs) (or_group ref) \<noteq> None)"

fun live_orphans ::
    "cleaner \<Rightarrow> string \<Rightarrow> string \<Rightarrow> generic_cluster_spec \<Rightarrow> (key \<times> live) list \<Rightarrow> string list
      \<Rightarrow> orphan_ref list" where
  "live_orphans c cluster uid spec [] seen = []"
| "live_orphans c cluster uid spec ((k, x) # xs) seen =
     (case roleGroupSlotOf c cluster uid (snd k) x of
        None \<Rightarrow> live_orphans c cluster uid spec xs seen
      | Some ref \<Rightarrow>
          if declared_in spec ref then live_orphans c cluster uid spec xs seen
          else if or_resource ref \<in> set seen then live_orphans c cluster uid spec xs seen
          else ref # live_orphans c cluster uid spec xs (or_resource ref # seen))"

definition framework_selector :: "string \<Rightarrow> string gomap" where
  "framework_selector cluster =
     fmap_of_list [(LabelKubernetesInstance, cluster), (LabelKubernetesManagedBy, managedByValue)]"

definition discoverLiveOrphans ::
    "cleaner \<Rightarrow> env \<Rightarrow> string \<Rightarrow> string \<Rightarrow> generic_cluster_spec \<Rightarrow> orphan_ref list run" where
  "discoverLiveOrphans c env uid cluster spec =
     (if uid = [] then returnE []
      else
        let listed = (\<lambda>kd. client_list env (\<lambda>k x. fst k = kd \<and> labels_match (framework_selector cluster) x));
            failed = (\<lambda>what e. throwE (apiError c (Wrapped (FmtErrorf what) (Some e))))
        in handleE (listed KStatefulSet) (failed ''failed to list StatefulSets for orphan discovery'')
          (\<lambda>stss. handleE (listed KConfigMap) (failed ''failed to list ConfigMaps for orphan discovery'')
            (\<lambda>cms. returnE (live_orphans c cluster uid spec (stss @ cms) []))))"

definition ledger_refs ::
    "cleaner \<Rightarrow> string \<Rightarrow> generic_cluster_spec \<Rightarrow> cluster_status \<Rightarrow> orphan_ref list" where
  "ledger_refs c cluster spec status = concat (map (\<lambda>(role, groups).
     map (\<lambda>grp. \<lparr>or_resource = RoleGroupResourceName (digest c) cluster role grp,
                  or_role = role, or_group = grp\<rparr>) groups)
     (entries (GetOrphanedRoleGroups (spec_roles spec) status)))"

definition discoverOrphans ::
    "cleaner \<Rightarrow> env \<Rightarrow> string \<Rightarrow> string \<Rightarrow> generic_cluster_spec \<Rightarrow> cluster_status \<Rightarrow> orphan_ref list run"
  where
  "discoverOrphans c env uid cluster spec status =
     (let refs0 = put_all (map (\<lambda>r. (or_resource r, r)) (ledger_refs c cluster spec status)) fmempty in
      bindE (discoverLiveOrphans c env uid cluster spec) (\<lambda>live.
        let refs = fold (\<lambda>r m. if fmlookup m (or_resource r) = None then fmupd (or_resource r) r m else m)
                     live refs0
        in returnE (map snd (entries refs))))"

definition setOrphanCleanupCondition :: "int \<Rightarrow> string list \<Rightarrow> cluster_status \<Rightarrow> cluster_status" where
  "setOrphanCleanupCondition now pending status =
     (if length pending = 0
      then (if GetCondition status ConditionOrphanCleanupPending = None then status
            else SetCondition now (mk_condition ConditionOrphanCleanupPending ConditionFalse
                   ReasonOrphanCleanupComplete
                   ''No orphaned role group is waiting to be reclaimed'') status)
      else SetCondition now (mk_condition ConditionOrphanCleanupPending ConditionTrue
             ReasonOrphanCleanupPending
             (''Waiting to reclaim orphaned role groups: '' @ join_strings '', '' (sort pending))) status)"

definition earliestRequeue :: "duration list \<Rightarrow> duration" where
  "earliestRequeue candidates =
     fold (\<lambda>d nxt. if d \<le> 0 then nxt else if nxt = 0 \<or> d < nxt then d else nxt) candidates 0"

text \<open>What the loop over the orphans accumulates.\<close>

record progress =
  pg_requeue :: duration
  pg_errs :: "err list"
  pg_pending :: "string list"
  pg_status :: cluster_status

text \<open>The loop; the result is the progress and the rate limit error that ended it early, if any.\<close>

fun cleanup_loop ::
    "cleaner \<Rightarrow> env \<Rightarrow> string \<Rightarrow> string \<Rightarrow> bool \<Rightarrow> string fset \<Rightarrow> orphan_ref list \<Rightarrow> progress
      \<Rightarrow> world \<Rightarrow> (progress \<times> err option) \<times> world" where
  "cleanup_loop c env uid cluster deletePVCs liveNames [] p w = ((p, None), w)"
| "cleanup_loop c env uid cluster deletePVCs liveNames (r # rs) p w =
     (case cleanupRoleGroup c env uid cluster deletePVCs liveNames r w of
        (Inl e, w') \<Rightarrow>
          if IsRateLimitError e then ((p, Some e), w')
          else cleanup_loop c env uid cluster deletePVCs liveNames rs
            (p\<lparr>pg_errs := pg_errs p @ [Wrapped (FmtErrorf ''failed to cleanup role group'') (Some e)],
               pg_requeue := earliestRequeue [pg_requeue p, pollInterval c],
               pg_pending := pg_pending p @ [describe r]\<rparr>) w'
      | (Inr (deleted, retryAfter), w') \<Rightarrow>
          if \<not> deleted
          then cleanup_loop c env uid cluster deletePVCs liveNames rs
            (p\<lparr>pg_requeue := earliestRequeue [pg_requeue p, retryAfter],
               pg_pending := pg_pending p @ [describe r]\<rparr>) w'
          else cleanup_loop c env uid cluster deletePVCs liveNames rs
            (if or_role r \<noteq> []
             then p\<lparr>pg_status := RemoveRoleGroup (or_role r) (or_group r) (pg_status p)\<rparr> else p) w')"

definition Cleanup ::
    "cleaner \<Rightarrow> env \<Rightarrow> string \<Rightarrow> string \<Rightarrow> generic_cluster_spec \<Rightarrow> string gomap \<Rightarrow> int \<Rightarrow> cluster_status
      \<Rightarrow> world \<Rightarrow> (duration \<times> err option \<times> cluster_status) \<times> world" where
  "Cleanup c env uid cluster spec crAnnotations now status w =
     (let deletePVCs = (fmlookup crAnnotations AnnotationDeletePVCs = Some valueTrue);
          w1 = snd (clear_all c env uid cluster (spec_group_names spec) w);
          (pdbs, w2) = cleanupOrphanedRolePDBs c env uid cluster spec w1;
          limited = (case pdbs of Inl e \<Rightarrow> IsRateLimitError e | Inr _ \<Rightarrow> False);
          errs = (case pdbs of Inl e \<Rightarrow> [e] | Inr _ \<Rightarrow> []);
          nextRequeue = (if pdbs = Inr Settled then 0 else pollInterval c)
      in if limited then ((0, Some (hd errs), status), w2)
      else (case discoverOrphans c env uid cluster spec status w2 of
          (Inl e, w3) \<Rightarrow>
            if IsRateLimitError e then ((nextRequeue, Some e, status), w3)
            else ((earliestRequeue [nextRequeue, pollInterval c], errors_join (errs @ [e]), status), w3)
        | (Inr orphans, w3) \<Rightarrow>
            if length orphans = 0
            then ((nextRequeue, errors_join errs, setOrphanCleanupCondition now [] status), w3)
            else (case cleanup_loop c env uid cluster deletePVCs (liveResourceNames c cluster spec) orphans
                    \<lparr>pg_requeue = nextRequeue, pg_errs = errs, pg_pending = [], pg_status = status\<rparr> w3 of
                ((p, Some e), w4) \<Rightarrow> ((pg_requeue p, Some e, pg_status p), w4)
              | ((p, None), w4) \<Rightarrow>
                  ((pg_requeue p, errors_join (pg_errs p),
                    setOrphanCleanupCondition now (pg_pending p) (pg_status p)), w4))))"

end
