(* ===== verification/CleanerSafety.thy ===== *)
theory CleanerSafety
  imports Cleaner
begin

text \<open>
  What a teardown may write. The lemmas hold for every schedule of failing requests and for every
  cache that is not mistaken about who owns an object, however stale it is otherwise.
\<close>

section \<open>Ownership\<close>

definition owned_at :: "string \<Rightarrow> world \<Rightarrow> key \<Rightarrow> bool" where
  "owned_at uid w k \<longleftrightarrow> (\<exists>x. fmlookup (objs w) k = Some x \<and> isOwnedByCluster x uid)"

definition foreign_at :: "string \<Rightarrow> world \<Rightarrow> key \<Rightarrow> live \<Rightarrow> bool" where
  "foreign_at uid w k x \<longleftrightarrow> fmlookup (objs w) k = Some x \<and> \<not> isOwnedByCluster x uid"

definition cache_owners :: "env \<Rightarrow> string \<Rightarrow> bool" where
  "cache_owners env uid \<longleftrightarrow> (\<forall>n s k x y. fmlookup (cache env n s) k = Some x \<longrightarrow>
     fmlookup s k = Some y \<longrightarrow> isOwnedByCluster x uid = isOwnedByCluster y uid)"

text \<open>Within the exempt kinds anything may be deleted; everywhere else only owned objects.\<close>

definition mine :: "string \<Rightarrow> key set \<Rightarrow> world \<Rightarrow> bool" where
  "mine uid K w \<longleftrightarrow> (\<forall>k \<in> K. \<forall>x. \<not> foreign_at uid w k x)"

definition spares :: "string \<Rightarrow> kind set \<Rightarrow> world \<Rightarrow> world \<Rightarrow> bool" where
  "spares uid E w w' \<longleftrightarrow>
     (\<forall>k x. fst k \<notin> E \<longrightarrow> foreign_at uid w k x \<longrightarrow> fmlookup (objs w') k = Some x) \<and>
     (\<forall>k. fst k \<notin> E \<longrightarrow> owned_at uid w' k \<longrightarrow> owned_at uid w k)"

definition guarded :: "string \<Rightarrow> kind set \<Rightarrow> key set \<Rightarrow> world \<Rightarrow> world \<Rightarrow> bool" where
  "guarded uid E K w w' \<longleftrightarrow> (mine uid K w \<longrightarrow> mine uid K w' \<and> spares uid E w w')"

lemma foreign_or_owned:
  "fmlookup (objs w) k = Some x \<Longrightarrow> foreign_at uid w k x \<or> owned_at uid w k"
  by (auto simp: foreign_at_def owned_at_def)

lemma spares_refl: "objs w = objs w' \<Longrightarrow> spares uid E w w'"
  by (simp add: spares_def foreign_at_def owned_at_def)

lemma spares_trans:
  assumes "spares uid E u v" and "spares uid E v w"
  shows "spares uid E u w"
proof -
  have "fmlookup (objs w) k = Some x" if "fst k \<notin> E" "foreign_at uid u k x" for k x
  proof -
    from assms(1) that have "fmlookup (objs v) k = Some x" unfolding spares_def by blast
    with that have "foreign_at uid v k x" by (simp add: foreign_at_def)
    with assms(2) that(1) show ?thesis unfolding spares_def by blast
  qed
  with assms show ?thesis unfolding spares_def by blast
qed

interpretation guarded: world_frame "guarded uid E K" for uid E K
proof unfold_locales
  fix w w' :: world assume o': "objs w = objs w'"
  then show "guarded uid E K w w'"
    by (auto simp: guarded_def mine_def foreign_at_def intro: spares_refl)
next
  fix u v w assume "guarded uid E K u v" "guarded uid E K v w"
  then show "guarded uid E K u w" by (auto simp: guarded_def intro: spares_trans)
qed

lemma guarded_empty: "guarded uid E {} w w' \<longleftrightarrow> spares uid E w w'"
  by (simp add: guarded_def mine_def)

section \<open>Reads that establish ownership\<close>

definition got :: "env \<Rightarrow> key \<Rightarrow> live \<Rightarrow> world \<Rightarrow> bool" where
  "got env k x w \<longleftrightarrow> (\<exists>n. fmlookup (cache env n (objs w)) k = Some x)"

lemma got_mine: "cache_owners env uid \<Longrightarrow> got env k x w \<Longrightarrow> isOwnedByCluster x uid \<Longrightarrow> mine uid {k} w"
  unfolding cache_owners_def got_def mine_def foreign_at_def by blast

context world_frame
begin

lemma preserves_get:
  assumes "\<And>e. preserves R (h e)" and "\<And>x w. got env k x w \<Longrightarrow> R w (snd (f x w))"
  shows "preserves R (handleE (client_get env k) h f)"
proof (unfold preserves_def, intro allI)
  fix w :: world
  let ?w = "w\<lparr>calls := Suc (calls w)\<rparr>"
  have step: "R w ?w" by (simp add: frame_objs)
  have h: "R ?w (snd (h e ?w))" for e using assms(1) by (simp add: preserves_def)
  have f: "R ?w (snd (f x ?w))" if "fmlookup (cache env (calls w) (objs w)) k = Some x" for x
    using assms(2) [of x ?w] that by (auto simp: got_def)
  show "R w (snd (handleE (client_get env k) h f w))"
    using frame_trans [OF step h] frame_trans [OF step f]
    by (auto simp: handleE_def client_get_def request_def found_def Let_def split: option.split)
qed

lemma preserves_or_missing_get:
  "(\<And>x w. got env k x w \<Longrightarrow> R w (snd (f x w))) \<Longrightarrow>
    preserves R (or_missing g (client_get env k) d f)"
  unfolding or_missing_def by (intro preserves_get) (simp_all add: preserves_return preserves_throw)

lemma preserves_bind_get:
  "(\<And>x w. got env k x w \<Longrightarrow> R w (snd (f x w))) \<Longrightarrow> preserves R (bindE (client_get env k) f)"
  unfolding bindE_def by (intro preserves_get) (simp_all add: preserves_throw)

lemma bind_at:
  assumes "R w (snd (m w))" and "\<And>a. preserves R (f a)"
  shows "R w (snd (bindE m f w))"
proof (cases "m w")
  case (Pair r w')
  with assms(1) have "R w w'" by simp
  moreover have "R w' (snd (f a w'))" for a using assms(2) by (simp add: preserves_def)
  ultimately show ?thesis
    by (cases r) (auto simp: bindE_def handleE_def throwE_def Pair intro: frame_trans)
qed

lemma preserves_emit: "preserves R (emitDeleted cluster k)"
  by (simp add: preserves_def emitDeleted_def frame_objs)

lemma preserves_clock: "preserves R (read_clock env)"
  by (simp add: preserves_def read_clock_def frame_objs)

end

section \<open>Writes\<close>

lemma request_cases:
  assumes "\<And>e. R w (w\<lparr>calls := Suc (calls w)\<rparr>)"
    and "R w (snd (f (calls w) (w\<lparr>calls := Suc (calls w)\<rparr>)))"
  shows "R w (snd (request env f w))"
  using assms by (auto simp: request_def Let_def split: option.split)

lemma delete_objs:
  "objs (snd (api_delete env k w)) = objs w \<or>
   objs (snd (api_delete env k w)) = fmdrop k (objs w) \<or>
   (\<exists>x. fmlookup (objs w) k = Some x \<and>
     objs (snd (api_delete env k w)) = fmupd k (x\<lparr>lv_deleting := True\<rparr>) (objs w))"
  by (auto simp: api_delete_def request_def Let_def split: option.split)

lemma update_objs:
  "objs (snd (api_update env k new w)) = objs w \<or>
   (\<exists>x. fmlookup (objs w) k = Some x \<and> objs (snd (api_update env k new w)) =
     fmupd k (updated env (calls w) x new) (objs w))"
  by (auto simp: api_update_def request_def Let_def split: option.split)

lemma owned_fields [simp]:
  "isOwnedByCluster (x\<lparr>lv_deleting := b\<rparr>) uid = isOwnedByCluster x uid"
  "isOwnedByCluster (x\<lparr>lv_version := n\<rparr>) uid = isOwnedByCluster x uid"
  "isOwnedByCluster (x\<lparr>lv_status_replicas := i\<rparr>) uid = isOwnedByCluster x uid"
  "isOwnedByCluster (updated env n x new) uid = isOwnedByCluster new uid"
  by (simp_all add: isOwnedByCluster_def)

lemma preserves_delete:
  assumes "k \<in> K \<or> fst k \<in> E \<and> (\<forall>k' \<in> K. fst k' \<notin> E)"
  shows "preserves (guarded uid E K) (api_delete env k)"
proof (unfold preserves_def guarded_def, intro allI impI)
  fix w assume m: "mine uid K w"
  consider "objs (snd (api_delete env k w)) = objs w"
    | "objs (snd (api_delete env k w)) = fmdrop k (objs w)"
    | x where "fmlookup (objs w) k = Some x"
      "objs (snd (api_delete env k w)) = fmupd k (x\<lparr>lv_deleting := True\<rparr>) (objs w)"
    using delete_objs by blast
  then show "mine uid K (snd (api_delete env k w)) \<and> spares uid E w (snd (api_delete env k w))"
  proof cases
    case 1
    with m show ?thesis by (auto simp: mine_def foreign_at_def intro: spares_refl)
  next
    case 2
    with m assms show ?thesis
      by (auto simp: mine_def foreign_at_def owned_at_def spares_def)
  next
    case 3
    with m assms show ?thesis
      by (auto simp: mine_def foreign_at_def owned_at_def spares_def split: if_splits)
  qed
qed

lemma guarded_update:
  assumes "k \<in> K" and "cache_owners env uid" and "got env k x w"
    and "isOwnedByCluster new uid = isOwnedByCluster x uid"
  shows "guarded uid E K w (snd (api_update env k new w))"
proof (unfold guarded_def, intro impI)
  assume m: "mine uid K w"
  consider "objs (snd (api_update env k new w)) = objs w"
    | y where "fmlookup (objs w) k = Some y"
      "objs (snd (api_update env k new w)) = fmupd k (updated env (calls w) y new) (objs w)"
    using update_objs by blast
  then show "mine uid K (snd (api_update env k new w)) \<and> spares uid E w (snd (api_update env k new w))"
  proof cases
    case 1
    with m show ?thesis by (auto simp: mine_def foreign_at_def intro: spares_refl)
  next
    case 2
    have "isOwnedByCluster y uid" using m assms(1) 2(1) unfolding mine_def foreign_at_def by blast
    moreover from assms(2,3) 2(1) have "isOwnedByCluster x uid = isOwnedByCluster y uid"
      unfolding cache_owners_def got_def by blast
    ultimately have "isOwnedByCluster new uid" using assms(4) by simp
    with m 2 \<open>isOwnedByCluster y uid\<close> show ?thesis
      by (auto simp: mine_def foreign_at_def owned_at_def spares_def split: if_splits)
  qed
qed

section \<open>The operations\<close>

lemma preserves_confirmDeleted: "preserves (guarded uid E K) (confirmDeleted c env k)"
  unfolding confirmDeleted_def
  by (intro guarded.preserves_or_missing guarded.preserves_reads guarded.preserves_return)

lemma preserves_delete_confirmed:
  assumes "k \<in> K"
  shows "preserves (guarded uid E K) (or_missing (apiError c) (api_delete env k) Settled (\<lambda>_.
    bindE (emitDeleted cluster k) (\<lambda>_. confirmDeleted c env k)))"
  by (intro guarded.preserves_or_missing guarded.preserves_bind preserves_delete
      guarded.preserves_emit preserves_confirmDeleted) (simp add: assms)

text \<open>A step that is guarded once its own key is known to be owned spares every foreign object.\<close>

lemma spares_of_guarded_set:
  "preserves (guarded uid E K) m \<Longrightarrow> mine uid K w \<Longrightarrow> guarded uid E {} w (snd (m w))"
  by (auto simp: preserves_def guarded_def mine_def)

lemmas spares_of_guarded = spares_of_guarded_set [where K = "{k}" for k]

lemma preserves_deleteOwned:
  assumes "cache_owners env uid"
  shows "preserves (guarded uid E {}) (deleteOwned c env uid cluster k)"
  unfolding deleteOwned_def
proof (rule guarded.preserves_or_missing_get)
  fix x w assume g: "got env k x w"
  show "guarded uid E {} w (snd ((if \<not> isOwnedByCluster x uid then returnE Settled
       else or_missing (apiError c) (api_delete env k) Settled (\<lambda>_.
         bindE (emitDeleted cluster k) (\<lambda>_. confirmDeleted c env k))) w))"
  proof (cases "isOwnedByCluster x uid")
    case True
    then show ?thesis
      using spares_of_guarded [OF preserves_delete_confirmed got_mine [OF assms g True]] by simp
  next
    case False
    then show ?thesis by (simp add: returnE_def guarded.frame_objs)
  qed
qed

lemma set_replicas_owned [simp]: "isOwnedByCluster (set_replicas n x) uid = isOwnedByCluster x uid"
  by (simp add: set_replicas_def isOwnedByCluster_def split: payload.split)

lemma annotate_owned [simp]: "isOwnedByCluster (annotate a v x) uid = isOwnedByCluster x uid"
  by (simp add: annotate_def isOwnedByCluster_def)

lemma preserves_scaleToZero:
  assumes "cache_owners env uid" and "k \<in> K"
  shows "preserves (guarded uid E K) (scaleToZero c env k)"
  unfolding scaleToZero_def
proof (intro guarded.preserves_or_missing guarded.preserves_retry guarded.preserves_bind_get
    guarded.preserves_return)
  fix x w assume g: "got env k x w"
  show "guarded uid E K w (snd ((if live_replicas x = Some 0 then returnE ()
      else api_update env k (set_replicas 0 x)) w))"
    using guarded_update [OF assms(2,1) g] by (simp add: returnE_def guarded.frame_objs)
qed

lemma preserves_drain:
  assumes "cache_owners env uid" and "k \<in> K"
  shows "preserves (guarded uid E K) (drainDeadlineExpired c env sts k)"
proof -
  have "preserves (guarded uid E K) (or_missing (apiError c)
      (retry_on_conflict DefaultBackoffRetries (bindE (client_get env k) (\<lambda>x.
         bindE (read_clock env) (\<lambda>now.
           api_update env k (annotate AnnotationDrainStarted (format_time c now) x)))))
      False (\<lambda>_. returnE False))"
  proof (intro guarded.preserves_or_missing guarded.preserves_retry guarded.preserves_bind_get
      guarded.preserves_return)
    fix x w assume g: "got env k x w"
    then show "guarded uid E K w (snd (bindE (read_clock env) (\<lambda>now.
        api_update env k (annotate AnnotationDrainStarted (format_time c now) x)) w))"
      using guarded_update [OF assms(2,1) g] by (simp add: bindE_def handleE_def read_clock_def)
  qed
  then show ?thesis
    by (auto simp: drainDeadlineExpired_def guarded.preserves_return guarded.preserves_clock
        split: option.split intro!: guarded.preserves_bind)
qed


lemma preserves_update:
  assumes "k \<in> K" and "isOwnedByCluster new uid"
  shows "preserves (guarded uid E K) (api_update env k new)"
proof (unfold preserves_def guarded_def, intro allI impI)
  fix w assume m: "mine uid K w"
  consider "objs (snd (api_update env k new w)) = objs w"
    | y where "fmlookup (objs w) k = Some y"
      "objs (snd (api_update env k new w)) = fmupd k (updated env (calls w) y new) (objs w)"
    using update_objs by blast
  then show "mine uid K (snd (api_update env k new w)) \<and> spares uid E w (snd (api_update env k new w))"
  proof cases
    case 1
    with m show ?thesis by (auto simp: mine_def foreign_at_def intro: spares_refl)
  next
    case 2
    have "isOwnedByCluster y uid" using m assms(1) 2(1) unfolding mine_def foreign_at_def by blast
    with m 2 assms(2) show ?thesis
      by (auto simp: mine_def foreign_at_def owned_at_def spares_def split: if_splits)
  qed
qed

text \<open>What a list request answers with.\<close>

definition listed :: "env \<Rightarrow> (key \<Rightarrow> live \<Rightarrow> bool) \<Rightarrow> (key \<times> live) list \<Rightarrow> world \<Rightarrow> bool" where
  "listed env P items w \<longleftrightarrow>
     (\<forall>(k, x) \<in> set items. P k x \<and> (got env k x w \<or> fmlookup (objs w) k = Some x))"

lemma select_objs_found: "(k, x) \<in> set (select_objs P s) \<Longrightarrow> P k x \<and> fmlookup s k = Some x"
  by (auto simp: select_objs_def)

lemma listed_mine:
  "cache_owners env uid \<Longrightarrow> listed env P items w \<Longrightarrow>
    mine uid {k. \<exists>x. (k, x) \<in> set items \<and> isOwnedByCluster x uid} w"
  unfolding mine_def foreign_at_def listed_def cache_owners_def got_def by fastforce

context world_frame
begin

lemma preserves_list:
  assumes "m = client_list env P \<or> m = api_list env P"
    and "\<And>e. preserves R (h e)" and "\<And>items w. listed env P items w \<Longrightarrow> R w (snd (f items w))"
  shows "preserves R (handleE m h f)"
proof (unfold preserves_def, intro allI)
  fix w :: world
  let ?w = "w\<lparr>calls := Suc (calls w)\<rparr>"
  have step: "R w ?w" by (simp add: frame_objs)
  have h: "R ?w (snd (h e ?w))" for e using assms(2) by (simp add: preserves_def)
  have f: "R ?w (snd (f items ?w))"
    if "items = select_objs P (cache env (calls w) (objs w)) \<or> items = select_objs P (objs w)" for items
  proof (rule assms(3))
    show "listed env P items ?w"
      using that by (auto simp: listed_def got_def dest!: select_objs_found)
  qed
  have f1: "R ?w (snd (f (select_objs P (cache env (calls w) (objs w))) ?w))"
    and f2: "R ?w (snd (f (select_objs P (objs w)) ?w))" by (rule f, simp)+
  from assms(1) show "R w (snd (handleE m h f w))"
    using frame_trans [OF step h] frame_trans [OF step f1] frame_trans [OF step f2]
    by (auto simp: handleE_def client_list_def api_list_def request_def Let_def split: option.split)
qed

end

lemma preserves_delete_pvcs:
  assumes "KPersistentVolumeClaim \<in> E" and "\<forall>k \<in> K. fst k \<notin> E"
  shows "\<forall>(k, x) \<in> set ks. fst k = KPersistentVolumeClaim \<Longrightarrow>
    preserves (guarded uid E K) (delete_pvcs c env ks)"
proof (induction ks)
  case Nil
  show ?case by (simp add: guarded.preserves_return)
next
  case (Cons p ks)
  obtain k x where p: "p = (k, x)" by (cases p)
  from Cons p assms have "preserves (guarded uid E K) (api_delete env k)"
    and "preserves (guarded uid E K) (delete_pvcs c env ks)"
    by (auto intro!: preserves_delete)
  then show ?case
    unfolding p by (auto intro!: guarded.preserves_handle simp: guarded.preserves_throw)
qed

lemma preserves_deletePVCs:
  assumes "KPersistentVolumeClaim \<in> E" and "\<forall>k \<in> K. fst k \<notin> E"
  shows "preserves (guarded uid E K) (deletePVCsForStatefulSet c env sts)"
proof -
  have "preserves (guarded uid E K) (handleE (client_list env (\<lambda>k x. fst k = KPersistentVolumeClaim \<and>
                   labels_match sel x))
                 (\<lambda>e. throwE (Wrapped (FmtErrorf ''failed to list PVCs for StatefulSet'')
                        (Some (apiError c e))))
                 (delete_pvcs c env))" for sel
  proof (rule guarded.preserves_list, blast, rule guarded.preserves_throw)
    fix items w
    assume "listed env (\<lambda>k x. fst k = KPersistentVolumeClaim \<and> labels_match sel x) items w"
    then have "\<forall>(k, x) \<in> set items. fst k = KPersistentVolumeClaim" by (auto simp: listed_def)
    from preserves_delete_pvcs [OF assms this] show "guarded uid E K w (snd (delete_pvcs c env items w))"
      by (simp add: preserves_def)
  qed
  then show ?thesis
    by (simp add: deletePVCsForStatefulSet_def guarded.preserves_return guarded.preserves_throw
        split: option.split)
qed

definition exempt :: "bool \<Rightarrow> kind set" where
  "exempt deletePVCs = (if deletePVCs then {KPersistentVolumeClaim} else {})"


lemma preserves_deleteStatefulSet:
  assumes co: "cache_owners env uid" and E: "E = exempt deletePVCs"
  shows "preserves (guarded uid E {}) (deleteStatefulSet c env uid cluster deletePVCs name)"
  unfolding deleteStatefulSet_def Let_def
proof (rule guarded.preserves_or_missing_get)
  fix sts w assume g: "got env (KStatefulSet, name) sts w"
  let ?k = "(KStatefulSet, name)"
  let ?rest = "bindE (if lv_status_replicas sts > 0 then drainDeadlineExpired c env sts ?k else returnE True)
          (\<lambda>proceed. if \<not> proceed then returnE InFlight
            else bindE (if deletePVCs then deletePVCsForStatefulSet c env sts else returnE ()) (\<lambda>_.
              or_missing (apiError c) (api_delete env ?k) Settled (\<lambda>_.
                bindE (emitDeleted cluster ?k) (\<lambda>_. confirmDeleted c env ?k))))"
  let ?scale = "bindE (scaleToZero c env ?k) (\<lambda>_. returnE InFlight)"
  have scale: "preserves (guarded uid E {?k}) ?scale"
    by (intro guarded.preserves_bind preserves_scaleToZero guarded.preserves_return co) simp
  have pvcs: "preserves (guarded uid E {?k}) (if deletePVCs then deletePVCsForStatefulSet c env sts else returnE ())"
    by (auto simp: E exempt_def guarded.preserves_return intro!: preserves_deletePVCs)
  have drain: "preserves (guarded uid E {?k}) (if lv_status_replicas sts > 0 then drainDeadlineExpired c env sts ?k
      else returnE True)"
    by (simp add: guarded.preserves_return preserves_drain co)
  have after: "preserves (guarded uid E {?k}) (if \<not> proceed then returnE InFlight
      else bindE (if deletePVCs then deletePVCsForStatefulSet c env sts else returnE ()) (\<lambda>_.
        or_missing (apiError c) (api_delete env ?k) Settled (\<lambda>_.
          bindE (emitDeleted cluster ?k) (\<lambda>_. confirmDeleted c env ?k))))" for proceed
  proof (cases proceed)
    case True
    have "preserves (guarded uid E {?k}) (or_missing (apiError c) (api_delete env ?k) Settled (\<lambda>_.
        bindE (emitDeleted cluster ?k) (\<lambda>_. confirmDeleted c env ?k)))"
      by (simp add: preserves_delete_confirmed)
    with pvcs True show ?thesis
      by (simp only: not_True_eq_False if_False) (rule guarded.preserves_bind)
  qed (simp add: guarded.preserves_return)
  have rest: "preserves (guarded uid E {?k}) ?rest" by (rule guarded.preserves_bind [OF drain after])
  show "guarded uid E {} w (snd ((if \<not> isOwnedByCluster sts uid then returnE Settled
        else if (case live_replicas sts of None \<Rightarrow> True | Some n \<Rightarrow> n > 0) then ?scale else ?rest) w))"
  proof (cases "isOwnedByCluster sts uid")
    case True
    note m = got_mine [OF co g True]
    show ?thesis using spares_of_guarded [OF scale m] spares_of_guarded [OF rest m] True by simp
  next
    case False
    then show ?thesis by (simp add: returnE_def guarded.frame_objs)
  qed
qed

lemma preserves_delete_extras:
  "{k. \<exists>x. (k, x) \<in> set xs \<and> isOwnedByCluster x uid} \<subseteq> K \<Longrightarrow>
    preserves (guarded uid E K) (delete_extras c env uid cluster xs state)"
proof (induction xs arbitrary: state)
  case Nil
  show ?case by (simp add: guarded.preserves_return)
next
  case (Cons p xs)
  obtain k x where p: "p = (k, x)" by (cases p)
  from Cons.prems have "{k. \<exists>x. (k, x) \<in> set xs \<and> isOwnedByCluster x uid} \<subseteq> K" by auto
  note IH = Cons.IH [OF this]
  have "k \<in> K" if "isOwnedByCluster x uid" using Cons.prems that by (auto simp: p)
  then have "preserves (guarded uid E K) (api_delete env k)" if "isOwnedByCluster x uid"
    using that by (auto intro: preserves_delete)
  then show ?case
    unfolding p by (auto intro!: guarded.preserves_handle guarded.preserves_bind guarded.preserves_emit
        simp: guarded.preserves_throw IH)
qed

lemma preserves_extras_of_kinds:
  assumes co: "cache_owners env uid"
  shows "preserves (guarded uid E {}) (extras_of_kinds c env uid cluster sel kinds state)"
proof (induction kinds arbitrary: state)
  case Nil
  show ?case by (simp add: guarded.preserves_return)
next
  case (Cons kd kinds)
  show ?case
  proof (cases kd)
    case None
    with Cons show ?thesis by simp
  next
    case (Some kind)
    let ?P = "\<lambda>k x. fst k = kind \<and> labels_match sel x"
    show ?thesis unfolding Some extras_of_kinds.simps
    proof (rule guarded.preserves_list [where P = ?P])
      show "confirm_list c env ?P = client_list env ?P \<or> confirm_list c env ?P = api_list env ?P"
        by (auto simp: confirm_list_def)
      fix items w assume l: "listed env ?P items w"
      let ?K = "{k. \<exists>x. (k, x) \<in> set items \<and> isOwnedByCluster x uid}"
      have "guarded uid E {} w (snd (delete_extras c env uid cluster items state w))"
        by (rule spares_of_guarded_set [OF preserves_delete_extras [OF subset_refl] listed_mine [OF co l]])
      then show "guarded uid E {} w (snd (bindE (delete_extras c env uid cluster items state)
          (extras_of_kinds c env uid cluster sel kinds) w))"
        by (rule guarded.bind_at) (rule Cons.IH)
    qed (simp add: guarded.preserves_throw)
  qed
qed

lemma preserves_deleteRoleGroupExtras:
  "cache_owners env uid \<Longrightarrow>
    preserves (guarded uid E {}) (deleteRoleGroupExtras c env uid cluster role grp)"
  by (simp add: deleteRoleGroupExtras_def guarded.preserves_return preserves_extras_of_kinds)


section \<open>One role group\<close>

lemma preserves_opt_get: "preserves (guarded uid E K) (opt_get c env k)"
  unfolding opt_get_def
  by (intro guarded.preserves_or_missing guarded.preserves_reads guarded.preserves_return)

lemma preserves_mark_primaries:
  "\<forall>(k, x) \<in> set xs. isOwnedByCluster x uid \<Longrightarrow> fst ` set xs \<subseteq> K \<Longrightarrow>
    preserves (guarded uid E K) (mark_primaries c env mark xs)"
proof (induction xs)
  case Nil
  show ?case by (simp add: guarded.preserves_return)
next
  case (Cons p xs)
  obtain k x where p: "p = (k, x)" by (cases p)
  from Cons have IH: "preserves (guarded uid E K) (mark_primaries c env mark xs)" by auto
  from Cons.prems have "preserves (guarded uid E K) (api_update env k (annotate AnnotationPendingDeletion mark x))"
    by (intro preserves_update) (auto simp: p)
  with IH show ?case
    unfolding p by (auto intro!: guarded.preserves_handle simp: guarded.preserves_throw)
qed

lemma opt_get_got:
  assumes "opt_get c env k w = (Inr (Some x), w')"
  shows "got env k x w \<and> objs w' = objs w"
  using assms
  by (auto simp: opt_get_def or_missing_def handleE_def client_get_def request_def found_def Let_def
      returnE_def throwE_def got_def split: option.splits sum.splits prod.splits if_splits)

lemma opt_get_objs: "objs (snd (opt_get c env k w)) = objs w"
  by (auto simp: opt_get_def or_missing_def handleE_def client_get_def request_def found_def Let_def
      returnE_def throwE_def split: option.splits sum.splits prod.splits)

lemma got_same_objs: "objs w = objs w' \<Longrightarrow> got env k x w = got env k x w'"
  by (simp add: got_def)

lemma preserves_checkOrMarkGrayDelete:
  assumes co: "cache_owners env uid"
  shows "preserves (guarded uid E {}) (checkOrMarkGrayDelete c env uid name)"
proof (unfold preserves_def, intro allI)
  fix w
  let ?f = "\<lambda>sts cm. let primaries = keyed (KStatefulSet, name) sts @ keyed (KConfigMap, name) cm in
       if length primaries = 0 then returnE (True, 0)
       else if list_ex (\<lambda>(_, x). \<not> isOwnedByCluster x uid) primaries then returnE (True, 0)
       else bindE (read_clock env) (\<lambda>now.
         let mark = grayDeleteMark c primaries;
             markedTime = (case mark of Some t \<Rightarrow> t | None \<Rightarrow> now)
         in bindE (mark_primaries c env (format_time c markedTime) primaries) (\<lambda>_.
           if mark = None then returnE (False, grayDeleteGracePeriod c)
           else bindE (read_clock env) (\<lambda>later.
             if later - markedTime \<ge> grayDeleteGracePeriod c then returnE (True, 0)
             else returnE (False,
               round_to second (markedTime + grayDeleteGracePeriod c - later) + second))))"
  have body: "guarded uid E {} w2 (snd (?f sts cm w2))"
    if sts: "\<forall>x. sts = Some x \<longrightarrow> got env (KStatefulSet, name) x w2"
      and cm: "\<forall>x. cm = Some x \<longrightarrow> got env (KConfigMap, name) x w2" for sts cm w2
  proof -
    let ?p = "keyed (KStatefulSet, name) sts @ keyed (KConfigMap, name) cm"
    show ?thesis
    proof (cases "list_ex (\<lambda>(_, x). \<not> isOwnedByCluster x uid) ?p")
      case True
      then show ?thesis by (auto simp: Let_def returnE_def guarded.frame_objs)
    next
      case False
      then have own: "\<forall>(k, x) \<in> set ?p. isOwnedByCluster x uid" unfolding list_ex_iff by blast
      have "mine uid (fst ` set ?p) w2"
      proof -
        have "got env k x w2" if "(k, x) \<in> set ?p" for k x
          using that sts cm by (auto simp: keyed_def split: option.splits)
        with got_mine [OF co] own show ?thesis unfolding mine_def by fastforce
      qed
      then show ?thesis
        using own
        by (intro spares_of_guarded_set [where K = "fst ` set ?p"])
          (simp_all only: Let_def, auto intro!: guarded.preserves_bind guarded.preserves_clock
            guarded.preserves_return preserves_mark_primaries)
    qed
  qed
  obtain r1 w1 where 1: "opt_get c env (KStatefulSet, name) w = (r1, w1)" by fastforce
  obtain r2 w2 where 2: "opt_get c env (KConfigMap, name) w1 = (r2, w2)" by fastforce
  from 1 2 have o: "objs w1 = objs w" "objs w2 = objs w1" by (metis opt_get_objs snd_conv)+
  have g: "guarded uid E {} w w1" "guarded uid E {} w w2" by (simp_all add: o guarded.frame_objs)
  have "guarded uid E {} w2 (snd (?f sts cm w2))" if "r1 = Inr sts" "r2 = Inr cm" for sts cm
    by (rule body) (use that 1 2 o opt_get_got got_same_objs in metis)+
  then have "guarded uid E {} w (snd (?f sts cm w2))" if "r1 = Inr sts" "r2 = Inr cm" for sts cm
    using that g(2) guarded.frame_trans by blast
  with g 1 2 show "guarded uid E {} w (snd (checkOrMarkGrayDelete c env uid name w))"
    unfolding checkOrMarkGrayDelete_def
    by (cases r1; cases r2) (simp_all add: bindE_def handleE_def throwE_def)
qed

lemma preserves_run_steps:
  "\<forall>m \<in> set steps. preserves (guarded uid E {}) m \<Longrightarrow> preserves (guarded uid E {}) (run_steps steps)"
  by (induction steps) (auto intro!: guarded.preserves_bind simp: guarded.preserves_return)

lemma preserves_confirm_all: "preserves (guarded uid E {}) (confirm_all c env uid ks)"
  by (induction ks) (auto simp: stillOwned_def confirm_get_def guarded.preserves_return
      guarded.preserves_reads intro!: guarded.preserves_bind guarded.preserves_or_missing)

lemma preserves_cleanupRoleGroup:
  assumes co: "cache_owners env uid" and E: "E = exempt deletePVCs"
  shows "preserves (guarded uid E {}) (cleanupRoleGroup c env uid cluster deletePVCs liveNames orphan)"
proof -
  let ?d = "derivedServices (or_resource orphan) liveNames"
  have "\<forall>m \<in> set (teardown_steps c env uid cluster deletePVCs orphan ?d). preserves (guarded uid E {}) m"
    by (auto simp: teardown_steps_def Let_def E preserves_deleteOwned [OF co] preserves_deleteStatefulSet [OF co]
        preserves_deleteRoleGroupExtras [OF co])
  note steps = preserves_run_steps [OF this]
  have "preserves (guarded uid E {}) (confirmRoleGroupReclaimed c env uid (or_resource orphan) ?d)"
    by (simp add: confirmRoleGroupReclaimed_def preserves_confirm_all)
  with steps show ?thesis
    unfolding cleanupRoleGroup_def Let_def
    by (auto intro!: guarded.preserves_bind preserves_checkOrMarkGrayDelete [OF co]
        simp: guarded.preserves_return)
qed


section \<open>The pass\<close>

lemma preserves_clear_primary:
  assumes co: "cache_owners env uid"
  shows "preserves (guarded uid E {}) (clear_primary env uid k)"
  unfolding clear_primary_def
proof (rule guarded.preserves_get)
  fix e
  show "preserves (guarded uid E {}) (if IsNotFound e then returnE [] else returnE [e])"
    by (simp add: guarded.preserves_return)
next
  fix x w assume g: "got env k x w"
  let ?new = "remove_annotations [AnnotationPendingDeletion, AnnotationDrainStarted] x"
  let ?upd = "handleE (api_update env k ?new) (\<lambda>e. returnE [e]) (\<lambda>_. returnE [])"
  have new: "isOwnedByCluster ?new uid = isOwnedByCluster x uid"
    by (simp add: remove_annotations_def isOwnedByCluster_def)
  have "guarded uid E {} w (snd (?upd w))" if o: "isOwnedByCluster x uid"
  proof (rule spares_of_guarded [OF _ got_mine [OF co g o]])
    from o new have "preserves (guarded uid E {k}) (api_update env k ?new)"
      by (intro preserves_update) simp_all
    then show "preserves (guarded uid E {k}) ?upd"
      by (intro guarded.preserves_handle guarded.preserves_return)
  qed
  then show "guarded uid E {} w (snd ((if \<not> isOwnedByCluster x uid then returnE []
       else if fmlookup (annotations x) AnnotationPendingDeletion = None \<and>
         fmlookup (annotations x) AnnotationDrainStarted = None then returnE [] else ?upd) w))"
    by (auto simp: returnE_def guarded.frame_objs)
qed

lemma preserves_clear_all:
  "cache_owners env uid \<Longrightarrow> preserves (guarded uid E {}) (clear_all c env uid cluster gs)"
  by (induction c env uid cluster gs rule: clear_all.induct)
    (auto simp: clearTeardownProgress_def guarded.preserves_return preserves_clear_primary
      intro!: guarded.preserves_bind)

lemma preserves_reclaim_role_pdbs:
  "cache_owners env uid \<Longrightarrow>
    preserves (guarded uid E {}) (reclaim_role_pdbs c env uid cluster spec xs state)"
  by (induction c env uid cluster spec xs state rule: reclaim_role_pdbs.induct)
    (auto simp: Let_def guarded.preserves_return guarded.preserves_throw preserves_deleteOwned
      intro!: guarded.preserves_handle)

lemma preserves_cleanupOrphanedRolePDBs:
  "cache_owners env uid \<Longrightarrow>
    preserves (guarded uid E {}) (cleanupOrphanedRolePDBs c env uid cluster spec)"
  by (auto simp: cleanupOrphanedRolePDBs_def guarded.preserves_return guarded.preserves_throw
      guarded.preserves_reads preserves_reclaim_role_pdbs intro!: guarded.preserves_handle)

lemma preserves_discoverOrphans:
  "preserves (guarded uid E {}) (discoverOrphans c env uid' cluster spec status)"
  by (auto simp: discoverOrphans_def discoverLiveOrphans_def Let_def guarded.preserves_return
      guarded.preserves_throw guarded.preserves_reads intro!: guarded.preserves_handle guarded.preserves_bind)

lemma cleanup_loop_guarded:
  assumes co: "cache_owners env uid" and E: "E = exempt deletePVCs"
  shows "guarded uid E {} w (snd (cleanup_loop c env uid cluster deletePVCs liveNames rs p w))"
proof (induction rs arbitrary: p w)
  case Nil
  show ?case by (simp add: guarded.frame_objs)
next
  case (Cons r rs)
  obtain res w' where c: "cleanupRoleGroup c env uid cluster deletePVCs liveNames r w = (res, w')"
    by fastforce
  with preserves_cleanupRoleGroup [OF co E] have "guarded uid E {} w w'"
    by (metis preserves_def snd_conv)
  with Cons.IH have "guarded uid E {} w
      (snd (cleanup_loop c env uid cluster deletePVCs liveNames rs q w'))" for q
    using guarded.frame_trans by blast
  with c \<open>guarded uid E {} w w'\<close> show ?case by (auto split: sum.split)
qed

definition wants_pvcs :: "string gomap \<Rightarrow> bool" where
  "wants_pvcs crAnnotations \<longleftrightarrow> fmlookup crAnnotations AnnotationDeletePVCs = Some valueTrue"

lemma Cleanup_guarded:
  assumes co: "cache_owners env uid" and E: "E = exempt (wants_pvcs crAnnotations)"
  shows "guarded uid E {} w (snd (Cleanup c env uid cluster spec crAnnotations now status w))"
proof -
  obtain r1 w1 where 1: "clear_all c env uid cluster (spec_group_names spec) w = (r1, w1)" by fastforce
  obtain r2 w2 where 2: "cleanupOrphanedRolePDBs c env uid cluster spec w1 = (r2, w2)" by fastforce
  obtain r3 w3 where 3: "discoverOrphans c env uid cluster spec status w2 = (r3, w3)" by fastforce
  have a: "guarded uid E {} w w1" using preserves_clear_all [OF co] 1 by (metis preserves_def snd_conv)
  have b: "guarded uid E {} w1 w2"
    using preserves_cleanupOrphanedRolePDBs [OF co] 2 by (metis preserves_def snd_conv)
  have d: "guarded uid E {} w2 w3" using preserves_discoverOrphans 3 by (metis preserves_def snd_conv)
  have g2: "guarded uid E {} w w2" using a b by (rule guarded.frame_trans)
  have g3: "guarded uid E {} w w3" using g2 d by (rule guarded.frame_trans)
  have g4: "guarded uid E {} w (snd (cleanup_loop c env uid cluster (wants_pvcs crAnnotations) ln rs p w3))"
    for ln rs p
    by (rule guarded.frame_trans [OF g3 cleanup_loop_guarded [OF co E]])
  show ?thesis
    unfolding Cleanup_def Let_def 1 2 3 snd_conv prod.case wants_pvcs_def [symmetric]
    using g2 g3 g4 by (auto split: sum.splits prod.split option.split simp: 3 split_beta)
qed

end
