(* ===== verification/CleanerLedger.thy ===== *)
theory CleanerLedger
  imports CleanerSafety
begin

text \<open>
  What the bookkeeping of a cleanup pass says about the cluster: a role group leaves the ledger only
  when its slot is empty, and the pass spares everything the cluster does not own.
\<close>

section \<open>Confirmation\<close>

lemma bindE_Inr:
  "bindE m f w = (Inr b, w2) \<longleftrightarrow> (\<exists>a w1. m w = (Inr a, w1) \<and> f a w1 = (Inr b, w2))"
  by (auto simp: bindE_def handleE_def throwE_def split: prod.split sum.split)

text \<open>No request fails with an error the code takes for the absence of the object.\<close>

definition honest :: "env \<Rightarrow> bool" where
  "honest env \<longleftrightarrow> (\<forall>n e. fault env n = Some e \<longrightarrow> \<not> IsNotFound e)"

lemma stillOwned_False:
  assumes "reader_wired c" and "honest env" and "stillOwned c env uid k w = (Inr False, w')"
  shows "objs w' = objs w \<and> \<not> owned_at uid w k"
  using assms
  by (auto simp: stillOwned_def confirm_get_def or_missing_def handleE_def api_get_def request_def
      found_def Let_def returnE_def throwE_def owned_at_def honest_def
      split: option.splits sum.splits prod.splits if_splits)

lemma confirm_all_Settled:
  assumes "reader_wired c" and "honest env"
  shows "confirm_all c env uid ks w = (Inr Settled, w') \<Longrightarrow>
    objs w' = objs w \<and> (\<forall>k \<in> set ks. \<not> owned_at uid w k)"
proof (induction ks arbitrary: w)
  case Nil
  then show ?case by (simp add: returnE_def)
next
  case (Cons k ks)
  then obtain present w1 where s: "stillOwned c env uid k w = (Inr present, w1)"
    and r: "(if present then returnE InFlight else confirm_all c env uid ks) w1 = (Inr Settled, w')"
    by (auto simp: bindE_Inr)
  from r have "\<not> present" by (auto simp: returnE_def)
  with r have "confirm_all c env uid ks w1 = (Inr Settled, w')" by simp
  note IH = Cons.IH [OF this]
  from s \<open>\<not> present\<close> have "objs w1 = objs w \<and> \<not> owned_at uid w k"
    using stillOwned_False [OF assms] by simp
  with IH show ?case by (auto simp: owned_at_def)
qed

definition slot_empty :: "string \<Rightarrow> string \<Rightarrow> string fset \<Rightarrow> world \<Rightarrow> bool" where
  "slot_empty uid name liveNames w \<longleftrightarrow>
     (\<forall>k \<in> set (slot_keys name (derivedServices name liveNames)). \<not> owned_at uid w k)"

lemma cleanupRoleGroup_deleted:
  assumes "reader_wired c" and "honest env"
    and "cleanupRoleGroup c env uid cluster deletePVCs liveNames r w = (Inr (True, d), w')"
  shows "slot_empty uid (or_resource r) liveNames w'"
proof -
  let ?confirm = "confirmRoleGroupReclaimed c env uid (or_resource r)
      (derivedServices (or_resource r) liveNames)"
  have conf: "\<exists>u. ?confirm u = (Inr Settled, w')"
    if "bindE m (\<lambda>state. if state = InFlight then returnE (False, pollInterval c)
          else bindE ?confirm (\<lambda>state. if state = InFlight then returnE (False, pollInterval c)
                 else returnE (True, 0))) u = (Inr (True, d), w')" for m u
  proof -
    from that obtain state u1 where 1: "(if state = InFlight then returnE (False, pollInterval c)
          else bindE ?confirm (\<lambda>state. if state = InFlight then returnE (False, pollInterval c)
                 else returnE (True, 0))) u1 = (Inr (True, d), w')"
      unfolding bindE_Inr by blast
    then have "bindE ?confirm (\<lambda>state. if state = InFlight then returnE (False, pollInterval c)
                 else returnE (True, 0)) u1 = (Inr (True, d), w')"
      by (auto simp: returnE_def split: if_splits)
    then obtain s u2 where 2: "?confirm u1 = (Inr s, u2)"
      and 3: "(if s = InFlight then returnE (False, pollInterval c) else returnE (True, 0)) u2 = (Inr (True, d), w')"
      unfolding bindE_Inr by blast
    from 3 have "s = Settled \<and> u2 = w'" by (cases s) (auto simp: returnE_def)
    with 2 show ?thesis by blast
  qed
  from assms(3) obtain u where "?confirm u = (Inr Settled, w')"
  proof (cases "grayDeleteGracePeriod c > 0")
    case True
    with assms(3) obtain ready remaining u where "(if \<not> ready then returnE (False, remaining)
        else bindE (run_steps (teardown_steps c env uid cluster deletePVCs r
            (derivedServices (or_resource r) liveNames)))
          (\<lambda>state. if state = InFlight then returnE (False, pollInterval c)
          else bindE ?confirm (\<lambda>state. if state = InFlight then returnE (False, pollInterval c)
                 else returnE (True, 0)))) u = (Inr (True, d), w')"
      unfolding cleanupRoleGroup_def Let_def by (auto simp: bindE_Inr)
    then show ?thesis using conf that by (cases ready) (auto simp: returnE_def)
  next
    case False
    with assms(3) show ?thesis using conf that unfolding cleanupRoleGroup_def Let_def by auto
  qed
  then have "objs w' = objs u" and "slot_empty uid (or_resource r) liveNames u"
    using confirm_all_Settled [OF assms(1,2)]
    by (auto simp: confirmRoleGroupReclaimed_def slot_empty_def)
  then show ?thesis by (simp add: slot_empty_def owned_at_def)
qed

lemma slot_keys_kinds: "k \<in> set (slot_keys name derived) \<Longrightarrow> fst k \<noteq> KPersistentVolumeClaim"
  by (auto simp: slot_keys_def)

lemma slot_empty_frame:
  assumes "guarded uid (exempt b) {} w w'" and "slot_empty uid name liveNames w"
  shows "slot_empty uid name liveNames w'"
proof -
  from assms(1) have "spares uid (exempt b) w w'" by (simp add: guarded_empty)
  then have "owned_at uid w k" if "owned_at uid w' k" "fst k \<noteq> KPersistentVolumeClaim" for k
    using that unfolding spares_def exempt_def by (metis empty_iff singletonD)
  with assms(2) slot_keys_kinds show ?thesis unfolding slot_empty_def by blast
qed

section \<open>The loop\<close>

lemma cleanup_loop_dropped:
  assumes co: "cache_owners env uid" and wired: "reader_wired c" "honest env"
  shows "cleanup_loop c env uid cluster deletePVCs liveNames rs p w = ((p', stop), w') \<Longrightarrow>
    g \<in> tracked (pg_status p) \<Longrightarrow> g \<notin> tracked (pg_status p') \<Longrightarrow>
    \<exists>r \<in> set rs. g = (or_role r, or_group r) \<and> slot_empty uid (or_resource r) liveNames w'"
proof (induction rs arbitrary: p w)
  case Nil
  then show ?case by simp
next
  case (Cons r rs)
  let ?loop = "cleanup_loop c env uid cluster deletePVCs liveNames rs"
  obtain res w1 where c: "cleanupRoleGroup c env uid cluster deletePVCs liveNames r w = (res, w1)"
    by fastforce
  show ?case
  proof (cases "\<exists>q. ?loop q w1 = ((p', stop), w') \<and> pg_status q = pg_status p")
    case True
    with Cons.IH Cons.prems show ?thesis by fastforce
  next
    case False
    obtain d where res: "res = Inr (True, d)"
      using Cons.prems(1,2,3) c False by (cases res) (fastforce split: if_splits)+
    have role: "or_role r \<noteq> []" and l: "?loop (p\<lparr>pg_status :=
        RemoveRoleGroup (or_role r) (or_group r) (pg_status p)\<rparr>) w1 = ((p', stop), w')"
      using Cons.prems(1) c False unfolding res by (auto split: if_splits)
    show ?thesis
    proof (cases "g = (or_role r, or_group r)")
      case True
      have "slot_empty uid (or_resource r) liveNames w1"
        using cleanupRoleGroup_deleted [OF wired] c res by blast
      moreover have "guarded uid (exempt deletePVCs) {} w1 w'"
        using cleanup_loop_guarded [OF co refl] l by (metis snd_conv)
      ultimately show ?thesis using True slot_empty_frame by auto
    next
      case False
      then have "g \<in> tracked (RemoveRoleGroup (or_role r) (or_group r) (pg_status p))"
        using Cons.prems(2) by (auto simp: tracked_RemoveRoleGroup)
      then show ?thesis using Cons.IH [OF l] Cons.prems(3) by auto
    qed
  qed
qed


section \<open>The pass\<close>

lemma roleGroupSlotOf_resource:
  "roleGroupSlotOf c cluster uid name x = Some r \<Longrightarrow>
    or_resource r = RoleGroupResourceName (digest c) cluster (or_role r) (or_group r)"
  by (auto simp: roleGroupSlotOf_def Let_def split: if_splits)

definition named_ref :: "cleaner \<Rightarrow> string \<Rightarrow> orphan_ref \<Rightarrow> bool" where
  "named_ref c cluster r \<longleftrightarrow>
     or_resource r = RoleGroupResourceName (digest c) cluster (or_role r) (or_group r)"

lemma live_orphans_named:
  "r \<in> set (live_orphans c cluster uid spec xs seen) \<Longrightarrow> named_ref c cluster r"
  by (induction c cluster uid spec xs seen rule: live_orphans.induct)
    (auto simp: named_ref_def dest: roleGroupSlotOf_resource split: option.splits if_splits)

lemma discoverLiveOrphans_named:
  "discoverLiveOrphans c env uid cluster spec w = (Inr live, w') \<Longrightarrow>
    \<forall>r \<in> set live. named_ref c cluster r"
  by (auto simp: discoverLiveOrphans_def handleE_def returnE_def throwE_def Let_def
      dest: live_orphans_named split: if_splits prod.splits sum.splits)

lemma put_all_values:
  "fmlookup (put_all xs m) k = Some v \<Longrightarrow> (k, v) \<in> set xs \<or> fmlookup m k = Some v"
  by (induction xs arbitrary: m) (fastforce split: if_splits)+

lemma merge_refs_values:
  "fmlookup (fold (\<lambda>r m. if fmlookup m (or_resource r) = None then fmupd (or_resource r) r m else m)
     live m) k = Some v \<Longrightarrow> v \<in> set live \<or> fmlookup m k = Some v"
  by (induction live arbitrary: m) (fastforce split: if_splits)+

lemma discoverOrphans_named:
  assumes "discoverOrphans c env uid cluster spec status w = (Inr orphans, w')" and "r \<in> set orphans"
  shows "named_ref c cluster r"
proof -
  from assms obtain live w1 where live: "discoverLiveOrphans c env uid cluster spec w = (Inr live, w1)"
    and r: "r \<in> set (map snd (entries (fold (\<lambda>r m. if fmlookup m (or_resource r) = None
       then fmupd (or_resource r) r m else m) live (put_all (map (\<lambda>r. (or_resource r, r))
         (ledger_refs c cluster spec status)) fmempty))))"
    by (auto simp: discoverOrphans_def bindE_Inr Let_def returnE_def)
  from r have "r \<in> set live \<or> r \<in> set (ledger_refs c cluster spec status)"
    by (fastforce dest!: merge_refs_values put_all_values)
  then show ?thesis
    using discoverLiveOrphans_named [OF live] by (auto simp: ledger_refs_def named_ref_def)
qed

lemma setOrphanCleanupCondition_groups [simp]:
  "tracked (setOrphanCleanupCondition now pending s) = tracked s"
  by (auto simp: setOrphanCleanupCondition_def tracked_def GetStatusRoleGroups_def)

lemma Cleanup_dropped:
  assumes co: "cache_owners env uid" and wired: "reader_wired c" "honest env"
    and run: "Cleanup c env uid cluster spec crAnnotations now status w = ((d, e, status'), w')"
    and before: "(role, grp) \<in> tracked status" and after: "(role, grp) \<notin> tracked status'"
  shows "slot_empty uid (RoleGroupResourceName (digest c) cluster role grp)
    (liveResourceNames c cluster spec) w'"
proof -
  let ?live = "liveResourceNames c cluster spec" and ?pvcs = "wants_pvcs crAnnotations"
  obtain r1 w1 where 1: "clear_all c env uid cluster (spec_group_names spec) w = (r1, w1)" by fastforce
  obtain r2 w2 where 2: "cleanupOrphanedRolePDBs c env uid cluster spec w1 = (r2, w2)" by fastforce
  obtain r3 w3 where 3: "discoverOrphans c env uid cluster spec status w2 = (r3, w3)" by fastforce
  note run' = run [unfolded Cleanup_def Let_def 1 2 snd_conv prod.case wants_pvcs_def [symmetric], unfolded 3]
  from run' before after obtain orphans where r3: "r3 = Inr orphans"
    by (cases r3) (auto split: if_splits sum.splits)
  obtain p stop w4 where l: "cleanup_loop c env uid cluster ?pvcs ?live orphans
      \<lparr>pg_requeue = (if r2 = Inr Settled then 0 else pollInterval c),
       pg_errs = (case r2 of Inl e \<Rightarrow> [e] | Inr _ \<Rightarrow> []), pg_pending = [], pg_status = status\<rparr> w3
      = ((p, stop), w4)"
    by (metis surj_pair)
  have "w' = w4 \<and> tracked status' = tracked (pg_status p)"
    using run' before after l unfolding r3
    by (cases stop; cases r2) (auto split: if_splits)
  then obtain r where "r \<in> set orphans" "(role, grp) = (or_role r, or_group r)"
      "slot_empty uid (or_resource r) ?live w'"
    using cleanup_loop_dropped [OF co wired l, of "(role, grp)"] before after by auto
  moreover from this(1) 3 r3 have "named_ref c cluster r" using discoverOrphans_named by blast
  ultimately show ?thesis by (simp add: named_ref_def)
qed


section \<open>Properties\<close>

text \<open>A cleaner and an undisturbed environment to try the pass on.\<close>

definition plain_cleaner :: cleaner where
  "plain_cleaner = \<lparr>grayDeleteGracePeriod = 0, drainPollInterval = 0, drainTimeout = 0,
     rateLimitRetryAfter = 0, reader_wired = True, extraResourceKinds = [],
     format_time = (\<lambda>_. []), parse_time = (\<lambda>_. None), digest = (\<lambda>s. s)\<rparr>"

definition no_defaults :: server_defaults where
  "no_defaults = \<lparr>df_sts = (\<lambda>s. s), df_service = (\<lambda>_ s. s), df_job = (\<lambda>_ s. s), df_unstructured = (\<lambda>_ m. m),
     df_typed = (\<lambda>_ _ v. v)\<rparr>"

definition quiet_env :: env where
  "quiet_env = \<lparr>fault = (\<lambda>_. None), cache = (\<lambda>_ s. s), cr_cache = (\<lambda>_ c. c), clock = (\<lambda>_. 0),
     server = no_defaults\<rparr>"

definition stored_live :: "payload \<Rightarrow> (string \<times> bool) list \<Rightarrow> live" where
  "stored_live p owners = \<lparr>labels = fmempty, annotations = fmempty, payload = p, lv_owners = owners,
     lv_finalizers = False, lv_deleting = False, lv_version = 1, lv_status_replicas = 0\<rparr>"

definition no_roles :: generic_cluster_spec where
  "no_roles = \<lparr>spec_image = None, spec_cluster_operation = None, spec_roles = fmempty\<rparr>"

lemma quiet_cache_owners: "cache_owners quiet_env uid"
  by (simp add: cache_owners_def quiet_env_def)

lemma quiet_honest: "honest quiet_env"
  by (simp add: honest_def quiet_env_def)

text \<open>
  C3. A cleanup pass never changes or deletes an object the custom resource does not control,
  whatever requests fail and however stale the cache is, as long as the cache is right about owners;
  only persistent volume claims are exempt, and only when the cluster asks for their deletion.
\<close>

theorem Cleanup_spares_foreign:
  assumes "cache_owners env uid" and "fmlookup (objs w) k = Some x" and "\<not> isOwnedByCluster x uid"
    and "fst k = KPersistentVolumeClaim \<Longrightarrow> \<not> wants_pvcs crAnnotations"
  shows "fmlookup (objs (snd (Cleanup c env uid cluster spec crAnnotations now status w))) k = Some x"
proof -
  let ?E = "exempt (wants_pvcs crAnnotations)"
  have "spares uid ?E w (snd (Cleanup c env uid cluster spec crAnnotations now status w))"
    using Cleanup_guarded [OF assms(1) refl] by (simp add: guarded_empty)
  moreover have "fst k \<notin> ?E" using assms(4) by (auto simp: exempt_def)
  moreover have "foreign_at uid w k x" using assms(2,3) by (simp add: foreign_at_def)
  ultimately show ?thesis unfolding spares_def by blast
qed

theorem Cleanup_spares_foreign_witness:
  "fmlookup (objs (snd (Cleanup plain_cleaner quiet_env ''uid-1'' ''c'' no_roles fmempty 0
     \<lparr>conditions = [], status_role_groups = fmempty, observed_generation = 1\<rparr>
     \<lparr>objs = fmupd (KPodDisruptionBudget, ''c-r-g'') (stored_live (PodDisruptionBudget ''spec'') [(''uid-2'', True)]) fmempty,
      stored = None, calls = 0, deleted_events = [], applied_events = [], warnings = []\<rparr>))) (KPodDisruptionBudget, ''c-r-g'')
   = Some (stored_live (PodDisruptionBudget ''spec'') [(''uid-2'', True)])"
  by (rule Cleanup_spares_foreign [OF quiet_cache_owners])
    (simp_all add: stored_live_def isOwnedByCluster_def)



definition tracking :: cluster_status where
  "tracking = SetRoleGroup ''r'' ''g'' \<lparr>conditions = [], status_role_groups = fmempty, observed_generation = 1\<rparr>"

definition leftover :: world where
  "leftover = \<lparr>objs = fmupd (KConfigMap, ''c-r-g'') (stored_live (ConfigMap fmempty fmempty) [(''uid-1'', True)])
     fmempty, stored = None, calls = 0, deleted_events = [], applied_events = [], warnings = []\<rparr>"

lemma leftover_dropped:
  "fmlookup (status_role_groups (snd (snd (fst
     (Cleanup plain_cleaner quiet_env ''uid-1'' ''c'' no_roles fmempty 0 tracking leftover))))) ''r'' = None"
  by code_simp



end
