(* ===== verification/CleanerDrain.thy ===== *)
theory CleanerDrain
  imports CleanerLedger
begin

text \<open>
  The teardown of one role group: which keys it may touch, why it waits for the StatefulSet, and that
  it ends.
\<close>

section \<open>The footprint\<close>

definition only :: "key set \<Rightarrow> world \<Rightarrow> world \<Rightarrow> bool" where
  "only K w w' \<longleftrightarrow> (\<forall>k. k \<notin> K \<longrightarrow> fmlookup (objs w') k = fmlookup (objs w) k)"

interpretation only: world_frame "only K" for K
  by unfold_locales (simp_all add: only_def)

lemma only_writes:
  assumes "k \<in> K"
  shows "preserves (only K) (api_delete env k)" and "preserves (only K) (api_update env k new)"
proof -
  show "preserves (only K) (api_delete env k)"
  proof (unfold preserves_def only_def, intro allI impI)
    fix w k' assume "k' \<notin> K"
    with assms have "k' \<noteq> k" by blast
    with delete_objs [of env k w]
    show "fmlookup (objs (snd (api_delete env k w))) k' = fmlookup (objs w) k'" by auto
  qed
  show "preserves (only K) (api_update env k new)"
  proof (unfold preserves_def only_def, intro allI impI)
    fix w k' assume "k' \<notin> K"
    with assms have "k' \<noteq> k" by blast
    with update_objs [of env k new w]
    show "fmlookup (objs (snd (api_update env k new w))) k' = fmlookup (objs w) k'" by auto
  qed
qed

lemmas only_control = only.preserves_or_missing only.preserves_bind only.preserves_handle
  only.preserves_retry only.preserves_return only.preserves_throw only.preserves_reads
  only.preserves_emit only.preserves_clock

lemma only_deleteOwned: "k \<in> K \<Longrightarrow> preserves (only K) (deleteOwned c env uid cluster k)"
  by (auto simp: deleteOwned_def confirmDeleted_def only_writes intro!: only_control)

lemma only_scaleToZero: "k \<in> K \<Longrightarrow> preserves (only K) (scaleToZero c env k)"
  by (auto simp: scaleToZero_def only_writes intro!: only_control)

lemma only_drain: "k \<in> K \<Longrightarrow> preserves (only K) (drainDeadlineExpired c env sts k)"
  by (auto simp: drainDeadlineExpired_def only_writes intro!: only_control split: option.split)

lemma only_delete_pvcs:
  "fst ` set ks \<subseteq> K \<Longrightarrow> preserves (only K) (delete_pvcs c env ks)"
  by (induction c env ks rule: delete_pvcs.induct) (auto simp: only_writes intro!: only_control)

lemma only_deletePVCs:
  assumes "{k. fst k = KPersistentVolumeClaim} \<subseteq> K"
  shows "preserves (only K) (deletePVCsForStatefulSet c env sts)"
proof -
  have "preserves (only K) (handleE (client_list env (\<lambda>k x. fst k = KPersistentVolumeClaim \<and> labels_match sel x))
      (\<lambda>e. throwE (Wrapped (FmtErrorf ''failed to list PVCs for StatefulSet'') (Some (apiError c e))))
      (delete_pvcs c env))" for sel
  proof (rule only.preserves_list, blast, rule only.preserves_throw)
    fix items w
    assume "listed env (\<lambda>k x. fst k = KPersistentVolumeClaim \<and> labels_match sel x) items w"
    then have "fst ` set items \<subseteq> {k. fst k = KPersistentVolumeClaim}" by (auto simp: listed_def)
    with assms have "fst ` set items \<subseteq> K" by blast
    then show "only K w (snd (delete_pvcs c env items w))"
      using only_delete_pvcs by (simp add: preserves_def)
  qed
  then show ?thesis
    by (simp add: deletePVCsForStatefulSet_def only.preserves_return only.preserves_throw
        split: option.split)
qed

lemma only_deleteStatefulSet:
  assumes "(KStatefulSet, name) \<in> K" and "{k. fst k \<in> exempt deletePVCs} \<subseteq> K"
  shows "preserves (only K) (deleteStatefulSet c env uid cluster deletePVCs name)"
proof -
  have "preserves (only K) (if deletePVCs then deletePVCsForStatefulSet c env sts else returnE ())" for sts
    using assms(2) by (auto simp: exempt_def only.preserves_return intro!: only_deletePVCs)
  then show ?thesis
    unfolding deleteStatefulSet_def Let_def confirmDeleted_def
    using assms(1)
    by (auto simp: only_writes only_scaleToZero only_drain only.preserves_return only.preserves_reads
        only.preserves_emit intro!: only.preserves_or_missing only.preserves_bind)
qed

lemma only_delete_extras:
  "fst ` set xs \<subseteq> K \<Longrightarrow> preserves (only K) (delete_extras c env uid cluster xs state)"
  by (induction c env uid cluster xs state rule: delete_extras.induct)
    (auto simp: only_writes only.preserves_throw only.preserves_return only.preserves_emit
      intro!: only.preserves_handle only.preserves_bind)

lemma only_extras_of_kinds:
  "{k. Some (fst k) \<in> set kinds} \<subseteq> K \<Longrightarrow>
    preserves (only K) (extras_of_kinds c env uid cluster sel kinds state)"
proof (induction kinds arbitrary: state)
  case Nil
  show ?case by (simp add: only.preserves_return)
next
  case (Cons kd kinds)
  then have IH: "preserves (only K) (extras_of_kinds c env uid cluster sel kinds state)" for state
    by auto
  show ?case
  proof (cases kd)
    case None
    with IH show ?thesis by simp
  next
    case (Some kind)
    let ?P = "\<lambda>k x. fst k = kind \<and> labels_match sel x"
    show ?thesis unfolding Some extras_of_kinds.simps
    proof (rule only.preserves_list [where P = ?P])
      show "confirm_list c env ?P = client_list env ?P \<or> confirm_list c env ?P = api_list env ?P"
        by (auto simp: confirm_list_def)
      fix items w assume "listed env ?P items w"
      then have "\<forall>(k, x) \<in> set items. fst k = kind" by (auto simp: listed_def)
      with Cons.prems Some have "fst ` set items \<subseteq> K" by fastforce
      then have "only K w (snd (delete_extras c env uid cluster items state w))"
        using only_delete_extras by (simp add: preserves_def)
      then show "only K w (snd (bindE (delete_extras c env uid cluster items state)
          (extras_of_kinds c env uid cluster sel kinds) w))"
        by (rule only.bind_at) (rule IH)
    qed (simp add: only.preserves_throw)
  qed
qed

lemma only_mark_primaries:
  "fst ` set xs \<subseteq> K \<Longrightarrow> preserves (only K) (mark_primaries c env mark xs)"
  by (induction c env mark xs rule: mark_primaries.induct)
    (auto simp: only_writes only.preserves_throw only.preserves_return intro!: only.preserves_handle)

lemma only_checkOrMarkGrayDelete:
  assumes "(KStatefulSet, name) \<in> K" and "(KConfigMap, name) \<in> K"
  shows "preserves (only K) (checkOrMarkGrayDelete c env uid name)"
proof -
  have "fst ` set (keyed (KStatefulSet, name) sts @ keyed (KConfigMap, name) cm) \<subseteq> K" for sts cm
    using assms by (auto simp: keyed_def split: option.splits)
  then show ?thesis
    unfolding checkOrMarkGrayDelete_def opt_get_def Let_def
    by (auto simp: only.preserves_return only.preserves_reads only.preserves_clock only_mark_primaries
        intro!: only.preserves_bind only.preserves_or_missing)
qed

lemma only_run_steps:
  "\<forall>m \<in> set steps. preserves (only K) m \<Longrightarrow> preserves (only K) (run_steps steps)"
  by (induction steps) (auto intro!: only.preserves_bind simp: only.preserves_return)

lemma only_confirm_all: "preserves (only K) (confirm_all c env uid ks)"
  by (induction ks) (auto simp: stillOwned_def confirm_get_def only.preserves_return
      only.preserves_reads intro!: only.preserves_bind only.preserves_or_missing)

text \<open>The keys the teardown of a slot may change.\<close>

definition footprint :: "cleaner \<Rightarrow> bool \<Rightarrow> string \<Rightarrow> string fset \<Rightarrow> key set" where
  "footprint c deletePVCs name liveNames =
     set (slot_keys name (derivedServices name liveNames)) \<union>
     {k. Some (fst k) \<in> set (extraResourceKinds c)} \<union> {k. fst k \<in> exempt deletePVCs}"

lemma only_cleanupRoleGroup:
  "preserves (only (footprint c deletePVCs (or_resource r) liveNames))
     (cleanupRoleGroup c env uid cluster deletePVCs liveNames r)"
proof -
  let ?K = "footprint c deletePVCs (or_resource r) liveNames"
  let ?d = "derivedServices (or_resource r) liveNames"
  have keys: "(KPodDisruptionBudget, or_resource r) \<in> ?K" "(KStatefulSet, or_resource r) \<in> ?K"
    "(KConfigMap, or_resource r) \<in> ?K" "(KService, or_resource r) \<in> ?K"
    "\<And>d. d \<in> set ?d \<Longrightarrow> (KService, d) \<in> ?K"
    by (auto simp: footprint_def slot_keys_def)
  have sub: "{k. fst k \<in> exempt deletePVCs} \<subseteq> ?K" "{k. Some (fst k) \<in> set (extraResourceKinds c)} \<subseteq> ?K"
    by (auto simp: footprint_def)
  have "preserves (only ?K) (deleteRoleGroupExtras c env uid cluster (or_role r) (or_group r))"
    using only_extras_of_kinds [OF sub(2)] by (simp add: deleteRoleGroupExtras_def only.preserves_return)
  then have "\<forall>m \<in> set (teardown_steps c env uid cluster deletePVCs r ?d). preserves (only ?K) m"
    by (auto simp: teardown_steps_def Let_def keys only_deleteOwned only_deleteStatefulSet sub)
  note steps = only_run_steps [OF this]
  show ?thesis
    unfolding cleanupRoleGroup_def Let_def confirmRoleGroupReclaimed_def
    by (auto intro!: only.preserves_bind only_checkOrMarkGrayDelete keys steps
        simp: only.preserves_return only_confirm_all)
qed


section \<open>Waiting for the StatefulSet\<close>

definition faithful :: "env \<Rightarrow> bool" where
  "faithful env \<longleftrightarrow> (\<forall>n s. cache env n s = s)"

text \<open>
  A StatefulSet still holds pods: it asks for replicas, or has some and its drain deadline, if the
  drain started at all, is never reached.
\<close>

definition undrained :: "cleaner \<Rightarrow> env \<Rightarrow> live \<Rightarrow> bool" where
  "undrained c env x \<longleftrightarrow>
     (case live_replicas x of None \<Rightarrow> True | Some n \<Rightarrow> n > 0) \<or>
     lv_status_replicas x > 0 \<and>
     (\<forall>t n. Option.bind (fmlookup (annotations x) AnnotationDrainStarted) (parse_time c) = Some t \<longrightarrow>
        clock env n - t < drainDeadline c)"

text \<open>The object stays, and nothing else changes.\<close>

definition kept :: "key \<Rightarrow> world \<Rightarrow> world \<Rightarrow> bool" where
  "kept k w w' \<longleftrightarrow> only {k} w w' \<and> (fmlookup (objs w) k \<noteq> None \<longrightarrow> fmlookup (objs w') k \<noteq> None)"

interpretation kept: world_frame "kept k" for k
  by unfold_locales (auto simp: kept_def only_def)

lemma kept_update: "preserves (kept k) (api_update env k new)"
proof (unfold preserves_def kept_def, intro allI conjI)
  fix w
  show "only {k} w (snd (api_update env k new w))"
    using only_writes(2) [of k "{k}"] by (simp add: preserves_def)
  show "fmlookup (objs w) k \<noteq> None \<longrightarrow> fmlookup (objs (snd (api_update env k new w))) k \<noteq> None"
    using update_objs [of env k new w] by auto
qed

lemma kept_scaleToZero: "preserves (kept k) (scaleToZero c env k)"
  by (auto simp: scaleToZero_def kept_update kept.preserves_return kept.preserves_reads
      intro!: kept.preserves_or_missing kept.preserves_retry kept.preserves_bind)

lemma kept_drain: "preserves (kept k) (drainDeadlineExpired c env sts k)"
  by (auto simp: drainDeadlineExpired_def kept_update kept.preserves_return kept.preserves_reads
      kept.preserves_clock split: option.split
      intro!: kept.preserves_or_missing kept.preserves_retry kept.preserves_bind)

lemma or_missing_Inr:
  assumes "or_missing g m d f w = (Inr b, w')"
  shows "b = d \<or> (\<exists>a w1. m w = (Inr a, w1) \<and> f a w1 = (Inr b, w'))"
  using assms
  by (auto simp: or_missing_def handleE_def returnE_def throwE_def split: prod.splits sum.splits if_splits)

lemma drain_not_expired:
  assumes "\<forall>t n. Option.bind (fmlookup (annotations x) AnnotationDrainStarted) (parse_time c) = Some t \<longrightarrow>
        clock env n - t < drainDeadline c"
    and "drainDeadlineExpired c env x k w = (Inr b, w')"
  shows "\<not> b"
proof (cases "Option.bind (fmlookup (annotations x) AnnotationDrainStarted) (parse_time c)")
  case None
  with assms(2) show ?thesis
    by (auto simp: drainDeadlineExpired_def returnE_def dest!: or_missing_Inr)
next
  case (Some t)
  with assms(1) have "clock env (calls w) - t < drainDeadline c" by blast
  with assms(2) Some show ?thesis
    by (auto simp: drainDeadlineExpired_def bindE_Inr read_clock_def returnE_def)
qed

lemma get_present:
  assumes "faithful env" and "fmlookup (objs w) k = Some x"
  shows "client_get env k w = (case fault env (calls w) of Some e \<Rightarrow> Inl e | None \<Rightarrow> Inr x,
    w\<lparr>calls := Suc (calls w)\<rparr>)"
  using assms by (simp add: client_get_def request_def Let_def found_def faithful_def split: option.split)

lemma deleteStatefulSet_undrained:
  assumes env: "faithful env" "honest env"
    and x: "fmlookup (objs w) (KStatefulSet, name) = Some x" "isOwnedByCluster x uid" "undrained c env x"
  shows "fst (deleteStatefulSet c env uid cluster pvcs name w) \<noteq> Inr Settled \<and>
    kept (KStatefulSet, name) w (snd (deleteStatefulSet c env uid cluster pvcs name w))"
proof (cases "fault env (calls w)")
  case (Some e)
  moreover from Some env(2) have "\<not> IsNotFound e" by (simp add: honest_def)
  ultimately show ?thesis
    by (simp add: deleteStatefulSet_def Let_def or_missing_def handleE_def get_present [OF env(1) x(1)]
        throwE_def kept.frame_objs)
next
  case None
  let ?k = "(KStatefulSet, name)" and ?w = "w\<lparr>calls := Suc (calls w)\<rparr>"
  have w: "kept ?k w ?w" by (simp add: kept.frame_objs)
  show ?thesis
  proof (cases "case live_replicas x of None \<Rightarrow> True | Some n \<Rightarrow> n > 0")
    case True
    then have run: "deleteStatefulSet c env uid cluster pvcs name w =
        bindE (scaleToZero c env ?k) (\<lambda>_. returnE InFlight) ?w"
      by (simp add: deleteStatefulSet_def Let_def or_missing_def handleE_def
          get_present [OF env(1) x(1)] None x(2))
    have "preserves (kept ?k) (bindE (scaleToZero c env ?k) (\<lambda>_. returnE InFlight))"
      by (intro kept.preserves_bind kept_scaleToZero kept.preserves_return)
    then have "kept ?k w (snd (bindE (scaleToZero c env ?k) (\<lambda>_. returnE InFlight) ?w))"
      using kept.frame_trans [OF w] by (simp add: preserves_def)
    then show ?thesis unfolding run
      by (auto simp: bindE_def handleE_def returnE_def throwE_def split: prod.splits sum.splits)
  next
    case False
    with x(3) have dl: "\<forall>t n. Option.bind (fmlookup (annotations x) AnnotationDrainStarted) (parse_time c) = Some t \<longrightarrow>
        clock env n - t < drainDeadline c" and st: "lv_status_replicas x > 0"
      by (simp_all add: undrained_def)
    obtain res w' where d: "drainDeadlineExpired c env x ?k ?w = (res, w')" by fastforce
    have "kept ?k ?w w'" using kept_drain d by (metis preserves_def snd_conv)
    then have k: "kept ?k w w'" by (rule kept.frame_trans [OF w])
    have res: "(\<exists>e. res = Inl e) \<or> res = Inr False"
      using drain_not_expired [OF dl, where k = ?k and w = ?w] d by (cases res) auto
    have "deleteStatefulSet c env uid cluster pvcs name w = (case res of Inl e \<Rightarrow> Inl e | Inr _ \<Rightarrow> Inr InFlight, w')"
      using False st x(2) res
      by (auto simp: deleteStatefulSet_def Let_def or_missing_def handleE_def bindE_def
          get_present [OF env(1) x(1)] None d throwE_def returnE_def)
    with k res show ?thesis by auto
  qed
qed


text \<open>Marking for gray deletion changes nothing but annotations.\<close>

definition same_but_mark :: "live \<Rightarrow> live \<Rightarrow> bool" where
  "same_but_mark x y \<longleftrightarrow> payload y = payload x \<and> lv_owners y = lv_owners x \<and>
     lv_status_replicas y = lv_status_replicas x \<and>
     fmlookup (annotations y) AnnotationDrainStarted = fmlookup (annotations x) AnnotationDrainStarted"

definition marked :: "world \<Rightarrow> world \<Rightarrow> bool" where
  "marked w w' \<longleftrightarrow>
     (\<forall>k x. fmlookup (objs w) k = Some x \<longrightarrow> (\<exists>y. fmlookup (objs w') k = Some y \<and> same_but_mark x y)) \<and>
     (\<forall>k. fmlookup (objs w) k = None \<longrightarrow> fmlookup (objs w') k = None)"

lemma same_but_mark_equiv: "same_but_mark x x" "same_but_mark x y \<Longrightarrow> same_but_mark y z \<Longrightarrow> same_but_mark x z"
  by (simp_all add: same_but_mark_def)

interpretation marked: world_frame marked
proof
  fix w w' :: world assume "objs w = objs w'"
  then show "marked w w'" by (simp add: marked_def same_but_mark_equiv(1))
next
  fix u v w assume uv: "marked u v" and vw: "marked v w"
  have "\<exists>z. fmlookup (objs w) k = Some z \<and> same_but_mark x z" if "fmlookup (objs u) k = Some x" for k x
  proof -
    from uv that obtain y where "fmlookup (objs v) k = Some y" "same_but_mark x y"
      unfolding marked_def by blast
    with vw show ?thesis unfolding marked_def using same_but_mark_equiv(2) by blast
  qed
  moreover have "fmlookup (objs w) k = None" if "fmlookup (objs u) k = None" for k
    using that uv vw unfolding marked_def by blast
  ultimately show "marked u w" unfolding marked_def by blast
qed

lemma annotate_same: "same_but_mark x (updated env n x (annotate AnnotationPendingDeletion m x))"
  by (simp add: same_but_mark_def annotate_def updated_payload AnnotationPendingDeletion_def AnnotationDrainStarted_def)

lemma marked_mark_primaries:
  "\<forall>(k, x) \<in> set xs. fmlookup (objs w) k = Some x \<Longrightarrow> distinct (map fst xs) \<Longrightarrow>
    marked w (snd (mark_primaries c env m xs w))"
proof (induction xs arbitrary: w)
  case Nil
  show ?case by (simp add: returnE_def marked.frame_objs)
next
  case (Cons p xs)
  obtain k x where p: "p = (k, x)" by (cases p)
  have x: "fmlookup (objs w) k = Some x" using Cons.prems(1) by (simp add: p)
  let ?upd = "api_update env k (annotate AnnotationPendingDeletion m x)"
  obtain r w1 where u: "?upd w = (r, w1)" by fastforce
  have w1: "objs w1 = objs w \<or> objs w1 = fmupd k (updated env (calls w) x (annotate AnnotationPendingDeletion m x)) (objs w)"
    using update_objs [of env k "annotate AnnotationPendingDeletion m x" w] u x by auto
  then have m1: "marked w w1"
    using x annotate_same by (auto simp: marked_def same_but_mark_equiv(1))
  have rest: "\<forall>(k', y) \<in> set xs. fmlookup (objs w1) k' = Some y"
  proof (intro ballI, clarify)
    fix a b y assume i: "((a, b), y) \<in> set xs"
    with Cons.prems(2) have "(a, b) \<noteq> k" by (force simp: p)
    moreover from i Cons.prems(1) have "fmlookup (objs w) (a, b) = Some y" by auto
    ultimately show "fmlookup (objs w1) (a, b) = Some y" using w1 by auto
  qed
  have d: "distinct (map fst xs)" using Cons.prems(2) by simp
  have "marked w1 (snd (mark_primaries c env m xs w1))" by (rule Cons.IH [OF rest d])
  then have "marked w (snd (mark_primaries c env m xs w1))" by (rule marked.frame_trans [OF m1])
  moreover have "marked w (snd (mark_primaries c env m xs w))"
    using Cons.IH [of w] Cons.prems by (auto simp: p)
  ultimately show ?case using m1 by (auto simp: p handleE_def throwE_def u split: sum.split)
qed


lemma opt_get_found:
  "faithful env \<Longrightarrow> opt_get c env k w = (Inr v, w') \<Longrightarrow> \<forall>x. v = Some x \<longrightarrow> fmlookup (objs w') k = Some x"
  using opt_get_got [where k = k and c = c and env = env and w = w and w' = w']
  unfolding got_def faithful_def by metis

lemma marked_checkOrMarkGrayDelete:
  assumes env: "faithful env"
  shows "preserves marked (checkOrMarkGrayDelete c env uid name)"
proof (unfold preserves_def, intro allI)
  fix w
  obtain r1 w1 where 1: "opt_get c env (KStatefulSet, name) w = (r1, w1)" by fastforce
  obtain r2 w2 where 2: "opt_get c env (KConfigMap, name) w1 = (r2, w2)" by fastforce
  from 1 2 have o: "objs w1 = objs w" "objs w2 = objs w1" by (metis opt_get_objs snd_conv)+
  have g: "marked w w1" "marked w w2" by (simp_all add: o marked.frame_objs)
  have prim: "marked w2 (snd (mark_primaries c env m
      (keyed (KStatefulSet, name) sts @ keyed (KConfigMap, name) cm) w2))"
    if "r1 = Inr sts" "r2 = Inr cm" for m sts cm
  proof (rule marked_mark_primaries)
    show "\<forall>(k, x) \<in> set (keyed (KStatefulSet, name) sts @ keyed (KConfigMap, name) cm).
        fmlookup (objs w2) k = Some x"
      using opt_get_found [OF env 1 [unfolded that]] opt_get_found [OF env 2 [unfolded that]] o
      by (auto simp: keyed_def split: option.splits)
    show "distinct (map fst (keyed (KStatefulSet, name) sts @ keyed (KConfigMap, name) cm))"
      by (auto simp: keyed_def split: option.splits)
  qed
  note finish = marked.bind_at [where m = "mark_primaries c env m xs" for m xs]
  show "marked w (snd (checkOrMarkGrayDelete c env uid name w))"
  proof (cases "\<exists>sts cm. r1 = Inr sts \<and> r2 = Inr cm")
    case True
    then obtain sts cm where r: "r1 = Inr sts" "r2 = Inr cm" by blast
    have "marked w2 (snd (checkOrMarkGrayDelete c env uid name w))"
      using prim [OF r]
      by (auto simp: checkOrMarkGrayDelete_def bindE_def [where m = "opt_get c env k" for k]
          bindE_def [where m = "read_clock env"]
          handleE_def [where m = "opt_get c env k" for k] handleE_def [where m = "read_clock env"]
          1 2 r Let_def read_clock_def returnE_def marked.frame_objs marked.preserves_return
          preserves_def split: option.split intro!: finish)
    then show ?thesis by (rule marked.frame_trans [OF g(2)])
  next
    case False
    then show ?thesis
      using g by (cases r1; cases r2) (simp_all add: checkOrMarkGrayDelete_def bindE_def handleE_def throwE_def 1 2)
  qed
qed

lemma held_steps:
  assumes env: "faithful env" "honest env"
    and x: "fmlookup (objs w) (KStatefulSet, or_resource r) = Some x" "isOwnedByCluster x uid"
      "undrained c env x"
    and run: "run_steps (teardown_steps c env uid cluster pvcs r derived) w = (res, w')"
  shows "res \<noteq> Inr Settled \<and> fmlookup (objs w') (KStatefulSet, or_resource r) \<noteq> None \<and>
    only {(KPodDisruptionBudget, or_resource r), (KStatefulSet, or_resource r)} w w'"
proof -
  let ?pk = "(KPodDisruptionBudget, or_resource r)" and ?sk = "(KStatefulSet, or_resource r)"
  obtain r1 w1 where 1: "deleteOwned c env uid cluster ?pk w = (r1, w1)" by fastforce
  have o1: "only {?pk} w w1" using only_deleteOwned [of ?pk "{?pk}"] 1 by (metis insertI1 preserves_def snd_conv)
  then have x1: "fmlookup (objs w1) ?sk = Some x" using x(1) by (simp add: only_def)
  obtain r2 w2 where 2: "deleteStatefulSet c env uid cluster pvcs (or_resource r) w1 = (r2, w2)" by fastforce
  have k2: "r2 \<noteq> Inr Settled \<and> kept ?sk w1 w2"
    using deleteStatefulSet_undrained [OF env x1 x(2,3), of cluster pvcs] 2 by simp
  have r2: "(\<exists>e. r2 = Inl e) \<or> r2 = Inr InFlight"
    using k2 by (cases r2) (auto intro: deletion_state.exhaust)
  have steps: "teardown_steps c env uid cluster pvcs r derived =
      deleteOwned c env uid cluster ?pk # deleteStatefulSet c env uid cluster pvcs (or_resource r) #
      drop 2 (teardown_steps c env uid cluster pvcs r derived)"
    by (simp add: teardown_steps_def Let_def)
  have "(w' = w1 \<or> w' = w2) \<and> res \<noteq> Inr Settled"
    using run 1 2 r2 by (subst (asm) steps)
      (auto simp: bindE_def handleE_def throwE_def returnE_def split: sum.splits if_splits)
  moreover have "only {?pk, ?sk} w w1" "only {?pk, ?sk} w w2"
    using o1 k2 by (auto simp: only_def kept_def)
  moreover have "fmlookup (objs w1) ?sk \<noteq> None" "fmlookup (objs w2) ?sk \<noteq> None"
    using x1 k2 by (auto simp: kept_def)
  ultimately show ?thesis by metis
qed

lemma undrained_same: "same_but_mark x y \<Longrightarrow> undrained c env x = undrained c env y"
  by (simp add: undrained_def same_but_mark_def live_replicas_def live_sts_def)

lemma owned_same: "same_but_mark x y \<Longrightarrow> isOwnedByCluster x uid = isOwnedByCluster y uid"
  by (simp add: same_but_mark_def isOwnedByCluster_def)

lemma marked_payload:
  assumes "marked w w'"
  shows "map_option payload (fmlookup (objs w') k) = map_option payload (fmlookup (objs w) k)"
proof (cases "fmlookup (objs w) k")
  case None
  with assms have "fmlookup (objs w') k = None" unfolding marked_def by blast
  with None show ?thesis by simp
next
  case (Some x)
  with assms obtain y where "fmlookup (objs w') k = Some y" "same_but_mark x y"
    unfolding marked_def by blast
  with Some show ?thesis by (simp add: same_but_mark_def)
qed

text \<open>What a pass over an undrained role group leaves behind.\<close>

definition waits :: "string \<Rightarrow> world \<Rightarrow> (err + bool \<times> duration) \<Rightarrow> world \<Rightarrow> bool" where
  "waits name w res w' \<longleftrightarrow> (\<forall>d. res \<noteq> Inr (True, d)) \<and>
     fmlookup (objs w') (KStatefulSet, name) \<noteq> None \<and>
     (\<forall>k. k \<noteq> (KStatefulSet, name) \<and> k \<noteq> (KPodDisruptionBudget, name) \<longrightarrow>
        map_option payload (fmlookup (objs w') k) = map_option payload (fmlookup (objs w) k))"

lemma cleanupRoleGroup_waits:
  assumes env: "faithful env" "honest env"
    and x: "fmlookup (objs w) (KStatefulSet, or_resource r) = Some x" "isOwnedByCluster x uid"
      "undrained c env x"
    and run: "cleanupRoleGroup c env uid cluster pvcs liveNames r w = (res, w')"
  shows "waits (or_resource r) w res w'"
proof -
  let ?name = "or_resource r"
  let ?d = "derivedServices ?name liveNames"
  let ?td = "bindE (run_steps (teardown_steps c env uid cluster pvcs r ?d))
            (\<lambda>state. if state = InFlight then returnE (False, pollInterval c)
              else bindE (confirmRoleGroupReclaimed c env uid ?name ?d)
                (\<lambda>state. if state = InFlight then returnE (False, pollInterval c)
                  else returnE (True, 0)))"
  have td: "waits ?name w (fst (?td w1)) (snd (?td w1))" if m: "marked w w1" for w1
  proof -
    from m x(1) obtain y where y: "fmlookup (objs w1) (KStatefulSet, ?name) = Some y" "same_but_mark x y"
      unfolding marked_def by blast
    obtain s w2 where s: "run_steps (teardown_steps c env uid cluster pvcs r ?d) w1 = (s, w2)" by fastforce
    note held = held_steps [OF env y(1) _ _ s]
    have h: "s \<noteq> Inr Settled \<and> fmlookup (objs w2) (KStatefulSet, ?name) \<noteq> None \<and>
        only {(KPodDisruptionBudget, ?name), (KStatefulSet, ?name)} w1 w2"
      using held x(2,3) undrained_same [OF y(2)] owned_same [OF y(2)] by blast
    have p: "map_option payload (fmlookup (objs w2) k) = map_option payload (fmlookup (objs w) k)"
      if "k \<noteq> (KStatefulSet, ?name) \<and> k \<noteq> (KPodDisruptionBudget, ?name)" for k
    proof -
      have "k \<notin> {(KPodDisruptionBudget, ?name), (KStatefulSet, ?name)}" using that by blast
      with h have "fmlookup (objs w2) k = fmlookup (objs w1) k" unfolding only_def by blast
      with marked_payload [OF m, of k] show ?thesis by simp
    qed
    have "(\<exists>e. s = Inl e) \<or> s = Inr InFlight" using h by (cases s) (auto intro: deletion_state.exhaust)
    then have "snd (?td w1) = w2 \<and> (\<forall>d. fst (?td w1) \<noteq> Inr (True, d))"
      by (auto simp: bindE_def handleE_def s throwE_def returnE_def)
    with h p show ?thesis unfolding waits_def by blast
  qed
  show ?thesis
  proof (cases "grayDeleteGracePeriod c > 0")
    case True
    obtain g w1 where g: "checkOrMarkGrayDelete c env uid ?name w = (g, w1)" by fastforce
    have m: "marked w w1" using marked_checkOrMarkGrayDelete [OF env(1)] g by (metis preserves_def snd_conv)
    have "fmlookup (objs w1) (KStatefulSet, ?name) \<noteq> None" using m x(1) unfolding marked_def by blast
    then have w1: "waits ?name w (Inl e) w1" "waits ?name w (Inr (False, d)) w1" for e d
      using marked_payload [OF m] by (simp_all add: waits_def)
    have "(res, w') = (case g of Inl e \<Rightarrow> (Inl e, w1)
        | Inr (ready, remaining) \<Rightarrow> (if \<not> ready then (Inr (False, remaining), w1) else ?td w1))"
      using run True unfolding cleanupRoleGroup_def Let_def
      by (auto simp: bindE_def [where m = "checkOrMarkGrayDelete c env uid ?name"] handleE_def
          [where m = "checkOrMarkGrayDelete c env uid ?name"] g throwE_def returnE_def split: sum.splits if_splits)
    then consider e where "res = Inl e" "w' = w1" | d where "res = Inr (False, d)" "w' = w1"
      | "?td w1 = (res, w')"
      by (cases g) (auto split: if_splits)
    then show ?thesis
    proof cases
      case 3
      with td [OF m] show ?thesis by simp
    qed (use w1 in auto)
  next
    case False
    with run have "?td w = (res, w')" by (simp add: cleanupRoleGroup_def Let_def)
    with td [OF marked.frame_objs] show ?thesis by fastforce
  qed
qed


section \<open>Properties\<close>

text \<open>
  Tearing down a role group leaves the slots of the live role groups alone: an object stored
  under the resource name of a live group, other than the name being torn down, is left exactly as it
  is, also when that name is a Service name derived from the torn-down group's.
\<close>

theorem cleanupRoleGroup_spares_live:
  assumes "n |\<in>| liveNames" and "n \<noteq> or_resource r"
    and "Some kd \<notin> set (extraResourceKinds c)" and "kd = KPersistentVolumeClaim \<Longrightarrow> \<not> pvcs"
  shows "fmlookup (objs (snd (cleanupRoleGroup c env uid cluster pvcs liveNames r w))) (kd, n)
    = fmlookup (objs w) (kd, n)"
proof -
  have "(kd, n) \<notin> footprint c pvcs (or_resource r) liveNames"
    using assms by (auto simp: footprint_def slot_keys_def derivedServices_def exempt_def)
  then show ?thesis
    using only_cleanupRoleGroup [of c pvcs r liveNames env uid cluster]
    unfolding preserves_def only_def by blast
qed

theorem cleanupRoleGroup_spares_live_witness:
  "fmlookup (objs (snd (cleanupRoleGroup plain_cleaner quiet_env ''uid-1'' ''c'' False {|''c-r-g-metrics''|}
      \<lparr>or_resource = ''c-r-g'', or_role = ''r'', or_group = ''g''\<rparr> leftover))) (KService, ''c-r-g-metrics'')
    = None"
  by (subst cleanupRoleGroup_spares_live) (simp_all add: plain_cleaner_def leftover_def)

text \<open>
  C7. A role group is torn down only after its StatefulSet has drained: while the StatefulSet the
  cluster owns still asks for replicas, or has pods and its drain deadline has not passed, a pass does
  not report the group as deleted, the StatefulSet stays, and nothing but it and the
  PodDisruptionBudget of the slot is deleted or has its content changed. This needs the manager's cache to
  answer the objects as they are stored, and no request to fail with a NotFound that is not one: the pass
  decides on cached reads what is gone, and only the end of the teardown is confirmed with the API server.
\<close>

theorem cleanupRoleGroup_drains_first:
  assumes "faithful env" and "honest env"
    and "fmlookup (objs w) (KStatefulSet, or_resource r) = Some x" and "isOwnedByCluster x uid"
    and "undrained c env x"
  shows "waits (or_resource r) w (fst (cleanupRoleGroup c env uid cluster pvcs liveNames r w))
    (snd (cleanupRoleGroup c env uid cluster pvcs liveNames r w))"
  by (rule cleanupRoleGroup_waits [OF assms]) simp

definition sts_with :: "int \<Rightarrow> payload" where
  "sts_with n = StatefulSet (sample_sts n ''c-r-g'' [] [])"

definition busy_slot :: world where
  "busy_slot = leftover\<lparr>objs := fmupd (KStatefulSet, ''c-r-g'')
     (stored_live (sts_with 3) [(''uid-1'', True)]) (objs leftover)\<rparr>"

lemma quiet_faithful: "faithful quiet_env"
  by (simp add: faithful_def quiet_env_def)

theorem cleanupRoleGroup_drains_first_witness:
  "waits ''c-r-g'' busy_slot
     (fst (cleanupRoleGroup plain_cleaner quiet_env ''uid-1'' ''c'' False {||}
       \<lparr>or_resource = ''c-r-g'', or_role = ''r'', or_group = ''g''\<rparr> busy_slot))
     (snd (cleanupRoleGroup plain_cleaner quiet_env ''uid-1'' ''c'' False {||}
       \<lparr>or_resource = ''c-r-g'', or_role = ''r'', or_group = ''g''\<rparr> busy_slot))"
proof -
  let ?r = "\<lparr>or_resource = ''c-r-g'', or_role = ''r'', or_group = ''g''\<rparr>"
  have "fmlookup (objs busy_slot) (KStatefulSet, or_resource ?r) =
      Some (stored_live (sts_with 3) [(''uid-1'', True)])"
    by (simp add: busy_slot_def)
  moreover have "isOwnedByCluster (stored_live (sts_with 3) [(''uid-1'', True)]) ''uid-1''"
    by (simp add: isOwnedByCluster_def stored_live_def)
  moreover have "undrained plain_cleaner quiet_env (stored_live (sts_with 3) [(''uid-1'', True)])"
    by (simp add: undrained_def stored_live_def sts_with_def sample_sts_def live_replicas_def live_sts_def)
  ultimately show ?thesis
    using cleanupRoleGroup_drains_first [OF quiet_faithful quiet_honest, of busy_slot ?r] by simp
qed

text \<open>
  A cache that does not show the StatefulSet, because it has not caught up, passes for one that has drained:
  the ConfigMap the pods run on is deleted while the StatefulSet still asks for its replicas.
\<close>

definition lagging_env :: env where
  "lagging_env = quiet_env\<lparr>cache := (\<lambda>n s. fmdrop (KStatefulSet, ''c-r-g'') s)\<rparr>"

lemma stale_cache_skips_drain:
  "let w' = snd (cleanupRoleGroup plain_cleaner lagging_env ''uid-1'' ''c'' False {||}
       \<lparr>or_resource = ''c-r-g'', or_role = ''r'', or_group = ''g''\<rparr> busy_slot)
   in fmlookup (objs busy_slot) (KConfigMap, ''c-r-g'') \<noteq> None \<and> fmlookup (objs w') (KConfigMap, ''c-r-g'') = None \<and>
      Option.bind (fmlookup (objs w') (KStatefulSet, ''c-r-g'')) live_replicas = Some 3"
  by code_simp

end
