(* ===== verification/CleanerProgress.thy ===== *)
theory CleanerProgress
  imports CleanerDrain
begin

text \<open>
  A teardown ends. In an environment whose requests succeed and whose cache is current, the first pass
  over a slot scales the StatefulSet down, and a pass over a drained slot empties it.
\<close>

section \<open>One resource\<close>

definition calm :: "env \<Rightarrow> bool" where
  "calm env \<longleftrightarrow> (\<forall>n. fault env n = None) \<and> faithful env"

definition drop_owned :: "string \<Rightarrow> key \<Rightarrow> store \<Rightarrow> store" where
  "drop_owned uid k s =
     (case fmlookup s k of
        None \<Rightarrow> s
      | Some x \<Rightarrow> if isOwnedByCluster x uid then fmdrop k s else s)"

lemma calm_requests:
  assumes "calm env"
  shows "client_get env k w = (found (fmlookup (objs w) k), w\<lparr>calls := Suc (calls w)\<rparr>)"
    and "api_get env k w = (found (fmlookup (objs w) k), w\<lparr>calls := Suc (calls w)\<rparr>)"
  using assms by (simp_all add: calm_def faithful_def client_get_def api_get_def request_def Let_def)

lemma calm_delete:
  assumes "calm env" and "fmlookup (objs w) k = Some x" and "\<not> lv_finalizers x"
  shows "api_delete env k w = (Inr (), w\<lparr>calls := Suc (calls w), objs := fmdrop k (objs w)\<rparr>)"
  using assms by (simp add: calm_def api_delete_def request_def Let_def)

lemma IsNotFound_missing [simp]: "IsNotFound (StatusError NotFound)"
  by (simp add: IsNotFound_def)

lemma calm_confirm:
  assumes "calm env" and "fmlookup (objs w) k = None"
  shows "confirmDeleted c env k w = (Inr Settled, w\<lparr>calls := Suc (calls w)\<rparr>)"
  using assms
  by (simp add: confirmDeleted_def or_missing_def handleE_def calm_requests found_def returnE_def)

lemma calm_delete_confirmed:
  assumes "calm env" and "fmlookup (objs w) k = Some x" and "\<not> lv_finalizers x"
  shows "\<exists>w'. or_missing (apiError c) (api_delete env k) Settled (\<lambda>_.
      bindE (emitDeleted cluster k) (\<lambda>_. confirmDeleted c env k)) w = (Inr Settled, w') \<and>
      objs w' = fmdrop k (objs w)"
  by (simp add: or_missing_def handleE_def calm_delete [OF assms] bindE_def emitDeleted_def
      calm_confirm [OF assms(1)])

text \<open>What stands in the way of emptying a slot: finalizers, and pods.\<close>

definition drained :: "live \<Rightarrow> bool" where
  "drained x \<longleftrightarrow> (\<exists>n. live_replicas x = Some n \<and> n \<le> 0) \<and> lv_status_replicas x \<le> 0"

definition removable :: "string \<Rightarrow> key set \<Rightarrow> store \<Rightarrow> bool" where
  "removable uid K s \<longleftrightarrow> (\<forall>k \<in> K. \<forall>x. fmlookup s k = Some x \<longrightarrow> isOwnedByCluster x uid \<longrightarrow>
     \<not> lv_finalizers x \<and> (fst k = KStatefulSet \<longrightarrow> drained x))"

lemma removable_drop: "removable uid K s \<Longrightarrow> removable uid K (drop_owned uid k s)"
  by (auto simp: removable_def drop_owned_def split: option.splits)

definition empties :: "string \<Rightarrow> key \<Rightarrow> key set \<Rightarrow> deletion_state run \<Rightarrow> bool" where
  "empties uid k K m \<longleftrightarrow> (\<forall>w. removable uid K (objs w) \<longrightarrow>
     (\<exists>w'. m w = (Inr Settled, w') \<and> objs w' = drop_owned uid k (objs w)))"

lemma deleteOwned_empties:
  assumes "calm env" and "k \<in> K"
  shows "empties uid k K (deleteOwned c env uid cluster k)"
proof (unfold empties_def, intro allI impI)
  fix w :: world assume r: "removable uid K (objs w)"
  show "\<exists>w'. deleteOwned c env uid cluster k w = (Inr Settled, w') \<and> objs w' = drop_owned uid k (objs w)"
  proof (cases "fmlookup (objs w) k")
    case None
    then show ?thesis
      by (simp add: deleteOwned_def or_missing_def handleE_def calm_requests [OF assms(1)] found_def
          returnE_def drop_owned_def)
  next
    case (Some x)
    show ?thesis
    proof (cases "isOwnedByCluster x uid")
      case False
      with Some show ?thesis
        by (simp add: deleteOwned_def or_missing_def handleE_def calm_requests [OF assms(1)] found_def
            returnE_def drop_owned_def)
    next
      case True
      with r Some assms(2) have "\<not> lv_finalizers x" unfolding removable_def by blast
      with calm_delete_confirmed [OF assms(1), of "w\<lparr>calls := Suc (calls w)\<rparr>" k x c cluster] Some True
      show ?thesis
        by (simp add: deleteOwned_def or_missing_def [of _ "client_get env k"] handleE_def [of "client_get env k"]
            calm_requests [OF assms(1)] found_def drop_owned_def)
    qed
  qed
qed

lemma deleteStatefulSet_empties:
  assumes "calm env" and "(KStatefulSet, name) \<in> K"
  shows "empties uid (KStatefulSet, name) K (deleteStatefulSet c env uid cluster False name)"
proof (unfold empties_def, intro allI impI)
  fix w :: world assume r: "removable uid K (objs w)"
  let ?k = "(KStatefulSet, name)"
  show "\<exists>w'. deleteStatefulSet c env uid cluster False name w = (Inr Settled, w') \<and>
      objs w' = drop_owned uid ?k (objs w)"
  proof (cases "fmlookup (objs w) ?k")
    case None
    then show ?thesis
      by (simp add: deleteStatefulSet_def Let_def or_missing_def handleE_def calm_requests [OF assms(1)]
          found_def returnE_def drop_owned_def)
  next
    case (Some x)
    show ?thesis
    proof (cases "isOwnedByCluster x uid")
      case False
      with Some show ?thesis
        by (simp add: deleteStatefulSet_def Let_def or_missing_def handleE_def calm_requests [OF assms(1)]
            found_def returnE_def drop_owned_def)
    next
      case True
      with r Some assms(2) have "\<not> lv_finalizers x" and d: "drained x"
        unfolding removable_def by auto
      with calm_delete_confirmed [OF assms(1), of "w\<lparr>calls := Suc (calls w)\<rparr>" ?k x c cluster] Some True
      show ?thesis
        by (auto simp: deleteStatefulSet_def Let_def or_missing_def [of _ "client_get env ?k"] drained_def
            handleE_def [of "client_get env ?k"] bindE_def [of "returnE b" for b] handleE_def [of "returnE b" for b]
            returnE_def calm_requests [OF assms(1)] found_def drop_owned_def)
    qed
  qed
qed


section \<open>The slot\<close>

text \<open>Steps that empty one key each, or none, empty their keys in order.\<close>

fun empties_all :: "string \<Rightarrow> key option list \<Rightarrow> key set \<Rightarrow> deletion_state run list \<Rightarrow> bool" where
  "empties_all uid [] K [] = True"
| "empties_all uid (Some k # ks) K (m # ms) = (empties uid k K m \<and> empties_all uid ks K ms)"
| "empties_all uid (None # ks) K (m # ms) = (m = returnE Settled \<and> empties_all uid ks K ms)"
| "empties_all uid _ K _ = False"

definition drop_all :: "string \<Rightarrow> key option list \<Rightarrow> store \<Rightarrow> store" where
  "drop_all uid ks s = fold (\<lambda>k s. case k of None \<Rightarrow> s | Some k \<Rightarrow> drop_owned uid k s) ks s"

lemma run_steps_empties:
  "empties_all uid ks K ms \<Longrightarrow> removable uid K (objs w) \<Longrightarrow>
    \<exists>w'. run_steps ms w = (Inr Settled, w') \<and> objs w' = drop_all uid ks (objs w)"
proof (induction uid ks K ms arbitrary: w rule: empties_all.induct)
  case (1 uid K)
  then show ?case by (simp add: returnE_def drop_all_def)
next
  case (2 uid k ks K m ms)
  then obtain w1 where w1: "m w = (Inr Settled, w1)" "objs w1 = drop_owned uid k (objs w)"
    unfolding empties_all.simps empties_def by blast
  have "removable uid K (objs w1)" using 2(3) w1(2) removable_drop by simp
  with 2(1,2) have "\<exists>w'. run_steps ms w1 = (Inr Settled, w') \<and> objs w' = drop_all uid ks (objs w1)"
    by simp
  with w1 show ?case by (auto simp: bindE_def handleE_def drop_all_def)
next
  case (3 uid ks K m ms)
  then show ?case by (simp add: bindE_def handleE_def returnE_def drop_all_def)
qed simp_all

lemma drop_owned_lookup:
  "fmlookup (drop_owned uid k s) k' =
     (case fmlookup s k' of None \<Rightarrow> None
      | Some x \<Rightarrow> if k' = k \<and> isOwnedByCluster x uid then None else Some x)"
  by (auto simp: drop_owned_def split: option.splits)

lemma drop_all_lookup:
  "fmlookup (drop_all uid ks s) k' =
     (case fmlookup s k' of None \<Rightarrow> None
      | Some x \<Rightarrow> if Some k' \<in> set ks \<and> isOwnedByCluster x uid then None else Some x)"
  unfolding drop_all_def
  by (induction ks arbitrary: s) (auto simp: drop_owned_lookup split: option.splits)

lemma calm_confirm_all:
  assumes "calm env"
  shows "\<forall>k \<in> set ks. \<not> owned_at uid w k \<Longrightarrow>
    \<exists>w'. confirm_all c env uid ks w = (Inr Settled, w') \<and> objs w' = objs w"
proof (induction ks arbitrary: w)
  case Nil
  show ?case by (simp add: returnE_def)
next
  case (Cons k ks)
  let ?w = "w\<lparr>calls := Suc (calls w)\<rparr>"
  have "stillOwned c env uid k w = (Inr False, ?w)"
    using Cons.prems
    by (auto simp: stillOwned_def confirm_get_def or_missing_def handleE_def calm_requests [OF assms]
        found_def returnE_def owned_at_def split: option.split)
  moreover have "\<exists>w'. confirm_all c env uid ks ?w = (Inr Settled, w') \<and> objs w' = objs ?w"
    by (rule Cons.IH) (use Cons.prems in \<open>auto simp: owned_at_def\<close>)
  ultimately show ?case by (simp add: bindE_def handleE_def)
qed

definition plain_teardown :: "cleaner \<Rightarrow> bool" where
  "plain_teardown c \<longleftrightarrow> grayDeleteGracePeriod c \<le> 0 \<and> extraResourceKinds c = []"

definition slot :: "string \<Rightarrow> string fset \<Rightarrow> key list" where
  "slot name liveNames = slot_keys name (derivedServices name liveNames)"

definition emptied :: "string \<Rightarrow> key list \<Rightarrow> store \<Rightarrow> key \<Rightarrow> live option" where
  "emptied uid ks s k =
     (case fmlookup s k of None \<Rightarrow> None
      | Some x \<Rightarrow> if k \<in> set ks \<and> isOwnedByCluster x uid then None else Some x)"

lemma teardown_steps_empties:
  assumes "calm env" and "plain_teardown c" and "name = or_resource r"
  shows "empties_all uid
    ([Some (KPodDisruptionBudget, name), Some (KStatefulSet, name), None, Some (KConfigMap, name),
      Some (KService, name)] @ map (\<lambda>d. Some (KService, d)) ds)
    (set (slot_keys name ds)) (teardown_steps c env uid cluster False r ds)"
proof -
  have "empties_all uid (map (\<lambda>d. Some (KService, d)) ds') (set (slot_keys name ds))
      (map (\<lambda>d. deleteOwned c env uid cluster (KService, d)) ds')" if "set ds' \<subseteq> set ds" for ds'
    using that by (induction ds') (auto simp: slot_keys_def intro!: deleteOwned_empties assms(1))
  with assms(2) show ?thesis
    by (auto simp: teardown_steps_def Let_def assms(3) [symmetric] plain_teardown_def
        deleteRoleGroupExtras_def slot_keys_def
        intro!: deleteOwned_empties deleteStatefulSet_empties assms(1))
qed

lemma cleanupRoleGroup_empties:
  assumes env: "calm env" and c: "plain_teardown c"
    and r: "removable uid (set (slot (or_resource r) liveNames)) (objs w)"
  shows "\<exists>w'. cleanupRoleGroup c env uid cluster False liveNames r w = (Inr (True, 0), w') \<and>
    (\<forall>k. fmlookup (objs w') k = emptied uid (slot (or_resource r) liveNames) (objs w) k)"
proof -
  let ?name = "or_resource r" and ?ds = "derivedServices (or_resource r) liveNames"
  let ?ks = "[Some (KPodDisruptionBudget, ?name), Some (KStatefulSet, ?name), None, Some (KConfigMap, ?name),
      Some (KService, ?name)] @ map (\<lambda>d. Some (KService, d)) ?ds"
  obtain w1 where w1: "run_steps (teardown_steps c env uid cluster False r ?ds) w = (Inr Settled, w1)"
      "objs w1 = drop_all uid ?ks (objs w)"
    using run_steps_empties [OF teardown_steps_empties [OF env c refl, where r = r and ds = ?ds]]
      r [unfolded slot_def] by blast
  have keys: "Some k \<in> set ?ks \<longleftrightarrow> k \<in> set (slot ?name liveNames)" for k
    by (auto simp: slot_def slot_keys_def)
  have l: "fmlookup (objs w1) k = emptied uid (slot ?name liveNames) (objs w) k" for k
    unfolding w1(2) drop_all_lookup emptied_def keys by simp
  then have "\<forall>k \<in> set (slot_keys ?name ?ds). \<not> owned_at uid w1 k"
    by (auto simp: owned_at_def emptied_def slot_def split: option.splits if_splits)
  then obtain w2 where "confirmRoleGroupReclaimed c env uid ?name ?ds w1 = (Inr Settled, w2)"
      "objs w2 = objs w1"
    using calm_confirm_all [OF env] unfolding confirmRoleGroupReclaimed_def by blast
  with w1(1) l c show ?thesis
    by (simp add: cleanupRoleGroup_def Let_def plain_teardown_def bindE_def handleE_def returnE_def)
qed


section \<open>The first pass\<close>

lemma calm_update:
  assumes "calm env" and "fmlookup (objs w) k = Some x" and "lv_version new = lv_version x"
  shows "api_update env k new w =
    (Inr (), w\<lparr>calls := Suc (calls w), objs := fmupd k (updated env (calls w) x new) (objs w)\<rparr>)"
  using assms by (simp add: calm_def api_update_def request_def Let_def)

lemma set_replicas_fields [simp]:
  "lv_version (set_replicas n x) = lv_version x" "lv_finalizers (set_replicas n x) = lv_finalizers x"
  "lv_status_replicas (set_replicas n x) = lv_status_replicas x"
  by (simp_all add: set_replicas_def split: payload.split)

text \<open>A stated replica count is stored as it is stated.\<close>

lemma updated_replicas: "payload x = StatefulSet s \<Longrightarrow> live_replicas (updated env n x (set_replicas m x)) = Some m"
  by (auto simp: set_replicas_def live_replicas_def live_sts_def updated_payload admitted_def default_replicas_def
      dest: arg_cong [where f = sts_replicas] split: if_splits)

lemma calm_scaleToZero:
  assumes "calm env" and "fmlookup (objs w) k = Some x" and "live_replicas x \<noteq> Some 0"
  shows "\<exists>w' n. scaleToZero c env k w = (Inr (), w') \<and>
    objs w' = fmupd k (updated env n x (set_replicas 0 x)) (objs w)"
proof -
  have "bindE (client_get env k) (\<lambda>x. if live_replicas x = Some 0 then returnE ()
      else api_update env k (set_replicas 0 x)) w = (Inr (), w\<lparr>calls := Suc (Suc (calls w)),
        objs := fmupd k (updated env (Suc (calls w)) x (set_replicas 0 x)) (objs w)\<rparr>)"
    using assms calm_update [OF assms(1), of "w\<lparr>calls := Suc (calls w)\<rparr>" k x "set_replicas 0 x"]
    by (simp add: bindE_def handleE_def calm_requests found_def)
  then show ?thesis
    by (intro exI [of _ "w\<lparr>calls := Suc (Suc (calls w)),
        objs := fmupd k (updated env (Suc (calls w)) x (set_replicas 0 x)) (objs w)\<rparr>"] exI [of _ "Suc (calls w)"])
      (simp add: scaleToZero_def or_missing_def handleE_def DefaultBackoffRetries_def numeral_3_eq_3 returnE_def)
qed

lemma deleteStatefulSet_scales:
  assumes env: "calm env"
    and x: "fmlookup (objs w) (KStatefulSet, name) = Some x" "isOwnedByCluster x uid"
    and n: "case live_replicas x of None \<Rightarrow> True | Some n \<Rightarrow> n > 0"
  shows "\<exists>w' m. deleteStatefulSet c env uid cluster pvcs name w = (Inr InFlight, w') \<and>
    objs w' = fmupd (KStatefulSet, name) (updated env m x (set_replicas 0 x)) (objs w)"
proof -
  let ?w = "w\<lparr>calls := Suc (calls w)\<rparr>" and ?k = "(KStatefulSet, name)"
  have "live_replicas x \<noteq> Some 0" using n by (auto split: option.splits)
  then obtain w' m where "scaleToZero c env ?k ?w = (Inr (), w')"
      "objs w' = fmupd ?k (updated env m x (set_replicas 0 x)) (objs w)"
    using calm_scaleToZero [OF env, of ?w ?k x c] x(1) by auto
  then show ?thesis
    using n by (simp add: deleteStatefulSet_def Let_def or_missing_def handleE_def calm_requests [OF env] x
        found_def bindE_def returnE_def) blast
qed

text \<open>The StatefulSet controller has removed the pods of a StatefulSet that asks for none.\<close>

definition pods_gone :: "string \<Rightarrow> world \<Rightarrow> world" where
  "pods_gone name w =
     (case fmlookup (objs w) (KStatefulSet, name) of
        None \<Rightarrow> w
      | Some x \<Rightarrow> w\<lparr>objs := fmupd (KStatefulSet, name) (x\<lparr>lv_status_replicas := 0\<rparr>) (objs w)\<rparr>)"

definition unheld :: "string \<Rightarrow> key list \<Rightarrow> store \<Rightarrow> bool" where
  "unheld uid ks s \<longleftrightarrow> list_all (\<lambda>k. case fmlookup s k of None \<Rightarrow> True
     | Some x \<Rightarrow> isOwnedByCluster x uid \<longrightarrow> \<not> lv_finalizers x) ks"

lemma slot_sts: "(KStatefulSet, n) \<in> set (slot name liveNames) \<longleftrightarrow> n = name"
  by (auto simp: slot_def slot_keys_def)

lemma slot_pdb: "(KPodDisruptionBudget, name) \<in> set (slot name liveNames)"
  by (simp add: slot_def slot_keys_def)

lemma first_pass:
  assumes env: "calm env" and c: "plain_teardown c"
    and x: "fmlookup (objs w) (KStatefulSet, or_resource r) = Some x" "isOwnedByCluster x uid"
    and n: "case live_replicas x of None \<Rightarrow> True | Some n \<Rightarrow> n > 0"
    and h: "unheld uid (slot (or_resource r) liveNames) (objs w)"
  shows "\<exists>w1 m. cleanupRoleGroup c env uid cluster False liveNames r w = (Inr (False, pollInterval c), w1) \<and>
    objs w1 = fmupd (KStatefulSet, or_resource r) (updated env m x (set_replicas 0 x))
      (drop_owned uid (KPodDisruptionBudget, or_resource r) (objs w))"
proof -
  let ?name = "or_resource r" and ?ds = "derivedServices (or_resource r) liveNames"
  let ?pk = "(KPodDisruptionBudget, ?name)"
  have "removable uid {?pk} (objs w)"
    using h slot_pdb [of ?name liveNames] by (auto simp: unheld_def removable_def list_all_iff split: option.splits)
  then obtain w1 where w1: "deleteOwned c env uid cluster ?pk w = (Inr Settled, w1)"
      "objs w1 = drop_owned uid ?pk (objs w)"
    using deleteOwned_empties [OF env, of ?pk "{?pk}"] unfolding empties_def by blast
  have "fmlookup (objs w1) (KStatefulSet, ?name) = Some x" by (simp add: w1(2) drop_owned_lookup x(1))
  then obtain w2 m where w2: "deleteStatefulSet c env uid cluster False ?name w1 = (Inr InFlight, w2)"
      "objs w2 = fmupd (KStatefulSet, ?name) (updated env m x (set_replicas 0 x)) (objs w1)"
    using deleteStatefulSet_scales [OF env _ x(2) n] by blast
  have "run_steps (teardown_steps c env uid cluster False r ?ds) w = (Inr InFlight, w2)"
    by (simp add: teardown_steps_def Let_def bindE_def handleE_def w1(1) w2(1) returnE_def)
  with w1(2) w2(2) c show ?thesis
    by (simp add: cleanupRoleGroup_def Let_def plain_teardown_def bindE_def handleE_def returnE_def) blast
qed

lemma second_pass_removable:
  assumes x: "payload x = StatefulSet s"
    and h: "unheld uid (slot name liveNames) st"
    and o: "objs w1 = fmupd (KStatefulSet, name) (updated env m x (set_replicas 0 x))
      (drop_owned uid (KPodDisruptionBudget, name) st)" and st: "fmlookup st (KStatefulSet, name) = Some x"
      "isOwnedByCluster x uid"
  shows "removable uid (set (slot name liveNames)) (objs (pods_gone name w1))"
proof -
  have "live_replicas ((updated env m x (set_replicas 0 x))\<lparr>lv_status_replicas := 0\<rparr>) = Some 0"
    using updated_replicas [OF x, of env m 0] by (simp add: live_replicas_def live_sts_def)
  moreover have "\<not> lv_finalizers x"
    using h st slot_sts [of name name liveNames] by (auto simp: unheld_def list_all_iff split: option.splits)
  moreover have "\<not> lv_finalizers y" if "k \<in> set (slot name liveNames)" "k \<noteq> (KStatefulSet, name)"
      "fmlookup (drop_owned uid (KPodDisruptionBudget, name) st) k = Some y" "isOwnedByCluster y uid" for k y
    using that h by (auto simp: unheld_def list_all_iff drop_owned_lookup split: option.splits if_splits)
  ultimately show ?thesis
    using slot_sts [of _ name liveNames]
    by (auto simp: removable_def pods_gone_def o drained_def)
qed


section \<open>Properties\<close>


definition sample_ref :: orphan_ref where
  "sample_ref = \<lparr>or_resource = ''c-r-g'', or_role = ''r'', or_group = ''g''\<rparr>"

lemma quiet_calm: "calm quiet_env"
  by (simp add: calm_def quiet_faithful) (simp add: quiet_env_def)

lemma plain_plain: "plain_teardown plain_cleaner"
  by (simp add: plain_teardown_def plain_cleaner_def)


text \<open>
  Two passes tear a running role group down: the first scales its StatefulSet to zero, asks for a
  requeue and deletes nothing but the PodDisruptionBudget; once the StatefulSet controller has removed
  the pods, the next pass reports the group as deleted and leaves the owned objects of the slot gone
  and every other object as it was.
\<close>

theorem teardown_two_passes:
  assumes "calm env" and "plain_teardown c"
    and "fmlookup (objs w) (KStatefulSet, or_resource r) = Some x" and "isOwnedByCluster x uid"
    and "payload x = StatefulSet s" and "sts_replicas s = Some n" and "n > 0"
    and "unheld uid (slot (or_resource r) liveNames) (objs w)"
  shows "\<exists>w1 w2 y. cleanupRoleGroup c env uid cluster False liveNames r w = (Inr (False, pollInterval c), w1) \<and>
    fmlookup (objs w1) (KStatefulSet, or_resource r) = Some y \<and> live_replicas y = Some 0 \<and>
    cleanupRoleGroup c env uid cluster False liveNames r (pods_gone (or_resource r) w1) = (Inr (True, 0), w2) \<and>
    fmlookup (objs w2) = emptied uid (slot (or_resource r) liveNames) (objs w)"
proof -
  let ?name = "or_resource r"
  have n: "case live_replicas x of None \<Rightarrow> True | Some n \<Rightarrow> n > 0"
    using assms(5-7) by (simp add: live_replicas_def live_sts_def)
  obtain w1 m where w1: "cleanupRoleGroup c env uid cluster False liveNames r w = (Inr (False, pollInterval c), w1)"
      "objs w1 = fmupd (KStatefulSet, ?name) (updated env m x (set_replicas 0 x)) (drop_owned uid (KPodDisruptionBudget, ?name) (objs w))"
    using first_pass [OF assms(1-4) n assms(8)] by blast
  note rem = second_pass_removable [OF assms(5,8) w1(2) assms(3,4)]
  obtain w2 where w2: "cleanupRoleGroup c env uid cluster False liveNames r (pods_gone ?name w1) = (Inr (True, 0), w2)"
      "\<And>k. fmlookup (objs w2) k = emptied uid (slot ?name liveNames) (objs (pods_gone ?name w1)) k"
    using cleanupRoleGroup_empties [OF assms(1,2) rem] by blast
  have "emptied uid (slot ?name liveNames) (objs (pods_gone ?name w1)) k =
      emptied uid (slot ?name liveNames) (objs w) k" for k
    using slot_sts [of ?name ?name liveNames] slot_pdb [of ?name liveNames] assms(3,4)
    by (auto simp: emptied_def pods_gone_def w1(2) drop_owned_lookup split: option.splits)
  then have "fmlookup (objs w2) = emptied uid (slot ?name liveNames) (objs w)"
    using w2(2) by (intro ext) simp
  moreover have "live_replicas (updated env m x (set_replicas 0 x)) = Some 0"
    using updated_replicas [OF assms(5)] .
  ultimately show ?thesis using w1 w2(1) by fastforce
qed

theorem teardown_two_passes_witness:
  "\<exists>w1 w2 y. cleanupRoleGroup plain_cleaner quiet_env ''uid-1'' ''c'' False {||} sample_ref busy_slot
      = (Inr (False, 5 * second), w1) \<and>
    fmlookup (objs w1) (KStatefulSet, ''c-r-g'') = Some y \<and> live_replicas y = Some 0 \<and>
    cleanupRoleGroup plain_cleaner quiet_env ''uid-1'' ''c'' False {||} sample_ref (pods_gone ''c-r-g'' w1)
      = (Inr (True, 0), w2) \<and>
    fmlookup (objs w2) (KStatefulSet, ''c-r-g'') = None"
proof -
  let ?x = "stored_live (sts_with 3) [(''uid-1'', True)]"
  have x: "fmlookup (objs busy_slot) (KStatefulSet, or_resource sample_ref) = Some ?x"
    by (simp add: busy_slot_def sample_ref_def)
  have o: "isOwnedByCluster ?x ''uid-1''" by (simp add: isOwnedByCluster_def stored_live_def)
  have h: "unheld ''uid-1'' (slot (or_resource sample_ref) {||}) (objs busy_slot)"
    by (auto simp: unheld_def list_all_iff busy_slot_def leftover_def stored_live_def split: option.splits)
  have "emptied ''uid-1'' (slot ''c-r-g'' {||}) (objs busy_slot) (KStatefulSet, ''c-r-g'') = None"
    using o by (simp add: emptied_def slot_sts busy_slot_def)
  then show ?thesis
    using teardown_two_passes [OF quiet_calm plain_plain x o _ _ _ h, of "sample_sts 3 ''c-r-g'' [] []" 3 "''c''"]
    by (auto simp: sample_ref_def stored_live_def sts_with_def sample_sts_def plain_cleaner_def pollInterval_def)
qed

end
