(* ===== verification/CleanerRequeue.thy ===== *)
theory CleanerRequeue
  imports CleanerDrain
begin

text \<open>
  An orphan is never forgotten: a pass that leaves one in the ledger asks to be run again.
\<close>

section \<open>Requeue intervals\<close>

lemma pollInterval_pos: "pollInterval c > 0"
  by (simp add: pollInterval_def second_def)

definition earlier :: "duration \<Rightarrow> duration \<Rightarrow> duration" where
  "earlier d nxt = (if d \<le> 0 then nxt else if nxt = 0 \<or> d < nxt then d else nxt)"

lemma earlier_pos: "nxt \<ge> 0 \<Longrightarrow> nxt > 0 \<or> d > 0 \<Longrightarrow> earlier d nxt > 0"
  by (auto simp: earlier_def)

lemma earlier_keeps_pos: "nxt > 0 \<Longrightarrow> fold earlier ds nxt > 0"
  by (induction ds arbitrary: nxt) (simp_all add: earlier_pos)

lemma earliestRequeue_fold: "earliestRequeue ds = fold earlier ds 0"
  unfolding earliestRequeue_def earlier_def [abs_def] by (rule refl)

lemma fold_earlier_pos: "nxt \<ge> 0 \<Longrightarrow> d \<in> set ds \<Longrightarrow> d > 0 \<Longrightarrow> fold earlier ds nxt > 0"
proof (induction ds arbitrary: nxt)
  case (Cons a ds)
  show ?case
  proof (cases "d = a")
    case True
    with Cons.prems show ?thesis by (simp add: earlier_keeps_pos earlier_pos)
  next
    case False
    with Cons show ?thesis by (simp add: earlier_def)
  qed
qed simp

lemma earliestRequeue_pos: "d \<in> set ds \<Longrightarrow> d > 0 \<Longrightarrow> earliestRequeue ds > 0"
  by (simp add: earliestRequeue_fold fold_earlier_pos)

lemma round_to_nonneg: "m > 0 \<Longrightarrow> d > 0 \<Longrightarrow> round_to m d \<ge> 0"
  using zmod_le_nonneg_dividend [of d m] by (simp add: round_to_def Let_def)

lemma gray_remaining_pos:
  assumes g: "grayDeleteGracePeriod c > 0"
    and "checkOrMarkGrayDelete c env uid name w = (Inr (False, d), w')"
  shows "d > 0"
proof -
  have "round_to second (t + grayDeleteGracePeriod c - l) + second > 0"
    if "\<not> l - t \<ge> grayDeleteGracePeriod c" for t l
    using that round_to_nonneg [of second "t + grayDeleteGracePeriod c - l"] by (simp add: second_def)
  with assms show ?thesis
    by (auto simp: checkOrMarkGrayDelete_def bindE_Inr Let_def returnE_def split: if_splits option.splits)
qed

lemma cleanupRoleGroup_retry_pos:
  assumes "cleanupRoleGroup c env uid cluster pvcs liveNames r w = (Inr (False, d), w')"
  shows "d > 0"
  using assms
  by (auto simp: cleanupRoleGroup_def Let_def bindE_Inr returnE_def pollInterval_pos
      dest: gray_remaining_pos split: if_splits)

section \<open>The loop\<close>

definition retries :: "progress \<Rightarrow> bool" where
  "retries p \<longleftrightarrow> pg_requeue p > 0"

lemma cleanup_loop_retries:
  "cleanup_loop c env uid cluster pvcs liveNames rs p w = ((p', stop), w') \<Longrightarrow> retries p \<Longrightarrow> retries p'"
proof (induction rs arbitrary: p w)
  case Nil
  then show ?case by simp
next
  case (Cons r rs)
  let ?p = "\<lambda>d. earliestRequeue [pg_requeue p, d]"
  have "?p d > 0" for d
    using Cons.prems(2) by (intro earliestRequeue_pos [of "pg_requeue p"]) (simp_all add: retries_def)
  then show ?case
    using Cons.IH Cons.prems
    by (cases "cleanupRoleGroup c env uid cluster pvcs liveNames r w")
      (fastforce simp: retries_def split: sum.splits prod.splits if_splits)
qed

lemma cleanup_loop_tracked:
  "cleanup_loop c env uid cluster pvcs liveNames rs p w = ((p', stop), w') \<Longrightarrow>
    tracked (pg_status p') \<subseteq> tracked (pg_status p)"
proof (induction rs arbitrary: p w)
  case Nil
  then show ?case by simp
next
  case (Cons r rs)
  then obtain q w1 where "cleanup_loop c env uid cluster pvcs liveNames rs q w1 = ((p', stop), w') \<and>
      tracked (pg_status q) \<subseteq> tracked (pg_status p) \<or> pg_status p' = pg_status p"
    by (cases "cleanupRoleGroup c env uid cluster pvcs liveNames r w")
      (force simp: tracked_RemoveRoleGroup split: sum.splits prod.splits if_splits)
  with Cons.IH [of q w1] show ?case by auto
qed

text \<open>Every orphan of the list is either dropped from the ledger or retried.\<close>

lemma cleanup_loop_progress:
  "cleanup_loop c env uid cluster pvcs liveNames rs p w = ((p', None), w') \<Longrightarrow>
    pg_requeue p \<ge> 0 \<Longrightarrow> r \<in> set rs \<Longrightarrow> or_role r \<noteq> [] \<Longrightarrow>
    retries p' \<or> (or_role r, or_group r) \<notin> tracked (pg_status p')"
proof (induction rs arbitrary: p w)
  case Nil
  then show ?case by simp
next
  case (Cons a rs)
  let ?loop = "cleanup_loop c env uid cluster pvcs liveNames rs"
  obtain res w1 where c: "cleanupRoleGroup c env uid cluster pvcs liveNames a w = (res, w1)" by fastforce
  have pos: "earliestRequeue [pg_requeue p, d] > 0" if "d > 0" for d
    using that by (intro earliestRequeue_pos [of d]) simp_all
  show ?case
  proof (cases "\<exists>d. res = Inr (True, d)")
    case True
    let ?q = "if or_role a \<noteq> [] then p\<lparr>pg_status := RemoveRoleGroup (or_role a) (or_group a) (pg_status p)\<rparr> else p"
    have l: "?loop ?q w1 = ((p', None), w')" using True Cons.prems(1) c by auto
    show ?thesis
    proof (cases "r \<in> set rs")
      case True
      with Cons.IH [OF l] Cons.prems show ?thesis by (simp split: if_splits)
    next
      case False
      with Cons.prems have "(or_role r, or_group r) \<notin> tracked (pg_status ?q)"
        by (simp add: tracked_RemoveRoleGroup)
      with cleanup_loop_tracked [OF l] show ?thesis by blast
    qed
  next
    case False
    obtain q where "?loop q w1 = ((p', None), w')" "retries q"
    proof (cases res)
      case (Inl e)
      with Cons.prems(1) c that pos [OF pollInterval_pos] show ?thesis
        by (fastforce simp: retries_def split: if_splits)
    next
      case (Inr b)
      with False obtain d where d: "b = (False, d)" by (cases b) auto
      with Inr c have "d > 0" using cleanupRoleGroup_retry_pos by blast
      with Cons.prems(1) c that Inr d pos show ?thesis by (fastforce simp: retries_def)
    qed
    then show ?thesis using cleanup_loop_retries by blast
  qed
qed


lemma cleanup_loop_stop:
  "cleanup_loop c env uid cluster pvcs liveNames rs p w = ((p', Some e), w') \<Longrightarrow> IsRateLimitError e"
proof (induction rs arbitrary: p w)
  case Nil
  then show ?case by simp
next
  case (Cons r rs)
  then show ?case
    by (cases "cleanupRoleGroup c env uid cluster pvcs liveNames r w")
      (fastforce split: sum.splits prod.splits if_splits)
qed

section \<open>The pass\<close>

lemma put_all_stays:
  "fmlookup m k = Some v \<Longrightarrow> \<forall>v'. (k, v') \<in> set xs \<longrightarrow> v' = v \<Longrightarrow> fmlookup (put_all xs m) k = Some v"
proof (induction xs arbitrary: m)
  case (Cons p xs)
  obtain a b where p: "p = (a, b)" by (cases p)
  have "fmlookup (fmupd a b m) k = Some v" using Cons.prems by (simp add: p)
  moreover have "\<forall>v'. (k, v') \<in> set xs \<longrightarrow> v' = v" using Cons.prems(2) by simp
  ultimately show ?case by (simp only: p put_all_simps) (rule Cons.IH)
qed simp

lemma put_all_unique:
  "(k, v) \<in> set xs \<Longrightarrow> \<forall>v'. (k, v') \<in> set xs \<longrightarrow> v' = v \<Longrightarrow> fmlookup (put_all xs m) k = Some v"
proof (induction xs arbitrary: m)
  case (Cons p xs)
  obtain a b where p: "p = (a, b)" by (cases p)
  have rest: "\<forall>v'. (k, v') \<in> set xs \<longrightarrow> v' = v" using Cons.prems(2) by simp
  show ?case
  proof (cases "(k, v) \<in> set xs")
    case True
    then show ?thesis by (simp only: p put_all_simps) (rule Cons.IH [OF True rest])
  next
    case False
    with Cons.prems(1) p have "fmlookup (fmupd a b m) k = Some v" by simp
    then show ?thesis by (simp only: p put_all_simps) (rule put_all_stays [OF _ rest])
  qed
qed simp

lemma merge_refs_keeps:
  "fmlookup m k = Some v \<Longrightarrow>
    fmlookup (fold (\<lambda>r m. if fmlookup m (or_resource r) = None then fmupd (or_resource r) r m else m)
      live m) k = Some v"
  by (induction live arbitrary: m) auto

definition ref_of :: "cleaner \<Rightarrow> string \<Rightarrow> string \<Rightarrow> string \<Rightarrow> orphan_ref" where
  "ref_of c cluster role grp = \<lparr>or_resource = RoleGroupResourceName (digest c) cluster role grp,
     or_role = role, or_group = grp\<rparr>"

lemma set_ledger_refs:
  "set (ledger_refs c cluster spec status) =
     (\<lambda>(role, grp). ref_of c cluster role grp) ` (tracked status - desired_groups (spec_roles spec))"
proof -
  have "ledger_refs c cluster spec status = map (\<lambda>(role, grp). ref_of c cluster role grp)
      (pairs_of (GetOrphanedRoleGroups (spec_roles spec) status))"
    by (simp add: ledger_refs_def pairs_of_def map_concat ref_of_def comp_def split_def)
  then show ?thesis by (simp add: orphans_pairs)
qed

definition unambiguous :: "cleaner \<Rightarrow> string \<Rightarrow> (string \<times> string) set \<Rightarrow> bool" where
  "unambiguous c cluster G \<longleftrightarrow> inj_on (\<lambda>(role, grp). RoleGroupResourceName (digest c) cluster role grp) G"

lemma discoverOrphans_ledger:
  assumes d: "discoverOrphans c env uid cluster spec status w = (Inr orphans, w')"
    and u: "unambiguous c cluster (tracked status - desired_groups (spec_roles spec))"
    and g: "(role, grp) \<in> tracked status - desired_groups (spec_roles spec)"
  shows "ref_of c cluster role grp \<in> set orphans"
proof -
  let ?r = "ref_of c cluster role grp"
  let ?refs0 = "put_all (map (\<lambda>r. (or_resource r, r)) (ledger_refs c cluster spec status)) fmempty"
  have mem: "?r \<in> set (ledger_refs c cluster spec status)" using g by (auto simp: set_ledger_refs)
  have unique: "v = ?r" if "v \<in> set (ledger_refs c cluster spec status)" "or_resource v = or_resource ?r" for v
  proof -
    from that(1) obtain role' grp' where v: "v = ref_of c cluster role' grp'"
      "(role', grp') \<in> tracked status - desired_groups (spec_roles spec)"
      unfolding set_ledger_refs by (elim imageE) (simp only: split_paired_all prod.case)
    with that(2) have "RoleGroupResourceName (digest c) cluster role' grp' =
        RoleGroupResourceName (digest c) cluster role grp"
      by (simp add: ref_of_def)
    then have "(case (role', grp') of (role, grp) \<Rightarrow> RoleGroupResourceName (digest c) cluster role grp) =
        (case (role, grp) of (role, grp) \<Rightarrow> RoleGroupResourceName (digest c) cluster role grp)"
      by (simp only: prod.case)
    then have "(role', grp') = (role, grp)"
      by (rule inj_onD [OF u [unfolded unambiguous_def] _ v(2) g])
    then show ?thesis by (simp only: v(1) prod.inject)
  qed
  have "fmlookup ?refs0 (or_resource ?r) = Some ?r"
  proof (rule put_all_unique)
    show "(or_resource ?r, ?r) \<in> set (map (\<lambda>r. (or_resource r, r)) (ledger_refs c cluster spec status))"
      using mem by (simp only: set_map) (rule imageI)
    show "\<forall>v. (or_resource ?r, v) \<in> set (map (\<lambda>r. (or_resource r, r)) (ledger_refs c cluster spec status)) \<longrightarrow> v = ?r"
    proof (intro allI impI)
      fix v
      assume "(or_resource ?r, v) \<in> set (map (\<lambda>r. (or_resource r, r)) (ledger_refs c cluster spec status))"
      then have "v \<in> set (ledger_refs c cluster spec status)" and "or_resource v = or_resource ?r"
        by (simp_all only: set_map image_iff prod.inject) (elim bexE conjE, simp only:)+
      then show "v = ?r" by (rule unique)
    qed
  qed
  note keeps = merge_refs_keeps [OF this]
  from d obtain live where o: "orphans = map snd (entries (fold (\<lambda>r m. if fmlookup m (or_resource r) = None
       then fmupd (or_resource r) r m else m) live ?refs0))"
    by (auto simp: discoverOrphans_def bindE_Inr Let_def returnE_def)
  have "snd (or_resource ?r, ?r) \<in> snd ` set (entries (fold (\<lambda>r m. if fmlookup m (or_resource r) = None
       then fmupd (or_resource r) r m else m) live ?refs0))"
    by (rule imageI) (simp only: in_entries keeps)
  then show ?thesis by (simp only: o set_map snd_conv)
qed

definition rate_limited :: "err option \<Rightarrow> bool" where
  "rate_limited e \<longleftrightarrow> (case e of None \<Rightarrow> False | Some x \<Rightarrow> IsRateLimitError x)"

lemma Cleanup_retries:
  assumes u: "unambiguous c cluster (tracked status - desired_groups (spec_roles spec))"
    and g: "(role, grp) \<in> tracked status - desired_groups (spec_roles spec)" "role \<noteq> []"
    and run: "Cleanup c env uid cluster spec crAnnotations now status w = ((d, e, status'), w')"
    and left: "(role, grp) \<in> tracked status'" and lim: "\<not> rate_limited e"
  shows "d > 0"
proof -
  obtain r1 w1 where 1: "clear_all c env uid cluster (spec_group_names spec) w = (r1, w1)" by fastforce
  obtain r2 w2 where 2: "cleanupOrphanedRolePDBs c env uid cluster spec w1 = (r2, w2)" by fastforce
  obtain r3 w3 where 3: "discoverOrphans c env uid cluster spec status w2 = (r3, w3)" by fastforce
  let ?next = "if r2 = Inr Settled then 0 else pollInterval c"
  have nonneg: "?next \<ge> 0" using pollInterval_pos [of c] by simp
  note run' = run [unfolded Cleanup_def Let_def 1 2 snd_conv prod.case wants_pvcs_def [symmetric], unfolded 3]
  have nl: "\<not> (case r2 of Inl e \<Rightarrow> IsRateLimitError e | Inr _ \<Rightarrow> False)"
    using run' lim by (cases r2) (auto simp: rate_limited_def)
  show ?thesis
  proof (cases r3)
    case (Inl e3)
    have "earliestRequeue [?next, pollInterval c] > 0"
      using pollInterval_pos by (intro earliestRequeue_pos [of "pollInterval c"]) simp_all
    with run' nl Inl lim show ?thesis by (auto simp: rate_limited_def split: if_splits)
  next
    case (Inr orphans)
    have r: "ref_of c cluster role grp \<in> set orphans"
      using discoverOrphans_ledger [OF 3 [unfolded Inr] u g(1)] .
    then have ne: "length orphans \<noteq> 0" by auto
    obtain p stop w4 where l: "cleanup_loop c env uid cluster (wants_pvcs crAnnotations)
        (liveResourceNames c cluster spec) orphans \<lparr>pg_requeue = ?next,
         pg_errs = (case r2 of Inl e \<Rightarrow> [e] | Inr _ \<Rightarrow> []), pg_pending = [], pg_status = status\<rparr> w3
        = ((p, stop), w4)"
      by (metis surj_pair)
    note run2 = run' [unfolded Inr, simplified nl ne if_False sum.case l prod.case]
    have stop: "stop = None"
    proof (cases stop)
      case (Some x)
      with run2 have "e = Some x" by auto
      with lim cleanup_loop_stop [OF l [unfolded Some]] show ?thesis by (simp add: rate_limited_def)
    qed
    have p: "d = pg_requeue p" "tracked status' = tracked (pg_status p)"
      using run2 by (auto simp: stop)
    from cleanup_loop_progress [OF l [unfolded stop], of "ref_of c cluster role grp"] r g(2) left p nonneg
    show ?thesis by (auto simp: ref_of_def retries_def)
  qed
qed


section \<open>Colliding names\<close>

text \<open>
  The names of live role groups protect the derived Services only. Role \<open>a\<close> with group \<open>b-c\<close> and
  role \<open>a-b\<close> with group \<open>c\<close> share a resource name; while the second is an orphan, a pass scales down
  the StatefulSet of the first.
\<close>

definition plain_group :: role_group_spec where
  "plain_group = \<lparr>rg_replicas = Some 3, rg_config = None, rg_config_overrides = None,
     rg_env_overrides = None, rg_cli_overrides = None, rg_pod_overrides = None\<rparr>"

definition one_role :: "string \<Rightarrow> string \<Rightarrow> generic_cluster_spec" where
  "one_role role grp = \<lparr>spec_image = None, spec_cluster_operation = None, spec_roles = fmap_of_list
     [(role, \<lparr>role_role_config = None, role_config = None,
        role_role_groups = fmap_of_list [(grp, plain_group)], role_config_overrides = None,
        role_env_overrides = None, role_cli_overrides = None, role_pod_overrides = None\<rparr>)]\<rparr>"

definition live_group :: world where
  "live_group = leftover\<lparr>objs := fmap_of_list
     [((KStatefulSet, ''c-a-b-c''), stored_live (sts_with 3) [(''uid-1'', True)])]\<rparr>"

lemma colliding_orphan_scales_live_group:
  "Option.bind (fmlookup (objs (snd (Cleanup plain_cleaner quiet_env ''uid-1'' ''c'' (one_role ''a'' ''b-c'')
     fmempty 0 (SetRoleGroup ''a-b'' ''c'' \<lparr>conditions = [], status_role_groups = fmempty,
       observed_generation = 1\<rparr>) live_group))) (KStatefulSet, ''c-a-b-c'')) live_replicas = Some 0"
  by code_simp

section \<open>Properties\<close>

text \<open>
  C19. An orphaned role group is retried until it is gone: if a pass that the API server did not rate
  limit leaves the group in the ledger, the pass asks for a requeue, whether the teardown is waiting,
  failed, or was never reached because the listing failed. Role groups whose resource names collide
  are excluded: the pass keeps one reference per resource name.
\<close>

theorem Cleanup_orphan_retried:
  assumes "unambiguous c cluster (tracked status - desired_groups (spec_roles spec))"
    and "(role, grp) \<in> tracked status - desired_groups (spec_roles spec)" and "role \<noteq> []"
    and "(role, grp) \<in> tracked (snd (snd (fst (Cleanup c env uid cluster spec crAnnotations now status w))))"
    and "\<not> rate_limited (fst (snd (fst (Cleanup c env uid cluster spec crAnnotations now status w))))"
  shows "fst (fst (Cleanup c env uid cluster spec crAnnotations now status w)) > 0"
proof -
  obtain d e status' w' where run:
      "Cleanup c env uid cluster spec crAnnotations now status w = ((d, e, status'), w')"
    by (metis surj_pair)
  with Cleanup_retries [OF assms(1-3) run] assms(4,5) show ?thesis by simp
qed

definition stuck :: world where
  "stuck = leftover\<lparr>objs := fmupd (KConfigMap, ''c-r-g'')
     (stored_live (ConfigMap fmempty fmempty) [(''uid-1'', True)]\<lparr>lv_finalizers := True\<rparr>) fmempty\<rparr>"

lemma stuck_run:
  "fmlookup (status_role_groups (snd (snd (fst
     (Cleanup plain_cleaner quiet_env ''uid-1'' ''c'' no_roles fmempty 0 tracking stuck))))) ''r'' = Some [''g'']"
  "fst (snd (fst (Cleanup plain_cleaner quiet_env ''uid-1'' ''c'' no_roles fmempty 0 tracking stuck))) = None"
  by code_simp+

theorem Cleanup_orphan_retried_witness:
  "fst (fst (Cleanup plain_cleaner quiet_env ''uid-1'' ''c'' no_roles fmempty 0 tracking stuck)) > 0"
proof (rule Cleanup_orphan_retried [where role = "''r''" and grp = "''g''"])
  have t: "tracked tracking - desired_groups (spec_roles no_roles) = {(''r'', ''g'')}"
    by (simp add: tracking_def tracked_SetRoleGroup) (simp add: tracked_def desired_groups_def no_roles_def)
  show "unambiguous plain_cleaner ''c'' (tracked tracking - desired_groups (spec_roles no_roles))"
    by (simp add: t unambiguous_def)
  show "(''r'', ''g'') \<in> tracked tracking - desired_groups (spec_roles no_roles)" by (simp add: t)
  show "(''r'', ''g'') \<in> tracked (snd (snd (fst (Cleanup plain_cleaner quiet_env ''uid-1'' ''c'' no_roles
      fmempty 0 tracking stuck))))"
    using stuck_run(1) by (simp add: tracked_def)
  show "\<not> rate_limited (fst (snd (fst (Cleanup plain_cleaner quiet_env ''uid-1'' ''c'' no_roles
      fmempty 0 tracking stuck))))"
    by (simp add: stuck_run(2) rate_limited_def)
qed simp

end
