(* ===== verification/Images.thy ===== *)
theory Images
  imports ClusterSpec Errors
begin

text \<open>
  Which image a role runs: \<open>ImageSpec\<close> of \<open>pkg/apis/commons/v1alpha1/image_types.go\<close> and the three
  layers of \<open>pkg/reconciler/resolved_image.go\<close>, the custom resource over the role's declaration
  over the operator's defaults.
\<close>

section \<open>Tags\<close>

definition char_in :: "nat \<Rightarrow> nat \<Rightarrow> char \<Rightarrow> bool" where
  "char_in lo hi c \<longleftrightarrow> lo \<le> of_char c \<and> of_char c \<le> hi"

definition tag_head_char :: "char \<Rightarrow> bool" where
  "tag_head_char c \<longleftrightarrow> char_in 65 90 c \<or> char_in 97 122 c \<or> char_in 48 57 c \<or> c = CHR ''_''"

definition tag_char :: "char \<Rightarrow> bool" where
  "tag_char c \<longleftrightarrow> tag_head_char c \<or> c = CHR ''.'' \<or> c = CHR ''-''"

text \<open>The two regular expressions, \<open>imageTagHeadRE\<close> and \<open>imageTagRestRE\<close>.\<close>

fun imageTagHead :: "string \<Rightarrow> bool" where
  "imageTagHead [] = False"
| "imageTagHead (c # cs) = (tag_head_char c \<and> list_all tag_char cs)"

definition imageTagRest :: "string \<Rightarrow> bool" where
  "imageTagRest s \<longleftrightarrow> s \<noteq> [] \<and> list_all tag_char s"

definition maxImageTagLen :: nat where "maxImageTagLen = 128"

definition validateImageTag :: "string \<Rightarrow> string \<Rightarrow> string \<Rightarrow> err option" where
  "validateImageTag tag productVersion kubedoopVersion =
     (if \<not> imageTagHead productVersion
      then Some (PlainError (''spec.image.productVersion '' @ productVersion @ '' cannot appear in an image tag''))
      else if kubedoopVersion \<noteq> [] \<and> \<not> imageTagRest kubedoopVersion
      then Some (PlainError (''spec.image.kubedoopVersion '' @ kubedoopVersion @ '' cannot appear in an image tag''))
      else if length tag > maxImageTagLen
      then Some (PlainError (''the resulting image tag '' @ tag @ '' is too long''))
      else None)"

section \<open>One spec over its defaults\<close>

fun firstNonEmpty :: "string list \<Rightarrow> string" where
  "firstNonEmpty [] = []"
| "firstNonEmpty (v # vs) = (if v \<noteq> [] then v else firstNonEmpty vs)"

definition no_image :: image_spec where
  "no_image = \<lparr>image_custom = [], image_repo = [], image_product_version = [],
     image_kubedoop_version = [], image_pull_policy = [], image_pull_secret_name = []\<rparr>"

definition image_or_zero :: "image_spec option \<Rightarrow> image_spec" where
  "image_or_zero i = (case i of None \<Rightarrow> no_image | Some s \<Rightarrow> s)"

text \<open>Whether a spec states a structured field.\<close>

definition stated :: "image_spec \<Rightarrow> bool" where
  "stated s \<longleftrightarrow> image_repo s \<noteq> [] \<or> image_product_version s \<noteq> [] \<or> image_kubedoop_version s \<noteq> []"

definition missingImageFields :: "string \<Rightarrow> string \<Rightarrow> string" where
  "missingImageFields repo productVersion = join_strings '' and ''
     ((if repo = [] then [''repo is unset''] else []) @
      (if productVersion = [] then [''productVersion is unset''] else []))"

definition image_tag :: "string \<Rightarrow> string \<Rightarrow> string" where
  "image_tag productVersion kubedoopVersion =
     (if kubedoopVersion \<noteq> [] then productVersion @ ''-kubedoop'' @ kubedoopVersion else productVersion)"

definition unresolvable :: "string \<Rightarrow> err option \<Rightarrow> err" where
  "unresolvable productName cause =
     Wrapped (FmtErrorf (''cannot resolve spec.image for product '' @ productName)) cause"

definition ResolveImage :: "image_spec option \<Rightarrow> string \<Rightarrow> image_spec \<Rightarrow> err + string" where
  "ResolveImage i productName defaults =
     (let spec = image_or_zero i in
      if image_custom spec \<noteq> [] then Inr (image_custom spec)
      else if \<not> stated spec \<and> image_custom defaults \<noteq> [] then Inr (image_custom defaults)
      else
        let repo = firstNonEmpty [image_repo spec, image_repo defaults];
            productVersion = firstNonEmpty [image_product_version spec, image_product_version defaults];
            kubedoopVersion = firstNonEmpty [image_kubedoop_version spec, image_kubedoop_version defaults]
        in if productName = [] then Inr []
           else if repo = [] \<or> productVersion = []
           then (if \<not> stated spec \<and> image_repo defaults = [] \<and> image_product_version defaults = []
                 then Inr []
                 else Inl (unresolvable productName
                   (Some (PlainError (missingImageFields repo productVersion)))))
           else (let tag = image_tag productVersion kubedoopVersion in
             case validateImageTag tag productVersion kubedoopVersion of
               Some e \<Rightarrow> Inl (unresolvable productName (Some e))
             | None \<Rightarrow> Inr (repo @ ''/'' @ productName @ '':'' @ tag)))"

definition ResolvedProductVersion :: "image_spec option \<Rightarrow> image_spec \<Rightarrow> string" where
  "ResolvedProductVersion i defaults =
     (let spec = image_or_zero i in
      if image_custom spec \<noteq> [] then image_product_version spec
      else if \<not> stated spec \<and> image_custom defaults \<noteq> [] then []
      else firstNonEmpty [image_product_version spec, image_product_version defaults])"

definition GetImage :: "image_spec option \<Rightarrow> string \<Rightarrow> string" where
  "GetImage i productName = (case ResolveImage i productName no_image of Inl _ \<Rightarrow> [] | Inr s \<Rightarrow> s)"

definition PullIfNotPresent :: string where "PullIfNotPresent = ''IfNotPresent''"

definition GetPullPolicy :: "image_spec option \<Rightarrow> string" where
  "GetPullPolicy i =
     (case i of
        None \<Rightarrow> PullIfNotPresent
      | Some s \<Rightarrow> if image_pull_policy s = [] then PullIfNotPresent else image_pull_policy s)"

definition ResolvedPullSecretName :: "image_spec option \<Rightarrow> image_spec \<Rightarrow> string" where
  "ResolvedPullSecretName i defaults =
     (case i of
        Some s \<Rightarrow> if image_pull_secret_name s \<noteq> [] then image_pull_secret_name s
                  else image_pull_secret_name defaults
      | None \<Rightarrow> image_pull_secret_name defaults)"

definition ResolvedPullPolicy :: "image_spec option \<Rightarrow> image_spec \<Rightarrow> string" where
  "ResolvedPullPolicy i defaults =
     (if (case i of Some s \<Rightarrow> image_pull_policy s \<noteq> [] | None \<Rightarrow> False)
      then image_pull_policy (image_or_zero i)
      else if image_pull_policy defaults \<noteq> [] then image_pull_policy defaults
      else PullIfNotPresent)"

section \<open>Three layers\<close>

record resolved_image =
  ri_reference :: string
  ri_pull_policy :: string
  ri_pull_secret_name :: string
  ri_product_version :: string

record image_resolution =
  ProductName :: string
  ImageDefaults :: image_spec

definition foldImageSpec :: "image_spec \<Rightarrow> image_spec \<Rightarrow> image_spec" where
  "foldImageSpec spec over =
     \<lparr>image_custom =
        (if image_custom spec \<noteq> [] then image_custom spec
         else if stated spec then [] else image_custom over),
      image_repo = (if image_repo spec \<noteq> [] then image_repo spec else image_repo over),
      image_product_version =
        (if image_product_version spec \<noteq> [] then image_product_version spec
         else image_product_version over),
      image_kubedoop_version =
        (if image_kubedoop_version spec \<noteq> [] then image_kubedoop_version spec
         else image_kubedoop_version over),
      image_pull_policy =
        (if image_pull_policy spec \<noteq> [] then image_pull_policy spec else image_pull_policy over),
      image_pull_secret_name =
        (if image_pull_secret_name spec \<noteq> [] then image_pull_secret_name spec
         else image_pull_secret_name over)\<rparr>"

definition resolveImage ::
    "image_spec option \<Rightarrow> image_spec option \<Rightarrow> image_resolution \<Rightarrow> err + resolved_image" where
  "resolveImage crImage declImage res =
     (let defaults = (case declImage of
            Some d \<Rightarrow> foldImageSpec d (ImageDefaults res) | None \<Rightarrow> ImageDefaults res)
      in case ResolveImage crImage (ProductName res) defaults of
           Inl e \<Rightarrow> Inl e
         | Inr reference \<Rightarrow> Inr
             \<lparr>ri_reference = reference,
              ri_pull_policy = ResolvedPullPolicy crImage defaults,
              ri_pull_secret_name = ResolvedPullSecretName crImage defaults,
              ri_product_version =
                (if ProductName res \<noteq> [] then ResolvedProductVersion crImage defaults else [])\<rparr>)"

section \<open>The layers read one by one\<close>

text \<open>
  A reading of the layers that never folds two of them: each field is the first one stated, and a
  custom reference counts only if no higher layer states a structured field.
\<close>

definition first_of :: "(image_spec \<Rightarrow> string) \<Rightarrow> image_spec list \<Rightarrow> string" where
  "first_of f ls = firstNonEmpty (map f ls)"

fun chosen_custom :: "image_spec list \<Rightarrow> string" where
  "chosen_custom [] = []"
| "chosen_custom (l # ls) =
     (if image_custom l \<noteq> [] then image_custom l else if stated l then [] else chosen_custom ls)"

definition structured_reference :: "string \<Rightarrow> image_spec list \<Rightarrow> err + string" where
  "structured_reference productName ls =
     (let repo = first_of image_repo ls; version = first_of image_product_version ls;
          stack = first_of image_kubedoop_version ls; tag = image_tag version stack
      in if repo = [] \<or> version = []
         then Inl (unresolvable productName (Some (PlainError (missingImageFields repo version))))
         else case validateImageTag tag version stack of
                Some e \<Rightarrow> Inl (unresolvable productName (Some e))
              | None \<Rightarrow> Inr (repo @ ''/'' @ productName @ '':'' @ tag))"

definition layered_reference :: "string \<Rightarrow> image_spec \<Rightarrow> image_spec list \<Rightarrow> err + string" where
  "layered_reference productName upper rest =
     (if chosen_custom (upper # rest) \<noteq> [] then Inr (chosen_custom (upper # rest))
      else if productName = [] then Inr []
      else if \<not> stated upper \<and> first_of image_repo rest = [] \<and> first_of image_product_version rest = []
      then Inr []
      else structured_reference productName (upper # rest))"

lemma firstNonEmpty_append:
  "firstNonEmpty (xs @ ys) = (if firstNonEmpty xs \<noteq> [] then firstNonEmpty xs else firstNonEmpty ys)"
  by (induction xs) auto

lemma foldImageSpec_first [simp]:
  "image_repo (foldImageSpec a b) = first_of image_repo [a, b]"
  "image_product_version (foldImageSpec a b) = first_of image_product_version [a, b]"
  "image_kubedoop_version (foldImageSpec a b) = first_of image_kubedoop_version [a, b]"
  "image_pull_policy (foldImageSpec a b) = first_of image_pull_policy [a, b]"
  "image_pull_secret_name (foldImageSpec a b) = first_of image_pull_secret_name [a, b]"
  by (auto simp: foldImageSpec_def first_of_def)

lemma foldImageSpec_custom [simp]: "image_custom (foldImageSpec a b) = chosen_custom [a, b]"
  by (simp add: foldImageSpec_def)

text \<open>The defaults the code resolves against, as the layers below the custom resource.\<close>

definition lower_layers :: "image_spec option \<Rightarrow> image_resolution \<Rightarrow> image_spec list" where
  "lower_layers declImage res =
     (case declImage of Some d \<Rightarrow> [d, ImageDefaults res] | None \<Rightarrow> [ImageDefaults res])"

definition folded :: "image_spec list \<Rightarrow> image_spec \<Rightarrow> bool" where
  "folded ls d \<longleftrightarrow> image_custom d = chosen_custom ls \<and> image_repo d = first_of image_repo ls \<and>
     image_product_version d = first_of image_product_version ls \<and>
     image_kubedoop_version d = first_of image_kubedoop_version ls \<and>
     image_pull_policy d = first_of image_pull_policy ls \<and>
     image_pull_secret_name d = first_of image_pull_secret_name ls"

lemma folded_lower:
  "folded (lower_layers declImage res)
     (case declImage of Some d \<Rightarrow> foldImageSpec d (ImageDefaults res) | None \<Rightarrow> ImageDefaults res)"
  by (cases declImage) (auto simp: folded_def lower_layers_def first_of_def)

lemma first_over:
  "f d = first_of f ls \<Longrightarrow> firstNonEmpty [f s, f d] = first_of f (s # ls)"
  by (simp add: first_of_def)

lemma ResolveImage_layered:
  assumes "folded ls d"
  shows "ResolveImage i productName d = layered_reference productName (image_or_zero i) ls"
proof -
  let ?s = "image_or_zero i"
  have f: "image_repo d = first_of image_repo ls" "image_product_version d = first_of image_product_version ls"
    "image_kubedoop_version d = first_of image_kubedoop_version ls" "image_custom d = chosen_custom ls"
    using assms by (simp_all add: folded_def)
  have c: "chosen_custom (?s # ls) = (if image_custom ?s \<noteq> [] then image_custom ?s
      else if stated ?s then [] else image_custom d)" by (simp add: f)
  have n: "\<not> stated ?s \<Longrightarrow> first_of image_repo (?s # ls) = image_repo d"
    "\<not> stated ?s \<Longrightarrow> first_of image_product_version (?s # ls) = image_product_version d"
    by (simp_all add: f stated_def first_of_def)
  show ?thesis
    unfolding ResolveImage_def layered_reference_def structured_reference_def Let_def
      first_over [OF f(1)] first_over [OF f(2)] first_over [OF f(3)] c f(1,2) [symmetric]
    using n by (cases "stated ?s") simp_all
qed

definition layered_version :: "image_spec \<Rightarrow> image_spec list \<Rightarrow> string" where
  "layered_version upper rest =
     (if image_custom upper \<noteq> [] then image_product_version upper
      else if chosen_custom (upper # rest) \<noteq> [] then []
      else first_of image_product_version (upper # rest))"

definition layered_policy :: "image_spec list \<Rightarrow> string" where
  "layered_policy ls = first_of image_pull_policy (ls @ [no_image\<lparr>image_pull_policy := PullIfNotPresent\<rparr>])"

lemma ResolvedProductVersion_layered:
  "folded ls d \<Longrightarrow> ResolvedProductVersion i d = layered_version (image_or_zero i) ls"
  by (auto simp: ResolvedProductVersion_def layered_version_def Let_def folded_def first_of_def)

lemma ResolvedPullPolicy_layered:
  "folded ls d \<Longrightarrow> ResolvedPullPolicy i d = layered_policy (image_or_zero i # ls)"
  by (auto simp: ResolvedPullPolicy_def layered_policy_def folded_def first_of_def firstNonEmpty_append
      image_or_zero_def no_image_def split: option.split)

lemma ResolvedPullSecretName_layered:
  "folded ls d \<Longrightarrow> ResolvedPullSecretName i d = first_of image_pull_secret_name (image_or_zero i # ls)"
  by (auto simp: ResolvedPullSecretName_def folded_def first_of_def image_or_zero_def no_image_def
      split: option.split)

section \<open>Properties\<close>

text \<open>
  Resolving an image by folding the role's declaration over the operator's defaults gives what
  reading the three layers one by one gives: the first layer that states a custom reference or a
  structured field decides which kind of reference it is, every structured field, the pull policy and
  the pull secret come from the first layer that states them, and the version label never describes
  a reference some default supplied whole.
\<close>

theorem resolveImage_layered:
  "resolveImage cr declImage res =
     (let upper = image_or_zero cr; rest = lower_layers declImage res in
      map_sum id (\<lambda>reference. \<lparr>ri_reference = reference, ri_pull_policy = layered_policy (upper # rest),
          ri_pull_secret_name = first_of image_pull_secret_name (upper # rest),
          ri_product_version = (if ProductName res \<noteq> [] then layered_version upper rest else [])\<rparr>)
        (layered_reference (ProductName res) upper rest))"
proof -
  note f = folded_lower [of declImage res]
  show ?thesis
    unfolding resolveImage_def Let_def ResolveImage_layered [OF f] ResolvedProductVersion_layered [OF f]
      ResolvedPullPolicy_layered [OF f] ResolvedPullSecretName_layered [OF f]
    by (simp split: sum.split)
qed

text \<open>A reference the framework assembles carries a tag a registry accepts.\<close>

lemma tag_chars_append: "list_all tag_char (a @ b) \<longleftrightarrow> list_all tag_char a \<and> list_all tag_char b"
  by simp

definition valid_tag :: "string \<Rightarrow> bool" where
  "valid_tag tag \<longleftrightarrow> imageTagHead tag \<and> length tag \<le> maxImageTagLen"

lemma imageTagHead_append:
  "imageTagHead a \<Longrightarrow> list_all tag_char b \<Longrightarrow> imageTagHead (a @ b)"
  by (cases a) auto

lemma validateImageTag_valid:
  assumes "validateImageTag (image_tag v k) v k = None"
  shows "valid_tag (image_tag v k)"
proof -
  have "list_all tag_char ''-kubedoop''"
    by (simp add: tag_char_def tag_head_char_def char_in_def)
  with assms show ?thesis
    by (auto simp: validateImageTag_def image_tag_def valid_tag_def imageTagRest_def
        intro!: imageTagHead_append split: if_splits)
qed

lemma ResolveImage_valid:
  assumes "ResolveImage i productName d = Inr s" and "s \<noteq> []"
    and "s \<noteq> image_custom (image_or_zero i)" and "s \<noteq> image_custom d"
  shows "\<exists>repo tag. s = repo @ ''/'' @ productName @ '':'' @ tag \<and> repo \<noteq> [] \<and> valid_tag tag"
  using assms validateImageTag_valid
  by (auto simp: ResolveImage_def Let_def split: if_splits option.splits)

end
