(* ===== verification/Writes.thy ===== *)
theory Writes
  imports Cleaner
begin

text \<open>
  Writing the resources of a role group: \<open>applyResource\<close>, \<open>applyResources\<close> and the reclaims of
  \<open>pkg/reconciler/generic_reconciler.go\<close>, \<open>CreateOrUpdate\<close> of \<open>pkg/util/k8s_util.go\<close>, and the
  validation of what a handler declares.

  \<open>SetControllerReference\<close> for the custom resource, the error it reports for an object another
  controller owns, the unstructured converter, the enumeration of a set, the label key validation, the
  text of an error and the objects of other namespaces are the fields of \<open>platform\<close>.
\<close>

section \<open>The platform\<close>

record platform =
  set_owner :: "live \<Rightarrow> err + live"
  converter :: object_converter
  mount_range :: "string fset \<Rightarrow> string list"
  sha8 :: "string \<Rightarrow> string"
  is_qualified :: "string \<Rightarrow> bool"
  retry_after :: duration
  already_owned :: "err \<Rightarrow> bool"
  error_text :: "err \<Rightarrow> string"
  elsewhere :: "string \<Rightarrow> key \<Rightarrow> err option"

definition refused :: "platform \<Rightarrow> live \<Rightarrow> bool" where
  "refused pf x \<longleftrightarrow> (case set_owner pf x of Inl _ \<Rightarrow> True | Inr _ \<Rightarrow> False)"

definition reconciler_apiError :: "platform \<Rightarrow> err \<Rightarrow> err" where
  "reconciler_apiError pf e =
     (if IsTooManyRequests e then NewRateLimitError (retry_after pf) (Some e) else e)"

definition emitWarning :: "string \<Rightarrow> string \<Rightarrow> world \<Rightarrow> world" where
  "emitWarning reason message w = w\<lparr>warnings := warnings w @ [(reason, message)]\<rparr>"

definition emitApplied :: "string \<Rightarrow> key \<Rightarrow> world \<Rightarrow> world" where
  "emitApplied reason k w = w\<lparr>applied_events := applied_events w @ [(reason, k)]\<rparr>"

section \<open>Create or update\<close>

datatype op_result = OpNone | OpCreated | OpUpdated

text \<open>
  \<open>controllerutil.CreateOrUpdate\<close>, its errors mapped by \<open>g\<close>, and the form \<open>K8sUtil\<close> wraps it in. The
  mutate function returns the object to write and what it reports; its report survives a failing write.
\<close>

definition create_or_update ::
    "(err \<Rightarrow> err) \<Rightarrow> env \<Rightarrow> key \<Rightarrow> live \<Rightarrow> (live \<Rightarrow> (err + live) \<times> string list) \<Rightarrow> world
      \<Rightarrow> (err + op_result) \<times> string list \<times> world" where
  "create_or_update g env k obj mutate w =
     (case client_get env k w of
        (Inl e, w1) \<Rightarrow>
          if IsNotFound e
          then (case mutate obj of
              (Inl e', report) \<Rightarrow> (Inl (g e'), report, w1)
            | (Inr new, report) \<Rightarrow>
                (case api_create env k new w1 of
                   (Inl e', w2) \<Rightarrow> (Inl (g e'), report, w2)
                 | (Inr _, w2) \<Rightarrow> (Inr OpCreated, report, w2)))
          else (Inl (g e), [], w1)
      | (Inr existing, w1) \<Rightarrow>
          (case mutate existing of
             (Inl e', report) \<Rightarrow> (Inl (g e'), report, w1)
           | (Inr new, report) \<Rightarrow>
               if new = existing then (Inr OpNone, report, w1)
               else (case api_update env k new w1 of
                   (Inl e', w2) \<Rightarrow> (Inl (g e'), report, w2)
                 | (Inr _, w2) \<Rightarrow> (Inr OpUpdated, report, w2))))"

definition create_failed :: "err \<Rightarrow> err" where
  "create_failed e = Wrapped (FmtErrorf ''failed to create or update'') (Some e)"

definition CreateOrUpdate ::
    "env \<Rightarrow> key \<Rightarrow> live \<Rightarrow> (live \<Rightarrow> (err + live) \<times> string list) \<Rightarrow> world
      \<Rightarrow> (err + op_result) \<times> string list \<times> world" where
  "CreateOrUpdate = create_or_update create_failed"

definition fresh :: "object \<Rightarrow> live" where
  "fresh d = \<lparr>labels = labels d, annotations = annotations d, payload = payload d, lv_owners = [],
     lv_finalizers = False, lv_deleting = False, lv_version = 0, lv_status_replicas = 0\<rparr>"

definition as_object :: "live \<Rightarrow> object" where
  "as_object x = \<lparr>labels = labels x, annotations = annotations x, payload = payload x\<rparr>"

definition with_object :: "object \<Rightarrow> live \<Rightarrow> live" where
  "with_object d x = x\<lparr>labels := labels d, annotations := annotations d, payload := payload d\<rparr>"

text \<open>The mutate function of \<open>applyResource\<close>.\<close>

definition apply_mutate :: "platform \<Rightarrow> object \<Rightarrow> live \<Rightarrow> (err + live) \<times> string list" where
  "apply_mutate pf desired x =
     (case set_owner pf x of
        Inl e \<Rightarrow> (Inl e, [])
      | Inr y \<Rightarrow>
          (case copyDesiredState (mount_range pf) (converter pf) desired (as_object y) of
             Inl e \<Rightarrow> (Inl e, [])
           | Inr (d, ignored) \<Rightarrow> (Inr (with_object d y), ignored)))"

definition immutable_message :: "key \<Rightarrow> string list \<Rightarrow> string" where
  "immutable_message k ignored = snd k @ '': '' @ join_strings '', '' ignored @
     '' cannot be changed after creation, so the live value is kept and the spec has no effect''"

text \<open>
  The version the live object carried before the write is the one the mutate function sees on the object that
  was read; after the call the object is what the API server returned. An update the server answers with the
  stored object unchanged leaves the version, and then there is no event.
\<close>

definition read_version :: "env \<Rightarrow> key \<Rightarrow> world \<Rightarrow> nat" where
  "read_version env k w = (case fst (client_get env k w) of Inl _ \<Rightarrow> 0 | Inr x \<Rightarrow> lv_version x)"

definition returned_version :: "key \<Rightarrow> world \<Rightarrow> nat" where
  "returned_version k w = (case fmlookup (objs w) k of None \<Rightarrow> 0 | Some x \<Rightarrow> lv_version x)"

definition applyResource :: "platform \<Rightarrow> env \<Rightarrow> key \<Rightarrow> object \<Rightarrow> unit run" where
  "applyResource pf env k desired w =
     (case CreateOrUpdate env k (fresh desired) (apply_mutate pf desired) w of
        (res, ignored, w1) \<Rightarrow>
          (let w2 = (if length ignored > 0
                     then emitWarning ''ImmutableFieldIgnored'' (immutable_message k ignored) w1 else w1)
           in case res of
                Inl e \<Rightarrow> (Inl (reconciler_apiError pf e), w2)
              | Inr OpCreated \<Rightarrow> (Inr (), emitApplied ''Created'' k w2)
              | Inr OpUpdated \<Rightarrow>
                  (Inr (), if returned_version k w1 \<noteq> read_version env k w then emitApplied ''Updated'' k w2 else w2)
              | Inr OpNone \<Rightarrow> (Inr (), w2)))"

section \<open>Slot labels\<close>

definition reservedSlotLabelKeys :: "string list" where
  "reservedSlotLabelKeys =
     [LabelMetricsService, LabelRolePodDisruptionBudget, LabelRoleGroupPodDisruptionBudget]"

definition handlerWritableLabels :: "string gomap \<Rightarrow> string gomap" where
  "handlerWritableLabels ls = fold fmdrop reservedSlotLabelKeys ls"

definition stamp_label :: "string \<Rightarrow> string \<Rightarrow> object \<Rightarrow> object" where
  "stamp_label l v d = d\<lparr>labels := fmupd l v (labels d)\<rparr>"

definition markMetricsService :: "object \<Rightarrow> object" where
  "markMetricsService = stamp_label LabelMetricsService valueTrue"
definition markRolePodDisruptionBudget :: "string \<Rightarrow> object \<Rightarrow> object" where
  "markRolePodDisruptionBudget role = stamp_label LabelRolePodDisruptionBudget role"
definition markRoleGroupPodDisruptionBudget :: "string \<Rightarrow> object \<Rightarrow> object" where
  "markRoleGroupPodDisruptionBudget grp = stamp_label LabelRoleGroupPodDisruptionBudget grp"

section \<open>Reclaims\<close>

definition reclaimRolePDB :: "platform \<Rightarrow> cleaner \<Rightarrow> env \<Rightarrow> string \<Rightarrow> string \<Rightarrow> string \<Rightarrow> string \<Rightarrow> unit run" where
  "reclaimRolePDB pf c env uid cluster name role =
     or_missing (reconciler_apiError pf) (client_get env (KPodDisruptionBudget, name)) () (\<lambda>x.
       if label_of LabelRolePodDisruptionBudget x \<noteq> role then returnE ()
       else deletePDB c env uid cluster name)"

definition isFrameworkRoleGroupPDB :: "platform \<Rightarrow> live \<Rightarrow> string \<Rightarrow> string \<Rightarrow> string \<Rightarrow> bool" where
  "isFrameworkRoleGroupPDB pf x cluster role grp \<longleftrightarrow>
     label_of LabelRoleGroupPodDisruptionBudget x = grp \<or>
     label_of LabelKubernetesManagedBy x = managedByValue \<and>
     label_of (RoleGroupMarkerLabelKey (sha8 pf) (is_qualified pf) cluster role grp) x = valueTrue"

definition reclaimRoleGroupPDB ::
    "platform \<Rightarrow> cleaner \<Rightarrow> env \<Rightarrow> string \<Rightarrow> string \<Rightarrow> string \<Rightarrow> string \<Rightarrow> string \<Rightarrow> unit run" where
  "reclaimRoleGroupPDB pf c env uid cluster role grp resource =
     or_missing (reconciler_apiError pf) (client_get env (KPodDisruptionBudget, resource)) () (\<lambda>x.
       if \<not> isFrameworkRoleGroupPDB pf x cluster role grp then returnE ()
       else deletePDB c env uid cluster resource)"

definition reclaimMetricsService :: "platform \<Rightarrow> cleaner \<Rightarrow> env \<Rightarrow> string \<Rightarrow> string \<Rightarrow> string \<Rightarrow> unit run" where
  "reclaimMetricsService pf c env uid cluster name =
     or_missing (reconciler_apiError pf) (client_get env (KService, name)) () (\<lambda>x.
       if label_of LabelMetricsService x \<noteq> valueTrue then returnE ()
       else deleteService c env uid cluster name)"


section \<open>What a handler declares\<close>

record named_object = object +
  no_name :: string
  no_namespace :: string
  no_kind :: kind

record role_group_resources =
  rr_config_map :: "named_object option"
  rr_headless_service :: "named_object option"
  rr_service :: "named_object option"
  rr_stateful_set :: "named_object option"
  rr_pdb :: "named_object option"
  rr_metrics_service :: "named_object option"
  rr_extras :: "named_object option list"

definition plain_object :: "named_object \<Rightarrow> object" where
  "plain_object o' = \<lparr>labels = labels o', annotations = annotations o', payload = payload o'\<rparr>"

text \<open>The group, version and kind of an object, and its name, as the key the apply path writes to.\<close>

definition objectIdentity :: "named_object \<Rightarrow> key" where
  "objectIdentity o' = (no_kind o', no_name o')"

definition headless_name :: "string \<Rightarrow> string" where "headless_name resource = resource @ ''-headless''"
definition metrics_name :: "string \<Rightarrow> string" where "metrics_name resource = resource @ ''-metrics''"

text \<open>The six fixed slots: field, kind, derived name, object.\<close>

definition fixed_slots ::
    "role_group_resources \<Rightarrow> string \<Rightarrow> (string \<times> kind \<times> string \<times> named_object option) list" where
  "fixed_slots rs resource =
     [(''ConfigMap'', KConfigMap, resource, rr_config_map rs),
      (''HeadlessService'', KService, headless_name resource, rr_headless_service rs),
      (''Service'', KService, resource, rr_service rs),
      (''StatefulSet'', KStatefulSet, resource, rr_stateful_set rs),
      (''PodDisruptionBudget'', KPodDisruptionBudget, resource, rr_pdb rs),
      (''MetricsService'', KService, metrics_name resource, rr_metrics_service rs)]"

record group_id =
  gi_cluster :: string
  gi_namespace :: string
  gi_role :: string
  gi_group :: string
  gi_resource :: string

definition invalid :: "group_id \<Rightarrow> string \<Rightarrow> string \<Rightarrow> err" where
  "invalid g field message = NewValidationError field (gi_role g) (gi_group g) (Some (PlainError message))"

definition slot_error ::
    "group_id \<Rightarrow> string \<times> kind \<times> string \<times> named_object option \<Rightarrow> err option" where
  "slot_error g = (\<lambda>(field, _, want, obj).
     case obj of
       None \<Rightarrow> None
     | Some o' \<Rightarrow>
         if no_name o' \<noteq> want
         then Some (invalid g (''RoleGroupResources.'' @ field) ''the framework owns the name of this slot'')
         else if no_namespace o' \<noteq> gi_namespace g
         then Some (invalid g (''RoleGroupResources.'' @ field)
                ''the slot must live in the cluster's namespace'')
         else None)"

fun first_error :: "err option list \<Rightarrow> err option" where
  "first_error [] = None"
| "first_error (None # es) = first_error es"
| "first_error (Some e # es) = Some e"

text \<open>The loop over the extras: \<open>i\<close> is the index of the next one, \<open>claimed\<close> the identities taken.\<close>

fun validateExtraResources ::
    "group_id \<Rightarrow> nat \<Rightarrow> key list \<Rightarrow> named_object option list \<Rightarrow> err option" where
  "validateExtraResources g i claimed [] = None"
| "validateExtraResources g i claimed (None # es) = validateExtraResources g (Suc i) claimed es"
| "validateExtraResources g i claimed (Some o' # es) =
     (let field = ''RoleGroupResources.ExtraResources['' @ decimal i @ '']'' in
      if no_name o' = [] then Some (invalid g field ''an extra carries no name'')
      else if no_namespace o' \<noteq> gi_namespace g
      then Some (invalid g field ''extra must live in the cluster's namespace'')
      else if objectIdentity o' \<in> set claimed
      then Some (invalid g field ''extra is already declared'')
      else validateExtraResources g (Suc i) (objectIdentity o' # claimed) es)"

definition slot_identities :: "role_group_resources \<Rightarrow> string \<Rightarrow> key list" where
  "slot_identities rs resource =
     List.map_filter (\<lambda>(_, kd, _, obj). map_option (\<lambda>o'. (kd, no_name o')) obj) (fixed_slots rs resource)"

definition validateRoleGroupResources :: "group_id \<Rightarrow> role_group_resources \<Rightarrow> err option" where
  "validateRoleGroupResources g rs =
     (case first_error (map (slot_error g) (fixed_slots rs (gi_resource g))) of
        Some e \<Rightarrow> Some e
      | None \<Rightarrow> validateExtraResources g 0 (slot_identities rs (gi_resource g)) (rr_extras rs))"

section \<open>Applying a role group\<close>

definition apply_failed :: "string \<Rightarrow> group_id \<Rightarrow> string \<Rightarrow> string \<Rightarrow> err \<Rightarrow> err" where
  "apply_failed kd g name message e = NewResourceApplyError kd (gi_namespace g) name message (Some e)"

definition apply_slot ::
    "platform \<Rightarrow> env \<Rightarrow> group_id \<Rightarrow> string \<Rightarrow> kind \<Rightarrow> string \<Rightarrow> string \<Rightarrow> object option \<Rightarrow> unit run" where
  "apply_slot pf env g kd_name kd name message obj =
     (case obj of
        None \<Rightarrow> returnE ()
      | Some d \<Rightarrow> wrapE (apply_failed kd_name g name message) (applyResource pf env (kd, name) d))"

definition kind_name :: "kind \<Rightarrow> string" where
  "kind_name k =
     (case k of
        KStatefulSet \<Rightarrow> ''StatefulSet'' | KConfigMap \<Rightarrow> ''ConfigMap'' | KService \<Rightarrow> ''Service''
      | KPodDisruptionBudget \<Rightarrow> ''PodDisruptionBudget'' | KServiceAccount \<Rightarrow> ''ServiceAccount''
      | KPersistentVolumeClaim \<Rightarrow> ''PersistentVolumeClaim'' | KExtra s \<Rightarrow> s)"

definition apply_extra :: "platform \<Rightarrow> env \<Rightarrow> group_id \<Rightarrow> named_object option \<Rightarrow> unit run" where
  "apply_extra pf env g extra =
     (case extra of
        None \<Rightarrow> returnE ()
      | Some o' \<Rightarrow> wrapE (apply_failed (kind_name (no_kind o')) g (no_name o') ''failed to apply extra resource'')
          (applyResource pf env (objectIdentity o') (plain_object o')))"

text \<open>\<open>validateSidecars\<close>: the registered providers' checks, if there are any.\<close>

definition validateSidecars :: "group_id \<Rightarrow> unit run option \<Rightarrow> unit run" where
  "validateSidecars g checks =
     (case checks of
        None \<Rightarrow> returnE ()
      | Some m \<Rightarrow> wrapE (\<lambda>e. NewValidationError ''sidecar'' (gi_role g) (gi_group g) (Some e)) m)"

definition applyResources ::
    "platform \<Rightarrow> cleaner \<Rightarrow> env \<Rightarrow> string \<Rightarrow> group_id \<Rightarrow> unit run option \<Rightarrow> role_group_resources
      \<Rightarrow> unit run" where
  "applyResources pf c env uid g checks rs =
     (case validateRoleGroupResources g rs of
        Some e \<Rightarrow> throwE e
      | None \<Rightarrow>
          (let name = gi_resource g; object_of = map_option plain_object in
           seqE (
             [apply_slot pf env g ''ConfigMap'' KConfigMap name ''failed to apply'' (object_of (rr_config_map rs)),
              apply_slot pf env g ''Service'' KService (headless_name name) ''failed to apply headless service''
                (object_of (rr_headless_service rs)),
              apply_slot pf env g ''Service'' KService name ''failed to apply'' (object_of (rr_service rs))] @
             map (apply_extra pf env g) (rr_extras rs) @
             [validateSidecars g checks,
              apply_slot pf env g ''StatefulSet'' KStatefulSet name ''failed to apply''
                (object_of (rr_stateful_set rs)),
              (case rr_pdb rs of
                 Some o' \<Rightarrow> apply_slot pf env g ''PodDisruptionBudget'' KPodDisruptionBudget name ''failed to apply''
                   (Some (markRoleGroupPodDisruptionBudget (gi_group g) (plain_object o')))
               | None \<Rightarrow> wrapE (apply_failed ''PodDisruptionBudget'' g name ''failed to delete legacy per-group PDB'')
                   (reclaimRoleGroupPDB pf c env uid (gi_cluster g) (gi_role g) (gi_group g) name)),
              (case rr_metrics_service rs of
                 Some o' \<Rightarrow> apply_slot pf env g ''Service'' KService (metrics_name name)
                   ''failed to apply metrics service'' (Some (markMetricsService (plain_object o')))
               | None \<Rightarrow> wrapE (apply_failed ''Service'' g (metrics_name name)
                   ''failed to delete disabled metrics service'')
                   (reclaimMetricsService pf c env uid (gi_cluster g) (metrics_name name)))])))"

end
