(* ===== verification/WritesSafety.thy ===== *)
theory WritesSafety
  imports Writes CleanerDrain
begin

text \<open>
  What writing a role group may touch: never an object \<open>SetControllerReference\<close> refuses, and beyond
  the declared objects only the slots the framework marked itself.
\<close>

section \<open>One write\<close>

lemma create_objs:
  "objs (snd (api_create env k new w)) = objs w \<or>
   (fmlookup (objs w) k = None \<and> (\<exists>y. objs (snd (api_create env k new w)) = fmupd k y (objs w)))"
  by (auto simp: api_create_def request_def Let_def split: option.split)

lemma client_get_objs: "objs (snd (client_get env k w)) = objs w"
  by (auto simp: client_get_def request_def Let_def split: option.split)

lemma client_get_got:
  assumes "client_get env k w = (Inr x, w')"
  shows "got env k x w"
  using assms by (auto simp: client_get_def request_def Let_def found_def got_def split: option.splits)

text \<open>What a create-or-update does to the store.\<close>

definition wrote :: "env \<Rightarrow> key \<Rightarrow> (live \<Rightarrow> (err + live) \<times> string list) \<Rightarrow> world \<Rightarrow> world \<Rightarrow> bool" where
  "wrote env k mutate w w' \<longleftrightarrow> objs w' = objs w \<or>
     (\<exists>y. objs w' = fmupd k y (objs w)) \<and>
     (fmlookup (objs w) k = None \<or> (\<exists>x new report. got env k x w \<and> mutate x = (Inr new, report)))"

lemma create_or_update_wrote:
  "wrote env k mutate w (snd (snd (create_or_update h env k obj mutate w)))"
proof -
  obtain r w1 where g: "client_get env k w = (r, w1)" by fastforce
  have o: "objs w1 = objs w" using client_get_objs [of env k w] g by simp
  have c: "wrote env k mutate w (snd (api_create env k new w1))" for new
    using create_objs [of env k new w1] o by (auto simp: wrote_def)
  have u: "wrote env k mutate w (snd (api_update env k new w1))"
    if "r = Inr x" "mutate x = (Inr new, report)" for x new report
    using update_objs [of env k new w1] o client_get_got [of env k w x w1] g that
    by (auto simp: wrote_def)
  have same: "wrote env k mutate w w1" by (simp add: wrote_def o)
  show ?thesis
  proof (cases r)
    case (Inl e)
    obtain m report where "mutate obj = (m, report)" by fastforce
    with Inl g same c show ?thesis
      by (cases m; cases "api_create env k (projr m) w1"; cases "fst (api_create env k (projr m) w1)")
        (use c [of "projr m"] in \<open>auto simp: create_or_update_def\<close>)
  next
    case (Inr x)
    obtain m report where m: "mutate x = (m, report)" by fastforce
    show ?thesis
    proof (cases m)
      case (Inl e)
      with \<open>r = Inr x\<close> g m same show ?thesis by (simp add: create_or_update_def)
    next
      case n: (Inr new)
      obtain r2 w2 where u2: "api_update env k new w1 = (r2, w2)" by fastforce
      with u [OF \<open>r = Inr x\<close>] m n have "wrote env k mutate w w2" by fastforce
      with \<open>r = Inr x\<close> g m n u2 same show ?thesis
        by (cases r2) (simp_all add: create_or_update_def)
    qed
  qed
qed

lemma applyResource_wrote:
  "wrote env k (apply_mutate pf desired) w (snd (applyResource pf env k desired w))"
proof -
  obtain res ignored w1 where c:
      "CreateOrUpdate env k (fresh desired) (apply_mutate pf desired) w = (res, ignored, w1)"
    by (cases "CreateOrUpdate env k (fresh desired) (apply_mutate pf desired) w")
  have "objs (snd (applyResource pf env k desired w)) = objs w1"
    by (cases res)
      (auto simp: applyResource_def c Let_def emitWarning_def emitApplied_def split: op_result.split)
  then show ?thesis
    using create_or_update_wrote [of env k "apply_mutate pf desired" w create_failed "fresh desired"] c
    by (simp add: wrote_def CreateOrUpdate_def)
qed

lemma apply_mutate_refused: "apply_mutate pf desired x = (Inr new, report) \<Longrightarrow> \<not> refused pf x"
  by (auto simp: apply_mutate_def refused_def split: sum.splits)

section \<open>Objects of other controllers\<close>

definition defers :: "platform \<Rightarrow> kind set \<Rightarrow> world \<Rightarrow> world \<Rightarrow> bool" where
  "defers pf E w w' \<longleftrightarrow> (\<forall>k x. fst k \<notin> E \<longrightarrow> fmlookup (objs w) k = Some x \<longrightarrow> refused pf x \<longrightarrow>
     fmlookup (objs w') k = Some x)"

interpretation defers: world_frame "defers pf E" for pf E
  by unfold_locales (auto simp: defers_def)

text \<open>
  The contract of \<open>SetControllerReference\<close>: the result is controlled by the custom resource, and what
  the custom resource already controls is not refused.
\<close>

definition owner_contract :: "platform \<Rightarrow> string \<Rightarrow> bool" where
  "owner_contract pf uid \<longleftrightarrow> (\<forall>x. case set_owner pf x of
     Inl _ \<Rightarrow> \<not> isOwnedByCluster x uid | Inr y \<Rightarrow> isOwnedByCluster y uid)"

definition cache_refusals :: "platform \<Rightarrow> env \<Rightarrow> bool" where
  "cache_refusals pf env \<longleftrightarrow> (\<forall>n s k x y. fmlookup (cache env n s) k = Some x \<longrightarrow>
     fmlookup s k = Some y \<longrightarrow> refused pf x = refused pf y)"

lemma refused_foreign: "owner_contract pf uid \<Longrightarrow> refused pf x \<Longrightarrow> \<not> isOwnedByCluster x uid"
  unfolding owner_contract_def refused_def by (drule spec [of _ x]) (simp split: sum.splits)

lemma spares_defers:
  assumes "owner_contract pf uid" and "guarded uid E {} w w'"
  shows "defers pf E w w'"
  using assms refused_foreign unfolding guarded_empty spares_def defers_def foreign_at_def by blast

lemma defers_cleaner:
  "owner_contract pf uid \<Longrightarrow> preserves (guarded uid E {}) m \<Longrightarrow> preserves (defers pf E) m"
  using spares_defers by (auto simp: preserves_def)

lemma defers_wrote:
  assumes "cache_refusals pf env" and "wrote env k mutate w w'"
    and "\<And>x new report. mutate x = (Inr new, report) \<Longrightarrow> \<not> refused pf x"
  shows "defers pf E w w'"
proof (unfold defers_def, intro allI impI)
  fix k' y assume y: "fmlookup (objs w) k' = Some y" "refused pf y"
  show "fmlookup (objs w') k' = Some y"
  proof (cases "objs w' = objs w \<or> k' \<noteq> k")
    case True
    with assms(2) y show ?thesis by (auto simp: wrote_def)
  next
    case False
    with assms(2) y obtain x new report where "got env k x w" "mutate x = (Inr new, report)"
      by (auto simp: wrote_def)
    with assms(1) y False have "refused pf x" unfolding cache_refusals_def got_def by blast
    with assms(3) \<open>mutate x = (Inr new, report)\<close> show ?thesis by blast
  qed
qed

lemma defers_applyResource:
  "cache_refusals pf env \<Longrightarrow> preserves (defers pf E) (applyResource pf env k desired)"
  unfolding preserves_def
  by (intro allI, erule defers_wrote, rule applyResource_wrote) (rule apply_mutate_refused)

lemmas defers_control = defers.preserves_or_missing defers.preserves_bind
  defers.preserves_handle defers.preserves_retry defers.preserves_return
  defers.preserves_throw defers.preserves_reads

lemma defers_reclaims:
  assumes "owner_contract pf uid" and "cache_owners env uid"
  shows "preserves (defers pf E) (reclaimRolePDB pf c env uid cluster name role)"
    and "preserves (defers pf E) (reclaimRoleGroupPDB pf c env uid cluster role grp name)"
    and "preserves (defers pf E) (reclaimMetricsService pf c env uid cluster name)"
  using defers_cleaner [OF assms(1) preserves_deleteOwned [OF assms(2)]]
  by (auto simp: reclaimRolePDB_def reclaimRoleGroupPDB_def reclaimMetricsService_def deletePDB_def
      deleteService_def intro!: defers_control)


section \<open>A role group\<close>

lemma slot_identities_mem:
  assumes "(field, kd, want, Some o') \<in> set (fixed_slots rs resource)"
  shows "(kd, no_name o') \<in> set (slot_identities rs resource)"
  unfolding slot_identities_def in_map_filter by (rule bexI [OF _ assms]) simp

context world_frame
begin

lemma preserves_apply_slot:
  "(\<And>d. obj = Some d \<Longrightarrow> preserves R (applyResource pf env (kd, name) d)) \<Longrightarrow>
    preserves R (apply_slot pf env g kn kd name message obj)"
  by (auto simp: apply_slot_def preserves_return intro!: preserves_wrap split: option.split)

lemma preserves_apply_extra:
  "(\<And>o'. extra = Some o' \<Longrightarrow> preserves R (applyResource pf env (objectIdentity o') (plain_object o'))) \<Longrightarrow>
    preserves R (apply_extra pf env g extra)"
  by (auto simp: apply_extra_def preserves_return intro!: preserves_wrap split: option.split)

lemma preserves_validateSidecars:
  "(\<And>m. checks = Some m \<Longrightarrow> preserves R m) \<Longrightarrow> preserves R (validateSidecars g checks)"
  by (auto simp: validateSidecars_def preserves_return intro!: preserves_wrap split: option.split)

text \<open>Applying a role group stays in a frame its writes, checks and reclaims stay in.\<close>

lemma preserves_applyResources:
  assumes writes: "\<And>k d. k \<in> set (slot_identities rs (gi_resource g)) \<union>
      objectIdentity ` {o'. Some o' \<in> set (rr_extras rs)} \<Longrightarrow> preserves R (applyResource pf env k d)"
    and checks: "\<And>m. checks = Some m \<Longrightarrow> preserves R m"
    and pdb: "preserves R (reclaimRoleGroupPDB pf c env uid (gi_cluster g) (gi_role g) (gi_group g) (gi_resource g))"
    and metrics: "preserves R (reclaimMetricsService pf c env uid (gi_cluster g) (metrics_name (gi_resource g)))"
  shows "preserves R (applyResources pf c env uid g checks rs)"
proof (cases "validateRoleGroupResources g rs")
  case (Some e)
  then show ?thesis by (simp add: applyResources_def preserves_throw)
next
  case None
  have names: "slot_error g s = None" if "s \<in> set (fixed_slots rs (gi_resource g))" for s
  proof -
    have first: "first_error es = None \<Longrightarrow> \<forall>e \<in> set es. e = None" for es :: "err option list"
      by (induction es rule: first_error.induct) auto
    from None have "first_error (map (slot_error g) (fixed_slots rs (gi_resource g))) = None"
      by (auto simp: validateRoleGroupResources_def split: option.splits)
    from first [OF this] that show ?thesis by auto
  qed
  have slot: "preserves R (applyResource pf env (kd, want) d)"
    if "(field, kd, want, Some o') \<in> set (fixed_slots rs (gi_resource g))" for field kd want o' d
  proof (rule writes)
    from names [OF that] have "no_name o' = want" by (auto simp: slot_error_def split: if_splits)
    with slot_identities_mem [OF that] have "(kd, want) \<in> set (slot_identities rs (gi_resource g))"
      by (simp only:)
    then show "(kd, want) \<in> set (slot_identities rs (gi_resource g)) \<union>
        objectIdentity ` {o'. Some o' \<in> set (rr_extras rs)}" by blast
  qed
  have fixed: "preserves R (apply_slot pf env g kn kd want message obj)"
    if "(field, kd, want, o') \<in> set (fixed_slots rs (gi_resource g))" "obj = None \<longleftrightarrow> o' = None"
    for kn field kd want message obj o'
    using that slot by (cases o') (auto intro!: preserves_apply_slot)
  have extra: "list_all (preserves R) (map (apply_extra pf env g) (rr_extras rs))"
    by (auto simp: list_all_iff intro!: preserves_apply_extra writes)
  have pdb': "preserves R (case rr_pdb rs of
      Some o' \<Rightarrow> apply_slot pf env g kn KPodDisruptionBudget (gi_resource g) message (Some (mark o'))
    | None \<Rightarrow> wrapE f (reclaimRoleGroupPDB pf c env uid (gi_cluster g) (gi_role g) (gi_group g) (gi_resource g)))"
    for kn message mark f
    by (cases "rr_pdb rs") (auto intro!: preserves_wrap pdb
        fixed [of "''PodDisruptionBudget''" _ _ "rr_pdb rs"] simp: fixed_slots_def)
  have metrics': "preserves R (case rr_metrics_service rs of
      Some o' \<Rightarrow> apply_slot pf env g kn KService (metrics_name (gi_resource g)) message (Some (mark o'))
    | None \<Rightarrow> wrapE f (reclaimMetricsService pf c env uid (gi_cluster g) (metrics_name (gi_resource g))))"
    for kn message mark f
    by (cases "rr_metrics_service rs") (auto intro!: preserves_wrap metrics
        fixed [of "''MetricsService''" _ _ "rr_metrics_service rs"] simp: fixed_slots_def)
  have cm: "preserves R (apply_slot pf env g kn KConfigMap (gi_resource g) message
      (map_option plain_object (rr_config_map rs)))" for kn message
    by (rule fixed [of "''ConfigMap''" _ _ "rr_config_map rs"]) (simp_all add: fixed_slots_def)
  have hs: "preserves R (apply_slot pf env g kn KService (headless_name (gi_resource g)) message
      (map_option plain_object (rr_headless_service rs)))" for kn message
    by (rule fixed [of "''HeadlessService''" _ _ "rr_headless_service rs"]) (simp_all add: fixed_slots_def)
  have svc: "preserves R (apply_slot pf env g kn KService (gi_resource g) message
      (map_option plain_object (rr_service rs)))" for kn message
    by (rule fixed [of "''Service''" _ _ "rr_service rs"]) (simp_all add: fixed_slots_def)
  have sts: "preserves R (apply_slot pf env g kn KStatefulSet (gi_resource g) message
      (map_option plain_object (rr_stateful_set rs)))" for kn message
    by (rule fixed [of "''StatefulSet''" _ _ "rr_stateful_set rs"]) (simp_all add: fixed_slots_def)
  show ?thesis
    unfolding applyResources_def None option.case Let_def
    by (rule preserves_seq, simp only: list_all_append list.pred_inject simp_thms)
      (intro conjI cm hs svc sts extra pdb' metrics' preserves_validateSidecars checks)
qed

end

lemma defers_applyResources:
  assumes "owner_contract pf uid" and "cache_owners env uid" and "cache_refusals pf env"
    and "\<And>m. checks = Some m \<Longrightarrow> preserves (defers pf E) m"
  shows "preserves (defers pf E) (applyResources pf c env uid g checks rs)"
  by (intro defers.preserves_applyResources defers_applyResource defers_reclaims assms)

section \<open>Keys nobody declared\<close>

definition stays :: "key \<Rightarrow> live \<Rightarrow> world \<Rightarrow> world \<Rightarrow> bool" where
  "stays k x w w' \<longleftrightarrow> (fmlookup (objs w) k = Some x \<longrightarrow> fmlookup (objs w') k = Some x)"

interpretation stays: world_frame "stays k x" for k x
  by unfold_locales (auto simp: stays_def)

lemma stays_only: "k \<notin> K \<Longrightarrow> preserves (only K) m \<Longrightarrow> preserves (stays k x) m"
  unfolding preserves_def only_def stays_def by metis

lemma only_wrote: "wrote env k mutate w w' \<Longrightarrow> only {k} w w'"
  unfolding wrote_def only_def by (metis fmupd_lookup insertI1)

lemma only_applyResource: "preserves (only {k}) (applyResource pf env k d)"
  unfolding preserves_def using only_wrote [OF applyResource_wrote] by blast

lemma stays_reclaim:
  assumes env: "faithful env" and x: "k = k' \<Longrightarrow> \<not> P x"
  shows "preserves (stays k x) (or_missing g (client_get env k') () (\<lambda>y.
    if \<not> P y then returnE () else bindE (deleteOwned c env uid cluster k') (\<lambda>_. returnE ())))"
proof (rule stays.preserves_or_missing_get)
  fix y w assume "got env k' y w"
  with env have y: "fmlookup (objs w) k' = Some y" by (simp add: got_def faithful_def)
  let ?m = "bindE (deleteOwned c env uid cluster k') (\<lambda>_. returnE ())"
  have del: "preserves (only {k'}) ?m"
    by (intro only.preserves_bind only_deleteOwned only.preserves_return) simp
  show "stays k x w (snd ((if \<not> P y then returnE () else ?m) w))"
  proof (cases "P y \<and> k = k' \<and> fmlookup (objs w) k = Some x")
    case True
    then have "P y" "k = k'" "fmlookup (objs w) k = Some x" by blast+
    with y have "y = x" by (metis option.inject)
    with x \<open>P y\<close> \<open>k = k'\<close> show ?thesis by blast
  next
    case False
    have "stays k x w (snd (?m w))" if "P y"
    proof (cases "k = k'")
      case True
      with False that show ?thesis by (simp add: stays_def)
    next
      case False
      then show ?thesis using stays_only [OF _ del] by (simp add: preserves_def)
    qed
    then show ?thesis by (simp add: returnE_def stays.frame_objs)
  qed
qed

text \<open>Whether an object is one of the two slots a role group reclaims by name.\<close>

definition marked_slot :: "platform \<Rightarrow> group_id \<Rightarrow> key \<Rightarrow> live \<Rightarrow> bool" where
  "marked_slot pf g k x \<longleftrightarrow>
     k = (KService, metrics_name (gi_resource g)) \<and> label_of LabelMetricsService x = valueTrue \<or>
     k = (KPodDisruptionBudget, gi_resource g) \<and>
       isFrameworkRoleGroupPDB pf x (gi_cluster g) (gi_role g) (gi_group g)"

lemma stays_applyResources:
  assumes env: "faithful env" and free: "k \<notin> set (slot_identities rs (gi_resource g))"
      "k \<notin> objectIdentity ` {o'. Some o' \<in> set (rr_extras rs)}"
    and x: "\<not> marked_slot pf g k x"
    and checks: "\<And>m. checks = Some m \<Longrightarrow> preserves (stays k x) m"
  shows "preserves (stays k x) (applyResources pf c env uid g checks rs)"
proof (rule stays.preserves_applyResources)
  fix k' d
  assume "k' \<in> set (slot_identities rs (gi_resource g)) \<union> objectIdentity ` {o'. Some o' \<in> set (rr_extras rs)}"
  with free have "k \<notin> {k'}" by blast
  then show "preserves (stays k x) (applyResource pf env k' d)" by (rule stays_only) (rule only_applyResource)
next
  show "preserves (stays k x)
      (reclaimRoleGroupPDB pf c env uid (gi_cluster g) (gi_role g) (gi_group g) (gi_resource g))"
    unfolding reclaimRoleGroupPDB_def deletePDB_def
    by (rule stays_reclaim [OF env]) (use x in \<open>simp add: marked_slot_def\<close>)
  show "preserves (stays k x) (reclaimMetricsService pf c env uid (gi_cluster g) (metrics_name (gi_resource g)))"
    unfolding reclaimMetricsService_def deleteService_def
    using stays_reclaim [OF env, of k "(KService, metrics_name (gi_resource g))"
        "\<lambda>x. label_of LabelMetricsService x = valueTrue" x] x
    by (simp add: marked_slot_def)
qed (rule checks)


section \<open>Property\<close>

definition reads_only :: "'a run \<Rightarrow> bool" where
  "reads_only m \<longleftrightarrow> (\<forall>w. objs (snd (m w)) = objs w)"

context world_frame
begin

lemma reads_only_preserves: "reads_only m \<Longrightarrow> preserves R m"
  by (simp add: reads_only_def preserves_def frame_objs)

end

text \<open>
  C14. Applying the resources of a role group touches nothing the handler did not declare: an object
  under a key that is neither a filled slot of the role group nor one of its extras keeps its value,
  whichever requests fail, unless it is the metrics Service or the disruption budget the framework
  marked as its own for this role group and now reclaims. The sidecar checks only read, and the
  client answers with the stored objects.
\<close>

theorem applyResources_spares_undeclared:
  assumes "faithful env" and "\<And>m. checks = Some m \<Longrightarrow> reads_only m"
    and "k \<notin> set (slot_identities rs (gi_resource g))"
    and "k \<notin> objectIdentity ` {o'. Some o' \<in> set (rr_extras rs)}"
    and "fmlookup (objs w) k = Some x" and "\<not> marked_slot pf g k x"
  shows "fmlookup (objs (snd (applyResources pf c env uid g checks rs w))) k = Some x"
proof -
  have "preserves (stays k x) (applyResources pf c env uid g checks rs)"
    using assms by (intro stays_applyResources stays.reads_only_preserves) auto
  with assms(5) show ?thesis by (simp add: preserves_def stays_def)
qed

definition plain_platform :: platform where
  "plain_platform = \<lparr>set_owner = (\<lambda>x. Inr (x\<lparr>lv_owners := [(''uid-1'', True)]\<rparr>)),
     converter = \<lparr>ToUnstructured = (\<lambda>_. Inr fmempty), FromUnstructured = (\<lambda>_ d. Inr d)\<rparr>, mount_range = (\<lambda>_. []),
     sha8 = (\<lambda>s. s), is_qualified = (\<lambda>_. True), retry_after = 10 * second,
     already_owned = (\<lambda>_. False), error_text = (\<lambda>_. []), elsewhere = (\<lambda>_ _. None)\<rparr>"

definition group_a :: group_id where
  "group_a = \<lparr>gi_cluster = ''c'', gi_namespace = ''ns'', gi_role = ''r'', gi_group = ''a'',
     gi_resource = ''c-r-a''\<rparr>"

definition config_only :: role_group_resources where
  "config_only = \<lparr>rr_config_map = Some \<lparr>labels = fmempty, annotations = fmempty,
       payload = ConfigMap fmempty fmempty, no_name = ''c-r-a'', no_namespace = ''ns'', no_kind = KConfigMap\<rparr>,
     rr_headless_service = None, rr_service = None, rr_stateful_set = None, rr_pdb = None,
     rr_metrics_service = None, rr_extras = []\<rparr>"

theorem applyResources_spares_undeclared_witness:
  "fmlookup (objs (snd (applyResources plain_platform plain_cleaner quiet_env ''uid-1'' group_a
     (Some (bindE (api_get quiet_env (KConfigMap, ''c-r-a'')) (\<lambda>_. returnE ()))) config_only leftover)))
     (KConfigMap, ''c-r-g'') = fmlookup (objs leftover) (KConfigMap, ''c-r-g'')"
proof -
  have "\<exists>x. fmlookup (objs leftover) (KConfigMap, ''c-r-g'') = Some x" by (simp add: leftover_def)
  then obtain x where x: "fmlookup (objs leftover) (KConfigMap, ''c-r-g'') = Some x" by blast
  have "reads_only (bindE (api_get quiet_env (KConfigMap, ''c-r-a'')) (\<lambda>_. returnE ()))"
    by (auto simp: reads_only_def bindE_def handleE_def returnE_def throwE_def api_get_def request_def
        Let_def split: option.split sum.split prod.split)
  moreover have "(KConfigMap, ''c-r-g'') \<notin> set (slot_identities config_only (gi_resource group_a))"
    by code_simp
  ultimately show ?thesis
    unfolding x using x
    by (intro applyResources_spares_undeclared [OF quiet_faithful])
      (auto simp: config_only_def marked_slot_def)
qed

end
