(* ===== verification/Text.thy ===== *)
theory Text
  imports Errors
begin

text \<open>
  Text as Go handles it. A Go string is a list of bytes, a \<open>char list\<close> here, which need not be UTF-8. Where the
  code reads a string by byte or searches it, the model does; where it converts it to a slice of runes and
  back, \<open>rune_text\<close> is what the two conversions leave of it: every byte that is not part of a valid encoding has
  become the replacement character. Every character the code looks for is ASCII, and no byte of another rune
  is, so the loops over runes are loops over their bytes.
\<close>

section \<open>Characters\<close>

definition newline :: char where "newline = CHR 0x0A"
definition carriage_return :: char where "carriage_return = CHR 0x0D"
definition double_quote :: char where "double_quote = CHR 0x22"
definition single_quote :: char where "single_quote = CHR 0x27"
definition backslash :: char where "backslash = CHR 0x5C"

definition tab :: char where "tab = CHR 0x09"

lemmas char_defs = newline_def carriage_return_def double_quote_def single_quote_def backslash_def tab_def

text \<open>The bytes of a rune in a Go string.\<close>

definition utf8 :: "nat \<Rightarrow> string" where
  "utf8 u =
     (if u < 0x80 then [char_of u]
      else if u < 0x800 then [char_of (0xC0 + u div 64), char_of (0x80 + u mod 64)]
      else if u < 0x10000
      then [char_of (0xE0 + u div 4096), char_of (0x80 + u div 64 mod 64), char_of (0x80 + u mod 64)]
      else [char_of (0xF0 + u div 262144), char_of (0x80 + u div 4096 mod 64), char_of (0x80 + u div 64 mod 64),
            char_of (0x80 + u mod 64)])"

section \<open>Runes\<close>

definition ascii :: "char \<Rightarrow> bool" where "ascii c \<longleftrightarrow> (of_char c :: nat) < 128"

definition byte_in :: "nat \<Rightarrow> nat \<Rightarrow> char \<Rightarrow> bool" where
  "byte_in lo hi c \<longleftrightarrow> lo \<le> of_char c \<and> of_char c \<le> hi"

definition continuation :: "char \<Rightarrow> bool" where "continuation = byte_in 0x80 0xBF"

text \<open>The first two bytes of a rune of three and of four bytes; neither overlong forms nor surrogates pass.\<close>

definition lead_three :: "char \<Rightarrow> char \<Rightarrow> bool" where
  "lead_three a b \<longleftrightarrow> a = CHR 0xE0 \<and> byte_in 0xA0 0xBF b \<or> a = CHR 0xED \<and> byte_in 0x80 0x9F b \<or>
     (byte_in 0xE1 0xEC a \<or> byte_in 0xEE 0xEF a) \<and> continuation b"

definition lead_four :: "char \<Rightarrow> char \<Rightarrow> bool" where
  "lead_four a b \<longleftrightarrow> a = CHR 0xF0 \<and> byte_in 0x90 0xBF b \<or> a = CHR 0xF4 \<and> byte_in 0x80 0x8F b \<or>
     byte_in 0xF1 0xF3 a \<and> continuation b"

text \<open>The number of bytes of the first rune; 0 when the text does not start with a valid one.\<close>

fun rune_width :: "string \<Rightarrow> nat" where
  "rune_width (a # b # c # d # s) =
     (if ascii a then 1 else if byte_in 0xC2 0xDF a \<and> continuation b then 2
      else if lead_three a b \<and> continuation c then 3
      else if lead_four a b \<and> continuation c \<and> continuation d then 4 else 0)"
| "rune_width [a, b, c] =
     (if ascii a then 1 else if byte_in 0xC2 0xDF a \<and> continuation b then 2
      else if lead_three a b \<and> continuation c then 3 else 0)"
| "rune_width [a, b] = (if ascii a then 1 else if byte_in 0xC2 0xDF a \<and> continuation b then 2 else 0)"
| "rune_width [a] = (if ascii a then 1 else 0)"
| "rune_width [] = 0"

definition replacement :: string where "replacement = [CHR 0xEF, CHR 0xBF, CHR 0xBD]"

text \<open>\<open>string([]rune(s))\<close>.\<close>

function rune_text :: "string \<Rightarrow> string" where
  "rune_text [] = []"
| "rune_text (a # s) =
     (let w = rune_width (a # s)
      in if w = 0 then replacement @ rune_text s else take w (a # s) @ rune_text (drop w (a # s)))"
  by pat_completeness auto

termination rune_text
  by (relation "measure length") auto

declare rune_text.simps(2) [simp del]

text \<open>\<open>utf8.ValidString\<close>.\<close>

function valid_utf8 :: "string \<Rightarrow> bool" where
  "valid_utf8 [] = True"
| "valid_utf8 (a # s) = (rune_width (a # s) > 0 \<and> valid_utf8 (drop (rune_width (a # s) - 1) s))"
  by pat_completeness auto

termination valid_utf8
  by (relation "measure length") auto

lemma rune_text_valid: "valid_utf8 s \<Longrightarrow> rune_text s = s"
proof (induction s rule: valid_utf8.induct)
  case (2 a s)
  then obtain w where "rune_width (a # s) = Suc w" by (cases "rune_width (a # s)") auto
  with 2 show ?case by (simp add: rune_text.simps(2))
qed simp

lemma rune_text_ascii: "ascii a \<Longrightarrow> rune_text (a # s) = a # rune_text s"
proof -
  assume "ascii a"
  then have "rune_width (a # s) = 1" by (cases "a # s" rule: rune_width.cases) auto
  then show ?thesis by (simp add: rune_text.simps(2))
qed

lemma rune_text_all_ascii: "list_all ascii s \<Longrightarrow> rune_text (s @ t) = s @ rune_text t"
  by (induction s) (simp_all add: rune_text_ascii)

lemma byte_in_high: "byte_in lo hi c \<Longrightarrow> 128 \<le> lo \<Longrightarrow> \<not> ascii c"
  by (simp add: byte_in_def ascii_def)

lemma high_bytes:
  "continuation c \<Longrightarrow> \<not> ascii c" "lead_three a b \<Longrightarrow> \<not> ascii b" "lead_four a b \<Longrightarrow> \<not> ascii b"
  by (auto simp: continuation_def lead_three_def lead_four_def dest: byte_in_high)

text \<open>The bytes of a rune that is not ASCII are not, and nothing after them matters.\<close>

lemma rune_width_high:
  assumes "\<not> ascii a"
  shows "rune_width (a # s) = rune_width (takeWhile (\<lambda>c. \<not> ascii c) (a # s))"
    and "rune_width (a # s) \<le> length (takeWhile (\<lambda>c. \<not> ascii c) (a # s))"
  using assms high_bytes by (cases "a # s" rule: rune_width.cases; auto)+

lemma take_within: "n \<le> length (takeWhile P s) \<Longrightarrow> list_all P (take n s)"
proof (induction s arbitrary: n)
  case (Cons x s)
  then show ?case by (cases n) (auto split: if_splits)
qed simp

text \<open>A byte outside a valid encoding is not kept.\<close>

lemma rune_text_invalid: "rune_text [CHR 0xFF] = replacement" "\<not> valid_utf8 [CHR 0xFF]"
  by (simp_all add: rune_text.simps(2) ascii_def)

text \<open>
  What it takes to read an escaped text back through the conversion: the reader leaves bytes that are not ASCII
  alone, and only ASCII characters are written in another way, with ASCII.
\<close>

definition read_back :: "(string \<Rightarrow> string) \<Rightarrow> char \<Rightarrow> string \<Rightarrow> bool" where
  "read_back reader c written \<longleftrightarrow>
     (if ascii c then written \<noteq> [] \<and> list_all ascii written \<and> (\<forall>r. reader (written @ r) = c # reader r)
      else written = [c])"

locale rune_reader =
  fixes reader :: "string \<Rightarrow> string"
  assumes reads_nil: "reader [] = []" and reads_high: "\<not> ascii c \<Longrightarrow> reader (c # r) = c # reader r"
begin

lemma reads_all_high: "list_all (\<lambda>c. \<not> ascii c) s \<Longrightarrow> reader (s @ r) = s @ reader r"
  by (induction s) (simp_all add: reads_high)

lemma written_high:
  "\<forall>x \<in> set xs. read_back reader (key x) (wr x) \<Longrightarrow>
    takeWhile (\<lambda>c. \<not> ascii c) (concat (map wr xs)) = takeWhile (\<lambda>c. \<not> ascii c) (map key xs) \<and>
    (n \<le> length (takeWhile (\<lambda>c. \<not> ascii c) (map key xs)) \<longrightarrow>
      take n (concat (map wr xs)) = take n (map key xs) \<and> drop n (concat (map wr xs)) = concat (map wr (drop n xs)))"
proof (induction xs arbitrary: n)
  case (Cons x xs)
  then show ?case by (cases n; cases "wr x") (auto simp: read_back_def split: if_splits)
qed simp

lemma reads_written:
  "\<forall>x \<in> set xs. read_back reader (key x) (wr x) \<Longrightarrow>
    reader (rune_text (concat (map wr xs))) = rune_text (map key xs)"
proof (induction xs rule: length_induct)
  case (1 xs)
  show ?case
  proof (cases xs)
    case Nil
    then show ?thesis by (simp add: reads_nil)
  next
    case (Cons x ys)
    then have ys: "reader (rune_text (concat (map wr ys))) = rune_text (map key ys)"
      and x: "read_back reader (key x) (wr x)" using 1 by simp_all
    show ?thesis
    proof (cases "ascii (key x)")
      case True
      with x Cons ys show ?thesis by (simp add: read_back_def rune_text_all_ascii rune_text_ascii)
    next
      case False
      define w where "w = rune_width (map key xs)"
      have wx: "wr x = [key x]" using x False by (simp add: read_back_def)
      have width: "rune_width (concat (map wr xs)) = w" "w \<le> length (takeWhile (\<lambda>c. \<not> ascii c) (map key xs))"
        using rune_width_high [OF False, of "concat (map wr ys)"] rune_width_high [OF False, of "map key ys"]
          written_high [OF 1(2)] Cons wx by (simp_all add: w_def)
      show ?thesis
      proof (cases "w = 0")
        case True
        have "list_all (\<lambda>c. \<not> ascii c) replacement" by (simp add: replacement_def ascii_def)
        with True width wx Cons ys show ?thesis by (simp add: rune_text.simps(2) reads_all_high w_def)
      next
        case w: False
        have "take w (concat (map wr xs)) = take w (map key xs)"
          and "drop w (concat (map wr xs)) = concat (map wr (drop w xs))"
          using written_high [OF 1(2)] width(2) by simp_all
        moreover have "list_all (\<lambda>c. \<not> ascii c) (take w (map key xs))"
          using width(2) by (rule take_within)
        moreover have "reader (rune_text (concat (map wr (drop w xs)))) = rune_text (map key (drop w xs))"
        proof (rule 1(1) [rule_format])
          show "length (drop w xs) < length xs" using w Cons by simp
        qed (use 1(2) in \<open>blast dest: in_set_dropD\<close>)
        moreover have "rune_text (concat (map wr xs)) = take w (concat (map wr xs)) @ rune_text (drop w (concat (map wr xs)))"
          and "rune_text (map key xs) = take w (map key xs) @ rune_text (drop w (map key xs))"
          using w width(1) wx Cons by (simp_all add: rune_text.simps(2) w_def Let_def)
        ultimately show ?thesis by (simp add: reads_all_high drop_map)
      qed
    qed
  qed
qed

end

section \<open>White space\<close>

text \<open>The runes \<open>unicode.IsSpace\<close> accepts, as they are in a string.\<close>

definition spaces :: "string list" where
  "spaces =
    [[CHR 0x09], [CHR 0x0A], [CHR 0x0B], [CHR 0x0C], [CHR 0x0D], [CHR 0x20], [CHR 0xC2, CHR 0x85],
     [CHR 0xC2, CHR 0xA0], [CHR 0xE1, CHR 0x9A, CHR 0x80], [CHR 0xE2, CHR 0x80, CHR 0x80],
     [CHR 0xE2, CHR 0x80, CHR 0x81], [CHR 0xE2, CHR 0x80, CHR 0x82], [CHR 0xE2, CHR 0x80, CHR 0x83],
     [CHR 0xE2, CHR 0x80, CHR 0x84], [CHR 0xE2, CHR 0x80, CHR 0x85], [CHR 0xE2, CHR 0x80, CHR 0x86],
     [CHR 0xE2, CHR 0x80, CHR 0x87], [CHR 0xE2, CHR 0x80, CHR 0x88], [CHR 0xE2, CHR 0x80, CHR 0x89],
     [CHR 0xE2, CHR 0x80, CHR 0x8A], [CHR 0xE2, CHR 0x80, CHR 0xA8], [CHR 0xE2, CHR 0x80, CHR 0xA9],
     [CHR 0xE2, CHR 0x80, CHR 0xAF], [CHR 0xE2, CHR 0x81, CHR 0x9F], [CHR 0xE3, CHR 0x80, CHR 0x80]]"

function strip :: "string list \<Rightarrow> string \<Rightarrow> string" where
  "strip ps s =
     (case find (\<lambda>p. p \<noteq> [] \<and> take (length p) s = p) ps of
        None \<Rightarrow> s
      | Some p \<Rightarrow> strip ps (drop (length p) s))"
  by pat_completeness auto

termination strip
proof (relation "measure (\<lambda>(ps, s). length s)")
  fix ps :: "string list" and s p :: string
  assume "find (\<lambda>p. p \<noteq> [] \<and> take (length p) s = p) ps = Some p"
  then have "p \<noteq> []" "take (length p) s = p" by (auto simp: find_Some_iff)
  then show "((ps, drop (length p) s), ps, s) \<in> measure (\<lambda>(ps, s). length s)" by (cases s) auto
qed simp

declare strip.simps [simp del]

definition TrimSpace :: "string \<Rightarrow> string" where
  "TrimSpace s = rev (strip (map rev spaces) (rev (strip spaces s)))"

definition begins_with :: "string list \<Rightarrow> string \<Rightarrow> bool" where
  "begins_with ps s \<longleftrightarrow> list_ex (\<lambda>p. p \<noteq> [] \<and> take (length p) s = p) ps"

lemma strip_le: "length (strip ps s) \<le> length s"
proof (induction ps s rule: strip.induct)
  case (1 ps s)
  show ?case
  proof (cases "find (\<lambda>p. p \<noteq> [] \<and> take (length p) s = p) ps")
    case None
    then show ?thesis by (simp add: strip.simps [of ps s])
  next
    case (Some p)
    have "length (strip ps (drop (length p) s)) \<le> length (drop (length p) s)" using 1 [OF Some] .
    with Some show ?thesis by (simp add: strip.simps [of ps s])
  qed
qed

lemma strip_less: "begins_with ps s \<Longrightarrow> length (strip ps s) < length s"
proof (cases "find (\<lambda>p. p \<noteq> [] \<and> take (length p) s = p) ps")
  case None
  moreover assume "begins_with ps s"
  ultimately show ?thesis by (auto simp: begins_with_def find_None_iff list_ex_iff)
next
  case (Some p)
  then have p: "p \<noteq> []" "take (length p) s = p" by (auto simp: find_Some_iff)
  then have "length (drop (length p) s) < length s" by (cases s) auto
  with strip_le [of ps "drop (length p) s"] Some show ?thesis by (simp add: strip.simps [of ps s])
qed

lemma strip_keeps: "strip ps s = s \<longleftrightarrow> \<not> begins_with ps s"
proof
  show "strip ps s = s \<Longrightarrow> \<not> begins_with ps s" using strip_less by fastforce
  assume "\<not> begins_with ps s"
  then have "find (\<lambda>p. p \<noteq> [] \<and> take (length p) s = p) ps = None"
    by (auto simp: begins_with_def find_None_iff list_ex_iff)
  then show "strip ps s = s" by (simp add: strip.simps [of ps s])
qed

lemma TrimSpace_keeps:
  "TrimSpace s = s \<longleftrightarrow> \<not> begins_with spaces s \<and> \<not> begins_with (map rev spaces) (rev s)"
proof
  assume eq: "TrimSpace s = s"
  have "length (TrimSpace s) \<le> length (strip spaces s)"
    using strip_le [of "map rev spaces" "rev (strip spaces s)"] by (simp add: TrimSpace_def)
  with eq have len: "length s \<le> length (strip spaces s)" by simp
  then have "strip spaces s = s" using strip_less [of spaces s] strip_keeps [of spaces s] by fastforce
  with eq have "strip (map rev spaces) (rev s) = rev s"
    by (metis TrimSpace_def rev_rev_ident)
  with \<open>strip spaces s = s\<close> show "\<not> begins_with spaces s \<and> \<not> begins_with (map rev spaces) (rev s)"
    by (simp add: strip_keeps)
next
  assume "\<not> begins_with spaces s \<and> \<not> begins_with (map rev spaces) (rev s)"
  then have "strip spaces s = s" "strip (map rev spaces) (rev s) = rev s" by (simp_all add: strip_keeps)
  then show "TrimSpace s = s" by (simp add: TrimSpace_def)
qed

section \<open>Splitting\<close>

fun split_on :: "char \<Rightarrow> string \<Rightarrow> string list" where
  "split_on c [] = [[]]"
| "split_on c (x # xs) =
     (if x = c then [] # split_on c xs
      else (case split_on c xs of [] \<Rightarrow> [[x]] | p # ps \<Rightarrow> (x # p) # ps))"

lemma split_on_free: "c \<notin> set s \<Longrightarrow> split_on c s = [s]"
  by (induction s) auto

lemma split_on_first: "c \<notin> set s \<Longrightarrow> split_on c (s @ c # t) = s # split_on c t"
  by (induction s) auto

text \<open>
  The lines a \<open>bufio.Scanner\<close> returns for a text, and whether it stopped at a line longer than its buffer
  (\<open>bufio.ErrTooLong\<close>). A final line break opens no further line, and one carriage return before the break
  is dropped.
\<close>

definition MaxScanTokenSize :: nat where "MaxScanTokenSize = 64 * 1024"

definition dropCR :: "string \<Rightarrow> string" where
  "dropCR l = (if l \<noteq> [] \<and> last l = carriage_return then butlast l else l)"

definition raw_lines :: "string \<Rightarrow> string list" where
  "raw_lines s = (let ls = split_on newline s in if last ls = [] then butlast ls else ls)"

definition short_line :: "string \<Rightarrow> bool" where
  "short_line l \<longleftrightarrow> length l < MaxScanTokenSize"

definition scan_lines :: "string \<Rightarrow> string list \<times> bool" where
  "scan_lines s = (map dropCR (takeWhile short_line (raw_lines s)), \<not> list_all short_line (raw_lines s))"

definition ErrTooLong :: err where "ErrTooLong = PlainError ''bufio.Scanner: token too long''"

definition as_line :: "string \<Rightarrow> string" where "as_line l = l @ [newline]"

definition plain_line :: "string \<Rightarrow> bool" where
  "plain_line l \<longleftrightarrow> newline \<notin> set l \<and> carriage_return \<notin> set l"

lemma split_as_lines:
  "list_all plain_line ls \<Longrightarrow> split_on newline (concat (map as_line ls)) = ls @ [[]]"
  by (induction ls) (auto simp: plain_line_def as_line_def split_on_first)

lemma dropCR_plain: "plain_line l \<Longrightarrow> dropCR l = l"
  by (metis dropCR_def last_in_set plain_line_def)

lemma scan_as_lines:
  assumes "list_all plain_line ls"
  shows "scan_lines (concat (map as_line ls)) = (takeWhile short_line ls, \<not> list_all short_line ls)"
proof -
  have "raw_lines (concat (map as_line ls)) = ls"
    using split_as_lines [OF assms] by (simp add: raw_lines_def)
  moreover have "map dropCR (takeWhile short_line ls) = takeWhile short_line ls"
    using assms by (intro map_idI dropCR_plain) (auto dest: set_takeWhileD simp: list_all_iff)
  ultimately show ?thesis by (simp add: scan_lines_def)
qed

text \<open>\<open>strings.HasSuffix\<close>.\<close>

definition has_suffix :: "string \<Rightarrow> string \<Rightarrow> bool" where
  "has_suffix s suffix \<longleftrightarrow> length suffix \<le> length s \<and> drop (length s - length suffix) s = suffix"

text \<open>\<open>strings.IndexByte\<close>.\<close>

fun index_of :: "char \<Rightarrow> string \<Rightarrow> nat option" where
  "index_of c [] = None"
| "index_of c (x # xs) = (if x = c then Some 0 else map_option Suc (index_of c xs))"

lemma index_of_first: "c \<notin> set s \<Longrightarrow> index_of c (s @ c # t) = Some (length s)"
  by (induction s) auto

section \<open>Replacing\<close>

text \<open>\<open>strings.ReplaceAll\<close> of a single character.\<close>

definition ReplaceAll :: "char \<Rightarrow> string \<Rightarrow> string \<Rightarrow> string" where
  "ReplaceAll c r s = concat (map (\<lambda>x. if x = c then r else [x]) s)"

lemma ReplaceAll_simps [simp]:
  "ReplaceAll c r [] = []"
  "ReplaceAll c r (x # s) = (if x = c then r else [x]) @ ReplaceAll c r s"
  "ReplaceAll c r (s @ t) = ReplaceAll c r s @ ReplaceAll c r t"
  by (simp_all add: ReplaceAll_def)

lemma ReplaceAll_concat: "ReplaceAll c r (concat (map f s)) = concat (map (\<lambda>x. ReplaceAll c r (f x)) s)"
  by (induction s) simp_all

text \<open>A chain of replacements charwise each character on its own.\<close>

definition charwise :: "(string \<Rightarrow> string) \<Rightarrow> (char \<Rightarrow> string) \<Rightarrow> bool" where
  "charwise g f \<longleftrightarrow> (\<forall>s. g s = concat (map f s))"

lemma charwise_one: "charwise (ReplaceAll c r) (\<lambda>x. if x = c then r else [x])"
  by (simp add: charwise_def ReplaceAll_def)

lemma charwise_next: "charwise g f \<Longrightarrow> charwise (\<lambda>s. ReplaceAll c r (g s)) (\<lambda>x. ReplaceAll c r (f x))"
  by (simp add: charwise_def ReplaceAll_concat)

text \<open>Printable ASCII at its ends keeps a text from being trimmed.\<close>

definition printable :: "char \<Rightarrow> bool" where
  "printable c \<longleftrightarrow> (let n = of_char c :: nat in 33 \<le> n \<and> n \<le> 126)"

lemma spaces_unprintable: "list_all (\<lambda>p. \<not> printable (hd p) \<and> \<not> printable (last p)) spaces"
  by (simp add: spaces_def printable_def)

lemma spaces_nonempty: "[] \<notin> set spaces"
proof -
  have "list_all (\<lambda>p. p \<noteq> []) spaces" by (simp add: spaces_def)
  then show ?thesis by (auto simp: list_all_iff)
qed

lemma take_hd: "p \<noteq> [] \<Longrightarrow> take (length p) s = p \<Longrightarrow> s \<noteq> [] \<and> hd s = hd p"
  by (cases p; cases s) auto

lemma begins_printable:
  assumes "s \<noteq> [] \<longrightarrow> printable (hd s)"
  shows "\<not> begins_with spaces s" and "\<not> begins_with (map rev spaces) s"
proof -
  have un: "\<not> printable (hd p) \<and> \<not> printable (hd (rev p))" if "p \<in> set spaces" for p
    using spaces_unprintable that spaces_nonempty by (auto simp: list_all_iff hd_rev)
  show "\<not> begins_with spaces s"
    unfolding begins_with_def list_ex_iff using un assms take_hd by metis
  show "\<not> begins_with (map rev spaces) s"
  proof
    assume "begins_with (map rev spaces) s"
    then obtain p where "p \<in> set spaces" "rev p \<noteq> []" "take (length (rev p)) s = rev p"
      by (auto simp: begins_with_def list_ex_iff)
    with take_hd [of "rev p" s] un assms show False by metis
  qed
qed

lemma TrimSpace_printable: "s \<noteq> [] \<longrightarrow> printable (hd s) \<and> printable (last s) \<Longrightarrow> TrimSpace s = s"
  unfolding TrimSpace_keeps
  by (intro conjI begins_printable) (auto simp: hd_rev)

end
