(* ===== verification/Logging.thy ===== *)
theory Logging
  imports Naming Text
begin

text \<open>
  The declaration of log producers: \<open>pkg/productlogging/logging.go\<close> up to the rendering of the
  configuration files, which is \<open>LogFiles\<close>. A string is a list of characters; the code's runes outside
  a byte have no counterpart.
\<close>

section \<open>Paths\<close>

text \<open>\<open>path.Clean\<close> and \<open>path.Join\<close> of the standard library.\<close>

definition slash :: char where "slash = CHR ''/''"

text \<open>\<open>acc\<close> holds the components kept so far, the last one first.\<close>

fun clean_components :: "bool \<Rightarrow> string list \<Rightarrow> string list \<Rightarrow> string list" where
  "clean_components rooted acc [] = rev acc"
| "clean_components rooted acc (c # cs) =
     (if c = [] \<or> c = ''.'' then clean_components rooted acc cs
      else if c = ''..''
      then (case acc of
              a # rest \<Rightarrow> if a \<noteq> ''..'' then clean_components rooted rest cs
                         else clean_components rooted (c # acc) cs
            | [] \<Rightarrow> if rooted then clean_components rooted [] cs else clean_components rooted [c] cs)
      else clean_components rooted (c # acc) cs)"

definition path_clean :: "string \<Rightarrow> string" where
  "path_clean p =
     (let rooted = p \<noteq> [] \<and> hd p = slash;
          body = join_strings [slash] (clean_components rooted [] (split_on slash p))
      in if rooted then slash # body else if body = [] then ''.'' else body)"

definition path_join :: "string list \<Rightarrow> string" where
  "path_join elems =
     (let parts = filter (\<lambda>e. e \<noteq> []) elems
      in if parts = [] then [] else path_clean (join_strings [slash] parts))"

definition KubedoopLogDir :: string where "KubedoopLogDir = ''/kubedoop/log/''"

section \<open>Producers\<close>

record container_logging =
  cl_container :: string
  cl_framework :: string
  cl_file_name :: string
  cl_pattern :: string
  cl_log_file_name :: string
  cl_log_dir_name :: string

definition LogDirSegment :: "container_logging \<Rightarrow> string" where
  "LogDirSegment d =
     (if cl_log_dir_name d \<noteq> [] then map to_lower (cl_log_dir_name d) else map to_lower (cl_container d))"

definition LogDirFor :: "container_logging \<Rightarrow> string" where
  "LogDirFor d = path_join [KubedoopLogDir, LogDirSegment d]"

text \<open>\<open>^[a-z0-9]([-a-z0-9]*[a-z0-9])?$\<close>\<close>

definition label_alnum :: "char \<Rightarrow> bool" where
  "label_alnum c \<longleftrightarrow> CHR ''a'' \<le> c \<and> c \<le> CHR ''z'' \<or> CHR ''0'' \<le> c \<and> c \<le> CHR ''9''"

definition logDirNameRE :: "string \<Rightarrow> bool" where
  "logDirNameRE s \<longleftrightarrow> s \<noteq> [] \<and> label_alnum (hd s) \<and> label_alnum (last s) \<and>
     list_all (\<lambda>c. label_alnum c \<or> c = dash) s"

definition validateLogDirName :: "container_logging \<Rightarrow> err option" where
  "validateLogDirName d =
     (if cl_log_dir_name d = [] then None
      else let lowered = map to_lower (cl_log_dir_name d)
           in if length lowered > 63 \<or> \<not> logDirNameRE lowered
              then Some (PlainError (''logDirName '' @ cl_log_dir_name d @ '' for container '' @
                cl_container d @ '' must be a single lowercase RFC 1123 label''))
              else None)"

section \<open>Frameworks\<close>

definition LoggingFrameworkLog4j :: string where "LoggingFrameworkLog4j = ''log4j''"
definition LoggingFrameworkLog4j2 :: string where "LoggingFrameworkLog4j2 = ''log4j2''"
definition LoggingFrameworkLogback :: string where "LoggingFrameworkLogback = ''logback''"
definition LoggingFrameworkPython :: string where "LoggingFrameworkPython = ''python''"

datatype generator = LogbackGenerator | Log4jGenerator | Log4j2Generator | PythonGenerator

text \<open>The registry: framework, log file suffix, generator.\<close>

definition loggingFrameworks :: "(string \<times> string \<times> generator) list" where
  "loggingFrameworks =
     [(LoggingFrameworkLog4j, ''.log4j.xml'', Log4jGenerator),
      (LoggingFrameworkLogback, ''.log4j.xml'', LogbackGenerator),
      (LoggingFrameworkLog4j2, ''.log4j2.xml'', Log4j2Generator),
      (LoggingFrameworkPython, ''.py.json'', PythonGenerator)]"

definition SupportedLoggingFrameworks :: "string list" where
  "SupportedLoggingFrameworks = sort (map fst loggingFrameworks)"

definition LogFileSuffix :: "string \<Rightarrow> string" where
  "LogFileSuffix framework =
     (case map_of loggingFrameworks framework of None \<Rightarrow> [] | Some (suffix, _) \<Rightarrow> suffix)"

definition GeneratorFor :: "string \<Rightarrow> err + generator" where
  "GeneratorFor framework =
     (case map_of loggingFrameworks framework of
        None \<Rightarrow> Inl (PlainError (''unsupported logging framework: '' @ framework))
      | Some (_, g) \<Rightarrow> Inr g)"

definition ContainerLogFileName :: "string \<Rightarrow> string \<Rightarrow> string" where
  "ContainerLogFileName framework container =
     (if LogFileSuffix framework = [] then [] else container @ LogFileSuffix framework)"

definition ContainerLogDir :: "string \<Rightarrow> string" where
  "ContainerLogDir container = LogDirFor
     \<lparr>cl_container = container, cl_framework = [], cl_file_name = [], cl_pattern = [],
      cl_log_file_name = [], cl_log_dir_name = []\<rparr>"

definition ProductRenderedLogFileSuffixes :: "string list" where
  "ProductRenderedLogFileSuffixes = [''.airlift.json'', ''.stderr.log'', ''.stdout.log'']"

definition add_suffix :: "string \<Rightarrow> string list \<Rightarrow> string list" where
  "add_suffix suffix out = (if suffix \<in> set out then out else out @ [suffix])"

definition KnownLogFileSuffixes :: "string list" where
  "KnownLogFileSuffixes = sort (fold add_suffix
     (map (fst \<circ> snd) loggingFrameworks @ ProductRenderedLogFileSuffixes) [])"

definition hasKnownLogFileSuffix :: "string \<Rightarrow> bool" where
  "hasKnownLogFileSuffix nm \<longleftrightarrow> list_ex (has_suffix nm) KnownLogFileSuffixes"

section \<open>Validation\<close>

definition log_file_path :: "container_logging \<Rightarrow> string" where
  "log_file_path d = path_join [LogDirFor d,
     (if cl_log_file_name d \<noteq> [] then cl_log_file_name d
      else ContainerLogFileName (cl_framework d) (cl_container d))]"

definition about_container :: "container_logging \<Rightarrow> string \<Rightarrow> err" where
  "about_container d message = PlainError (''container '' @ cl_container d @ '': '' @ message)"

text \<open>The checks of one declaration, and the loop with the files taken so far.\<close>

definition producer_error :: "container_logging \<Rightarrow> err option" where
  "producer_error d =
     (case validateLogDirName d of
        Some e \<Rightarrow> Some e
      | None \<Rightarrow>
          if cl_framework d = [] \<and> cl_log_file_name d = []
          then Some (about_container d ''declares no logging framework, then logFileName is required'')
          else if cl_framework d = [] \<and> \<not> hasKnownLogFileSuffix (cl_log_file_name d)
          then Some (about_container d ''log file name ends in no known framework suffix'')
          else if cl_log_file_name d \<noteq> [] \<and> slash \<in> set (cl_log_file_name d)
          then Some (about_container d ''log file name must be a bare file name'')
          else None)"

fun validate_producers :: "string gomap \<Rightarrow> container_logging list \<Rightarrow> err option" where
  "validate_producers seen [] = None"
| "validate_producers seen (d # ds) =
     (case producer_error d of
        Some e \<Rightarrow> Some e
      | None \<Rightarrow>
          (case fmlookup seen (log_file_path d) of
             Some other \<Rightarrow> Some (PlainError (''containers '' @ other @ '' and '' @ cl_container d @
               '' both write their log file to '' @ log_file_path d))
           | None \<Rightarrow> validate_producers (fmupd (log_file_path d) (cl_container d) seen) ds))"

definition ValidateProducers :: "container_logging list \<Rightarrow> err option" where
  "ValidateProducers ds = validate_producers fmempty ds"

section \<open>What validation guarantees\<close>

lemma validate_producers_iff:
  "validate_producers seen ds = None \<longleftrightarrow>
     (\<forall>d \<in> set ds. producer_error d = None \<and> fmlookup seen (log_file_path d) = None) \<and>
     distinct (map log_file_path ds)"
proof (induction ds arbitrary: seen)
  case Nil
  show ?case by simp
next
  case (Cons d ds)
  show ?case
  proof (cases "producer_error d = None \<and> fmlookup seen (log_file_path d) = None")
    case False
    then show ?thesis by (auto split: option.split)
  next
    case True
    then have "validate_producers seen (d # ds) = None \<longleftrightarrow>
        validate_producers (fmupd (log_file_path d) (cl_container d) seen) ds = None"
      by simp
    also have "\<dots> \<longleftrightarrow> (\<forall>x \<in> set ds. producer_error x = None \<and>
          fmlookup (fmupd (log_file_path d) (cl_container d) seen) (log_file_path x) = None) \<and>
        distinct (map log_file_path ds)"
      by (rule Cons.IH)
    also have "\<dots> \<longleftrightarrow> (\<forall>x \<in> set ds. producer_error x = None \<and> log_file_path x \<noteq> log_file_path d \<and>
          fmlookup seen (log_file_path x) = None) \<and> distinct (map log_file_path ds)"
      by auto
    finally show ?thesis using True
      by (simp del: validate_producers.simps add: image_iff) metis
  qed
qed

text \<open>A bare component under the log root is its own path component.\<close>

definition bare :: "string \<Rightarrow> bool" where
  "bare s \<longleftrightarrow> s \<noteq> [] \<and> s \<noteq> ''.'' \<and> s \<noteq> ''..'' \<and> slash \<notin> set s"

lemma clean_bare [simp]:
  "bare c \<Longrightarrow> clean_components rooted acc (c # cs) = clean_components rooted (c # acc) cs"
  by (simp add: bare_def)

lemma join_log_dir:
  assumes "bare s"
  shows "path_join [KubedoopLogDir, s] = KubedoopLogDir @ s"
proof -
  have s: "s \<noteq> []" "slash \<notin> set s" "s \<noteq> ''.''" "s \<noteq> ''..''" using assms by (simp_all add: bare_def)
  have "split_on slash (''/kubedoop/log/'' @ slash # s) = [[], ''kubedoop'', ''log'', [], s]"
    using s by (simp add: split_on_free slash_def)
  moreover have "bare ''kubedoop''" "bare ''log''" by (simp_all add: bare_def slash_def)
  ultimately show ?thesis
    using assms s by (simp add: path_join_def path_clean_def KubedoopLogDir_def Let_def slash_def)
qed

lemma join_log_file:
  assumes "bare s" and "bare f"
  shows "path_join [KubedoopLogDir @ s, f] = KubedoopLogDir @ s @ [slash] @ f"
proof -
  have s: "s \<noteq> []" "slash \<notin> set s" "s \<noteq> ''.''" "s \<noteq> ''..''"
    and f: "f \<noteq> []" "slash \<notin> set f" "f \<noteq> ''.''" "f \<noteq> ''..''"
    using assms by (simp_all add: bare_def)
  have "split_on slash (''/kubedoop/log/'' @ s @ slash # f) = [[], ''kubedoop'', ''log'', s, f]"
    using s f by (simp add: split_on_free split_on_first slash_def)
  moreover have "bare ''kubedoop''" "bare ''log''" by (simp_all add: bare_def slash_def)
  ultimately show ?thesis
    using assms s f by (simp add: path_join_def path_clean_def KubedoopLogDir_def Let_def slash_def)
qed

lemma label_bare:
  assumes "logDirNameRE s"
  shows "bare s"
proof -
  have alnum: "\<not> label_alnum slash" "slash \<noteq> dash" "\<not> label_alnum CHR ''.''"
    by (simp_all add: label_alnum_def slash_def dash_def)
  have "slash \<notin> set s" using assms alnum(1,2) by (auto simp: logDirNameRE_def list_all_iff)
  moreover have "s \<noteq> ''.''" "s \<noteq> ''..''" using assms alnum(3) by (auto simp: logDirNameRE_def)
  ultimately show ?thesis using assms by (simp add: bare_def logDirNameRE_def)
qed

lemma suffix_not_dots:
  assumes "hasKnownLogFileSuffix f"
  shows "f \<noteq> []" "f \<noteq> ''.''" "f \<noteq> ''..''"
proof -
  have "KnownLogFileSuffixes = [''.airlift.json'', ''.log4j.xml'', ''.log4j2.xml'', ''.py.json'',
      ''.stderr.log'', ''.stdout.log'']"
    by code_simp
  from assms [unfolded hasKnownLogFileSuffix_def this] have "length f \<ge> 8"
    by (simp add: has_suffix_def) linarith
  then show "f \<noteq> []" "f \<noteq> ''.''" "f \<noteq> ''..''" by auto
qed

lemma producer_placed:
  assumes "producer_error d = None" and "cl_log_dir_name d \<noteq> []" and "cl_framework d = []"
  shows "log_file_path d = KubedoopLogDir @ map to_lower (cl_log_dir_name d) @ [slash] @ cl_log_file_name d"
    and "hasKnownLogFileSuffix (cl_log_file_name d)"
proof -
  have dir: "bare (map to_lower (cl_log_dir_name d))"
    using assms(1,2)
    by (intro label_bare) (auto simp: producer_error_def validateLogDirName_def Let_def split: option.splits if_splits)
  show suf: "hasKnownLogFileSuffix (cl_log_file_name d)"
    using assms(1,3) by (auto simp: producer_error_def split: option.splits if_splits)
  then have "bare (cl_log_file_name d)"
    using assms(1) suffix_not_dots [OF suf]
    by (auto simp: producer_error_def bare_def split: option.splits if_splits)
  with dir show "log_file_path d = KubedoopLogDir @ map to_lower (cl_log_dir_name d) @ [slash] @ cl_log_file_name d"
    using assms(2) by (simp add: log_file_path_def LogDirFor_def LogDirSegment_def join_log_dir join_log_file
        bare_def)
qed

end
