(* ===== verification/Vector.thy ===== *)
theory Vector
  imports Api Text
begin

text \<open>
  The Vector agent as the reconciler sees it: \<open>IsAgentEnabled\<close> and the names of
  \<open>pkg/vector/constants.go\<close>, and the discovery of the aggregator's address, \<open>pkg/vector/discovery.go\<close>.
\<close>

section \<open>The agent\<close>

definition IsAgentEnabled :: "logging_spec option \<Rightarrow> bool" where
  "IsAgentEnabled l \<longleftrightarrow> (case l of None \<Rightarrow> False | Some s \<Rightarrow> enable_vector_agent s = Some True)"

definition VectorLogVolumeName :: string where "VectorLogVolumeName = ''log''"
definition VectorConfigVolumeName :: string where "VectorConfigVolumeName = ''vector-config''"
definition VectorDataVolumeName :: string where "VectorDataVolumeName = ''vector-data''"
definition JMXExporterConfigVolumeName :: string where
  "JMXExporterConfigVolumeName = ''jmx-exporter-config''"

definition AddressKey :: string where "AddressKey = ''ADDRESS''"

section \<open>Strings and numbers\<close>

definition digit_value :: "char \<Rightarrow> int option" where
  "digit_value c = (let n = of_char c :: nat in if 48 \<le> n \<and> n \<le> 57 then Some (int n - 48) else None)"

fun digits_value :: "int \<Rightarrow> string \<Rightarrow> int option" where
  "digits_value acc [] = Some acc"
| "digits_value acc (c # cs) =
     (case digit_value c of None \<Rightarrow> None | Some d \<Rightarrow> digits_value (acc * 10 + d) cs)"

text \<open>\<open>strconv.Atoi\<close> on a 64-bit machine.\<close>

definition Atoi :: "string \<Rightarrow> int option" where
  "Atoi s =
     (let (sign, ds) = (case s of
            c # cs \<Rightarrow> if c = CHR ''-'' then (- 1, cs) else if c = CHR ''+'' then (1, cs) else (1, s)
          | [] \<Rightarrow> (1, s))
      in if ds = [] then None
         else case digits_value 0 ds of
           None \<Rightarrow> None
         | Some n \<Rightarrow> if - (2 ^ 63) \<le> sign * n \<and> sign * n < 2 ^ 63 then Some (sign * n) else None)"

definition last_index_of :: "char \<Rightarrow> string \<Rightarrow> nat option" where
  "last_index_of c s = map_option (\<lambda>i. length s - 1 - i) (index_of c (rev s))"

text \<open>\<open>strings.Index\<close> of a substring.\<close>

fun index_sub :: "string \<Rightarrow> string \<Rightarrow> nat option" where
  "index_sub p [] = (if p = [] then Some 0 else None)"
| "index_sub p (x # xs) =
     (if take (length p) (x # xs) = p then Some 0 else map_option Suc (index_sub p xs))"

text \<open>\<open>net.SplitHostPort\<close>.\<close>

definition address_error :: "string \<Rightarrow> string \<Rightarrow> err" where
  "address_error why s = PlainError (''address '' @ s @ '': '' @ why)"

definition SplitHostPort :: "string \<Rightarrow> err + string \<times> string" where
  "SplitHostPort s =
     (case last_index_of CHR '':'' s of
        None \<Rightarrow> Inl (address_error ''missing port in address'' s)
      | Some i \<Rightarrow>
          (let finish = (\<lambda>host j k.
             if CHR ''['' \<in> set (drop j s) then Inl (address_error ''unexpected bracket in address'' s)
             else if CHR '']'' \<in> set (drop k s) then Inl (address_error ''unexpected bracket in address'' s)
             else Inr (host, drop (Suc i) s))
           in if s \<noteq> [] \<and> hd s = CHR ''[''
              then (case index_of CHR '']'' s of
                  None \<Rightarrow> Inl (address_error ''missing bracket in address'' s)
                | Some e \<Rightarrow>
                    if Suc e = length s then Inl (address_error ''missing port in address'' s)
                    else if Suc e = i then finish (drop 1 (take e s)) 1 (Suc e)
                    else if s ! Suc e = CHR '':'' then Inl (address_error ''too many colons in address'' s)
                    else Inl (address_error ''missing port in address'' s))
              else if CHR '':'' \<in> set (take i s) then Inl (address_error ''too many colons in address'' s)
              else finish (take i s) 0 0))"

section \<open>Discovery\<close>

definition scheme_separator :: string where "scheme_separator = ''://''"

definition validateAggregatorAddress :: "string \<Rightarrow> err option" where
  "validateAggregatorAddress s =
     (if newline \<in> set s \<or> carriage_return \<in> set s then Some (address_error ''must be a single line'' s)
      else if double_quote \<in> set s \<or> single_quote \<in> set s \<or> backslash \<in> set s
      then Some (address_error ''must not contain quotes or backslashes'' s)
      else if TrimSpace s \<noteq> s then Some (address_error ''must not have surrounding whitespace'' s)
      else
        let hostPort = (case index_sub scheme_separator s of
              Some i \<Rightarrow> drop (i + length scheme_separator) s | None \<Rightarrow> s)
        in case SplitHostPort hostPort of
             Inl e \<Rightarrow> Some (Wrapped (FmtErrorf ''address must be in host:port form'') (Some e))
           | Inr (host, port) \<Rightarrow>
               if host = [] then Some (address_error ''has an empty host'' s)
               else (case Atoi port of
                   None \<Rightarrow> Some (address_error ''has an invalid port'' s)
                 | Some n \<Rightarrow> if n < 1 \<or> n > 65535 then Some (address_error ''has an invalid port'' s) else None))"

definition config_map_data :: "live \<Rightarrow> string gomap" where
  "config_map_data x = (case payload x of ConfigMap d _ \<Rightarrow> d | _ \<Rightarrow> fmempty)"

definition discovery_error :: "string \<Rightarrow> string \<Rightarrow> err option \<Rightarrow> err" where
  "discovery_error name why cause = Wrapped (FmtErrorf (''configmap '' @ name @ '' '' @ why)) cause"

definition DiscoverAggregatorAddress :: "env \<Rightarrow> string \<Rightarrow> string run" where
  "DiscoverAggregatorAddress env configMapName =
     handleE (client_get env (KConfigMap, configMapName))
       (\<lambda>e. throwE (discovery_error configMapName ''cannot be read'' (Some e)))
       (\<lambda>x. if config_map_data x = fmempty then throwE (discovery_error configMapName ''has no data'' None)
            else (case fmlookup (config_map_data x) AddressKey of
                None \<Rightarrow> throwE (discovery_error configMapName ''misses the address key'' None)
              | Some address \<Rightarrow>
                  if address = [] then throwE (discovery_error configMapName ''has an empty address'' None)
                  else (case validateAggregatorAddress address of
                      Some e \<Rightarrow> throwE (discovery_error configMapName ''has an invalid address'' (Some e))
                    | None \<Rightarrow> returnE address)))"

text \<open>
  An address that is discovered is one line without quotes or backslashes, and names a host and a
  port between 1 and 65535.
\<close>

lemma discovered_address:
  assumes "DiscoverAggregatorAddress env name w = (Inr address, w')"
  shows "validateAggregatorAddress address = None" and "address \<noteq> []"
  using assms
  by (auto simp: DiscoverAggregatorAddress_def handleE_def throwE_def returnE_def
      split: prod.splits sum.splits option.splits if_splits)

end
