(* ===== verification/PropertiesFormat.thy ===== *)
theory PropertiesFormat
  imports Text
begin

text \<open>
  The Java properties format, \<open>pkg/config/properties_adapter.go\<close>: writing a map, reading a file, and the
  round trip.
\<close>

section \<open>The adapter\<close>

text \<open>\<open>parseError\<close> and \<open>serializeError\<close> of \<open>errors.go\<close>.\<close>

definition parseError :: "string \<Rightarrow> err \<Rightarrow> err" where
  "parseError fmt e = Wrapped (FmtErrorf (''failed to parse '' @ fmt @ '' configuration'')) (Some e)"

definition serializeError :: "string \<Rightarrow> err \<Rightarrow> err" where
  "serializeError fmt e = Wrapped (FmtErrorf (''failed to serialize '' @ fmt @ '' configuration'')) (Some e)"

record properties_adapter =
  Separator :: string

definition NewPropertiesAdapter :: properties_adapter where
  "NewPropertiesAdapter = \<lparr>Separator = ''=''\<rparr>"

definition bs :: char where "bs = backslash"

section \<open>Writing\<close>

definition escapePropertiesKey :: "string \<Rightarrow> string" where
  "escapePropertiesKey s =
     ReplaceAll tab (bs # ''t'') (ReplaceAll carriage_return (bs # ''r'') (ReplaceAll newline (bs # ''n'')
     (ReplaceAll CHR ''!'' (bs # ''!'') (ReplaceAll CHR ''#'' (bs # ''#'') (ReplaceAll CHR '' '' (bs # '' '')
     (ReplaceAll CHR '':'' (bs # '':'') (ReplaceAll CHR ''='' (bs # ''='')
     (ReplaceAll bs [bs, bs] s))))))))"

definition escapeEdgeSpaces :: "string \<Rightarrow> string" where
  "escapeEdgeSpaces s =
     (let lead = length (takeWhile (\<lambda>c. c = CHR '' '') s); rest = drop lead s;
          pad = length (takeWhile (\<lambda>c. c = CHR '' '') (rev rest))
      in if lead = 0 \<and> pad = 0 then s
         else concat (replicate lead (bs # '' '')) @ take (length rest - pad) rest
           @ concat (replicate pad (bs # '' '')))"

definition escapePropertiesValue :: "string \<Rightarrow> string" where
  "escapePropertiesValue s = escapeEdgeSpaces
     (ReplaceAll tab (bs # ''t'') (ReplaceAll carriage_return (bs # ''r'') (ReplaceAll newline (bs # ''n'')
     (ReplaceAll bs [bs, bs] s))))"

definition properties_entry :: "properties_adapter \<Rightarrow> string \<times> string \<Rightarrow> string" where
  "properties_entry a = (\<lambda>(k, v). escapePropertiesKey k @ Separator a @ escapePropertiesValue v)"

definition properties_marshal :: "properties_adapter \<Rightarrow> string gomap \<Rightarrow> err + string" where
  "properties_marshal a data = Inr (concat (map (\<lambda>kv. properties_entry a kv @ [newline]) (entries data)))"

section \<open>Reading\<close>

definition trailingBackslashes :: "string \<Rightarrow> nat" where
  "trailingBackslashes s = length (takeWhile (\<lambda>c. c = bs) (rev s))"

definition isPropertiesSpace :: "char \<Rightarrow> bool" where
  "isPropertiesSpace c \<longleftrightarrow> c = CHR '' '' \<or> c = tab"

text \<open>The second loop of \<open>trimPropertiesSpace\<close>, on the reversed text.\<close>

fun trim_end :: "string \<Rightarrow> string" where
  "trim_end [] = []"
| "trim_end (c # cs) =
     (if isPropertiesSpace c
      then if odd (trailingBackslashes (rev cs)) then c # cs else trim_end cs
      else c # cs)"

definition trimPropertiesSpace :: "string \<Rightarrow> string" where
  "trimPropertiesSpace s = rev (trim_end (rev (dropWhile isPropertiesSpace s)))"

fun separator_from :: "bool \<Rightarrow> nat \<Rightarrow> string \<Rightarrow> nat option" where
  "separator_from escaped i [] = None"
| "separator_from escaped i (c # cs) =
     (if escaped then separator_from False (Suc i) cs
      else if c = bs then separator_from True (Suc i) cs
      else if c = CHR ''='' \<or> c = CHR '':'' then Some i
      else if c = CHR '' '' \<and> i > 0 then Some i
      else separator_from False (Suc i) cs)"

definition propertiesSeparatorIndex :: "string \<Rightarrow> nat option" where
  "propertiesSeparatorIndex line = separator_from False 0 line"

definition hex_digit :: "char \<Rightarrow> nat option" where
  "hex_digit c = (let n = of_char c in
     if 48 \<le> n \<and> n \<le> 57 then Some (n - 48)
     else if 97 \<le> n \<and> n \<le> 102 then Some (n - 87)
     else if 65 \<le> n \<and> n \<le> 70 then Some (n - 55)
     else None)"

definition parseHexQuad :: "string \<Rightarrow> nat option" where
  "parseHexQuad rs =
     (if length rs < 5 \<or> hd rs \<noteq> CHR ''u'' then None
      else fold (\<lambda>c acc. Option.bind acc (\<lambda>n. map_option (\<lambda>d. 16 * n + d) (hex_digit c))) (take 4 (tl rs)) (Some 0))"

definition IsSurrogate :: "nat \<Rightarrow> bool" where
  "IsSurrogate u \<longleftrightarrow> 0xD800 \<le> u \<and> u < 0xE000"

text \<open>\<open>utf16.DecodeRune\<close>: \<open>None\<close> is the replacement character.\<close>

definition DecodeRune :: "nat \<Rightarrow> nat \<Rightarrow> nat option" where
  "DecodeRune u low =
     (if 0xD800 \<le> u \<and> u < 0xDC00 \<and> 0xDC00 \<le> low \<and> low < 0xE000
      then Some ((u - 0xD800) * 1024 + (low - 0xDC00) + 0x10000) else None)"

definition decodePropertiesUnicode :: "string \<Rightarrow> (nat \<times> nat) option" where
  "decodePropertiesUnicode rs =
     (case parseHexQuad rs of
        None \<Rightarrow> None
      | Some unit \<Rightarrow>
          if \<not> IsSurrogate unit then Some (unit, 5)
          else if length rs < 7 \<or> rs ! 5 \<noteq> bs \<or> rs ! 6 \<noteq> CHR ''u'' then None
          else (case parseHexQuad (drop 6 rs) of
              None \<Rightarrow> None
            | Some low \<Rightarrow> map_option (\<lambda>u. (u, 11)) (DecodeRune unit low)))"

text \<open>The loop over the runes, on their bytes.\<close>

function unescape_runes :: "string \<Rightarrow> string" where
  "unescape_runes [] = []"
| "unescape_runes [c] = [c]"
| "unescape_runes (c # d # rs) =
     (if c \<noteq> bs then c # unescape_runes (d # rs)
      else if d = CHR ''n'' then newline # unescape_runes rs
      else if d = CHR ''r'' then carriage_return # unescape_runes rs
      else if d = CHR ''t'' then tab # unescape_runes rs
      else if d = CHR ''u''
      then (case decodePropertiesUnicode (d # rs) of
          None \<Rightarrow> c # unescape_runes (d # rs)
        | Some (u, width) \<Rightarrow> utf8 u @ unescape_runes (drop width (d # rs)))
      else if d \<in> set [bs, CHR ''='', CHR '':'', CHR '' '', CHR ''#'', CHR ''!'']
      then d # unescape_runes rs
      else c # unescape_runes (d # rs))"
  by pat_completeness auto

termination unescape_runes
  by (relation "measure length") auto

definition unescapeProperties :: "string \<Rightarrow> string" where
  "unescapeProperties s = unescape_runes (rune_text s)"

definition parsePropertiesLine :: "string \<Rightarrow> string gomap \<Rightarrow> string gomap" where
  "parsePropertiesLine raw result =
     (let line = trimPropertiesSpace raw
      in if line = [] \<or> hd line = CHR ''#'' \<or> hd line = CHR ''!'' then result
         else (case propertiesSeparatorIndex line of
             None \<Rightarrow> fmupd (unescapeProperties line) [] result
           | Some i \<Rightarrow>
               fmupd (unescapeProperties (trimPropertiesSpace (take i line)))
                 (unescapeProperties (trimPropertiesSpace (drop (Suc i) line))) result))"

text \<open>The scanning loop; \<open>continued\<close> is the text of an entry whose last line asked for another one.\<close>

fun properties_lines :: "string option \<Rightarrow> string list \<Rightarrow> string gomap \<Rightarrow> string gomap" where
  "properties_lines None [] result = result"
| "properties_lines (Some text) [] result = parsePropertiesLine text result"
| "properties_lines continued (l # ls) result =
     (let line = (case continued of None \<Rightarrow> l | Some _ \<Rightarrow> dropWhile isPropertiesSpace l);
          joined = (case continued of None \<Rightarrow> [] | Some text \<Rightarrow> text)
      in if odd (trailingBackslashes line)
         then properties_lines (Some (joined @ butlast line)) ls result
         else properties_lines None ls (parsePropertiesLine (joined @ line) result))"

definition scan_failed :: err where
  "scan_failed = parseError ''properties'' (Wrapped (FmtErrorf ''failed to scan properties'') (Some ErrTooLong))"

definition properties_unmarshal :: "string \<Rightarrow> err + string gomap" where
  "properties_unmarshal data =
     (case scan_lines data of
        (ls, True) \<Rightarrow> Inl scan_failed
      | (ls, False) \<Rightarrow> Inr (properties_lines None ls fmempty))"

section \<open>Spellings\<close>

text \<open>
  What the adapter writes for a text is a sequence of characters, each as it is or behind a backslash.
\<close>

definition escapable :: "char set" where
  "escapable = {bs, CHR ''='', CHR '':'', CHR '' '', CHR ''#'', CHR ''!'', newline, carriage_return, tab}"

definition behind :: "char \<Rightarrow> char" where
  "behind c = (if c = newline then CHR ''n'' else if c = carriage_return then CHR ''r''
     else if c = tab then CHR ''t'' else c)"

definition spelled :: "char \<times> bool \<Rightarrow> string" where
  "spelled = (\<lambda>(c, e). if e then [bs, behind c] else [c])"

definition spell :: "(char \<times> bool) list \<Rightarrow> string" where
  "spell ts = concat (map spelled ts)"

definition spellable :: "char \<times> bool \<Rightarrow> bool" where
  "spellable = (\<lambda>(c, e). if e then c \<in> escapable else c \<notin> {bs, newline, carriage_return, tab})"

lemma spell_simps [simp]:
  "spell [] = []" "spell (t # ts) = spelled t @ spell ts" "spell (ts @ us) = spell ts @ spell us"
  by (simp_all add: spell_def)

lemmas text_chars = char_defs bs_def

text \<open>Reading a spelling back.\<close>

lemma unescape_raw: "c \<noteq> bs \<Longrightarrow> unescape_runes (c # rest) = c # unescape_runes rest"
  by (cases rest) simp_all

lemma unescape_escaped: "c \<in> escapable \<Longrightarrow> unescape_runes (bs # behind c # rest) = c # unescape_runes rest"
  by (auto simp: escapable_def behind_def text_chars)

lemma escapable_ascii: "c \<in> escapable \<Longrightarrow> ascii c \<and> ascii (behind c)" and bs_ascii: "ascii bs"
  by (auto simp: escapable_def behind_def text_chars ascii_def)

interpretation properties_reader: rune_reader unescape_runes
proof
  show "unescape_runes (c # r) = c # unescape_runes r" if "\<not> ascii c" for c r
    using that bs_ascii by (intro unescape_raw) auto
qed simp

lemma spelled_read_back: "spellable t \<Longrightarrow> read_back unescape_runes (fst t) (spelled t)"
  by (cases t) (auto simp: read_back_def spellable_def spelled_def unescape_escaped unescape_raw bs_ascii
      escapable_ascii simp del: unescape_runes.simps(3))

lemma unescape_spell: "list_all spellable ts \<Longrightarrow> unescapeProperties (spell ts) = rune_text (map fst ts)"
  unfolding unescapeProperties_def spell_def
  by (intro properties_reader.reads_written) (simp add: list_all_iff spelled_read_back)

text \<open>The end of a spelling: no open escape, and white space only behind a backslash.\<close>

lemma trailing_snoc [simp]:
  "trailingBackslashes [] = 0"
  "trailingBackslashes (s @ [c]) = (if c = bs then Suc (trailingBackslashes s) else 0)"
  by (simp_all add: trailingBackslashes_def)

lemma trailing_even: "list_all spellable ts \<Longrightarrow> even (trailingBackslashes (spell ts))"
proof (induction ts rule: rev_induct)
  case (snoc t ts)
  obtain c e where t: "t = (c, e)" by fastforce
  show ?case
  proof (cases e)
    case True
    have "trailingBackslashes ((spell ts @ [bs]) @ [behind c]) =
        (if behind c = bs then Suc (Suc (trailingBackslashes (spell ts))) else 0)"
      by (simp only: trailing_snoc simp_thms if_True)
    with snoc t True show ?thesis by (simp add: spelled_def)
  next
    case False
    with snoc t show ?thesis by (simp add: spelled_def spellable_def)
  qed
qed simp

definition raw_space :: "char \<times> bool \<Rightarrow> bool" where
  "raw_space t \<longleftrightarrow> t = (CHR '' '', False)"

definition tight :: "(char \<times> bool) list \<Rightarrow> bool" where
  "tight ts \<longleftrightarrow> ts = [] \<or> \<not> raw_space (hd ts) \<and> \<not> raw_space (last ts)"

lemma spell_head:
  assumes "spellable t" and "\<not> raw_space t"
  shows "\<exists>c r. spelled t = c # r \<and> \<not> isPropertiesSpace c"
  using assms
  by (cases t) (auto simp: spelled_def spellable_def raw_space_def isPropertiesSpace_def text_chars split: if_splits)

lemma trim_end_spell:
  assumes "list_all spellable ts" and "ts \<noteq> []" and "\<not> raw_space (last ts)"
  shows "trim_end (rev (spell ts)) = rev (spell ts)"
proof -
  obtain us t where ts: "ts = us @ [t]" using assms(2) by (metis append_butlast_last_id)
  obtain c e where t: "t = (c, e)" by fastforce
  show ?thesis
  proof (cases e)
    case True
    have "odd (trailingBackslashes (spell us @ [bs]))"
      using trailing_even [of us] assms(1) ts by simp
    with ts t True show ?thesis by (simp add: spelled_def)
  next
    case False
    with assms ts t have "\<not> isPropertiesSpace c"
      by (auto simp: spellable_def raw_space_def isPropertiesSpace_def)
    with ts t False show ?thesis by (simp add: spelled_def)
  qed
qed

lemma trim_spell:
  assumes "list_all spellable ts" and "tight ts"
  shows "trimPropertiesSpace (spell ts) = spell ts"
proof (cases ts)
  case Nil
  then show ?thesis by (simp add: trimPropertiesSpace_def)
next
  case (Cons t us)
  with assms have t: "spellable t" "\<not> raw_space t" and last: "\<not> raw_space (last ts)"
    by (auto simp: tight_def)
  from spell_head [OF t] obtain c r where "spelled t = c # r" "\<not> isPropertiesSpace c" by blast
  then have "dropWhile isPropertiesSpace (spell ts) = spell ts" using Cons by simp
  with trim_end_spell [OF assms(1) _ last] Cons show ?thesis by (simp add: trimPropertiesSpace_def)
qed

text \<open>The separator is the first character of the line that could be one.\<close>

definition key_token :: "char \<times> bool \<Rightarrow> bool" where
  "key_token = (\<lambda>(c, e). e \<longleftrightarrow> c \<in> escapable)"

lemma separator_spell:
  "list_all key_token ts \<Longrightarrow> separator_from False i (spell ts @ CHR ''='' # rest) = Some (i + length (spell ts))"
proof (induction ts arbitrary: i)
  case Nil
  then show ?case by (simp add: text_chars)
next
  case (Cons t ts)
  obtain c e where t: "t = (c, e)" by fastforce
  from Cons t show ?case
    by (cases e) (auto simp: spelled_def key_token_def escapable_def)
qed

section \<open>The writer spells\<close>

lemma escapePropertiesKey_spell: "escapePropertiesKey s = spell (map (\<lambda>c. (c, c \<in> escapable)) s)"
proof -
  let ?f = "\<lambda>x. ReplaceAll tab (bs # ''t'') (ReplaceAll carriage_return (bs # ''r'') (ReplaceAll newline (bs # ''n'')
     (ReplaceAll CHR ''!'' (bs # ''!'') (ReplaceAll CHR ''#'' (bs # ''#'') (ReplaceAll CHR '' '' (bs # '' '')
     (ReplaceAll CHR '':'' (bs # '':'') (ReplaceAll CHR ''='' (bs # ''='') (if x = bs then [bs, bs] else [x]))))))))"
  have "charwise escapePropertiesKey ?f"
    unfolding escapePropertiesKey_def by (intro charwise_next charwise_one)
  moreover have "?f c = spelled (c, c \<in> escapable)" for c
    by (cases "c \<in> escapable") (auto simp: escapable_def spelled_def behind_def text_chars)
  ultimately show ?thesis by (simp add: charwise_def spell_def comp_def)
qed

definition value_tokens :: "string \<Rightarrow> (char \<times> bool) list" where
  "value_tokens s = map (\<lambda>c. (c, c \<in> {bs, newline, carriage_return, tab})) s"

lemma value_tokens_append: "value_tokens (s @ t) = value_tokens s @ value_tokens t"
  by (simp add: value_tokens_def)

lemma value_escapes_spell:
  "ReplaceAll tab (bs # ''t'') (ReplaceAll carriage_return (bs # ''r'') (ReplaceAll newline (bs # ''n'')
     (ReplaceAll bs [bs, bs] s))) = spell (value_tokens s)"
proof -
  let ?f = "\<lambda>x. ReplaceAll tab (bs # ''t'') (ReplaceAll carriage_return (bs # ''r'') (ReplaceAll newline (bs # ''n'')
     (if x = bs then [bs, bs] else [x])))"
  have "charwise (\<lambda>s. ReplaceAll tab (bs # ''t'') (ReplaceAll carriage_return (bs # ''r'')
      (ReplaceAll newline (bs # ''n'') (ReplaceAll bs [bs, bs] s)))) ?f"
    by (intro charwise_next charwise_one)
  moreover have "?f c = spelled (c, c \<in> {bs, newline, carriage_return, tab})" for c
    by (auto simp: spelled_def behind_def text_chars)
  ultimately show ?thesis by (simp add: charwise_def spell_def value_tokens_def comp_def)
qed

text \<open>A text between its edge spaces.\<close>

definition framed :: "nat \<Rightarrow> string \<Rightarrow> nat \<Rightarrow> bool" where
  "framed n m k \<longleftrightarrow> (if m = [] then k = 0 else hd m \<noteq> CHR '' '' \<and> last m \<noteq> CHR '' '')"

lemma edge_split: "\<exists>n m k. s = replicate n CHR '' '' @ m @ replicate k CHR '' '' \<and> framed n m k"
proof -
  let ?sp = "\<lambda>c. c = CHR '' ''"
  let ?rest = "dropWhile ?sp s"
  have reps: "takeWhile ?sp x = replicate (length (takeWhile ?sp x)) CHR '' ''" for x
    by (induction x) auto
  define m k where "m = rev (dropWhile ?sp (rev ?rest))" and "k = length (takeWhile ?sp (rev ?rest))"
  have rest: "?rest = m @ replicate k CHR '' ''"
    unfolding m_def k_def by (metis reps rev_append rev_replicate rev_rev_ident takeWhile_dropWhile_id)
  have s: "s = replicate (length (takeWhile ?sp s)) CHR '' '' @ ?rest"
    using reps [of s] by (metis takeWhile_dropWhile_id)
  have "framed n m k" for n
  proof (cases "?rest = []")
    case True
    then have "m = []" and "k = 0" unfolding m_def k_def by (simp_all only: dropWhile.simps takeWhile.simps rev.simps list.size)
    then show ?thesis by (simp add: framed_def)
  next
    case False
    have hd: "hd ?rest \<noteq> CHR '' ''" using hd_dropWhile [OF False] by simp
    then have "\<exists>x \<in> set ?rest. x \<noteq> CHR '' ''" using False hd_in_set [OF False] by blast
    then have ne': "dropWhile ?sp (rev ?rest) \<noteq> []" by (simp only: dropWhile_eq_Nil_conv set_rev) blast
    then have ne: "m \<noteq> []" by (simp only: m_def rev_is_Nil_conv not_False_eq_True)
    have "last m = hd (dropWhile ?sp (rev ?rest))" unfolding m_def by (rule last_rev)
    with hd_dropWhile [OF ne'] have "last m \<noteq> CHR '' ''" by simp
    moreover have "hd ?rest = hd m" by (subst rest) (simp only: hd_append2 [OF ne])
    with hd have "hd m \<noteq> CHR '' ''" by simp
    ultimately show ?thesis using ne by (simp add: framed_def)
  qed
  with s rest show ?thesis by metis
qed

lemma takeWhile_spaces:
  "m = [] \<or> hd m \<noteq> c \<Longrightarrow> takeWhile (\<lambda>x. x = c) (replicate n c @ m) = replicate n c"
  by (cases m) (simp_all add: takeWhile_append)

lemma escapeEdgeSpaces_framed:
  assumes "framed n m k"
  shows "escapeEdgeSpaces (replicate n CHR '' '' @ m @ replicate k CHR '' '') =
    concat (replicate n (bs # '' '')) @ m @ concat (replicate k (bs # '' ''))"
proof -
  let ?sp = "\<lambda>c. c = CHR '' ''"
  have "m @ replicate k CHR '' '' = [] \<or> hd (m @ replicate k CHR '' '') \<noteq> CHR '' ''"
    using assms by (auto simp: framed_def split: if_splits)
  then have lead: "takeWhile ?sp (replicate n CHR '' '' @ m @ replicate k CHR '' '') = replicate n CHR '' ''"
    by (rule takeWhile_spaces)
  have "rev m = [] \<or> hd (rev m) \<noteq> CHR '' ''"
    using assms by (auto simp: framed_def hd_rev split: if_splits)
  then have "takeWhile ?sp (replicate k CHR '' '' @ rev m) = replicate k CHR '' ''"
    by (rule takeWhile_spaces)
  with lead show ?thesis by (simp add: escapeEdgeSpaces_def Let_def)
qed

lemma spell_edges:
  assumes "list_all (\<lambda>(c, e). e \<longrightarrow> behind c \<noteq> CHR '' '') ts" and "ts \<noteq> []"
    and "\<not> raw_space (hd ts)" and "\<not> raw_space (last ts)"
  shows "hd (spell ts) \<noteq> CHR '' ''" and "last (spell ts) \<noteq> CHR '' ''"
proof -
  have "hd (spelled t) \<noteq> CHR '' ''" if "\<not> raw_space t" for t
    using that by (cases t) (auto simp: spelled_def raw_space_def text_chars)
  moreover have "spelled t \<noteq> []" for t by (cases t) (simp add: spelled_def)
  ultimately show "hd (spell ts) \<noteq> CHR '' ''" using assms by (cases ts) simp_all
  have "last (spelled t) \<noteq> CHR '' ''" if "t \<in> set ts" "\<not> raw_space t" for t
  proof -
    obtain c e where t: "t = (c, e)" by fastforce
    with that assms(1) have "e \<longrightarrow> behind c \<noteq> CHR '' ''" by (auto simp: list_all_iff)
    with that(2) t show ?thesis by (auto simp: spelled_def raw_space_def)
  qed
  moreover obtain us t where "ts = us @ [t]" using assms(2) by (metis append_butlast_last_id)
  ultimately show "last (spell ts) \<noteq> CHR '' ''"
    using assms(4) \<open>\<And>t. spelled t \<noteq> []\<close> by simp
qed

lemma spell_replicate: "spell (replicate n (CHR '' '', True)) = concat (replicate n (bs # '' ''))"
  by (induction n) (simp_all add: spelled_def behind_def text_chars)

lemma escapePropertiesValue_spell:
  "\<exists>ts. escapePropertiesValue s = spell ts \<and> map fst ts = s \<and> list_all spellable ts \<and> tight ts"
proof -
  obtain n m k where s: "s = replicate n CHR '' '' @ m @ replicate k CHR '' ''" and fr: "framed n m k"
    using edge_split by blast
  have vt: "value_tokens (replicate n CHR '' '') = replicate n (CHR '' '', False)" for n
    by (simp add: value_tokens_def text_chars)
  have raw: "spell (replicate n (CHR '' '', False)) = replicate n CHR '' ''" for n
    by (induction n) (simp_all add: spelled_def)
  have sp: "spell (value_tokens s) = replicate n CHR '' '' @ spell (value_tokens m) @ replicate k CHR '' ''"
    unfolding s value_tokens_append using vt raw by simp
  have fr': "framed n (spell (value_tokens m)) k"
  proof (cases "m = []")
    case True
    with fr show ?thesis by (simp add: framed_def value_tokens_def)
  next
    case False
    have ok: "list_all (\<lambda>(c, e). e \<longrightarrow> behind c \<noteq> CHR '' '') (value_tokens m)"
      by (auto simp: value_tokens_def list_all_iff behind_def text_chars)
    have ne: "value_tokens m \<noteq> []" using False by (simp add: value_tokens_def)
    have ends: "\<not> raw_space (hd (value_tokens m))" "\<not> raw_space (last (value_tokens m))"
      using fr False by (simp_all add: framed_def value_tokens_def raw_space_def hd_map last_map)
    have "spell (value_tokens m) \<noteq> []" using ne by (cases "value_tokens m") (auto simp: spelled_def split: prod.split)
    with spell_edges [OF ok ne ends] show ?thesis by (simp add: framed_def)
  qed
  let ?ts = "replicate n (CHR '' '', True) @ value_tokens m @ replicate k (CHR '' '', True)"
  have "escapePropertiesValue s = spell ?ts"
    by (simp add: escapePropertiesValue_def value_escapes_spell sp escapeEdgeSpaces_framed [OF fr'] spell_replicate)
  moreover have "map fst ?ts = s" by (simp add: s value_tokens_def comp_def)
  moreover have "list_all spellable ?ts"
    by (auto simp: list_all_iff spellable_def value_tokens_def escapable_def)
  moreover have "tight ?ts"
    using fr by (cases n; cases k; cases "m = []")
      (auto simp: tight_def raw_space_def framed_def value_tokens_def hd_append last_map hd_map)
  ultimately show ?thesis by blast
qed

section \<open>Round trip\<close>

definition key_tokens :: "string \<Rightarrow> (char \<times> bool) list" where
  "key_tokens k = map (\<lambda>c. (c, c \<in> escapable)) k"

lemma key_tokens_ok: "list_all spellable (key_tokens k)" "list_all key_token (key_tokens k)" "tight (key_tokens k)"
  "map fst (key_tokens k) = k"
proof -
  show "list_all spellable (key_tokens k)" "list_all key_token (key_tokens k)" "map fst (key_tokens k) = k"
    by (auto simp: key_tokens_def list_all_iff spellable_def key_token_def escapable_def comp_def)
  have "CHR '' '' \<in> escapable" by (simp add: escapable_def)
  then show "tight (key_tokens k)"
    by (cases "k = []") (auto simp: key_tokens_def tight_def raw_space_def hd_map last_map)
qed

lemma equal_sign: "CHR ''='' \<in> escapable" "CHR ''#'' \<in> escapable" "CHR ''!'' \<in> escapable"
  "spellable (CHR ''='', False)" "\<not> raw_space (CHR ''='', False)" "spelled (CHR ''='', False) = ''=''"
  by (simp_all add: escapable_def spellable_def raw_space_def spelled_def text_chars)

definition line_tokens :: "string \<Rightarrow> (char \<times> bool) list \<Rightarrow> (char \<times> bool) list" where
  "line_tokens k vs = key_tokens k @ (CHR ''='', False) # vs"

lemma line_tokens_ok:
  assumes "list_all spellable vs" and "tight vs"
  shows "list_all spellable (line_tokens k vs)" and "tight (line_tokens k vs)"
proof -
  show "list_all spellable (line_tokens k vs)"
    using assms key_tokens_ok(1) equal_sign(4) by (simp add: line_tokens_def)
  have "\<not> raw_space (hd (line_tokens k vs))"
    using key_tokens_ok(3) [of k] equal_sign(5) by (auto simp: line_tokens_def tight_def hd_append)
  moreover have "\<not> raw_space (last (line_tokens k vs))"
    using assms(2) equal_sign(5) by (auto simp: line_tokens_def tight_def)
  ultimately show "tight (line_tokens k vs)" by (simp add: tight_def)
qed

lemma line_no_comment: "hd (spell (line_tokens k vs)) \<noteq> CHR ''#'' \<and> hd (spell (line_tokens k vs)) \<noteq> CHR ''!''"
proof (cases k)
  case Nil
  then show ?thesis by (simp add: line_tokens_def key_tokens_def equal_sign(6))
next
  case (Cons c cs)
  have "bs \<noteq> CHR ''#''" "bs \<noteq> CHR ''!''" by (simp_all add: text_chars)
  with Cons equal_sign(2,3) show ?thesis
    by (cases "c \<in> escapable") (auto simp: line_tokens_def key_tokens_def spelled_def)
qed

lemma parse_line_tokens:
  assumes vs: "list_all spellable vs" "tight vs"
  shows "parsePropertiesLine (spell (line_tokens k vs)) m = fmupd (rune_text k) (rune_text (map fst vs)) m"
proof -
  let ?line = "spell (line_tokens k vs)" and ?key = "spell (key_tokens k)"
  have line: "?line = ?key @ CHR ''='' # spell vs" by (simp add: line_tokens_def equal_sign(6))
  have "trimPropertiesSpace ?line = ?line"
    by (intro trim_spell line_tokens_ok vs)
  moreover have "propertiesSeparatorIndex ?line = Some (length ?key)"
    unfolding propertiesSeparatorIndex_def line using separator_spell [OF key_tokens_ok(2), of 0] by simp
  moreover have "take (length ?key) ?line = ?key" "drop (Suc (length ?key)) ?line = spell vs" "?line \<noteq> []"
    by (simp_all add: line)
  moreover have "trimPropertiesSpace ?key = ?key" "trimPropertiesSpace (spell vs) = spell vs"
    by (intro trim_spell key_tokens_ok vs)+
  moreover have "unescapeProperties ?key = rune_text k" "unescapeProperties (spell vs) = rune_text (map fst vs)"
    by (simp_all add: unescape_spell key_tokens_ok vs)
  ultimately show ?thesis using line_no_comment [of k vs] by (simp add: parsePropertiesLine_def Let_def)
qed

lemma spell_plain: "list_all spellable ts \<Longrightarrow> plain_line (spell ts)"
proof (induction ts)
  case (Cons t ts)
  obtain c e where t: "t = (c, e)" by fastforce
  have "behind c \<noteq> newline" "behind c \<noteq> carriage_return" "bs \<noteq> newline" "bs \<noteq> carriage_return"
    by (simp_all add: behind_def text_chars)
  with Cons t show ?case by (auto simp: plain_line_def spelled_def spellable_def)
qed (simp add: plain_line_def)

lemma entry_tokens:
  "\<exists>vs. properties_entry NewPropertiesAdapter (k, v) = spell (line_tokens k vs) \<and> map fst vs = v \<and>
     list_all spellable vs \<and> tight vs"
  using escapePropertiesValue_spell [of v]
  by (auto simp: properties_entry_def NewPropertiesAdapter_def escapePropertiesKey_spell line_tokens_def
      key_tokens_def equal_sign(6))

lemma entry_plain: "plain_line (properties_entry NewPropertiesAdapter kv)"
proof -
  obtain k v where "kv = (k, v)" by fastforce
  with entry_tokens [of k v] show ?thesis using spell_plain line_tokens_ok(1) by auto
qed

lemma read_entry:
  "properties_lines None (properties_entry NewPropertiesAdapter (k, v) # ls) m = properties_lines None ls (fmupd (rune_text k) (rune_text v) m)"
proof -
  from entry_tokens [of k v] obtain vs where
    line: "properties_entry NewPropertiesAdapter (k, v) = spell (line_tokens k vs)" and
    vs: "map fst vs = v" "list_all spellable vs" "tight vs" by blast
  have "even (trailingBackslashes (spell (line_tokens k vs)))"
    by (intro trailing_even line_tokens_ok vs)
  with line vs parse_line_tokens [OF vs(2,3), of k m] show ?thesis by simp
qed

text \<open>A map as the reader hands it out: every key and value without its invalid bytes.\<close>

definition runes_of :: "(string \<times> string) list \<Rightarrow> (string \<times> string) list" where
  "runes_of kvs = map (\<lambda>(k, v). (rune_text k, rune_text v)) kvs"

definition valid_texts :: "string gomap \<Rightarrow> bool" where
  "valid_texts data \<longleftrightarrow> list_all (\<lambda>(k, v). valid_utf8 k \<and> valid_utf8 v) (entries data)"

lemma runes_of_valid: "valid_texts data \<Longrightarrow> runes_of (entries data) = entries data"
  unfolding valid_texts_def runes_of_def by (intro map_idI) (auto simp: list_all_iff rune_text_valid)

lemma read_entries:
  "properties_lines None (map (properties_entry NewPropertiesAdapter) kvs) m = put_all (runes_of kvs) m"
  by (induction kvs arbitrary: m) (auto simp del: properties_lines.simps(3) simp: read_entry runes_of_def)

text \<open>Reading what the adapter wrote; a line too long for the scanner fails the whole read.\<close>

lemma properties_codec:
  "\<exists>out. properties_marshal NewPropertiesAdapter data = Inr out \<and>
     properties_unmarshal out =
       (if list_all short_line (map (properties_entry NewPropertiesAdapter) (entries data))
        then Inr (put_all (runes_of (entries data)) fmempty) else Inl scan_failed)"
proof -
  let ?ls = "map (properties_entry NewPropertiesAdapter) (entries data)"
  let ?out = "concat (map as_line ?ls)"
  have "properties_marshal NewPropertiesAdapter data = Inr ?out"
    by (simp add: properties_marshal_def as_line_def comp_def)
  moreover have "list_all plain_line ?ls" by (simp add: list_all_iff entry_plain)
  then have scan: "scan_lines ?out = (takeWhile short_line ?ls, \<not> list_all short_line ?ls)"
    by (rule scan_as_lines)
  have "properties_unmarshal ?out =
      (if list_all short_line ?ls then Inr (put_all (runes_of (entries data)) fmempty) else Inl scan_failed)"
  proof (cases "list_all short_line ?ls")
    case True
    then have "takeWhile short_line ?ls = ?ls" by (simp add: takeWhile_eq_all_conv list_all_iff)
    with True scan show ?thesis by (simp add: properties_unmarshal_def read_entries)
  next
    case False
    with scan show ?thesis by (simp add: properties_unmarshal_def)
  qed
  ultimately show ?thesis by blast
qed

text \<open>
  C28. Reading what the adapter wrote gives the map back, whatever its keys and values hold, as long as they are
  valid UTF-8 and every written line fits the scanner's buffer of 64 KiB; a longer line makes the whole read an
  error. Of keys and values that are not valid UTF-8 the reader hands out what the conversion to runes leaves,
  entry after entry: every invalid byte has become the replacement character.
\<close>

theorem properties_roundtrip:
  "\<exists>out. properties_marshal NewPropertiesAdapter data = Inr out \<and>
     properties_unmarshal out =
       (if \<not> list_all short_line (map (properties_entry NewPropertiesAdapter) (entries data)) then Inl scan_failed
        else if list_all (\<lambda>(k, v). valid_utf8 k \<and> valid_utf8 v) (entries data) then Inr data
        else Inr (put_all (runes_of (entries data)) fmempty))"
  using properties_codec [of data] runes_of_valid [of data] by (auto simp: valid_texts_def fold_upd_entries)

text \<open>A value with a byte that is not UTF-8 comes back changed.\<close>

lemma invalid_byte_replaced:
  "parsePropertiesLine (properties_entry NewPropertiesAdapter (''k'', [CHR 0xFF])) fmempty = fmupd ''k'' replacement fmempty"
proof -
  obtain vs where vs: "properties_entry NewPropertiesAdapter (''k'', [CHR 0xFF]) = spell (line_tokens ''k'' vs) \<and>
      map fst vs = [CHR 0xFF] \<and> list_all spellable vs \<and> tight vs"
    using entry_tokens by (rule exE)
  have "rune_text ''k'' = ''k''" using rune_text_ascii [of "CHR ''k''" "[]"] by (simp add: ascii_def)
  with vs parse_line_tokens [of vs "''k''" fmempty] show ?thesis by (simp only: rune_text_invalid simp_thms)
qed

end
