(* ===== verification/LogFiles.thy ===== *)
theory LogFiles
  imports Logging Vector PropertiesFormat "HOL-Library.Word"
begin

text \<open>
  The logging configuration files: \<open>pkg/productlogging/generator.go\<close> and the rendering part of
  \<open>logging.go\<close> (\<open>RenderConfigFile\<close>, \<open>LogConfigFromSpec\<close>, the generators).
\<close>

section \<open>Levels and options\<close>

definition LogLevelTrace :: string where "LogLevelTrace = ''TRACE''"
definition LogLevelDebug :: string where "LogLevelDebug = ''DEBUG''"
definition LogLevelInfo :: string where "LogLevelInfo = ''INFO''"
definition LogLevelWarn :: string where "LogLevelWarn = ''WARN''"
definition LogLevelError :: string where "LogLevelError = ''ERROR''"
definition LogLevelFatal :: string where "LogLevelFatal = ''FATAL''"

record log_config =
  RootLevel :: string
  Loggers :: "string gomap"
  ConsoleLevel :: string
  FileLevel :: string

record render_options =
  ro_pattern :: string
  FileOutputPath :: string
  MaxFileSize :: string
  MaxHistory :: int

definition plain_options :: "string \<Rightarrow> render_options" where
  "plain_options pattern = \<lparr>ro_pattern = pattern, FileOutputPath = [], MaxFileSize = [], MaxHistory = 0\<rparr>"

definition boundedFileDefaults :: "string \<Rightarrow> int \<Rightarrow> string \<times> int" where
  "boundedFileDefaults maxFileSize maxHistory =
     (if maxFileSize = [] then ''5MB'' else maxFileSize, if maxHistory \<le> 0 then 1 else maxHistory)"

text \<open>\<open>strings.ToUpper\<close> on ASCII.\<close>

definition to_upper :: "char \<Rightarrow> char" where
  "to_upper c = (let n = of_char c :: nat in if 97 \<le> n \<and> n \<le> 122 then char_of (n - 32) else c)"

definition TrimSuffix :: "string \<Rightarrow> string \<Rightarrow> string" where
  "TrimSuffix s suffix = (if has_suffix s suffix then take (length s - length suffix) s else s)"

text \<open>The product of two 64-bit integers wraps.\<close>

definition mult64 :: "int \<Rightarrow> int \<Rightarrow> int" where
  "mult64 a b = sint (word_of_int (a * b) :: 64 word)"

definition parseSizeBytes :: "string \<Rightarrow> int \<Rightarrow> int" where
  "parseSizeBytes raw fallback =
     (let s = TrimSpace (map to_upper raw);
          (mult, body) =
            (if has_suffix s ''KB'' then (1024, TrimSuffix s ''KB'')
             else if has_suffix s ''MB'' then (1024 * 1024, TrimSuffix s ''MB'')
             else if has_suffix s ''GB'' then (1024 * 1024 * 1024, TrimSuffix s ''GB'')
             else (1, s))
      in case Atoi (TrimSpace body) of
           None \<Rightarrow> fallback
         | Some n \<Rightarrow> if n \<le> 0 then fallback else mult64 n mult)"

definition toPythonLogLevel :: "string \<Rightarrow> string" where
  "toPythonLogLevel level =
     (if level = LogLevelTrace then LogLevelDebug
      else if level = LogLevelDebug then LogLevelDebug
      else if level = LogLevelInfo then ''INFO''
      else if level = LogLevelWarn then ''WARNING''
      else if level = LogLevelError then ''ERROR''
      else if level = LogLevelFatal then ''CRITICAL''
      else ''INFO'')"

section \<open>Escapes\<close>

definition log_escapeXML :: "string \<Rightarrow> string" where
  "log_escapeXML s =
     ReplaceAll single_quote ''&apos;'' (ReplaceAll double_quote ''&quot;''
     (ReplaceAll CHR ''>'' ''&gt;'' (ReplaceAll CHR ''<'' ''&lt;'' (ReplaceAll CHR ''&'' ''&amp;'' s))))"

text \<open>\<open>strings.NewReplacer\<close> over single characters replaces each on its own.\<close>

definition replacer :: "(char \<times> string) list \<Rightarrow> string \<Rightarrow> string" where
  "replacer table s = concat (map (\<lambda>c. case map_of table c of None \<Rightarrow> [c] | Some r \<Rightarrow> r) s)"

definition escapePropertyKey :: "string \<Rightarrow> string" where
  "escapePropertyKey = replacer
     [(bs, [bs, bs]), (CHR ''='', bs # ''=''), (CHR '':'', bs # '':''), (CHR '' '', bs # '' ''),
      (tab, bs # ''t''), (newline, bs # ''n''), (carriage_return, bs # ''r'')]"

definition escapePropertyValue :: "string \<Rightarrow> string" where
  "escapePropertyValue s =
     (let t = replacer [(bs, [bs, bs]), (tab, bs # ''t''), (newline, bs # ''n''), (carriage_return, bs # ''r'')] s
      in if t \<noteq> [] \<and> hd t = CHR '' '' then bs # t else t)"

text \<open>One character per rune: the bytes that continue a rune give none.\<close>

definition rune_start :: "char \<Rightarrow> bool" where
  "rune_start c \<longleftrightarrow> (let n = of_char c :: nat in n < 0x80 \<or> 0xC0 \<le> n)"

definition escapeLoggerName :: "string \<Rightarrow> string" where
  "escapeLoggerName s = map (\<lambda>c.
     if CHR ''a'' \<le> c \<and> c \<le> CHR ''z'' \<or> CHR ''A'' \<le> c \<and> c \<le> CHR ''Z'' \<or> CHR ''0'' \<le> c \<and> c \<le> CHR ''9'' \<or> c = CHR ''_''
     then c else CHR ''_'') (filter rune_start (rune_text s))"

definition pythonQuote :: "string \<Rightarrow> string" where
  "pythonQuote s = [single_quote] @ concat (map (\<lambda>c.
     if c = bs then [bs, bs] else if c = single_quote then [bs, single_quote]
     else if c = newline then bs # ''n'' else if c = carriage_return then bs # ''r''
     else if c = tab then bs # ''t'' else [c]) (rune_text s)) @ [single_quote]"

section \<open>Identifiers of log4j2 loggers\<close>

text \<open>The search for a free identifier; \<open>None\<close> is a search that never ends.\<close>

definition numbered :: "string \<Rightarrow> nat \<Rightarrow> string" where
  "numbered ident i = ident @ ''_'' @ decimal i"

partial_function (option) free_number :: "string list \<Rightarrow> string \<Rightarrow> nat \<Rightarrow> string option" where
  "free_number taken ident i =
     (if numbered ident i \<in> set taken then free_number taken ident (Suc i) else Some (numbered ident i))"

definition unique_id :: "string list \<Rightarrow> string \<Rightarrow> string option" where
  "unique_id taken name =
     (let escaped = escapeLoggerName name; ident = (if escaped = [] then ''logger'' else escaped)
      in if ident \<in> set taken then free_number taken ident 2 else Some ident)"

fun logger_ids :: "string list \<Rightarrow> string list \<Rightarrow> string list option" where
  "logger_ids taken [] = Some taken"
| "logger_ids taken (name # names) =
     (case unique_id taken name of None \<Rightarrow> None | Some ident \<Rightarrow> logger_ids (taken @ [ident]) names)"

definition log4j2LoggerIDs :: "string list \<Rightarrow> string list option" where
  "log4j2LoggerIDs names = logger_ids [] names"

section \<open>Renderers\<close>

definition text_lines :: "string list \<Rightarrow> string" where
  "text_lines ls = concat (map as_line ls)"

definition or_default :: "string \<Rightarrow> string \<Rightarrow> string" where
  "or_default s d = (if s = [] then d else s)"

definition log4j_pattern :: string where
  "log4j_pattern = ''%d{yyyy-MM-dd HH:mm:ss} %-5p %c{1}:%L - %m%n''"

definition renderLog4j :: "log_config \<Rightarrow> render_options \<Rightarrow> string" where
  "renderLog4j cfg opts =
     (let pattern = or_default (ro_pattern opts) log4j_pattern;
          rootLevel = or_default (RootLevel cfg) LogLevelInfo;
          hasFile = FileOutputPath opts \<noteq> [];
          (maxFileSize, maxHistory) = boundedFileDefaults (MaxFileSize opts) (MaxHistory opts)
      in text_lines (
        [''# Log4j Configuration'',
         ''log4j.rootLogger='' @ escapePropertyValue rootLevel @ (if hasFile then '', CONSOLE, FILE'' else '', CONSOLE''),
         [], ''# Appenders'', ''log4j.appender.CONSOLE=org.apache.log4j.ConsoleAppender'']
        @ (if ConsoleLevel cfg \<noteq> []
           then [''log4j.appender.CONSOLE.Threshold='' @ escapePropertyValue (ConsoleLevel cfg)] else [])
        @ [''log4j.appender.CONSOLE.layout=org.apache.log4j.PatternLayout'',
           ''log4j.appender.CONSOLE.layout.ConversionPattern='' @ escapePropertyValue pattern]
        @ (if hasFile
           then [[], ''log4j.appender.FILE=org.apache.log4j.RollingFileAppender'']
             @ (if FileLevel cfg \<noteq> []
                then [''log4j.appender.FILE.Threshold='' @ escapePropertyValue (FileLevel cfg)] else [])
             @ [''log4j.appender.FILE.File='' @ escapePropertyValue (FileOutputPath opts),
                ''log4j.appender.FILE.MaxFileSize='' @ maxFileSize,
                ''log4j.appender.FILE.MaxBackupIndex='' @ int_text maxHistory,
                ''log4j.appender.FILE.layout=org.apache.log4j.xml.XMLLayout'']
           else [])
        @ (if entries (Loggers cfg) = [] then []
           else [[], ''# Loggers'']
             @ map (\<lambda>(name, level). ''log4j.logger.'' @ escapePropertyKey name @ ''='' @ escapePropertyValue level)
                 (entries (Loggers cfg)))))"

text \<open>The lines of one logger, under its identifier.\<close>

definition log4j2_logger :: "(string \<times> string) \<times> string \<Rightarrow> string list" where
  "log4j2_logger = (\<lambda>((name, level), ident).
     [''logger.'' @ ident @ ''.name='' @ escapePropertyValue name,
      ''logger.'' @ ident @ ''.level='' @ escapePropertyValue level, []])"

definition log4j2_head :: "log_config \<Rightarrow> render_options \<Rightarrow> string list" where
  "log4j2_head cfg opts =
     (let pattern = or_default (ro_pattern opts) log4j_pattern;
          rootLevel = or_default (RootLevel cfg) LogLevelInfo;
          hasFile = FileOutputPath opts \<noteq> [];
          (maxFileSize, maxHistory) = boundedFileDefaults (MaxFileSize opts) (MaxHistory opts)
      in [''# Log4j2 Configuration'', ''rootLogger.level='' @ escapePropertyValue rootLevel]
            @ (if hasFile
               then [''rootLogger.appenderRefs=stdout,file'', ''rootLogger.appenderRef.stdout.ref=STDOUT'',
                     ''rootLogger.appenderRef.file.ref=FILE'', []]
               else [''rootLogger.appenderRefs=stdout'', ''rootLogger.appenderRef.stdout.ref=STDOUT'', []])
            @ [''# Appenders'', (if hasFile then ''appenders=console,file'' else ''appenders=console''),
               ''appender.console.type=Console'', ''appender.console.name=STDOUT'',
               ''appender.console.layout.type=PatternLayout'',
               ''appender.console.layout.pattern='' @ escapePropertyValue pattern]
            @ (if ConsoleLevel cfg \<noteq> []
               then [''appender.console.filter.threshold.type=ThresholdFilter'',
                     ''appender.console.filter.threshold.level='' @ escapePropertyValue (ConsoleLevel cfg)]
               else [])
            @ [[]]
            @ (if hasFile
               then [''appender.file.type=RollingFile'', ''appender.file.name=FILE'',
                     ''appender.file.fileName='' @ escapePropertyValue (FileOutputPath opts),
                     ''appender.file.filePattern='' @ escapePropertyValue (FileOutputPath opts) @ ''.%i'',
                     ''appender.file.layout.type=XMLLayout'']
                 @ (if FileLevel cfg \<noteq> []
                    then [''appender.file.filter.threshold.type=ThresholdFilter'',
                          ''appender.file.filter.threshold.level='' @ escapePropertyValue (FileLevel cfg)]
                    else [])
                 @ [''appender.file.policies.type=Policies'',
                    ''appender.file.policies.size.type=SizeBasedTriggeringPolicy'',
                    ''appender.file.policies.size.size='' @ maxFileSize,
                    ''appender.file.strategy.type=DefaultRolloverStrategy'',
                    ''appender.file.strategy.max='' @ int_text maxHistory, []]
               else []))"

definition renderLog4j2 :: "log_config \<Rightarrow> render_options \<Rightarrow> string option" where
  "renderLog4j2 cfg opts =
     (let head = log4j2_head cfg opts
      in if entries (Loggers cfg) = [] then Some (text_lines head)
         else (case log4j2LoggerIDs (keys (Loggers cfg)) of
             None \<Rightarrow> None
           | Some ids \<Rightarrow> Some (text_lines (head
               @ [''# Loggers'', ''loggers='' @ join_strings '','' ids, []]
               @ concat (map log4j2_logger (zip (entries (Loggers cfg)) ids))))))"

definition logbackThresholdFilter :: "string \<Rightarrow> string list" where
  "logbackThresholdFilter level =
     (if level = [] then []
      else [''    <filter class=\"ch.qos.logback.classic.filter.ThresholdFilter\">'',
            ''      <level>'' @ log_escapeXML level @ ''</level>'', ''    </filter>''])"

definition logback_pattern :: string where
  "logback_pattern = ''%d{yyyy-MM-dd HH:mm:ss} %-5level %logger{36} - %msg%n''"

definition renderLogback :: "log_config \<Rightarrow> render_options \<Rightarrow> string" where
  "renderLogback cfg opts =
     (let pattern = log_escapeXML (or_default (ro_pattern opts) logback_pattern);
          hasFile = FileOutputPath opts \<noteq> [];
          (maxFileSize, maxHistory) = boundedFileDefaults (MaxFileSize opts) (MaxHistory opts)
      in text_lines (
        [''<?xml version=\"1.0\" encoding=\"UTF-8\"?>'', ''<configuration>'',
         ''  <appender name=\"STDOUT\" class=\"ch.qos.logback.core.ConsoleAppender\">'']
        @ logbackThresholdFilter (ConsoleLevel cfg)
        @ [''    <encoder>'', ''      <pattern>'' @ pattern @ ''</pattern>'', ''    </encoder>'', ''  </appender>'']
        @ (if hasFile
           then [[], ''  <appender name=\"FILE\" class=\"ch.qos.logback.core.rolling.RollingFileAppender\">'',
                 ''    <file>'' @ log_escapeXML (FileOutputPath opts) @ ''</file>'']
             @ logbackThresholdFilter (FileLevel cfg)
             @ [''    <encoder class=\"ch.qos.logback.core.encoder.LayoutWrappingEncoder\">'',
                ''      <layout class=\"ch.qos.logback.classic.log4j.XMLLayout\" />'',
                ''    </encoder>'',
                ''    <rollingPolicy class=\"ch.qos.logback.core.rolling.FixedWindowRollingPolicy\">'',
                ''      <minIndex>1</minIndex>'',
                ''      <maxIndex>'' @ int_text maxHistory @ ''</maxIndex>'',
                ''      <fileNamePattern>'' @ log_escapeXML (FileOutputPath opts) @ ''.%i</fileNamePattern>'',
                ''    </rollingPolicy>'',
                ''    <triggeringPolicy class=\"ch.qos.logback.core.rolling.SizeBasedTriggeringPolicy\">'',
                ''      <maxFileSize>'' @ maxFileSize @ ''</maxFileSize>'',
                ''    </triggeringPolicy>'', ''  </appender>'']
           else [])
        @ [[], ''  <root level=\"'' @ log_escapeXML (or_default (RootLevel cfg) LogLevelInfo) @ ''\">'',
           ''    <appender-ref ref=\"STDOUT\" />'']
        @ (if hasFile then [''    <appender-ref ref=\"FILE\" />''] else [])
        @ [''  </root>'']
        @ map (\<lambda>(name, level). ''  <logger name=\"'' @ log_escapeXML name @ ''\" level=\"'' @ log_escapeXML level @ ''\" />'')
            (entries (Loggers cfg))
        @ [''</configuration>'']))"

text \<open>A line whose text stands in single quotes; the marker is the character \<open>~\<close>.\<close>

definition py :: "string \<Rightarrow> string" where
  "py s = map (\<lambda>c. if c = CHR ''~'' then single_quote else c) s"

definition renderPython :: "log_config \<Rightarrow> render_options \<Rightarrow> string" where
  "renderPython cfg opts =
     (let rootLevel = toPythonLogLevel (RootLevel cfg);
          consoleLevel = (if ConsoleLevel cfg \<noteq> [] then toPythonLogLevel (ConsoleLevel cfg) else LogLevelDebug);
          fileLevel = (if FileLevel cfg \<noteq> [] then toPythonLogLevel (FileLevel cfg) else LogLevelDebug);
          hasFile = FileOutputPath opts \<noteq> [];
          (maxFileSize, maxHistory) = boundedFileDefaults (MaxFileSize opts) (MaxHistory opts)
      in text_lines (
        [''# Python Logging Configuration'', ''LOGGING = {'', py ''    ~version~: 1,'',
         py ''    ~disable_existing_loggers~: False,'', py ''    ~formatters~: {'', py ''        ~standard~: {'',
         py ''            ~format~: ~%(asctime)s [%(levelname)s] %(name)s: %(message)s~'', ''        },'']
        @ (if hasFile
           then [py ''        ~json~: {'',
                 py ''            ~format~: ~{\"asctime\": \"%(asctime)s\", \"name\": \"%(name)s\", \"levelname\": \"%(levelname)s\", \"message\": \"%(message)s\"}~'',
                 ''        },'']
           else [])
        @ [''    },'', py ''    ~handlers~: {'', py ''        ~console~: {'',
           py ''            ~level~: ~'' @ consoleLevel @ py ''~,'',
           py ''            ~class~: ~logging.StreamHandler~,'', py ''            ~formatter~: ~standard~,'', ''        },'']
        @ (if hasFile
           then [py ''        ~file~: {'', py ''            ~level~: ~'' @ fileLevel @ py ''~,'',
                 py ''            ~class~: ~logging.handlers.RotatingFileHandler~,'',
                 py ''            ~filename~: '' @ pythonQuote (FileOutputPath opts) @ '','',
                 py ''            ~maxBytes~: '' @ int_text (parseSizeBytes maxFileSize (5 * 1024 * 1024)) @ '','',
                 py ''            ~backupCount~: '' @ int_text maxHistory @ '','',
                 py ''            ~formatter~: ~json~,'', ''        },'']
           else [])
        @ [''    },'', py ''    ~loggers~: {'']
        @ concat (map (\<lambda>(name, level).
            [''        '' @ pythonQuote name @ '': {'', py ''            ~level~: ~'' @ toPythonLogLevel level @ py ''~,'',
             py ''            ~propagate~: True,'', ''        },'']) (entries (Loggers cfg)))
        @ [''    },'', py ''    ~root~: {'', py ''        ~level~: ~'' @ rootLevel @ py ''~,'',
           py ''        ~handlers~: '' @ (if hasFile then py ''[~console~, ~file~]'' else py ''[~console~]'') @ '','',
           ''    },'', ''}'']))"

section \<open>A container's file\<close>

definition RootLoggerName :: string where "RootLoggerName = ''ROOT''"

definition level_of :: "log_level_spec option \<Rightarrow> string" where
  "level_of l = (case l of None \<Rightarrow> [] | Some x \<Rightarrow> log_level x)"

definition LogConfigFromSpec :: "logging_config_spec option \<Rightarrow> log_config" where
  "LogConfigFromSpec spec =
     (case spec of
        None \<Rightarrow> \<lparr>RootLevel = [], Loggers = fmempty, ConsoleLevel = [], FileLevel = []\<rparr>
      | Some c \<Rightarrow>
          (let loggers = (case log_loggers c of None \<Rightarrow> fmempty | Some m \<Rightarrow> m)
           in \<lparr>RootLevel = (case fmlookup loggers RootLoggerName of None \<Rightarrow> [] | Some l \<Rightarrow> level_of l),
               Loggers = collect_map (\<lambda>name l.
                 if level_of l = [] \<or> name = RootLoggerName then None else Some (level_of l)) loggers,
               ConsoleLevel = level_of (log_console c), FileLevel = level_of (log_file c)\<rparr>))"

fun DefaultFileName :: "generator \<Rightarrow> string" where
  "DefaultFileName LogbackGenerator = ''logback.xml''"
| "DefaultFileName Log4jGenerator = ''log4j.properties''"
| "DefaultFileName Log4j2Generator = ''log4j2.properties''"
| "DefaultFileName PythonGenerator = ''log_config.py''"

text \<open>\<open>None\<close> would be a rendering that does not end.\<close>

fun Render :: "generator \<Rightarrow> log_config \<Rightarrow> render_options \<Rightarrow> string option" where
  "Render LogbackGenerator cfg opts = Some (renderLogback cfg opts)"
| "Render Log4jGenerator cfg opts = Some (renderLog4j cfg opts)"
| "Render Log4j2Generator cfg opts = renderLog4j2 cfg opts"
| "Render PythonGenerator cfg opts = Some (renderPython cfg opts)"

definition file_name_error :: "container_logging \<Rightarrow> string \<Rightarrow> err" where
  "file_name_error d why =
     PlainError (''log file name '' @ cl_log_file_name d @ '' for container '' @ cl_container d @ '' '' @ why)"

definition log_file_name :: "container_logging \<Rightarrow> err + string" where
  "log_file_name d =
     (if cl_log_file_name d = [] then Inr (ContainerLogFileName (cl_framework d) (cl_container d))
      else if \<not> has_suffix (cl_log_file_name d) (LogFileSuffix (cl_framework d))
      then Inl (file_name_error d ''must keep the framework suffix'')
      else if slash \<in> set (cl_log_file_name d) then Inl (file_name_error d ''must be a bare file name'')
      else Inr (cl_log_file_name d))"

definition RenderConfigFile ::
    "logging_config_spec option \<Rightarrow> container_logging \<Rightarrow> bool \<Rightarrow> (err + string \<times> string) option" where
  "RenderConfigFile spec d withFileAppender =
     (case GeneratorFor (cl_framework d) of
        Inl e \<Rightarrow> Some (Inl e)
      | Inr gen \<Rightarrow> (case validateLogDirName d of
          Some e \<Rightarrow> Some (Inl e)
        | None \<Rightarrow>
            (let fileName = or_default (cl_file_name d) (DefaultFileName gen); opts = plain_options (cl_pattern d)
             in case (if withFileAppender
                      then map_sum id (\<lambda>f. opts\<lparr>FileOutputPath := path_join [LogDirFor d, f]\<rparr>) (log_file_name d)
                      else Inr opts) of
                  Inl e \<Rightarrow> Some (Inl e)
                | Inr opts' \<Rightarrow> map_option (\<lambda>content. Inr (fileName, content)) (Render gen (LogConfigFromSpec spec) opts'))))"

section \<open>The interface without options\<close>

record logger_config =
  lc_name :: string
  lc_level :: string

definition loggerConfigsToLevels :: "logger_config gomap \<Rightarrow> string gomap" where
  "loggerConfigsToLevels configs = fmmap lc_level configs"

definition levels_only :: "logger_config gomap \<Rightarrow> log_config" where
  "levels_only configs = \<lparr>RootLevel = [], Loggers = loggerConfigsToLevels configs, ConsoleLevel = [], FileLevel = []\<rparr>"

definition LoggingGenerator_Generate :: "string \<Rightarrow> logger_config gomap \<Rightarrow> (err + string) option" where
  "LoggingGenerator_Generate framework configs =
     (case GeneratorFor framework of
        Inl e \<Rightarrow> Some (Inl e)
      | Inr gen \<Rightarrow> map_option Inr (Render gen (levels_only configs) (plain_options [])))"

section \<open>The identifiers are found\<close>

lemma decimal_inj: "decimal m = decimal n \<longleftrightarrow> m = n"
proof
  show "decimal m = decimal n \<Longrightarrow> m = n"
  proof (induction m arbitrary: n rule: less_induct)
    case (less m)
    have snoc: "decimal k = (if k < 10 then [] else decimal (k div 10)) @ [char_of (48 + k mod 10)]" for k
      by (subst decimal.simps) simp
    have ne: "decimal k \<noteq> []" for k by (subst snoc) simp
    from less.prems have heads: "(if m < 10 then [] else decimal (m div 10)) = (if n < 10 then [] else decimal (n div 10))"
      and last: "(char_of (48 + m mod 10) :: char) = char_of (48 + n mod 10)"
      using snoc [of m] snoc [of n] by simp_all
    then have tens: "m < 10 \<longleftrightarrow> n < 10" "\<not> m < 10 \<Longrightarrow> decimal (m div 10) = decimal (n div 10)"
      using heads ne [of "m div 10"] ne [of "n div 10"] by (cases "m < 10"; cases "n < 10"; simp)+
    have "(48 + k mod 10) mod 256 = 48 + k mod 10" for k :: nat by simp
    moreover have "(48 + m mod 10) mod 256 = (48 + n mod 10) mod (256 :: nat)"
      using arg_cong [OF last, of "of_char :: char \<Rightarrow> nat"] by (simp only: of_char_of)
    ultimately have unit: "m mod 10 = n mod 10" by simp
    show "m = n"
    proof (cases "m < 10")
      case True
      with tens unit show ?thesis by simp
    next
      case False
      then have "m div 10 = n div 10" using less.IH [of "m div 10"] tens by simp
      with unit show ?thesis by (metis div_mult_mod_eq)
    qed
  qed
qed simp

lemma numbered_inj: "numbered ident i = numbered ident j \<longleftrightarrow> i = j"
  by (simp add: numbered_def decimal_inj)

lemma free_number_finds:
  "numbered ident (i + k) \<notin> set taken \<Longrightarrow>
    \<exists>j. free_number taken ident i = Some (numbered ident j) \<and> numbered ident j \<notin> set taken"
proof (induction k arbitrary: i)
  case 0
  then show ?case by (subst free_number.simps) auto
next
  case (Suc k)
  then have "numbered ident (Suc i + k) \<notin> set taken" by simp
  from Suc.IH [OF this] show ?case by (subst free_number.simps) auto
qed

lemma some_number_free: "\<exists>k. numbered ident (i + k) \<notin> set taken"
proof (rule ccontr)
  assume "\<not> (\<exists>k. numbered ident (i + k) \<notin> set taken)"
  then have "range (\<lambda>k. numbered ident (i + k)) \<subseteq> set taken" by auto
  moreover have "inj (\<lambda>k. numbered ident (i + k))" by (simp add: inj_def numbered_inj)
  ultimately show False using finite_subset [OF _ finite_set] infinite_UNIV_nat by (metis finite_imageD)
qed

definition id_char :: "char \<Rightarrow> bool" where
  "id_char c \<longleftrightarrow> CHR ''a'' \<le> c \<and> c \<le> CHR ''z'' \<or> CHR ''A'' \<le> c \<and> c \<le> CHR ''Z'' \<or>
     CHR ''0'' \<le> c \<and> c \<le> CHR ''9'' \<or> c = CHR ''_''"

definition well_formed_id :: "string \<Rightarrow> bool" where
  "well_formed_id s \<longleftrightarrow> s \<noteq> [] \<and> list_all id_char s"

lemma digit_id_char: "d < 10 \<Longrightarrow> id_char (char_of (48 + d :: nat))"
  by (auto simp: id_char_def less_eq_char_def)

lemma decimal_id: "list_all id_char (decimal n)"
proof (induction n rule: decimal.induct)
  case (1 n)
  then show ?case by (subst decimal.simps) (auto simp: digit_id_char)
qed

lemma numbered_ok: "well_formed_id ident \<Longrightarrow> well_formed_id (numbered ident i)"
  by (simp add: well_formed_id_def numbered_def decimal_id) (simp add: id_char_def)

lemma escaped_ok: "list_all id_char (escapeLoggerName s)"
  by (auto simp: escapeLoggerName_def list_all_iff id_char_def)

lemma unique_id_found:
  "\<exists>ident. unique_id taken name = Some ident \<and> ident \<notin> set taken \<and> well_formed_id ident"
proof -
  let ?ident = "if escapeLoggerName name = [] then ''logger'' else escapeLoggerName name"
  have ok: "well_formed_id ?ident"
    using escaped_ok [of name] by (simp add: well_formed_id_def id_char_def less_eq_char_def)
  obtain k where "numbered ?ident (2 + k) \<notin> set taken" using some_number_free by blast
  from free_number_finds [OF this] obtain j where
    "free_number taken ?ident 2 = Some (numbered ?ident j)" "numbered ?ident j \<notin> set taken" by blast
  with ok numbered_ok [OF ok] show ?thesis by (auto simp: unique_id_def Let_def)
qed

lemma logger_ids_found:
  "distinct taken \<Longrightarrow> list_all well_formed_id taken \<Longrightarrow>
    \<exists>ids. logger_ids taken names = Some (taken @ ids) \<and> length ids = length names \<and> distinct (taken @ ids) \<and>
      list_all well_formed_id ids"
proof (induction names arbitrary: taken)
  case (Cons name names)
  obtain ident where u: "unique_id taken name = Some ident" "ident \<notin> set taken" "well_formed_id ident"
    using unique_id_found by blast
  with Cons.prems have "distinct (taken @ [ident])" "list_all well_formed_id (taken @ [ident])" by simp_all
  from Cons.IH [OF this] obtain ids where
    "logger_ids (taken @ [ident]) names = Some ((taken @ [ident]) @ ids)" "length ids = length names"
    "distinct ((taken @ [ident]) @ ids)" "list_all well_formed_id ids" by blast
  with u show ?case by (intro exI [of _ "ident # ids"]) simp
qed simp

text \<open>
  C39. The search for identifiers ends for any logger names, and gives each logger its own identifier, a bare key
  segment, so no logger's settings overwrite another's in the rendered file.
\<close>

theorem log4j2LoggerIDs_distinct:
  "\<exists>ids. log4j2LoggerIDs names = Some ids \<and> length ids = length names \<and> distinct ids \<and>
     list_all well_formed_id ids"
  using logger_ids_found [of "[]" names] by (simp add: log4j2LoggerIDs_def)

section \<open>What the escapes mean\<close>

text \<open>
  A quoted literal as a parser with backslash escapes reads it: its value and the text after the closing
  quote. A raw line break is an error.
\<close>

fun literal_body :: "char \<Rightarrow> (char \<Rightarrow> char option) \<Rightarrow> string \<Rightarrow> (string \<times> string) option" where
  "literal_body q esc [] = None"
| "literal_body q esc [c] = (if c = q then Some ([], []) else None)"
| "literal_body q esc (c # d # s) =
     (if c = q then Some ([], d # s)
      else if c = newline \<or> c = carriage_return then None
      else if c = bs
      then (case esc d of None \<Rightarrow> None | Some x \<Rightarrow> map_option (apfst (Cons x)) (literal_body q esc s))
      else map_option (apfst (Cons c)) (literal_body q esc (d # s)))"

definition read_literal :: "char \<Rightarrow> (char \<Rightarrow> char option) \<Rightarrow> string \<Rightarrow> (string \<times> string) option" where
  "read_literal q esc s = (if s \<noteq> [] \<and> hd s = q then literal_body q esc (tl s) else None)"

lemma literal_body_raw:
  "c \<notin> {q, newline, carriage_return, bs} \<Longrightarrow> s \<noteq> [] \<Longrightarrow>
    literal_body q esc (c # s) = map_option (apfst (Cons c)) (literal_body q esc s)"
  by (cases s) auto

text \<open>Each character is written as itself or as an escape the parser knows.\<close>

lemma read_literal_written:
  assumes "\<And>c. tok c = [c] \<and> c \<notin> {q, newline, carriage_return, bs} \<or> (\<exists>d. tok c = [bs, d] \<and> esc d = Some c)"
    and "q \<noteq> bs"
  shows "read_literal q esc ([q] @ concat (map tok s) @ [q] @ rest) = Some (s, rest)"
proof -
  have "literal_body q esc (concat (map tok s) @ q # rest) = Some (s, rest)"
  proof (induction s)
    case Nil
    show ?case by (cases rest) simp_all
  next
    case (Cons c s)
    from assms(1) [of c] show ?case
    proof
      assume "tok c = [c] \<and> c \<notin> {q, newline, carriage_return, bs}"
      with Cons show ?thesis by (simp add: literal_body_raw)
    next
      assume "\<exists>d. tok c = [bs, d] \<and> esc d = Some c"
      with Cons \<open>q \<noteq> bs\<close> show ?thesis by (auto simp: text_chars)
    qed
  qed
  then show ?thesis by (simp add: read_literal_def)
qed

text \<open>The escapes of a Python string literal, and of a double-quoted scalar.\<close>

definition literal_escape :: "char \<Rightarrow> char \<Rightarrow> char option" where
  "literal_escape q d =
     (if d = bs then Some bs else if d = q then Some q
      else if d = CHR ''n'' then Some newline else if d = CHR ''r'' then Some carriage_return
      else if d = CHR ''t'' then Some tab else None)"

definition python_literal :: "string \<Rightarrow> (string \<times> string) option" where
  "python_literal = read_literal single_quote (literal_escape single_quote)"

lemma pythonQuote_read: "python_literal (pythonQuote s @ rest) = Some (rune_text s, rest)"
proof -
  have "read_literal single_quote (literal_escape single_quote) (pythonQuote s @ rest) = Some (rune_text s, rest)"
    unfolding pythonQuote_def append_assoc
    by (rule read_literal_written) (auto simp: literal_escape_def text_chars)
  then show ?thesis by (simp add: python_literal_def)
qed

text \<open>The properties escapes are read back by the properties reader, as it reads any text.\<close>

lemma replacer_spell:
  "(\<And>c. c \<in> set s \<Longrightarrow> (case map_of table c of None \<Rightarrow> [c] | Some r \<Rightarrow> r) = spelled (c, e c)) \<Longrightarrow>
    replacer table s = spell (map (\<lambda>c. (c, e c)) s)"
  unfolding replacer_def spell_def by (induction s) auto

lemma escapePropertyKey_read: "unescapeProperties (escapePropertyKey s) = rune_text s"
proof -
  let ?e = "\<lambda>c. c \<in> {bs, CHR ''='', CHR '':'', CHR '' '', tab, newline, carriage_return}"
  have "escapePropertyKey s = spell (map (\<lambda>c. (c, ?e c)) s)"
    unfolding escapePropertyKey_def by (rule replacer_spell) (auto simp: spelled_def behind_def text_chars)
  moreover have "list_all spellable (map (\<lambda>c. (c, ?e c)) s)"
    by (auto simp: list_all_iff spellable_def escapable_def)
  ultimately show ?thesis by (simp add: unescape_spell comp_def)
qed

lemma escapePropertyValue_read: "unescapeProperties (escapePropertyValue s) = rune_text s"
proof -
  let ?t = "replacer [(bs, [bs, bs]), (tab, bs # ''t''), (newline, bs # ''n''), (carriage_return, bs # ''r'')] s"
  have t: "?t = spell (value_tokens s)"
    unfolding value_tokens_def by (rule replacer_spell) (auto simp: spelled_def behind_def text_chars)
  have ok: "list_all spellable (value_tokens s)"
    by (auto simp: list_all_iff spellable_def value_tokens_def escapable_def)
  show ?thesis
  proof (cases "?t \<noteq> [] \<and> hd ?t = CHR '' ''")
    case True
    then obtain cs where s: "s = CHR '' '' # cs"
      by (cases s) (auto simp: replacer_def text_chars split: if_splits)
    have "bs # ?t = spell ((CHR '' '', True) # value_tokens cs)"
      unfolding t by (simp add: s value_tokens_def spelled_def behind_def text_chars)
    moreover have "list_all spellable ((CHR '' '', True) # value_tokens cs)"
      using ok by (simp add: s value_tokens_def spellable_def escapable_def)
    ultimately have "unescapeProperties (bs # ?t) = rune_text s"
      by (simp only: unescape_spell) (simp add: s value_tokens_def comp_def)
    with True show ?thesis by (simp add: escapePropertyValue_def)
  next
    case False
    moreover have "unescapeProperties ?t = rune_text s" unfolding t by (simp add: unescape_spell ok) (simp add: value_tokens_def comp_def)
    ultimately show ?thesis by (auto simp: escapePropertyValue_def)
  qed
qed

text \<open>
  A size that fits 64 bits is taken as it is; a larger one wraps around, into a negative count of bytes for
  instance.
\<close>

lemma mult64_small: "- (2 ^ 63) \<le> a * b \<Longrightarrow> a * b < 2 ^ 63 \<Longrightarrow> mult64 a b = a * b"
  unfolding mult64_def sint_sbintrunc' by (simp add: signed_take_bit_int_eq_self)

lemma parseSizeBytes_wraps: "mult64 9007199254740992 1024 = - 9223372036854775808"
  by (simp add: mult64_def)

text \<open>Rendering always ends.\<close>

lemma Render_ends: "\<exists>content. Render gen cfg opts = Some content"
proof (cases gen)
  case Log4j2Generator
  show ?thesis
    using logger_ids_found [of "[]" "keys (Loggers cfg)"] unfolding Log4j2Generator
    by (auto simp: renderLog4j2_def log4j2LoggerIDs_def Let_def)
qed simp_all

end
