(* ===== verification/PodTypes.thy ===== *)
theory PodTypes
  imports Apply ConfigFold
begin

text \<open>
  The pod template as the builders and the sidecars construct it, field by field
  (\<open>corev1.PodTemplateSpec\<close> and its parts). The apply path moves the same template around as a whole;
  there it is the coarser \<open>pod_template\<close> of \<open>Apply\<close>.

  A Kubernetes one-of struct (the source of a volume, the handler of a probe) is a map from the JSON names
  of the declared members to their contents. Fields that no code of the repository touches are the JSON
  text \<open>_rest\<close>.
\<close>

text \<open>The claim a generic ephemeral volume is made from.\<close>

record claim_template =
  ct_annotations :: "string gomap"
  ct_access_modes :: "string list"
  ct_storage_class :: string
  ct_volume_mode :: string
  ct_request :: quantity

datatype member =
    TCPSocket int
  | HTTPGet string int
  | Exec "string list"
  | LocalObject string
  | SizeLimit quantity
  | ClaimTemplate claim_template
  | SecretKey string string
  | OtherMember json

type_synonym one_of = "member gomap"

section \<open>Containers\<close>

record container_port =
  cport_name :: string
  cport_number :: int
  cport_protocol :: string

record env_var =
  ev_name :: string
  ev_value :: string
  ev_value_from :: "one_of option"

record probe =
  pr_handler :: one_of
  pr_initial_delay :: int
  pr_timeout :: int
  pr_period :: int
  pr_success :: int
  pr_failure :: int
  pr_rest :: json

record lifecycle =
  hook_post_start :: "one_of option"
  hook_pre_stop :: "one_of option"
  hook_rest :: json

record resource_requirements =
  rq_requests :: "quantity gomap"
  rq_limits :: "quantity gomap"

record capabilities =
  cap_add :: "string list"
  cap_drop :: "string list"

record security_context =
  sc_run_as_user :: "int option"
  sc_run_as_group :: "int option"
  sc_run_as_non_root :: "bool option"
  sc_read_only_root :: "bool option"
  sc_allow_escalation :: "bool option"
  sc_capabilities :: "capabilities option"
  sc_seccomp :: "string option"
  sc_rest :: json

record pod_security_context =
  psc_run_as_user :: "int option"
  psc_run_as_group :: "int option"
  psc_run_as_non_root :: "bool option"
  psc_fs_group :: "int option"
  psc_fs_group_change_policy :: "string option"
  psc_seccomp :: "string option"
  psc_rest :: json

record kcontainer =
  kc_name :: string
  kc_image :: string
  kc_pull_policy :: string
  kc_command :: "string list"
  kc_args :: "string list"
  kc_env :: "env_var list"
  kc_ports :: "container_port list"
  kc_resources :: resource_requirements
  kc_mounts :: "volume_mount list"
  kc_security :: "security_context option"
  kc_liveness :: "probe option"
  kc_readiness :: "probe option"
  kc_startup :: "probe option"
  kc_lifecycle :: "lifecycle option"
  kc_restart_policy :: "string option"
  kc_rest :: json

definition empty_json :: json where "empty_json = ''{}''"

text \<open>A mount without further fields, and a read-only one.\<close>

definition mount :: "string \<Rightarrow> string \<Rightarrow> volume_mount" where
  "mount name path = \<lparr>mount_name = name, mount_path = path, mount_rest = empty_json\<rparr>"

definition read_only_mount :: "string \<Rightarrow> string \<Rightarrow> volume_mount" where
  "read_only_mount name path =
     \<lparr>mount_name = name, mount_path = path, mount_rest = ''{\"readOnly\":true}''\<rparr>"

definition no_requirements :: resource_requirements where
  "no_requirements = \<lparr>rq_requests = fmempty, rq_limits = fmempty\<rparr>"

definition empty_container :: kcontainer where
  "empty_container = \<lparr>kc_name = [], kc_image = [], kc_pull_policy = [], kc_command = [], kc_args = [],
     kc_env = [], kc_ports = [], kc_resources = no_requirements, kc_mounts = [], kc_security = None,
     kc_liveness = None, kc_readiness = None, kc_startup = None, kc_lifecycle = None,
     kc_restart_policy = None, kc_rest = empty_json\<rparr>"

text \<open>The members the code writes itself.\<close>

definition tcp_handler :: "int \<Rightarrow> one_of" where
  "tcp_handler port = fmupd ''tcpSocket'' (TCPSocket port) fmempty"

definition http_handler :: "string \<Rightarrow> int \<Rightarrow> one_of" where
  "http_handler path port = fmupd ''httpGet'' (HTTPGet path port) fmempty"

definition exec_handler :: "string list \<Rightarrow> one_of" where
  "exec_handler command = fmupd ''exec'' (Exec command) fmempty"

definition config_map_source :: "string \<Rightarrow> one_of" where
  "config_map_source name = fmupd ''configMap'' (LocalObject name) fmempty"

definition empty_dir_source :: "quantity \<Rightarrow> one_of" where
  "empty_dir_source limit = fmupd ''emptyDir'' (SizeLimit limit) fmempty"

definition ephemeral_source :: "claim_template \<Rightarrow> one_of" where
  "ephemeral_source claim = fmupd ''ephemeral'' (ClaimTemplate claim) fmempty"

definition secret_key_source :: "string \<Rightarrow> string \<Rightarrow> one_of" where
  "secret_key_source name key = fmupd ''secretKeyRef'' (SecretKey name key) fmempty"

definition value_env :: "string \<Rightarrow> string \<Rightarrow> env_var" where
  "value_env name v = \<lparr>ev_name = name, ev_value = v, ev_value_from = None\<rparr>"

definition secret_env :: "string \<Rightarrow> string \<Rightarrow> string \<Rightarrow> env_var" where
  "secret_env name secret key =
     \<lparr>ev_name = name, ev_value = [], ev_value_from = Some (secret_key_source secret key)\<rparr>"

text \<open>A probe with the timings the code states; a field it leaves out is zero.\<close>

definition timed_probe :: "one_of \<Rightarrow> int \<Rightarrow> int \<Rightarrow> int \<Rightarrow> int \<Rightarrow> int \<Rightarrow> probe" where
  "timed_probe h initial timeout period success failures =
     \<lparr>pr_handler = h, pr_initial_delay = initial, pr_timeout = timeout, pr_period = period,
      pr_success = success, pr_failure = failures, pr_rest = empty_json\<rparr>"

section \<open>Pods\<close>

record kvolume =
  kv_name :: string
  kv_source :: one_of

record kpod =
  kp_init :: "kcontainer list"
  kp_containers :: "kcontainer list"
  kp_volumes :: "kvolume list"
  kp_service_account :: string
  kp_grace :: "int option"
  kp_security :: "pod_security_context option"
  kp_affinity :: "k8s_affinity option"
  kp_service_links :: "bool option"
  kp_pull_secrets :: "string list"
  kp_rest :: json

record ktemplate =
  kt_labels :: "string gomap"
  kt_annotations :: "string gomap"
  kt_spec :: kpod

text \<open>The variable the kubelet takes among entries of one name: the last.\<close>

definition effective_env :: "env_var list \<Rightarrow> string \<Rightarrow> env_var option" where
  "effective_env envs name = find_key ev_name name (rev envs)"

end
