(* ===== verification/Roles.thy ===== *)
theory Roles
  imports Vector Logging Images ConfigFold ConfigMerge Apply PodTypes
begin

text \<open>
  What a product declares about its roles, \<open>pkg/reconciler/role_declaration.go\<close>, the external objects
  it depends on, \<open>pkg/reconciler/dependency.go\<close>, and what it derives from a role group's effective
  config, \<open>pkg/reconciler/role_group_resolver.go\<close>.

  Quantities are opaque; their parser is the parameter \<open>parse_quantity\<close>.
\<close>

section \<open>Declarations\<close>

record data_volume =
  dv_name :: string
  dv_mount_path :: string

record role_declaration =
  decl_image :: "image_spec option"
  ContainerPorts :: "container_port list"
  ServicePorts :: "service_port list"
  MainContainerName :: string
  decl_command :: "string list"
  Lifecycle :: "lifecycle option"
  ReadinessProbe :: "probe option"
  LivenessProbe :: "probe option"
  StartupProbe :: "probe option"
  DataVolume :: "data_volume option"
  ListenerClass :: string
  PublishNotReadyAddresses :: bool
  LogProducers :: "container_logging list"
  OwnsVectorConfig :: bool
  LogVolumeSize :: string
  decl_env :: "env_var list"
  ConfigDefaults :: "role_group_config_spec option"
  decl_optional :: bool

definition no_declaration :: role_declaration where
  "no_declaration = \<lparr>decl_image = None, ContainerPorts = [], ServicePorts = [], MainContainerName = [],
     decl_command = [], Lifecycle = None, ReadinessProbe = None, LivenessProbe = None,
     StartupProbe = None, DataVolume = None, ListenerClass = [], PublishNotReadyAddresses = False,
     LogProducers = [], OwnsVectorConfig = False, LogVolumeSize = [], decl_env = [],
     ConfigDefaults = None, decl_optional = False\<rparr>"

type_synonym role_catalog = "role_declaration gomap"

definition ConfigVolumeName :: string where "ConfigVolumeName = ''config''"

definition reservedVolumeNames :: "(string \<times> string) list" where
  "reservedVolumeNames =
     [(ConfigVolumeName, ''the role group's ConfigMap volume''),
      (VectorLogVolumeName, ''the shared log volume''),
      (VectorConfigVolumeName, ''the Vector agent's config volume''),
      (VectorDataVolumeName, ''the Vector agent's data volume''),
      (JMXExporterConfigVolumeName, ''the JMX exporter's config volume'')]"

text \<open>The list of problems \<open>Validate\<close> collects, each check on its own.\<close>

definition data_volume_problems :: "data_volume \<Rightarrow> string list" where
  "data_volume_problems v =
     (if dv_mount_path v = [] then [''dataVolume declares no mountPath''] else []) @
     (case map_of reservedVolumeNames (dv_name v) of
        Some reason \<Rightarrow> [''dataVolume name '' @ dv_name v @ '' is reserved for '' @ reason]
      | None \<Rightarrow> [])"

definition unnamed_ports :: "container_port list \<Rightarrow> string list" where
  "unnamed_ports ps = map (\<lambda>(i, p). ''containerPorts['' @ decimal i @ ''] has no name'')
     (filter (\<lambda>(i, p). cport_name p = []) (enumerate 0 ps))"

definition declaration_problems ::
    "affinity_codec \<Rightarrow> (string \<Rightarrow> bool) \<Rightarrow> (err \<Rightarrow> string) \<Rightarrow> role_declaration \<Rightarrow> string list" where
  "declaration_problems ac parse_quantity err_text d =
     (case DataVolume d of None \<Rightarrow> [] | Some v \<Rightarrow> data_volume_problems v) @
     (if length (ServicePorts d) > 0 \<and> length (ContainerPorts d) = 0
      then [''servicePorts are declared but containerPorts are empty, so the Service would target nothing'']
      else []) @
     (case ConfigDefaults d of
        None \<Rightarrow> []
      | Some cfg \<Rightarrow> (case DecodeAffinity ac (affinity cfg) of
            Inl e \<Rightarrow> [''configDefaults.affinity does not decode: '' @ err_text e]
          | Inr _ \<Rightarrow> [])) @
     unnamed_ports (ContainerPorts d) @
     (if LogVolumeSize d \<noteq> [] \<and> \<not> parse_quantity (LogVolumeSize d)
      then [''logVolumeSize '' @ LogVolumeSize d @ '' is not a quantity''] else []) @
     (case ValidateProducers (LogProducers d) of Some e \<Rightarrow> [err_text e] | None \<Rightarrow> [])"

definition Validate ::
    "affinity_codec \<Rightarrow> (string \<Rightarrow> bool) \<Rightarrow> (err \<Rightarrow> string) \<Rightarrow> string \<Rightarrow> role_declaration \<Rightarrow> err option" where
  "Validate ac parse_quantity err_text role d =
     (let problems = declaration_problems ac parse_quantity err_text d
      in if length problems > 0
         then Some (PlainError (''role '' @ role @ '' declaration: '' @ join_strings ''; '' problems))
         else None)"

text \<open>The names of a catalog that a cluster does not use, or the error about the ones it lacks.\<close>

definition ValidateCatalog :: "role_catalog \<Rightarrow> role_spec gomap \<Rightarrow> err + string list" where
  "ValidateCatalog catalog roles =
     (let missing = sort (filter (\<lambda>n. fmlookup catalog n = None) (keys roles))
      in if length missing > 0
         then Inl (PlainError (''spec.roles declares '' @ join_strings '', '' missing @
           '', which this product does not support; known roles are '' @
           join_strings '', '' (sort (keys catalog))))
         else Inr (sort (map fst (filter (\<lambda>(n, d). \<not> decl_optional d \<and> fmlookup roles n = None)
           (entries catalog)))))"

section \<open>Dependencies\<close>

definition KSecret :: kind where "KSecret = KExtra ''Secret''"

record dependency =
  dep_kind :: string
  dep_namespace :: string
  dep_name :: string

definition DependencyConfigMap :: string where "DependencyConfigMap = ''ConfigMap''"
definition DependencySecret :: string where "DependencySecret = ''Secret''"

definition NewDependencyError :: "string \<Rightarrow> string \<Rightarrow> err option \<Rightarrow> err" where
  "NewDependencyError dtype message cause = Wrapped (DependencyError dtype message) cause"

text \<open>
  A read of an object of some namespace: the world holds the namespace \<open>home\<close> of the cluster, and
  \<open>elsewhere\<close> answers for the others.
\<close>

definition read_object ::
    "(string \<Rightarrow> key \<Rightarrow> err option) \<Rightarrow> env \<Rightarrow> string \<Rightarrow> string \<Rightarrow> key \<Rightarrow> unit run" where
  "read_object elsewhere env home namespace k =
     (if namespace = home then bindE (client_get env k) (\<lambda>_. returnE ())
      else request env (\<lambda>n w. ((case elsewhere namespace k of Some e \<Rightarrow> Inl e | None \<Rightarrow> Inr ()), w)))"

definition ValidateConfigMap ::
    "(string \<Rightarrow> key \<Rightarrow> err option) \<Rightarrow> env \<Rightarrow> string \<Rightarrow> string \<Rightarrow> string \<Rightarrow> unit run" where
  "ValidateConfigMap elsewhere env home namespace name =
     wrapE (\<lambda>e. NewDependencyError ''ConfigMapNotFound''
         (''ConfigMap '' @ namespace @ ''/'' @ name @ '' not found'') (Some e))
       (read_object elsewhere env home namespace (KConfigMap, name))"

definition ValidateSecret ::
    "(string \<Rightarrow> key \<Rightarrow> err option) \<Rightarrow> env \<Rightarrow> string \<Rightarrow> string \<Rightarrow> string \<Rightarrow> unit run" where
  "ValidateSecret elsewhere env home namespace name =
     wrapE (\<lambda>e. NewDependencyError ''SecretNotFound''
         (''Secret '' @ namespace @ ''/'' @ name @ '' not found'') (Some e))
       (read_object elsewhere env home namespace (KSecret, name))"

fun validateDependencies ::
    "(string \<Rightarrow> key \<Rightarrow> err option) \<Rightarrow> env \<Rightarrow> string \<Rightarrow> dependency list \<Rightarrow> unit run" where
  "validateDependencies elsewhere env home [] = returnE ()"
| "validateDependencies elsewhere env home (d # ds) =
     (let namespace = (if dep_namespace d = [] then home else dep_namespace d) in
      if dep_name d = []
      then throwE (NewDependencyError ''InvalidDependency''
        (dep_kind d @ '' dependency declared with an empty name'') None)
      else if dep_kind d = DependencyConfigMap
      then bindE (ValidateConfigMap elsewhere env home namespace (dep_name d))
        (\<lambda>_. validateDependencies elsewhere env home ds)
      else if dep_kind d = DependencySecret
      then bindE (ValidateSecret elsewhere env home namespace (dep_name d))
        (\<lambda>_. validateDependencies elsewhere env home ds)
      else throwE (NewDependencyError ''UnsupportedDependencyKind''
        (''dependency '' @ namespace @ ''/'' @ dep_name d @ '' has unsupported kind '' @ dep_kind d) None))"

text \<open>The connection specs a product may check itself: a host and the secret class of its credentials.\<close>

record connection_spec =
  conn_host :: string
  conn_secret_class :: "string option"

definition no_secret_class :: "connection_spec \<Rightarrow> bool" where
  "no_secret_class c \<longleftrightarrow> (case conn_secret_class c of None \<Rightarrow> True | Some s \<Rightarrow> s = [])"

definition ValidateS3Connection :: "connection_spec option \<Rightarrow> err option" where
  "ValidateS3Connection config =
     (case config of
        None \<Rightarrow> None
      | Some spec \<Rightarrow>
          if conn_host spec = [] then Some (NewDependencyError ''InvalidS3Config'' ''S3 host is empty'' None)
          else if no_secret_class spec
          then Some (NewDependencyError ''InvalidS3Config'' ''S3 secretClass is empty'' None)
          else None)"

definition ValidateDatabaseConnection :: "connection_spec option \<Rightarrow> err option" where
  "ValidateDatabaseConnection config =
     (case config of
        None \<Rightarrow> None
      | Some spec \<Rightarrow>
          if conn_host spec = []
          then Some (NewDependencyError ''InvalidDatabaseConfig'' ''Database endpoint is empty'' None)
          else if no_secret_class spec
          then Some (NewDependencyError ''InvalidDatabaseConfig'' ''Database secretClass is empty'' None)
          else None)"

definition ValidateZKConfig :: "string option \<Rightarrow> err option" where
  "ValidateZKConfig config =
     (if config = Some [] then Some (NewDependencyError ''InvalidZKConfig''
        ''Zookeeper connection string is empty'' None) else None)"

definition ParseConnectionStrings :: "string \<Rightarrow> err + string list" where
  "ParseConnectionStrings connStr =
     (if connStr = [] then Inl (PlainError ''connection string is empty'')
      else let hosts = filter (\<lambda>h. h \<noteq> []) (map TrimSpace (split_on CHR '','' connStr))
           in if length hosts = 0 then Inl (PlainError ''no valid hosts found in connection string'')
              else Inr hosts)"

section \<open>Derived values\<close>

record 'pod contribution =
  contrib_config :: "string gomap gomap"
  contrib_env :: "string gomap"
  contrib_pod :: "'pod option"
  contrib_listener_class :: string

text \<open>A contribution as the lowest layer of overrides.\<close>

definition overrides ::
    "('pod, 'meta) pod_codec \<Rightarrow> 'pod contribution option \<Rightarrow> err + overrides_spec option" where
  "overrides codec contribution =
     (case contribution of
        None \<Rightarrow> Inr None
      | Some c \<Rightarrow>
          (let out = \<lparr>CliOverrides = None,
             EnvOverrides = (if contrib_env c = fmempty then None else Some (contrib_env c)),
             ConfigOverrides = (if contrib_config c = fmempty then None else Some (contrib_config c)),
             PodOverrides = None\<rparr>
           in case contrib_pod c of
                None \<Rightarrow> Inr (Some out)
              | Some pod \<Rightarrow> (case pod_marshal codec pod of
                  Inl e \<Rightarrow> Inl (Wrapped (FmtErrorf ''encoding the derived podOverrides'') (Some e))
                | Inr raw \<Rightarrow> Inr (Some (out\<lparr>PodOverrides := Some (Some raw)\<rparr>)))))"

section \<open>What the checks accept\<close>

lemma ValidateCatalog_ok:
  "ValidateCatalog catalog roles = Inr unused \<Longrightarrow> fmdom roles |\<subseteq>| fmdom catalog"
proof -
  assume ok: "ValidateCatalog catalog roles = Inr unused"
  then have "sort (filter (\<lambda>n. fmlookup catalog n = None) (keys roles)) = []"
    by (auto simp: ValidateCatalog_def Let_def split: if_splits)
  then have "filter (\<lambda>n. fmlookup catalog n = None) (keys roles) = []"
    by (metis length_0_conv length_sort)
  then have "\<forall>n \<in> set (keys roles). fmlookup catalog n \<noteq> None" by (simp add: filter_empty_conv)
  then show ?thesis by (auto intro: fmdomI)
qed

lemma unnamed_ports_empty: "unnamed_ports ps = [] \<longleftrightarrow> (\<forall>p \<in> set ps. cport_name p \<noteq> [])"
proof -
  have "filter (\<lambda>(i, p). cport_name p = []) (enumerate n ps) = [] \<longleftrightarrow> (\<forall>p \<in> set ps. cport_name p \<noteq> [])" for n
    by (induction ps arbitrary: n) auto
  then show ?thesis by (simp add: unnamed_ports_def)
qed

lemma Validate_ok:
  assumes "Validate ac parse_quantity err_text role d = None"
  shows "ValidateProducers (LogProducers d) = None"
    and "DataVolume d = Some v \<Longrightarrow> dv_mount_path v \<noteq> [] \<and> dv_name v \<notin> fst ` set reservedVolumeNames"
    and "ServicePorts d \<noteq> [] \<Longrightarrow> ContainerPorts d \<noteq> []"
    and "\<forall>p \<in> set (ContainerPorts d). cport_name p \<noteq> []"
proof -
  have none: "declaration_problems ac parse_quantity err_text d = []"
    using assms by (auto simp: Validate_def Let_def split: if_splits)
  then show "ValidateProducers (LogProducers d) = None"
    by (auto simp: declaration_problems_def split: option.splits)
  show "dv_mount_path v \<noteq> [] \<and> dv_name v \<notin> fst ` set reservedVolumeNames" if "DataVolume d = Some v"
  proof -
    have "data_volume_problems v = []" using none that by (simp add: declaration_problems_def)
    then have split: "(if dv_mount_path v = [] then [''dataVolume declares no mountPath''] else []) = []"
        "(case map_of reservedVolumeNames (dv_name v) of
           Some reason \<Rightarrow> [''dataVolume name '' @ dv_name v @ '' is reserved for '' @ reason]
         | None \<Rightarrow> []) = []"
      unfolding data_volume_problems_def append_is_Nil_conv by blast+
    from split(1) have "dv_mount_path v \<noteq> []" by (metis list.distinct(1))
    moreover have opt: "x = None" if "(case x of Some r \<Rightarrow> [f r] | None \<Rightarrow> []) = []"
      for x :: "string option" and f :: "string \<Rightarrow> string"
      using that by (cases x) simp_all
    from opt [OF split(2)] have "dv_name v \<notin> fst ` set reservedVolumeNames" by (simp only: map_of_eq_None_iff not_False_eq_True)
    ultimately show ?thesis ..
  qed
  show "ServicePorts d \<noteq> [] \<Longrightarrow> ContainerPorts d \<noteq> []"
    using none by (auto simp: declaration_problems_def split: if_splits)
  have "unnamed_ports (ContainerPorts d) = []" using none by (simp add: declaration_problems_def)
  then show "\<forall>p \<in> set (ContainerPorts d). cport_name p \<noteq> []" by (simp only: unnamed_ports_empty)
qed


section \<open>The heap of a role group\<close>

text \<open>
  \<open>HeapMB\<close>. \<open>Quantity.Value\<close> and the product of a number with a float, cut to an integer, are parameters.
\<close>

definition HeapMB :: "(string \<Rightarrow> int) \<Rightarrow> (int \<Rightarrow> 'f \<Rightarrow> int) \<Rightarrow> role_group_config_spec option \<Rightarrow> 'f \<Rightarrow> int \<times> bool" where
  "HeapMB quantity_value scaled cfg factor =
     (case Option.bind (Option.bind (Option.bind cfg resources) res_memory) memory_limit of
        None \<Rightarrow> (0, False)
      | Some q \<Rightarrow>
          (let limit = quantity_value q
           in if limit \<le> 0 then (0, False) else (scaled (limit div (1024 * 1024)) factor, True)))"

text \<open>The limit is cut to whole MiB before it is multiplied: at four fifths this may lose a MiB.\<close>

lemma HeapMB_cuts_first:
  fixes cfg :: role_group_config_spec
  assumes "resources cfg = Some r" and "res_memory r = Some m" and "memory_limit m = Some q"
  shows "HeapMB (\<lambda>_. 2097151) (\<lambda>n k. n * k div 5) (Some cfg) 4 = (0, True) \<and> 2097151 * 4 div 5 div (1024 * 1024) = (1 :: int)"
  using assms by (simp add: HeapMB_def)

end
