(* ===== verification/Rbac.thy ===== *)
theory Rbac
  imports WritesSafety Vector
begin

text \<open>
  The identity and the permissions of a cluster's workload: \<open>ensureServiceAccount\<close> of
  \<open>pkg/reconciler/generic_reconciler.go\<close> and \<open>pkg/reconciler/workload_rbac.go\<close>.

  A policy rule is opaque. The cluster's name and namespace, its UID and labels are arguments.
\<close>

section \<open>Identity\<close>

definition identity_labels :: "string \<Rightarrow> string gomap \<Rightarrow> string gomap" where
  "identity_labels cluster ls =
     fmupd LabelKubernetesManagedBy managedByValue (fmupd LabelKubernetesInstance cluster ls)"

definition empty_live :: "payload \<Rightarrow> live" where
  "empty_live p = fresh \<lparr>labels = fmempty, annotations = fmempty, payload = p\<rparr>"

definition service_account_mutate ::
    "platform \<Rightarrow> string \<Rightarrow> string \<Rightarrow> string gomap \<Rightarrow> live \<Rightarrow> (err + live) \<times> string list" where
  "service_account_mutate pf cluster name crLabels x =
     ((case set_owner pf (x\<lparr>labels := identity_labels cluster crLabels\<rparr>) of
         Inl e \<Rightarrow> Inl (if already_owned pf e
                     then Wrapped (FmtErrorf (''ServiceAccount '' @ name @ '' is already controlled'')) (Some e)
                     else e)
       | Inr y \<Rightarrow> Inr y), [])"

definition ensureServiceAccount ::
    "platform \<Rightarrow> env \<Rightarrow> string \<Rightarrow> string gomap \<Rightarrow> string \<Rightarrow> unit run" where
  "ensureServiceAccount pf env cluster crLabels name w =
     (case CreateOrUpdate env (KServiceAccount, name) (empty_live (ServiceAccount []))
             (service_account_mutate pf cluster name crLabels) w of
        (Inl e, _, w1) \<Rightarrow> (Inl (reconciler_apiError pf e), w1)
      | (Inr _, _, w1) \<Rightarrow> (Inr (), w1))"

section \<open>Permissions\<close>

definition KRole :: kind where "KRole = KExtra ''Role''"
definition KRoleBinding :: kind where "KRoleBinding = KExtra ''RoleBinding''"

definition RBACGroupName :: string where "RBACGroupName = ''rbac.authorization.k8s.io''"
definition workloadRoleKind :: string where "workloadRoleKind = ''Role''"
definition ServiceAccountKind :: string where "ServiceAccountKind = ''ServiceAccount''"

record rbac_options =
  rbac_product_name :: string
  rbac_labels :: "string gomap"

definition no_rbac_options :: rbac_options where
  "no_rbac_options = \<lparr>rbac_product_name = [], rbac_labels = fmempty\<rparr>"

definition WithWorkloadRBACProductName :: "string \<Rightarrow> rbac_options \<Rightarrow> rbac_options" where
  "WithWorkloadRBACProductName name ro = ro\<lparr>rbac_product_name := name\<rparr>"
definition WithWorkloadRBACExtraLabels :: "string gomap \<Rightarrow> rbac_options \<Rightarrow> rbac_options" where
  "WithWorkloadRBACExtraLabels ls ro = ro\<lparr>rbac_labels := ls\<rparr>"

definition workloadRBACLabels :: "string \<Rightarrow> rbac_options \<Rightarrow> string gomap" where
  "workloadRBACLabels cluster ro =
     (let ls = identity_labels cluster (rbac_labels ro)
      in if rbac_product_name ro \<noteq> [] then fmupd LabelKubernetesName (rbac_product_name ro) ls else ls)"

definition wanted_ref :: "string \<Rightarrow> role_ref" where
  "wanted_ref sa = \<lparr>ref_api_group = RBACGroupName, ref_kind = workloadRoleKind, ref_name = sa\<rparr>"

definition no_ref :: role_ref where
  "no_ref = \<lparr>ref_api_group = [], ref_kind = [], ref_name = []\<rparr>"

text \<open>The desired role and role binding, pure data.\<close>

definition buildWorkloadRBAC ::
    "string \<Rightarrow> string \<Rightarrow> string \<Rightarrow> role_ref \<Rightarrow> string list \<Rightarrow> rbac_options \<Rightarrow> object \<times> object" where
  "buildWorkloadRBAC cluster namespace sa ref rules ro =
     (\<lparr>labels = workloadRBACLabels cluster ro, annotations = fmempty, payload = RBACRole rules\<rparr>,
      \<lparr>labels = workloadRBACLabels cluster ro, annotations = fmempty,
       payload = RBACBinding ref
         [\<lparr>sub_kind = ServiceAccountKind, sub_name = sa, sub_namespace = namespace\<rparr>]\<rparr>)"

definition binding_ref :: "live \<Rightarrow> role_ref" where
  "binding_ref x = (case payload x of RBACBinding r _ \<Rightarrow> r | _ \<Rightarrow> no_ref)"

definition binding_subjects :: "object \<Rightarrow> subject list" where
  "binding_subjects d = (case payload d of RBACBinding _ ss \<Rightarrow> ss | _ \<Rightarrow> [])"

definition workloadRoleRefConflict :: "string \<Rightarrow> role_ref \<Rightarrow> role_ref \<Rightarrow> err" where
  "workloadRoleRefConflict name have want = NewValidationError ''WorkloadRBAC'' [] []
     (Some (PlainError (''the RoleBinding '' @ name @ '' already exists and points at '' @ ref_kind have @
       ''/'' @ ref_name have @ '', but this cluster's workload RBAC requires '' @ ref_kind want @ ''/'' @
       ref_name want)))"

definition checkWorkloadRoleRef :: "env \<Rightarrow> string \<Rightarrow> role_ref \<Rightarrow> unit run" where
  "checkWorkloadRoleRef env name want =
     handleE (client_get env (KRoleBinding, name)) (\<lambda>_. returnE ())
       (\<lambda>x. if binding_ref x = want then returnE ()
            else throwE (workloadRoleRefConflict name (binding_ref x) want))"

definition role_mutate :: "platform \<Rightarrow> object \<Rightarrow> live \<Rightarrow> (err + live) \<times> string list" where
  "role_mutate pf desired x =
     ((case set_owner pf x of
         Inl e \<Rightarrow> Inl e
       | Inr y \<Rightarrow> Inr (y\<lparr>labels := labels desired, payload := payload desired\<rparr>)), [])"

definition binding_mutate ::
    "platform \<Rightarrow> string \<Rightarrow> role_ref \<Rightarrow> object \<Rightarrow> live \<Rightarrow> (err + live) \<times> string list" where
  "binding_mutate pf name want desired x =
     ((case set_owner pf x of
         Inl e \<Rightarrow> Inl e
       | Inr y \<Rightarrow>
           if binding_ref y = no_ref
           then Inr (y\<lparr>labels := labels desired, payload := RBACBinding want (binding_subjects desired)\<rparr>)
           else if binding_ref y \<noteq> want then Inl (workloadRoleRefConflict name (binding_ref y) want)
           else Inr (y\<lparr>labels := labels desired,
             payload := RBACBinding (binding_ref y) (binding_subjects desired)\<rparr>)), [])"

text \<open>\<open>strings.Contains\<close>.\<close>

definition contains_sub :: "string \<Rightarrow> string \<Rightarrow> bool" where
  "contains_sub s p \<longleftrightarrow> index_sub p s \<noteq> None"

definition isRBACEscalation :: "(err \<Rightarrow> string) \<Rightarrow> err \<Rightarrow> bool" where
  "isRBACEscalation err_text e \<longleftrightarrow>
     contains_sub (err_text e) ''attempting to grant RBAC permissions not currently held'' \<or>
     contains_sub (err_text e) ''attempt to grant extra privileges'' \<or>
     contains_sub (err_text e) ''escalate''"

definition IsForbidden :: "err \<Rightarrow> bool" where
  "IsForbidden e \<longleftrightarrow> errors_as as_status e = Some (OtherStatus ''Forbidden'')"

definition explainWorkloadRBACError :: "platform \<Rightarrow> err \<Rightarrow> err" where
  "explainWorkloadRBACError pf e =
     (if already_owned pf e
      then Wrapped (FmtErrorf ''the workload RBAC object is already controlled'') (Some e)
      else if \<not> IsForbidden e then e
      else if \<not> isRBACEscalation (error_text pf) e
      then Wrapped (FmtErrorf ''the API server refused to write this cluster's workload RBAC'') (Some e)
      else Wrapped (FmtErrorf ''the API server refused these workload RBAC rules'') (Some e))"

text \<open>\<open>metav1.GetControllerOf\<close>: the first owner reference that is a controller.\<close>

definition controller_of :: "live \<Rightarrow> string option" where
  "controller_of x = map_option fst (find snd (lv_owners x))"

definition deleteWorkloadRBACIfOwned :: "env \<Rightarrow> string \<Rightarrow> key \<Rightarrow> unit run" where
  "deleteWorkloadRBACIfOwned env uid k =
     (if uid = [] then returnE ()
      else or_missing id (client_get env k) () (\<lambda>x.
        if controller_of x \<noteq> Some uid then returnE ()
        else or_missing id (api_delete env k) () returnE))"

definition reclaimWorkloadRBAC :: "env \<Rightarrow> string \<Rightarrow> string \<Rightarrow> unit run" where
  "reclaimWorkloadRBAC env uid name =
     bindE (deleteWorkloadRBACIfOwned env uid (KRoleBinding, name))
       (\<lambda>_. deleteWorkloadRBACIfOwned env uid (KRole, name))"

definition write_rbac ::
    "platform \<Rightarrow> env \<Rightarrow> key \<Rightarrow> payload \<Rightarrow> (live \<Rightarrow> (err + live) \<times> string list) \<Rightarrow> unit run" where
  "write_rbac pf env k blank mutate w =
     (case create_or_update id env k (empty_live blank) mutate w of
        (Inl e, _, w1) \<Rightarrow> (Inl (explainWorkloadRBACError pf e), w1)
      | (Inr _, _, w1) \<Rightarrow> (Inr (), w1))"

definition EnsureWorkloadRBAC ::
    "platform \<Rightarrow> env \<Rightarrow> string \<Rightarrow> string \<Rightarrow> string \<Rightarrow> string \<Rightarrow> string list \<Rightarrow> rbac_options \<Rightarrow> unit run" where
  "EnsureWorkloadRBAC pf env uid cluster namespace sa rules ro =
     (if sa = []
      then throwE (PlainError ''workload RBAC needs the name of the ServiceAccount it grants to: got an empty string'')
      else if length rules = 0 then reclaimWorkloadRBAC env uid sa
      else
        (let want = wanted_ref sa;
             (desiredRole, desiredBinding) = buildWorkloadRBAC cluster namespace sa want rules ro
         in seqE [checkWorkloadRoleRef env sa want,
              write_rbac pf env (KRole, sa) (RBACRole []) (role_mutate pf desiredRole),
              write_rbac pf env (KRoleBinding, sa) (RBACBinding no_ref [])
                (binding_mutate pf sa want desiredBinding)]))"

definition ensureWorkloadRBAC ::
    "platform \<Rightarrow> env \<Rightarrow> string \<Rightarrow> string \<Rightarrow> string \<Rightarrow> string \<Rightarrow> string list option \<Rightarrow> unit run" where
  "ensureWorkloadRBAC pf env uid cluster namespace sa rules =
     (case rules of
        None \<Rightarrow> returnE ()
      | Some rs \<Rightarrow> wrapE (reconciler_apiError pf)
          (EnsureWorkloadRBAC pf env uid cluster namespace sa rs no_rbac_options))"

section \<open>Objects of other controllers\<close>

definition owner_ignores_labels :: "platform \<Rightarrow> bool" where
  "owner_ignores_labels pf \<longleftrightarrow> (\<forall>x ls. refused pf (x\<lparr>labels := ls\<rparr>) = refused pf x)"

lemma service_account_refused:
  assumes "owner_ignores_labels pf" and "service_account_mutate pf cluster name ls x = (Inr new, report)"
  shows "\<not> refused pf x"
proof -
  have "set_owner pf (x\<lparr>labels := identity_labels cluster ls\<rparr>) = Inr new"
    using assms(2) unfolding service_account_mutate_def
    by (cases "set_owner pf (x\<lparr>labels := identity_labels cluster ls\<rparr>)") (simp_all only: sum.case prod.inject sum.inject sum.distinct simp_thms)
  then have "\<not> refused pf (x\<lparr>labels := identity_labels cluster ls\<rparr>)" by (simp add: refused_def)
  with assms(1) show ?thesis unfolding owner_ignores_labels_def by blast
qed

lemma defers_ensureServiceAccount:
  assumes "cache_refusals pf env" and "owner_ignores_labels pf"
  shows "preserves (defers pf E) (ensureServiceAccount pf env cluster ls name)"
proof (unfold preserves_def, intro allI)
  fix w
  obtain r report w1 where c: "CreateOrUpdate env (KServiceAccount, name) (empty_live (ServiceAccount []))
      (service_account_mutate pf cluster name ls) w = (r, report, w1)"
    by (cases "CreateOrUpdate env (KServiceAccount, name) (empty_live (ServiceAccount []))
      (service_account_mutate pf cluster name ls) w")
  have "wrote env (KServiceAccount, name) (service_account_mutate pf cluster name ls) w w1"
    using create_or_update_wrote [of env "(KServiceAccount, name)" "service_account_mutate pf cluster name ls"
        w create_failed "empty_live (ServiceAccount [])"] c
    by (simp add: CreateOrUpdate_def)
  then have "defers pf E w w1"
    by (rule defers_wrote [OF assms(1)]) (rule service_account_refused [OF assms(2)])
  then show "defers pf E w (snd (ensureServiceAccount pf env cluster ls name w))"
    by (cases r) (simp_all add: ensureServiceAccount_def c)
qed

lemma controller_owned: "controller_of x = Some uid \<Longrightarrow> isOwnedByCluster x uid"
proof -
  have "map_option fst (find snd xs) = Some uid \<Longrightarrow> list_ex (\<lambda>(u, c). u = uid \<and> c) xs"
    for xs :: "(string \<times> bool) list"
    by (induction xs) (auto split: if_splits)
  then show "controller_of x = Some uid \<Longrightarrow> isOwnedByCluster x uid"
    by (simp add: controller_of_def isOwnedByCluster_def)
qed

lemma defers_delete_rbac:
  assumes "owner_contract pf uid" and "cache_owners env uid"
  shows "preserves (defers pf E) (deleteWorkloadRBACIfOwned env uid k)"
proof -
  have "preserves (defers pf E) (or_missing id (client_get env k) () (\<lambda>x.
      if controller_of x \<noteq> Some uid then returnE () else or_missing id (api_delete env k) () returnE))"
  proof (rule defers.preserves_or_missing_get)
    fix x w assume g: "got env k x w"
    show "defers pf E w (snd ((if controller_of x \<noteq> Some uid then returnE ()
        else or_missing id (api_delete env k) () returnE) w))"
    proof (cases "controller_of x = Some uid")
      case False
      then show ?thesis by (simp add: returnE_def defers.frame_objs)
    next
      case True
      with got_mine [OF assms(2) g] have "mine uid {k} w" using controller_owned by blast
      moreover have "preserves (guarded uid E {k}) (or_missing id (api_delete env k) () returnE)"
        by (intro guarded.preserves_or_missing preserves_delete guarded.preserves_return) simp
      ultimately have "spares uid E w (snd (or_missing id (api_delete env k) () returnE w))"
        by (simp add: preserves_def guarded_def)
      then have "defers pf E w (snd (or_missing id (api_delete env k) () returnE w))"
        by (intro spares_defers [OF assms(1)]) (simp add: guarded_empty)
      with True show ?thesis by simp
    qed
  qed
  then show ?thesis by (simp add: deleteWorkloadRBACIfOwned_def defers.preserves_return)
qed

lemma defers_write_rbac:
  assumes "cache_refusals pf env"
    and "\<And>x new report. mutate x = (Inr new, report) \<Longrightarrow> \<not> refused pf x"
  shows "preserves (defers pf E) (write_rbac pf env k blank mutate)"
proof (unfold preserves_def, intro allI)
  fix w
  obtain r report w1 where c: "create_or_update id env k (empty_live blank) mutate w = (r, report, w1)"
    by (cases "create_or_update id env k (empty_live blank) mutate w")
  have "wrote env k mutate w w1"
    using create_or_update_wrote [of env k mutate w id "empty_live blank"] c by simp
  then have "defers pf E w w1" by (rule defers_wrote [OF assms(1)]) (rule assms(2))
  then show "defers pf E w (snd (write_rbac pf env k blank mutate w))"
    by (cases r) (simp_all add: write_rbac_def c)
qed

lemma rbac_mutate_refused:
  "role_mutate pf desired x = (Inr new, report) \<Longrightarrow> \<not> refused pf x"
  "binding_mutate pf name want desired x = (Inr new, report) \<Longrightarrow> \<not> refused pf x"
  by (auto simp: role_mutate_def binding_mutate_def refused_def split: sum.splits)

lemma defers_ensureWorkloadRBAC:
  assumes "owner_contract pf uid" and "cache_owners env uid" and "cache_refusals pf env"
  shows "preserves (defers pf E) (ensureWorkloadRBAC pf env uid cluster namespace sa rules)"
proof -
  have check: "preserves (defers pf E) (checkWorkloadRoleRef env sa want)" for want
    by (auto simp: checkWorkloadRoleRef_def intro!: defers_control)
  have "preserves (defers pf E) (EnsureWorkloadRBAC pf env uid cluster namespace sa rs ro)" for rs ro
    unfolding EnsureWorkloadRBAC_def Let_def reclaimWorkloadRBAC_def buildWorkloadRBAC_def
    by (auto intro!: defers_control defers_delete_rbac [OF assms(1,2)] defers.preserves_seq check
        defers_write_rbac [OF assms(3)] dest: rbac_mutate_refused)
  then show ?thesis
    by (auto simp: ensureWorkloadRBAC_def intro!: defers.preserves_wrap defers_control split: option.split)
qed

section \<open>Permissions are never widened by a name\<close>

text \<open>A role binding that points elsewhere keeps its reference and its subjects.\<close>

lemma binding_never_repointed:
  "binding_mutate pf name want desired x = (Inr new, report) \<Longrightarrow> set_owner pf x = Inr y \<Longrightarrow>
    binding_ref new = want \<and> (binding_ref y = no_ref \<or> binding_ref y = want)"
  by (auto simp: binding_mutate_def binding_ref_def split: if_splits)

section \<open>Property\<close>

lemma blocked_write:
  assumes "faithful env" and "fmlookup (objs w) k = Some x" and "\<And>new report. mutate x \<noteq> (Inr new, report)"
  shows "\<exists>e report w'. create_or_update g env k obj mutate w = (Inl e, report, w') \<and> objs w' = objs w"
proof -
  have got: "client_get env k w = (Inr y, w1) \<Longrightarrow> y = x" for y w1
    using client_get_got [of env k w y w1] assms(1,2) by (auto simp: got_def faithful_def)
  have created: "\<exists>e w2. api_create env k new w1 = (Inl e, w2) \<and> objs w2 = objs w1" if "objs w1 = objs w" for new w1
    using that assms(2) by (auto simp: api_create_def request_def Let_def split: option.split)
  obtain r w1 where g: "client_get env k w = (r, w1)" by fastforce
  have o: "objs w1 = objs w" using client_get_objs [of env k w] g by simp
  show ?thesis
  proof (cases r)
    case (Inr y)
    with got g have "y = x" by blast
    obtain m report where m: "mutate x = (m, report)" by fastforce
    with assms(3) obtain e where "m = Inl e" by (cases m) auto
    with Inr g m o \<open>y = x\<close> show ?thesis by (simp add: create_or_update_def)
  next
    case (Inl e)
    obtain m report where m: "mutate obj = (m, report)" by fastforce
    show ?thesis
    proof (cases m)
      case (Inl e')
      with \<open>r = Inl e\<close> g m o show ?thesis by (simp add: create_or_update_def)
    next
      case (Inr new)
      from created [OF o, of new] obtain e' w2 where "api_create env k new w1 = (Inl e', w2)" "objs w2 = objs w1"
        by blast
      with Inr \<open>r = Inl e\<close> g m o show ?thesis by (simp add: create_or_update_def)
    qed
  qed
qed

lemma write_role_keeps:
  "k \<noteq> k' \<Longrightarrow> fmlookup (objs (snd (write_rbac pf env k' blank mutate w))) k = fmlookup (objs w) k"
proof -
  assume "k \<noteq> k'"
  obtain r report w1 where c: "create_or_update id env k' (empty_live blank) mutate w = (r, report, w1)"
    by (cases "create_or_update id env k' (empty_live blank) mutate w")
  have "wrote env k' mutate w w1"
    using create_or_update_wrote [of env k' mutate w id "empty_live blank"] c by simp
  with \<open>k \<noteq> k'\<close> have "fmlookup (objs w1) k = fmlookup (objs w) k" by (auto simp: wrote_def)
  then show ?thesis by (cases r) (simp_all add: write_rbac_def c)
qed

lemma check_keeps: "objs (snd (checkWorkloadRoleRef env sa want w)) = objs w"
  using client_get_objs [of env "(KRoleBinding, sa)" w]
  by (auto simp: checkWorkloadRoleRef_def handleE_def returnE_def throwE_def split: prod.splits sum.splits)

text \<open>
  C17. A role binding that already sits under the workload's name and points at another role is never
  rebound to the workload: granting rules fails, and the binding keeps its reference and its subjects,
  whichever requests fail on the way. The reads are taken to be current (\<open>faithful\<close>).
\<close>

theorem EnsureWorkloadRBAC_never_repoints:
  assumes "faithful env" and "rules \<noteq> []"
    and "fmlookup (objs w) (KRoleBinding, sa) = Some x"
    and "binding_ref x \<noteq> no_ref" and "binding_ref x \<noteq> wanted_ref sa"
    and "\<And>y. set_owner pf x = Inr y \<Longrightarrow> payload y = payload x"
  shows "(\<exists>e. fst (EnsureWorkloadRBAC pf env uid cluster namespace sa rules ro w) = Inl e) \<and>
    fmlookup (objs (snd (EnsureWorkloadRBAC pf env uid cluster namespace sa rules ro w))) (KRoleBinding, sa) = Some x"
proof (cases "sa = []")
  case True
  with assms(3) show ?thesis by (simp add: EnsureWorkloadRBAC_def throwE_def)
next
  case False
  define desired where "desired = buildWorkloadRBAC cluster namespace sa (wanted_ref sa) rules ro"
  let ?m = "binding_mutate pf sa (wanted_ref sa) (snd desired)"
  have run: "EnsureWorkloadRBAC pf env uid cluster namespace sa rules ro w =
      seqE [checkWorkloadRoleRef env sa (wanted_ref sa),
        write_rbac pf env (KRole, sa) (RBACRole []) (role_mutate pf (fst desired)),
        write_rbac pf env (KRoleBinding, sa) (RBACBinding no_ref []) ?m] w"
    using False assms(2) by (simp add: EnsureWorkloadRBAC_def desired_def Let_def split: prod.split)
  obtain r1 w1 where c: "checkWorkloadRoleRef env sa (wanted_ref sa) w = (r1, w1)" by fastforce
  obtain r2 w2 where r: "write_rbac pf env (KRole, sa) (RBACRole []) (role_mutate pf (fst desired)) w1 = (r2, w2)"
    by fastforce
  have o1: "fmlookup (objs w1) (KRoleBinding, sa) = Some x"
    using check_keeps [of env sa "wanted_ref sa" w] c assms(3) by simp
  have "(KRoleBinding, sa) \<noteq> (KRole, sa)" by (simp add: KRole_def KRoleBinding_def)
  from write_role_keeps [OF this, of pf env "RBACRole []" "role_mutate pf (fst desired)" w1] r o1
  have o2: "fmlookup (objs w2) (KRoleBinding, sa) = Some x" by simp
  have "?m x \<noteq> (Inr new, report)" for new report
    using assms(4-6) by (auto simp: binding_mutate_def binding_ref_def split: sum.splits)
  from blocked_write [where mutate = ?m, OF assms(1) o2 this, of id "empty_live (RBACBinding no_ref [])"]
  obtain e w3 where b: "write_rbac pf env (KRoleBinding, sa) (RBACBinding no_ref []) ?m w2 = (Inl e, w3)"
      and o3: "objs w3 = objs w2"
    by (auto simp: write_rbac_def)
  show ?thesis
    unfolding run using c r b o1 o2 o3
    by (cases r1; cases r2) (simp_all add: bindE_def handleE_def throwE_def)
qed

definition foreign_binding :: live where
  "foreign_binding = stored_live (RBACBinding
     \<lparr>ref_api_group = RBACGroupName, ref_kind = ''ClusterRole'', ref_name = ''admin''\<rparr> []) []"

theorem EnsureWorkloadRBAC_never_repoints_witness:
  "fmlookup (objs (snd (EnsureWorkloadRBAC plain_platform quiet_env ''uid-1'' ''c'' ''ns'' ''sa''
     [''leases''] no_rbac_options (leftover\<lparr>objs := fmupd (KRoleBinding, ''sa'') foreign_binding fmempty\<rparr>))))
     (KRoleBinding, ''sa'') = Some foreign_binding"
proof -
  have "binding_ref foreign_binding \<noteq> no_ref"
    by (simp add: foreign_binding_def binding_ref_def stored_live_def no_ref_def)
  moreover have "binding_ref foreign_binding \<noteq> wanted_ref ''sa''"
    by (simp add: foreign_binding_def binding_ref_def stored_live_def wanted_ref_def workloadRoleKind_def)
  ultimately show ?thesis
    by (intro EnsureWorkloadRBAC_never_repoints [THEN conjunct2, OF quiet_faithful])
      (auto simp: plain_platform_def)
qed

end
