(* ===== verification/BuildContext.thy ===== *)
theory BuildContext
  imports Roles Rbac Extensions Health
begin

text \<open>
  The state of a reconcile pass, the reconciler with the product's seams, and the context a role group
  is built from: \<open>GenericReconciler\<close>, \<open>NewGenericReconciler\<close> and \<open>buildRoleGroupContext\<close> of
  \<open>pkg/reconciler/generic_reconciler.go\<close>, the contexts of \<open>pkg/reconciler/role_group_handler.go\<close>.

  A pass works on the custom resource in memory and on the world. The product is a record of
  functions: its hooks, its role provider, its resolver and its handler may change either. The health
  manager only reads; what it observes is the function \<open>r_observe\<close>. Logging, metrics and the recovery
  of panics are not modelled.
\<close>

section \<open>A pass\<close>

record pass =
  p_cr :: cluster_resource
  p_world :: world

type_synonym 'a pass_run = "(pass, 'a) op"

definition on_world :: "'a run \<Rightarrow> 'a pass_run" where
  "on_world m s = (case m (p_world s) of (r, w) \<Rightarrow> (r, s\<lparr>p_world := w\<rparr>))"

text \<open>An operation that reads the custom resource in memory.\<close>

definition with_cr :: "(cluster_resource \<Rightarrow> 'a pass_run) \<Rightarrow> 'a pass_run" where
  "with_cr f s = f (p_cr s) s"

definition set_status ::
    "env \<Rightarrow> (int \<Rightarrow> cluster_status \<Rightarrow> cluster_status) \<Rightarrow> unit pass_run" where
  "set_status env f s =
     (Inr (), s\<lparr>p_cr := (p_cr s)\<lparr>cr_status := f (clock env (calls (p_world s))) (cr_status (p_cr s))\<rparr>\<rparr>)"

definition run_hook :: "(pass \<Rightarrow> err option \<times> pass) \<Rightarrow> unit pass_run" where
  "run_hook h s = (case h s of (None, s') \<Rightarrow> (Inr (), s') | (Some e, s') \<Rightarrow> (Inl e, s'))"

definition EmitWarningEvent :: "string \<Rightarrow> string \<Rightarrow> unit pass_run" where
  "EmitWarningEvent reason message s = (Inr (), s\<lparr>p_world := emitWarning reason message (p_world s)\<rparr>)"

section \<open>The product and the reconciler\<close>

record vector_provider =
  vp_config_map :: string
  vp_producers :: "container_logging list"
  vp_log_volume_size :: string

record 'pod build_context =
  bc_cluster_name :: string
  bc_namespace :: string
  bc_labels :: "string gomap"
  bc_spec :: generic_cluster_spec
  bc_role :: string
  bc_role_spec :: role_spec
  bc_group :: string
  bc_group_spec :: role_group_spec
  bc_merged :: "'pod merged_config option"
  bc_resource :: string
  bc_service_account :: string
  bc_sidecars :: "vector_provider option"
  bc_declaration :: role_declaration
  bc_image :: resolved_image
  bc_product :: string
  bc_aggregator :: string
  bc_vector_active :: bool

record role_build_context =
  rbc_cluster_name :: string
  rbc_namespace :: string
  rbc_labels :: "string gomap"
  rbc_spec :: generic_cluster_spec
  rbc_role :: string
  rbc_role_spec :: role_spec
  rbc_product :: string
  rbc_product_version :: string

text \<open>
  The handler returns the resources and the checks of the sidecars registered by then. A CR that
  implements \<open>VectorAggregatorProvider\<close> has a value of \<open>r_aggregator\<close>; a handler that builds a role's
  disruption budget has an \<open>r_role_pdb\<close>.
\<close>

record ('pod, 'meta, 'c, 'r, 'g) reconciler =
  r_platform :: platform
  r_cleaner :: cleaner
  r_health_interval :: duration
  r_affinity :: affinity_codec
  r_pods :: "('pod, 'meta) pod_codec"
  r_parse_quantity :: "string \<Rightarrow> bool"
  r_observe :: "pass \<Rightarrow> health_view"
  r_registry :: "('c, 'r, 'g) extension_registry"
  r_cluster_name :: "'c \<Rightarrow> string"
  r_role_name :: "'r \<Rightarrow> string"
  r_group_name :: "'g \<Rightarrow> string"
  r_cluster_pre :: "('c, pass) hook"
  r_cluster_post :: "('c, pass) hook"
  r_cluster_on_error :: "err \<Rightarrow> ('c, pass) hook"
  r_role_pre :: "string \<Rightarrow> ('r, pass) hook"
  r_role_post :: "string \<Rightarrow> ('r, pass) hook"
  r_group_pre :: "string \<Rightarrow> string \<Rightarrow> ('g, pass) hook"
  r_group_post :: "string \<Rightarrow> string \<Rightarrow> ('g, pass) hook"
  r_dependencies :: "(cluster_resource \<Rightarrow> dependency list) option"
  r_role_provider :: "role_catalog pass_run option"
  r_resolver :: "('pod build_context \<Rightarrow> 'pod contribution option pass_run) option"
  r_handler :: "'pod build_context \<Rightarrow> (role_group_resources \<times> unit run option) pass_run"
  r_role_pdb :: "(role_build_context \<Rightarrow> named_object option) option"
  r_rbac_rules :: "(cluster_resource \<Rightarrow> string list) option"
  r_aggregator :: "cluster_resource \<Rightarrow> string option"
  r_images :: image_resolution

section \<open>The constructor\<close>

record reconciler_config =
  cfg_client :: bool
  cfg_scheme :: bool
  cfg_recorder :: bool
  cfg_handler :: bool
  cfg_api_reader :: bool
  cfg_health_interval :: duration
  cfg_health_timeout :: duration
  cfg_rate_limit :: duration
  cfg_gray_delete :: duration
  cfg_drain_poll :: duration
  cfg_drain_timeout :: duration

definition DefaultHealthCheckInterval :: duration where "DefaultHealthCheckInterval = 120 * second"
definition DefaultHealthCheckTimeout :: duration where "DefaultHealthCheckTimeout = 300 * second"

text \<open>What the constructor decides: the cleaner, the health interval and timeout, the retry delay.\<close>

definition NewGenericReconciler ::
    "(int \<Rightarrow> string) \<Rightarrow> (string \<Rightarrow> int option) \<Rightarrow> (string \<Rightarrow> string) \<Rightarrow> reconciler_config
      \<Rightarrow> err + cleaner \<times> duration \<times> duration \<times> duration" where
  "NewGenericReconciler fmt parse dig cfg =
     (if \<not> cfg_client cfg then Inl (PlainError ''client is required'')
      else if \<not> cfg_scheme cfg then Inl (PlainError ''scheme is required'')
      else if \<not> cfg_recorder cfg then Inl (PlainError ''recorder is required'')
      else if \<not> cfg_handler cfg then Inl (PlainError ''roleGroupHandler is required'')
      else
        (let interval = (if cfg_health_interval cfg = 0 then DefaultHealthCheckInterval
                         else cfg_health_interval cfg);
             timeout = (if cfg_health_timeout cfg = 0 then DefaultHealthCheckTimeout
                        else cfg_health_timeout cfg);
             rateLimit = (if cfg_rate_limit cfg = 0 then 10 * second else cfg_rate_limit cfg);
             c = WithDrainTimeout (cfg_drain_timeout cfg) (WithDrainPollInterval (cfg_drain_poll cfg)
               (WithAPIReader (cfg_api_reader cfg) (WithRateLimitRetryAfter rateLimit
                 (NewRoleGroupCleaner fmt parse dig))));
             c' = (if cfg_gray_delete cfg > 0 then WithGrayDeleteGracePeriod (cfg_gray_delete cfg) c else c)
         in Inr (c', interval, timeout, rateLimit)))"

section \<open>Names\<close>

definition resolveServiceAccountName :: "platform \<Rightarrow> cluster_resource \<Rightarrow> string" where
  "resolveServiceAccountName pf cr = ServiceAccountResourceName (sha8 pf) (cr_kind cr) (cr_name cr)"

section \<open>The role group's context\<close>

definition affinityLayerNames :: "string list" where
  "affinityLayerNames = [''the product's role defaults'', ''the role's config'', ''the role group's config'']"

fun reportAffinityReplacements :: "string \<Rightarrow> string \<Rightarrow> affinity_replacement list \<Rightarrow> unit pass_run" where
  "reportAffinityReplacements role grp [] = returnE ()"
| "reportAffinityReplacements role grp (rep # reps) =
     (let layer = (if ar_layer rep < length affinityLayerNames then affinityLayerNames ! ar_layer rep
                   else ''a lower layer'')
      in bindE (EmitWarningEvent ''AffinityOverridden''
           (''role '' @ role @ '' group '' @ grp @ '': '' @ layer @
            '' replaces config.affinity wholesale, discarding the '' @ join_strings '' and '' (ar_dropped rep) @
            '' declared beneath it''))
         (\<lambda>_. reportAffinityReplacements role grp reps))"

definition vectorConfigIsProvided :: "('pod, 'meta, 'c, 'r, 'g) reconciler \<Rightarrow> cluster_resource
    \<Rightarrow> role_declaration \<Rightarrow> bool" where
  "vectorConfigIsProvided r cr d \<longleftrightarrow> r_aggregator r cr \<noteq> None \<or> OwnsVectorConfig d"

definition vectorEnabledFor :: "('pod, 'z) build_context_scheme \<Rightarrow> bool" where
  "vectorEnabledFor ctx =
     (case logging (RoleGroupSpec_GetConfig (bc_group_spec ctx)) of
        Some l \<Rightarrow> IsAgentEnabled (Some l)
      | None \<Rightarrow> (case bc_merged ctx of Some m \<Rightarrow> IsAgentEnabled (MergedLogging m) | None \<Rightarrow> False))"

definition resolveVectorAggregatorAddress ::
    "('pod, 'meta, 'c, 'r, 'g) reconciler \<Rightarrow> env \<Rightarrow> 'pod build_context \<Rightarrow> 'pod build_context pass_run" where
  "resolveVectorAggregatorAddress r env ctx = with_cr (\<lambda>cr.
     if \<not> vectorEnabledFor ctx \<or> length (LogProducers (bc_declaration ctx)) = 0 then returnE ctx
     else (case r_aggregator r cr of
         None \<Rightarrow> returnE ctx
       | Some name \<Rightarrow>
           if name = [] then throwE (PlainError (''vector agent is enabled but '' @
             ''vectorAggregatorConfigMapName is not configured (role '' @ bc_role ctx @ '')''))
           else handleE (on_world (DiscoverAggregatorAddress env name))
             (\<lambda>e. throwE (Wrapped (FmtErrorf ''failed to discover vector aggregator address'') (Some e)))
             (\<lambda>address. returnE (ctx\<lparr>bc_aggregator := address\<rparr>))))"

definition buildSidecarManager ::
    "('pod, 'meta, 'c, 'r, 'g) reconciler \<Rightarrow> 'pod build_context \<Rightarrow> 'pod build_context pass_run" where
  "buildSidecarManager r ctx0 = with_cr (\<lambda>cr.
     let ctx = ctx0\<lparr>bc_vector_active := False, bc_sidecars := None\<rparr>;
         producers = LogProducers (bc_declaration ctx);
         size = LogVolumeSize (bc_declaration ctx)
     in if \<not> IsAgentEnabled (logging (RoleGroupSpec_GetConfig (bc_group_spec ctx))) then returnE ctx
        else if length producers = 0 then returnE ctx
        else if \<not> vectorConfigIsProvided r cr (bc_declaration ctx)
        then bindE (EmitWarningEvent ''VectorSidecarSkipped''
            (''role '' @ bc_role ctx @ '' group '' @ bc_group ctx @
             '' enables the vector agent, but nothing supplies vector.yaml'')) (\<lambda>_. returnE ctx)
        else returnE (ctx\<lparr>bc_sidecars := Some \<lparr>vp_config_map = bc_resource ctx, vp_producers = producers,
            vp_log_volume_size = (if r_parse_quantity r size then size else [])\<rparr>,
          bc_vector_active := True\<rparr>))"

definition derive ::
    "('pod, 'meta, 'c, 'r, 'g) reconciler \<Rightarrow> 'pod build_context \<Rightarrow> 'pod contribution option pass_run" where
  "derive r ctx =
     (case r_resolver r of
        None \<Rightarrow> returnE None
      | Some resolve \<Rightarrow> wrapE (\<lambda>e. Wrapped (FmtErrorf (''deriving config for role '' @ bc_role ctx @
          '' group '' @ bc_group ctx)) (Some e)) (resolve ctx))"

definition override_listener :: "'pod contribution option \<Rightarrow> 'pod build_context \<Rightarrow> 'pod build_context" where
  "override_listener derived ctx =
     (case derived of
        Some d \<Rightarrow> if contrib_listener_class d \<noteq> []
          then ctx\<lparr>bc_declaration := (bc_declaration ctx)\<lparr>ListenerClass := contrib_listener_class d\<rparr>\<rparr>
          else ctx
      | None \<Rightarrow> ctx)"

text \<open>Stage 3: the overrides of the three layers, above what the product derived.\<close>

definition merge_context ::
    "('pod, 'meta, 'c, 'r, 'g) reconciler \<Rightarrow> role_spec \<Rightarrow> role_group_spec \<Rightarrow> role_group_config_spec
      \<Rightarrow> 'pod contribution option \<Rightarrow> 'pod build_context \<Rightarrow> 'pod build_context pass_run" where
  "merge_context r rspec gspec foldedConfig derived ctx =
     (case overrides (r_pods r) derived of
        Inl e \<Rightarrow> throwE (NewValidationError ''RoleGroupResolver'' (bc_role ctx) (bc_group ctx) (Some e))
      | Inr derivedOverrides \<Rightarrow>
          returnE (ctx\<lparr>bc_merged := Some ((Merge (r_pods r) NewConfigMerger
            [derivedOverrides, RoleSpec_GetOverrides rspec, RoleGroupSpec_GetOverrides gspec])
              \<lparr>MergedLogging := logging foldedConfig\<rparr>)\<rparr>))"

definition initial_context ::
    "('pod, 'meta, 'c, 'r, 'g) reconciler \<Rightarrow> cluster_resource \<Rightarrow> string \<Rightarrow> role_spec \<Rightarrow> string
      \<Rightarrow> role_group_spec \<Rightarrow> role_declaration \<Rightarrow> resolved_image \<Rightarrow> 'pod build_context" where
  "initial_context r cr role rspec grp gspec d img =
     \<lparr>bc_cluster_name = cr_name cr, bc_namespace = cr_namespace cr,
      bc_labels = handlerWritableLabels (cr_labels cr), bc_spec = cr_spec cr, bc_role = role,
      bc_role_spec = rspec, bc_group = grp, bc_group_spec = gspec, bc_merged = None,
      bc_resource = RoleGroupResourceName (sha8 (r_platform r)) (cr_name cr) role grp,
      bc_service_account = resolveServiceAccountName (r_platform r) cr, bc_sidecars = None,
      bc_declaration = d, bc_image = img, bc_product = ProductName (r_images r), bc_aggregator = [],
      bc_vector_active = False\<rparr>"

definition buildRoleGroupContext ::
    "('pod, 'meta, 'c, 'r, 'g) reconciler \<Rightarrow> env \<Rightarrow> string \<Rightarrow> role_spec \<Rightarrow> string \<Rightarrow> role_group_spec
      \<Rightarrow> role_declaration \<Rightarrow> 'pod build_context pass_run" where
  "buildRoleGroupContext r env role rspec grp gspec d =
     (case FoldCommonConfig (r_affinity r)
             [ConfigDefaults d, Some (RoleSpec_GetConfig rspec), Some (RoleGroupSpec_GetConfig gspec)] of
        Inl e \<Rightarrow> throwE (NewValidationError ''config'' role grp (Some e))
      | Inr (foldedConfig, replacedAffinity) \<Rightarrow>
          bindE (reportAffinityReplacements role grp replacedAffinity) (\<lambda>_. with_cr (\<lambda>cr.
            case resolveImage (spec_image (cr_spec cr)) (decl_image d) (r_images r) of
              Inl e \<Rightarrow> throwE (NewValidationError ''image'' role grp (Some e))
            | Inr img \<Rightarrow>
                (let ctx0 = initial_context r cr role rspec grp
                       (gspec\<lparr>rg_config := Some foldedConfig\<rparr>) d img
                 in bindE (wrapE (\<lambda>e. Wrapped (FmtErrorf (''resolving the vector aggregator address for role '' @
                        role @ '' group '' @ grp)) (Some e)) (resolveVectorAggregatorAddress r env ctx0))
                    (\<lambda>ctx1. bindE (buildSidecarManager r ctx1)
                    (\<lambda>ctx2. bindE (derive r ctx2)
                    (\<lambda>derived. merge_context r rspec gspec foldedConfig derived
                      (override_listener derived ctx2))))))))"

end
