(* ===== verification/Reconcile.thy ===== *)
theory Reconcile
  imports BuildContext
begin

text \<open>
  One reconcile pass: \<open>Reconcile\<close>, \<open>reconcile\<close>, \<open>declareRoles\<close>, \<open>reconcileRole\<close>, \<open>reconcileRoleGroup\<close>
  and \<open>updateStatus\<close> of \<open>pkg/reconciler/generic_reconciler.go\<close>.
\<close>

section \<open>A role group\<close>

definition context_id :: "'pod build_context \<Rightarrow> group_id" where
  "context_id ctx = \<lparr>gi_cluster = bc_cluster_name ctx, gi_namespace = bc_namespace ctx,
     gi_role = bc_role ctx, gi_group = bc_group ctx, gi_resource = bc_resource ctx\<rparr>"

fun report_ignored :: "('pod, 'meta, 'c, 'r, 'g) reconciler \<Rightarrow> string \<Rightarrow> string \<Rightarrow> err list \<Rightarrow> unit pass_run" where
  "report_ignored r role grp [] = returnE ()"
| "report_ignored r role grp (e # es) =
     bindE (EmitWarningEvent ''PodOverrideIgnored''
         (''role '' @ role @ '' group '' @ grp @ '': '' @ error_text (r_platform r) e))
       (\<lambda>_. report_ignored r role grp es)"

definition ignored_overrides :: "'pod build_context \<Rightarrow> err list" where
  "ignored_overrides ctx = (case bc_merged ctx of None \<Rightarrow> [] | Some m \<Rightarrow> PodOverrideErrors m)"

definition hook_failed :: "string \<Rightarrow> string \<Rightarrow> err \<Rightarrow> err" where
  "hook_failed phase message e = NewReconcileError phase message (Some e)"

definition apply_context ::
    "('pod, 'meta, 'c, 'r, 'g) reconciler \<Rightarrow> env \<Rightarrow> 'pod build_context
      \<Rightarrow> role_group_resources \<times> unit run option \<Rightarrow> unit pass_run" where
  "apply_context r env ctx res = with_cr (\<lambda>cr.
     on_world (applyResources (r_platform r) (r_cleaner r) env (cr_uid cr) (context_id ctx)
       (snd res) (fst res)))"

definition reconcileRoleGroup ::
    "('pod, 'meta, 'c, 'r, 'g) reconciler \<Rightarrow> env \<Rightarrow> string \<Rightarrow> role_spec \<Rightarrow> string \<Rightarrow> role_group_spec
      \<Rightarrow> role_declaration \<Rightarrow> unit pass_run" where
  "reconcileRoleGroup r env role rspec grp gspec d =
     bindE (wrapE (hook_failed ''RoleGroupPreReconcile'' (''role '' @ role @ '' group '' @ grp @ '' extension hook failed''))
       (run_hook (ExecuteRoleGroupHook (r_group_name r) (r_registry r) (r_group_pre r role grp)))) (\<lambda>_.
     bindE (wrapE (WrapConfigError (''role '' @ role @ '' group '' @ grp))
       (buildRoleGroupContext r env role rspec grp gspec d)) (\<lambda>ctx.
     bindE (report_ignored r role grp (ignored_overrides ctx)) (\<lambda>_.
     bindE (wrapE (\<lambda>e. NewResourceBuildError ''resources'' role grp ''failed to build resources'' (Some e))
       (r_handler r ctx)) (\<lambda>resources'.
     bindE (apply_context r env ctx resources') (\<lambda>_.
     bindE (set_status env (\<lambda>_. SetRoleGroup role grp)) (\<lambda>_.
     wrapE (hook_failed ''RoleGroupPostReconcile'' (''role '' @ role @ '' group '' @ grp @ '' extension hook failed''))
       (run_hook (ExecuteRoleGroupHook (r_group_name r) (r_registry r) (r_group_post r role grp)))))))))"

section \<open>A role\<close>

definition reconcileRolePodDisruptionBudget ::
    "('pod, 'meta, 'c, 'r, 'g) reconciler \<Rightarrow> env \<Rightarrow> string \<Rightarrow> role_spec \<Rightarrow> role_declaration
      \<Rightarrow> unit pass_run" where
  "reconcileRolePodDisruptionBudget r env role rspec d =
     (case r_role_pdb r of
        None \<Rightarrow> returnE ()
      | Some build \<Rightarrow> with_cr (\<lambda>cr.
          let name = RoleResourceName (cr_name cr) role;
              version = (case resolveImage (spec_image (cr_spec cr)) (decl_image d) (r_images r) of
                Inl _ \<Rightarrow> [] | Inr img \<Rightarrow> ri_product_version img);
              failed = (\<lambda>message e. NewResourceApplyError ''PodDisruptionBudget'' (cr_namespace cr) name message (Some e))
          in case build \<lparr>rbc_cluster_name = cr_name cr, rbc_namespace = cr_namespace cr,
                 rbc_labels = handlerWritableLabels (cr_labels cr), rbc_spec = cr_spec cr,
                 rbc_role = role, rbc_role_spec = rspec, rbc_product = ProductName (r_images r),
                 rbc_product_version = version\<rparr> of
               None \<Rightarrow> wrapE (failed ''failed to delete disabled PDB'') (on_world
                 (reclaimRolePDB (r_platform r) (r_cleaner r) env (cr_uid cr) (cr_name cr) name role))
             | Some pdb \<Rightarrow> wrapE (failed ''failed to apply'') (on_world
                 (applyResource (r_platform r) env (objectIdentity pdb)
                   (markRolePodDisruptionBudget role (plain_object pdb))))))"

text \<open>
  The loops are best effort: only a rate limit stops them. They run over the spec as it stands when the
  loop starts.
\<close>

fun reconcile_groups ::
    "('pod, 'meta, 'c, 'r, 'g) reconciler \<Rightarrow> env \<Rightarrow> string \<Rightarrow> role_spec \<Rightarrow> role_declaration
      \<Rightarrow> (string \<times> role_group_spec) list \<Rightarrow> err list \<Rightarrow> err list pass_run" where
  "reconcile_groups r env role rspec d [] errs = returnE errs"
| "reconcile_groups r env role rspec d ((grp, gspec) # gs) errs =
     handleE (reconcileRoleGroup r env role rspec grp gspec d)
       (\<lambda>e. if IsRateLimitError e then throwE e
            else reconcile_groups r env role rspec d gs (errs @ [e]))
       (\<lambda>_. reconcile_groups r env role rspec d gs errs)"

definition finish_role ::
    "('pod, 'meta, 'c, 'r, 'g) reconciler \<Rightarrow> string \<Rightarrow> err list \<Rightarrow> unit pass_run" where
  "finish_role r role errs =
     handleE (run_hook (ExecuteRoleHook (r_role_name r) (r_registry r) (r_role_post r role)))
       (\<lambda>e. throwE (Joined (errs @
          [hook_failed ''RolePostReconcile'' (''role '' @ role @ '' extension hook failed'') e])))
       (\<lambda>_. if length errs > 0 then throwE (Joined errs) else returnE ())"

definition reconcileRole ::
    "('pod, 'meta, 'c, 'r, 'g) reconciler \<Rightarrow> env \<Rightarrow> string \<Rightarrow> role_spec \<Rightarrow> role_declaration \<Rightarrow> unit pass_run" where
  "reconcileRole r env role rspec d =
     bindE (wrapE (hook_failed ''RolePreReconcile'' (''role '' @ role @ '' extension hook failed''))
       (run_hook (ExecuteRoleHook (r_role_name r) (r_registry r) (r_role_pre r role)))) (\<lambda>_.
     bindE (reconcile_groups r env role rspec d (entries (GetRoleGroups rspec)) []) (\<lambda>errs.
     handleE (reconcileRolePodDisruptionBudget r env role rspec d)
       (\<lambda>e. if IsRateLimitError e then throwE e else finish_role r role (errs @ [e]))
       (\<lambda>_. finish_role r role errs)))"

section \<open>The catalog\<close>

fun declaration_errors ::
    "('pod, 'meta, 'c, 'r, 'g) reconciler \<Rightarrow> (string \<times> role_declaration) list \<Rightarrow> err list" where
  "declaration_errors r [] = []"
| "declaration_errors r ((role, d) # ds) =
     (case Validate (r_affinity r) (r_parse_quantity r) (error_text (r_platform r)) role d of
        Some e \<Rightarrow> NewValidationError ''RoleProvider'' role [] (Some e) # declaration_errors r ds
      | None \<Rightarrow> declaration_errors r ds)"

fun report_unused :: "string list \<Rightarrow> unit pass_run" where
  "report_unused [] = returnE ()"
| "report_unused (role # roles) =
     bindE (EmitWarningEvent ''UnusedRoleDeclaration''
         (''the product declares role '' @ role @ '', which this cluster does not use''))
       (\<lambda>_. report_unused roles)"

definition declareRoles :: "('pod, 'meta, 'c, 'r, 'g) reconciler \<Rightarrow> role_catalog pass_run" where
  "declareRoles r =
     (case r_role_provider r of
        None \<Rightarrow> returnE fmempty
      | Some provide \<Rightarrow> bindE provide (\<lambda>catalog. with_cr (\<lambda>cr.
          let declErrs = declaration_errors r (entries catalog)
          in if length declErrs > 0 then throwE (Joined declErrs)
             else (case ValidateCatalog catalog (spec_roles (cr_spec cr)) of
                 Inl e \<Rightarrow> throwE (NewValidationError ''RoleProvider'' [] [] (Some e))
               | Inr unused \<Rightarrow> bindE (report_unused unused) (\<lambda>_. returnE catalog)))))"

section \<open>The status\<close>

text \<open>
  A write of the status subresource, refused for a stale version or another UID; \<open>cr_product\<close> carries
  the product's own status fields.
\<close>

definition api_status_update :: "env \<Rightarrow> cluster_resource \<Rightarrow> cluster_resource run" where
  "api_status_update env cr = request env (\<lambda>n w.
     case stored w of
       None \<Rightarrow> (Inl (StatusError NotFound), w)
     | Some cur \<Rightarrow>
         if cr_version cur \<noteq> cr_version cr \<or> cr_uid cur \<noteq> cr_uid cr then (Inl (StatusError Conflict), w)
         else (let new = cur\<lparr>cr_status := cr_status cr, cr_product := cr_product cr,
                 cr_version := Suc (cr_version cur)\<rparr>
               in (Inr new, w\<lparr>stored := Some new\<rparr>)))"

definition found_cr :: "cluster_resource option \<Rightarrow> err + cluster_resource" where
  "found_cr c = (case c of None \<Rightarrow> Inl (StatusError NotFound) | Some cr \<Rightarrow> Inr cr)"

definition fetchCR :: "env \<Rightarrow> cluster_resource run" where
  "fetchCR env = request env (\<lambda>n w. (found_cr (cr_cache env n (stored w)), w))"

definition read_fresh :: "bool \<Rightarrow> env \<Rightarrow> cluster_resource run" where
  "read_fresh wired env =
     request env (\<lambda>n w. (found_cr (if wired then stored w else cr_cache env n (stored w)), w))"

definition write_status :: "env \<Rightarrow> unit pass_run" where
  "write_status env s =
     (case api_status_update env (p_cr s) (p_world s) of
        (Inl e, w) \<Rightarrow> (Inl e, s\<lparr>p_world := w\<rparr>)
      | (Inr new, w) \<Rightarrow> (Inr (), s\<lparr>p_cr := new, p_world := w\<rparr>))"

definition SetResourceVersion :: "nat \<Rightarrow> unit pass_run" where
  "SetResourceVersion v s = (Inr (), s\<lparr>p_cr := (p_cr s)\<lparr>cr_version := v\<rparr>\<rparr>)"

definition status_attempt :: "('pod, 'meta, 'c, 'r, 'g) reconciler \<Rightarrow> env \<Rightarrow> unit pass_run" where
  "status_attempt r env =
     handleE (write_status env)
       (\<lambda>e. if \<not> IsConflict e then throwE e
            else bindE (on_world (read_fresh (reader_wired (r_cleaner r)) env))
              (\<lambda>latest. bindE (SetResourceVersion (cr_version latest)) (\<lambda>_. throwE e)))
       returnE"

definition updateStatus ::
    "('pod, 'meta, 'c, 'r, 'g) reconciler \<Rightarrow> env \<Rightarrow> cluster_resource \<Rightarrow> unit pass_run" where
  "updateStatus r env original = with_cr (\<lambda>cr.
     if cr = original then returnE ()
     else or_missing id (retry_on_conflict DefaultBackoffRetries (status_attempt r env)) () returnE)"

section \<open>The pass\<close>

definition earliestRequeue :: "duration list \<Rightarrow> duration" where
  "earliestRequeue candidates =
     fold (\<lambda>d nxt. if d \<le> 0 then nxt else if nxt = 0 \<or> d < nxt then d else nxt) candidates 0"

definition ConditionWaiting :: string where "ConditionWaiting = ''Waiting''"

definition check_health :: "('pod, 'meta, 'c, 'r, 'g) reconciler \<Rightarrow> env \<Rightarrow> unit pass_run" where
  "check_health r env s = with_cr (\<lambda>cr. set_status env
     (Check (sha8 (r_platform r)) (error_text (r_platform r)) (r_observe r s) (cr_name cr) (cr_spec cr))) s"

text \<open>A step whose wait does not end the pass: it joins the waits collected so far.\<close>

definition wait_or_fail ::
    "(err \<Rightarrow> err) \<Rightarrow> 'a \<Rightarrow> 'a pass_run \<Rightarrow> wait_state option \<Rightarrow> ('a \<times> wait_state option) pass_run" where
  "wait_or_fail g d m waitFor =
     handleE m
       (\<lambda>e. case WaitingErrors e of
          None \<Rightarrow> throwE (g e)
        | Some rq \<Rightarrow> returnE (d, mergeWait waitFor (newWaitState (Some rq))))
       (\<lambda>a. returnE (a, waitFor))"

fun reconcile_roles ::
    "('pod, 'meta, 'c, 'r, 'g) reconciler \<Rightarrow> env \<Rightarrow> role_catalog \<Rightarrow> (string \<times> role_spec) list \<Rightarrow> err list
      \<Rightarrow> err list pass_run" where
  "reconcile_roles r env catalog [] errs = returnE errs"
| "reconcile_roles r env catalog ((role, rspec) # roles) errs =
     handleE (reconcileRole r env role rspec
         (case fmlookup catalog role of None \<Rightarrow> no_declaration | Some d \<Rightarrow> d))
       (\<lambda>e. if IsRateLimitError e then throwE e else reconcile_roles r env catalog roles (errs @ [e]))
       (\<lambda>_. reconcile_roles r env catalog roles errs)"

definition cleanup_orphans :: "('pod, 'meta, 'c, 'r, 'g) reconciler \<Rightarrow> env \<Rightarrow> duration pass_run" where
  "cleanup_orphans r env s =
     (let cr = p_cr s; w = p_world s in
      case Cleanup (r_cleaner r) env (cr_uid cr) (cr_name cr) (cr_spec cr) (cr_annotations cr)
             (clock env (calls w)) (cr_status cr) w of
        ((requeue_in, problem, status'), w') \<Rightarrow>
          (let s' = \<lparr>p_cr = cr\<lparr>cr_status := status'\<rparr>, p_world = w'\<rparr>
           in case problem of
                Some e \<Rightarrow> if IsRateLimitError e then (Inl e, s') else (Inr requeue_in, s')
              | None \<Rightarrow> (Inr requeue_in, s')))"

text \<open>Step 7: failures outrank waits, and an aggregate that only waits is a wait.\<close>

definition settle_roles :: "err list \<Rightarrow> wait_state option \<Rightarrow> wait_state option pass_run" where
  "settle_roles roleErrs waitFor =
     (if length roleErrs > 0
      then (case WaitingErrors (Joined roleErrs) of
          None \<Rightarrow> throwE (Joined roleErrs)
        | Some rq \<Rightarrow> returnE (mergeWait waitFor (newWaitState (Some rq))))
      else returnE waitFor)"

definition report_outcome :: "wait_state option \<Rightarrow> int \<Rightarrow> cluster_status \<Rightarrow> cluster_status" where
  "report_outcome waitFor now status =
     (case waitFor of
        Some ws \<Rightarrow> SetReconcileComplete now False ReasonWaiting (ws_message ws)
          (SetCondition now (mk_condition ConditionWaiting ConditionTrue (ws_reason ws) (ws_message ws)) status)
      | None \<Rightarrow> SetReconcileComplete now True ReasonReconcileComplete ''Reconciliation completed successfully''
          (if GetCondition status ConditionWaiting \<noteq> None
           then SetCondition now (mk_condition ConditionWaiting ConditionFalse ReasonWaitSatisfied
             ''Nothing is waiting'') status
           else status))"

definition next_wakeup ::
    "('pod, 'meta, 'c, 'r, 'g) reconciler \<Rightarrow> duration \<Rightarrow> wait_state option \<Rightarrow> duration" where
  "next_wakeup r cleanupRequeue waitFor =
     (let requeueAfter = earliestRequeue [r_health_interval r, cleanupRequeue]
      in case waitFor of None \<Rightarrow> requeueAfter | Some ws \<Rightarrow> earliestRequeue [requeueAfter, ws_after ws])"

text \<open>Steps 0 and 0b, the identity and the permissions of the workload.\<close>

definition ensure_identity :: "('pod, 'meta, 'c, 'r, 'g) reconciler \<Rightarrow> env \<Rightarrow> unit pass_run" where
  "ensure_identity r env = with_cr (\<lambda>cr0.
     let pf = r_platform r; sa = resolveServiceAccountName pf cr0
     in bindE (wrapE (hook_failed ''ServiceAccount'' ''failed to ensure service account'')
          (on_world (ensureServiceAccount pf env (cr_name cr0) (cr_labels cr0) sa)))
        (\<lambda>_. with_cr (\<lambda>cr. wrapE (hook_failed ''WorkloadRBAC'' ''failed to ensure workload RBAC'')
          (on_world (ensureWorkloadRBAC pf env (cr_uid cr) (cr_name cr) (cr_namespace cr) sa
            (map_option (\<lambda>f. f cr) (r_rbac_rules r)))))))"

definition check_dependencies :: "('pod, 'meta, 'c, 'r, 'g) reconciler \<Rightarrow> env \<Rightarrow> unit pass_run" where
  "check_dependencies r env = with_cr (\<lambda>cr.
     case r_dependencies r of
       None \<Rightarrow> returnE ()
     | Some deps \<Rightarrow> on_world (validateDependencies (elsewhere (r_platform r)) env (cr_namespace cr) (deps cr)))"

text \<open>Steps 1 to 3: the roles run unless the cluster as a whole waits.\<close>

definition prepare ::
    "('pod, 'meta, 'c, 'r, 'g) reconciler \<Rightarrow> env \<Rightarrow> (role_catalog \<times> wait_state option) pass_run" where
  "prepare r env =
     bindE (wait_or_fail (hook_failed ''PreReconcile'' ''extension hook failed'') ()
       (run_hook (ExecuteClusterHook (r_cluster_name r) (r_registry r) (r_cluster_pre r))) None) (\<lambda>(_, w1).
     bindE (wait_or_fail (hook_failed ''DependencyValidation'' ''dependency validation failed'') ()
       (check_dependencies r env) w1) (\<lambda>(_, w2).
     wait_or_fail id fmempty (declareRoles r) w2))"

definition run_roles ::
    "('pod, 'meta, 'c, 'r, 'g) reconciler \<Rightarrow> env \<Rightarrow> role_catalog \<Rightarrow> wait_state option \<Rightarrow> err list pass_run" where
  "run_roles r env catalog waitFor =
     (if waitFor \<noteq> None then returnE []
      else with_cr (\<lambda>cr. reconcile_roles r env catalog (entries (spec_roles (cr_spec cr))) []))"

text \<open>Steps 4 to 9.\<close>

definition conclude ::
    "('pod, 'meta, 'c, 'r, 'g) reconciler \<Rightarrow> env \<Rightarrow> cluster_resource \<Rightarrow> err list \<Rightarrow> wait_state option
      \<Rightarrow> duration pass_run" where
  "conclude r env original roleErrs waitFor =
     bindE (cleanup_orphans r env) (\<lambda>cleanupRequeue.
     bindE (check_health r env) (\<lambda>_.
     bindE (wrapE (hook_failed ''PostReconcile'' ''extension hook failed'')
       (run_hook (ExecuteClusterHook (r_cluster_name r) (r_registry r) (r_cluster_post r)))) (\<lambda>_.
     bindE (settle_roles roleErrs waitFor) (\<lambda>outcome.
     bindE (set_status env (report_outcome outcome)) (\<lambda>_.
     bindE (updateStatus r env original) (\<lambda>_.
     returnE (next_wakeup r cleanupRequeue outcome)))))))"

definition reconcile_active ::
    "('pod, 'meta, 'c, 'r, 'g) reconciler \<Rightarrow> env \<Rightarrow> cluster_resource \<Rightarrow> duration pass_run" where
  "reconcile_active r env original =
     bindE (ensure_identity r env) (\<lambda>_.
     bindE (prepare r env) (\<lambda>(catalog, waitFor).
     bindE (run_roles r env catalog waitFor) (\<lambda>roleErrs.
     conclude r env original roleErrs waitFor)))"

definition reconcile_paused ::
    "('pod, 'meta, 'c, 'r, 'g) reconciler \<Rightarrow> env \<Rightarrow> cluster_resource \<Rightarrow> duration pass_run" where
  "reconcile_paused r env original =
     bindE (check_health r env) (\<lambda>_.
     bindE (wrapE (hook_failed ''StatusUpdate'' ''failed to record the paused state'')
       (updateStatus r env original)) (\<lambda>_.
     returnE (r_health_interval r)))"

definition reconcile ::
    "('pod, 'meta, 'c, 'r, 'g) reconciler \<Rightarrow> env \<Rightarrow> cluster_resource \<Rightarrow> duration pass_run" where
  "reconcile r env original =
     bindE (with_cr (\<lambda>cr. set_status env (\<lambda>_. SetObservedGeneration (cr_generation cr)))) (\<lambda>_.
     with_cr (\<lambda>cr. if cluster_paused (cr_spec cr) then reconcile_paused r env original
                   else reconcile_active r env original))"

section \<open>The entry point\<close>

definition ignore_error :: "unit pass_run \<Rightarrow> unit pass_run" where
  "ignore_error m = handleE m (\<lambda>_. returnE ()) returnE"

definition report_failure ::
    "('pod, 'meta, 'c, 'r, 'g) reconciler \<Rightarrow> env \<Rightarrow> cluster_resource \<Rightarrow> err \<Rightarrow> unit pass_run" where
  "report_failure r env original e =
     bindE (ignore_error (run_hook (ExecuteClusterOnError (r_cluster_name r) (r_registry r)
       (r_cluster_on_error r e)))) (\<lambda>_.
     bindE (set_status env (\<lambda>now st. SetReconcileComplete now False ReasonReconcileError (error_text (r_platform r) e)
       (SetDegraded now True ReasonReconcileError (error_text (r_platform r) e) st))) (\<lambda>_.
     bindE (ignore_error (updateStatus r env original)) (\<lambda>_.
     with_cr (\<lambda>cr. EmitWarningEvent ''ReconcileError''
       (''Reconciliation failed for cluster '' @ cr_name cr @ '': '' @ error_text (r_platform r) e)))))"

definition Reconcile ::
    "('pod, 'meta, 'c, 'r, 'g) reconciler \<Rightarrow> env \<Rightarrow> world \<Rightarrow> (err + duration) \<times> world" where
  "Reconcile r env w =
     (case fetchCR env w of
        (Inl e, w1) \<Rightarrow> ((if IsNotFound e then Inr 0 else Inl e), w1)
      | (Inr cr, w1) \<Rightarrow>
          if cr_deleting cr then (Inr 0, w1)
          else (case reconcile r env cr \<lparr>p_cr = cr, p_world = w1\<rparr> of
              (Inr d, s) \<Rightarrow> (Inr d, p_world s)
            | (Inl e, s) \<Rightarrow>
                (case errors_as as_rate_limit e of
                   Some retryAfter \<Rightarrow> (Inr retryAfter, p_world s)
                 | None \<Rightarrow> (Inl e, p_world (snd (report_failure r env cr e s))))))"

end
