(* ===== verification/ReconcileSafety.thy ===== *)
theory ReconcileSafety
  imports Reconcile
begin

text \<open>
  A whole pass never touches an object \<open>SetControllerReference\<close> refuses, as long as the product's own
  code does not, and a paused or deleted cluster is left alone.
\<close>

section \<open>Frames of a pass\<close>

text \<open>What holds between two states of a pass that serves the custom resource with UID \<open>u\<close>.\<close>

definition held :: "string \<Rightarrow> (world \<Rightarrow> world \<Rightarrow> bool) \<Rightarrow> pass \<Rightarrow> pass \<Rightarrow> bool" where
  "held u R s s' \<longleftrightarrow> (cr_uid (p_cr s) = u \<longrightarrow> cr_uid (p_cr s') = u \<and> R (p_world s) (p_world s'))"

definition hook_within :: "('s \<Rightarrow> 's \<Rightarrow> bool) \<Rightarrow> ('x, 's) hook \<Rightarrow> bool" where
  "hook_within F h \<longleftrightarrow> (\<forall>x s. F s (snd (h x s)))"

context frame
begin

lemma preserves_bind_value:
  assumes "preserves R m" and "\<And>s a s'. m s = (Inr a, s') \<Longrightarrow> preserves R (f a)"
  shows "preserves R (bindE m f)"
proof (unfold preserves_def, intro allI)
  fix s
  obtain res s' where ms: "m s = (res, s')" by fastforce
  have 1: "R s s'" using assms(1) ms by (metis preserves_def snd_conv)
  show "R s (snd (bindE m f s))"
  proof (cases res)
    case (Inl e)
    with ms 1 show ?thesis by (simp add: bindE_def handleE_def throwE_def)
  next
    case (Inr a)
    with assms(2) ms have "R s' (snd (f a s'))" by (simp add: preserves_def)
    with 1 Inr ms show ?thesis by (auto simp: bindE_def handleE_def intro: trans)
  qed
qed

lemma hook_loop_within:
  "hook_within R h \<Longrightarrow> R s (snd (hook_loop nm policy h errs es s))"
proof (induction es arbitrary: errs s)
  case Nil
  show ?case by (simp add: refl)
next
  case (Cons x es)
  obtain e s' where h: "h (ext x) s = (e, s')" by fastforce
  with Cons.prems have 1: "R s s'" by (metis hook_within_def snd_conv)
  from Cons.IH [OF Cons.prems] have "R s' (snd (hook_loop nm policy h errs' es s'))" for errs' .
  with 1 have "R s (snd (hook_loop nm policy h errs' es s'))" for errs' by (blast intro: trans)
  with h 1 show ?case by (cases e) (simp_all add: Let_def)
qed

lemma executeHooks_within: "hook_within R h \<Longrightarrow> R s (snd (executeHooks nm es policy h s))"
  by (simp add: executeHooks_def hook_loop_within)

end

context world_frame
begin

lemma held_frame: "frame (held u R)"
  by unfold_locales (auto simp: held_def refl intro: frame_trans)

lemma held_world: "preserves R m \<Longrightarrow> preserves (held u R) (on_world m)"
  by (auto simp: preserves_def held_def on_world_def split: prod.split) (metis snd_conv)

lemma held_with_cr:
  "(\<And>cr. cr_uid cr = u \<Longrightarrow> preserves (held u R) (f cr)) \<Longrightarrow> preserves (held u R) (with_cr f)"
  by (auto simp: preserves_def held_def with_cr_def)

lemma held_any_cr: "(\<And>cr. preserves (held u R) (f cr)) \<Longrightarrow> preserves (held u R) (with_cr f)"
  by (rule held_with_cr)

lemma held_status: "preserves (held u R) (set_status env f)"
  by (simp add: preserves_def held_def set_status_def refl)

lemma held_warning: "preserves (held u R) (EmitWarningEvent reason message)"
  by (simp add: preserves_def held_def EmitWarningEvent_def emitWarning_def frame_objs)

lemma held_run_hook:
  assumes "\<And>s. held u R s (snd (h s))"
  shows "preserves (held u R) (run_hook h)"
proof (unfold preserves_def, intro allI)
  fix s
  show "held u R s (snd (run_hook h s))"
    using assms [of s] by (cases "h s"; cases "fst (h s)") (auto simp: run_hook_def)
qed

lemma held_hooks:
  assumes "hook_within (held u R) h"
  shows "preserves (held u R) (run_hook (ExecuteClusterHook nm reg h))"
    and "preserves (held u R) (run_hook (ExecuteClusterOnError nm reg h))"
  using frame.executeHooks_within [OF held_frame assms]
  by (auto simp: ExecuteClusterHook_def ExecuteClusterOnError_def intro!: held_run_hook)

lemma held_role_hooks:
  assumes "hook_within (held u R) h"
  shows "preserves (held u R) (run_hook (ExecuteRoleHook nm reg h))"
  using frame.executeHooks_within [OF held_frame assms]
  by (auto simp: ExecuteRoleHook_def intro!: held_run_hook)

lemma held_group_hooks:
  assumes "hook_within (held u R) h"
  shows "preserves (held u R) (run_hook (ExecuteRoleGroupHook nm reg h))"
  using frame.executeHooks_within [OF held_frame assms]
  by (auto simp: ExecuteRoleGroupHook_def intro!: held_run_hook)

lemma held_write_status: "preserves (held u R) (write_status env)"
proof (unfold preserves_def, intro allI)
  fix s
  show "held u R s (snd (write_status env s))"
    by (auto simp: held_def write_status_def api_status_update_def request_def Let_def frame_objs
        split: option.split)
qed

lemma held_version: "preserves (held u R) (SetResourceVersion v)"
  by (simp add: preserves_def held_def SetResourceVersion_def refl)

lemmas held_control = frame.preserves_return [OF held_frame] frame.preserves_throw [OF held_frame]
  frame.preserves_bind [OF held_frame] frame.preserves_handle [OF held_frame]
  frame.preserves_wrap [OF held_frame] frame.preserves_or_missing [OF held_frame]
  frame.preserves_retry [OF held_frame] held_any_cr held_status held_warning held_world

lemma held_updateStatus: "preserves (held u R) (updateStatus r env original)"
proof -
  have "preserves R (read_fresh wired env)" for wired
    unfolding read_fresh_def by (rule preserves_read) simp
  then have "preserves (held u R) (status_attempt r env)"
    by (auto simp: status_attempt_def intro!: held_control held_write_status held_version)
  then show ?thesis
    by (auto simp: updateStatus_def intro!: held_control)
qed

end

section \<open>The product and the framework\<close>

definition product_within ::
    "(pass \<Rightarrow> pass \<Rightarrow> bool) \<Rightarrow> ('pod, 'meta, 'c, 'r, 'g) reconciler \<Rightarrow> bool" where
  "product_within F r \<longleftrightarrow>
     hook_within F (r_cluster_pre r) \<and> hook_within F (r_cluster_post r) \<and>
     (\<forall>e. hook_within F (r_cluster_on_error r e)) \<and>
     (\<forall>role. hook_within F (r_role_pre r role) \<and> hook_within F (r_role_post r role)) \<and>
     (\<forall>role grp. hook_within F (r_group_pre r role grp) \<and> hook_within F (r_group_post r role grp)) \<and>
     (\<forall>m. r_role_provider r = Some m \<longrightarrow> preserves F m) \<and>
     (\<forall>f ctx. r_resolver r = Some f \<longrightarrow> preserves F (f ctx)) \<and>
     (\<forall>ctx. preserves F (r_handler r ctx)) \<and>
     (\<forall>ctx s b m s'. r_handler r ctx s = (Inr (b, Some m), s') \<longrightarrow> reads_only m)"

text \<open>The writes of the framework itself, for the custom resource with UID \<open>u\<close>.\<close>

definition framework_within ::
    "(world \<Rightarrow> world \<Rightarrow> bool) \<Rightarrow> ('pod, 'meta, 'c, 'r, 'g) reconciler \<Rightarrow> env \<Rightarrow> string \<Rightarrow> bool" where
  "framework_within R r env u \<longleftrightarrow>
     (\<forall>cluster ls name. preserves R (ensureServiceAccount (r_platform r) env cluster ls name)) \<and>
     (\<forall>cluster ns sa rules. preserves R (ensureWorkloadRBAC (r_platform r) env u cluster ns sa rules)) \<and>
     (\<forall>g checks rs. (\<forall>m. checks = Some m \<longrightarrow> reads_only m) \<longrightarrow>
        preserves R (applyResources (r_platform r) (r_cleaner r) env u g checks rs)) \<and>
     (\<forall>k d. preserves R (applyResource (r_platform r) env k d)) \<and>
     (\<forall>cluster name role. preserves R (reclaimRolePDB (r_platform r) (r_cleaner r) env u cluster name role)) \<and>
     (\<forall>cluster spec ann now st w. R w (snd (Cleanup (r_cleaner r) env u cluster spec ann now st w)))"

lemma framework_withinD:
  assumes "framework_within R r env u"
  shows "preserves R (ensureServiceAccount (r_platform r) env cluster ls name)"
    and "preserves R (ensureWorkloadRBAC (r_platform r) env u cluster ns sa rules)"
    and "preserves R (applyResource (r_platform r) env k o')"
    and "preserves R (reclaimRolePDB (r_platform r) (r_cleaner r) env u cluster name role)"
  using assms by (simp_all del: split_paired_All add: framework_within_def)

lemma wrapE_value: "wrapE g m s = (Inr a, s') \<Longrightarrow> m s = (Inr a, s')"
  by (auto simp: wrapE_def handleE_def throwE_def returnE_def split: prod.splits sum.splits)

context world_frame
begin

lemma held_report_ignored: "preserves (held u R) (report_ignored r role grp es)"
  by (induction r role grp es rule: report_ignored.induct) (auto intro!: held_control)

lemma held_reportAffinity: "preserves (held u R) (reportAffinityReplacements role grp reps)"
  by (induction role grp reps rule: reportAffinityReplacements.induct) (auto simp: Let_def intro!: held_control)

lemma held_report_unused: "preserves (held u R) (report_unused roles)"
  by (induction roles) (auto intro!: held_control)

lemma within_discovery: "preserves R (DiscoverAggregatorAddress env name)"
  by (auto simp: DiscoverAggregatorAddress_def preserves_reads preserves_throw preserves_return
      intro!: preserves_handle split: option.split)

lemma within_dependencies: "preserves R (validateDependencies other env home ds)"
proof -
  have "preserves R (read_object other env home ns k)" for ns k
    by (auto simp: read_object_def preserves_reads preserves_return
        intro!: preserves_bind preserves_read split: option.split)
  then have "preserves R (ValidateConfigMap other env home ns n)" "preserves R (ValidateSecret other env home ns n)"
    for ns n by (auto simp: ValidateConfigMap_def ValidateSecret_def intro!: preserves_wrap)
  then show ?thesis
    by (induction other env home ds rule: validateDependencies.induct)
      (auto simp: Let_def preserves_throw preserves_return intro!: preserves_bind)
qed

lemma held_context:
  assumes "product_within (held u R) r"
  shows "preserves (held u R) (buildRoleGroupContext r env role rspec grp gspec d)"
proof -
  have derive: "preserves (held u R) (derive r ctx)" for ctx
    using assms by (auto simp: derive_def product_within_def intro!: held_control split: option.split)
  have merge: "preserves (held u R) (merge_context r rspec gspec cfg derived ctx)" for cfg derived ctx
    by (auto simp: merge_context_def intro!: held_control split: sum.split)
  have address: "preserves (held u R) (resolveVectorAggregatorAddress r env ctx)" for ctx
    by (auto simp: resolveVectorAggregatorAddress_def intro!: held_control within_discovery split: option.split)
  have sidecars: "preserves (held u R) (buildSidecarManager r ctx)" for ctx
    by (auto simp: buildSidecarManager_def Let_def intro!: held_control)
  show ?thesis
    by (auto simp: buildRoleGroupContext_def Let_def held_reportAffinity derive merge address sidecars
        intro!: held_control split: sum.split prod.split)
qed

lemma held_roleGroup:
  assumes p: "product_within (held u R) r" and f: "framework_within R r env u"
  shows "preserves (held u R) (reconcileRoleGroup r env role rspec grp gspec d)"
proof -
  have pre: "hook_within (held u R) (r_group_pre r role grp)"
    and post: "hook_within (held u R) (r_group_post r role grp)"
    and handler: "preserves (held u R) (r_handler r ctx)"
    and checks: "r_handler r ctx s = (Inr (b, Some m), s') \<Longrightarrow> reads_only m" for ctx s b m s'
    using p unfolding product_within_def by blast+
  have applied: "preserves (held u R) (apply_context r env ctx res)"
    if "\<forall>m. snd res = Some m \<longrightarrow> reads_only m" for ctx res
    using f that by (auto simp: apply_context_def framework_within_def intro!: held_with_cr held_world)
  have rest: "preserves (held u R) (bindE (apply_context r env ctx res) (\<lambda>_.
      bindE (set_status env (\<lambda>_. SetRoleGroup role grp)) (\<lambda>_. wrapE g (run_hook (ExecuteRoleGroupHook
        (r_group_name r) (r_registry r) (r_group_post r role grp))))))"
    if "\<forall>m. snd res = Some m \<longrightarrow> reads_only m" for ctx res g
    by (intro held_control applied [OF that] held_group_hooks [OF post])
  have tail: "preserves (held u R) (bindE (wrapE h (r_handler r ctx)) (\<lambda>res. bindE (apply_context r env ctx res) (\<lambda>_.
      bindE (set_status env (\<lambda>_. SetRoleGroup role grp)) (\<lambda>_. wrapE g (run_hook (ExecuteRoleGroupHook
        (r_group_name r) (r_registry r) (r_group_post r role grp)))))))" for ctx g h
  proof (rule frame.preserves_bind_value [OF held_frame])
    show "preserves (held u R) (wrapE h (r_handler r ctx))"
      by (intro held_control handler)
  next
    fix s res s' assume "wrapE h (r_handler r ctx) s = (Inr res, s')"
    from wrapE_value [OF this] have "\<forall>m. snd res = Some m \<longrightarrow> reads_only m"
      using checks [of ctx s "fst res"] by (metis prod.collapse)
    then show "preserves (held u R) (bindE (apply_context r env ctx res) (\<lambda>_.
        bindE (set_status env (\<lambda>_. SetRoleGroup role grp)) (\<lambda>_. wrapE g (run_hook (ExecuteRoleGroupHook
          (r_group_name r) (r_registry r) (r_group_post r role grp))))))"
      by (rule rest)
  qed
  note bind = frame.preserves_bind [OF held_frame] and wrap = frame.preserves_wrap [OF held_frame]
  show ?thesis
    unfolding reconcileRoleGroup_def
    by (rule bind, (intro wrap held_group_hooks pre), rule bind, (intro wrap held_context p),
        rule bind, rule held_report_ignored, rule tail)
qed

lemma held_role:
  assumes p: "product_within (held u R) r" and f: "framework_within R r env u"
  shows "preserves (held u R) (reconcileRole r env role rspec d)"
proof -
  have pre: "hook_within (held u R) (r_role_pre r role)" and post: "hook_within (held u R) (r_role_post r role)"
    using p by (auto simp: product_within_def)
  have groups: "preserves (held u R) (reconcile_groups r env role rspec d gs errs)" for gs errs
  proof (induction gs arbitrary: errs)
    case Nil
    show ?case by (simp add: held_control)
  next
    case (Cons g gs)
    obtain grp gspec where "g = (grp, gspec)" by (cases g)
    with Cons show ?case by (auto intro!: held_control held_roleGroup [OF p f])
  qed
  have finish: "preserves (held u R) (finish_role r role errs)" for errs
    by (auto simp: finish_role_def intro!: held_control held_role_hooks [OF post])
  have pdb: "preserves (held u R) (reconcileRolePodDisruptionBudget r env role rspec d)"
    using f unfolding reconcileRolePodDisruptionBudget_def Let_def
    by (auto simp: frame.preserves_return [OF held_frame] intro!: held_with_cr held_world framework_withinD
        frame.preserves_wrap [OF held_frame] split: option.split)
  show ?thesis
    by (auto simp: reconcileRole_def finish pdb groups intro!: held_control held_role_hooks [OF pre])
qed

lemma held_cleanup:
  "framework_within R r env u \<Longrightarrow> preserves (held u R) (cleanup_orphans r env)"
  by (auto simp: preserves_def held_def cleanup_orphans_def Let_def framework_within_def
      split: prod.split option.split) (metis snd_conv)+

lemma held_health: "preserves (held u R) (check_health r env)"
proof -
  have "preserves (held u R) (with_cr (\<lambda>cr. set_status env (f cr)))" for f
    by (intro held_control)
  then show ?thesis by (simp add: preserves_def check_health_def)
qed

lemma held_wait_or_fail: "preserves (held u R) m \<Longrightarrow> preserves (held u R) (wait_or_fail g d m waitFor)"
  by (auto simp: wait_or_fail_def intro!: held_control split: option.split)

lemma held_reconcile:
  assumes p: "product_within (held u R) r" and f: "framework_within R r env u"
  shows "preserves (held u R) (reconcile r env original)"
proof -
  have pre: "hook_within (held u R) (r_cluster_pre r)" and post: "hook_within (held u R) (r_cluster_post r)"
    using p by (auto simp: product_within_def)
  have identity: "preserves (held u R) (ensure_identity r env)"
  proof -
    have rbac: "preserves (held u R) (with_cr (\<lambda>cr. wrapE g (on_world (ensureWorkloadRBAC (r_platform r) env
        (cr_uid cr) (cr_name cr) (cr_namespace cr) sa (map_option (\<lambda>f. f cr) (r_rbac_rules r))))))" for g sa
      using f by (intro held_with_cr) (auto intro!: frame.preserves_wrap [OF held_frame] held_world framework_withinD)
    show ?thesis unfolding ensure_identity_def Let_def
      by (rule held_any_cr, rule frame.preserves_bind [OF held_frame],
          (intro frame.preserves_wrap [OF held_frame] held_world framework_withinD(1) [OF f]), rule rbac)
  qed
  have deps: "preserves (held u R) (check_dependencies r env)"
    by (auto simp: check_dependencies_def intro!: held_control within_dependencies split: option.split)
  have declared: "preserves (held u R) (declareRoles r)"
    using p by (auto simp: declareRoles_def Let_def product_within_def held_report_unused
        intro!: held_control split: option.split sum.split)
  have prepared: "preserves (held u R) (prepare r env)"
    by (auto simp: prepare_def intro!: held_control held_wait_or_fail held_hooks [OF pre] deps declared)
  have roles: "preserves (held u R) (reconcile_roles r env catalog roles errs)" for catalog roles errs
  proof (induction roles arbitrary: errs)
    case Nil
    show ?case by (simp add: held_control)
  next
    case (Cons x roles)
    obtain role rspec where "x = (role, rspec)" by (cases x)
    with Cons show ?case by (auto intro!: held_control held_role [OF p f])
  qed
  have conclude: "preserves (held u R) (conclude r env original errs waitFor)" for errs waitFor
    by (auto simp: conclude_def settle_roles_def held_cleanup [OF f] held_health held_updateStatus
        intro!: held_control held_hooks [OF post] split: option.split)
  show ?thesis
    by (auto simp: reconcile_def reconcile_active_def reconcile_paused_def run_roles_def identity prepared
        roles conclude held_health held_updateStatus intro!: held_control)
qed

lemma held_report_failure:
  assumes "\<And>e. hook_within (held u R) (r_cluster_on_error r e)"
  shows "preserves (held u R) (report_failure r env original e)"
  by (auto simp: report_failure_def ignore_error_def held_updateStatus
      intro!: held_control held_hooks [OF assms])

end

section \<open>Properties\<close>

lemma spares_mono: "spares uid E w w' \<Longrightarrow> E \<subseteq> E' \<Longrightarrow> spares uid E' w w'"
  unfolding spares_def by blast

lemma defers_Cleanup:
  assumes "owner_contract pf u" and "cache_owners env u"
  shows "defers pf {KPersistentVolumeClaim} w (snd (Cleanup c env u cluster spec ann now st w))"
proof -
  have "guarded u (exempt (wants_pvcs ann)) {} w (snd (Cleanup c env u cluster spec ann now st w))"
    by (rule Cleanup_guarded [OF assms(2) refl])
  then have "spares u {KPersistentVolumeClaim} w (snd (Cleanup c env u cluster spec ann now st w))"
    unfolding guarded_empty by (rule spares_mono) (simp add: exempt_def)
  then show ?thesis by (intro spares_defers [OF assms(1)]) (simp add: guarded_empty)
qed

lemma framework_defers:
  assumes "owner_contract (r_platform r) u" and "cache_owners env u" and "cache_refusals (r_platform r) env"
    and "owner_ignores_labels (r_platform r)"
  shows "framework_within (defers (r_platform r) {KPersistentVolumeClaim}) r env u"
  unfolding framework_within_def
  by (intro conjI allI impI defers_ensureServiceAccount defers_ensureWorkloadRBAC defers_applyResources
      defers_applyResource defers_reclaims defers_Cleanup defers.reads_only_preserves assms) blast

context world_frame
begin

lemma Reconcile_within:
  assumes p: "product_within (held u R) r" and f: "framework_within R r env u"
    and uid: "\<And>n c cr. cr_cache env n c = Some cr \<Longrightarrow> cr_uid cr = u"
  shows "R w (snd (Reconcile r env w))"
proof -
  obtain res w1 where fetch: "fetchCR env w = (res, w1)" by fastforce
  have 1: "R w w1"
    using fetch by (auto simp: fetchCR_def request_def Let_def intro!: frame_objs split: option.splits)
  show ?thesis
  proof (cases res)
    case (Inl e)
    with fetch 1 show ?thesis by (simp add: Reconcile_def)
  next
    case (Inr cr)
    with fetch uid have u: "cr_uid cr = u"
      by (auto simp: fetchCR_def request_def found_cr_def Let_def split: option.splits)
    let ?s = "\<lparr>p_cr = cr, p_world = w1\<rparr>"
    obtain res' s where run: "reconcile r env cr ?s = (res', s)" by fastforce
    have "held u R ?s s" using held_reconcile [OF p f, of cr] run by (metis preserves_def snd_conv)
    with u have s: "cr_uid (p_cr s) = u" "R w1 (p_world s)" by (simp_all add: held_def)
    have "preserves (held u R) (report_failure r env cr e)" for e
      using p by (intro held_report_failure) (simp add: product_within_def)
    then have "R (p_world s) (p_world (snd (report_failure r env cr e s)))" for e
      using s(1) by (simp add: preserves_def held_def)
    with 1 s(2) show ?thesis
      using fetch Inr run
      by (cases res') (auto simp: Reconcile_def intro: frame_trans split: option.split)
  qed
qed

end

text \<open>
  C1. A reconcile of a cluster never changes or deletes an object that \<open>SetControllerReference\<close> refuses,
  because another controller owns it, whatever requests fail and however stale the cache is, as long as
  the product's hooks, provider, resolver and handler leave such objects alone and the cache is right
  about owners. Volume claims are exempt.
\<close>

theorem Reconcile_spares_others:
  assumes "owner_contract (r_platform r) u" and "owner_ignores_labels (r_platform r)"
    and "cache_owners env u" and "cache_refusals (r_platform r) env"
    and "\<And>n c cr. cr_cache env n c = Some cr \<Longrightarrow> cr_uid cr = u"
    and "product_within (held u (defers (r_platform r) {KPersistentVolumeClaim})) r"
    and "fmlookup (objs w) k = Some x" and "refused (r_platform r) x" and "fst k \<noteq> KPersistentVolumeClaim"
  shows "fmlookup (objs (snd (Reconcile r env w))) k = Some x"
proof -
  have "defers (r_platform r) {KPersistentVolumeClaim} w (snd (Reconcile r env w))"
    by (rule defers.Reconcile_within [OF assms(6) framework_defers [OF assms(1,3,4,2)] assms(5)])
  with assms(7-9) show ?thesis unfolding defers_def by blast
qed

section \<open>Frozen clusters\<close>

definition same_objs :: "world \<Rightarrow> world \<Rightarrow> bool" where
  "same_objs w w' \<longleftrightarrow> objs w' = objs w"

interpretation same_objs: world_frame same_objs
  by unfold_locales (simp_all add: same_objs_def)

lemma reconcile_paused_eq:
  assumes "cluster_paused (cr_spec (p_cr s))"
  shows "\<exists>s1. cr_uid (p_cr s1) = cr_uid (p_cr s) \<and> p_world s1 = p_world s \<and>
    reconcile r env original s = reconcile_paused r env original s1"
  using assms
  by (intro exI [of _ "snd (with_cr (\<lambda>cr. set_status env (\<lambda>_. SetObservedGeneration (cr_generation cr))) s)"])
    (simp add: reconcile_def bindE_def handleE_def with_cr_def set_status_def)

context world_frame
begin

lemma held_paused: "preserves (held u R) (reconcile_paused r env original)"
  by (auto simp: reconcile_paused_def held_health held_updateStatus intro!: held_control)

end

text \<open>
  C4. A cluster that is paused or being deleted is frozen: whatever the product is, a reconcile of it leaves
  every object as it is, provided the product's error hooks do when recording the pause fails.
\<close>

theorem Reconcile_frozen:
  assumes "\<And>n c cr. cr_cache env n c = Some cr \<Longrightarrow> cr_deleting cr \<or> cluster_paused (cr_spec cr)"
    and "\<And>u e. hook_within (held u same_objs) (r_cluster_on_error r e)"
  shows "objs (snd (Reconcile r env w)) = objs w"
proof -
  obtain res w1 where fetch: "fetchCR env w = (res, w1)" by fastforce
  have 1: "objs w1 = objs w"
    using fetch by (auto simp: fetchCR_def request_def Let_def split: option.splits)
  show ?thesis
  proof (cases res)
    case (Inl e)
    with fetch 1 show ?thesis by (simp add: Reconcile_def)
  next
    case (Inr cr)
    show ?thesis
    proof (cases "cr_deleting cr")
      case True
      with fetch Inr 1 show ?thesis by (simp add: Reconcile_def)
    next
      case False
      from fetch Inr have "\<exists>n c. cr_cache env n c = Some cr"
        by (auto simp: fetchCR_def request_def found_cr_def Let_def split: option.splits)
      with assms(1) False have paused: "cluster_paused (cr_spec cr)" by blast
      let ?s = "\<lparr>p_cr = cr, p_world = w1\<rparr>"
      obtain s1 where s1: "cr_uid (p_cr s1) = cr_uid cr" "p_world s1 = w1"
          "reconcile r env cr ?s = reconcile_paused r env cr s1"
        using reconcile_paused_eq [of ?s r env cr] paused by auto
      obtain res' s where run: "reconcile_paused r env cr s1 = (res', s)" by fastforce
      have "held (cr_uid cr) same_objs s1 s"
        using same_objs.held_paused [of "cr_uid cr" r env cr] run by (metis preserves_def snd_conv)
      with s1 have s: "cr_uid (p_cr s) = cr_uid cr" "objs (p_world s) = objs w1"
        by (simp_all add: held_def same_objs_def)
      have "preserves (held (cr_uid cr) same_objs) (report_failure r env cr e)" for e
        by (intro same_objs.held_report_failure assms(2))
      then have "objs (p_world (snd (report_failure r env cr e s))) = objs (p_world s)" for e
        using s(1) by (simp add: preserves_def held_def same_objs_def)
      with 1 s(2) False show ?thesis
        using fetch Inr run s1(3) by (cases res') (auto simp: Reconcile_def split: option.split)
    qed
  qed
qed

section \<open>A small product\<close>

definition strict_platform :: platform where
  "strict_platform = plain_platform\<lparr>set_owner := (\<lambda>x.
     if isOwnedByCluster x ''uid-1'' then Inr x
     else if list_ex snd (lv_owners x) then Inl (PlainError ''already owned'')
     else Inr (x\<lparr>lv_owners := (''uid-1'', True) # lv_owners x\<rparr>))\<rparr>"

definition plain_pods :: "(string, unit) pod_codec" where
  "plain_pods = \<lparr>pod_unmarshal = Inr, pod_marshal = Inr, pod_patch_meta = (\<lambda>_. Inr ()),
     pod_strategic_merge = (\<lambda>_ b _. Inr b)\<rparr>"

definition small_product :: "(string, unit, unit, unit, unit) reconciler" where
  "small_product = \<lparr>r_platform = strict_platform, r_cleaner = plain_cleaner,
     r_health_interval = 120 * second, r_affinity = sample_codec, r_pods = plain_pods,
     r_parse_quantity = (\<lambda>_. True),
     r_observe = (\<lambda>_. \<lparr>hv_sts = (\<lambda>_. Inl (StatusError NotFound)), hv_pods = Inr [], hv_service = None\<rparr>),
     r_registry = NewExtensionRegistry, r_cluster_name = (\<lambda>_. []), r_role_name = (\<lambda>_. []),
     r_group_name = (\<lambda>_. []), r_cluster_pre = (\<lambda>_ s. (None, s)), r_cluster_post = (\<lambda>_ s. (None, s)),
     r_cluster_on_error = (\<lambda>_ _ s. (None, s)), r_role_pre = (\<lambda>_ _ s. (None, s)),
     r_role_post = (\<lambda>_ _ s. (None, s)), r_group_pre = (\<lambda>_ _ _ s. (None, s)),
     r_group_post = (\<lambda>_ _ _ s. (None, s)), r_dependencies = None, r_role_provider = None,
     r_resolver = None, r_handler = (\<lambda>ctx. returnE (config_only, None)), r_role_pdb = None,
     r_rbac_rules = None, r_aggregator = (\<lambda>_. None),
     r_images = \<lparr>ProductName = [], ImageDefaults = no_image\<rparr>\<rparr>"

definition small_spec :: "bool \<Rightarrow> generic_cluster_spec" where
  "small_spec paused = \<lparr>spec_image = Some (no_image\<lparr>image_custom := ''repo/x:1''\<rparr>),
     spec_cluster_operation = Some \<lparr>reconciliation_paused = paused, op_stopped = False\<rparr>,
     spec_roles = fmupd ''r'' \<lparr>role_role_config = None, role_config = None,
       role_role_groups = fmupd ''a'' \<lparr>rg_replicas = None, rg_config = None, rg_config_overrides = None,
         rg_env_overrides = None, rg_cli_overrides = None, rg_pod_overrides = None\<rparr> fmempty,
       role_config_overrides = None, role_env_overrides = None, role_cli_overrides = None,
       role_pod_overrides = None\<rparr> fmempty\<rparr>"

definition small_cluster :: "bool \<Rightarrow> cluster_resource" where
  "small_cluster paused = \<lparr>cr_kind = ''Kafka'', cr_name = ''c'', cr_namespace = ''ns'', cr_uid = ''uid-1'',
     cr_generation = 1, cr_labels = fmempty, cr_annotations = fmempty, cr_deleting = False, cr_version = 1,
     cr_spec = small_spec paused,
     cr_status = \<lparr>conditions = [], status_role_groups = fmempty, observed_generation = 0\<rparr>,
     cr_product = []\<rparr>"

definition foreign_budget :: live where
  "foreign_budget = stored_live (PodDisruptionBudget ''spec'') [(''uid-2'', True)]"

definition small_world :: "bool \<Rightarrow> world" where
  "small_world paused = leftover\<lparr>objs := fmupd (KPodDisruptionBudget, ''c-r-a'') foreign_budget (objs leftover),
     stored := Some (small_cluster paused)\<rparr>"

text \<open>The client answers with the cluster as it is stored.\<close>

definition small_env :: "bool \<Rightarrow> env" where
  "small_env paused = quiet_env\<lparr>cr_cache := (\<lambda>_ _. Some (small_cluster paused))\<rparr>"

lemma small_product_within: "frame F \<Longrightarrow> product_within F small_product"
  by (simp add: product_within_def small_product_def hook_within_def frame.refl frame.preserves_return)
    (simp add: returnE_def)

lemma strict_owner: "owner_contract strict_platform ''uid-1''"
proof -
  have "isOwnedByCluster (x\<lparr>lv_owners := (''uid-1'', True) # os\<rparr>) ''uid-1''" for x :: live and os
    by (simp add: isOwnedByCluster_def)
  then show ?thesis by (auto simp: owner_contract_def strict_platform_def)
qed

theorem Reconcile_spares_others_witness:
  "fmlookup (objs (snd (Reconcile small_product (small_env False) (small_world False))))
     (KPodDisruptionBudget, ''c-r-a'') = Some foreign_budget"
proof (rule Reconcile_spares_others)
  have pf: "r_platform small_product = strict_platform" by (simp add: small_product_def)
  show "owner_contract (r_platform small_product) ''uid-1''" unfolding pf by (rule strict_owner)
  show "owner_ignores_labels (r_platform small_product)"
    unfolding pf by (auto simp: owner_ignores_labels_def refused_def strict_platform_def isOwnedByCluster_def)
  show "cache_owners (small_env False) ''uid-1''" "cache_refusals (r_platform small_product) (small_env False)"
    by (auto simp: cache_owners_def cache_refusals_def small_env_def quiet_env_def)
  show "cr_uid cr = ''uid-1''" if "cr_cache (small_env False) n c = Some cr" for n c cr
    using that by (auto simp: small_env_def small_cluster_def)
  show "product_within (held ''uid-1'' (defers (r_platform small_product) {KPersistentVolumeClaim})) small_product"
    by (rule small_product_within, rule defers.held_frame)
  show "fmlookup (objs (small_world False)) (KPodDisruptionBudget, ''c-r-a'') = Some foreign_budget"
    by (simp add: small_world_def)
  show "refused (r_platform small_product) foreign_budget"
    unfolding pf by (simp add: refused_def strict_platform_def foreign_budget_def stored_live_def isOwnedByCluster_def)
qed simp

theorem Reconcile_frozen_witness:
  "objs (snd (Reconcile small_product (small_env True) (small_world True))) = objs (small_world True)"
proof (rule Reconcile_frozen)
  show "cr_deleting cr \<or> cluster_paused (cr_spec cr)" if "cr_cache (small_env True) n c = Some cr" for n c cr
    using that by (auto simp: small_env_def small_cluster_def small_spec_def cluster_paused_def)
  show "hook_within (held u same_objs) (r_cluster_on_error small_product e)" for u e
    using frame.refl [OF same_objs.held_frame] by (simp add: hook_within_def small_product_def)
qed

end
