(* ===== verification/ReconcileOutcome.thy ===== *)
theory ReconcileOutcome
  imports ReconcileSafety
begin

text \<open>
  What a pass reports: completion against waiting, the next wakeup, a failure, and that the roles are
  attempted independently of each other.
\<close>

section \<open>Successful runs\<close>

lemma bindE_value:
  "bindE m f s = (Inr b, s') \<longleftrightarrow> (\<exists>a t. m s = (Inr a, t) \<and> f a t = (Inr b, s'))"
  by (auto simp: bindE_def handleE_def throwE_def split: prod.splits sum.splits)

lemma wait_or_fail_value:
  "wait_or_fail g d m waitFor s = (Inr (a, waitFor'), s') \<Longrightarrow>
    waitFor' = waitFor \<or> (\<exists>rq. waitFor' = mergeWait waitFor (newWaitState (Some rq)))"
  by (auto simp: wait_or_fail_def handleE_def throwE_def returnE_def
      split: prod.splits sum.splits option.splits)

definition positive_wait :: "wait_state option \<Rightarrow> bool" where
  "positive_wait ws \<longleftrightarrow> (case ws of None \<Rightarrow> True | Some x \<Rightarrow> 0 < ws_after x)"

lemma positive_new: "positive_wait (newWaitState rq)"
proof (cases rq)
  case (Some r)
  have "0 < ClampRequeueAfter (rq_after r)"
    using ClampRequeueAfter_ge [of "rq_after r"] by (simp add: MinRequeueAfter_def second_def)
  with Some show ?thesis by (simp add: newWaitState_def positive_wait_def)
qed (simp add: newWaitState_def positive_wait_def)

lemma positive_merge: "positive_wait a \<Longrightarrow> positive_wait b \<Longrightarrow> positive_wait (mergeWait a b)"
  by (auto simp: positive_wait_def mergeWait_def split: option.splits)

lemma positive_wait_or_fail:
  "positive_wait waitFor \<Longrightarrow> wait_or_fail g d m waitFor s = (Inr (a, waitFor'), s') \<Longrightarrow> positive_wait waitFor'"
  using wait_or_fail_value positive_merge positive_new by metis

lemma positive_prepare: "prepare r env s = (Inr (catalog, waitFor), s') \<Longrightarrow> positive_wait waitFor"
proof -
  assume "prepare r env s = (Inr (catalog, waitFor), s')"
  then obtain a w1 t1 b w2 t2 where
    1: "wait_or_fail (hook_failed ''PreReconcile'' ''extension hook failed'') ()
      (run_hook (ExecuteClusterHook (r_cluster_name r) (r_registry r) (r_cluster_pre r))) None s = (Inr (a, w1), t1)"
    and 2: "wait_or_fail (hook_failed ''DependencyValidation'' ''dependency validation failed'') ()
      (check_dependencies r env) w1 t1 = (Inr (b, w2), t2)"
    and 3: "wait_or_fail id fmempty (declareRoles r) w2 t2 = (Inr (catalog, waitFor), s')"
    by (auto simp: prepare_def bindE_value)
  have "positive_wait None" by (simp add: positive_wait_def)
  from positive_wait_or_fail [OF positive_wait_or_fail [OF positive_wait_or_fail [OF this 1] 2] 3]
  show ?thesis .
qed

lemma positive_settle:
  "positive_wait waitFor \<Longrightarrow> settle_roles errs waitFor s = (Inr outcome, s') \<Longrightarrow> positive_wait outcome \<and> s' = s"
  by (auto simp: settle_roles_def throwE_def returnE_def positive_merge positive_new
      split: if_splits option.splits)

lemma earliest_pair:
  "earliestRequeue [a, b] = (if a \<le> 0 then if b \<le> 0 then 0 else b else if b \<le> 0 then a else min a b)"
  by (simp add: earliestRequeue_def)

lemma next_wakeup_bounds:
  assumes "positive_wait outcome"
  shows "outcome \<noteq> None \<Longrightarrow> 0 < next_wakeup r c outcome"
    and "0 < r_health_interval r \<Longrightarrow> 0 < next_wakeup r c outcome \<and> next_wakeup r c outcome \<le> r_health_interval r"
  using assms by (auto simp: next_wakeup_def positive_wait_def earliest_pair Let_def split: option.splits)

section \<open>The status is what the pass computed\<close>

definition keeps_status :: "pass \<Rightarrow> pass \<Rightarrow> bool" where
  "keeps_status s s' \<longleftrightarrow> cr_status (p_cr s') = cr_status (p_cr s)"

interpretation keeps_status: frame keeps_status
  by unfold_locales (simp_all add: keeps_status_def)

lemma keeps_status_world: "preserves keeps_status (on_world m)"
  by (simp add: preserves_def keeps_status_def on_world_def split: prod.split)

lemma keeps_status_with_cr: "(\<And>cr. preserves keeps_status (f cr)) \<Longrightarrow> preserves keeps_status (with_cr f)"
  by (simp add: preserves_def with_cr_def)

lemma keeps_status_update: "preserves keeps_status (updateStatus r env original)"
proof -
  have "preserves keeps_status (write_status env)"
    by (auto simp: preserves_def keeps_status_def write_status_def api_status_update_def request_def Let_def
        split: option.split)
  moreover have "preserves keeps_status (SetResourceVersion v)" for v
    by (simp add: preserves_def keeps_status_def SetResourceVersion_def)
  ultimately have "preserves keeps_status (status_attempt r env)"
    by (auto simp: status_attempt_def keeps_status_world keeps_status.preserves_return keeps_status.preserves_throw
        intro!: keeps_status.preserves_handle keeps_status.preserves_bind)
  then show ?thesis
    by (auto simp: updateStatus_def keeps_status.preserves_return intro!: keeps_status_with_cr
        keeps_status.preserves_or_missing keeps_status.preserves_retry)
qed

lemma report_outcome_shows:
  "IsReconcileComplete (report_outcome outcome now st) \<longleftrightarrow> outcome = None"
  "condition_is_true ConditionWaiting (report_outcome outcome now st) \<longleftrightarrow> outcome \<noteq> None"
proof -
  have distinct: "ConditionWaiting \<noteq> ConditionReconcileComplete"
    by (simp add: ConditionWaiting_def ConditionReconcileComplete_def)
  show "IsReconcileComplete (report_outcome outcome now st) \<longleftrightarrow> outcome = None"
    by (cases outcome) (auto simp: report_outcome_def IsReconcileComplete_def condition_is_true_def
        SetReconcileComplete_def GetCondition_SetCondition mk_condition_def cond_of_bool_def split: option.split)
  show "condition_is_true ConditionWaiting (report_outcome outcome now st) \<longleftrightarrow> outcome \<noteq> None"
    using distinct
    by (cases outcome) (auto simp: report_outcome_def condition_is_true_def SetReconcileComplete_def
        GetCondition_SetCondition mk_condition_def split: option.split)
qed

lemma conclude_success:
  assumes "conclude r env original errs waitFor s = (Inr d, s')" and "positive_wait waitFor"
  shows "\<exists>outcome c st now. positive_wait outcome \<and> d = next_wakeup r c outcome \<and>
    cr_status (p_cr s') = report_outcome outcome now st"
proof -
  from assms(1) obtain c t1 t2 t3 outcome t4 t5 where
    settle: "settle_roles errs waitFor t3 = (Inr outcome, t4)"
    and set: "set_status env (report_outcome outcome) t4 = (Inr (), t5)"
    and upd: "updateStatus r env original t5 = (Inr (), s')"
    and d: "d = next_wakeup r c outcome"
    by (auto simp: conclude_def bindE_value returnE_def)
  have "keeps_status t5 s'" using keeps_status_update upd by (metis preserves_def snd_conv)
  then have "cr_status (p_cr s') = report_outcome outcome (clock env (calls (p_world t4))) (cr_status (p_cr t4))"
    using set by (auto simp: keeps_status_def set_status_def)
  with d positive_settle [OF assms(2) settle] show ?thesis by blast
qed

text \<open>
  C5. A pass over a running cluster that returns without an error reports either that it is complete or
  that it waits, never both or neither; while it waits it asks for another pass, and when the health
  interval is positive the next pass comes at the latest after that interval.
\<close>

theorem reconcile_outcome:
  assumes "reconcile r env original s = (Inr d, s')" and "\<not> cluster_paused (cr_spec (p_cr s))"
  shows "(IsReconcileComplete (cr_status (p_cr s')) \<longleftrightarrow>
      \<not> condition_is_true ConditionWaiting (cr_status (p_cr s'))) \<and>
    (condition_is_true ConditionWaiting (cr_status (p_cr s')) \<longrightarrow> 0 < d) \<and>
    (0 < r_health_interval r \<longrightarrow> 0 < d \<and> d \<le> r_health_interval r)"
proof -
  have "\<exists>s1. reconcile_active r env original s1 = (Inr d, s')"
    using assms by (auto simp: reconcile_def bindE_value with_cr_def set_status_def)
  then obtain s1 u t1 catalog waitFor t2 errs t3 where
    prep: "prepare r env t1 = (Inr (catalog, waitFor), t2)"
    and fin: "conclude r env original errs waitFor t3 = (Inr d, s')"
    by (auto simp: reconcile_active_def bindE_value)
  from conclude_success [OF fin positive_prepare [OF prep]] obtain outcome c st now where
    pos: "positive_wait outcome" and d: "d = next_wakeup r c outcome"
    and st: "cr_status (p_cr s') = report_outcome outcome now st" by blast
  from st have "IsReconcileComplete (cr_status (p_cr s')) \<longleftrightarrow> outcome = None"
    and "condition_is_true ConditionWaiting (cr_status (p_cr s')) \<longleftrightarrow> outcome \<noteq> None"
    by (simp_all add: report_outcome_shows)
  then show ?thesis using next_wakeup_bounds [OF pos, where r = r and c = c] d by blast
qed

theorem reconcile_outcome_witness:
  "\<exists>d s'. reconcile small_product (small_env False) (small_cluster False)
      \<lparr>p_cr = small_cluster False, p_world = small_world False\<rparr> = (Inr d, s') \<and> 0 < d \<and> d \<le> 120 * second"
proof -
  let ?run = "reconcile small_product (small_env False) (small_cluster False)
      \<lparr>p_cr = small_cluster False, p_world = small_world False\<rparr>"
  have "isl (fst ?run) = False" by code_simp
  then obtain d s' where run: "?run = (Inr d, s')" by (cases ?run; cases "fst ?run") auto
  moreover have "\<not> cluster_paused (cr_spec (small_cluster False))"
    by (simp add: small_cluster_def small_spec_def cluster_paused_def)
  ultimately show ?thesis
    using reconcile_outcome [OF run] by (simp add: small_product_def second_def)
qed

section \<open>Status writes\<close>

text \<open>What a status write that got through leaves in the API server.\<close>

definition status_written :: "cluster_resource \<Rightarrow> cluster_resource \<Rightarrow> cluster_resource \<Rightarrow> bool" where
  "status_written cur cr new \<longleftrightarrow>
     new = cur\<lparr>cr_status := cr_status cr, cr_product := cr_product cr, cr_version := Suc (cr_version cur)\<rparr>"

lemma write_status_lands:
  assumes "fault env (calls (p_world s)) = None" and "stored (p_world s) = Some cur"
    and "cr_uid cur = cr_uid (p_cr s)" and "cr_version cur = cr_version (p_cr s)"
  shows "\<exists>s' new. write_status env s = (Inr (), s') \<and> stored (p_world s') = Some new \<and>
    status_written cur (p_cr s) new \<and> warnings (p_world s') = warnings (p_world s)"
  using assms by (simp add: write_status_def api_status_update_def request_def status_written_def Let_def)

lemma write_status_refused:
  assumes "fault env (calls (p_world s)) = None" and "stored (p_world s) = Some cur"
    and "cr_version cur \<noteq> cr_version (p_cr s)"
  shows "write_status env s = (Inl (StatusError Conflict),
    s\<lparr>p_world := (p_world s)\<lparr>calls := Suc (calls (p_world s))\<rparr>\<rparr>)"
  using assms by (simp add: write_status_def api_status_update_def request_def Let_def)

lemma status_attempt_refused:
  assumes "fault env (calls (p_world s)) = None" and "fault env (Suc (calls (p_world s))) = None" and "stored (p_world s) = Some cur"
    and "cr_version cur \<noteq> cr_version (p_cr s)" and "reader_wired (r_cleaner r)"
  shows "status_attempt r env s = (Inl (StatusError Conflict),
    s\<lparr>p_cr := (p_cr s)\<lparr>cr_version := cr_version cur\<rparr>,
      p_world := (p_world s)\<lparr>calls := Suc (Suc (calls (p_world s)))\<rparr>\<rparr>)"
  using assms write_status_refused [OF assms(1,3,4)]
  by (simp add: status_attempt_def handleE_def bindE_def throwE_def IsConflict_def on_world_def read_fresh_def
      request_def found_cr_def SetResourceVersion_def Let_def)

lemma status_attempt_lands:
  assumes "fault env (calls (p_world s)) = None" and "stored (p_world s) = Some cur"
    and "cr_uid cur = cr_uid (p_cr s)" and "cr_version cur = cr_version (p_cr s)"
  shows "\<exists>s' new. status_attempt r env s = (Inr (), s') \<and> stored (p_world s') = Some new \<and>
    status_written cur (p_cr s) new \<and> warnings (p_world s') = warnings (p_world s)"
proof -
  from write_status_lands [OF assms] obtain s' new where "write_status env s = (Inr (), s')"
    "stored (p_world s') = Some new" "status_written cur (p_cr s) new" "warnings (p_world s') = warnings (p_world s)"
    by blast
  then show ?thesis by (simp add: status_attempt_def handleE_def returnE_def)
qed

lemma updateStatus_lands:
  assumes quiet: "\<forall>n\<ge>calls (p_world s). fault env n = None" and wired: "reader_wired (r_cleaner r)"
    and cur: "stored (p_world s) = Some cur" "cr_uid cur = cr_uid (p_cr s)" and changed: "p_cr s \<noteq> original"
  shows "\<exists>s' new. updateStatus r env original s = (Inr (), s') \<and> stored (p_world s') = Some new \<and>
    status_written cur (p_cr s) new \<and> warnings (p_world s') = warnings (p_world s)"
proof (cases "cr_version cur = cr_version (p_cr s)")
  case True
  from quiet have "fault env (calls (p_world s)) = None" by simp
  from status_attempt_lands [OF this cur True, of r] obtain s' new where "status_attempt r env s = (Inr (), s')"
    "stored (p_world s') = Some new" "status_written cur (p_cr s) new" "warnings (p_world s') = warnings (p_world s)"
    by blast
  with changed show ?thesis
    by (simp add: updateStatus_def with_cr_def or_missing_def handleE_def returnE_def DefaultBackoffRetries_def
        numeral_3_eq_3)
next
  case False
  from quiet have "fault env (calls (p_world s)) = None" "fault env (Suc (calls (p_world s))) = None" by simp_all
  from status_attempt_refused [OF this cur(1) False wired] have
    refused: "status_attempt r env s = (Inl (StatusError Conflict),
      s\<lparr>p_cr := (p_cr s)\<lparr>cr_version := cr_version cur\<rparr>,
        p_world := (p_world s)\<lparr>calls := Suc (Suc (calls (p_world s)))\<rparr>\<rparr>)" (is "_ = (_, ?t)") .
  have t: "stored (p_world ?t) = Some cur" "cr_uid cur = cr_uid (p_cr ?t)" "cr_version cur = cr_version (p_cr ?t)"
    using cur by simp_all
  from quiet have "fault env (calls (p_world ?t)) = None" by simp
  from status_attempt_lands [OF this t, of r] obtain s' new where "status_attempt r env ?t = (Inr (), s')"
    "stored (p_world s') = Some new" "status_written cur (p_cr ?t) new" "warnings (p_world s') = warnings (p_world ?t)"
    by blast
  with refused changed show ?thesis
    by (simp add: updateStatus_def with_cr_def or_missing_def handleE_def returnE_def DefaultBackoffRetries_def
        numeral_3_eq_3 IsConflict_def status_written_def)
qed

section \<open>Failures\<close>

text \<open>The conditions a failed pass shows.\<close>

definition shows_failure :: "string \<Rightarrow> cluster_status \<Rightarrow> bool" where
  "shows_failure message st \<longleftrightarrow> IsDegraded st \<and> \<not> IsReconcileComplete st \<and>
     (\<forall>t \<in> {ConditionDegraded, ConditionReconcileComplete}. \<exists>c. GetCondition st t = Some c \<and>
        c_reason c = ReasonReconcileError \<and> c_message c = message)"

lemma shows_failure_set:
  "shows_failure message (SetReconcileComplete now False ReasonReconcileError message
     (SetDegraded now True ReasonReconcileError message st))"
proof -
  have distinct: "ConditionDegraded \<noteq> ConditionReconcileComplete"
    by (simp add: ConditionDegraded_def ConditionReconcileComplete_def)
  have kept: "c_reason (stamp now s (mk_condition t v rsn msg)) = rsn"
    "c_message (stamp now s (mk_condition t v rsn msg)) = msg"
    "c_status (stamp now s (mk_condition t v rsn msg)) = v"
    "c_type (mk_condition t v rsn msg) = t" for s t v rsn msg
    by (simp_all add: stamp_def mk_condition_def Let_def)
  have upd: "c_reason (update_existing c e) = c_reason c" "c_message (update_existing c e) = c_message c"
    "c_status (update_existing c e) = c_status c" for c e
    by (simp_all add: update_existing_def Let_def)
  show ?thesis
    using distinct by (simp add: shows_failure_def IsDegraded_def IsReconcileComplete_def condition_is_true_def
        SetReconcileComplete_def SetDegraded_def GetCondition_SetCondition kept upd cond_of_bool_def
        split: option.split)
qed

lemma report_failure_lands:
  assumes hooks: "run_hook (ExecuteClusterOnError (r_cluster_name r) (r_registry r) (r_cluster_on_error r e)) s = (res, s1)"
    and quiet: "\<forall>n\<ge>calls (p_world s1). fault env n = None" and wired: "reader_wired (r_cleaner r)"
    and cur: "stored (p_world s1) = Some cur" "cr_uid cur = cr_uid (p_cr s1)"
    and shown_once: "shows_failure (error_text (r_platform r) e) (cr_status original) \<Longrightarrow>
      shows_failure (error_text (r_platform r) e) (cr_status cur)"
  shows "\<exists>s2 new. snd (report_failure r env original e s) = s2 \<and>
    (\<exists>m. (''ReconcileError'', m) \<in> set (warnings (p_world s2))) \<and>
    stored (p_world s2) = Some new \<and> cr_spec new = cr_spec cur \<and>
    shows_failure (error_text (r_platform r) e) (cr_status new)"
proof -
  let ?msg = "error_text (r_platform r) e"
  let ?s2 = "snd (set_status env (\<lambda>now st. SetReconcileComplete now False ReasonReconcileError ?msg
    (SetDegraded now True ReasonReconcileError ?msg st)) s1)"
  let ?warn = "with_cr (\<lambda>cr. EmitWarningEvent ''ReconcileError''
    (''Reconciliation failed for cluster '' @ cr_name cr @ '': '' @ ?msg))"
  have shown: "shows_failure ?msg (cr_status (p_cr ?s2))" by (simp add: set_status_def shows_failure_set)
  have run: "snd (report_failure r env original e s) = snd (?warn (snd (updateStatus r env original ?s2)))"
    using hooks by (cases "updateStatus r env original ?s2"; cases "fst (updateStatus r env original ?s2)"; cases res)
      (auto simp: report_failure_def ignore_error_def bindE_def handleE_def returnE_def set_status_def)
  have warn: "stored (p_world (snd (?warn t))) = stored (p_world t)"
    "\<exists>m. (''ReconcileError'', m) \<in> set (warnings (p_world (snd (?warn t))))" for t
    by (auto simp: with_cr_def EmitWarningEvent_def emitWarning_def)
  have cur2: "stored (p_world ?s2) = Some cur" "cr_uid cur = cr_uid (p_cr ?s2)"
    using cur by (simp_all add: set_status_def)
  show ?thesis
  proof (cases "p_cr ?s2 = original")
    case True
    then have "snd (updateStatus r env original ?s2) = ?s2" by (simp add: updateStatus_def with_cr_def returnE_def)
    with True shown shown_once cur2 warn run show ?thesis by auto
  next
    case False
    have "\<forall>n\<ge>calls (p_world ?s2). fault env n = None" using quiet by (simp add: set_status_def)
    from updateStatus_lands [OF this wired cur2 False] obtain s' new where
      "updateStatus r env original ?s2 = (Inr (), s')" "stored (p_world s') = Some new"
      "status_written cur (p_cr ?s2) new" by blast
    with shown warn run show ?thesis by (auto simp: status_written_def)
  qed
qed

text \<open>
  C2. A pass over a cluster that is not being deleted and that fails, other than by a rate limit and for
  whatever reason, failed API requests of the pass included, returns its error, leaves a warning event and
  gets the failure into the stored status: the cluster reads as degraded and not complete, with the error as
  the message, even when the copy the pass worked on has gone stale; the spec is not touched. What this
  needs of the surroundings is that the status write itself gets through: no request fails once the error
  hooks are done, the uncached reader is wired, and the resource is still stored and has not been recreated
  under the same name meanwhile. And the copy the pass fetched does not show this very failure while the
  stored resource does not: the code compares with that copy and, when nothing changed, writes nothing.
\<close>

theorem Reconcile_failure_reported:
  assumes "fetchCR env w = (Inr cr, w1)" and "\<not> cr_deleting cr"
    and "reconcile r env cr \<lparr>p_cr = cr, p_world = w1\<rparr> = (Inl e, s)" and "errors_as as_rate_limit e = None"
    and "run_hook (ExecuteClusterOnError (r_cluster_name r) (r_registry r) (r_cluster_on_error r e)) s = (res, s1)"
    and "\<forall>n\<ge>calls (p_world s1). fault env n = None" and "reader_wired (r_cleaner r)"
    and "stored (p_world s1) = Some cur" and "cr_uid cur = cr_uid (p_cr s1)"
    and "shows_failure (error_text (r_platform r) e) (cr_status cr) \<Longrightarrow>
      shows_failure (error_text (r_platform r) e) (cr_status cur)"
  shows "\<exists>w' new. Reconcile r env w = (Inl e, w') \<and> (\<exists>m. (''ReconcileError'', m) \<in> set (warnings w')) \<and>
    stored w' = Some new \<and> cr_spec new = cr_spec cur \<and>
    shows_failure (error_text (r_platform r) e) (cr_status new)"
proof -
  have "Reconcile r env w = (Inl e, p_world (snd (report_failure r env cr e s)))"
    using assms(1-4) by (simp add: Reconcile_def)
  then show ?thesis using report_failure_lands [OF assms(5-9), of cr] assms(10) by blast
qed

definition broken_product :: "(string, unit, unit, unit, unit) reconciler" where
  "broken_product = small_product\<lparr>r_handler := (\<lambda>ctx. throwE (PlainError ''boom''))\<rparr>"

theorem Reconcile_failure_reported_witness:
  "\<exists>e w' new. Reconcile broken_product (small_env False) (small_world False) = (Inl e, w') \<and>
     stored w' = Some new \<and> shows_failure (error_text (r_platform broken_product) e) (cr_status new)"
proof -
  let ?w1 = "snd (fetchCR (small_env False) (small_world False))"
  let ?run = "reconcile broken_product (small_env False) (small_cluster False)
      \<lparr>p_cr = small_cluster False, p_world = ?w1\<rparr>"
  let ?hook = "\<lambda>e. run_hook (ExecuteClusterOnError (r_cluster_name broken_product) (r_registry broken_product)
      (r_cluster_on_error broken_product e))"
  have fetch: "fetchCR (small_env False) (small_world False) = (Inr (small_cluster False), ?w1)" by code_simp
  have "isl (fst ?run)" by code_simp
  then obtain e s where run: "?run = (Inl e, s)" by (cases ?run; cases "fst ?run") auto
  have "errors_as as_rate_limit (projl (fst ?run)) = None" by code_simp
  with run have rate: "errors_as as_rate_limit e = None" by simp
  have "\<not> cr_deleting (small_cluster False)" by code_simp
  moreover have hook: "?hook e s = (fst (?hook e s), snd (?hook e s))" by simp
  have "map_option cr_uid (stored (p_world (snd ?run))) = Some (cr_uid (p_cr (snd ?run)))" by code_simp
  with run obtain cur where cur: "stored (p_world s) = Some cur" "cr_uid cur = cr_uid (p_cr s)" by auto
  have same: "snd (?hook e s) = s"
    by (simp add: broken_product_def small_product_def ExecuteClusterOnError_def run_hook_def
        NewExtensionRegistry_def executeHooks_def errors_join_def)
  have "\<not> IsDegraded (cr_status (small_cluster False))"
    by (simp add: IsDegraded_def condition_is_true_def GetCondition_def small_cluster_def)
  moreover have "\<forall>n\<ge>calls (p_world s). fault (small_env False) n = None" by (simp add: small_env_def quiet_env_def)
  moreover have "reader_wired (r_cleaner broken_product)" by code_simp
  ultimately show ?thesis
    using Reconcile_failure_reported [OF fetch _ run rate hook, of cur] cur same
    by (auto simp: shows_failure_def)
qed

section \<open>Best effort\<close>

text \<open>
  The reference: every step runs on the state its predecessor left, failed or not; the first rate limit is
  the result, and without one the result is the failures in order.
\<close>

fun attempts :: "('s, unit) op list \<Rightarrow> 's \<Rightarrow> (err option \<times> 's) list" where
  "attempts [] s = []"
| "attempts (m # ms) s =
     (case m s of (Inl e, s') \<Rightarrow> (Some e, s') # attempts ms s' | (Inr _, s') \<Rightarrow> (None, s') # attempts ms s')"

definition rate_limited :: "err option \<times> 's \<Rightarrow> bool" where
  "rate_limited a \<longleftrightarrow> (case fst a of None \<Rightarrow> False | Some e \<Rightarrow> IsRateLimitError e)"

definition best_effort :: "('s, unit) op list \<Rightarrow> ('s, err list) op" where
  "best_effort ms s =
     (case dropWhile (\<lambda>a. \<not> rate_limited a) (attempts ms s) of
        [] \<Rightarrow> (Inr (List.map_filter fst (attempts ms s)), last (s # map snd (attempts ms s)))
      | (e, s') # _ \<Rightarrow> (Inl (the e), s'))"

lemma attempts_length: "length (attempts ms s) = length ms"
  by (induction ms s rule: attempts.induct) (auto split: prod.split sum.split)

text \<open>The accumulator the loops carry.\<close>

definition collected :: "err list \<Rightarrow> (err + err list) \<times> 's \<Rightarrow> (err + err list) \<times> 's" where
  "collected errs = apfst (map_sum id (append errs))"

lemma collected_simps [simp]:
  "collected errs (Inl e, t) = (Inl e, t)" "collected errs (Inr es, t) = (Inr (errs @ es), t)"
  "collected [] p = p" "collected a (collected b p) = collected (a @ b) p"
  by (cases p; cases "fst p"; auto simp: collected_def)+

lemma best_effort_Nil: "best_effort [] s = (Inr [], s)"
  by (simp add: best_effort_def map_filter_simps)

lemma best_effort_Cons:
  "best_effort (m # ms) s =
     (case m s of
        (Inl e, s') \<Rightarrow> if IsRateLimitError e then (Inl e, s') else collected [e] (best_effort ms s')
      | (Inr _, s') \<Rightarrow> best_effort ms s')"
proof -
  let ?cut = "\<lambda>as. dropWhile (\<lambda>a. \<not> rate_limited a) as"
  have limited: "rate_limited (Some e, t) \<longleftrightarrow> IsRateLimitError e" "\<not> rate_limited (None, t)" for e and t :: 's
    by (simp_all add: rate_limited_def)
  obtain res s' where m: "m s = (res, s')" by fastforce
  show ?thesis
  proof (cases "?cut (attempts ms s')")
    case Nil
    with m show ?thesis
      by (cases res) (simp_all del: dropWhile_eq_Nil_conv add: best_effort_def limited map_filter_simps)
  next
    case (Cons a as)
    with m show ?thesis
      by (cases res; cases a) (simp_all add: best_effort_def limited)
  qed
qed

lemma best_effort_loop:
  "handleE m (\<lambda>e. if IsRateLimitError e then throwE e else (\<lambda>s'. collected (errs @ [e]) (best_effort ms s')))
     (\<lambda>_ s'. collected errs (best_effort ms s')) s = collected errs (best_effort (m # ms) s)"
  by (cases "m s"; cases "fst (m s)") (auto simp: best_effort_Cons handleE_def throwE_def)

definition role_step ::
    "('pod, 'meta, 'c, 'r, 'g) reconciler \<Rightarrow> env \<Rightarrow> role_catalog \<Rightarrow> string \<times> role_spec \<Rightarrow> unit pass_run" where
  "role_step r env catalog = (\<lambda>(role, rspec). reconcileRole r env role rspec
     (case fmlookup catalog role of None \<Rightarrow> no_declaration | Some d \<Rightarrow> d))"

lemma reconcile_roles_acc:
  "reconcile_roles r env catalog roles errs =
     (\<lambda>s. collected errs (best_effort (map (role_step r env catalog) roles) s))"
proof (induction roles arbitrary: errs)
  case Nil
  show ?case by (simp add: best_effort_Nil returnE_def fun_eq_iff)
next
  case (Cons x roles)
  obtain role rspec where x: "x = (role, rspec)" by fastforce
  show ?case
    by (rule ext) (simp only: x reconcile_roles.simps Cons.IH list.map best_effort_loop [symmetric] role_step_def prod.case)
qed

lemma reconcile_groups_acc:
  "reconcile_groups r env role rspec d gs errs =
     (\<lambda>s. collected errs (best_effort (map (\<lambda>(grp, gspec). reconcileRoleGroup r env role rspec grp gspec d) gs) s))"
proof (induction gs arbitrary: errs)
  case Nil
  show ?case by (simp add: best_effort_Nil returnE_def fun_eq_iff)
next
  case (Cons x gs)
  obtain grp gspec where x: "x = (grp, gspec)" by fastforce
  show ?case
    by (rule ext) (simp only: x reconcile_groups.simps Cons.IH list.map best_effort_loop [symmetric] prod.case)
qed

text \<open>
  C6. The loops over the roles of a cluster and over the groups of a role are the best-effort run of their
  steps: every role and every group is attempted once, in order, on the state the one before it left,
  whether that one failed or not, and all failures come back in order; only a rate limit ends the loop.
\<close>

theorem reconcile_best_effort:
  "reconcile_roles r env catalog roles [] = best_effort (map (role_step r env catalog) roles) \<and>
   reconcile_groups r env role rspec d gs [] =
     best_effort (map (\<lambda>(grp, gspec). reconcileRoleGroup r env role rspec grp gspec d) gs)"
  by (simp_all add: reconcile_roles_acc reconcile_groups_acc)

end
