(* ===== verification/EnvFormat.thy ===== *)
theory EnvFormat
  imports PropertiesFormat
begin

text \<open>
  The environment file format, \<open>pkg/config/env_adapter.go\<close>, and its round trip.
\<close>

section \<open>Writing\<close>

record env_adapter =
  ExportPrefix :: bool

definition NewEnvAdapter :: env_adapter where
  "NewEnvAdapter = \<lparr>ExportPrefix = False\<rparr>"

definition ascii_letter :: "char \<Rightarrow> bool" where
  "ascii_letter c \<longleftrightarrow> (let n = of_char c :: nat in 65 \<le> n \<and> n \<le> 90 \<or> 97 \<le> n \<and> n \<le> 122)"

definition ascii_digit :: "char \<Rightarrow> bool" where
  "ascii_digit c \<longleftrightarrow> (let n = of_char c :: nat in 48 \<le> n \<and> n \<le> 57)"

definition envKeyPattern :: "string \<Rightarrow> bool" where
  "envKeyPattern s \<longleftrightarrow> s \<noteq> [] \<and> (ascii_letter (hd s) \<or> hd s = CHR ''_'') \<and>
     list_all (\<lambda>c. ascii_letter c \<or> ascii_digit c \<or> c = CHR ''_'') (tl s)"

definition validateEnvKey :: "string \<Rightarrow> err option" where
  "validateEnvKey s =
     (if \<not> envKeyPattern s
      then Some (serializeError ''env'' (PlainError (''invalid environment variable name '' @ s)))
      else None)"

definition envBareValuePattern :: "string \<Rightarrow> bool" where
  "envBareValuePattern s \<longleftrightarrow> s \<noteq> [] \<and>
     list_all (\<lambda>c. ascii_letter c \<or> ascii_digit c \<or> c \<in> set ''_@%+=:,./-'') s"

definition backtick :: char where "backtick = CHR 0x60"

definition escapeEnvValue :: "string \<Rightarrow> string" where
  "escapeEnvValue s =
     (if envBareValuePattern s then s
      else [double_quote] @
        ReplaceAll tab (bs # ''t'') (ReplaceAll carriage_return (bs # ''r'') (ReplaceAll newline (bs # ''n'')
        (ReplaceAll backtick [bs, backtick] (ReplaceAll CHR ''$'' (bs # ''$'')
        (ReplaceAll double_quote [bs, double_quote] (ReplaceAll bs [bs, bs] s))))))
        @ [double_quote])"

definition env_entry :: "env_adapter \<Rightarrow> string \<times> string \<Rightarrow> string" where
  "env_entry a = (\<lambda>(k, v). (if ExportPrefix a then ''export '' else []) @ k @ ''='' @ escapeEnvValue v)"

fun env_text :: "env_adapter \<Rightarrow> (string \<times> string) list \<Rightarrow> err + string" where
  "env_text a [] = Inr []"
| "env_text a ((k, v) # kvs) =
     (case validateEnvKey k of
        Some e \<Rightarrow> Inl e
      | None \<Rightarrow> (case env_text a kvs of
          Inl e \<Rightarrow> Inl e | Inr rest \<Rightarrow> Inr (env_entry a (k, v) @ [newline] @ rest)))"

definition env_marshal :: "env_adapter \<Rightarrow> string gomap \<Rightarrow> err + string" where
  "env_marshal a data = env_text a (entries data)"

section \<open>Reading\<close>

text \<open>The loop over the runes, on their bytes.\<close>

fun unescape_env_runes :: "string \<Rightarrow> string" where
  "unescape_env_runes [] = []"
| "unescape_env_runes [c] = [c]"
| "unescape_env_runes (c # d # rs) =
     (if c \<noteq> bs then c # unescape_env_runes (d # rs)
      else if d = CHR ''n'' then newline # unescape_env_runes rs
      else if d = CHR ''r'' then carriage_return # unescape_env_runes rs
      else if d = CHR ''t'' then tab # unescape_env_runes rs
      else if d \<in> set [bs, double_quote, single_quote, CHR ''$'', backtick] then d # unescape_env_runes rs
      else c # unescape_env_runes (d # rs))"

definition unescapeEnvValue :: "string \<Rightarrow> string" where
  "unescapeEnvValue s = unescape_env_runes (rune_text s)"

definition TrimPrefix :: "string \<Rightarrow> string \<Rightarrow> string" where
  "TrimPrefix p s = (if take (length p) s = p then drop (length p) s else s)"

definition unquote_env :: "string \<Rightarrow> string" where
  "unquote_env value =
     (if length value \<ge> 2 \<and> hd value = double_quote \<and> last value = double_quote
      then unescapeEnvValue (butlast (tl value))
      else if length value \<ge> 2 \<and> hd value = single_quote \<and> last value = single_quote
      then butlast (tl value)
      else unescapeEnvValue value)"

definition env_line :: "string \<Rightarrow> string gomap \<Rightarrow> string gomap" where
  "env_line raw result =
     (let line = TrimSpace raw
      in if line = [] \<or> hd line = CHR ''#'' then result
         else let entry = TrimSpace (TrimPrefix ''export '' line)
           in (case index_of CHR ''='' entry of
                 None \<Rightarrow> result
               | Some i \<Rightarrow>
                   fmupd (TrimSpace (take i entry)) (unquote_env (TrimSpace (drop (Suc i) entry))) result))"

definition env_unmarshal :: "string \<Rightarrow> err + string gomap" where
  "env_unmarshal data = Inr (fold env_line (split_on newline data) fmempty)"

section \<open>Round trip\<close>

lemma ascii_printable: "ascii_letter c \<or> ascii_digit c \<Longrightarrow> printable c"
  by (auto simp: ascii_letter_def ascii_digit_def printable_def Let_def)

lemma key_chars:
  assumes "envKeyPattern k" and "c \<in> set k"
  shows "printable c \<and> c \<noteq> CHR ''='' \<and> c \<noteq> CHR '' '' \<and> c \<noteq> CHR ''#''"
proof -
  have "ascii_letter c \<or> ascii_digit c \<or> c = CHR ''_''"
    using assms by (cases k) (auto simp: envKeyPattern_def list_all_iff)
  then show ?thesis
    by (auto simp: ascii_letter_def ascii_digit_def printable_def Let_def)
qed

lemma bare_chars:
  assumes "envBareValuePattern v" and "c \<in> set v"
  shows "printable c \<and> c \<noteq> bs \<and> c \<noteq> double_quote \<and> c \<noteq> single_quote"
proof -
  have "ascii_letter c \<or> ascii_digit c \<or> c \<in> set ''_@%+=:,./-''"
    using assms by (auto simp: envBareValuePattern_def list_all_iff)
  then show ?thesis
    by (auto simp: ascii_letter_def ascii_digit_def printable_def Let_def text_chars)
qed

definition env_quoted :: "char \<Rightarrow> string" where
  "env_quoted c =
     (if c = newline then bs # ''n'' else if c = carriage_return then bs # ''r'' else if c = tab then bs # ''t''
      else if c \<in> {bs, double_quote, CHR ''$'', backtick} then [bs, c] else [c])"

lemma escapeEnvValue_quoted:
  "escapeEnvValue s = (if envBareValuePattern s then s
     else [double_quote] @ concat (map env_quoted s) @ [double_quote])"
proof -
  let ?g = "\<lambda>s. ReplaceAll tab (bs # ''t'') (ReplaceAll carriage_return (bs # ''r'') (ReplaceAll newline (bs # ''n'')
        (ReplaceAll backtick [bs, backtick] (ReplaceAll CHR ''$'' (bs # ''$'')
        (ReplaceAll double_quote [bs, double_quote] (ReplaceAll bs [bs, bs] s))))))"
  let ?f = "\<lambda>x. ReplaceAll tab (bs # ''t'') (ReplaceAll carriage_return (bs # ''r'') (ReplaceAll newline (bs # ''n'')
        (ReplaceAll backtick [bs, backtick] (ReplaceAll CHR ''$'' (bs # ''$'')
        (ReplaceAll double_quote [bs, double_quote] (if x = bs then [bs, bs] else [x]))))))"
  have "charwise ?g ?f" by (intro charwise_next charwise_one)
  moreover have "?f c = env_quoted c" for c
    by (auto simp: env_quoted_def text_chars backtick_def)
  ultimately show ?thesis by (simp add: escapeEnvValue_def charwise_def)
qed

lemma unescape_env_raw: "c \<noteq> bs \<Longrightarrow> unescape_env_runes (c # rest) = c # unescape_env_runes rest"
  by (cases rest) simp_all

lemma unescape_env_char: "unescape_env_runes (env_quoted c @ rest) = c # unescape_env_runes rest"
proof (cases "c \<in> {newline, carriage_return, tab, bs, double_quote, CHR ''$'', backtick}")
  case True
  then show ?thesis by (auto simp: env_quoted_def text_chars backtick_def)
next
  case False
  then show ?thesis by (simp add: env_quoted_def unescape_env_raw)
qed

interpretation env_reader: rune_reader unescape_env_runes
proof
  show "unescape_env_runes (c # r) = c # unescape_env_runes r" if "\<not> ascii c" for c r
    using that bs_ascii by (intro unescape_env_raw) auto
qed simp

lemma env_quoted_read_back: "read_back unescape_env_runes c (env_quoted c)"
proof (cases "ascii c")
  case True
  then have "env_quoted c \<noteq> [] \<and> list_all ascii (env_quoted c)"
    by (simp add: env_quoted_def bs_ascii) (simp add: ascii_def)
  with True show ?thesis by (simp add: read_back_def unescape_env_char)
next
  case False
  then have "c \<notin> {newline, carriage_return, tab, bs, double_quote, CHR ''$'', backtick}"
    by (auto simp: ascii_def text_chars backtick_def)
  with False show ?thesis by (simp add: read_back_def env_quoted_def)
qed

lemma unescape_env_quoted: "unescapeEnvValue (concat (map env_quoted s)) = rune_text s"
  using env_reader.reads_written [of s id env_quoted] env_quoted_read_back by (simp add: unescapeEnvValue_def)

lemma unescape_env_bare:
  assumes "list_all ascii s" and "bs \<notin> set s"
  shows "unescapeEnvValue s = s" and "rune_text s = s"
proof -
  show r: "rune_text s = s" using rune_text_all_ascii [of s "[]"] assms(1) by simp
  have "unescape_env_runes s = s" using assms(2) by (induction s) (auto simp: unescape_env_raw)
  with r show "unescapeEnvValue s = s" by (simp add: unescapeEnvValue_def)
qed

lemma unquote_escape: "unquote_env (escapeEnvValue v) = rune_text v"
proof (cases "envBareValuePattern v")
  case True
  then have "v \<noteq> []" by (simp add: envBareValuePattern_def)
  then have ends: "hd v \<noteq> double_quote" "hd v \<noteq> single_quote" and b: "bs \<notin> set v"
    using bare_chars [OF True] hd_in_set by blast+
  have "list_all ascii v"
    using bare_chars [OF True] by (fastforce simp: list_all_iff printable_def ascii_def Let_def)
  from unescape_env_bare [OF this b] ends True show ?thesis by (simp add: escapeEnvValue_quoted unquote_env_def)
next
  case False
  then show ?thesis by (simp add: escapeEnvValue_quoted unquote_env_def unescape_env_quoted)
qed

lemma escaped_ends:
  "escapeEnvValue v \<noteq> [] \<and> printable (hd (escapeEnvValue v)) \<and> printable (last (escapeEnvValue v))"
proof (cases "envBareValuePattern v")
  case True
  then have "v \<noteq> []" by (simp add: envBareValuePattern_def)
  with True bare_chars [OF True] show ?thesis by (simp add: escapeEnvValue_quoted)
next
  case False
  have "printable double_quote" by (simp add: printable_def text_chars)
  with False show ?thesis by (simp add: escapeEnvValue_quoted)
qed

lemma escaped_plain: "plain_line (escapeEnvValue v)"
proof (cases "envBareValuePattern v")
  case True
  have "\<not> printable newline" "\<not> printable carriage_return" by (simp_all add: printable_def text_chars)
  with True bare_chars [OF True] show ?thesis by (auto simp: escapeEnvValue_quoted plain_line_def)
next
  case False
  have "newline \<notin> set (env_quoted c) \<and> carriage_return \<notin> set (env_quoted c)" for c
    by (auto simp: env_quoted_def text_chars backtick_def)
  with False show ?thesis by (auto simp: escapeEnvValue_quoted plain_line_def text_chars)
qed

lemma no_export_prefix:
  assumes "envKeyPattern k"
  shows "TrimPrefix ''export '' (k @ ''='' @ r) = k @ ''='' @ r"
proof -
  have "take 7 (k @ ''='' @ r) \<noteq> ''export ''"
  proof (cases "length k < 7")
    case True
    then have "CHR ''='' \<in> set (take 7 (k @ ''='' @ r))" by (simp add: take_Cons' split: nat.split)
    moreover have "CHR ''='' \<notin> set ''export ''" by simp
    ultimately show ?thesis by metis
  next
    case False
    then have "take 7 (k @ ''='' @ r) = take 7 k" by simp
    moreover have "CHR '' '' \<notin> set (take 7 k)" using key_chars [OF assms] by (auto dest: in_set_takeD)
    moreover have "CHR '' '' \<in> set ''export ''" by simp
    ultimately show ?thesis by metis
  qed
  moreover have "length ''export '' = 7" by simp
  ultimately show ?thesis unfolding TrimPrefix_def by (simp only: if_False)
qed

lemma read_env_entry:
  assumes "envKeyPattern k"
  shows "env_line (env_entry a (k, v)) m = fmupd k (rune_text v) m"
proof -
  let ?e = "k @ ''='' @ escapeEnvValue v"
  have k: "k \<noteq> []" using assms by (simp add: envKeyPattern_def)
  have ends: "printable (hd k)" "printable (last k)" "printable (last ?e)" "hd k \<noteq> CHR ''#''"
    using key_chars [OF assms] k escaped_ends [of v] by (simp_all add: last_append)
  have e: "TrimSpace ?e = ?e" "TrimSpace k = k" "TrimSpace (escapeEnvValue v) = escapeEnvValue v"
    using ends k escaped_ends [of v] by (intro TrimSpace_printable; simp)+
  have export: "printable CHR ''e''" by (simp add: printable_def)
  have line: "TrimSpace (env_entry a (k, v)) = env_entry a (k, v)"
    using e ends export by (cases "ExportPrefix a") (auto simp: env_entry_def intro!: TrimSpace_printable)
  have "TrimPrefix ''export '' (env_entry a (k, v)) = ?e"
  proof (cases "ExportPrefix a")
    case True
    then show ?thesis by (simp add: env_entry_def TrimPrefix_def)
  next
    case False
    then have "env_entry a (k, v) = ?e" by (simp add: env_entry_def)
    then show ?thesis using no_export_prefix [OF assms, of "escapeEnvValue v"] by (simp only:)
  qed
  moreover have "index_of CHR ''='' ?e = Some (length k)"
    using key_chars [OF assms] by (auto intro!: index_of_first)
  moreover have "env_entry a (k, v) \<noteq> []" "hd (env_entry a (k, v)) \<noteq> CHR ''#''"
    using k ends by (auto simp: env_entry_def)
  ultimately show ?thesis using line e by (simp add: env_line_def Let_def unquote_escape)
qed

lemma env_text_ok:
  "env_text a kvs = Inr out \<Longrightarrow>
    out = concat (map as_line (map (env_entry a) kvs)) \<and> list_all (\<lambda>(k, v). envKeyPattern k) kvs"
  by (induction a kvs arbitrary: out rule: env_text.induct)
    (auto simp: validateEnvKey_def as_line_def split: if_splits sum.splits)

lemma env_entry_plain:
  assumes "envKeyPattern k"
  shows "plain_line (env_entry a (k, v))"
proof -
  have "\<not> printable newline" "\<not> printable carriage_return" by (simp_all add: printable_def text_chars)
  with key_chars [OF assms] have "plain_line k" by (auto simp: plain_line_def)
  moreover have "plain_line ''export ''" "plain_line ''=''" by (simp_all add: plain_line_def text_chars)
  ultimately show ?thesis using escaped_plain [of v] by (auto simp: env_entry_def plain_line_def)
qed

lemma read_env_entries:
  "list_all (\<lambda>(k, v). envKeyPattern k) kvs \<Longrightarrow> fold env_line (map (env_entry a) kvs) m =
    put_all (map (\<lambda>(k, v). (k, rune_text v)) kvs) m"
  by (induction kvs arbitrary: m) (auto simp: read_env_entry)

text \<open>The keys of a map that can be written are ASCII; the values may be any text.\<close>

definition valid_values :: "string gomap \<Rightarrow> bool" where
  "valid_values data \<longleftrightarrow> list_all (\<lambda>(k, v). valid_utf8 v) (entries data)"

lemma env_reads_back:
  assumes "env_marshal a data = Inr out" and "valid_values data"
  shows "env_unmarshal out = Inr data"
proof -
  from env_text_ok [OF assms(1) [unfolded env_marshal_def]] have
    out: "out = concat (map as_line (map (env_entry a) (entries data)))" and
    ok: "list_all (\<lambda>(k, v). envKeyPattern k) (entries data)" by auto
  then have "list_all plain_line (map (env_entry a) (entries data))"
    by (auto simp: list_all_iff intro: env_entry_plain)
  then have "split_on newline out = map (env_entry a) (entries data) @ [[]]"
    unfolding out by (rule split_as_lines)
  moreover have "env_line [] m = m" for m
    by (simp add: env_line_def TrimSpace_printable)
  moreover have "map (\<lambda>(k, v). (k, rune_text v)) (entries data) = entries data"
    using assms(2) by (intro map_idI) (auto simp: valid_values_def list_all_iff rune_text_valid)
  ultimately show ?thesis by (simp add: env_unmarshal_def read_env_entries [OF ok] fold_upd_entries)
qed

lemma env_accepts: "(\<exists>out. env_marshal a data = Inr out) \<longleftrightarrow> list_all envKeyPattern (keys data)"
proof -
  have "(\<exists>out. env_text a kvs = Inr out) = list_all envKeyPattern (map fst kvs)" for kvs
    by (induction a kvs rule: env_text.induct) (auto simp: validateEnvKey_def split: sum.split)
  then show ?thesis by (simp add: env_marshal_def keys_def)
qed

text \<open>
  The adapter writes exactly the maps whose keys are shell variable names, and what it writes, with or
  without the export prefix, reads back as the same map when the values are valid UTF-8.
\<close>

theorem env_roundtrip:
  "(\<exists>out. env_marshal a data = Inr out) = list_all envKeyPattern (keys data) \<and>
   (case env_marshal a data of Inl _ \<Rightarrow> True | Inr out \<Rightarrow> valid_values data \<longrightarrow> env_unmarshal out = Inr data)"
  using env_accepts [of a data] env_reads_back [of a data] by (auto split: sum.split)

end
