(* ===== verification/IniFormat.thy ===== *)
theory IniFormat
  imports EnvFormat
begin

text \<open>
  The flat INI format, \<open>pkg/config/ini_adapter.go\<close>. It has no escapes: the round trip holds for the entries
  without surrounding white space.
\<close>

section \<open>Writing\<close>

definition ini_error :: "string \<Rightarrow> string \<Rightarrow> err" where
  "ini_error key why = serializeError ''ini'' (PlainError (''key '' @ key @ '': '' @ why))"

definition contains_any :: "string \<Rightarrow> string \<Rightarrow> bool" where
  "contains_any s chars \<longleftrightarrow> list_ex (\<lambda>c. c \<in> set chars) s"

definition starts_with :: "char \<Rightarrow> string \<Rightarrow> bool" where
  "starts_with c s \<longleftrightarrow> s \<noteq> [] \<and> hd s = c"

definition validateINIEntry :: "string \<Rightarrow> string \<Rightarrow> err option" where
  "validateINIEntry key value =
     (if contains_any key [newline, carriage_return] \<or> contains_any value [newline, carriage_return]
      then Some (ini_error key ''line breaks cannot be represented in INI'')
      else if contains_any key ''=:'' then Some (ini_error key ''a key cannot contain a separator character'')
      else if starts_with CHR ''['' key \<or> starts_with CHR ''#'' key \<or> starts_with CHR '';'' key
      then Some (ini_error key ''a key cannot start a section or a comment'')
      else None)"

definition ini_entry :: "string \<times> string \<Rightarrow> string" where
  "ini_entry = (\<lambda>(k, v). k @ '' = '' @ v)"

fun ini_text :: "(string \<times> string) list \<Rightarrow> err + string" where
  "ini_text [] = Inr []"
| "ini_text ((k, v) # kvs) =
     (case validateINIEntry k v of
        Some e \<Rightarrow> Inl e
      | None \<Rightarrow> (case ini_text kvs of Inl e \<Rightarrow> Inl e | Inr rest \<Rightarrow> Inr (ini_entry (k, v) @ [newline] @ rest)))"

definition ini_marshal :: "string gomap \<Rightarrow> err + string" where
  "ini_marshal data = ini_text (entries data)"

section \<open>Reading\<close>

fun index_any :: "string \<Rightarrow> string \<Rightarrow> nat option" where
  "index_any chars [] = None"
| "index_any chars (c # cs) = (if c \<in> set chars then Some 0 else map_option Suc (index_any chars cs))"

definition section_error :: "nat \<Rightarrow> err" where
  "section_error lineNum = parseError ''ini'' (PlainError (''line '' @ decimal lineNum
     @ '': section headers are not supported''))"

fun ini_lines :: "nat \<Rightarrow> string list \<Rightarrow> string gomap \<Rightarrow> err + string gomap" where
  "ini_lines lineNum [] result = Inr result"
| "ini_lines lineNum (l # ls) result =
     (let n = Suc lineNum; line = TrimSpace l
      in if line = [] \<or> starts_with CHR ''#'' line \<or> starts_with CHR '';'' line then ini_lines n ls result
         else if starts_with CHR ''['' line then Inl (section_error n)
         else ini_lines n ls
           (case index_any ''=:'' line of
              None \<Rightarrow> fmupd (TrimSpace line) [] result
            | Some i \<Rightarrow> fmupd (TrimSpace (take i line)) (TrimSpace (drop (Suc i) line)) result))"

definition ini_scan_failed :: err where
  "ini_scan_failed = parseError ''ini'' (Wrapped (FmtErrorf ''failed to scan INI content'') (Some ErrTooLong))"

definition ini_unmarshal :: "string \<Rightarrow> err + string gomap" where
  "ini_unmarshal data =
     (case scan_lines data of (ls, too_long) \<Rightarrow>
        (case ini_lines 0 ls fmempty of
           Inl e \<Rightarrow> Inl e
         | Inr result \<Rightarrow> if too_long then Inl ini_scan_failed else Inr result))"

section \<open>Round trip\<close>

lemma spaces_single: "list_all (\<lambda>p. CHR '' '' \<in> set p \<longrightarrow> p = '' '') spaces"
  by (simp add: spaces_def)

lemma spaces_no_equal: "list_all (\<lambda>p. CHR ''='' \<notin> set p) spaces"
  by (simp add: spaces_def)

lemma begins_with_iff:
  "begins_with ps s \<longleftrightarrow> (\<exists>p \<in> set ps. p \<noteq> [] \<and> (\<exists>r. s = p @ r))"
  by (auto simp: begins_with_def list_ex_iff) (metis append_take_drop_id)+

text \<open>A text that keeps its edges keeps them with a space and more behind it.\<close>

lemma begins_space_free:
  assumes "s \<noteq> []" and "\<not> begins_with ps s"
    and blank: "\<And>p. p \<in> set ps \<Longrightarrow> CHR '' '' \<in> set p \<Longrightarrow> p = '' ''"
  shows "\<not> begins_with ps (s @ CHR '' '' # r)"
proof
  assume "begins_with ps (s @ CHR '' '' # r)"
  then obtain p t where p: "p \<in> set ps" "p \<noteq> []" and eq: "s @ CHR '' '' # r = p @ t"
    by (auto simp: begins_with_iff)
  then consider (inner) u where "s = p @ u" | (outer) u where "p = s @ CHR '' '' # u"
    by (auto simp: append_eq_append_conv2 Cons_eq_append_conv)
  then show False
  proof cases
    case inner
    with p assms(2) show False by (auto simp: begins_with_iff)
  next
    case outer
    with blank [OF p(1)] assms(1) show False by (cases s) auto
  qed
qed


lemma strip_one_space:
  assumes "'' '' \<in> set ps" and blank: "\<And>p. p \<in> set ps \<Longrightarrow> CHR '' '' \<in> set p \<Longrightarrow> p = '' ''"
  shows "strip ps (CHR '' '' # r) = strip ps r"
proof -
  let ?P = "\<lambda>p. p \<noteq> [] \<and> take (length p) (CHR '' '' # r) = p"
  have only: "p = '' ''" if "p \<in> set ps" "?P p" for p
  proof -
    have "hd p = CHR '' ''" using that(2) take_hd [of p "CHR '' '' # r"] by simp
    then have "CHR '' '' \<in> set p" using that(2) hd_in_set by metis
    with blank that(1) show ?thesis by blast
  qed
  have "find ?P ps \<noteq> None" using assms(1) by (auto simp: find_None_iff)
  then obtain p where p: "find ?P ps = Some p" by auto
  then have "p \<in> set ps" "?P p" by (auto simp: find_Some_iff)
  from only [OF this] p show ?thesis by (simp add: strip.simps [of ps "CHR '' '' # r"])
qed

lemma spaces_blank: "p \<in> set spaces \<Longrightarrow> CHR '' '' \<in> set p \<Longrightarrow> p = '' ''"
  "p \<in> set (map rev spaces) \<Longrightarrow> CHR '' '' \<in> set p \<Longrightarrow> p = '' ''"
  using spaces_single by (auto simp: list_all_iff)

lemma space_in_spaces: "'' '' \<in> set spaces" "'' '' \<in> set (map rev spaces)"
proof -
  show "'' '' \<in> set spaces" by (simp add: spaces_def)
  then have "rev '' '' \<in> set (map rev spaces)" unfolding set_map by (rule imageI)
  then show "'' '' \<in> set (map rev spaces)" by (simp only: rev.simps append.simps)
qed

lemma strip_space:
  "strip spaces (CHR '' '' # r) = strip spaces r"
  "strip (map rev spaces) (CHR '' '' # r) = strip (map rev spaces) r"
  by (rule strip_one_space; rule space_in_spaces spaces_blank; assumption)+

lemma trim_padded:
  assumes "TrimSpace s = s"
  shows "TrimSpace (s @ '' '') = s" and "TrimSpace (CHR '' '' # s) = s"
proof -
  have keeps: "strip spaces s = s" "strip (map rev spaces) (rev s) = rev s"
    using assms by (simp_all add: TrimSpace_keeps strip_keeps)
  then show "TrimSpace (CHR '' '' # s) = s" by (simp add: TrimSpace_def strip_space)
  have "strip spaces (s @ '' '') = (if s = [] then [] else s @ '' '')"
  proof (cases "s = []")
    case True
    with keeps show ?thesis by (simp add: strip_space)
  next
    case False
    have "\<not> begins_with spaces (s @ CHR '' '' # [])"
      using assms by (intro begins_space_free False spaces_blank) (simp_all add: TrimSpace_keeps)
    with False show ?thesis by (simp add: strip_keeps)
  qed
  with keeps show "TrimSpace (s @ '' '') = s" by (cases "s = []") (simp_all add: TrimSpace_def strip_space)
qed

lemma trim_ini_entry:
  assumes k: "TrimSpace k = k" and v: "TrimSpace v = v"
  shows "TrimSpace (ini_entry (k, v)) =
    (if k = [] then [] else k @ '' '') @ ''='' @ (if v = [] then [] else CHR '' '' # v)"
proof -
  let ?left = "(if k = [] then [] else k @ '' '') @ ''= '' @ v"
  have eq: "printable CHR ''=''" by (simp add: printable_def)
  have left: "strip spaces (ini_entry (k, v)) = ?left"
  proof (cases "k = []")
    case True
    have "strip spaces (''= '' @ v) = ''= '' @ v" using eq by (simp add: strip_keeps begins_printable)
    with True show ?thesis by (simp add: ini_entry_def strip_space)
  next
    case False
    have "\<not> begins_with spaces (k @ CHR '' '' # ''= '' @ v)"
      using k by (intro begins_space_free False spaces_blank) (simp_all add: TrimSpace_keeps)
    with False show ?thesis by (simp add: ini_entry_def strip_keeps)
  qed
  have right: "strip (map rev spaces) (rev (x @ ''= '' @ v)) = rev (x @ ''='' @ (if v = [] then [] else CHR '' '' # v))" for x
  proof (cases "v = []")
    case True
    have "strip (map rev spaces) (CHR ''='' # rev x) = CHR ''='' # rev x"
      using eq by (simp add: strip_keeps begins_printable)
    with True show ?thesis by (simp add: strip_space)
  next
    case False
    have "\<not> begins_with (map rev spaces) (rev v @ CHR '' '' # CHR ''='' # rev x)"
      using v False by (intro begins_space_free) (auto simp: TrimSpace_keeps dest: spaces_blank)
    with False show ?thesis by (simp add: strip_keeps)
  qed
  show ?thesis unfolding TrimSpace_def left right by simp
qed

lemma index_any_first: "set s \<inter> set chars = {} \<Longrightarrow> c \<in> set chars \<Longrightarrow> index_any chars (s @ c # t) = Some (length s)"
  by (induction s) auto

lemma validate_ini:
  assumes "validateINIEntry k v = None"
  shows "plain_line (ini_entry (k, v))" and "set k \<inter> set ''=:'' = {}"
    and "k \<noteq> [] \<longrightarrow> hd k \<noteq> CHR ''['' \<and> hd k \<noteq> CHR ''#'' \<and> hd k \<noteq> CHR '';''"
proof -
  have ok: "\<not> contains_any k [newline, carriage_return]" "\<not> contains_any v [newline, carriage_return]"
    "\<not> contains_any k ''=:''" "\<not> starts_with CHR ''['' k" "\<not> starts_with CHR ''#'' k" "\<not> starts_with CHR '';'' k"
    using assms by (simp_all add: validateINIEntry_def split: if_splits)
  have "plain_line k" "plain_line v" using ok(1,2) by (auto simp: contains_any_def list_ex_iff plain_line_def)
  moreover have "plain_line '' = ''" by (simp add: plain_line_def text_chars)
  ultimately show "plain_line (ini_entry (k, v))" by (simp add: ini_entry_def plain_line_def)
  show "set k \<inter> set ''=:'' = {}" using ok(3) unfolding contains_any_def list_ex_iff by blast
  show "k \<noteq> [] \<longrightarrow> hd k \<noteq> CHR ''['' \<and> hd k \<noteq> CHR ''#'' \<and> hd k \<noteq> CHR '';''"
    using ok(4-6) unfolding starts_with_def by blast
qed

lemma read_ini_entry:
  assumes ok: "validateINIEntry k v = None" and trimmed: "TrimSpace k = k" "TrimSpace v = v"
  shows "ini_lines n (ini_entry (k, v) # ls) m = ini_lines (Suc n) ls (fmupd k v m)"
proof -
  let ?pre = "if k = [] then [] else k @ '' ''" and ?post = "if v = [] then [] else CHR '' '' # v"
  let ?line = "?pre @ CHR ''='' # ?post"
  have line: "TrimSpace (ini_entry (k, v)) = ?line" using trim_ini_entry [OF trimmed] by simp
  have "set ?pre \<inter> set ''=:'' = {}" using validate_ini(2) [OF ok] by auto
  then have i: "index_any ''=:'' ?line = Some (length ?pre)" by (rule index_any_first) simp
  have parts: "take (length ?pre) ?line = ?pre" "drop (Suc (length ?pre)) ?line = ?post" by simp_all
  have nil: "TrimSpace [] = []" by (simp add: TrimSpace_printable)
  have halves: "TrimSpace ?pre = k" "TrimSpace ?post = v"
    using trim_padded [OF trimmed(1)] trim_padded [OF trimmed(2)] nil by simp_all
  have "\<not> starts_with CHR ''#'' ?line" "\<not> starts_with CHR '';'' ?line" "\<not> starts_with CHR ''['' ?line"
    using validate_ini(3) [OF ok] by (auto simp: starts_with_def)
  then show ?thesis using line i parts halves by (simp only: ini_lines.simps Let_def option.case) simp
qed

lemma read_ini_entries:
  assumes "list_all (\<lambda>(k, v). validateINIEntry k v = None \<and> TrimSpace k = k \<and> TrimSpace v = v) kvs"
  shows "ini_lines n (map ini_entry kvs) m = Inr (put_all kvs m)"
  using assms
proof (induction kvs arbitrary: n m)
  case (Cons kv kvs)
  obtain k v where "kv = (k, v)" by fastforce
  with Cons show ?case by (simp del: ini_lines.simps(2) add: read_ini_entry)
qed simp

lemma ini_text_ok:
  "ini_text kvs = Inr out \<Longrightarrow>
    out = concat (map as_line (map ini_entry kvs)) \<and> list_all (\<lambda>(k, v). validateINIEntry k v = None) kvs"
  by (induction kvs arbitrary: out rule: ini_text.induct) (auto simp: as_line_def split: option.splits sum.splits)

text \<open>What the adapter accepts and reads back: no white space around a key or a value, short lines.\<close>

definition ini_faithful :: "string gomap \<Rightarrow> bool" where
  "ini_faithful data \<longleftrightarrow> list_all (\<lambda>(k, v). TrimSpace k = k \<and> TrimSpace v = v \<and> short_line (ini_entry (k, v))) (entries data)"

lemma ini_roundtrip:
  assumes "ini_marshal data = Inr out" and "ini_faithful data"
  shows "ini_unmarshal out = Inr data"
proof -
  from ini_text_ok assms(1) have
    out: "out = concat (map as_line (map ini_entry (entries data)))" and
    ok: "list_all (\<lambda>(k, v). validateINIEntry k v = None) (entries data)" by (auto simp: ini_marshal_def)
  then have "list_all plain_line (map ini_entry (entries data))"
    by (auto simp: list_all_iff validate_ini)
  then have scan: "scan_lines out = (takeWhile short_line (map ini_entry (entries data)),
      \<not> list_all short_line (map ini_entry (entries data)))"
    unfolding out by (rule scan_as_lines)
  have short: "list_all short_line (map ini_entry (entries data))"
    using assms(2) by (auto simp: ini_faithful_def list_all_iff)
  then have "takeWhile short_line (map ini_entry (entries data)) = map ini_entry (entries data)"
    by (simp add: takeWhile_eq_all_conv list_all_iff)
  with scan short have "scan_lines out = (map ini_entry (entries data), False)" by simp
  moreover have "list_all (\<lambda>(k, v). validateINIEntry k v = None \<and> TrimSpace k = k \<and> TrimSpace v = v) (entries data)"
    using ok assms(2) by (auto simp: ini_faithful_def list_all_iff)
  ultimately show ?thesis by (simp add: ini_unmarshal_def read_ini_entries fold_upd_entries)
qed

text \<open>
  A key with a space before a comment marker passes \<open>validateINIEntry\<close>, and its entry is gone when the file
  is read.
\<close>

lemma ini_comment_key_lost:
  "\<exists>out. ini_marshal (fmupd '' #k'' ''v'' fmempty) = Inr out \<and> ini_unmarshal out = Inr fmempty"
proof -
  have "entries (fmupd '' #k'' ''v'' fmempty) = [('' #k'', ''v'')]"
    by code_simp
  then have "ini_marshal (fmupd '' #k'' ''v'' fmempty) = Inr ('' #k = v'' @ [newline])"
    by (simp add: ini_marshal_def validateINIEntry_def contains_any_def starts_with_def ini_entry_def text_chars)
  moreover have "ini_unmarshal ('' #k = v'' @ [newline]) = Inr fmempty"
  proof -
    have "scan_lines ('' #k = v'' @ [newline]) = ([('' #k = v'')], False)"
      by (simp add: scan_lines_def raw_lines_def short_line_def MaxScanTokenSize_def dropCR_def text_chars)
    moreover have "TrimSpace '' #k = v'' = ''#k = v''"
    proof -
      have "strip spaces ''#k = v'' = ''#k = v''" "strip (map rev spaces) (rev ''#k = v'') = rev ''#k = v''"
        by (simp_all add: strip_keeps begins_printable printable_def)
      then show ?thesis by (simp add: TrimSpace_def strip_space)
    qed
    ultimately show ?thesis by (simp add: ini_unmarshal_def starts_with_def)
  qed
  ultimately show ?thesis by blast
qed

end
