(* ===== verification/XmlFormat.thy ===== *)
theory XmlFormat
  imports PropertiesFormat
begin

text \<open>
  The Hadoop XML format, \<open>pkg/config/xml_adapter.go\<close>: what it refuses and what it writes. Reading is
  \<open>encoding/xml\<close>, a parameter of the generators.
\<close>

section \<open>Text XML can carry\<close>

text \<open>\<open>utf8.ValidString\<close>.\<close>

definition within :: "nat \<Rightarrow> nat \<Rightarrow> char \<Rightarrow> bool" where
  "within lo hi c \<longleftrightarrow> (let n = of_char c :: nat in lo \<le> n \<and> n \<le> hi)"

abbreviation continuation :: "char \<Rightarrow> bool" where "continuation \<equiv> within 0x80 0xBF"

fun valid_utf8 :: "string \<Rightarrow> bool" where
  "valid_utf8 [] \<longleftrightarrow> True"
| "valid_utf8 (a # rest) \<longleftrightarrow>
     (if within 0 0x7F a then valid_utf8 rest
      else case rest of
        [] \<Rightarrow> False
      | b # rest2 \<Rightarrow>
          if within 0xC2 0xDF a then continuation b \<and> valid_utf8 rest2
          else (case rest2 of
              [] \<Rightarrow> False
            | c # rest3 \<Rightarrow>
                if within 0xE0 0xEF a
                then within (if a = CHR 0xE0 then 0xA0 else 0x80) (if a = CHR 0xED then 0x9F else 0xBF) b
                  \<and> continuation c \<and> valid_utf8 rest3
                else (case rest3 of
                    [] \<Rightarrow> False
                  | d # rest4 \<Rightarrow>
                      within 0xF0 0xF4 a
                      \<and> within (if a = CHR 0xF0 then 0x90 else 0x80) (if a = CHR 0xF4 then 0x8F else 0xBF) b
                      \<and> continuation c \<and> continuation d \<and> valid_utf8 rest4)))"

definition xml_control :: "char \<Rightarrow> bool" where
  "xml_control c \<longleftrightarrow> (of_char c :: nat) < 0x20 \<and> c \<noteq> tab \<and> c \<noteq> newline \<and> c \<noteq> carriage_return"

definition validateXMLText :: "string \<Rightarrow> string \<Rightarrow> err option" where
  "validateXMLText key t =
     (if \<not> valid_utf8 t
      then Some (serializeError ''xml'' (PlainError (''key '' @ key @ '': must be valid UTF-8'')))
      else if list_ex xml_control t
      then Some (serializeError ''xml'' (PlainError (''key '' @ key @ '': control character'')))
      else None)"

section \<open>Writing\<close>

definition escapeXML :: "string \<Rightarrow> string" where
  "escapeXML s =
     ReplaceAll carriage_return ''&#13;'' (ReplaceAll single_quote ''&apos;'' (ReplaceAll double_quote ''&quot;''
     (ReplaceAll CHR ''>'' ''&gt;'' (ReplaceAll CHR ''<'' ''&lt;'' (ReplaceAll CHR ''&'' ''&amp;'' s)))))"

definition xml_attributes :: "(string \<times> string) list \<Rightarrow> string" where
  "xml_attributes as =
     concat (map (\<lambda>(k, v). '' '' @ k @ ''='' @ [double_quote] @ v @ [double_quote]) as)"

definition xml_header :: string where
  "xml_header =
     ''<?xml'' @ xml_attributes [(''version'', ''1.0''), (''encoding'', ''UTF-8'')] @ ''?>'' @ [newline]
     @ ''<?xml-stylesheet'' @ xml_attributes [(''type'', ''text/xsl''), (''href'', ''configuration.xsl'')]
     @ ''?>'' @ [newline] @ ''<configuration>'' @ [newline]"

definition xml_property :: "string \<times> string \<Rightarrow> string" where
  "xml_property = (\<lambda>(k, v). concat (map (\<lambda>l. l @ [newline])
     [''  <property>'', ''    <name>'' @ escapeXML k @ ''</name>'', ''    <value>'' @ escapeXML v @ ''</value>'',
      ''  </property>'']))"

fun xml_properties :: "(string \<times> string) list \<Rightarrow> err + string" where
  "xml_properties [] = Inr []"
| "xml_properties ((k, v) # kvs) =
     (case validateXMLText k k of
        Some e \<Rightarrow> Inl e
      | None \<Rightarrow> (case validateXMLText k v of
          Some e \<Rightarrow> Inl e
        | None \<Rightarrow> (case xml_properties kvs of Inl e \<Rightarrow> Inl e | Inr rest \<Rightarrow> Inr (xml_property (k, v) @ rest))))"

definition xml_marshal :: "string gomap \<Rightarrow> err + string" where
  "xml_marshal data =
     (if entries data = [] then Inr (xml_header @ ''</configuration>'')
      else (case xml_properties (entries data) of
          Inl e \<Rightarrow> Inl e
        | Inr body \<Rightarrow> Inr (xml_header @ body @ ''</configuration>'' @ [newline])))"

section \<open>The escapes\<close>

text \<open>
  The character data of an XML element as a conforming reader sees it: no markup starts in it, and each
  reference stands for its character.
\<close>

definition xml_escape :: "char \<Rightarrow> string" where
  "xml_escape c =
     (if c = CHR ''&'' then ''&amp;'' else if c = CHR ''<'' then ''&lt;'' else if c = CHR ''>'' then ''&gt;''
      else if c = double_quote then ''&quot;'' else if c = single_quote then ''&apos;''
      else if c = carriage_return then ''&#13;'' else [c])"

lemma escapeXML_charwise: "escapeXML s = concat (map xml_escape s)"
proof -
  let ?f = "\<lambda>x. ReplaceAll carriage_return ''&#13;'' (ReplaceAll single_quote ''&apos;''
     (ReplaceAll double_quote ''&quot;'' (ReplaceAll CHR ''>'' ''&gt;'' (ReplaceAll CHR ''<'' ''&lt;''
     (if x = CHR ''&'' then ''&amp;'' else [x])))))"
  have "charwise escapeXML ?f" unfolding escapeXML_def by (intro charwise_next charwise_one)
  moreover have "?f c = xml_escape c" for c
    by (simp add: xml_escape_def text_chars)
  ultimately show ?thesis by (simp add: charwise_def)
qed

definition xml_references :: "(string \<times> char) list" where
  "xml_references = [(''&amp;'', CHR ''&''), (''&lt;'', CHR ''<''), (''&gt;'', CHR ''>''),
     (''&quot;'', double_quote), (''&apos;'', single_quote), (''&#13;'', carriage_return)]"

text \<open>Reading character data; \<open>None\<close> is markup, a stray reference or a carriage return the reader would change.\<close>

function character_data :: "string \<Rightarrow> string option" where
  "character_data [] = Some []"
| "character_data (c # s) =
     (if c = CHR ''&''
      then (case find (\<lambda>(p, r). take (length p) (c # s) = p) xml_references of
          None \<Rightarrow> None
        | Some (p, r) \<Rightarrow> map_option (Cons r) (character_data (drop (length p - 1) s)))
      else if c = CHR ''<'' \<or> c = carriage_return then None
      else map_option (Cons c) (character_data s))"
  by pat_completeness auto

termination character_data
  by (relation "measure length") auto

lemma character_data_escape:
  "character_data (xml_escape c @ rest) = map_option (Cons c) (character_data rest)"
  by (simp add: xml_escape_def xml_references_def text_chars)

lemma escapeXML_read: "character_data (escapeXML s) = Some s"
  by (induction s) (simp_all add: escapeXML_charwise character_data_escape)

end
