(* ===== verification/ConfigGenerator.thy ===== *)
theory ConfigGenerator
  imports IniFormat XmlFormat
begin

text \<open>
  The formats behind one interface and the generators over them: \<open>pkg/config/format.go\<close>,
  \<open>pkg/config/generator.go\<close>. The XML reader and the YAML adapter rest on libraries and are parameters.
\<close>

section \<open>Formats\<close>

text \<open>A \<open>ConfigMarshaler\<close>, with its \<open>ConfigUnmarshaler\<close> half when it has one, and its Go type.\<close>

record config_format =
  Marshal :: "string gomap \<Rightarrow> err + string"
  Unmarshal :: "(string \<Rightarrow> err + string gomap) option"
  fmt_type :: string

record libraries =
  read_xml :: "string \<Rightarrow> err + string gomap"
  yaml_adapter :: config_format

definition properties_format :: config_format where
  "properties_format = \<lparr>Marshal = properties_marshal NewPropertiesAdapter, Unmarshal = Some properties_unmarshal,
     fmt_type = ''*config.PropertiesAdapter''\<rparr>"

definition env_format :: config_format where
  "env_format = \<lparr>Marshal = env_marshal NewEnvAdapter, Unmarshal = Some env_unmarshal,
     fmt_type = ''*config.EnvAdapter''\<rparr>"

definition ini_format :: config_format where
  "ini_format = \<lparr>Marshal = ini_marshal, Unmarshal = Some ini_unmarshal, fmt_type = ''*config.INIAdapter''\<rparr>"

definition xml_unmarshal :: "libraries \<Rightarrow> string \<Rightarrow> err + string gomap" where
  "xml_unmarshal lib data = (case read_xml lib data of Inl e \<Rightarrow> Inl (parseError ''xml'' e) | Inr m \<Rightarrow> Inr m)"

definition xml_format :: "libraries \<Rightarrow> config_format" where
  "xml_format lib = \<lparr>Marshal = xml_marshal, Unmarshal = Some (xml_unmarshal lib), fmt_type = ''*config.XMLAdapter''\<rparr>"

definition GetFormat :: "libraries \<Rightarrow> string \<Rightarrow> config_format" where
  "GetFormat lib formatType =
     (if formatType = ''xml'' then xml_format lib
      else if formatType = ''properties'' then properties_format
      else if formatType = ''yaml'' then yaml_adapter lib
      else if formatType = ''env'' then env_format
      else if formatType = ''ini'' then ini_format
      else properties_format)"

definition UnsupportedParseError :: "string \<Rightarrow> string \<Rightarrow> err" where
  "UnsupportedParseError fmt path = PlainError (''cannot parse ''
     @ (if path \<noteq> [] then ''config file '' @ path else ''configuration content'')
     @ '': the '' @ fmt @ '' format only implements ConfigMarshaler, not ConfigUnmarshaler'')"

definition unmarshalerFor :: "config_format \<Rightarrow> string \<Rightarrow> string \<Rightarrow> err + (string \<Rightarrow> err + string gomap)" where
  "unmarshalerFor format fname path =
     (case Unmarshal format of None \<Rightarrow> Inl (UnsupportedParseError fname path) | Some u \<Rightarrow> Inr u)"

definition formatName :: "string \<Rightarrow> config_format option \<Rightarrow> string" where
  "formatName requested format =
     (let ty = (case format of None \<Rightarrow> ''<nil>'' | Some f \<Rightarrow> fmt_type f)
      in if requested = [] then ty else requested @ '' ('' @ ty @ '')'')"

section \<open>One format\<close>

record config_generator =
  gen_format :: "config_format option"
  gen_name :: string

definition NewConfigGenerator :: "config_format option \<Rightarrow> config_generator" where
  "NewConfigGenerator format = \<lparr>gen_format = format, gen_name = formatName [] format\<rparr>"

definition NewConfigGeneratorWithType :: "libraries \<Rightarrow> string \<Rightarrow> config_generator" where
  "NewConfigGeneratorWithType lib formatType =
     (let format = Some (GetFormat lib formatType)
      in \<lparr>gen_format = format, gen_name = formatName formatType format\<rparr>)"

definition ErrNoFormat :: err where
  "ErrNoFormat = PlainError ''no configuration format configured''"

definition Generate :: "config_generator \<Rightarrow> string gomap \<Rightarrow> err + string" where
  "Generate g config =
     (case gen_format g of
        None \<Rightarrow> Inl ErrNoFormat
      | Some format \<Rightarrow> (case Marshal format config of
          Inl e \<Rightarrow> Inl (Wrapped (FmtErrorf (''failed to generate configuration with the '' @ gen_name g @ '' format'')) (Some e))
        | Inr content \<Rightarrow> Inr content))"

definition Parse :: "config_generator \<Rightarrow> string \<Rightarrow> err + string gomap" where
  "Parse g content =
     (case gen_format g of
        None \<Rightarrow> Inl ErrNoFormat
      | Some format \<Rightarrow> (case unmarshalerFor format (gen_name g) [] of
          Inl e \<Rightarrow> Inl e
        | Inr unmarshal \<Rightarrow> (case unmarshal content of
            Inl e \<Rightarrow> Inl (Wrapped (FmtErrorf (''failed to parse configuration with the '' @ gen_name g @ '' format'')) (Some e))
          | Inr data \<Rightarrow> Inr data)))"

text \<open>The loop over the files of a map; the first failure ends it.\<close>

fun generate_each :: "(string \<Rightarrow> string gomap \<Rightarrow> err + string) \<Rightarrow> (string \<times> string gomap) list \<Rightarrow> string gomap
    \<Rightarrow> err + string gomap" where
  "generate_each f [] result = Inr result"
| "generate_each f ((path, config) # rest) result =
     (case f path config of
        Inl e \<Rightarrow> Inl e
      | Inr content \<Rightarrow> generate_each f rest (fmupd path content result))"

definition GenerateFiles :: "config_generator \<Rightarrow> string gomap gomap \<Rightarrow> err + string gomap" where
  "GenerateFiles g configFiles = generate_each (\<lambda>path config. case Generate g config of
       Inl e \<Rightarrow> Inl (Wrapped (FmtErrorf (''config file '' @ path)) (Some e)) | Inr content \<Rightarrow> Inr content)
     (entries configFiles) fmempty"

section \<open>A format per file\<close>

text \<open>The registrations of a \<open>MultiFormatConfigGenerator\<close>; \<open>None\<close> is a nil adapter.\<close>

type_synonym formats = "config_format option gomap"

definition RegisterFormat :: "string \<Rightarrow> config_format option \<Rightarrow> formats \<Rightarrow> formats" where
  "RegisterFormat extension format g = fmupd extension format g"

definition RegisterDefaultFormats :: "libraries \<Rightarrow> formats \<Rightarrow> formats" where
  "RegisterDefaultFormats lib g =
     RegisterFormat ''.ini'' (Some ini_format) (RegisterFormat ''.env'' (Some env_format)
     (RegisterFormat ''.yml'' (Some (yaml_adapter lib)) (RegisterFormat ''.yaml'' (Some (yaml_adapter lib))
     (RegisterFormat ''.properties'' (Some properties_format) (RegisterFormat ''.xml'' (Some (xml_format lib)) g)))))"

definition better_match ::
    "string \<Rightarrow> string \<times> config_format option \<Rightarrow> (config_format \<times> string) option \<Rightarrow> (config_format \<times> string) option" where
  "better_match path = (\<lambda>(ext, format) best.
     (case format of
        None \<Rightarrow> best
      | Some f \<Rightarrow>
          if \<not> has_suffix path ext then best
          else (case best of
              None \<Rightarrow> Some (f, ext)
            | Some (_, bestExt) \<Rightarrow> if length ext > length bestExt then Some (f, ext) else best)))"

definition best_format :: "string \<Rightarrow> (string \<times> config_format option) list \<Rightarrow> (config_format \<times> string) option" where
  "best_format path regs = fold (better_match path) regs None"

definition formatForFile :: "formats \<Rightarrow> string \<Rightarrow> config_format \<times> string" where
  "formatForFile g path =
     (case best_format path (entries g) of
        None \<Rightarrow> (properties_format, formatName ''.properties (default)'' (Some properties_format))
      | Some (f, ext) \<Rightarrow> (f, formatName ext (Some f)))"

definition multi_generate :: "formats \<Rightarrow> string \<Rightarrow> string gomap \<Rightarrow> err + string" where
  "multi_generate g path config =
     (let (format, fname) = formatForFile g path
      in case Marshal format config of
           Inl e \<Rightarrow> Inl (Wrapped (FmtErrorf (''failed to generate config file '' @ path @ '' with the '' @ fname @ '' format'')) (Some e))
         | Inr content \<Rightarrow> Inr content)"

definition multi_parse :: "formats \<Rightarrow> string \<Rightarrow> string \<Rightarrow> err + string gomap" where
  "multi_parse g path content =
     (let (format, fname) = formatForFile g path
      in case unmarshalerFor format fname path of
           Inl e \<Rightarrow> Inl e
         | Inr unmarshal \<Rightarrow> (case unmarshal content of
             Inl e \<Rightarrow> Inl (Wrapped (FmtErrorf (''failed to parse config file '' @ path @ '' with the '' @ fname @ '' format'')) (Some e))
           | Inr data \<Rightarrow> Inr data))"

definition multi_generate_files :: "formats \<Rightarrow> string gomap gomap \<Rightarrow> err + string gomap" where
  "multi_generate_files g configFiles = generate_each (multi_generate g) (entries configFiles) fmempty"

section \<open>The choice of the format\<close>

definition matches :: "string \<Rightarrow> (string \<times> config_format option) list \<Rightarrow> config_format \<times> string \<Rightarrow> bool" where
  "matches path regs = (\<lambda>(f, ext). (ext, Some f) \<in> set regs \<and> has_suffix path ext)"

definition longest_match :: "string \<Rightarrow> (string \<times> config_format option) list \<Rightarrow> (config_format \<times> string) option \<Rightarrow> bool" where
  "longest_match path regs best \<longleftrightarrow>
     (case best of
        None \<Rightarrow> (\<forall>c. \<not> matches path regs c)
      | Some b \<Rightarrow> matches path regs b \<and> (\<forall>c. matches path regs c \<longrightarrow> length (snd c) \<le> length (snd b)))"

lemma better_match_longest:
  assumes "longest_match path regs best"
  shows "longest_match path (regs @ [x]) (better_match path x best)"
proof -
  obtain ext format where x: "x = (ext, format)" by fastforce
  have new: "matches path (regs @ [x]) c \<longleftrightarrow>
      matches path regs c \<or> (format = Some (fst c) \<and> snd c = ext \<and> has_suffix path ext)" for c
    by (cases c) (auto simp: matches_def x)
  show ?thesis
  proof (cases "\<exists>f. format = Some f \<and> has_suffix path ext")
    case False
    then have "better_match path x best = best" "matches path (regs @ [x]) = matches path regs"
      using new by (auto simp: better_match_def x fun_eq_iff split: option.split)
    with assms show ?thesis by (cases best) (simp_all add: longest_match_def)
  next
    case True
    then obtain f where f: "format = Some f" "has_suffix path ext" by blast
    show ?thesis
    proof (cases best)
      case None
      with assms f new show ?thesis by (auto simp: better_match_def x longest_match_def)
    next
      case (Some b)
      obtain bf bext where b: "b = (bf, bext)" by fastforce
      have old: "matches path regs b" "\<And>c. matches path regs c \<Longrightarrow> length (snd c) \<le> length bext"
        using assms Some b by (auto simp: longest_match_def)
      show ?thesis
        using f new Some b old
        by (cases "length ext > length bext") (fastforce simp: better_match_def x longest_match_def)+
    qed
  qed
qed

lemma best_format_longest: "longest_match path regs (best_format path regs)"
proof (induction regs rule: rev_induct)
  case Nil
  show ?case by (simp add: best_format_def longest_match_def matches_def)
next
  case (snoc x regs)
  from better_match_longest [OF this] show ?case by (simp add: best_format_def)
qed

lemma has_suffix_unique: "has_suffix s a \<Longrightarrow> has_suffix s b \<Longrightarrow> length a = length b \<Longrightarrow> a = b"
  unfolding has_suffix_def by metis

lemma longest_match_unique:
  assumes "longest_match path regs a" and "longest_match path regs b" and "distinct (map fst regs)"
  shows "a = b"
proof (cases a)
  case None
  with assms show ?thesis by (cases b) (auto simp: longest_match_def)
next
  case (Some x)
  then have "matches path regs x" using assms(1) by (simp add: longest_match_def)
  then obtain y where b: "b = Some y" using assms(2) by (cases b) (simp_all del: split_paired_All add: longest_match_def)
  obtain f e f' e' where xy: "x = (f, e)" "y = (f', e')" by fastforce
  from assms Some b have m: "matches path regs x" "matches path regs y"
    and le: "length (snd x) \<le> length (snd y)" "length (snd y) \<le> length (snd x)"
    by (simp_all del: split_paired_All add: longest_match_def)
  from m have "e = e'" using has_suffix_unique le xy by (auto simp: matches_def)
  with m xy assms(3) have "f = f'" by (auto simp: matches_def dest: eq_key_imp_eq_value)
  with \<open>e = e'\<close> xy Some b show ?thesis by simp
qed

text \<open>
  The format of a file is that of the longest registered suffix of its name with an adapter, and the
  properties format when there is none, whatever order the registrations are visited in.
\<close>

theorem format_selection:
  assumes "mset regs = mset (entries g)"
  shows "best_format path regs = best_format path (entries g) \<and>
    longest_match path (entries g) (best_format path (entries g)) \<and>
    fst (formatForFile g path) =
      (case best_format path regs of None \<Rightarrow> properties_format | Some (f, _) \<Rightarrow> f)"
proof -
  have "set regs = set (entries g)" using assms by (rule mset_eq_setD)
  then have "matches path regs = matches path (entries g)" by (simp add: matches_def fun_eq_iff)
  then have "longest_match path regs x = longest_match path (entries g) x" for x
    unfolding longest_match_def by (simp only:)
  then have "longest_match path (entries g) (best_format path regs)"
    using best_format_longest [of path regs] by simp
  then have eq: "best_format path regs = best_format path (entries g)"
    using longest_match_unique best_format_longest distinct_fst_entries by blast
  then show ?thesis using best_format_longest [of path "entries g"]
    by (auto simp: formatForFile_def split: option.split)
qed

theorem server_properties_format:
  "best_format ''server.properties'' [(''.properties'', Some properties_format), (''server.properties'', Some ini_format)]
     = Some (ini_format, ''server.properties'')"
proof -
  let ?g = "fmupd ''.properties'' (Some properties_format) (fmupd ''server.properties'' (Some ini_format) fmempty)"
  have e: "entries ?g = [(''.properties'', Some properties_format), (''server.properties'', Some ini_format)]"
    by (simp add: entries_def sorted_list_of_fmap_def sorted_list_of_fset.rep_eq)
  have "best_format ''server.properties'' (entries ?g) = Some (ini_format, ''server.properties'')"
    unfolding e by (simp add: best_format_def better_match_def has_suffix_def)
  then show ?thesis
    using format_selection [of "entries ?g" ?g "''server.properties''"] e by simp
qed

section \<open>Reading back generated files\<close>

text \<open>What a format promises: it reads its own output back, for the maps it is faithful to.\<close>

locale config_codec =
  fixes marshal :: "string gomap \<Rightarrow> err + string"
    and unmarshal :: "string \<Rightarrow> err + string gomap"
    and faithful :: "string gomap \<Rightarrow> bool"
  assumes reads_back: "marshal data = Inr content \<Longrightarrow> faithful data \<Longrightarrow> unmarshal content = Inr data"
begin

lemma marshal_inj:
  "marshal a = Inr content \<Longrightarrow> marshal b = Inr content \<Longrightarrow> faithful a \<Longrightarrow> faithful b \<Longrightarrow> a = b"
  by (drule (1) reads_back, drule (1) reads_back) simp

lemma generate_parse:
  assumes "fst (formatForFile g path) = \<lparr>Marshal = marshal, Unmarshal = Some unmarshal, fmt_type = ty\<rparr>"
    and "multi_generate g path data = Inr content" and "faithful data"
  shows "multi_parse g path content = Inr data"
proof (cases "formatForFile g path")
  case (Pair format fname)
  with assms have "marshal data = Inr content" by (simp add: multi_generate_def split: sum.splits)
  with reads_back assms(3) have "unmarshal content = Inr data" by blast
  with Pair assms(1) show ?thesis by (simp add: multi_parse_def unmarshalerFor_def)
qed

end

definition properties_faithful :: "string gomap \<Rightarrow> bool" where
  "properties_faithful data \<longleftrightarrow> list_all short_line (map (properties_entry NewPropertiesAdapter) (entries data)) \<and>
     valid_texts data"

lemma properties_reads_back:
  "properties_marshal NewPropertiesAdapter data = Inr content \<Longrightarrow> properties_faithful data \<Longrightarrow>
    properties_unmarshal content = Inr data"
  using properties_codec [of data] by (simp add: properties_faithful_def runes_of_valid fold_upd_entries)

interpretation properties_file: config_codec "properties_marshal NewPropertiesAdapter" properties_unmarshal properties_faithful
  by unfold_locales (rule properties_reads_back)

interpretation env_file: config_codec "env_marshal NewEnvAdapter" env_unmarshal valid_values
  by unfold_locales (rule env_reads_back)

interpretation ini_file: config_codec ini_marshal ini_unmarshal ini_faithful
  by unfold_locales (rule ini_roundtrip)

text \<open>The maps a file's default format is faithful to.\<close>

definition file_faithful :: "string \<Rightarrow> string gomap \<Rightarrow> bool" where
  "file_faithful path data \<longleftrightarrow>
     (if has_suffix path ''.env'' then valid_values data
      else if has_suffix path ''.ini'' then ini_faithful data
      else properties_faithful data)"

definition library_file :: "string \<Rightarrow> bool" where
  "library_file path \<longleftrightarrow> list_ex (has_suffix path) [''.xml'', ''.yaml'', ''.yml'']"

lemma default_entries:
  "entries (RegisterDefaultFormats lib fmempty) =
     [(''.env'', Some env_format), (''.ini'', Some ini_format), (''.properties'', Some properties_format),
      (''.xml'', Some (xml_format lib)), (''.yaml'', Some (yaml_adapter lib)), (''.yml'', Some (yaml_adapter lib))]"
  by (simp add: RegisterDefaultFormats_def RegisterFormat_def entries_def sorted_list_of_fmap_def
      sorted_list_of_fset.rep_eq)

lemma has_suffix_last: "has_suffix s a \<Longrightarrow> a \<noteq> [] \<Longrightarrow> last s = last a"
  unfolding has_suffix_def by (metis last_drop length_drop length_greater_0_conv zero_less_diff)

lemma default_format:
  assumes "\<not> library_file path"
  shows "fst (formatForFile (RegisterDefaultFormats lib fmempty) path) =
    (if has_suffix path ''.env'' then env_format else if has_suffix path ''.ini'' then ini_format
     else properties_format)"
proof -
  have "\<not> has_suffix path ''.xml''" "\<not> has_suffix path ''.yaml''" "\<not> has_suffix path ''.yml''"
    using assms by (simp_all add: library_file_def)
  moreover have "has_suffix path ''.env'' \<Longrightarrow> \<not> has_suffix path ''.ini''" "has_suffix path ''.env'' \<Longrightarrow> \<not> has_suffix path ''.properties''"
    "has_suffix path ''.ini'' \<Longrightarrow> \<not> has_suffix path ''.properties''"
    by (auto dest!: has_suffix_last)
  ultimately show ?thesis
    by (simp add: formatForFile_def best_format_def default_entries better_match_def)
qed

text \<open>
  C29. With the default formats, a file named for an environment file, an INI file or a properties file, or for
  none of the registered kinds, which makes it a properties file, reads back after it was generated as the map
  it was generated from: an environment file when its values are valid UTF-8; a properties file when its keys
  and values are, and its lines are below 64 KiB; an INI file when no key and no value has white space at its
  ends, and its lines are below 64 KiB. The XML and YAML files, whose readers are libraries, are not covered.
\<close>

theorem multi_parse_generate:
  assumes "multi_generate (RegisterDefaultFormats lib fmempty) path data = Inr content"
    and "\<not> library_file path" and "file_faithful path data"
  shows "multi_parse (RegisterDefaultFormats lib fmempty) path content = Inr data"
proof -
  note format = default_format [OF assms(2), of lib]
  consider (env) "has_suffix path ''.env''" | (ini) "\<not> has_suffix path ''.env''" "has_suffix path ''.ini''"
    | (properties) "\<not> has_suffix path ''.env''" "\<not> has_suffix path ''.ini''" by blast
  then show ?thesis
  proof cases
    case env
    then show ?thesis using format assms(3) by (intro env_file.generate_parse [OF _ assms(1)]) (simp_all add: env_format_def file_faithful_def)
  next
    case ini
    then show ?thesis using format assms(3)
      by (intro ini_file.generate_parse [OF _ assms(1)]) (simp_all add: ini_format_def file_faithful_def)
  next
    case properties
    then show ?thesis using format assms(3)
      by (intro properties_file.generate_parse [OF _ assms(1)]) (simp_all add: properties_format_def file_faithful_def)
  qed
qed

definition no_libraries :: libraries where
  "no_libraries = \<lparr>read_xml = (\<lambda>_. Inl (PlainError ''EOF'')), yaml_adapter = properties_format\<rparr>"

theorem multi_parse_generate_witness:
  "multi_parse (RegisterDefaultFormats no_libraries fmempty) ''a.env'' (''K=v'' @ [newline]) = Inr (fmupd ''K'' ''v'' fmempty)"
proof (rule multi_parse_generate)
  have entries: "entries (fmupd ''K'' ''v'' fmempty) = [(''K'', ''v'')]"
    by (simp add: entries_def sorted_list_of_fmap_def sorted_list_of_fset.rep_eq)
  have env: "\<not> library_file ''a.env''" by (simp add: library_file_def has_suffix_def)
  have "valid_values (fmupd ''K'' ''v'' fmempty)" by (simp add: valid_values_def entries ascii_def)
  with env show "\<not> library_file ''a.env''" "file_faithful ''a.env'' (fmupd ''K'' ''v'' fmempty)"
    by (simp_all add: file_faithful_def has_suffix_def)
  note entries
  moreover have "envKeyPattern ''K''" "envBareValuePattern ''v''"
    by (simp_all add: envKeyPattern_def envBareValuePattern_def ascii_letter_def)
  ultimately have "env_marshal NewEnvAdapter (fmupd ''K'' ''v'' fmempty) = Inr (''K=v'' @ [newline])"
    by (simp add: env_marshal_def validateEnvKey_def env_entry_def NewEnvAdapter_def escapeEnvValue_def)
  moreover have "fst (formatForFile (RegisterDefaultFormats no_libraries fmempty) ''a.env'') = env_format"
    using default_format [of "''a.env''" no_libraries] env by (simp add: has_suffix_def)
  ultimately show "multi_generate (RegisterDefaultFormats no_libraries fmempty) ''a.env'' (fmupd ''K'' ''v'' fmempty)
      = Inr (''K=v'' @ [newline])"
    by (cases "formatForFile (RegisterDefaultFormats no_libraries fmempty) ''a.env''") (simp add: multi_generate_def env_format_def)
qed

end
