(* ===== verification/StatefulSetBuilder.thy ===== *)
theory StatefulSetBuilder
  imports PodTypes ConfigMerge
begin

text \<open>
  The StatefulSet builder, \<open>pkg/builder/statefulset_builder.go\<close>, and the merge of pod overrides,
  \<open>pod_override_merge.go\<close>. A builder is a record and a \<open>With...\<close> method a function on it; the copies
  the code makes so that built objects share nothing with the builder are values here.

  The strategic merge of two pod templates is apimachinery's \<open>StrategicMergePatchUsingLookupPatchMeta\<close>
  between a marshalling and an unmarshalling, the parameter \<open>merge_patch\<close>. The code turns an override's
  nil container list into an empty one for the sake of that JSON; lists have no such difference here.
\<close>

section \<open>The builder\<close>

record kclaim =
  claim_name :: string
  claim_access_modes :: "string list"
  claim_request :: quantity
  claim_class :: "string option"

record sts_builder =
  sb_name :: string
  sb_namespace :: string
  sb_main_container :: string
  sb_labels :: "string gomap"
  sb_selector_labels :: "string gomap"
  sb_annotations :: "string gomap"
  sb_replicas :: int
  sb_image :: string
  sb_pull_policy :: string
  sb_config :: "ktemplate merged_config option"
  sb_ports :: "container_port list"
  sb_volumes :: "kvolume list"
  sb_mounts :: "volume_mount list"
  sb_base_env :: "env_var list"
  sb_command :: "string list"
  sb_args :: "string list"
  sb_init_containers :: "kcontainer list"
  sb_resources :: "resource_requirements option"
  sb_security :: "security_context option"
  sb_pod_security :: "pod_security_context option"
  sb_service_links :: "bool option"
  sb_affinity :: "k8s_affinity option"
  sb_service_account :: string
  sb_pull_secret :: string
  sb_claims :: "kclaim list option"
  sb_pod_management :: string
  sb_update_strategy :: "string option"
  sb_pod_overrides :: "ktemplate option"
  sb_grace :: "int option"
  sb_lifecycle :: "lifecycle option"
  sb_liveness :: "probe option"
  sb_readiness :: "probe option"
  sb_startup :: "probe option"
  sb_no_liveness :: bool
  sb_no_readiness :: bool
  sb_no_startup :: bool

definition NewStatefulSetBuilder :: "string \<Rightarrow> string \<Rightarrow> sts_builder" where
  "NewStatefulSetBuilder name namespace = \<lparr>sb_name = name, sb_namespace = namespace,
     sb_main_container = [], sb_labels = fmempty, sb_selector_labels = fmempty, sb_annotations = fmempty,
     sb_replicas = 1, sb_image = [], sb_pull_policy = ''IfNotPresent'', sb_config = None, sb_ports = [],
     sb_volumes = [], sb_mounts = [], sb_base_env = [], sb_command = [], sb_args = [],
     sb_init_containers = [], sb_resources = None, sb_security = None, sb_pod_security = None,
     sb_service_links = None, sb_affinity = None, sb_service_account = [], sb_pull_secret = [],
     sb_claims = None, sb_pod_management = [], sb_update_strategy = None, sb_pod_overrides = None,
     sb_grace = None, sb_lifecycle = None, sb_liveness = None, sb_readiness = None, sb_startup = None,
     sb_no_liveness = False, sb_no_readiness = False, sb_no_startup = False\<rparr>"

section \<open>Methods\<close>

definition WithLabels :: "string gomap \<Rightarrow> sts_builder \<Rightarrow> sts_builder" where
  "WithLabels ls b = b\<lparr>sb_labels := put_all (entries ls) (sb_labels b)\<rparr>"

definition WithSelectorLabels :: "string gomap \<Rightarrow> sts_builder \<Rightarrow> sts_builder" where
  "WithSelectorLabels ls b = b\<lparr>sb_selector_labels := put_all (entries ls) fmempty,
     sb_labels := put_all (entries ls) (sb_labels b)\<rparr>"

definition podManagementPolicy :: "sts_builder \<Rightarrow> string" where
  "podManagementPolicy b = (if sb_pod_management b \<noteq> [] then sb_pod_management b else ''Parallel'')"

definition selectorMatchLabels :: "sts_builder \<Rightarrow> string gomap" where
  "selectorMatchLabels b = (if sb_selector_labels b \<noteq> fmempty then sb_selector_labels b else sb_labels b)"

definition WithMainContainerName :: "string \<Rightarrow> sts_builder \<Rightarrow> sts_builder" where
  "WithMainContainerName name b = b\<lparr>sb_main_container := name\<rparr>"

definition primaryContainerName :: "sts_builder \<Rightarrow> string" where
  "primaryContainerName b = (if sb_main_container b \<noteq> [] then sb_main_container b else sb_name b)"

definition WithAnnotations :: "string gomap \<Rightarrow> sts_builder \<Rightarrow> sts_builder" where
  "WithAnnotations as b = b\<lparr>sb_annotations := put_all (entries as) (sb_annotations b)\<rparr>"

definition WithReplicas :: "int \<Rightarrow> sts_builder \<Rightarrow> sts_builder" where
  "WithReplicas n b = b\<lparr>sb_replicas := n\<rparr>"

definition WithImage :: "string \<Rightarrow> string \<Rightarrow> sts_builder \<Rightarrow> sts_builder" where
  "WithImage img policy b =
     b\<lparr>sb_image := img, sb_pull_policy := (if policy \<noteq> [] then policy else sb_pull_policy b)\<rparr>"

definition WithConfig :: "ktemplate merged_config option \<Rightarrow> sts_builder \<Rightarrow> sts_builder" where
  "WithConfig cfg b = b\<lparr>sb_config := cfg\<rparr>"

text \<open>An entry only for a value that is stated.\<close>

definition put_some :: "string \<Rightarrow> quantity option \<Rightarrow> quantity gomap \<Rightarrow> quantity gomap" where
  "put_some k q m = (case q of Some v \<Rightarrow> fmupd k v m | None \<Rightarrow> m)"

definition WithResources :: "resources_spec option \<Rightarrow> sts_builder \<Rightarrow> sts_builder" where
  "WithResources rs b =
     (case rs of
        None \<Rightarrow> b
      | Some r \<Rightarrow>
          (let low = Option.bind (res_cpu r) cpu_min; high = Option.bind (res_cpu r) cpu_max;
               limit = Option.bind (res_memory r) memory_limit
           in b\<lparr>sb_resources := Some
             \<lparr>rq_requests = put_some ''memory'' limit (put_some ''cpu'' low fmempty),
              rq_limits = put_some ''memory'' limit (put_some ''cpu'' high fmempty)\<rparr>\<rparr>))"

definition WithPorts :: "container_port list \<Rightarrow> sts_builder \<Rightarrow> sts_builder" where
  "WithPorts ps b = b\<lparr>sb_ports := ps\<rparr>"

definition AddPort :: "string \<Rightarrow> int \<Rightarrow> string \<Rightarrow> sts_builder \<Rightarrow> sts_builder" where
  "AddPort name port protocol b = b\<lparr>sb_ports := sb_ports b @
     [\<lparr>cport_name = name, cport_number = port, cport_protocol = protocol\<rparr>]\<rparr>"

definition AddVolume :: "kvolume \<Rightarrow> sts_builder \<Rightarrow> sts_builder" where
  "AddVolume v b = b\<lparr>sb_volumes := sb_volumes b @ [v]\<rparr>"

definition AddVolumeMount :: "volume_mount \<Rightarrow> sts_builder \<Rightarrow> sts_builder" where
  "AddVolumeMount m b = b\<lparr>sb_mounts := sb_mounts b @ [m]\<rparr>"

definition WithCommand :: "string list \<Rightarrow> sts_builder \<Rightarrow> sts_builder" where
  "WithCommand command b = b\<lparr>sb_command := command\<rparr>"

definition WithArgs :: "string list \<Rightarrow> sts_builder \<Rightarrow> sts_builder" where
  "WithArgs args b = b\<lparr>sb_args := args\<rparr>"

definition AddInitContainer :: "kcontainer \<Rightarrow> sts_builder \<Rightarrow> sts_builder" where
  "AddInitContainer c b = b\<lparr>sb_init_containers := sb_init_containers b @ [c]\<rparr>"

definition WithInitContainers :: "kcontainer list \<Rightarrow> sts_builder \<Rightarrow> sts_builder" where
  "WithInitContainers cs b = b\<lparr>sb_init_containers := cs\<rparr>"

definition WithImagePullSecretName :: "string \<Rightarrow> sts_builder \<Rightarrow> sts_builder" where
  "WithImagePullSecretName name b = b\<lparr>sb_pull_secret := name\<rparr>"

definition WithServiceAccount :: "string \<Rightarrow> sts_builder \<Rightarrow> sts_builder" where
  "WithServiceAccount name b = b\<lparr>sb_service_account := name\<rparr>"

definition WithAffinity :: "k8s_affinity option \<Rightarrow> sts_builder \<Rightarrow> sts_builder" where
  "WithAffinity a b = b\<lparr>sb_affinity := a\<rparr>"

definition WithSecurityContext ::
    "security_context option \<Rightarrow> pod_security_context option \<Rightarrow> sts_builder \<Rightarrow> sts_builder" where
  "WithSecurityContext c p b = b\<lparr>sb_security := c, sb_pod_security := p\<rparr>"

definition WithEnableServiceLinks :: "bool \<Rightarrow> sts_builder \<Rightarrow> sts_builder" where
  "WithEnableServiceLinks enable b = b\<lparr>sb_service_links := Some enable\<rparr>"

definition WithPodManagementPolicy :: "string \<Rightarrow> sts_builder \<Rightarrow> sts_builder" where
  "WithPodManagementPolicy policy b = b\<lparr>sb_pod_management := policy\<rparr>"

definition WithUpdateStrategy :: "string \<Rightarrow> sts_builder \<Rightarrow> sts_builder" where
  "WithUpdateStrategy strategy b = b\<lparr>sb_update_strategy := Some strategy\<rparr>"

definition WithPodOverrides :: "ktemplate option \<Rightarrow> sts_builder \<Rightarrow> sts_builder" where
  "WithPodOverrides overrides b = b\<lparr>sb_pod_overrides := overrides\<rparr>"

definition DefaultDataVolumeName :: string where "DefaultDataVolumeName = ''data''"

definition WithNamedStorage ::
    "string \<Rightarrow> storage_resource option \<Rightarrow> string \<Rightarrow> sts_builder \<Rightarrow> sts_builder" where
  "WithNamedStorage name0 storage path b =
     (case storage of
        None \<Rightarrow> b
      | Some s \<Rightarrow>
          (let name = (if name0 = [] then DefaultDataVolumeName else name0)
           in b\<lparr>sb_claims := Some [\<lparr>claim_name = name, claim_access_modes = [''ReadWriteOnce''],
                  claim_request = GetCapacity storage, claim_class = storage_class s\<rparr>],
                sb_mounts := sb_mounts b @ [mount name path]\<rparr>))"

definition WithStorage :: "storage_resource option \<Rightarrow> string \<Rightarrow> sts_builder \<Rightarrow> sts_builder" where
  "WithStorage = WithNamedStorage DefaultDataVolumeName"

definition WithTerminationGracePeriod :: "int \<Rightarrow> sts_builder \<Rightarrow> sts_builder" where
  "WithTerminationGracePeriod seconds b = b\<lparr>sb_grace := Some seconds\<rparr>"

definition WithBaseEnvVars :: "env_var list \<Rightarrow> sts_builder \<Rightarrow> sts_builder" where
  "WithBaseEnvVars envs b = b\<lparr>sb_base_env := sb_base_env b @ envs\<rparr>"

definition no_lifecycle :: lifecycle where
  "no_lifecycle = \<lparr>hook_post_start = None, hook_pre_stop = None, hook_rest = empty_json\<rparr>"

definition WithLifecycle :: "lifecycle option \<Rightarrow> sts_builder \<Rightarrow> sts_builder" where
  "WithLifecycle l b = (if l = None then b else b\<lparr>sb_lifecycle := l\<rparr>)"

definition on_lifecycle :: "(lifecycle \<Rightarrow> lifecycle) \<Rightarrow> sts_builder \<Rightarrow> sts_builder" where
  "on_lifecycle f b =
     b\<lparr>sb_lifecycle := Some (f (case sb_lifecycle b of None \<Rightarrow> no_lifecycle | Some l \<Rightarrow> l))\<rparr>"

definition WithPreStopHook :: "string list \<Rightarrow> sts_builder \<Rightarrow> sts_builder" where
  "WithPreStopHook command = on_lifecycle (\<lambda>l. l\<lparr>hook_pre_stop := Some (exec_handler command)\<rparr>)"

definition WithPreStopHTTPGet :: "string \<Rightarrow> int \<Rightarrow> sts_builder \<Rightarrow> sts_builder" where
  "WithPreStopHTTPGet path port = on_lifecycle (\<lambda>l. l\<lparr>hook_pre_stop := Some (http_handler path port)\<rparr>)"

definition WithPostStartHook :: "string list \<Rightarrow> sts_builder \<Rightarrow> sts_builder" where
  "WithPostStartHook command = on_lifecycle (\<lambda>l. l\<lparr>hook_post_start := Some (exec_handler command)\<rparr>)"

definition WithLivenessProbe :: "probe option \<Rightarrow> sts_builder \<Rightarrow> sts_builder" where
  "WithLivenessProbe p b = b\<lparr>sb_liveness := p, sb_no_liveness := False\<rparr>"

definition DisableLivenessProbe :: "sts_builder \<Rightarrow> sts_builder" where
  "DisableLivenessProbe b = b\<lparr>sb_no_liveness := True, sb_liveness := None\<rparr>"

definition DefaultTCPLivenessProbe :: "int \<Rightarrow> probe" where
  "DefaultTCPLivenessProbe port = timed_probe (tcp_handler port) 30 10 30 1 3"

definition WithReadinessProbe :: "probe option \<Rightarrow> sts_builder \<Rightarrow> sts_builder" where
  "WithReadinessProbe p b = b\<lparr>sb_readiness := p, sb_no_readiness := False\<rparr>"

definition DisableReadinessProbe :: "sts_builder \<Rightarrow> sts_builder" where
  "DisableReadinessProbe b = b\<lparr>sb_no_readiness := True, sb_readiness := None\<rparr>"

definition WithStartupProbe :: "probe option \<Rightarrow> sts_builder \<Rightarrow> sts_builder" where
  "WithStartupProbe p b = b\<lparr>sb_startup := p, sb_no_startup := False\<rparr>"

definition DisableStartupProbe :: "sts_builder \<Rightarrow> sts_builder" where
  "DisableStartupProbe b = b\<lparr>sb_no_startup := True, sb_startup := None\<rparr>"

section \<open>The container and the pod\<close>

definition buildLivenessProbe :: "sts_builder \<Rightarrow> probe option" where
  "buildLivenessProbe b = (if sb_no_liveness b then None else sb_liveness b)"

definition buildDefaultTCPReadinessProbe :: "sts_builder \<Rightarrow> probe option" where
  "buildDefaultTCPReadinessProbe b =
     (case sb_ports b of
        [] \<Rightarrow> None
      | p # _ \<Rightarrow> Some (timed_probe (tcp_handler (cport_number p)) 10 5 10 1 3))"

definition buildReadinessProbe :: "sts_builder \<Rightarrow> probe option" where
  "buildReadinessProbe b =
     (if sb_no_readiness b then None
      else if sb_readiness b \<noteq> None then sb_readiness b else buildDefaultTCPReadinessProbe b)"

definition buildStartupProbe :: "sts_builder \<Rightarrow> probe option" where
  "buildStartupProbe b = (if sb_no_startup b then None else sb_startup b)"

definition config_env :: "ktemplate merged_config option \<Rightarrow> env_var list" where
  "config_env cfg =
     (case cfg of None \<Rightarrow> [] | Some m \<Rightarrow> map (\<lambda>(k, v). value_env k v) (entries (EnvVars m)))"

definition config_args :: "ktemplate merged_config option \<Rightarrow> string list" where
  "config_args cfg = (case cfg of None \<Rightarrow> [] | Some m \<Rightarrow> CliArgs m)"

definition buildContainer :: "sts_builder \<Rightarrow> kcontainer" where
  "buildContainer b = empty_container
     \<lparr>kc_name := primaryContainerName b, kc_image := sb_image b, kc_pull_policy := sb_pull_policy b,
      kc_ports := sb_ports b, kc_mounts := sb_mounts b, kc_security := sb_security b,
      kc_resources := (case sb_resources b of Some r \<Rightarrow> r | None \<Rightarrow> no_requirements),
      kc_command := sb_command b, kc_args := sb_args b @ config_args (sb_config b),
      kc_env := sb_base_env b @ config_env (sb_config b), kc_lifecycle := sb_lifecycle b,
      kc_liveness := buildLivenessProbe b, kc_readiness := buildReadinessProbe b,
      kc_startup := buildStartupProbe b\<rparr>"

definition buildPodSpec :: "sts_builder \<Rightarrow> kpod" where
  "buildPodSpec b = \<lparr>kp_init = sb_init_containers b, kp_containers = [buildContainer b],
     kp_volumes = sb_volumes b, kp_service_account = sb_service_account b, kp_grace = sb_grace b,
     kp_security = sb_pod_security b, kp_affinity = sb_affinity b, kp_service_links = sb_service_links b,
     kp_pull_secrets = (if sb_pull_secret b \<noteq> [] then [sb_pull_secret b] else []),
     kp_rest = empty_json\<rparr>"

section \<open>Pod overrides\<close>

definition declaredMembers :: "one_of \<Rightarrow> string fset" where
  "declaredMembers v = fmdom v"

definition supersedes :: "one_of \<Rightarrow> one_of \<Rightarrow> bool" where
  "supersedes base over \<longleftrightarrow> declaredMembers base \<noteq> {||} \<and> declaredMembers over |-| declaredMembers base \<noteq> {||}"

text \<open>The base's members, unless the override declares another member of the group.\<close>

definition cleared :: "one_of \<Rightarrow> one_of \<Rightarrow> one_of" where
  "cleared base over = (if supersedes base over then fmempty else base)"

definition clearSupersededEnvUnions :: "env_var list \<Rightarrow> env_var list \<Rightarrow> env_var list" where
  "clearSupersededEnvUnions base over = map (\<lambda>e.
     case find_key ev_name (ev_name e) over of
       None \<Rightarrow> e
     | Some o' \<Rightarrow> e
         \<lparr>ev_value := (if ev_value_from o' \<noteq> None \<and> ev_value e \<noteq> [] then [] else ev_value e),
          ev_value_from := (if ev_value o' \<noteq> [] \<and> ev_value_from e \<noteq> None then None else ev_value_from e)\<rparr>) base"

definition clearSupersededProbeUnion :: "probe option \<Rightarrow> probe option \<Rightarrow> probe option" where
  "clearSupersededProbeUnion base over =
     (case (base, over) of
        (Some b, Some o') \<Rightarrow> Some (b\<lparr>pr_handler := cleared (pr_handler b) (pr_handler o')\<rparr>)
      | _ \<Rightarrow> base)"

definition clearSupersededLifecycleUnion :: "one_of option \<Rightarrow> one_of option \<Rightarrow> one_of option" where
  "clearSupersededLifecycleUnion base over =
     (case (base, over) of (Some b, Some o') \<Rightarrow> Some (cleared b o') | _ \<Rightarrow> base)"

definition clear_lifecycle :: "lifecycle option \<Rightarrow> lifecycle option \<Rightarrow> lifecycle option" where
  "clear_lifecycle base over =
     (case (base, over) of
        (Some b, Some o') \<Rightarrow> Some (b
          \<lparr>hook_post_start := clearSupersededLifecycleUnion (hook_post_start b) (hook_post_start o'),
           hook_pre_stop := clearSupersededLifecycleUnion (hook_pre_stop b) (hook_pre_stop o')\<rparr>)
      | _ \<Rightarrow> base)"

definition clearSupersededContainerUnions :: "kcontainer list \<Rightarrow> kcontainer list \<Rightarrow> kcontainer list" where
  "clearSupersededContainerUnions base over = map (\<lambda>c.
     case find_key kc_name (kc_name c) over of
       None \<Rightarrow> c
     | Some oc \<Rightarrow> c
         \<lparr>kc_env := clearSupersededEnvUnions (kc_env c) (kc_env oc),
          kc_liveness := clearSupersededProbeUnion (kc_liveness c) (kc_liveness oc),
          kc_readiness := clearSupersededProbeUnion (kc_readiness c) (kc_readiness oc),
          kc_startup := clearSupersededProbeUnion (kc_startup c) (kc_startup oc),
          kc_lifecycle := clear_lifecycle (kc_lifecycle c) (kc_lifecycle oc)\<rparr>) base"

definition clearSupersededUnions :: "ktemplate \<Rightarrow> ktemplate \<Rightarrow> ktemplate" where
  "clearSupersededUnions base over =
     (let b = kt_spec base; o' = kt_spec over
      in base\<lparr>kt_spec := b
        \<lparr>kp_volumes := map (\<lambda>v. case find_key kv_name (kv_name v) (kp_volumes o') of
             None \<Rightarrow> v | Some ov \<Rightarrow> v\<lparr>kv_source := cleared (kv_source v) (kv_source ov)\<rparr>) (kp_volumes b),
         kp_containers := clearSupersededContainerUnions (kp_containers b) (kp_containers o'),
         kp_init := clearSupersededContainerUnions (kp_init b) (kp_init o')\<rparr>\<rparr>)"

definition allPodContainers :: "ktemplate \<Rightarrow> kcontainer list" where
  "allPodContainers t = kp_init (kt_spec t) @ kp_containers (kt_spec t)"

text \<open>The volume a container mounts at a path: the last mount of the path.\<close>

definition mount_at :: "kcontainer \<Rightarrow> string \<Rightarrow> string option" where
  "mount_at c path = map_option mount_name (find_key mount_path path (rev (kc_mounts c)))"

definition displaced :: "kcontainer \<Rightarrow> volume_mount \<Rightarrow> kcontainer \<Rightarrow> err list" where
  "displaced bc want mc =
     (case mount_at mc (mount_path want) of
        None \<Rightarrow> [PlainError (''podOverrides removed the framework's volume mount '' @ mount_name want @ '' at '' @
          mount_path want @ '' in container '' @ kc_name bc)]
      | Some got \<Rightarrow> if got = mount_name want then []
          else [PlainError (''podOverrides displaced the framework's volume mount at '' @ mount_path want @
            '' in container '' @ kc_name bc @ '': volume '' @ got @ '' now mounts there instead of '' @ mount_name want)])"

definition dangling :: "string list \<Rightarrow> kcontainer \<Rightarrow> volume_mount \<Rightarrow> err list" where
  "dangling declared c m =
     (if mount_name m \<in> set declared then []
      else [PlainError (''volume mount '' @ mount_name m @ '' at '' @ mount_path m @ '' in container '' @ kc_name c @
        '' references no declared volume'')])"

definition checkPodOverrideMountInvariants :: "ktemplate \<Rightarrow> ktemplate \<Rightarrow> kclaim list \<Rightarrow> err list" where
  "checkPodOverrideMountInvariants base merged claims =
     (let declared = map kv_name (kp_volumes (kt_spec merged)) @ map claim_name claims
      in concat (map (\<lambda>bc. case find_key kc_name (kc_name bc) (allPodContainers merged) of
             None \<Rightarrow> []
           | Some mc \<Rightarrow> concat (map (\<lambda>want. displaced bc want mc) (kc_mounts bc))) (allPodContainers base)) @
         concat (map (\<lambda>c. concat (map (dangling declared c) (kc_mounts c))) (allPodContainers merged)))"

section \<open>Building\<close>

record built_sts =
  bs_name :: string
  bs_namespace :: string
  bs_labels :: "string gomap"
  bs_annotations :: "string gomap"
  bs_replicas :: int
  bs_service_name :: string
  bs_pod_management :: string
  bs_selector :: "string gomap"
  bs_template :: ktemplate
  bs_update_strategy :: "string option"
  bs_claims :: "kclaim list"

definition build_base :: "sts_builder \<Rightarrow> built_sts" where
  "build_base b = \<lparr>bs_name = sb_name b, bs_namespace = sb_namespace b, bs_labels = sb_labels b,
     bs_annotations = sb_annotations b, bs_replicas = sb_replicas b,
     bs_service_name = sb_name b @ ''-headless'', bs_pod_management = podManagementPolicy b,
     bs_selector = selectorMatchLabels b,
     bs_template = \<lparr>kt_labels = sb_labels b, kt_annotations = sb_annotations b, kt_spec = buildPodSpec b\<rparr>,
     bs_update_strategy = sb_update_strategy b,
     bs_claims = (case sb_claims b of Some cs \<Rightarrow> cs | None \<Rightarrow> [])\<rparr>"

text \<open>An override container without a name addresses the primary container.\<close>

definition name_unnamed :: "string \<Rightarrow> ktemplate \<Rightarrow> ktemplate" where
  "name_unnamed name t = t\<lparr>kt_spec := (kt_spec t)\<lparr>kp_containers := map (\<lambda>c.
     if kc_name c = [] then c\<lparr>kc_name := name\<rparr> else c) (kp_containers (kt_spec t))\<rparr>\<rparr>"

definition applyPodOverrides ::
    "(ktemplate \<Rightarrow> ktemplate \<Rightarrow> err + ktemplate) \<Rightarrow> sts_builder \<Rightarrow> ktemplate \<Rightarrow> built_sts \<Rightarrow> built_sts \<times> err list" where
  "applyPodOverrides merge_patch b overrides sts =
     (let over = name_unnamed (primaryContainerName b) overrides;
          base = clearSupersededUnions (bs_template sts) over
      in case merge_patch base over of
           Inl e \<Rightarrow> (sts, [Wrapped (FmtErrorf ''podOverrides could not be applied and were dropped'') (Some e)])
         | Inr merged \<Rightarrow>
             (sts\<lparr>bs_template := merged\<lparr>kt_labels :=
                put_all (entries (selectorMatchLabels b)) (kt_labels merged)\<rparr>\<rparr>,
              checkPodOverrideMountInvariants base merged (bs_claims sts)))"

definition Build :: "(ktemplate \<Rightarrow> ktemplate \<Rightarrow> err + ktemplate) \<Rightarrow> sts_builder \<Rightarrow> built_sts \<times> err list" where
  "Build merge_patch b =
     (case sb_pod_overrides b of
        None \<Rightarrow> (build_base b, [])
      | Some overrides \<Rightarrow> applyPodOverrides merge_patch b overrides (build_base b))"

section \<open>Environment and arguments\<close>

lemma find_key_entries:
  "find_key ev_name n (map (\<lambda>(k, v). value_env k v) (entries m)) = map_option (value_env n) (fmlookup m n)"
proof -
  have "find_key ev_name n (map (\<lambda>(k, v). value_env k v) xs) = map_option (value_env n) (map_of xs n)" for xs
    by (induction xs) (auto simp: value_env_def)
  then show ?thesis by simp
qed

lemma find_key_rev:
  "distinct (map f xs) \<Longrightarrow> find_key f k (rev xs) = find_key f k xs"
proof (induction xs)
  case (Cons x xs)
  show ?case
  proof (cases "k = f x")
    case True
    with Cons.prems have "find_key f k (rev xs) = None" by (auto simp: find_key_None)
    with True show ?thesis by simp
  next
    case False
    with Cons show ?thesis by (auto split: option.split)
  qed
qed simp

text \<open>
  In the container a builder makes, the kubelet takes each variable of the merged configuration from there,
  over a declared one of the name, and a declared one that the configuration does not state as it was
  declared. The arguments are the builder's followed by the configuration's.
\<close>

theorem buildContainer_env:
  "effective_env (kc_env (buildContainer b)) n =
    (case sb_config b of
       Some m \<Rightarrow> (case fmlookup (EnvVars m) n of
           Some v \<Rightarrow> Some (value_env n v) | None \<Rightarrow> effective_env (sb_base_env b) n)
     | None \<Rightarrow> effective_env (sb_base_env b) n) \<and>
   kc_args (buildContainer b) = sb_args b @ (case sb_config b of Some m \<Rightarrow> CliArgs m | None \<Rightarrow> [])"
proof (cases "sb_config b")
  case (Some m)
  let ?es = "map (\<lambda>(k, v). value_env k v) (entries (EnvVars m))"
  have "distinct (map ev_name ?es)"
    using distinct_fst_entries [of "EnvVars m"] by (simp add: comp_def split_def value_env_def)
  then have "find_key ev_name n (rev ?es) = map_option (value_env n) (fmlookup (EnvVars m) n)"
    by (simp only: find_key_rev find_key_entries)
  with Some show ?thesis
    by (simp add: effective_env_def buildContainer_def config_env_def config_args_def split: option.split)
qed (simp add: effective_env_def buildContainer_def config_env_def config_args_def)

section \<open>Overrides keep the mounts\<close>

lemma mount_invariants_iff:
  "checkPodOverrideMountInvariants base merged claims = [] \<longleftrightarrow>
    (\<forall>bc \<in> set (allPodContainers base). \<forall>mc.
       find_key kc_name (kc_name bc) (allPodContainers merged) = Some mc \<longrightarrow>
       (\<forall>m \<in> set (kc_mounts bc). mount_at mc (mount_path m) = Some (mount_name m))) \<and>
    (\<forall>c \<in> set (allPodContainers merged). \<forall>m \<in> set (kc_mounts c).
       mount_name m \<in> kv_name ` set (kp_volumes (kt_spec merged)) \<union> claim_name ` set claims)"
proof -
  have "displaced bc want mc = [] \<longleftrightarrow> mount_at mc (mount_path want) = Some (mount_name want)" for bc want mc
    by (auto simp: displaced_def split: option.split)
  moreover have "dangling declared c m = [] \<longleftrightarrow> mount_name m \<in> set declared" for declared c m
    by (simp add: dangling_def)
  ultimately show ?thesis
    unfolding checkPodOverrideMountInvariants_def Let_def
    by (auto split: option.splits)
qed

text \<open>
  The check of the merged template reports nothing exactly when, in every built container that is still
  there, every mount of the builder's still mounts its volume at its path, and no container mounts a
  volume that nothing declares.
\<close>

theorem mount_invariants_complete:
  "checkPodOverrideMountInvariants base merged claims = [] \<longleftrightarrow>
    (\<forall>bc \<in> set (allPodContainers base). \<forall>mc.
       find_key kc_name (kc_name bc) (allPodContainers merged) = Some mc \<longrightarrow>
       (\<forall>m \<in> set (kc_mounts bc). mount_at mc (mount_path m) = Some (mount_name m))) \<and>
    (\<forall>c \<in> set (allPodContainers merged). \<forall>m \<in> set (kc_mounts c).
       mount_name m \<in> kv_name ` set (kp_volumes (kt_spec merged)) \<union> claim_name ` set claims)"
  by (rule mount_invariants_iff)

section \<open>One member of a group\<close>

text \<open>
  Where the base and the override each declare at most one member, so does their field-by-field merge once
  the superseded member is cleared.
\<close>

definition one_member :: "one_of \<Rightarrow> bool" where
  "one_member m \<longleftrightarrow> fcard (fmdom m) \<le> 1"

lemma one_member_iff: "one_member m \<longleftrightarrow> (\<forall>k k'. k |\<in>| fmdom m \<longrightarrow> k' |\<in>| fmdom m \<longrightarrow> k = k')"
  unfolding one_member_def fcard.rep_eq by (simp add: card_le_Suc0_iff_eq) blast

lemma cleared_single: "one_member base \<Longrightarrow> one_member over \<Longrightarrow> one_member (fmadd (cleared base over) over)"
  by (auto simp: one_member_iff cleared_def supersedes_def declaredMembers_def)

section \<open>The selector\<close>

text \<open>The template carries the labels the selector asks for.\<close>

definition selector_matches :: "string gomap \<Rightarrow> string gomap \<Rightarrow> bool" where
  "selector_matches selector ls \<longleftrightarrow> list_all (\<lambda>(k, v). fmlookup ls k = Some v) (entries selector)"

lemma selector_matches_iff:
  "selector_matches selector ls \<longleftrightarrow> (\<forall>k v. fmlookup selector k = Some v \<longrightarrow> fmlookup ls k = Some v)"
  unfolding selector_matches_def list_all_iff set_entries by auto

definition selector_ok :: "sts_builder \<Rightarrow> bool" where
  "selector_ok b \<longleftrightarrow> selector_matches (selectorMatchLabels b) (sb_labels b)"

lemma WithSelectorLabels_ok: "selector_ok (WithSelectorLabels ls b)"
  by (auto simp: selector_ok_def WithSelectorLabels_def selectorMatchLabels_def selector_matches_iff
      fold_upd_entries split: option.splits)

lemma Build_selector:
  "selector_ok b \<Longrightarrow> Build merge_patch b = (sts, errs) \<Longrightarrow>
    selector_matches (bs_selector sts) (kt_labels (bs_template sts))"
  by (auto simp: Build_def build_base_def applyPodOverrides_def Let_def selector_ok_def selector_matches_iff
      fold_upd_entries dest: fmdomI split: option.splits sum.splits)

text \<open>
  A later \<open>WithLabels\<close> breaks what \<open>WithSelectorLabels\<close> set up: the selector asks for a value the template
  does not carry.
\<close>

lemma WithLabels_breaks_selector:
  "\<not> selector_ok (WithLabels (fmupd ''app'' ''b'' fmempty)
      (WithSelectorLabels (fmupd ''app'' ''a'' fmempty) (NewStatefulSetBuilder ''x'' ''ns'')))"
  by (simp add: selector_ok_def WithLabels_def WithSelectorLabels_def selectorMatchLabels_def
      selector_matches_iff fold_upd_entries NewStatefulSetBuilder_def)

end
