(* ===== verification/Builders.thy ===== *)
theory Builders
  imports PodTypes ClusterSpec ConfigGenerator ConfigMerge
begin

text \<open>
  The smaller builders of \<open>pkg/builder\<close>: ConfigMaps, Services, metrics Services, disruption budgets,
  ServiceAccounts, roles and role bindings. A builder is a record and a method a function on it. Rejecting an empty selector is a
  panic of the code, here an error.
\<close>

section \<open>ConfigMaps\<close>

record config_map_builder =
  cmb_name :: string
  cmb_namespace :: string
  cmb_labels :: "string gomap"
  cmb_annotations :: "string gomap"
  cmb_data :: "string gomap"
  cmb_binary :: "string gomap"

definition NewConfigMapBuilder :: "string \<Rightarrow> string \<Rightarrow> config_map_builder" where
  "NewConfigMapBuilder name namespace = \<lparr>cmb_name = name, cmb_namespace = namespace, cmb_labels = fmempty,
     cmb_annotations = fmempty, cmb_data = fmempty, cmb_binary = fmempty\<rparr>"

definition cm_WithLabels :: "string gomap \<Rightarrow> config_map_builder \<Rightarrow> config_map_builder" where
  "cm_WithLabels ls b = b\<lparr>cmb_labels := put_all (entries ls) (cmb_labels b)\<rparr>"

definition cm_WithAnnotations :: "string gomap \<Rightarrow> config_map_builder \<Rightarrow> config_map_builder" where
  "cm_WithAnnotations as b = b\<lparr>cmb_annotations := put_all (entries as) (cmb_annotations b)\<rparr>"

definition AddData :: "string \<Rightarrow> string \<Rightarrow> config_map_builder \<Rightarrow> config_map_builder" where
  "AddData k v b = b\<lparr>cmb_data := fmupd k v (cmb_data b)\<rparr>"

definition AddBinaryData :: "string \<Rightarrow> string \<Rightarrow> config_map_builder \<Rightarrow> config_map_builder" where
  "AddBinaryData k v b = b\<lparr>cmb_binary := fmupd k v (cmb_binary b)\<rparr>"

definition WithConfigFiles :: "string gomap \<Rightarrow> config_map_builder \<Rightarrow> config_map_builder" where
  "WithConfigFiles files b = b\<lparr>cmb_data := put_all (entries files) (cmb_data b)\<rparr>"

definition WithMergedConfig ::
    "'pod merged_config option \<Rightarrow> formats option \<Rightarrow> config_map_builder \<Rightarrow> err + config_map_builder" where
  "WithMergedConfig cfg generator b =
     (case (cfg, generator) of
        (Some m, Some fs) \<Rightarrow> (case multi_generate_files fs (ConfigFiles m) of
            Inl e \<Rightarrow> Inl (Wrapped (FmtErrorf (''failed to generate config files for ConfigMap '' @
              cmb_namespace b @ ''/'' @ cmb_name b)) (Some e))
          | Inr files \<Rightarrow> Inr (b\<lparr>cmb_data := put_all (entries files) (cmb_data b)\<rparr>))
      | _ \<Rightarrow> Inr b)"

record kconfig_map =
  cm_name :: string
  cm_namespace :: string
  cm_labels :: "string gomap"
  cm_annotations :: "string gomap"
  cm_data :: "string gomap"
  cm_binary :: "string gomap"

definition cm_Build :: "config_map_builder \<Rightarrow> kconfig_map" where
  "cm_Build b = \<lparr>cm_name = cmb_name b, cm_namespace = cmb_namespace b, cm_labels = cmb_labels b,
     cm_annotations = cmb_annotations b, cm_data = cmb_data b, cm_binary = cmb_binary b\<rparr>"

section \<open>Services\<close>

datatype service_type = ServiceTypeHeadless | ServiceTypeClusterIP | ServiceTypeNodePort
  | ServiceTypeLoadBalancer | OtherServiceType string

datatype int_or_string = IntVal int | StrVal string

record service_builder =
  svb_name :: string
  svb_namespace :: string
  svb_labels :: "string gomap"
  svb_annotations :: "string gomap"
  svb_selector :: "string gomap"
  svb_type :: service_type
  svb_ports :: "service_port list"
  svb_headless :: bool
  svb_publish :: bool

definition NewServiceBuilder :: "string \<Rightarrow> string \<Rightarrow> service_builder" where
  "NewServiceBuilder name namespace = \<lparr>svb_name = name, svb_namespace = namespace, svb_labels = fmempty,
     svb_annotations = fmempty, svb_selector = fmempty, svb_type = ServiceTypeClusterIP, svb_ports = [],
     svb_headless = False, svb_publish = False\<rparr>"

definition svc_WithLabels :: "string gomap \<Rightarrow> service_builder \<Rightarrow> service_builder" where
  "svc_WithLabels ls b = b\<lparr>svb_labels := put_all (entries ls) (svb_labels b)\<rparr>"

definition svc_WithAnnotations :: "string gomap \<Rightarrow> service_builder \<Rightarrow> service_builder" where
  "svc_WithAnnotations as b = b\<lparr>svb_annotations := put_all (entries as) (svb_annotations b)\<rparr>"

definition svc_WithSelector :: "string gomap \<Rightarrow> service_builder \<Rightarrow> service_builder" where
  "svc_WithSelector sel b = b\<lparr>svb_selector := put_all (entries sel) (svb_selector b)\<rparr>"

fun WithServiceType :: "service_type \<Rightarrow> service_builder \<Rightarrow> service_builder" where
  "WithServiceType ServiceTypeHeadless b = b\<lparr>svb_headless := True, svb_type := ServiceTypeClusterIP\<rparr>"
| "WithServiceType ServiceTypeClusterIP b = b\<lparr>svb_type := ServiceTypeClusterIP\<rparr>"
| "WithServiceType ServiceTypeNodePort b = b\<lparr>svb_type := ServiceTypeNodePort\<rparr>"
| "WithServiceType ServiceTypeLoadBalancer b = b\<lparr>svb_type := ServiceTypeLoadBalancer\<rparr>"
| "WithServiceType (OtherServiceType t) b = b"

definition WithPublishNotReadyAddresses :: "bool \<Rightarrow> service_builder \<Rightarrow> service_builder" where
  "WithPublishNotReadyAddresses publish b = b\<lparr>svb_publish := publish\<rparr>"

definition AddServicePort :: "service_port \<Rightarrow> service_builder \<Rightarrow> service_builder" where
  "AddServicePort p b = b\<lparr>svb_ports := svb_ports b @ [p]\<rparr>"

definition svc_WithPorts :: "service_port list \<Rightarrow> service_builder \<Rightarrow> service_builder" where
  "svc_WithPorts ps b = fold AddServicePort ps b"

text \<open>The target and the protocol of a port are part of the text \<open>port_rest\<close>.\<close>

definition port_fields :: "int_or_string \<Rightarrow> string \<Rightarrow> string" where
  "port_fields target protocol =
     (case target of IntVal n \<Rightarrow> ''targetPort='' @ int_text n | StrVal s \<Rightarrow> ''targetPort='' @ [double_quote] @ s @ [double_quote]) @
     '' protocol='' @ protocol"

definition svc_AddPort :: "string \<Rightarrow> int \<Rightarrow> int_or_string \<Rightarrow> string \<Rightarrow> service_builder \<Rightarrow> service_builder" where
  "svc_AddPort name port target protocol b = b\<lparr>svb_ports := svb_ports b @
     [\<lparr>port_name = name, port_number = port, node_port = 0, port_rest = port_fields target protocol\<rparr>]\<rparr>"

definition AddPortSimple :: "string \<Rightarrow> int \<Rightarrow> string \<Rightarrow> service_builder \<Rightarrow> service_builder" where
  "AddPortSimple name port protocol = svc_AddPort name port (IntVal port) protocol"

record kservice =
  ks_name :: string
  ks_namespace :: string
  ks_labels :: "string gomap"
  ks_annotations :: "string gomap"
  ks_selector :: "string gomap"
  ks_ports :: "service_port list"
  ks_type :: "service_type option"
  ks_cluster_ip :: string
  ks_publish :: bool

definition ClusterIPNone :: string where "ClusterIPNone = ''None''"

definition svc_Build :: "service_builder \<Rightarrow> kservice" where
  "svc_Build b = \<lparr>ks_name = svb_name b, ks_namespace = svb_namespace b, ks_labels = svb_labels b,
     ks_annotations = svb_annotations b, ks_selector = svb_selector b, ks_ports = svb_ports b,
     ks_type = Some (svb_type b), ks_cluster_ip = (if svb_headless b then ClusterIPNone else []),
     ks_publish = svb_publish b\<rparr>"

definition BuildHeadless :: "service_builder \<Rightarrow> kservice" where
  "BuildHeadless b = (svc_Build b)\<lparr>ks_cluster_ip := ClusterIPNone\<rparr>"

definition NewHeadlessServiceBuilder :: "string \<Rightarrow> string \<Rightarrow> service_builder" where
  "NewHeadlessServiceBuilder name namespace = WithServiceType ServiceTypeHeadless (NewServiceBuilder name namespace)"

section \<open>Metrics Services\<close>

record metrics_builder =
  msb_resource :: string
  msb_namespace :: string
  msb_port :: int
  msb_port_name :: string
  msb_target :: string
  msb_labels :: "string gomap"
  msb_selector :: "string gomap option"
  msb_annotations :: "string gomap"
  msb_scheme :: string
  msb_path :: string

definition NewMetricsServiceBuilder :: "string \<Rightarrow> string \<Rightarrow> int \<Rightarrow> string gomap \<Rightarrow> metrics_builder" where
  "NewMetricsServiceBuilder resource namespace port ls = \<lparr>msb_resource = resource,
     msb_namespace = namespace, msb_port = port, msb_port_name = ''metrics'', msb_target = [],
     msb_labels = ls, msb_selector = None, msb_annotations = fmempty, msb_scheme = ''http'', msb_path = []\<rparr>"

definition WithScheme :: "string \<Rightarrow> metrics_builder \<Rightarrow> metrics_builder" where
  "WithScheme scheme b = b\<lparr>msb_scheme := scheme\<rparr>"

definition WithPath :: "string \<Rightarrow> metrics_builder \<Rightarrow> metrics_builder" where
  "WithPath path b = b\<lparr>msb_path := path\<rparr>"

definition ms_WithAnnotations :: "string gomap \<Rightarrow> metrics_builder \<Rightarrow> metrics_builder" where
  "ms_WithAnnotations as b = b\<lparr>msb_annotations := put_all (entries as) (msb_annotations b)\<rparr>"

definition WithPortName :: "string \<Rightarrow> metrics_builder \<Rightarrow> metrics_builder" where
  "WithPortName name b = b\<lparr>msb_port_name := name\<rparr>"

definition WithTargetPortName :: "string \<Rightarrow> metrics_builder \<Rightarrow> metrics_builder" where
  "WithTargetPortName name b = b\<lparr>msb_target := name\<rparr>"

text \<open>A nil selector stays nil.\<close>

definition ms_WithSelector :: "string gomap option \<Rightarrow> metrics_builder \<Rightarrow> metrics_builder" where
  "ms_WithSelector sel b = b\<lparr>msb_selector := sel\<rparr>"

definition prometheus_annotations :: "metrics_builder \<Rightarrow> string gomap" where
  "prometheus_annotations b =
     (let base = fmupd ''prometheus.io/scheme'' (msb_scheme b) (fmupd ''prometheus.io/port'' (int_text (msb_port b))
            (fmupd ''prometheus.io/scrape'' ''true'' fmempty));
          base' = (if msb_path b \<noteq> [] then fmupd ''prometheus.io/path'' (msb_path b) base else base)
      in put_all (entries (msb_annotations b)) base')"

definition ms_Build :: "metrics_builder \<Rightarrow> kservice" where
  "ms_Build b = \<lparr>ks_name = msb_resource b @ ''-metrics'', ks_namespace = msb_namespace b,
     ks_labels = fmupd ''prometheus.io/scrape'' ''true'' (msb_labels b),
     ks_annotations = prometheus_annotations b,
     ks_selector = (case msb_selector b of Some s \<Rightarrow> s | None \<Rightarrow> msb_labels b),
     ks_ports = [\<lparr>port_name = msb_port_name b, port_number = msb_port b, node_port = 0,
       port_rest = port_fields (if msb_target b \<noteq> [] then StrVal (msb_target b) else IntVal (msb_port b)) []\<rparr>],
     ks_type = None, ks_cluster_ip = ClusterIPNone, ks_publish = False\<rparr>"

section \<open>Disruption budgets\<close>

record pdb_builder =
  pdbb_name :: string
  pdbb_namespace :: string
  pdbb_labels :: "string gomap"
  pdbb_annotations :: "string gomap"
  pdbb_selector :: "string gomap"
  pdbb_max_unavailable :: "int_or_string option"
  pdbb_enabled :: bool

definition NewPDBBuilder :: "string \<Rightarrow> string \<Rightarrow> pdb_builder" where
  "NewPDBBuilder name namespace = \<lparr>pdbb_name = name, pdbb_namespace = namespace, pdbb_labels = fmempty,
     pdbb_annotations = fmempty, pdbb_selector = fmempty, pdbb_max_unavailable = None, pdbb_enabled = True\<rparr>"

definition pdb_WithLabels :: "string gomap \<Rightarrow> pdb_builder \<Rightarrow> pdb_builder" where
  "pdb_WithLabels ls b = b\<lparr>pdbb_labels := put_all (entries ls) (pdbb_labels b)\<rparr>"

definition pdb_WithAnnotations :: "string gomap \<Rightarrow> pdb_builder \<Rightarrow> pdb_builder" where
  "pdb_WithAnnotations as b = b\<lparr>pdbb_annotations := put_all (entries as) (pdbb_annotations b)\<rparr>"

definition pdb_WithSelector :: "string gomap \<Rightarrow> pdb_builder \<Rightarrow> pdb_builder" where
  "pdb_WithSelector sel b = b\<lparr>pdbb_selector := put_all (entries sel) (pdbb_selector b)\<rparr>"

definition pdb_WithSpec :: "pdb_spec option \<Rightarrow> pdb_builder \<Rightarrow> pdb_builder" where
  "pdb_WithSpec spec b =
     (case spec of
        None \<Rightarrow> b
      | Some s \<Rightarrow> b\<lparr>pdbb_enabled := IsEnabled (Some s),
          pdbb_max_unavailable := (case pdb_max_unavailable s of
             Some n \<Rightarrow> Some (IntVal n) | None \<Rightarrow> pdbb_max_unavailable b)\<rparr>)"

definition WithMaxUnavailable :: "int_or_string \<Rightarrow> pdb_builder \<Rightarrow> pdb_builder" where
  "WithMaxUnavailable v b = b\<lparr>pdbb_max_unavailable := Some v\<rparr>"

definition WithEnabled :: "bool \<Rightarrow> pdb_builder \<Rightarrow> pdb_builder" where
  "WithEnabled e b = b\<lparr>pdbb_enabled := e\<rparr>"

record kpdb =
  kpdb_name :: string
  kpdb_namespace :: string
  kpdb_labels :: "string gomap"
  kpdb_annotations :: "string gomap"
  kpdb_selector :: "string gomap"
  kpdb_max_unavailable :: int_or_string

definition pdb_Build :: "pdb_builder \<Rightarrow> err + kpdb" where
  "pdb_Build b =
     (if pdbb_selector b = fmempty
      then Inl (PlainError (''PDBBuilder: '' @ pdbb_name b @ '' has no selector''))
      else Inr \<lparr>kpdb_name = pdbb_name b, kpdb_namespace = pdbb_namespace b, kpdb_labels = pdbb_labels b,
        kpdb_annotations = pdbb_annotations b, kpdb_selector = pdbb_selector b,
        kpdb_max_unavailable = (case pdbb_max_unavailable b of Some v \<Rightarrow> v | None \<Rightarrow> IntVal 1)\<rparr>)"

section \<open>ServiceAccounts\<close>

record service_account_builder =
  sab_name :: string
  sab_namespace :: string
  sab_labels :: "string gomap"
  sab_annotations :: "string gomap"

definition NewServiceAccountBuilder :: "string \<Rightarrow> string \<Rightarrow> service_account_builder" where
  "NewServiceAccountBuilder name namespace =
     \<lparr>sab_name = name, sab_namespace = namespace, sab_labels = fmempty, sab_annotations = fmempty\<rparr>"

definition sa_WithLabels :: "string gomap \<Rightarrow> service_account_builder \<Rightarrow> service_account_builder" where
  "sa_WithLabels ls b = b\<lparr>sab_labels := put_all (entries ls) (sab_labels b)\<rparr>"

definition sa_WithAnnotations :: "string gomap \<Rightarrow> service_account_builder \<Rightarrow> service_account_builder" where
  "sa_WithAnnotations as b = b\<lparr>sab_annotations := put_all (entries as) (sab_annotations b)\<rparr>"

record kservice_account =
  ksa_name :: string
  ksa_namespace :: string
  ksa_labels :: "string gomap"
  ksa_annotations :: "string gomap"

definition sa_Build :: "service_account_builder \<Rightarrow> kservice_account" where
  "sa_Build b = \<lparr>ksa_name = sab_name b, ksa_namespace = sab_namespace b, ksa_labels = sab_labels b,
     ksa_annotations = sab_annotations b\<rparr>"

section \<open>Roles and bindings\<close>

text \<open>A rule is its JSON text. A cluster-scoped object has the empty namespace.\<close>

record role_builder =
  rob_name :: string
  rob_namespace :: string
  rob_labels :: "string gomap"
  rob_rules :: "string list"

record krole =
  kr_name :: string
  kr_namespace :: string
  kr_labels :: "string gomap"
  kr_rules :: "string list"

definition NewRoleBuilder :: "string \<Rightarrow> string \<Rightarrow> role_builder" where
  "NewRoleBuilder name namespace =
     \<lparr>rob_name = name, rob_namespace = namespace, rob_labels = fmempty, rob_rules = []\<rparr>"

definition role_WithLabels :: "string gomap \<Rightarrow> role_builder \<Rightarrow> role_builder" where
  "role_WithLabels ls b = b\<lparr>rob_labels := put_all (entries ls) (rob_labels b)\<rparr>"

definition AddPolicyRule :: "string \<Rightarrow> role_builder \<Rightarrow> role_builder" where
  "AddPolicyRule rule b = b\<lparr>rob_rules := rob_rules b @ [rule]\<rparr>"

definition role_Build :: "role_builder \<Rightarrow> krole" where
  "role_Build b = \<lparr>kr_name = rob_name b, kr_namespace = rob_namespace b, kr_labels = rob_labels b,
     kr_rules = rob_rules b\<rparr>"

definition NewClusterRoleBuilder :: "string \<Rightarrow> role_builder" where
  "NewClusterRoleBuilder name = NewRoleBuilder name []"

definition cluster_role_WithLabels :: "string gomap \<Rightarrow> role_builder \<Rightarrow> role_builder" where
  "cluster_role_WithLabels = role_WithLabels"

definition cluster_role_AddPolicyRule :: "string \<Rightarrow> role_builder \<Rightarrow> role_builder" where
  "cluster_role_AddPolicyRule = AddPolicyRule"

definition cluster_role_Build :: "role_builder \<Rightarrow> krole" where
  "cluster_role_Build = role_Build"

record binding_builder =
  bib_name :: string
  bib_namespace :: string
  bib_labels :: "string gomap"
  bib_role :: string
  bib_subjects :: "subject list"

record krole_binding =
  kb_name :: string
  kb_namespace :: string
  kb_labels :: "string gomap"
  kb_ref :: role_ref
  kb_subjects :: "subject list"

definition NewRoleBindingBuilder :: "string \<Rightarrow> string \<Rightarrow> binding_builder" where
  "NewRoleBindingBuilder name namespace = \<lparr>bib_name = name, bib_namespace = namespace,
     bib_labels = fmempty, bib_role = [], bib_subjects = []\<rparr>"

definition binding_WithLabels :: "string gomap \<Rightarrow> binding_builder \<Rightarrow> binding_builder" where
  "binding_WithLabels ls b = b\<lparr>bib_labels := put_all (entries ls) (bib_labels b)\<rparr>"

definition WithRoleRef :: "string \<Rightarrow> binding_builder \<Rightarrow> binding_builder" where
  "WithRoleRef role b = b\<lparr>bib_role := role\<rparr>"

definition AddSubject :: "subject \<Rightarrow> binding_builder \<Rightarrow> binding_builder" where
  "AddSubject s b = b\<lparr>bib_subjects := bib_subjects b @ [s]\<rparr>"

definition AddServiceAccountSubject :: "string \<Rightarrow> string \<Rightarrow> binding_builder \<Rightarrow> binding_builder" where
  "AddServiceAccountSubject name namespace =
     AddSubject \<lparr>sub_kind = ''ServiceAccount'', sub_name = name, sub_namespace = namespace\<rparr>"

text \<open>The kind of the role a binding refers to is the only difference of the two builders.\<close>

definition binding_object :: "string \<Rightarrow> binding_builder \<Rightarrow> krole_binding" where
  "binding_object kd b = \<lparr>kb_name = bib_name b, kb_namespace = bib_namespace b, kb_labels = bib_labels b,
     kb_ref = \<lparr>ref_api_group = ''rbac.authorization.k8s.io'', ref_kind = kd, ref_name = bib_role b\<rparr>,
     kb_subjects = bib_subjects b\<rparr>"

definition binding_Build :: "binding_builder \<Rightarrow> krole_binding" where
  "binding_Build = binding_object ''Role''"

definition NewClusterRoleBindingBuilder :: "string \<Rightarrow> binding_builder" where
  "NewClusterRoleBindingBuilder name = NewRoleBindingBuilder name []"

definition WithClusterRoleRef :: "string \<Rightarrow> binding_builder \<Rightarrow> binding_builder" where
  "WithClusterRoleRef = WithRoleRef"

definition cluster_binding_WithLabels :: "string gomap \<Rightarrow> binding_builder \<Rightarrow> binding_builder" where
  "cluster_binding_WithLabels = binding_WithLabels"

definition cluster_binding_AddSubject :: "subject \<Rightarrow> binding_builder \<Rightarrow> binding_builder" where
  "cluster_binding_AddSubject = AddSubject"

definition cluster_AddServiceAccountSubject :: "string \<Rightarrow> string \<Rightarrow> binding_builder \<Rightarrow> binding_builder" where
  "cluster_AddServiceAccountSubject = AddServiceAccountSubject"

definition cluster_binding_Build :: "binding_builder \<Rightarrow> krole_binding" where
  "cluster_binding_Build = binding_object ''ClusterRole''"

section \<open>Annotations for scraping\<close>

text \<open>
  A metrics Service is headless and carries the scrape label, and its selector is never the empty map of a
  caller that gave labels and no selector; a caller's annotation wins over the generated one.
\<close>

lemma ms_Build_headless:
  "ks_cluster_ip (ms_Build b) = ClusterIPNone"
  "fmlookup (ks_labels (ms_Build b)) ''prometheus.io/scrape'' = Some ''true''"
  by (simp_all add: ms_Build_def)

lemma prometheus_annotations_lookup:
  "fmlookup (prometheus_annotations b) k = (case fmlookup (msb_annotations b) k of
     Some v \<Rightarrow> Some v
   | None \<Rightarrow> if k = ''prometheus.io/path'' then (if msb_path b = [] then None else Some (msb_path b))
       else if k = ''prometheus.io/scheme'' then Some (msb_scheme b)
       else if k = ''prometheus.io/port'' then Some (int_text (msb_port b))
       else if k = ''prometheus.io/scrape'' then Some ''true'' else None)"
  by (cases "fmlookup (msb_annotations b) k")
     (simp_all add: prometheus_annotations_def Let_def fold_upd_entries fmdomI fmdom_notI)

lemma pdb_Build_selects: "pdb_Build b = Inr p \<Longrightarrow> kpdb_selector p \<noteq> fmempty"
  by (auto simp: pdb_Build_def split: if_splits)

end
