(* ===== verification/PodSecurity.thy ===== *)
theory PodSecurity
  imports PodTypes
begin

text \<open>
  The security contexts of a pod and its containers, \<open>pkg/security/pod_security.go\<close>. A seccomp profile is
  its type.
\<close>

section \<open>The builder\<close>

definition DefaultRunAsUser :: int where "DefaultRunAsUser = 1001"
definition DefaultRunAsGroup :: int where "DefaultRunAsGroup = 0"
definition DefaultFSGroup :: int where "DefaultFSGroup = 1001"
definition DefaultFSGroupChangePolicy :: string where "DefaultFSGroupChangePolicy = ''OnRootMismatch''"
definition SeccompRuntimeDefault :: string where "SeccompRuntimeDefault = ''RuntimeDefault''"

record security_builder =
  psb_run_as_user :: "int option"
  psb_run_as_group :: "int option"
  psb_fs_group :: "int option"
  psb_fs_group_change_policy :: "string option"
  psb_run_as_non_root :: "bool option"
  psb_seccomp :: "string option"
  psb_read_only_root :: "bool option"
  psb_allow_escalation :: "bool option"
  psb_capabilities :: "capabilities option"

definition NewPodSecurityBuilder :: security_builder where
  "NewPodSecurityBuilder = \<lparr>psb_run_as_user = None, psb_run_as_group = None, psb_fs_group = None,
     psb_fs_group_change_policy = None, psb_run_as_non_root = None, psb_seccomp = None,
     psb_read_only_root = None, psb_allow_escalation = None, psb_capabilities = None\<rparr>"

definition WithRunAsUser :: "int \<Rightarrow> security_builder \<Rightarrow> security_builder" where
  "WithRunAsUser uid b = b\<lparr>psb_run_as_user := Some uid\<rparr>"

definition WithRunAsGroup :: "int \<Rightarrow> security_builder \<Rightarrow> security_builder" where
  "WithRunAsGroup gid b = b\<lparr>psb_run_as_group := Some gid\<rparr>"

definition WithFSGroup :: "int \<Rightarrow> security_builder \<Rightarrow> security_builder" where
  "WithFSGroup gid b = b\<lparr>psb_fs_group := Some gid\<rparr>"

definition WithFSGroupChangePolicy :: "string \<Rightarrow> security_builder \<Rightarrow> security_builder" where
  "WithFSGroupChangePolicy policy b = b\<lparr>psb_fs_group_change_policy := Some policy\<rparr>"

definition WithRunAsNonRoot :: "bool \<Rightarrow> security_builder \<Rightarrow> security_builder" where
  "WithRunAsNonRoot nonRoot b = b\<lparr>psb_run_as_non_root := Some nonRoot\<rparr>"

definition WithSeccompProfile :: "string option \<Rightarrow> security_builder \<Rightarrow> security_builder" where
  "WithSeccompProfile profile b = b\<lparr>psb_seccomp := profile\<rparr>"

definition WithReadOnlyRootFS :: "bool \<Rightarrow> security_builder \<Rightarrow> security_builder" where
  "WithReadOnlyRootFS readOnly b = b\<lparr>psb_read_only_root := Some readOnly\<rparr>"

definition WithAllowPrivilegeEscalation :: "bool \<Rightarrow> security_builder \<Rightarrow> security_builder" where
  "WithAllowPrivilegeEscalation allow b = b\<lparr>psb_allow_escalation := Some allow\<rparr>"

definition WithCapabilities :: "capabilities option \<Rightarrow> security_builder \<Rightarrow> security_builder" where
  "WithCapabilities caps b = b\<lparr>psb_capabilities := caps\<rparr>"

text \<open>The capabilities in place, or none yet.\<close>

definition current_capabilities :: "security_builder \<Rightarrow> capabilities" where
  "current_capabilities b = (case psb_capabilities b of Some c \<Rightarrow> c | None \<Rightarrow> \<lparr>cap_add = [], cap_drop = []\<rparr>)"

definition WithDroppedCapabilities :: "string list \<Rightarrow> security_builder \<Rightarrow> security_builder" where
  "WithDroppedCapabilities caps b = b\<lparr>psb_capabilities := Some ((current_capabilities b)\<lparr>cap_drop := caps\<rparr>)\<rparr>"

definition WithAddedCapabilities :: "string list \<Rightarrow> security_builder \<Rightarrow> security_builder" where
  "WithAddedCapabilities caps b = b\<lparr>psb_capabilities := Some ((current_capabilities b)\<lparr>cap_add := caps\<rparr>)\<rparr>"

section \<open>The contexts\<close>

definition BuildSecurityContext :: "security_builder \<Rightarrow> security_context" where
  "BuildSecurityContext b = \<lparr>sc_run_as_user = psb_run_as_user b, sc_run_as_group = psb_run_as_group b,
     sc_run_as_non_root = psb_run_as_non_root b, sc_read_only_root = psb_read_only_root b,
     sc_allow_escalation = psb_allow_escalation b, sc_capabilities = psb_capabilities b,
     sc_seccomp = psb_seccomp b, sc_rest = empty_json\<rparr>"

definition BuildPodSecurityContext :: "security_builder \<Rightarrow> pod_security_context" where
  "BuildPodSecurityContext b = \<lparr>psc_run_as_user = psb_run_as_user b, psc_run_as_group = psb_run_as_group b,
     psc_run_as_non_root = psb_run_as_non_root b, psc_fs_group = psb_fs_group b,
     psc_fs_group_change_policy = psb_fs_group_change_policy b, psc_seccomp = psb_seccomp b,
     psc_rest = empty_json\<rparr>"

definition BuildDefaultSecurityContext :: security_context where
  "BuildDefaultSecurityContext = \<lparr>sc_run_as_user = Some DefaultRunAsUser,
     sc_run_as_group = Some DefaultRunAsGroup, sc_run_as_non_root = Some True, sc_read_only_root = None,
     sc_allow_escalation = Some False, sc_capabilities = Some \<lparr>cap_add = [], cap_drop = [''ALL'']\<rparr>,
     sc_seccomp = Some SeccompRuntimeDefault, sc_rest = empty_json\<rparr>"

definition BuildDefaultPodSecurityContext :: pod_security_context where
  "BuildDefaultPodSecurityContext = \<lparr>psc_run_as_user = Some DefaultRunAsUser,
     psc_run_as_group = Some DefaultRunAsGroup, psc_run_as_non_root = Some True,
     psc_fs_group = Some DefaultFSGroup, psc_fs_group_change_policy = Some DefaultFSGroupChangePolicy,
     psc_seccomp = Some SeccompRuntimeDefault, psc_rest = empty_json\<rparr>"

definition DefaultPodSecurityBuilder :: security_builder where
  "DefaultPodSecurityBuilder = WithSeccompProfile (Some SeccompRuntimeDefault)
     (WithAllowPrivilegeEscalation False (WithDroppedCapabilities [''ALL''] (WithRunAsNonRoot True
       (WithFSGroupChangePolicy DefaultFSGroupChangePolicy (WithFSGroup DefaultFSGroup
         (WithRunAsGroup DefaultRunAsGroup (WithRunAsUser DefaultRunAsUser NewPodSecurityBuilder)))))))"

text \<open>The two paths to the framework's default agree, in every field.\<close>

lemma default_builder_in_step:
  "BuildSecurityContext DefaultPodSecurityBuilder = BuildDefaultSecurityContext"
  "BuildPodSecurityContext DefaultPodSecurityBuilder = BuildDefaultPodSecurityContext"
  by (simp_all add: BuildSecurityContext_def BuildPodSecurityContext_def DefaultPodSecurityBuilder_def
      BuildDefaultSecurityContext_def BuildDefaultPodSecurityContext_def WithSeccompProfile_def
      WithAllowPrivilegeEscalation_def WithDroppedCapabilities_def WithRunAsNonRoot_def
      WithFSGroupChangePolicy_def WithFSGroup_def WithRunAsGroup_def WithRunAsUser_def
      NewPodSecurityBuilder_def current_capabilities_def)

end
