(* ===== verification/Sidecar.thy ===== *)
theory Sidecar
  imports PodTypes Api "HOL-Library.Sublist"
begin

text \<open>
  Sidecars: \<open>pkg/sidecar/manager.go\<close>, \<open>interface.go\<close>, \<open>probes.go\<close> and \<open>security.go\<close>. A provider is a record of
  the methods of \<open>SidecarProvider\<close> and of the optional interfaces; \<open>Inject\<close> writes through the pointer to the
  pod, so it is an operation on pods, and its changes stay when it fails. A Go map whose value may be a nil
  pointer is a map of options; using a nil pointer is the error \<open>nil_dereference\<close>.
\<close>

section \<open>Containers and volumes of a pod\<close>

definition AddVolumes :: "kvolume list \<Rightarrow> kpod \<Rightarrow> kpod" where
  "AddVolumes vs pod = pod\<lparr>kp_volumes := kp_volumes pod @
     filter (\<lambda>v. kv_name v \<notin> kv_name ` set (kp_volumes pod)) vs\<rparr>"

definition AddVolumeMounts :: "volume_mount list \<Rightarrow> kcontainer \<Rightarrow> kcontainer" where
  "AddVolumeMounts ms c = c\<lparr>kc_mounts := kc_mounts c @
     filter (\<lambda>m. mount_name m \<notin> mount_name ` set (kc_mounts c)) ms\<rparr>"

definition AddEnvVars :: "string gomap \<Rightarrow> kcontainer \<Rightarrow> kcontainer" where
  "AddEnvVars envs c = c\<lparr>kc_env := kc_env c @
     map (\<lambda>(n, v). value_env n v) (filter (\<lambda>(n, v). n \<notin> ev_name ` set (kc_env c)) (entries envs))\<rparr>"

text \<open>The index of the code keeps the last entry of a name.\<close>

fun replace_last :: "env_var \<Rightarrow> env_var list \<Rightarrow> env_var list" where
  "replace_last e [] = []"
| "replace_last e (x # xs) =
     (if ev_name x = ev_name e \<and> ev_name e \<notin> ev_name ` set xs then e # xs else x # replace_last e xs)"

definition set_env :: "string set \<Rightarrow> string \<times> string \<Rightarrow> env_var list \<Rightarrow> env_var list" where
  "set_env index nv envs =
     (if fst nv \<in> index then replace_last (value_env (fst nv) (snd nv)) envs
      else envs @ [value_env (fst nv) (snd nv)])"

definition AddOrReplaceEnvVars :: "string gomap \<Rightarrow> kcontainer \<Rightarrow> kcontainer" where
  "AddOrReplaceEnvVars envs c =
     c\<lparr>kc_env := fold (set_env (ev_name ` set (kc_env c))) (entries envs) (kc_env c)\<rparr>"

definition AddPorts :: "container_port list \<Rightarrow> kcontainer \<Rightarrow> kcontainer" where
  "AddPorts ps c = c\<lparr>kc_ports := kc_ports c @
     filter (\<lambda>p. cport_name p \<notin> cport_name ` set (kc_ports c)) ps\<rparr>"

definition FindContainer :: "kpod \<Rightarrow> string \<Rightarrow> kcontainer option" where
  "FindContainer pod name = find_key kc_name name (kp_containers pod)"

definition FindInitContainer :: "kpod \<Rightarrow> string \<Rightarrow> kcontainer option" where
  "FindInitContainer pod name = find_key kc_name name (kp_init pod)"

text \<open>Writing \<open>c\<close> at the index of its name, or at the end.\<close>

definition add_or_replace :: "kcontainer \<Rightarrow> kcontainer list \<Rightarrow> kcontainer list" where
  "add_or_replace c cs =
     (if find_key kc_name (kc_name c) cs = None then cs @ [c] else update_key kc_name (kc_name c) (\<lambda>_. c) cs)"

definition AddOrReplaceContainer :: "kcontainer \<Rightarrow> kpod \<Rightarrow> kpod" where
  "AddOrReplaceContainer c pod = pod\<lparr>kp_containers := add_or_replace c (kp_containers pod)\<rparr>"

definition AddOrReplaceInitContainer :: "kcontainer \<Rightarrow> kpod \<Rightarrow> kpod" where
  "AddOrReplaceInitContainer c pod = pod\<lparr>kp_init := add_or_replace c (kp_init pod)\<rparr>"

definition SidecarRestartPolicy :: "string option" where "SidecarRestartPolicy = Some ''Always''"

section \<open>Configurations\<close>

record sidecar_probes =
  sp_startup :: "probe option"
  sp_liveness :: "probe option"
  sp_readiness :: "probe option"
  sp_disable_startup :: bool
  sp_disable_liveness :: bool
  sp_disable_readiness :: bool

definition no_probes :: sidecar_probes where
  "no_probes = \<lparr>sp_startup = None, sp_liveness = None, sp_readiness = None, sp_disable_startup = False,
     sp_disable_liveness = False, sp_disable_readiness = False\<rparr>"

definition resolveProbe :: "probe option \<Rightarrow> probe option \<Rightarrow> bool \<Rightarrow> probe option" where
  "resolveProbe providerDefault override disable =
     (if disable then None else if override \<noteq> None then override else providerDefault)"

definition ApplyProbes :: "sidecar_probes \<Rightarrow> kcontainer \<Rightarrow> kcontainer" where
  "ApplyProbes ps c = c
     \<lparr>kc_startup := resolveProbe (kc_startup c) (sp_startup ps) (sp_disable_startup ps),
      kc_liveness := resolveProbe (kc_liveness c) (sp_liveness ps) (sp_disable_liveness ps),
      kc_readiness := resolveProbe (kc_readiness c) (sp_readiness ps) (sp_disable_readiness ps)\<rparr>"

definition DefaultSecurityContext :: security_context where
  "DefaultSecurityContext = \<lparr>sc_run_as_user = None, sc_run_as_group = None,
     sc_run_as_non_root = Some True, sc_read_only_root = None, sc_allow_escalation = Some False,
     sc_capabilities = Some \<lparr>cap_add = [], cap_drop = [''ALL'']\<rparr>, sc_seccomp = Some ''RuntimeDefault'',
     sc_rest = empty_json\<rparr>"

record sidecar_config =
  scf_image :: string
  scf_pull_policy :: string
  scf_resources :: "resource_requirements option"
  scf_env :: "string gomap"
  scf_volumes :: "kvolume list"
  scf_mounts :: "volume_mount list"
  scf_ports :: "container_port list"
  scf_enabled :: bool
  scf_security :: "security_context option"
  scf_probes :: sidecar_probes

text \<open>The configuration \<open>&SidecarConfig{Enabled: true}\<close>.\<close>

definition enabled_config :: sidecar_config where
  "enabled_config = \<lparr>scf_image = [], scf_pull_policy = [], scf_resources = None, scf_env = fmempty,
     scf_volumes = [], scf_mounts = [], scf_ports = [], scf_enabled = True, scf_security = None,
     scf_probes = no_probes\<rparr>"

section \<open>Providers and the manager\<close>

definition SidecarPhaseProducer :: int where "SidecarPhaseProducer = 10"
definition SidecarPhaseDefault :: int where "SidecarPhaseDefault = 50"
definition SidecarPhasePipeline :: int where "SidecarPhasePipeline = 90"

record provider =
  pv_name :: string
  pv_phase :: "int option"
  pv_owns_image :: bool
  pv_inject :: "sidecar_config option \<Rightarrow> (kpod, unit) op"
  pv_validate :: "env \<Rightarrow> unit run"

record sidecar_manager =
  sm_providers :: "provider gomap"
  sm_configs :: "sidecar_config option gomap"
  sm_phases :: "int gomap"
  sm_client :: bool
  sm_namespace :: string

definition NewSidecarManager :: sidecar_manager where
  "NewSidecarManager = \<lparr>sm_providers = fmempty, sm_configs = fmempty, sm_phases = fmempty,
     sm_client = False, sm_namespace = []\<rparr>"

definition WithClient :: "string \<Rightarrow> sidecar_manager \<Rightarrow> sidecar_manager" where
  "WithClient namespace m = m\<lparr>sm_client := True, sm_namespace := namespace\<rparr>"

definition Register :: "provider \<Rightarrow> sidecar_config option \<Rightarrow> sidecar_manager \<Rightarrow> sidecar_manager" where
  "Register p cfg m = m\<lparr>sm_providers := fmupd (pv_name p) p (sm_providers m),
     sm_configs := fmupd (pv_name p) cfg (sm_configs m), sm_phases := fmdrop (pv_name p) (sm_phases m)\<rparr>"

definition RegisterWithPhase ::
    "provider \<Rightarrow> sidecar_config option \<Rightarrow> int \<Rightarrow> sidecar_manager \<Rightarrow> sidecar_manager" where
  "RegisterWithPhase p cfg phase m = m\<lparr>sm_providers := fmupd (pv_name p) p (sm_providers m),
     sm_configs := fmupd (pv_name p) cfg (sm_configs m), sm_phases := fmupd (pv_name p) phase (sm_phases m)\<rparr>"

definition Unregister :: "string \<Rightarrow> sidecar_manager \<Rightarrow> sidecar_manager" where
  "Unregister name m = m\<lparr>sm_providers := fmdrop name (sm_providers m),
     sm_configs := fmdrop name (sm_configs m), sm_phases := fmdrop name (sm_phases m)\<rparr>"

definition GetProvider :: "sidecar_manager \<Rightarrow> string \<Rightarrow> provider option" where
  "GetProvider m name = fmlookup (sm_providers m) name"

definition GetConfig :: "sidecar_manager \<Rightarrow> string \<Rightarrow> sidecar_config option option" where
  "GetConfig m name = fmlookup (sm_configs m) name"

text \<open>Go lists the names in any order; both callers sort them.\<close>

definition ListProviders :: "sidecar_manager \<Rightarrow> string list" where
  "ListProviders m = keys (sm_providers m)"

definition HasSidecars :: "sidecar_manager \<Rightarrow> bool" where
  "HasSidecars m \<longleftrightarrow> length (entries (sm_providers m)) > 0"

definition sidecar_count :: "sidecar_manager \<Rightarrow> nat" where
  "sidecar_count m = length (entries (sm_providers m))"

definition Phase :: "sidecar_manager \<Rightarrow> string \<Rightarrow> int" where
  "Phase m name =
     (case fmlookup (sm_phases m) name of
        Some phase \<Rightarrow> phase
      | None \<Rightarrow> (case fmlookup (sm_providers m) name of
          Some p \<Rightarrow> (case pv_phase p of Some phase \<Rightarrow> phase | None \<Rightarrow> SidecarPhaseDefault)
        | None \<Rightarrow> SidecarPhaseDefault))"

text \<open>Sorting by the phase, and by the name within a phase.\<close>

definition injectionOrder :: "sidecar_manager \<Rightarrow> string list" where
  "injectionOrder m = sort_key (Phase m) (sort (ListProviders m))"

definition nil_dereference :: err where
  "nil_dereference = PlainError ''invalid memory address or nil pointer dereference''"

text \<open>The configuration a provider runs under; a name without one is enabled.\<close>

definition config_for :: "sidecar_manager \<Rightarrow> string \<Rightarrow> sidecar_config option" where
  "config_for m name = (case fmlookup (sm_configs m) name of None \<Rightarrow> Some enabled_config | Some c \<Rightarrow> c)"

definition inject_one :: "(err \<Rightarrow> err) \<Rightarrow> sidecar_manager \<Rightarrow> string \<Rightarrow> provider \<Rightarrow> (kpod, unit) op" where
  "inject_one wrap m name p =
     (case config_for m name of
        None \<Rightarrow> throwE nil_dereference
      | Some cfg \<Rightarrow> if \<not> scf_enabled cfg then returnE () else wrapE wrap (pv_inject p (Some cfg)))"

definition inject_failure :: "string \<Rightarrow> err \<Rightarrow> err" where
  "inject_failure name e = Wrapped (FmtErrorf (''failed to inject sidecar '' @ name)) (Some e)"

fun inject_each :: "sidecar_manager \<Rightarrow> string list \<Rightarrow> (kpod, unit) op" where
  "inject_each m [] = returnE ()"
| "inject_each m (name # names) =
     (case fmlookup (sm_providers m) name of
        None \<Rightarrow> throwE nil_dereference
      | Some p \<Rightarrow> bindE
          (inject_one (inject_failure name) m name p)
          (\<lambda>_. inject_each m names))"

definition InjectAll :: "sidecar_manager \<Rightarrow> (kpod, unit) op" where
  "InjectAll m = inject_each m (injectionOrder m)"

definition Inject :: "sidecar_manager \<Rightarrow> string \<Rightarrow> (kpod, unit) op" where
  "Inject m name =
     (case fmlookup (sm_providers m) name of
        None \<Rightarrow> throwE (PlainError (''sidecar provider '' @ name @ '' not found''))
      | Some p \<Rightarrow> inject_one id m name p)"

text \<open>A copy whose configurations are written without touching the original: here the same value.\<close>

definition CloneForBuild :: "sidecar_manager \<Rightarrow> sidecar_manager" where
  "CloneForBuild m = m\<lparr>sm_configs := fmmap (map_option id) (sm_configs m)\<rparr>"

definition fill_image :: "string \<Rightarrow> string \<Rightarrow> sidecar_config \<Rightarrow> sidecar_config" where
  "fill_image img policy c = c
     \<lparr>scf_image := (if scf_image c = [] then img else scf_image c),
      scf_pull_policy := (if scf_pull_policy c = [] then policy else scf_pull_policy c)\<rparr>"

definition owns_image :: "sidecar_manager \<Rightarrow> string \<Rightarrow> bool" where
  "owns_image m name \<longleftrightarrow>
     (case fmlookup (sm_providers m) name of Some p \<Rightarrow> pv_owns_image p | None \<Rightarrow> False)"

definition SetProductImage :: "string \<Rightarrow> string \<Rightarrow> sidecar_manager \<Rightarrow> err + sidecar_manager" where
  "SetProductImage img policy m =
     (if img = [] then Inl (PlainError ''product image must not be empty'')
      else if list_ex (\<lambda>(n, c). c = None) (entries (sm_configs m)) then Inl nil_dereference
      else Inr (m\<lparr>sm_configs := collect_map (\<lambda>name c. Some (map_option (\<lambda>cfg.
         if \<not> scf_enabled cfg \<or> owns_image m name then cfg else fill_image img policy cfg) c))
           (sm_configs m)\<rparr>))"

section \<open>Validation\<close>

definition ValidateConfigMapExists :: "env \<Rightarrow> string \<Rightarrow> unit run" where
  "ValidateConfigMapExists env name = bindE (client_get env (KConfigMap, name)) (\<lambda>_. returnE ())"

definition ValidateSecretExists :: "env \<Rightarrow> string \<Rightarrow> unit run" where
  "ValidateSecretExists env name = bindE (client_get env (KExtra ''Secret'', name)) (\<lambda>_. returnE ())"

definition ValidateProvider :: "sidecar_manager \<Rightarrow> env \<Rightarrow> string \<Rightarrow> unit run" where
  "ValidateProvider m env name =
     (if \<not> sm_client m \<or> sm_namespace m = [] then returnE ()
      else (case fmlookup (sm_providers m) name of
          None \<Rightarrow> throwE (PlainError (''sidecar provider '' @ name @ '' not found''))
        | Some p \<Rightarrow> (case config_for m name of
            None \<Rightarrow> throwE nil_dereference
          | Some cfg \<Rightarrow> if \<not> scf_enabled cfg then returnE () else pv_validate p env)))"

fun validate_each :: "sidecar_manager \<Rightarrow> env \<Rightarrow> string list \<Rightarrow> err list \<Rightarrow> err list run" where
  "validate_each m env [] errs = returnE errs"
| "validate_each m env (name # names) errs = handleE (ValidateProvider m env name)
     (\<lambda>e. validate_each m env names
        (errs @ [Wrapped (FmtErrorf (''sidecar '' @ name @ '': provider '' @ name)) (Some e)]))
     (\<lambda>_. validate_each m env names errs)"

definition ValidateAll :: "sidecar_manager \<Rightarrow> env \<Rightarrow> unit run" where
  "ValidateAll m env =
     (if \<not> sm_client m \<or> sm_namespace m = [] then returnE ()
      else bindE (validate_each m env (sort (ListProviders m)) [])
        (\<lambda>errs. if errs = [] then returnE () else throwE (Joined errs)))"

section \<open>A fixed container\<close>

definition StaticContainerProvider :: "kcontainer \<Rightarrow> provider" where
  "StaticContainerProvider c = \<lparr>pv_name = kc_name c, pv_phase = None, pv_owns_image = False,
     pv_inject = (\<lambda>_ pod. (Inr (), AddOrReplaceInitContainer c pod)),
     pv_validate = (\<lambda>_. returnE ())\<rparr>"

section \<open>What injection may do\<close>

text \<open>
  A pod grows: its containers keep everything but additional mounts, its volumes and init containers stay
  where they are, and so does the rest of it. An init container may be replaced under its name.
\<close>

definition mounts_added :: "kcontainer \<Rightarrow> kcontainer \<Rightarrow> bool" where
  "mounts_added c d \<longleftrightarrow> prefix (kc_mounts c) (kc_mounts d) \<and> d\<lparr>kc_mounts := kc_mounts c\<rparr> = c"

definition init_names :: "kpod \<Rightarrow> string list" where
  "init_names pod = map kc_name (kp_init pod)"

definition pod_grows :: "kpod \<Rightarrow> kpod \<Rightarrow> bool" where
  "pod_grows p q \<longleftrightarrow>
     list_all2 mounts_added (kp_containers p) (kp_containers q) \<and> prefix (kp_volumes p) (kp_volumes q) \<and>
     prefix (init_names p) (init_names q) \<and>
     q\<lparr>kp_init := kp_init p, kp_containers := kp_containers p, kp_volumes := kp_volumes p\<rparr> = p"

definition add_name :: "string \<Rightarrow> string list \<Rightarrow> string list" where
  "add_name n ns = (if n \<in> set ns then ns else ns @ [n])"

lemma mounts_added_refl [simp]: "mounts_added c c"
  by (simp add: mounts_added_def)

lemma mounts_added_trans: "mounts_added c d \<Longrightarrow> mounts_added d e \<Longrightarrow> mounts_added c e"
  unfolding mounts_added_def
  by (cases c; cases d; cases e) (auto intro: prefix_order.trans)

lemma all_mounts_added_refl [simp]: "list_all2 mounts_added cs cs"
  by (simp add: list.rel_refl)

lemma all_mounts_added_trans:
  "list_all2 mounts_added as bs \<Longrightarrow> list_all2 mounts_added bs cs \<Longrightarrow> list_all2 mounts_added as cs"
  by (induction arbitrary: cs rule: list_all2_induct) (auto simp: list_all2_Cons1 intro: mounts_added_trans)

lemma mounts_added_name: "mounts_added c d \<Longrightarrow> kc_name d = kc_name c"
  unfolding mounts_added_def by (cases c; cases d) simp

interpretation pods: frame pod_grows
proof
  show "pod_grows p p" for p
    by (simp add: pod_grows_def)
next
  show "pod_grows p r" if pq: "pod_grows p q" and qr: "pod_grows q r" for p q r
  proof -
    have "list_all2 mounts_added (kp_containers p) (kp_containers r)"
      using pq qr all_mounts_added_trans unfolding pod_grows_def by blast
    moreover have "prefix (kp_volumes p) (kp_volumes r)" "prefix (init_names p) (init_names r)"
      using pq qr unfolding pod_grows_def by (blast intro: prefix_order.trans)+
    moreover have "r\<lparr>kp_init := kp_init p, kp_containers := kp_containers p, kp_volumes := kp_volumes p\<rparr> = p"
      using pq qr unfolding pod_grows_def by (cases p; cases q; cases r) simp
    ultimately show ?thesis by (simp add: pod_grows_def)
  qed
qed

lemma AddVolumes_grows: "pod_grows pod (AddVolumes vs pod)"
  by (simp add: pod_grows_def AddVolumes_def init_names_def)

lemma add_or_replace_names:
  "map kc_name (add_or_replace c cs) = add_name (kc_name c) (map kc_name cs)"
  by (auto simp: add_or_replace_def add_name_def find_key_None update_key_keys)

lemma AddOrReplaceInitContainer_names:
  "init_names (AddOrReplaceInitContainer c pod) = add_name (kc_name c) (init_names pod)"
  by (simp add: init_names_def AddOrReplaceInitContainer_def add_or_replace_names)

lemma AddOrReplaceInitContainer_grows: "pod_grows pod (AddOrReplaceInitContainer c pod)"
  using AddOrReplaceInitContainer_names [of c pod]
  by (simp add: pod_grows_def add_name_def)
     (simp add: AddOrReplaceInitContainer_def)

lemma AddVolumes_twice: "AddVolumes vs (AddVolumes vs pod) = AddVolumes vs pod"
proof -
  have "filter (\<lambda>v. kv_name v \<notin> kv_name ` set (kp_volumes (AddVolumes vs pod))) vs = []"
    by (auto simp: AddVolumes_def filter_empty_conv)
  then show ?thesis by (subst AddVolumes_def) simp
qed

lemma update_key_constant:
  "update_key f (f c) (\<lambda>_. c) (update_key f (f c) (\<lambda>_. c) cs) = update_key f (f c) (\<lambda>_. c) cs"
  by (induction cs) auto

lemma add_or_replace_twice: "add_or_replace c (add_or_replace c cs) = add_or_replace c cs"
proof (cases "kc_name c \<in> kc_name ` set cs")
  case True
  moreover from this have "kc_name c \<in> kc_name ` set (update_key kc_name (kc_name c) (\<lambda>_. c) cs)"
    by (metis list.set_map update_key_keys)
  ultimately show ?thesis by (simp add: add_or_replace_def find_key_None update_key_constant)
next
  case False
  then have "update_key kc_name (kc_name c) (\<lambda>_. c) (cs @ [c]) = cs @ [c]"
    by (induction cs) auto
  with False show ?thesis by (simp add: add_or_replace_def find_key_None del: find_key_append find_key_simps)
qed

section \<open>The contract of a provider\<close>

text \<open>
  What the manager needs of a provider: \<open>Inject\<close> only makes the pod grow, whatever it returns; on success it
  has placed the init container of its name, and injecting again changes nothing.
\<close>

locale sidecar_provider =
  fixes p :: provider
  assumes inject_grows: "preserves pod_grows (pv_inject p cfg)"
    and inject_names: "pv_inject p cfg pod = (Inr (), pod') \<Longrightarrow>
      init_names pod' = add_name (pv_name p) (init_names pod)"
    and inject_twice: "pv_inject p cfg pod = (Inr (), pod') \<Longrightarrow> pv_inject p cfg pod' = (Inr (), pod')"
begin

lemma inject_one_grows: "preserves pod_grows (inject_one wrap m name p)"
  unfolding inject_one_def
  by (auto intro!: pods.preserves_wrap pods.preserves_return pods.preserves_throw inject_grows
      split: option.split)

lemma inject_one_names:
  assumes "inject_one wrap m name p pod = (Inr (), pod')"
  shows "init_names pod' = (case config_for m name of
    Some cfg \<Rightarrow> if scf_enabled cfg then add_name (pv_name p) (init_names pod) else init_names pod
  | None \<Rightarrow> init_names pod)"
proof (cases "config_for m name")
  case None
  with assms show ?thesis by (simp add: inject_one_def throwE_def)
next
  case (Some cfg)
  with assms inject_names [of "Some cfg" pod] show ?thesis
    by (auto simp: inject_one_def wrapE_def handleE_def throwE_def returnE_def split: if_splits prod.splits sum.splits)
qed

lemma inject_present: "pv_inject p cfg pod = (Inr (), pod') \<Longrightarrow> pv_name p \<in> set (init_names pod')"
  by (auto simp: inject_names add_name_def)

end

interpretation static_container: sidecar_provider "StaticContainerProvider c"
proof
  show "preserves pod_grows (pv_inject (StaticContainerProvider c) cfg)" for cfg
    by (simp add: preserves_def StaticContainerProvider_def AddOrReplaceInitContainer_grows)
  show "init_names pod' = add_name (pv_name (StaticContainerProvider c)) (init_names pod)"
    if "pv_inject (StaticContainerProvider c) cfg pod = (Inr (), pod')" for cfg pod pod'
    using that by (auto simp: StaticContainerProvider_def AddOrReplaceInitContainer_names)
  show "pv_inject (StaticContainerProvider c) cfg pod' = (Inr (), pod')"
    if "pv_inject (StaticContainerProvider c) cfg pod = (Inr (), pod')" for cfg pod pod'
    using that by (auto simp: StaticContainerProvider_def AddOrReplaceInitContainer_def add_or_replace_twice)
qed

section \<open>The order of injection\<close>

definition sidecar_enabled :: "sidecar_manager \<Rightarrow> string \<Rightarrow> bool" where
  "sidecar_enabled m name \<longleftrightarrow> (case config_for m name of Some cfg \<Rightarrow> scf_enabled cfg | None \<Rightarrow> False)"

text \<open>Every provider sits under its own name, as \<open>Register\<close> puts it there, and keeps the contract.\<close>

definition manager_ok :: "sidecar_manager \<Rightarrow> bool" where
  "manager_ok m \<longleftrightarrow>
     (\<forall>(name, p) \<in> set (entries (sm_providers m)). pv_name p = name \<and> sidecar_provider p)"

lemma manager_ok_iff: "manager_ok m \<longleftrightarrow>
    (\<forall>name p. fmlookup (sm_providers m) name = Some p \<longrightarrow> pv_name p = name \<and> sidecar_provider p)"
  unfolding manager_ok_def set_entries by auto

lemma manager_ok_lookup:
  "manager_ok m \<Longrightarrow> fmlookup (sm_providers m) name = Some p \<Longrightarrow> pv_name p = name \<and> sidecar_provider p"
  by (simp add: manager_ok_iff)

lemma manager_ok_Register: "manager_ok m \<Longrightarrow> sidecar_provider p \<Longrightarrow> manager_ok (Register p cfg m)"
  by (simp add: manager_ok_iff Register_def)

lemma manager_ok_New: "manager_ok NewSidecarManager"
  by (simp add: manager_ok_iff NewSidecarManager_def)

lemma inject_each_correct:
  assumes "manager_ok m" and "inject_each m names pod = (r, pod')"
  shows "pod_grows pod pod' \<and> (r = Inr () \<longrightarrow>
    init_names pod' = fold add_name (filter (sidecar_enabled m) names) (init_names pod))"
  using assms(2)
proof (induction names arbitrary: pod)
  case Nil
  then show ?case by (auto simp: returnE_def pods.refl)
next
  case (Cons name names)
  show ?case
  proof (cases "fmlookup (sm_providers m) name")
    case None
    with Cons.prems show ?thesis by (auto simp: throwE_def pods.refl)
  next
    case (Some p)
    then have name: "pv_name p = name" and sp: "sidecar_provider p"
      using manager_ok_lookup [OF assms(1)] by blast+
    obtain r1 pod1 where one: "inject_one (inject_failure name) m name p pod = (r1, pod1)" by fastforce
    have grows: "pod_grows pod pod1"
      using sidecar_provider.inject_one_grows [OF sp, of "inject_failure name" m name, unfolded preserves_def, rule_format, of pod]
        one by simp
    show ?thesis
    proof (cases r1)
      case (Inl e)
      with Cons.prems Some one grows show ?thesis by (auto simp: bindE_def handleE_def throwE_def)
    next
      case (Inr u)
      with Cons.prems Some one have rest: "inject_each m names pod1 = (r, pod')"
        by (simp add: bindE_def handleE_def)
      have "init_names pod1 = (if sidecar_enabled m name then add_name name (init_names pod) else init_names pod)"
        using sidecar_provider.inject_one_names [OF sp, of "inject_failure name" m name pod pod1] one Inr name
        by (simp add: sidecar_enabled_def split: option.splits)
      with Cons.IH [OF rest] grows show ?thesis
        by (auto intro: pods.trans)
    qed
  qed
qed

lemma sorted_within_keys:
  assumes "sorted (map f xs)" and "\<And>c. sorted (filter (\<lambda>x. c = f x) xs)" and "distinct xs"
  shows "sorted_wrt (\<lambda>a b. f a < f b \<or> f a = f b \<and> a < b) xs"
  using assms
proof (induction xs)
  case (Cons y ys)
  have "sorted (filter (\<lambda>x. c = f x) ys)" for c
    using Cons.prems(2) [of c] by (cases "c = f y") auto
  with Cons have "sorted_wrt (\<lambda>a b. f a < f b \<or> f a = f b \<and> a < b) ys" by simp
  moreover have "f y < f z \<or> f y = f z \<and> y < z" if "z \<in> set ys" for z
    using Cons.prems(1,3) Cons.prems(2) [of "f y"] that by (fastforce simp: order.order_iff_strict)
  ultimately show ?case by simp
qed simp

text \<open>
  C15. The manager injects every enabled provider once, by phase and by name within a phase, and the init
  containers of the finished pod are the ones it had, followed by the injected ones in that order, so a
  sidecar is started after those of the earlier phases. The pod's own containers keep everything but
  additional mounts, and its volumes stay, even when a provider fails half way.
\<close>

theorem InjectAll_order:
  assumes "manager_ok m" and "InjectAll m pod = (r, pod')"
  shows "pod_grows pod pod' \<and>
    (r = Inr () \<longrightarrow> init_names pod' =
      fold add_name (filter (sidecar_enabled m) (injectionOrder m)) (init_names pod)) \<and>
    set (injectionOrder m) = fset (fmdom (sm_providers m)) \<and>
    sorted_wrt (\<lambda>a b. Phase m a < Phase m b \<or> Phase m a = Phase m b \<and> a < b) (injectionOrder m)"
proof -
  have "sorted_wrt (\<lambda>a b. Phase m a < Phase m b \<or> Phase m a = Phase m b \<and> a < b) (injectionOrder m)"
    by (rule sorted_within_keys)
       (simp_all add: injectionOrder_def ListProviders_def sort_key_stable_key sorted_wrt_filter del: filter_sort)
  with inject_each_correct [OF assms(1), of "injectionOrder m" pod r pod'] assms(2) show ?thesis
    by (simp add: InjectAll_def) (simp add: injectionOrder_def ListProviders_def)
qed

section \<open>An example\<close>

definition main_pod :: kpod where
  "main_pod = \<lparr>kp_init = [], kp_containers = [empty_container\<lparr>kc_name := ''main'', kc_image := ''img''\<rparr>],
     kp_volumes = [], kp_service_account = [], kp_grace = None, kp_security = None, kp_affinity = None,
     kp_service_links = None, kp_pull_secrets = [], kp_rest = empty_json\<rparr>"

definition named_container :: "string \<Rightarrow> kcontainer" where
  "named_container name = empty_container\<lparr>kc_name := name\<rparr>"

definition two_sidecars :: sidecar_manager where
  "two_sidecars = Register (StaticContainerProvider (named_container ''b'')) (Some enabled_config)
     (RegisterWithPhase (StaticContainerProvider (named_container ''a'')) (Some enabled_config)
       SidecarPhasePipeline NewSidecarManager)"

lemma manager_ok_RegisterWithPhase:
  "manager_ok m \<Longrightarrow> sidecar_provider p \<Longrightarrow> manager_ok (RegisterWithPhase p cfg phase m)"
  by (simp add: manager_ok_iff RegisterWithPhase_def)

theorem InjectAll_order_witness:
  "\<exists>pod'. InjectAll two_sidecars main_pod = (Inr (), pod') \<and> pod_grows main_pod pod' \<and>
    init_names pod' = [''b'', ''a'']"
proof -
  have ok: "manager_ok two_sidecars"
    unfolding two_sidecars_def
    by (intro manager_ok_Register manager_ok_RegisterWithPhase manager_ok_New static_container.sidecar_provider_axioms)
  obtain r pod' where inject: "InjectAll two_sidecars main_pod = (r, pod')" by fastforce
  have "fst (InjectAll two_sidecars main_pod) = Inr ()" by code_simp
  with inject have r: "r = Inr ()" by simp
  have "fold add_name (filter (sidecar_enabled two_sidecars) (injectionOrder two_sidecars)) (init_names main_pod) =
      [''b'', ''a'']"
    by code_simp
  with InjectAll_order [OF ok inject] inject r show ?thesis by simp
qed
end
