(* ===== verification/HandlerLabels.thy ===== *)
theory HandlerLabels
  imports BuildContext StatefulSetBuilder Builders PodSecurity Sidecar
begin

text \<open>
  The labels the base handler puts on what it builds, the selectors, and the role's disruption budget: the
  first part of \<open>pkg/reconciler/base_role_group_handler.go\<close>. A handler is a record and shared by every
  cluster. The check of label values is apimachinery's, the parameter \<open>valid_value\<close>.
\<close>

section \<open>The handler\<close>

record base_handler =
  h_generator :: "formats option"
  h_mount_path :: string
  h_label_domain :: string
  h_sidecars :: "sidecar_manager option"
  h_security_configured :: bool
  h_container_security :: "security_context option"
  h_pod_security :: "pod_security_context option"

definition NewBaseRoleGroupHandler :: base_handler where
  "NewBaseRoleGroupHandler = \<lparr>h_generator = None, h_mount_path = [], h_label_domain = [],
     h_sidecars = None, h_security_configured = False, h_container_security = None, h_pod_security = None\<rparr>"

definition WithSidecarManager :: "sidecar_manager option \<Rightarrow> base_handler \<Rightarrow> base_handler" where
  "WithSidecarManager m h = h\<lparr>h_sidecars := m\<rparr>"

definition handler_WithSecurityContext ::
    "security_context option \<Rightarrow> pod_security_context option \<Rightarrow> base_handler \<Rightarrow> base_handler" where
  "handler_WithSecurityContext c p h =
     h\<lparr>h_container_security := c, h_pod_security := p, h_security_configured := True\<rparr>"

definition WithoutDefaultSecurityContext :: "base_handler \<Rightarrow> base_handler" where
  "WithoutDefaultSecurityContext = handler_WithSecurityContext None None"

definition resolveSecurityContext ::
    "base_handler \<Rightarrow> security_context option \<times> pod_security_context option" where
  "resolveSecurityContext h =
     (if h_security_configured h then (h_container_security h, h_pod_security h)
      else (Some BuildDefaultSecurityContext, Some BuildDefaultPodSecurityContext))"

section \<open>Labels\<close>

definition ClusterLabelKey :: "string \<Rightarrow> string" where "ClusterLabelKey domain = domain @ ''/cluster''"
definition RoleLabelKey :: "string \<Rightarrow> string" where "RoleLabelKey domain = domain @ ''/role''"
definition RoleGroupLabelKey :: "string \<Rightarrow> string" where "RoleGroupLabelKey domain = domain @ ''/role-group''"

definition recommendedLabels ::
    "(string \<Rightarrow> bool) \<Rightarrow> string \<Rightarrow> string \<Rightarrow> string \<Rightarrow> string \<Rightarrow> string \<Rightarrow> string gomap" where
  "recommendedLabels valid_value cluster role grp product version =
     put_if (version \<noteq> [] \<and> valid_value version) LabelKubernetesVersion version
       (put_if (product \<noteq> [] \<and> valid_value product) LabelKubernetesName product
         (put_if (grp \<noteq> []) LabelKubernetesRoleGroup grp
           (fmupd LabelKubernetesManagedBy managedByValue (fmupd LabelKubernetesComponent role
             (fmupd LabelKubernetesInstance cluster fmempty)))))"

definition identityLabels :: "base_handler \<Rightarrow> ('pod, 'z) build_context_scheme \<Rightarrow> string gomap" where
  "identityLabels h ctx =
     (if h_label_domain h = [] then fmempty
      else fmupd (RoleGroupLabelKey (h_label_domain h)) (bc_group ctx)
        (fmupd (RoleLabelKey (h_label_domain h)) (bc_role ctx)
          (fmupd (ClusterLabelKey (h_label_domain h)) (bc_cluster_name ctx) fmempty)))"

definition marker_key :: "platform \<Rightarrow> ('pod, 'z) build_context_scheme \<Rightarrow> string" where
  "marker_key pf ctx =
     RoleGroupMarkerLabelKey (sha8 pf) (is_qualified pf) (bc_cluster_name ctx) (bc_role ctx) (bc_group ctx)"

definition frameworkSelectorLabels :: "platform \<Rightarrow> ('pod, 'z) build_context_scheme \<Rightarrow> string gomap" where
  "frameworkSelectorLabels pf ctx =
     fmupd (marker_key pf ctx) valueTrue (fmupd LabelKubernetesManagedBy managedByValue
       (fmupd LabelKubernetesComponent (bc_role ctx)
         (fmupd LabelKubernetesInstance (bc_cluster_name ctx) fmempty)))"

definition buildLabels ::
    "platform \<Rightarrow> (string \<Rightarrow> bool) \<Rightarrow> base_handler \<Rightarrow> ('pod, 'z) build_context_scheme \<Rightarrow> string gomap" where
  "buildLabels pf valid_value h ctx =
     put_all (entries (identityLabels h ctx))
       (put_all (entries (frameworkSelectorLabels pf ctx))
         (put_all (entries (recommendedLabels valid_value (bc_cluster_name ctx) (bc_role ctx) (bc_group ctx)
             (bc_product ctx) (ri_product_version (bc_image ctx))))
           (put_all (entries (bc_labels ctx)) fmempty)))"

definition buildSelectorLabels ::
    "platform \<Rightarrow> base_handler \<Rightarrow> ('pod, 'z) build_context_scheme \<Rightarrow> string gomap" where
  "buildSelectorLabels pf h ctx =
     (if h_label_domain h = [] then frameworkSelectorLabels pf ctx else identityLabels h ctx)"

section \<open>The role's disruption budget\<close>

definition roleIdentityLabels :: "base_handler \<Rightarrow> string \<Rightarrow> string \<Rightarrow> string gomap" where
  "roleIdentityLabels h cluster role =
     (if h_label_domain h = [] then fmempty
      else fmupd (RoleLabelKey (h_label_domain h)) role
        (fmupd (ClusterLabelKey (h_label_domain h)) cluster fmempty))"

definition buildRoleSelectorLabels :: "base_handler \<Rightarrow> string \<Rightarrow> string \<Rightarrow> string gomap" where
  "buildRoleSelectorLabels h cluster role =
     (if h_label_domain h = []
      then fmupd LabelKubernetesManagedBy managedByValue (fmupd LabelKubernetesComponent role
        (fmupd LabelKubernetesInstance cluster fmempty))
      else roleIdentityLabels h cluster role)"

definition buildRoleLabels :: "(string \<Rightarrow> bool) \<Rightarrow> base_handler \<Rightarrow> role_build_context \<Rightarrow> string gomap" where
  "buildRoleLabels valid_value h ctx =
     put_all (entries (roleIdentityLabels h (rbc_cluster_name ctx) (rbc_role ctx)))
       (put_all (entries (recommendedLabels valid_value (rbc_cluster_name ctx) (rbc_role ctx) []
           (rbc_product ctx) (rbc_product_version ctx)))
         (put_all (entries (rbc_labels ctx)) fmempty))"

text \<open>\<open>None\<close> is no budget; the error is the builder's panic.\<close>

definition BuildRolePodDisruptionBudget ::
    "(string \<Rightarrow> bool) \<Rightarrow> base_handler \<Rightarrow> role_build_context option \<Rightarrow> (err + kpdb) option" where
  "BuildRolePodDisruptionBudget valid_value h rbc =
     (case rbc of
        None \<Rightarrow> None
      | Some ctx \<Rightarrow>
          (case pod_disruption_budget (GetRoleConfig (rbc_role_spec ctx)) of
             None \<Rightarrow> None
           | Some spec \<Rightarrow>
               (let b = pdb_WithSpec (Some spec)
                      (pdb_WithSelector (buildRoleSelectorLabels h (rbc_cluster_name ctx) (rbc_role ctx))
                        (pdb_WithLabels (buildRoleLabels valid_value h ctx)
                          (NewPDBBuilder (RoleResourceName (rbc_cluster_name ctx) (rbc_role ctx))
                            (rbc_namespace ctx))))
                in if \<not> pdbb_enabled b then None else Some (pdb_Build b))))"

section \<open>Which pods a selector takes\<close>

lemma put_all_fmadd: "put_all (entries n) m = fmadd m n"
  by (rule fold_upd_entries)

lemma fmlookup_fmadd: "fmlookup (fmadd m n) k = (case fmlookup n k of Some v \<Rightarrow> Some v | None \<Rightarrow> fmlookup m k)"
  by (cases "fmlookup n k") (simp_all add: fmdomI fmdom_notI)

lemma selector_matches_fmupd:
  "k |\<notin>| fmdom m \<Longrightarrow>
    selector_matches (fmupd k v m) ls \<longleftrightarrow> fmlookup ls k = Some v \<and> selector_matches m ls"
  by (auto simp: selector_matches_iff dest: fmdomI)

lemma selector_matches_empty [simp]: "selector_matches fmempty ls"
  by (simp add: selector_matches_iff)

lemma domain_keys_distinct:
  "ClusterLabelKey d \<noteq> RoleLabelKey d" "RoleLabelKey d \<noteq> RoleGroupLabelKey d"
  "ClusterLabelKey d \<noteq> RoleGroupLabelKey d"
  by (simp_all add: ClusterLabelKey_def RoleLabelKey_def RoleGroupLabelKey_def)

lemma framework_keys_distinct:
  "LabelKubernetesManagedBy \<noteq> LabelKubernetesComponent" "LabelKubernetesManagedBy \<noteq> LabelKubernetesInstance"
  "LabelKubernetesComponent \<noteq> LabelKubernetesInstance" "LabelKubernetesRoleGroup \<noteq> LabelKubernetesInstance"
  "LabelKubernetesRoleGroup \<noteq> LabelKubernetesComponent" "LabelKubernetesRoleGroup \<noteq> LabelKubernetesManagedBy"
  by (simp_all add: label_keys)

definition same_group :: "('pod, 'z) build_context_scheme \<Rightarrow> ('q, 'y) build_context_scheme \<Rightarrow> bool" where
  "same_group a b \<longleftrightarrow> bc_cluster_name a = bc_cluster_name b \<and> bc_role a = bc_role b \<and> bc_group a = bc_group b"

text \<open>The keys of the recommended set all sit under a domain.\<close>

lemma framework_key_slash:
  "CHR ''/'' \<in> set LabelKubernetesManagedBy" "CHR ''/'' \<in> set LabelKubernetesComponent"
  "CHR ''/'' \<in> set LabelKubernetesInstance" "CHR ''/'' \<in> set LabelKubernetesRoleGroup"
  "CHR ''/'' \<in> set LabelKubernetesName" "CHR ''/'' \<in> set LabelKubernetesVersion"
  by (simp_all add: label_keys LabelKubernetesName_def LabelKubernetesVersion_def)

lemma recommended_key:
  assumes "CHR ''/'' \<notin> set k"
  shows "fmlookup (recommendedLabels valid c r g p v) k = None"
proof -
  have "k \<noteq> LabelKubernetesManagedBy" "k \<noteq> LabelKubernetesComponent" "k \<noteq> LabelKubernetesInstance"
    "k \<noteq> LabelKubernetesRoleGroup" "k \<noteq> LabelKubernetesName" "k \<noteq> LabelKubernetesVersion"
    using assms framework_key_slash by metis+
  then show ?thesis by (simp add: recommendedLabels_def put_if_def)
qed

section \<open>Properties\<close>

text \<open>Ordinary names: the natural marker key is a legal label key and no name has a slash.\<close>

definition ordinary_group :: "platform \<Rightarrow> ('pod, 'z) build_context_scheme \<Rightarrow> bool" where
  "ordinary_group pf ctx \<longleftrightarrow> is_qualified pf (bc_cluster_name ctx @ [dash] @ bc_group ctx) \<and>
     CHR ''/'' \<notin> set (bc_cluster_name ctx) \<and> CHR ''/'' \<notin> set (bc_group ctx)"

lemma ordinary_marker:
  assumes "ordinary_group pf ctx"
  shows "marker_key pf ctx = bc_cluster_name ctx @ [dash] @ bc_group ctx"
    and "CHR ''/'' \<notin> set (marker_key pf ctx)"
  using assms by (simp_all add: ordinary_group_def marker_key_def RoleGroupMarkerLabelKey_def Let_def dash_def)

lemma marker_not_framework:
  assumes "ordinary_group pf ctx"
  shows "marker_key pf ctx \<noteq> LabelKubernetesManagedBy" "marker_key pf ctx \<noteq> LabelKubernetesComponent"
    "marker_key pf ctx \<noteq> LabelKubernetesInstance"
  using ordinary_marker(2) [OF assms] framework_key_slash by metis+

text \<open>The lookups of the finished labels, without and with a domain.\<close>

lemma buildLabels_framework:
  assumes "h_label_domain h = []" and "ordinary_group pf ctx"
  shows "fmlookup (buildLabels pf valid h ctx) LabelKubernetesInstance = Some (bc_cluster_name ctx)"
    and "fmlookup (buildLabels pf valid h ctx) LabelKubernetesComponent = Some (bc_role ctx)"
    and "fmlookup (buildLabels pf valid h ctx) LabelKubernetesManagedBy = Some managedByValue"
    and "fmlookup (buildLabels pf valid h ctx) (marker_key pf ctx) = Some valueTrue"
  using assms marker_not_framework [OF assms(2)] framework_keys_distinct
  by (simp_all add: buildLabels_def put_all_fmadd fmlookup_fmadd identityLabels_def frameworkSelectorLabels_def)

lemma buildLabels_other:
  assumes "h_label_domain h = []" and "CHR ''/'' \<notin> set k" and "k \<noteq> marker_key pf ctx"
  shows "fmlookup (buildLabels pf valid h ctx) k = fmlookup (bc_labels ctx) k"
proof -
  have "k \<noteq> LabelKubernetesManagedBy" "k \<noteq> LabelKubernetesComponent" "k \<noteq> LabelKubernetesInstance"
    using assms(2) framework_key_slash by metis+
  with assms show ?thesis
    by (simp add: buildLabels_def put_all_fmadd fmlookup_fmadd identityLabels_def frameworkSelectorLabels_def
        recommended_key del: fmlookup_add)
qed

lemma buildLabels_domain:
  assumes "h_label_domain h \<noteq> []"
  shows "fmlookup (buildLabels pf valid h ctx) (ClusterLabelKey (h_label_domain h)) = Some (bc_cluster_name ctx)"
    and "fmlookup (buildLabels pf valid h ctx) (RoleLabelKey (h_label_domain h)) = Some (bc_role ctx)"
    and "fmlookup (buildLabels pf valid h ctx) (RoleGroupLabelKey (h_label_domain h)) = Some (bc_group ctx)"
  using assms domain_keys_distinct [of "h_label_domain h"]
  by (simp_all add: buildLabels_def put_all_fmadd fmlookup_fmadd identityLabels_def)

lemma selector_in_labels: "selector_matches (buildSelectorLabels pf h ctx) (buildLabels pf valid h ctx)"
  by (auto simp: selector_matches_iff buildSelectorLabels_def buildLabels_def put_all_fmadd fmlookup_fmadd
      identityLabels_def split: option.splits if_splits)

text \<open>
  C10. The selector of a role group takes the pods of that group and of no other: of two groups the base handler
  builds, the labels one's pods carry match the other's selector exactly if cluster, role and group are the
  same. Without a label domain this needs that the names are ordinary and that the CR does not carry the
  other group's marker itself.
\<close>

theorem selectors_separate_groups:
  assumes "h_label_domain h \<noteq> [] \<or> ordinary_group pf a \<and> ordinary_group pf b \<and>
      fmlookup (bc_labels b) (marker_key pf a) \<noteq> Some valueTrue"
  shows "selector_matches (buildSelectorLabels pf h a) (buildLabels pf valid h b) \<longleftrightarrow> same_group a b"
proof (cases "h_label_domain h = []")
  case False
  then show ?thesis
    using domain_keys_distinct [of "h_label_domain h"]
    by (auto simp: buildSelectorLabels_def identityLabels_def [of h a] selector_matches_fmupd buildLabels_domain
        same_group_def)
next
  case True
  with assms have plain: "ordinary_group pf a" "ordinary_group pf b"
    and unmarked: "fmlookup (bc_labels b) (marker_key pf a) \<noteq> Some valueTrue" by simp_all
  note distinct = marker_not_framework [OF plain(1)] framework_keys_distinct
  have "selector_matches (buildSelectorLabels pf h a) (buildLabels pf valid h b) \<longleftrightarrow>
      fmlookup (buildLabels pf valid h b) (marker_key pf a) = Some valueTrue \<and>
      bc_role b = bc_role a \<and> bc_cluster_name b = bc_cluster_name a"
    using True distinct
    by (simp add: buildSelectorLabels_def frameworkSelectorLabels_def [of pf a] selector_matches_fmupd
        buildLabels_framework [OF True plain(2)])
  also have "fmlookup (buildLabels pf valid h b) (marker_key pf a) = Some valueTrue \<longleftrightarrow>
      marker_key pf a = marker_key pf b"
    using buildLabels_framework(4) [OF True plain(2)] unmarked
      buildLabels_other [where h = h and ctx = b and pf = pf, OF True ordinary_marker(2) [OF plain(1)]] by metis
  finally show ?thesis
    by (auto simp: ordinary_marker(1) [OF plain(1)] ordinary_marker(1) [OF plain(2)] same_group_def)
qed

text \<open>
  A role that declares a budget and does not disable it gets one, never a panic, under the role's name; it
  covers the pods of every group of the role and those of no other role or cluster.
\<close>

theorem role_budget_covers_role:
  assumes "h_label_domain h \<noteq> [] \<or> ordinary_group pf ctx"
    and "pod_disruption_budget (GetRoleConfig (rbc_role_spec rctx)) = Some spec" and "IsEnabled (Some spec)"
  shows "\<exists>pdb. BuildRolePodDisruptionBudget valid h (Some rctx) = Some (Inr pdb) \<and>
    kpdb_name pdb = RoleResourceName (rbc_cluster_name rctx) (rbc_role rctx) \<and>
    (selector_matches (kpdb_selector pdb) (buildLabels pf valid h ctx) \<longleftrightarrow>
       bc_cluster_name ctx = rbc_cluster_name rctx \<and> bc_role ctx = rbc_role rctx)"
proof -
  let ?sel = "buildRoleSelectorLabels h (rbc_cluster_name rctx) (rbc_role rctx)"
  have "fmlookup ?sel (if h_label_domain h = [] then LabelKubernetesInstance
      else ClusterLabelKey (h_label_domain h)) = Some (rbc_cluster_name rctx)"
    using framework_keys_distinct domain_keys_distinct [of "h_label_domain h"]
    by (simp add: buildRoleSelectorLabels_def roleIdentityLabels_def)
  then have "?sel \<noteq> fmempty" by auto
  moreover have "selector_matches ?sel (buildLabels pf valid h ctx) \<longleftrightarrow>
      bc_cluster_name ctx = rbc_cluster_name rctx \<and> bc_role ctx = rbc_role rctx"
  proof (cases "h_label_domain h = []")
    case True
    with assms(1) have plain: "ordinary_group pf ctx" by simp
    from True framework_keys_distinct show ?thesis
      by (auto simp: buildRoleSelectorLabels_def selector_matches_fmupd buildLabels_framework [OF True plain])
  next
    case False
    then show ?thesis using domain_keys_distinct [of "h_label_domain h"]
      by (auto simp: buildRoleSelectorLabels_def roleIdentityLabels_def selector_matches_fmupd buildLabels_domain)
  qed
  ultimately show ?thesis
    using assms(2,3)
    by (simp add: BuildRolePodDisruptionBudget_def Let_def pdb_Build_def pdb_WithSpec_def pdb_WithSelector_def
        pdb_WithLabels_def NewPDBBuilder_def put_all_fmadd)
qed
section \<open>An example\<close>

definition plain_role :: "pdb_spec option \<Rightarrow> role_spec" where
  "plain_role budget = \<lparr>role_role_config = Some \<lparr>pod_disruption_budget = budget\<rparr>, role_config = None,
     role_role_groups = fmempty, role_config_overrides = None, role_env_overrides = None,
     role_cli_overrides = None, role_pod_overrides = None\<rparr>"

definition plain_group_spec :: role_group_spec where
  "plain_group_spec = \<lparr>rg_replicas = Some 3, rg_config = None, rg_config_overrides = None,
     rg_env_overrides = None, rg_cli_overrides = None, rg_pod_overrides = None\<rparr>"

definition example_context :: "string \<Rightarrow> string \<Rightarrow> string gomap \<Rightarrow> 'pod build_context" where
  "example_context role grp ls = \<lparr>bc_cluster_name = ''hdfs'', bc_namespace = ''ns'', bc_labels = ls,
     bc_spec = \<lparr>spec_image = None, spec_cluster_operation = None, spec_roles = fmempty\<rparr>, bc_role = role,
     bc_role_spec = plain_role None, bc_group = grp, bc_group_spec = plain_group_spec, bc_merged = None,
     bc_resource = ''hdfs-'' @ role @ ''-'' @ grp, bc_service_account = [], bc_sidecars = None,
     bc_declaration = no_declaration, bc_image = \<lparr>ri_reference = ''hdfs:3'', ri_pull_policy = [],
       ri_pull_secret_name = [], ri_product_version = ''3.4''\<rparr>,
     bc_product = ''hdfs'', bc_aggregator = [], bc_vector_active = False\<rparr>"

definition example_role_context :: role_build_context where
  "example_role_context = \<lparr>rbc_cluster_name = ''hdfs'', rbc_namespace = ''ns'', rbc_labels = fmempty,
     rbc_spec = \<lparr>spec_image = None, spec_cluster_operation = None, spec_roles = fmempty\<rparr>,
     rbc_role = ''data'', rbc_role_spec = plain_role (Some \<lparr>pdb_enabled = None, pdb_max_unavailable = Some 1\<rparr>),
     rbc_product = ''hdfs'', rbc_product_version = ''3.4''\<rparr>"

lemma example_ordinary: "ordinary_group plain_platform (example_context role grp ls) \<longleftrightarrow> CHR ''/'' \<notin> set grp"
  by (simp add: ordinary_group_def plain_platform_def example_context_def)

theorem selectors_separate_groups_witness:
  "\<not> selector_matches
      (buildSelectorLabels plain_platform NewBaseRoleGroupHandler (example_context ''data'' ''a'' fmempty))
      (buildLabels plain_platform (\<lambda>_. True) NewBaseRoleGroupHandler (example_context ''data'' ''b'' fmempty))"
  using selectors_separate_groups [of NewBaseRoleGroupHandler plain_platform
      "example_context ''data'' ''a'' fmempty" "example_context ''data'' ''b'' fmempty" "\<lambda>_. True"]
  by (simp add: example_ordinary same_group_def) (simp add: example_context_def)

theorem role_budget_covers_role_witness:
  "\<exists>pdb. BuildRolePodDisruptionBudget (\<lambda>_. True) NewBaseRoleGroupHandler (Some example_role_context) =
      Some (Inr pdb) \<and> selector_matches (kpdb_selector pdb)
        (buildLabels plain_platform (\<lambda>_. True) NewBaseRoleGroupHandler (example_context ''data'' ''a'' fmempty))"
  using role_budget_covers_role [of NewBaseRoleGroupHandler plain_platform
      "example_context ''data'' ''a'' fmempty" example_role_context
      "\<lparr>pdb_enabled = None, pdb_max_unavailable = Some 1\<rparr>" "\<lambda>_. True"]
  by (simp add: example_ordinary) (auto simp: example_context_def example_role_context_def plain_role_def
      IsEnabled_def GetRoleConfig_def)

text \<open>
  Where the CR carries another group's marker as a label of its own, that group's selector takes the pods of
  this one as well.
\<close>

lemma marker_label_overlaps:
  "selector_matches
      (buildSelectorLabels plain_platform NewBaseRoleGroupHandler (example_context ''data'' ''a'' fmempty))
      (buildLabels plain_platform (\<lambda>_. True) NewBaseRoleGroupHandler
        (example_context ''data'' ''b'' (fmupd ''hdfs-a'' ''true'' fmempty)))"
  by code_simp
end
