(* ===== verification/SidecarProviders.thy ===== *)
theory SidecarProviders
  imports Sidecar Logging
begin

text \<open>
  The JMX exporter and the oauth2-proxy sidecars, \<open>pkg/sidecar/jmx_exporter.go\<close> and \<open>oauth2_proxy.go\<close>, with
  the security contexts of \<open>pkg/security/pod_security.go\<close>. Random bytes come from outside: \<open>rand\<close> is the
  answer of \<open>crypto/rand.Read\<close>.
\<close>

section \<open>Placing a sidecar\<close>

text \<open>What \<open>Inject\<close> does with the container it has built.\<close>

definition place_sidecar :: "kcontainer \<Rightarrow> kvolume list \<Rightarrow> kpod \<Rightarrow> kpod" where
  "place_sidecar c vs pod = AddVolumes vs (AddOrReplaceInitContainer c pod)"

lemma place_sidecar_grows: "pod_grows pod (place_sidecar c vs pod)"
  unfolding place_sidecar_def
  by (rule pods.trans [OF AddOrReplaceInitContainer_grows AddVolumes_grows])

lemma init_names_AddVolumes [simp]: "init_names (AddVolumes vs pod) = init_names pod"
  by (simp add: AddVolumes_def init_names_def)

lemma place_sidecar_names: "init_names (place_sidecar c vs pod) = add_name (kc_name c) (init_names pod)"
  by (simp add: place_sidecar_def AddOrReplaceInitContainer_names)

lemma AddVolumes_present:
  "kv_name ` set vs \<subseteq> kv_name ` set (kp_volumes pod) \<Longrightarrow> AddVolumes vs pod = pod"
proof -
  assume "kv_name ` set vs \<subseteq> kv_name ` set (kp_volumes pod)"
  then have "filter (\<lambda>v. kv_name v \<notin> kv_name ` set (kp_volumes pod)) vs = []"
    by (auto simp: filter_empty_conv)
  then show ?thesis by (simp add: AddVolumes_def)
qed

lemma AddVolumes_names: "kv_name ` set (kp_volumes (AddVolumes vs pod)) = kv_name ` set (kp_volumes pod) \<union> kv_name ` set vs"
  by (auto simp: AddVolumes_def)

lemma AddVolumes_commute:
  "AddVolumes vs (AddOrReplaceInitContainer c pod) = AddOrReplaceInitContainer c (AddVolumes vs pod)"
  by (simp add: AddVolumes_def AddOrReplaceInitContainer_def)

lemma AddOrReplaceInitContainer_twice:
  "AddOrReplaceInitContainer c (AddOrReplaceInitContainer c pod) = AddOrReplaceInitContainer c pod"
  by (simp add: AddOrReplaceInitContainer_def add_or_replace_twice)

lemma place_sidecar_twice: "place_sidecar c vs (place_sidecar c vs pod) = place_sidecar c vs pod"
  by (simp add: place_sidecar_def AddVolumes_commute AddOrReplaceInitContainer_twice AddVolumes_twice)

text \<open>The settings of a configuration that override the defaults of a container.\<close>

definition or_text :: "string \<Rightarrow> string \<Rightarrow> string" where
  "or_text s d = (if s = [] then d else s)"

definition PullIfAbsent :: string where "PullIfAbsent = ''IfNotPresent''"

definition ProtocolTCP :: string where "ProtocolTCP = ''TCP''"

definition apply_resources :: "sidecar_config \<Rightarrow> kcontainer \<Rightarrow> kcontainer" where
  "apply_resources cfg c = (case scf_resources cfg of Some r \<Rightarrow> c\<lparr>kc_resources := r\<rparr> | None \<Rightarrow> c)"

definition apply_security :: "sidecar_config \<Rightarrow> kcontainer \<Rightarrow> kcontainer" where
  "apply_security cfg c = (case scf_security cfg of Some s \<Rightarrow> c\<lparr>kc_security := Some s\<rparr> | None \<Rightarrow> c)"

definition effective_config :: "sidecar_config option \<Rightarrow> sidecar_config" where
  "effective_config cfg = (case cfg of None \<Rightarrow> enabled_config | Some c \<Rightarrow> c)"

definition first_port :: "sidecar_config \<Rightarrow> int \<Rightarrow> int" where
  "first_port cfg port = (case scf_ports cfg of [] \<Rightarrow> port | q # _ \<Rightarrow> cport_number q)"

section \<open>JMX exporter\<close>

definition JMXExporterSidecarName :: string where "JMXExporterSidecarName = ''jmx-exporter''"
definition JMXExporterPort :: int where "JMXExporterPort = 5556"
definition JMXExporterMetricsPath :: string where "JMXExporterMetricsPath = ''/metrics''"
definition JMXExporterConfigVolume :: string where "JMXExporterConfigVolume = ''jmx-exporter-config''"
definition JMXExporterJarPath :: string where
  "JMXExporterJarPath = ''/opt/jmx_exporter/jmx_prometheus_httpserver.jar''"
definition KubedoopConfigDirMount :: string where "KubedoopConfigDirMount = ''/kubedoop/mount/config/''"
definition JMXExporterConfigMountPath :: string where
  "JMXExporterConfigMountPath = KubedoopConfigDirMount @ JMXExporterSidecarName"
definition JMXExporterConfigFileName :: string where "JMXExporterConfigFileName = ''config.yaml''"
definition JMXExporterDefaultConfigMapName :: string where
  "JMXExporterDefaultConfigMapName = ''jmx-exporter-config''"

record jmx_exporter =
  jmx_name :: string
  jmx_port :: int
  jmx_config_map :: string

definition NewJMXExporterSidecarProvider :: jmx_exporter where
  "NewJMXExporterSidecarProvider = \<lparr>jmx_name = JMXExporterSidecarName, jmx_port = JMXExporterPort,
     jmx_config_map = JMXExporterDefaultConfigMapName\<rparr>"

definition jmx_WithPort :: "int \<Rightarrow> jmx_exporter \<Rightarrow> jmx_exporter" where
  "jmx_WithPort port p = p\<lparr>jmx_port := port\<rparr>"

definition jmx_WithConfigMapName :: "string \<Rightarrow> jmx_exporter \<Rightarrow> jmx_exporter" where
  "jmx_WithConfigMapName name p = p\<lparr>jmx_config_map := name\<rparr>"

definition jmx_container :: "jmx_exporter \<Rightarrow> sidecar_config \<Rightarrow> kcontainer" where
  "jmx_container p cfg =
     (let port = first_port cfg (jmx_port p);
          c = empty_container
            \<lparr>kc_name := jmx_name p, kc_image := scf_image cfg,
             kc_pull_policy := or_text (scf_pull_policy cfg) PullIfAbsent,
             kc_ports := [\<lparr>cport_name = ''metrics'', cport_number = port, cport_protocol = ProtocolTCP\<rparr>],
             kc_command := [''java'', ''-jar'', JMXExporterJarPath, int_text port,
               path_join [JMXExporterConfigMountPath, JMXExporterConfigFileName]],
             kc_mounts := [read_only_mount JMXExporterConfigVolume JMXExporterConfigMountPath],
             kc_liveness := Some (timed_probe (http_handler JMXExporterMetricsPath port) 30 10 30 0 6),
             kc_security := Some DefaultSecurityContext\<rparr>
      in (AddVolumeMounts (scf_mounts cfg) (AddEnvVars (scf_env cfg) (ApplyProbes (scf_probes cfg)
           (apply_security cfg (apply_resources cfg c)))))\<lparr>kc_restart_policy := SidecarRestartPolicy\<rparr>)"

definition jmx_volumes :: "jmx_exporter \<Rightarrow> kvolume list" where
  "jmx_volumes p = [\<lparr>kv_name = JMXExporterConfigVolume, kv_source = config_map_source (jmx_config_map p)\<rparr>]"

definition jmx_inject :: "jmx_exporter \<Rightarrow> sidecar_config option \<Rightarrow> (kpod, unit) op" where
  "jmx_inject p config pod =
     (let cfg = effective_config config
      in if scf_image cfg = []
         then (Inl (PlainError (''sidecar '' @ jmx_name p @ '': image is required but not set'')), pod)
         else (Inr (), AddVolumes (scf_volumes cfg) (place_sidecar (jmx_container p cfg) (jmx_volumes p) pod)))"

definition jmx_validate :: "jmx_exporter \<Rightarrow> env \<Rightarrow> unit run" where
  "jmx_validate p env = wrapE (\<lambda>e. Wrapped (FmtErrorf (''jmx-exporter config map '' @ jmx_config_map p @
     '' not found'')) (Some e)) (ValidateConfigMapExists env (jmx_config_map p))"

definition JMXExporterSidecarProvider :: "jmx_exporter \<Rightarrow> provider" where
  "JMXExporterSidecarProvider p = \<lparr>pv_name = jmx_name p, pv_phase = None, pv_owns_image = False,
     pv_inject = jmx_inject p, pv_validate = jmx_validate p\<rparr>"

lemma kept_names [simp]:
  "kc_name (AddVolumeMounts ms c) = kc_name c" "kc_name (AddEnvVars es c) = kc_name c"
  "kc_name (AddOrReplaceEnvVars es c) = kc_name c" "kc_name (ApplyProbes ps c) = kc_name c"
  "kc_name (apply_security cfg c) = kc_name c" "kc_name (apply_resources cfg c) = kc_name c"
  by (simp_all add: AddVolumeMounts_def AddEnvVars_def AddOrReplaceEnvVars_def ApplyProbes_def
      apply_security_def apply_resources_def split: option.split)

lemma jmx_container_name: "kc_name (jmx_container p cfg) = jmx_name p"
  by (simp add: jmx_container_def Let_def)

text \<open>A provider that places its container and two sets of volumes keeps the contract.\<close>

lemma placed_grows: "pod_grows pod (AddVolumes vs' (place_sidecar c vs pod))"
  by (rule pods.trans [OF place_sidecar_grows AddVolumes_grows])

lemma placed_twice:
  "AddVolumes vs' (place_sidecar c vs (AddVolumes vs' (place_sidecar c vs pod))) =
    AddVolumes vs' (place_sidecar c vs pod)"
proof -
  have "AddVolumes vs (AddVolumes vs' (AddVolumes vs q)) = AddVolumes vs' (AddVolumes vs q)" for q
    by (rule AddVolumes_present) (unfold AddVolumes_names, blast)
  then show ?thesis
    by (simp add: place_sidecar_def AddVolumes_commute AddOrReplaceInitContainer_twice AddVolumes_twice)
qed

interpretation jmx: sidecar_provider "JMXExporterSidecarProvider p"
proof
  show "preserves pod_grows (pv_inject (JMXExporterSidecarProvider p) cfg)" for cfg
    by (simp add: preserves_def JMXExporterSidecarProvider_def jmx_inject_def Let_def placed_grows pods.refl)
  show "init_names pod' = add_name (pv_name (JMXExporterSidecarProvider p)) (init_names pod)"
    if "pv_inject (JMXExporterSidecarProvider p) cfg pod = (Inr (), pod')" for cfg pod pod'
    using that by (auto simp: JMXExporterSidecarProvider_def jmx_inject_def Let_def place_sidecar_names
        jmx_container_name split: if_splits)
  show "pv_inject (JMXExporterSidecarProvider p) cfg pod' = (Inr (), pod')"
    if "pv_inject (JMXExporterSidecarProvider p) cfg pod = (Inr (), pod')" for cfg pod pod'
    using that by (auto simp: JMXExporterSidecarProvider_def jmx_inject_def Let_def placed_twice split: if_splits)
qed

section \<open>URLs\<close>

text \<open>\<open>url.URL.String\<close> for a scheme, a host and a path, with the escapes of \<open>net/url\<close>.\<close>

definition hex_digit :: "nat \<Rightarrow> char" where
  "hex_digit n = char_of (if n < 10 then 48 + n else 55 + n)"

definition url_unreserved :: "char \<Rightarrow> bool" where
  "url_unreserved c \<longleftrightarrow> CHR ''a'' \<le> c \<and> c \<le> CHR ''z'' \<or> CHR ''A'' \<le> c \<and> c \<le> CHR ''Z'' \<or>
     CHR ''0'' \<le> c \<and> c \<le> CHR ''9'' \<or> c \<in> set ''-_.~''"

definition url_escape :: "string \<Rightarrow> string \<Rightarrow> string" where
  "url_escape plain s = concat (map (\<lambda>c.
     if url_unreserved c \<or> c \<in> set plain then [c]
     else (let n = of_char c :: nat in [CHR ''%'', hex_digit (n div 16), hex_digit (n mod 16)])) s)"

definition host_plain :: string where
  "host_plain = double_quote # single_quote # ''!$&()*+,;=:[]<>''"

definition path_plain :: string where "path_plain = ''$&+,/:;=@''"

definition escaped_path :: "string \<Rightarrow> string" where
  "escaped_path path = (if path = ''*'' then path else url_escape path_plain path)"

definition url_string :: "string \<Rightarrow> string \<Rightarrow> string \<Rightarrow> string" where
  "url_string scheme host path =
     (scheme @ '':'') @ (if host \<noteq> [] \<or> path \<noteq> [] then ''//'' @ url_escape host_plain host else []) @
     (if path \<noteq> [] \<and> hd path \<noteq> CHR ''/'' \<and> host \<noteq> [] then ''/'' else []) @ escaped_path path"

section \<open>oauth2-proxy\<close>

record oidc_provider =
  oidc_hostname :: string
  oidc_port :: int
  oidc_hint :: string
  oidc_root_path :: string
  oidc_scopes :: "string list"
  oidc_tls :: bool

definition OIDCIssuerURL :: "oidc_provider \<Rightarrow> string" where
  "OIDCIssuerURL o' =
     (let scheme = (if oidc_tls o' then ''https'' else ''http'');
          port = oidc_port o';
          isSchemeDefault = (scheme = ''http'' \<and> port = 80 \<or> scheme = ''https'' \<and> port = 443);
          host = (if port \<noteq> 0 \<and> \<not> isSchemeDefault then oidc_hostname o' @ '':'' @ int_text port
                  else oidc_hostname o')
      in url_string scheme host (oidc_root_path o'))"

definition OAuth2ProxyProviderFor :: "string \<Rightarrow> string" where
  "OAuth2ProxyProviderFor hint =
     (if hint = ''keycloak'' then ''keycloak-oidc'' else if hint = [] then ''oidc'' else hint)"

definition OAuth2ProxySidecarName :: string where "OAuth2ProxySidecarName = ''oauth2-proxy''"
definition OAuth2ProxyPort :: int where "OAuth2ProxyPort = 4180"
definition OAuth2ProxyPortName :: string where "OAuth2ProxyPortName = ''oauth2-proxy''"
definition OAuth2ProxyPingPath :: string where "OAuth2ProxyPingPath = ''/ping''"
definition DefaultOAuth2ProxyImage :: string where
  "DefaultOAuth2ProxyImage = ''quay.io/oauth2-proxy/oauth2-proxy:v7.8.2''"
definition OIDCClientIDKey :: string where "OIDCClientIDKey = ''CLIENT_ID''"
definition OIDCClientSecretKey :: string where "OIDCClientSecretKey = ''CLIENT_SECRET''"
definition OIDCCookieSecretKey :: string where "OIDCCookieSecretKey = ''COOKIE_SECRET''"

definition defaultOIDCScopes :: "string list" where
  "defaultOIDCScopes = [''openid'', ''email'', ''profile'']"

record oauth2_proxy =
  oa_name :: string
  oa_port :: int
  oa_upstream_port :: int
  oa_oidc :: "oidc_provider option"
  oa_credentials :: string
  oa_extra_scopes :: "string list"
  oa_cookie_name :: string
  oa_cookie_key :: string
  oa_email_domains :: "string list"
  oa_allow_all :: bool
  oa_whitelist :: "string list"

text \<open>The options of the constructor.\<close>

datatype oauth2_option =
    WithOAuth2ProxyPort int
  | WithOAuth2ProxyExtraScopes "string list"
  | WithOAuth2ProxyCookieSecretRef "(string \<times> string) option"
  | WithOAuth2ProxyEmailDomains "string list"
  | WithOAuth2ProxyAllowAllEmails
  | WithOAuth2ProxyWhitelistDomains "string list"
  | WithOAuth2ProxyContainerName string

fun apply_oauth2_option :: "oauth2_option \<Rightarrow> oauth2_proxy \<Rightarrow> oauth2_proxy" where
  "apply_oauth2_option (WithOAuth2ProxyPort port) p = p\<lparr>oa_port := port\<rparr>"
| "apply_oauth2_option (WithOAuth2ProxyExtraScopes scopes) p = p\<lparr>oa_extra_scopes := oa_extra_scopes p @ scopes\<rparr>"
| "apply_oauth2_option (WithOAuth2ProxyCookieSecretRef None) p = p"
| "apply_oauth2_option (WithOAuth2ProxyCookieSecretRef (Some (name, key))) p =
     p\<lparr>oa_cookie_name := name, oa_cookie_key := key\<rparr>"
| "apply_oauth2_option (WithOAuth2ProxyEmailDomains ds) p = p\<lparr>oa_email_domains := oa_email_domains p @ ds\<rparr>"
| "apply_oauth2_option WithOAuth2ProxyAllowAllEmails p = p\<lparr>oa_allow_all := True\<rparr>"
| "apply_oauth2_option (WithOAuth2ProxyWhitelistDomains ds) p = p\<lparr>oa_whitelist := oa_whitelist p @ ds\<rparr>"
| "apply_oauth2_option (WithOAuth2ProxyContainerName name) p = p\<lparr>oa_name := name\<rparr>"

definition NewOAuth2ProxySidecarProvider ::
    "oidc_provider option \<Rightarrow> string \<Rightarrow> int \<Rightarrow> oauth2_option list \<Rightarrow> oauth2_proxy" where
  "NewOAuth2ProxySidecarProvider oidc credentials upstream opts = fold apply_oauth2_option opts
     \<lparr>oa_name = OAuth2ProxySidecarName, oa_port = OAuth2ProxyPort, oa_upstream_port = upstream,
      oa_oidc = oidc, oa_credentials = credentials, oa_extra_scopes = [], oa_cookie_name = credentials,
      oa_cookie_key = OIDCCookieSecretKey, oa_email_domains = [], oa_allow_all = False, oa_whitelist = []\<rparr>"

definition validateAuthorization :: "oauth2_proxy \<Rightarrow> err option" where
  "validateAuthorization p =
     (if length (oa_email_domains p) > 0 \<and> oa_allow_all p
      then Some (PlainError (''oauth2-proxy: conflicting authorization policy: '' @
        join_strings '', '' (oa_email_domains p)))
      else if length (oa_email_domains p) = 0 \<and> \<not> oa_allow_all p
      then Some (PlainError ''oauth2-proxy: no authorization policy configured'')
      else None)"

definition emailDomainsValue :: "oauth2_proxy \<Rightarrow> string" where
  "emailDomainsValue p = (if oa_allow_all p then ''*'' else join_strings '','' (oa_email_domains p))"

definition oauth2_env :: "oauth2_proxy \<Rightarrow> oidc_provider \<Rightarrow> int \<Rightarrow> env_var list" where
  "oauth2_env p o' port =
     (let scopes = (if oidc_scopes o' = [] then defaultOIDCScopes else oidc_scopes o') @ oa_extra_scopes p
      in [secret_env ''OAUTH2_PROXY_COOKIE_SECRET'' (oa_cookie_name p) (oa_cookie_key p),
          secret_env ''OAUTH2_PROXY_CLIENT_ID'' (oa_credentials p) OIDCClientIDKey,
          secret_env ''OAUTH2_PROXY_CLIENT_SECRET'' (oa_credentials p) OIDCClientSecretKey,
          value_env ''OAUTH2_PROXY_OIDC_ISSUER_URL'' (OIDCIssuerURL o'),
          value_env ''OAUTH2_PROXY_SCOPE'' (join_strings '' '' scopes),
          value_env ''OAUTH2_PROXY_PROVIDER'' (OAuth2ProxyProviderFor (oidc_hint o')),
          value_env ''OAUTH2_PROXY_UPSTREAMS'' (''http://localhost:'' @ int_text (oa_upstream_port p)),
          value_env ''OAUTH2_PROXY_HTTP_ADDRESS'' (''0.0.0.0:'' @ int_text port),
          value_env ''OAUTH2_PROXY_COOKIE_SECURE'' ''false'',
          value_env ''OAUTH2_PROXY_CODE_CHALLENGE_METHOD'' ''S256'',
          value_env ''OAUTH2_PROXY_EMAIL_DOMAINS'' (emailDomainsValue p)] @
         (if oa_whitelist p \<noteq> []
          then [value_env ''OAUTH2_PROXY_WHITELIST_DOMAINS'' (join_strings '','' (oa_whitelist p))] else []))"

definition oauth2_container :: "oauth2_proxy \<Rightarrow> oidc_provider \<Rightarrow> sidecar_config \<Rightarrow> kcontainer" where
  "oauth2_container p o' cfg =
     (let port = first_port cfg (oa_port p);
          ping = http_handler OAuth2ProxyPingPath port;
          c = empty_container
            \<lparr>kc_name := oa_name p, kc_image := or_text (scf_image cfg) DefaultOAuth2ProxyImage,
             kc_pull_policy := or_text (scf_pull_policy cfg) PullIfAbsent,
             kc_env := oauth2_env p o' port,
             kc_ports := [\<lparr>cport_name = OAuth2ProxyPortName, cport_number = port, cport_protocol = ProtocolTCP\<rparr>],
             kc_resources := \<lparr>rq_requests = fmempty,
               rq_limits = fmupd ''memory'' ''512Mi'' (fmupd ''cpu'' ''600m'' fmempty)\<rparr>,
             kc_readiness := Some (timed_probe ping 0 2 2 0 30),
             kc_liveness := Some (timed_probe ping 0 5 20 0 3),
             kc_security := Some DefaultSecurityContext\<rparr>;
          c' = AddVolumeMounts (scf_mounts cfg) (AddOrReplaceEnvVars (scf_env cfg) (ApplyProbes (scf_probes cfg)
            (apply_security cfg (apply_resources cfg c))))
      in c'\<lparr>kc_ports := (if scf_ports cfg \<noteq> [] then scf_ports cfg else kc_ports c'),
            kc_restart_policy := SidecarRestartPolicy\<rparr>)"

definition oauth2_inject :: "oauth2_proxy \<Rightarrow> sidecar_config option \<Rightarrow> (kpod, unit) op" where
  "oauth2_inject p config pod =
     (case oa_oidc p of
        None \<Rightarrow> (Inl (PlainError ''oauth2-proxy: OIDC provider is required''), pod)
      | Some o' \<Rightarrow> (case validateAuthorization p of
          Some e \<Rightarrow> (Inl e, pod)
        | None \<Rightarrow> (let cfg = effective_config config
                   in (Inr (), place_sidecar (oauth2_container p o' cfg) (scf_volumes cfg) pod))))"

text \<open>The keys of a Secret's data are the parameter \<open>secret_has_key\<close>: the model keeps its content opaque.\<close>

definition oauth2_validate :: "(object \<Rightarrow> string \<Rightarrow> bool) \<Rightarrow> oauth2_proxy \<Rightarrow> env \<Rightarrow> unit run" where
  "oauth2_validate secret_has_key p env =
     (if oa_oidc p = None then throwE (PlainError ''oauth2-proxy: OIDC provider is required'')
      else bindE (wrapE (\<lambda>e. Wrapped (FmtErrorf (''oauth2-proxy client credentials secret '' @
             oa_credentials p @ '' not found'')) (Some e)) (ValidateSecretExists env (oa_credentials p)))
        (\<lambda>_. case validateAuthorization p of
            Some e \<Rightarrow> throwE e
          | None \<Rightarrow> bindE (wrapE (\<lambda>e. Wrapped (FmtErrorf (''oauth2-proxy cookie secret '' @
                oa_cookie_name p @ '' not found'')) (Some e)) (client_get env (KExtra ''Secret'', oa_cookie_name p)))
              (\<lambda>x. if secret_has_key (object.truncate x) (oa_cookie_key p) then returnE ()
                    else throwE (PlainError (''oauth2-proxy cookie secret '' @ oa_cookie_name p @ '' has no '' @
                      oa_cookie_key p @ '' key'')))))"

definition OAuth2ProxyProvider :: "(object \<Rightarrow> string \<Rightarrow> bool) \<Rightarrow> oauth2_proxy \<Rightarrow> provider" where
  "OAuth2ProxyProvider secret_has_key p = \<lparr>pv_name = oa_name p, pv_phase = None, pv_owns_image = True,
     pv_inject = oauth2_inject p, pv_validate = oauth2_validate secret_has_key p\<rparr>"

lemma oauth2_container_name: "kc_name (oauth2_container p o' cfg) = oa_name p"
  by (simp add: oauth2_container_def Let_def)

interpretation oauth2: sidecar_provider "OAuth2ProxyProvider secret_has_key p"
proof
  show "preserves pod_grows (pv_inject (OAuth2ProxyProvider secret_has_key p) cfg)" for cfg
    by (simp add: preserves_def OAuth2ProxyProvider_def oauth2_inject_def Let_def place_sidecar_grows pods.refl
        split: option.split)
  show "init_names pod' = add_name (pv_name (OAuth2ProxyProvider secret_has_key p)) (init_names pod)"
    if "pv_inject (OAuth2ProxyProvider secret_has_key p) cfg pod = (Inr (), pod')" for cfg pod pod'
    using that by (auto simp: OAuth2ProxyProvider_def oauth2_inject_def Let_def place_sidecar_names
        oauth2_container_name split: option.splits)
  show "pv_inject (OAuth2ProxyProvider secret_has_key p) cfg pod' = (Inr (), pod')"
    if "pv_inject (OAuth2ProxyProvider secret_has_key p) cfg pod = (Inr (), pod')" for cfg pod pod'
    using that by (auto simp: OAuth2ProxyProvider_def oauth2_inject_def Let_def place_sidecar_twice
        split: option.splits)
qed

section \<open>The proxy guards what it fronts\<close>

lemma replace_last_set: "set (replace_last e envs) \<subseteq> insert e (set envs)"
  by (induction envs) auto

lemma set_env_fold:
  "x \<in> set (fold (set_env index) nvs envs) \<Longrightarrow> x \<in> set envs \<or> (\<exists>(n, v) \<in> set nvs. x = value_env n v)"
proof (induction nvs arbitrary: envs)
  case (Cons nv nvs)
  then have "x \<in> set (set_env index nv envs) \<or> (\<exists>(n, v) \<in> set nvs. x = value_env n v)" by simp
  moreover have "set (set_env index nv envs) \<subseteq> insert (value_env (fst nv) (snd nv)) (set envs)"
    using replace_last_set by (auto simp: set_env_def)
  ultimately show ?case by (fastforce split: prod.splits)
qed simp

lemma AddOrReplaceEnvVars_kept:
  assumes "x \<in> set (kc_env (AddOrReplaceEnvVars envs c))" and "fmlookup envs (ev_name x) = None"
  shows "x \<in> set (kc_env c)"
proof -
  have "x \<in> set (kc_env c) \<or> (\<exists>(n, v) \<in> set (entries envs). x = value_env n v)"
    by (rule set_env_fold [of x "ev_name ` set (kc_env c)"]) (use assms(1) in \<open>simp add: AddOrReplaceEnvVars_def\<close>)
  then consider "x \<in> set (kc_env c)" | n v where "(n, v) \<in> set (entries envs)" "x = value_env n v"
    by blast
  then show ?thesis using assms(2) by cases (auto simp: value_env_def)
qed

lemma oauth2_container_env:
  "kc_env (oauth2_container p o' cfg) =
    kc_env (AddOrReplaceEnvVars (scf_env cfg) (empty_container\<lparr>kc_env := oauth2_env p o' (first_port cfg (oa_port p))\<rparr>))"
  by (simp add: oauth2_container_def Let_def AddVolumeMounts_def AddOrReplaceEnvVars_def ApplyProbes_def
      apply_security_def apply_resources_def split: option.split)

lemma oauth2_container_ports:
  "cport_number (hd (kc_ports (oauth2_container p o' cfg))) = first_port cfg (oa_port p)"
  by (simp add: oauth2_container_def Let_def AddVolumeMounts_def AddOrReplaceEnvVars_def ApplyProbes_def
      apply_security_def apply_resources_def first_port_def split: option.split list.split)

lemma find_add_or_replace: "find_key kc_name (kc_name c) (add_or_replace c cs) = Some c"
proof (cases "find_key kc_name (kc_name c) cs")
  case (Some d)
  have "find_key kc_name (kc_name c) (update_key kc_name (kc_name c) (\<lambda>_. c) cs) = map_option (\<lambda>_. c) (Some d)"
    unfolding Some [symmetric] by (rule find_key_update_same) simp
  with Some show ?thesis by (simp add: add_or_replace_def)
qed (simp add: add_or_replace_def)


section \<open>An example\<close>

definition keycloak :: oidc_provider where
  "keycloak = \<lparr>oidc_hostname = ''sso'', oidc_port = 0, oidc_hint = ''keycloak'', oidc_root_path = ''/realms/x'',
     oidc_scopes = [''openid''], oidc_tls = True\<rparr>"

definition example_proxy :: oauth2_proxy where
  "example_proxy = (NewOAuth2ProxySidecarProvider (Some keycloak) ''creds'' 8080 [])\<lparr>oa_email_domains := [''x.org'']\<rparr>"


end
