(* ===== verification/VectorProvider.thy ===== *)
theory VectorProvider
  imports SidecarProviders Vector
begin

text \<open>
  The Vector sidecar, \<open>pkg/vector/provider.go\<close>: the agent's container, the shared log volume and its mounts on
  the producers.
\<close>

section \<open>The provider\<close>

definition VectorSidecarName :: string where "VectorSidecarName = ''vector''"
definition VectorConfigMountPath :: string where "VectorConfigMountPath = ''/etc/vector''"
definition VectorDataMountPath :: string where "VectorDataMountPath = ''/kubedoop/vector/var''"
definition VectorDataVolumeSize :: quantity where "VectorDataVolumeSize = ''50Mi''"
definition VectorLogMountPath :: string where "VectorLogMountPath = KubedoopLogDir"
definition DefaultLogVolumeSize :: quantity where "DefaultLogVolumeSize = ''33Mi''"
definition VectorDefaultConfigMapName :: string where "VectorDefaultConfigMapName = ''vector-config''"
definition VectorMetricsPort :: int where "VectorMetricsPort = 9598"
definition VectorMetricsPortName :: string where "VectorMetricsPortName = ''vector-metrics''"
definition VectorMetricsPath :: string where "VectorMetricsPath = ''/metrics''"
definition VectorConfigFileName :: string where "VectorConfigFileName = ''vector.yaml''"

record vector_sidecar =
  vs_name :: string
  vs_image :: string
  vs_config_map :: string
  vs_data_size :: "quantity option"
  vs_log_size :: "quantity option"
  vs_producers :: "container_logging list"

datatype vector_option =
    WithConfigMapName string
  | WithDataVolumeSize quantity
  | WithProducers "container_logging list"
  | WithLogVolumeSize quantity

fun apply_vector_option :: "vector_option \<Rightarrow> vector_sidecar \<Rightarrow> vector_sidecar" where
  "apply_vector_option (WithConfigMapName name) p = p\<lparr>vs_config_map := name\<rparr>"
| "apply_vector_option (WithDataVolumeSize q) p = p\<lparr>vs_data_size := Some q\<rparr>"
| "apply_vector_option (WithProducers ds) p = p\<lparr>vs_producers := ds\<rparr>"
| "apply_vector_option (WithLogVolumeSize q) p = p\<lparr>vs_log_size := Some q\<rparr>"

definition NewVectorSidecarProvider :: "string \<Rightarrow> vector_option list \<Rightarrow> vector_sidecar" where
  "NewVectorSidecarProvider img opts = fold apply_vector_option opts
     \<lparr>vs_name = VectorSidecarName, vs_image = img, vs_config_map = VectorDefaultConfigMapName,
      vs_data_size = None, vs_log_size = None, vs_producers = []\<rparr>"

definition vectorCommand :: "container_logging list \<Rightarrow> string list" where
  "vectorCommand producers =
     (if length producers = 0
      then [VectorSidecarName, ''--config'', VectorConfigMountPath @ ''/'' @ VectorConfigFileName]
      else [''/bin/sh'', ''-c'', ''mkdir -p '' @ join_strings '' '' (map LogDirFor producers) @ '' && exec '' @
        VectorSidecarName @ '' --config '' @ VectorConfigMountPath @ ''/'' @ VectorConfigFileName])"

definition defaultSecurityContext :: security_context where
  "defaultSecurityContext = DefaultSecurityContext\<lparr>sc_read_only_root := Some True\<rparr>"

definition log_mount :: volume_mount where "log_mount = mount VectorLogVolumeName VectorLogMountPath"

definition vector_container :: "vector_sidecar \<Rightarrow> sidecar_config \<Rightarrow> kcontainer" where
  "vector_container p cfg =
     (let c = empty_container
            \<lparr>kc_name := vs_name p, kc_image := or_text (scf_image cfg) (vs_image p),
             kc_pull_policy := or_text (scf_pull_policy cfg) PullIfAbsent,
             kc_command := vectorCommand (vs_producers p),
             kc_mounts := [read_only_mount VectorConfigVolumeName VectorConfigMountPath,
               mount VectorDataVolumeName VectorDataMountPath, log_mount],
             kc_ports := [\<lparr>cport_name = VectorMetricsPortName, cport_number = VectorMetricsPort,
               cport_protocol = ProtocolTCP\<rparr>],
             kc_liveness := Some (timed_probe (http_handler VectorMetricsPath VectorMetricsPort) 15 5 20 0 6),
             kc_security := Some defaultSecurityContext\<rparr>
      in (AddVolumeMounts (scf_mounts cfg) (AddEnvVars (scf_env cfg) (ApplyProbes (scf_probes cfg)
           (apply_security cfg (apply_resources cfg c)))))\<lparr>kc_restart_policy := SidecarRestartPolicy\<rparr>)"

definition vector_volumes :: "vector_sidecar \<Rightarrow> kvolume list" where
  "vector_volumes p =
     [\<lparr>kv_name = VectorConfigVolumeName, kv_source = config_map_source (vs_config_map p)\<rparr>,
      \<lparr>kv_name = VectorDataVolumeName, kv_source = empty_dir_source
         (case vs_data_size p of Some q \<Rightarrow> q | None \<Rightarrow> VectorDataVolumeSize)\<rparr>,
      \<lparr>kv_name = VectorLogVolumeName, kv_source = empty_dir_source
         (case vs_log_size p of Some q \<Rightarrow> q | None \<Rightarrow> DefaultLogVolumeSize)\<rparr>]"

text \<open>Mounting the log volume on the first container and the first init container of a producer's name.\<close>

definition mount_producer :: "string \<Rightarrow> kpod \<Rightarrow> kpod" where
  "mount_producer name pod = pod
     \<lparr>kp_containers := update_key kc_name name (AddVolumeMounts [log_mount]) (kp_containers pod),
      kp_init := update_key kc_name name (AddVolumeMounts [log_mount]) (kp_init pod)\<rparr>"

definition producer_found :: "kpod \<Rightarrow> string \<Rightarrow> bool" where
  "producer_found pod name \<longleftrightarrow> FindContainer pod name \<noteq> None \<or> FindInitContainer pod name \<noteq> None"

fun mount_producers :: "string list \<Rightarrow> string list \<Rightarrow> kpod \<Rightarrow> string list \<times> kpod" where
  "mount_producers unmatched [] pod = (unmatched, pod)"
| "mount_producers unmatched (name # names) pod =
     mount_producers (if producer_found pod name then unmatched else unmatched @ [name]) names
       (mount_producer name pod)"

definition unmatched_error :: "string list \<Rightarrow> err" where
  "unmatched_error names = PlainError (''log producers '' @ join_strings '' '' names @
     '' name no container in this pod'')"

definition vector_inject :: "vector_sidecar \<Rightarrow> sidecar_config option \<Rightarrow> (kpod, unit) op" where
  "vector_inject p config pod =
     (let cfg = effective_config config
      in case ValidateProducers (vs_producers p) of
           Some e \<Rightarrow> (Inl e, pod)
         | None \<Rightarrow>
             if or_text (scf_image cfg) (vs_image p) = []
             then (Inl (PlainError ''vector: no image configured''), pod)
             else (let pod1 = place_sidecar (vector_container p cfg) (vector_volumes p)
                         (AddVolumes (scf_volumes cfg) pod);
                       (unmatched, pod2) = mount_producers [] (map cl_container (vs_producers p)) pod1
                   in if length unmatched > 0 then (Inl (unmatched_error unmatched), pod2) else (Inr (), pod2)))"

definition vector_validate :: "vector_sidecar \<Rightarrow> env \<Rightarrow> unit run" where
  "vector_validate p env = bindE
     (wrapE (\<lambda>e. Wrapped (FmtErrorf (''vector config map '' @ vs_config_map p @ '' not found'')) (Some e))
       (client_get env (KConfigMap, vs_config_map p)))
     (\<lambda>x. case payload x of
         ConfigMap data binary \<Rightarrow> if fmlookup data VectorConfigFileName \<noteq> None then returnE ()
           else throwE (PlainError (''vector config map '' @ vs_config_map p @ '' has no vector.yaml key''))
       | _ \<Rightarrow> throwE (PlainError (''vector config map '' @ vs_config_map p @ '' has no vector.yaml key'')))"

definition VectorSidecarProvider :: "vector_sidecar \<Rightarrow> provider" where
  "VectorSidecarProvider p = \<lparr>pv_name = vs_name p, pv_phase = Some SidecarPhasePipeline,
     pv_owns_image = False, pv_inject = vector_inject p, pv_validate = vector_validate p\<rparr>"

section \<open>The contract\<close>

lemma AddVolumeMounts_added: "mounts_added c (AddVolumeMounts ms c)"
  by (simp add: mounts_added_def AddVolumeMounts_def)

lemma update_mounts_added: "list_all2 mounts_added cs (update_key kc_name name (AddVolumeMounts ms) cs)"
  by (induction cs) (simp_all add: AddVolumeMounts_added)

lemma mount_producer_names [simp]: "init_names (mount_producer name pod) = init_names pod"
  by (simp add: init_names_def mount_producer_def update_key_keys)

lemma mount_producer_grows: "pod_grows pod (mount_producer name pod)"
  using mount_producer_names [of name pod]
  by (simp add: pod_grows_def del: mount_producer_names) (simp add: mount_producer_def update_mounts_added)

lemma mount_producers_grows: "pod_grows pod (snd (mount_producers u names pod))"
  by (induction u names pod rule: mount_producers.induct) (auto intro: pods.refl pods.trans mount_producer_grows)

lemma mount_producers_names: "init_names (snd (mount_producers u names pod)) = init_names pod"
  by (induction u names pod rule: mount_producers.induct) simp_all

lemma vector_container_name: "kc_name (vector_container p cfg) = vs_name p"
  by (simp add: vector_container_def Let_def)

text \<open>The first container of a name, if any, mounts the log volume.\<close>

definition log_mounted :: "string \<Rightarrow> kcontainer list \<Rightarrow> bool" where
  "log_mounted name cs \<longleftrightarrow>
     (case find_key kc_name name cs of None \<Rightarrow> True | Some c \<Rightarrow> VectorLogVolumeName \<in> mount_name ` set (kc_mounts c))"

lemma AddVolumeMounts_log: "VectorLogVolumeName \<in> mount_name ` set (kc_mounts (AddVolumeMounts [log_mount] c))"
  by (simp add: AddVolumeMounts_def log_mount_def mount_def)

lemma AddVolumeMounts_idle:
  "VectorLogVolumeName \<in> mount_name ` set (kc_mounts c) \<Longrightarrow> AddVolumeMounts [log_mount] c = c"
  by (simp add: AddVolumeMounts_def log_mount_def mount_def)

lemma log_mounted_update: "log_mounted name (update_key kc_name name (AddVolumeMounts [log_mount]) cs)"
  unfolding log_mounted_def
  by (subst find_key_update_same) (auto simp: AddVolumeMounts_log split: option.split)

lemma log_mounted_other:
  "log_mounted n cs \<Longrightarrow> log_mounted n (update_key kc_name name (AddVolumeMounts [log_mount]) cs)"
proof (cases "n = name")
  case True
  then show ?thesis by (simp add: log_mounted_update)
next
  case False
  assume "log_mounted n cs"
  then show ?thesis unfolding log_mounted_def by (subst find_key_update_other) (simp_all add: False)
qed

lemma update_log_idle:
  "log_mounted name cs \<Longrightarrow> update_key kc_name name (AddVolumeMounts [log_mount]) cs = cs"
  by (rule update_key_id) (simp add: log_mounted_def AddVolumeMounts_idle)

definition all_mounted :: "string list \<Rightarrow> kpod \<Rightarrow> bool" where
  "all_mounted names pod \<longleftrightarrow>
     (\<forall>n \<in> set names. log_mounted n (kp_containers pod) \<and> log_mounted n (kp_init pod))"

lemma all_mounted_keep: "all_mounted ns pod \<Longrightarrow> all_mounted ns (mount_producer name pod)"
  by (auto simp: all_mounted_def mount_producer_def intro: log_mounted_other)

lemma mount_producers_mounted:
  "all_mounted ns pod \<Longrightarrow> all_mounted (ns @ names) (snd (mount_producers u names pod))"
proof (induction u names pod arbitrary: ns rule: mount_producers.induct)
  case (2 u name names pod)
  then have "all_mounted (ns @ [name]) (mount_producer name pod)"
    using all_mounted_keep [of ns pod name]
    by (simp add: all_mounted_def) (simp add: mount_producer_def log_mounted_update)
  with "2.IH" [of "ns @ [name]"] show ?case by simp
qed simp

lemma mount_producer_idle: "all_mounted [name] pod \<Longrightarrow> mount_producer name pod = pod"
  by (simp add: all_mounted_def mount_producer_def update_log_idle)

lemma find_key_update_none: "find_key kc_name n (update_key kc_name name (AddVolumeMounts ms) cs) = None \<longleftrightarrow>
    find_key kc_name n cs = None"
  by (simp add: find_key_None) (metis (no_types) kept_names(1) list.set_map update_key_keys)

lemma producer_found_mount [simp]: "producer_found (mount_producer name pod) n \<longleftrightarrow> producer_found pod n"
  unfolding producer_found_def FindContainer_def FindInitContainer_def mount_producer_def
  by (simp add: find_key_update_none del: not_None_eq)

lemma mount_producers_found:
  "producer_found (snd (mount_producers u names pod)) n \<longleftrightarrow> producer_found pod n"
  by (induction u names pod rule: mount_producers.induct) simp_all

lemma mount_producers_unmatched:
  "fst (mount_producers u names pod) = u @ filter (\<lambda>n. \<not> producer_found pod n) names"
  by (induction u names pod rule: mount_producers.induct) auto

lemma mount_producers_idle:
  "all_mounted names pod \<Longrightarrow> mount_producers u names pod = (u @ filter (\<lambda>n. \<not> producer_found pod n) names, pod)"
proof (induction u names pod rule: mount_producers.induct)
  case (2 u name names pod)
  then have "mount_producer name pod = pod" by (intro mount_producer_idle) (simp add: all_mounted_def)
  with 2 show ?case by (simp add: all_mounted_def)
qed simp

lemma vector_inject_success:
  assumes "vector_inject p config pod = (Inr (), pod')"
  defines "pod1 \<equiv> place_sidecar (vector_container p (effective_config config)) (vector_volumes p)
    (AddVolumes (scf_volumes (effective_config config)) pod)"
  shows "ValidateProducers (vs_producers p) = None"
    and "or_text (scf_image (effective_config config)) (vs_image p) \<noteq> []"
    and "pod' = snd (mount_producers [] (map cl_container (vs_producers p)) pod1)"
    and "\<forall>d \<in> set (vs_producers p). producer_found pod1 (cl_container d)"
  using assms mount_producers_unmatched [of "[]" "map cl_container (vs_producers p)" pod1]
  by (auto simp: vector_inject_def Let_def filter_empty_conv split: option.splits if_splits prod.splits)

lemma vector_container_log: "VectorLogVolumeName \<in> mount_name ` set (kc_mounts (vector_container p cfg))"
  by (simp add: vector_container_def Let_def AddVolumeMounts_def AddEnvVars_def ApplyProbes_def
      apply_security_def apply_resources_def log_mount_def mount_def split: option.split)

text \<open>The agent's own container keeps its place: it already mounts the log volume.\<close>

lemma mount_producer_keeps:
  assumes "find_key kc_name n (kp_init pod) = Some c" "VectorLogVolumeName \<in> mount_name ` set (kc_mounts c)"
  shows "find_key kc_name n (kp_init (mount_producer name pod)) = Some c"
proof (cases "n = name")
  case True
  with assms have "update_key kc_name name (AddVolumeMounts [log_mount]) (kp_init pod) = kp_init pod"
    by (intro update_log_idle) (simp add: log_mounted_def)
  with assms True show ?thesis by (simp add: mount_producer_def)
next
  case False
  with assms show ?thesis by (simp add: mount_producer_def) (subst find_key_update_other, simp_all)
qed

lemma mount_producers_keeps:
  "find_key kc_name n (kp_init pod) = Some c \<Longrightarrow> VectorLogVolumeName \<in> mount_name ` set (kc_mounts c) \<Longrightarrow>
    find_key kc_name n (kp_init (snd (mount_producers u names pod))) = Some c"
  by (induction u names pod rule: mount_producers.induct) (simp_all add: mount_producer_keeps)

lemma place_sidecar_found: "find_key kc_name (kc_name c) (kp_init (place_sidecar c vs pod)) = Some c"
  using find_add_or_replace [of c] by (simp add: place_sidecar_def AddVolumes_def AddOrReplaceInitContainer_def)

lemma add_or_replace_idle: "find_key kc_name (kc_name c) cs = Some c \<Longrightarrow> add_or_replace c cs = cs"
  unfolding add_or_replace_def by (simp, rule update_key_id, simp)

lemma mount_producer_volumes [simp]: "kp_volumes (mount_producer name pod) = kp_volumes pod"
  by (simp add: mount_producer_def)

lemma mount_producers_volumes [simp]: "kp_volumes (snd (mount_producers u names pod)) = kp_volumes pod"
  by (induction u names pod rule: mount_producers.induct) simp_all

lemma vector_inject_twice:
  assumes "vector_inject p config pod = (Inr (), pod')"
  shows "vector_inject p config pod' = (Inr (), pod')"
proof -
  let ?cfg = "effective_config config" and ?names = "map cl_container (vs_producers p)"
  let ?c = "vector_container p ?cfg"
  let ?pod1 = "place_sidecar ?c (vector_volumes p) (AddVolumes (scf_volumes ?cfg) pod)"
  note s = vector_inject_success [OF assms]
  have vols: "kv_name ` set (scf_volumes ?cfg) \<union> kv_name ` set (vector_volumes p) \<subseteq> kv_name ` set (kp_volumes pod')"
    unfolding s(3) mount_producers_volumes
    by (auto simp: place_sidecar_def AddVolumes_names AddVolumes_commute)
       (auto simp: AddVolumes_def AddOrReplaceInitContainer_def)
  have "find_key kc_name (vs_name p) (kp_init pod') = Some ?c"
    unfolding s(3)
    using mount_producers_keeps [OF place_sidecar_found vector_container_log] by (simp add: vector_container_name)
  then have "AddOrReplaceInitContainer ?c pod' = pod'"
    by (simp add: AddOrReplaceInitContainer_def add_or_replace_idle vector_container_name)
  with vols have same: "place_sidecar ?c (vector_volumes p) (AddVolumes (scf_volumes ?cfg) pod') = pod'"
    by (simp add: place_sidecar_def AddVolumes_present)
  have "all_mounted ?names pod'"
    unfolding s(3) using mount_producers_mounted [of "[]" ?pod1 ?names] by (simp add: all_mounted_def)
  then have "mount_producers [] ?names pod' = (filter (\<lambda>n. \<not> producer_found pod' n) ?names, pod')"
    using mount_producers_idle by fastforce
  moreover have "producer_found pod' n \<longleftrightarrow> producer_found ?pod1 n" for n
    unfolding s(3) by (rule mount_producers_found)
  ultimately show ?thesis
    using s(1,2,4) same by (simp add: vector_inject_def Let_def filter_map comp_def)
qed

interpretation vector: sidecar_provider "VectorSidecarProvider p"
proof
  show "preserves pod_grows (pv_inject (VectorSidecarProvider p) cfg)" for cfg
    unfolding preserves_def
  proof
    fix pod
    let ?cfg = "effective_config cfg"
    let ?pod1 = "place_sidecar (vector_container p ?cfg) (vector_volumes p) (AddVolumes (scf_volumes ?cfg) pod)"
    have 1: "pod_grows pod ?pod1" by (rule pods.trans [OF AddVolumes_grows place_sidecar_grows])
    have "pod_grows pod (snd (mount_producers [] (map cl_container (vs_producers p)) ?pod1))"
      by (rule pods.trans [OF 1 mount_producers_grows])
    then show "pod_grows pod (snd (pv_inject (VectorSidecarProvider p) cfg pod))"
      by (auto simp: VectorSidecarProvider_def vector_inject_def Let_def pods.refl split: option.split prod.split)
  qed
  show "init_names pod' = add_name (pv_name (VectorSidecarProvider p)) (init_names pod)"
    if "pv_inject (VectorSidecarProvider p) cfg pod = (Inr (), pod')" for cfg pod pod'
  proof -
    from that have "vector_inject p cfg pod = (Inr (), pod')" by (simp add: VectorSidecarProvider_def)
    from vector_inject_success(3) [OF this] show ?thesis
      by (simp add: mount_producers_names place_sidecar_names vector_container_name VectorSidecarProvider_def)
  qed
  show "pv_inject (VectorSidecarProvider p) cfg pod' = (Inr (), pod')"
    if "pv_inject (VectorSidecarProvider p) cfg pod = (Inr (), pod')" for cfg pod pod'
    using that vector_inject_twice by (simp add: VectorSidecarProvider_def)
qed

section \<open>The log pipeline\<close>

text \<open>
  C22. A pod the Vector provider has accepted carries the agent, which creates the log directory of every
  producer before it starts; the shared log volume is declared, and every container of a producer's name
  the code addresses mounts it, so no producer writes where nothing collects.
\<close>

theorem vector_inject_complete:
  assumes "vector_inject p config pod = (Inr (), pod')"
  shows "VectorLogVolumeName \<in> kv_name ` set (kp_volumes pod') \<and>
    (\<exists>c. FindInitContainer pod' (vs_name p) = Some c \<and> kc_command c = vectorCommand (vs_producers p) \<and>
      VectorLogVolumeName \<in> mount_name ` set (kc_mounts c)) \<and>
    (\<forall>d \<in> set (vs_producers p). producer_found pod' (cl_container d) \<and>
      (\<forall>c. FindContainer pod' (cl_container d) = Some c \<or> FindInitContainer pod' (cl_container d) = Some c \<longrightarrow>
        VectorLogVolumeName \<in> mount_name ` set (kc_mounts c)))"
proof -
  let ?cfg = "effective_config config" and ?names = "map cl_container (vs_producers p)"
  let ?c = "vector_container p ?cfg"
  let ?pod1 = "place_sidecar ?c (vector_volumes p) (AddVolumes (scf_volumes ?cfg) pod)"
  note s = vector_inject_success [OF assms]
  have "VectorLogVolumeName \<in> kv_name ` set (kp_volumes pod')"
    unfolding s(3) mount_producers_volumes
    by (simp add: place_sidecar_def AddVolumes_names) (simp add: vector_volumes_def)
  moreover have "FindInitContainer pod' (vs_name p) = Some ?c"
    unfolding s(3) FindInitContainer_def
    using mount_producers_keeps [OF place_sidecar_found vector_container_log] by (simp add: vector_container_name)
  moreover have "kc_command ?c = vectorCommand (vs_producers p)"
    by (simp add: vector_container_def Let_def AddVolumeMounts_def AddEnvVars_def ApplyProbes_def
        apply_security_def apply_resources_def split: option.split)
  moreover have "all_mounted ?names pod'"
    unfolding s(3) using mount_producers_mounted [of "[]" ?pod1 ?names] by (simp add: all_mounted_def)
  then have "\<forall>d \<in> set (vs_producers p).
      \<forall>c. FindContainer pod' (cl_container d) = Some c \<or> FindInitContainer pod' (cl_container d) = Some c \<longrightarrow>
        VectorLogVolumeName \<in> mount_name ` set (kc_mounts c)"
    by (auto simp: all_mounted_def log_mounted_def FindContainer_def FindInitContainer_def)
  moreover have "producer_found pod' n \<longleftrightarrow> producer_found ?pod1 n" for n
    unfolding s(3) by (rule mount_producers_found)
  ultimately show ?thesis using s(4) vector_container_log by auto
qed

section \<open>An example\<close>

definition example_vector :: vector_sidecar where
  "example_vector = NewVectorSidecarProvider ''img'' [WithProducers
     [\<lparr>cl_container = ''main'', cl_framework = ''python'', cl_file_name = [], cl_pattern = [],
       cl_log_file_name = [], cl_log_dir_name = []\<rparr>]]"

theorem vector_inject_complete_witness:
  "\<exists>pod'. vector_inject example_vector (Some enabled_config) main_pod = (Inr (), pod') \<and>
    VectorLogVolumeName \<in> kv_name ` set (kp_volumes pod')"
proof -
  obtain r pod' where inject: "vector_inject example_vector (Some enabled_config) main_pod = (r, pod')" by fastforce
  have "fst (vector_inject example_vector (Some enabled_config) main_pod) = Inr ()" by code_simp
  with inject have "vector_inject example_vector (Some enabled_config) main_pod = (Inr (), pod')" by simp
  with vector_inject_complete [OF this] show ?thesis by blast
qed
end
