(* ===== verification/VectorConfig.thy ===== *)
theory VectorConfig
  imports VectorProvider LogFiles
begin

text \<open>
  The configuration file of the Vector agent: \<open>pkg/vector/config.go\<close> and the template of
  \<open>config_template.go\<close>, line by line. \<open>text/template\<close> is only used to put values into places.
\<close>

section \<open>Escapes\<close>

definition VectorAPIPort :: int where "VectorAPIPort = 8686"

record vector_config_data =
  vd_log_dir :: string
  vd_address :: string
  vd_namespace :: string
  vd_cluster :: string
  vd_role :: string
  vd_group :: string

definition quoteDoubleQuoted :: "string \<Rightarrow> string" where
  "quoteDoubleQuoted s = [double_quote] @
     replacer [(bs, [bs, bs]), (double_quote, [bs, double_quote]), (newline, bs # ''n''),
       (carriage_return, bs # ''r''), (tab, bs # ''t'')] s @ [double_quote]"

text \<open>\<open>regexp.QuoteMeta\<close>.\<close>

definition QuoteMeta :: "string \<Rightarrow> string" where
  "QuoteMeta s = concat (map (\<lambda>c. if c \<in> set (bs # ''.+*?()|[]{}^$'') then [bs, c] else [c]) s)"

section \<open>The template\<close>

definition vector_sources :: "vector_config_data \<Rightarrow> string list" where
  "vector_sources data =
     [''api:'',
      ''  enabled: true'',
      ''  address: 0.0.0.0:'' @ int_text VectorAPIPort,
      ''  playground: false'',
      ''data_dir: /kubedoop/vector/var'',
      ''log_schema:'',
      ''  host_key: \"pod\"'',
      ''sources:'',
      ''  vector:'',
      ''    type: internal_logs'',
      [],
      ''  internal_metrics:'',
      ''    type: internal_metrics'',
      [],
      ''  files_stdout:'',
      ''    type: file'',
      ''    include:'',
      ''      - '' @ vd_log_dir data @ ''*/*.stdout.log'',
      [],
      ''  files_stderr:'',
      ''    type: file'',
      ''    include:'',
      ''      - '' @ vd_log_dir data @ ''*/*.stderr.log'',
      [],
      ''  files_log4j:'',
      ''    type: file'',
      ''    include:'',
      ''      - '' @ vd_log_dir data @ ''*/*'' @ LogFileSuffix ''log4j'',
      ''    line_delimiter: \"'' @ [bs] @ ''r'' @ [bs] @ ''n\"'',
      ''    multiline:'',
      ''      mode: halt_before'',
      ''      start_pattern: ^<log4j:event'',
      ''      condition_pattern: ^<log4j:event'',
      ''      timeout_ms: 1000'',
      [],
      ''  files_log4j2:'',
      ''    type: file'',
      ''    include:'',
      ''      - '' @ vd_log_dir data @ ''*/*'' @ LogFileSuffix ''log4j2'',
      ''    line_delimiter: \"'' @ [bs] @ ''r'' @ [bs] @ ''n\"'',
      [],
      ''  files_py:'',
      ''    type: file'',
      ''    include:'',
      ''      - '' @ vd_log_dir data @ ''*/*'' @ LogFileSuffix ''python'',
      [],
      ''  files_airlift:'',
      ''    type: file'',
      ''    include:'',
      ''      - '' @ vd_log_dir data @ ''*/*.airlift.json'',
      []]"

definition vector_log4j_transforms :: "string list" where
  "vector_log4j_transforms =
     [''transforms:'',
      ''  processed_files_stdout:'',
      ''    inputs:'',
      ''      - files_stdout'',
      ''    type: remap'',
      ''    source: |'',
      ''      .logger = \"ROOT\"'',
      ''      .level = \"INFO\"'',
      [],
      ''  processed_files_stderr:'',
      ''    inputs:'',
      ''      - files_stderr'',
      ''    type: remap'',
      ''    source: |'',
      ''      .logger = \"ROOT\"'',
      ''      .level = \"ERROR\"'',
      [],
      ''  processed_files_log4j:'',
      ''    inputs:'',
      ''      - files_log4j'',
      ''    type: remap'',
      ''    source: |'',
      ''      raw_message = string!(.message)'',
      [],
      ''      .timestamp = now()'',
      ''      .logger = \"\"'',
      ''      .level = \"INFO\"'',
      ''      .message = \"\"'',
      ''      .errors = []'',
      [],
      ''      # Wrap the event so that the log4j namespace is defined when parsing the event'',
      ''      wrapped_xml_event = \"<root xmlns:log4j='' @ [bs] @ ''\"http://jakarta.apache.org/log4j/'' @ [bs] @ ''\">\" + raw_message + \"</root>\"'',
      ''      parsed_event, err = parse_xml(wrapped_xml_event)'',
      ''      if err != null {'',
      ''        error = \"XML not parsable: \" + err'',
      ''        .errors = push(.errors, error)'',
      ''        log(error, level: \"warn\")'',
      ''        .message = raw_message'',
      ''      } else {'',
      ''        root = object!(parsed_event.root)'',
      ''        if !is_object(root.event) {'',
      ''          error = \"Parsed event contains no '' @ [bs] @ ''\"event'' @ [bs] @ ''\" tag.\"'',
      ''          .errors = push(.errors, error)'',
      ''          log(error, level: \"warn\")'',
      ''          .message = raw_message'',
      ''        } else {'',
      ''          if keys(root) != [\"event\"] {'',
      ''            .errors = push(.errors, \"Parsed event contains multiple tags: \" + join!(keys(root), \", \"))'',
      ''          }'',
      ''          event = object!(root.event)'',
      [],
      ''          epoch_milliseconds, err = to_int(event.@timestamp)'',
      ''          if err == null && epoch_milliseconds != 0 {'',
      ''            converted_timestamp, err = from_unix_timestamp(epoch_milliseconds, \"milliseconds\")'',
      ''            if err == null {'',
      ''              .timestamp = converted_timestamp'',
      ''            } else {'',
      ''              .errors = push(.errors, \"Time not parsable, using current time instead: \" + err)'',
      ''            }'',
      ''          } else {'',
      ''            .errors = push(.errors, \"Timestamp not found, using current time instead.\")'',
      ''          }'',
      [],
      ''          .logger, err = string(event.@logger)'',
      ''          if err != null || is_empty(.logger) {'',
      ''            .errors = push(.errors, \"Logger not found.\")'',
      ''          }'',
      [],
      ''          level, err = string(event.@level)'',
      ''          if err != null {'',
      ''            .errors = push(.errors, \"Level not found, using '' @ [bs] @ ''\"\" + .level + \"'' @ [bs] @ ''\" instead.\")'',
      ''          } else if !includes([\"TRACE\", \"DEBUG\", \"INFO\", \"WARN\", \"ERROR\", \"FATAL\"], level) {'',
      ''            .errors = push(.errors, \"Level '' @ [bs] @ ''\"\" + level + \"'' @ [bs] @ ''\" unknown, using '' @ [bs] @ ''\"\" + .level + \"'' @ [bs] @ ''\" instead.\")'',
      ''          } else {'',
      ''            .level = level'',
      ''          }'',
      [],
      ''          message, err = string(event.message)'',
      ''          if err != null || is_empty(message) {'',
      ''            .errors = push(.errors, \"Message not found.\")'',
      ''          }'',
      ''          throwable = string(event.throwable) ?? \"\"'',
      ''          .message = join!(compact([message, throwable]), \"'' @ [bs] @ ''n\")'',
      ''        }'',
      ''      }'',
      []]"

definition vector_log4j2_transform :: "string list" where
  "vector_log4j2_transform =
     [''  processed_files_log4j2:'',
      ''    inputs:'',
      ''      - files_log4j2'',
      ''    type: remap'',
      ''    source: |'',
      ''      raw_message = string!(.message)'',
      [],
      ''      .timestamp = now()'',
      ''      .logger = \"\"'',
      ''      .level = \"INFO\"'',
      ''      .message = \"\"'',
      ''      .errors = []'',
      [],
      ''      event = {}'',
      ''      parsed_event, err = parse_xml(raw_message)'',
      ''      if err != null {'',
      ''        error = \"XML not parsable: \" + err'',
      ''        .errors = push(.errors, error)'',
      ''        log(error, level: \"warn\")'',
      ''        .message = raw_message'',
      ''      } else {'',
      ''        if !is_object(parsed_event.Event) {'',
      ''          error = \"Parsed event contains no '' @ [bs] @ ''\"Event'' @ [bs] @ ''\" tag.\"'',
      ''          .errors = push(.errors, error)'',
      ''          log(error, level: \"warn\")'',
      ''          .message = raw_message'',
      ''        } else {'',
      ''          event = object!(parsed_event.Event)'',
      [],
      ''          tag_instant_valid = false'',
      ''          instant, err = object(event.Instant)'',
      ''          if err == null {'',
      ''            epoch_nanoseconds, err = to_int(instant.@epochSecond) * 1_000_000_000 + to_int(instant.@nanoOfSecond)'',
      ''            if err == null && epoch_nanoseconds != 0 {'',
      ''              converted_timestamp, err = from_unix_timestamp(epoch_nanoseconds, \"nanoseconds\")'',
      ''              if err == null {'',
      ''                .timestamp = converted_timestamp'',
      ''                tag_instant_valid = true'',
      ''              } else {'',
      ''                .errors = push(.errors, \"Instant invalid, trying property timeMillis instead: \" + err)'',
      ''              }'',
      ''            } else {'',
      ''              .errors = push(.errors, \"Instant invalid, trying property timeMillis instead: \" + err)'',
      ''            }'',
      ''          }'',
      ''          if !tag_instant_valid {'',
      ''            epoch_milliseconds, err = to_int(event.@timeMillis)'',
      ''            if err == null && epoch_milliseconds != 0 {'',
      ''              converted_timestamp, err = from_unix_timestamp(epoch_milliseconds, \"milliseconds\")'',
      ''              if err == null {'',
      ''                .timestamp = converted_timestamp'',
      ''              } else {'',
      ''                .errors = push(.errors, \"timeMillis not parsable, using current time instead: \" + err)'',
      ''              }'',
      ''            } else {'',
      ''              .errors = push(.errors, \"timeMillis not parsable, using current time instead: \" + err)'',
      ''            }'',
      ''          }'',
      [],
      ''          .logger, err = string(event.@loggerName)'',
      ''          if err != null || is_empty(.logger) {'',
      ''            .errors = push(.errors, \"Logger not found.\")'',
      ''          }'',
      [],
      ''          level, err = string(event.@level)'',
      ''          if err != null {'',
      ''            .errors = push(.errors, \"Level not found, using '' @ [bs] @ ''\"\" + .level + \"'' @ [bs] @ ''\" instead.\")'',
      ''          } else if !includes([\"TRACE\", \"DEBUG\", \"INFO\", \"WARN\", \"ERROR\", \"FATAL\"], level) {'',
      ''            .errors = push(.errors, \"Level '' @ [bs] @ ''\"\" + level + \"'' @ [bs] @ ''\" unknown, using '' @ [bs] @ ''\"\" + .level + \"'' @ [bs] @ ''\" instead.\")'',
      ''          } else {'',
      ''            .level = level'',
      ''          }'',
      [],
      ''          exception = null'',
      ''          thrown = event.Thrown'',
      ''          if is_object(thrown) {'',
      ''            exception = \"Exception\"'',
      ''            thread, err = string(event.@thread)'',
      ''            if err == null && !is_empty(thread) {'',
      ''              exception = exception + \" in thread '' @ [bs] @ ''\"\" + thread + \"'' @ [bs] @ ''\"\"'',
      ''            }'',
      ''            thrown_name, err = string(thrown.@name)'',
      ''            if err == null && !is_empty(exception) {'',
      ''              exception = exception + \" \" + thrown_name'',
      ''            }'',
      ''            message = string(thrown.@localizedMessage) ??'',
      ''              string(thrown.@message) ??'',
      ''              \"\"'',
      ''            if !is_empty(message) {'',
      ''              exception = exception + \": \" + message'',
      ''            }'',
      ''            stacktrace_items = array(thrown.ExtendedStackTrace.ExtendedStackTraceItem) ?? []'',
      ''            stacktrace = \"\"'',
      ''            for_each(stacktrace_items) -> |_index, value| {'',
      ''              stacktrace = stacktrace + \"        \"'',
      ''              class = string(value.@class) ?? \"\"'',
      ''              method = string(value.@method) ?? \"\"'',
      ''              if !is_empty(class) && !is_empty(method) {'',
      ''                stacktrace = stacktrace + \"at \" + class + \".\" + method'',
      ''              }'',
      ''              file = string(value.@file) ?? \"\"'',
      ''              line = string(value.@line) ?? \"\"'',
      ''              if !is_empty(file) && !is_empty(line) {'',
      ''                stacktrace = stacktrace + \"(\" + file + \":\" + line + \")\"'',
      ''              }'',
      ''              exact = to_bool(value.@exact) ?? false'',
      ''              location = string(value.@location) ?? \"\"'',
      ''              version = string(value.@version) ?? \"\"'',
      ''              if !is_empty(location) && !is_empty(version) {'',
      ''                stacktrace = stacktrace + \" \"'',
      ''                if !exact {'',
      ''                  stacktrace = stacktrace + \"~\"'',
      ''                }'',
      ''                stacktrace = stacktrace + \"[\" + location + \":\" + version + \"]\"'',
      ''              }'',
      ''              stacktrace = stacktrace + \"'' @ [bs] @ ''n\"'',
      ''            }'',
      ''            if stacktrace != \"\" {'',
      ''              exception = exception + \"'' @ [bs] @ ''n\" + stacktrace'',
      ''            }'',
      ''          }'',
      [],
      ''          message, err = string(event.Message)'',
      ''          if err != null || is_empty(message) {'',
      ''            message = null'',
      ''            .errors = push(.errors, \"Message not found.\")'',
      ''          }'',
      ''          .message = join!(compact([message, exception]), \"'' @ [bs] @ ''n\")'',
      ''        }'',
      ''      }'',
      []]"

definition vector_pipeline :: "vector_config_data \<Rightarrow> string list" where
  "vector_pipeline data =
     [''  processed_files_py:'',
      ''    inputs:'',
      ''      - files_py'',
      ''    type: remap'',
      ''    source: |'',
      ''      raw_message = string!(.message)'',
      [],
      ''      .timestamp = now()'',
      ''      .logger = \"\"'',
      ''      .level = \"INFO\"'',
      ''      .message = \"\"'',
      ''      .errors = []'',
      [],
      ''      parsed_event, err = parse_json(raw_message)'',
      ''      if err != null {'',
      ''        error = \"JSON not parsable: \" + err'',
      ''        .errors = push(.errors, error)'',
      ''        log(error, level: \"warn\")'',
      ''        .message = raw_message'',
      ''      } else if !is_object(parsed_event) {'',
      ''        error = \"Parsed event is not a JSON object.\"'',
      ''        .errors = push(.errors, error)'',
      ''        log(error, level: \"warn\")'',
      ''        .message = raw_message'',
      ''      } else {'',
      ''        event = object!(parsed_event)'',
      [],
      ''        asctime, err = string(event.asctime)'',
      ''        if err == null {'',
      ''          parsed_timestamp, err = parse_timestamp(asctime, \"%F %T,%3f\")'',
      ''          if err == null {'',
      ''            .timestamp = parsed_timestamp'',
      ''          } else {'',
      ''            .errors = push(.errors, \"Timestamp not parsable, using current time instead: \" + err)'',
      ''          }'',
      ''        } else {'',
      ''          .errors = push(.errors, \"Timestamp not found, using current time instead.\")'',
      ''        }'',
      [],
      ''        .logger, err = string(event.name)'',
      ''        if err != null || is_empty(.logger) {'',
      ''          .errors = push(.errors, \"Logger not found.\")'',
      ''        }'',
      [],
      ''        level, err = string(event.levelname)'',
      ''        if err != null {'',
      ''          .errors = push(.errors, \"Level not found, using '' @ [bs] @ ''\"\" + .level + \"'' @ [bs] @ ''\" instead.\")'',
      ''        } else if level == \"DEBUG\" {'',
      ''          .level = \"DEBUG\"'',
      ''        } else if level == \"INFO\" {'',
      ''          .level = \"INFO\"'',
      ''        } else if level == \"WARNING\" {'',
      ''          .level = \"WARN\"'',
      ''        } else if level == \"ERROR\" {'',
      ''          .level = \"ERROR\"'',
      ''        } else if level == \"CRITICAL\" {'',
      ''          .level = \"FATAL\"'',
      ''        } else {'',
      ''          .errors = push(.errors, \"Level '' @ [bs] @ ''\"\" + level + \"'' @ [bs] @ ''\" unknown, using '' @ [bs] @ ''\"\" + .level + \"'' @ [bs] @ ''\" instead.\")'',
      ''        }'',
      [],
      ''        .message, err = string(event.message)'',
      ''        if err != null || is_empty(.message) {'',
      ''          .errors = push(.errors, \"Message not found.\")'',
      ''        }'',
      ''      }'',
      [],
      ''  processed_files_airlift:'',
      ''    inputs:'',
      ''      - files_airlift'',
      ''    type: remap'',
      ''    source: |'',
      ''      parsed_event = parse_json!(string!(.message))'',
      ''      .message = join!(compact([parsed_event.message, parsed_event.stackTrace]), \"'' @ [bs] @ ''n\")'',
      ''      .timestamp = parse_timestamp!(parsed_event.timestamp, \"%Y-%m-%dT%H:%M:%S.%fZ\")'',
      ''      .logger = parsed_event.logger'',
      ''      .level = parsed_event.level'',
      ''      .thread = parsed_event.thread'',
      [],
      ''  extended_logs_files:'',
      ''    inputs:'',
      ''      - processed_files_*'',
      ''    type: remap'',
      ''    source: |'',
      ''      . |= parse_regex!(.file, r'^'' @ QuoteMeta (vd_log_dir data) @ ''(?P<container>.*?)/(?P<file>.*?)$')'',
      ''      del(.source_type)'',
      [],
      ''  extended_logs:'',
      ''    inputs:'',
      ''      - extended_logs_*'',
      ''    type: remap'',
      ''    source: |'',
      ''      .namespace = '' @ quoteDoubleQuoted (vd_namespace data),
      ''      .cluster = '' @ quoteDoubleQuoted (vd_cluster data),
      ''      .role = '' @ quoteDoubleQuoted (vd_role data),
      ''      .roleGroup = '' @ quoteDoubleQuoted (vd_group data),
      [],
      ''sinks:'',
      ''  aggregator:'',
      ''    inputs:'',
      ''      - extended_logs'',
      ''    type: vector'',
      ''    address: '' @ quoteDoubleQuoted (vd_address data),
      [],
      ''  metrics:'',
      ''    inputs:'',
      ''      - internal_metrics'',
      ''    type: prometheus_exporter'',
      ''    address: 0.0.0.0:'' @ int_text VectorMetricsPort]"

section \<open>Rendering\<close>

definition RenderVectorConfig :: "vector_config_data \<Rightarrow> err + string" where
  "RenderVectorConfig data =
     (if vd_address data = [] then Inl (PlainError ''AggregatorAddress is required'')
      else if vd_log_dir data = [] then Inl (PlainError ''LogDir is required'')
      else if list_ex (\<lambda>c. c \<in> {newline, carriage_return, double_quote, single_quote}) (vd_log_dir data)
      then Inl (PlainError (''LogDir '' @ vd_log_dir data @ '' must not contain line breaks or quotes''))
      else (let d = data\<lparr>vd_log_dir := TrimRight slash (vd_log_dir data) @ ''/''\<rparr>
            in Inr (text_lines (vector_sources d @ vector_log4j_transforms @ vector_log4j2_transform @
                 vector_pipeline d))))"

section \<open>What the quotes guarantee\<close>

definition read_scalar :: "string \<Rightarrow> (string \<times> string) option" where
  "read_scalar = read_literal double_quote (literal_escape double_quote)"

text \<open>
  Whatever the cluster, the role or the aggregator address contain, the quoted scalar reads back as that
  value and ends where the renderer ended it: no input breaks out of its place in the file.
\<close>

theorem quoteDoubleQuoted_read: "read_scalar (quoteDoubleQuoted s @ rest) = Some (s, rest)"
proof -
  have "read_literal double_quote (literal_escape double_quote) (quoteDoubleQuoted s @ rest) = Some (s, rest)"
    unfolding quoteDoubleQuoted_def replacer_def append_assoc
    by (rule read_literal_written) (auto simp: literal_escape_def text_chars)
  then show ?thesis by (simp add: read_scalar_def)
qed

text \<open>The directory in the source patterns ends with exactly one slash.\<close>

lemma rendered_log_dir:
  "\<exists>body. TrimRight slash dir @ ''/'' = body @ [slash] \<and> (body = [] \<or> last body \<noteq> slash)"
  using TrimRight_last [of slash dir] by (auto simp: slash_def)

end
