(* ===== verification/HandlerLogging.thy ===== *)
theory HandlerLogging
  imports HandlerLabels VectorConfig
begin

text \<open>
  The context the base handler builds a role group from, and the logging entries of its ConfigMap: the
  second half of \<open>pkg/reconciler/role_group_handler.go\<close>.

  \<open>BuildContext\<close> describes the context up to the point where the handler takes over; there the sidecar
  manager is the declaration of the Vector provider, which \<open>reconciler_manager\<close> registers here.
\<close>

section \<open>The handler's context\<close>

type_synonym volume_provider = "kvolume list \<times> volume_mount list"

record handler_context = "ktemplate build_context" +
  hc_manager :: "sidecar_manager option"
  hc_volume_providers :: "volume_provider option list"
  hc_pipeline :: "bool option"

definition vector_options :: "vector_provider \<Rightarrow> vector_option list" where
  "vector_options v = [WithConfigMapName (vp_config_map v), WithProducers (vp_producers v)] @
     (if vp_log_volume_size v \<noteq> [] then [WithLogVolumeSize (vp_log_volume_size v)] else [])"

text \<open>The manager of \<open>buildSidecarManager\<close>.\<close>

definition reconciler_manager :: "vector_provider option \<Rightarrow> sidecar_manager" where
  "reconciler_manager vector =
     (case vector of
        None \<Rightarrow> NewSidecarManager
      | Some v \<Rightarrow> Register (VectorSidecarProvider (NewVectorSidecarProvider [] (vector_options v)))
          (Some enabled_config) NewSidecarManager)"

definition handler_context_of :: "ktemplate build_context \<Rightarrow> handler_context" where
  "handler_context_of ctx = build_context.extend ctx
     (handler_context.fields (Some (reconciler_manager (bc_sidecars ctx))) [] (Some (bc_vector_active ctx)))"

definition vectorLogPipelineActive :: "handler_context \<Rightarrow> bool" where
  "vectorLogPipelineActive ctx \<longleftrightarrow>
     vectorEnabledFor ctx \<and> (case hc_pipeline ctx of None \<Rightarrow> True | Some b \<Rightarrow> b)"

definition EffectiveConfig :: "('pod, 'z) build_context_scheme \<Rightarrow> role_group_config_spec" where
  "EffectiveConfig ctx = RoleGroupSpec_GetConfig (bc_group_spec ctx)"

section \<open>Logging entries\<close>

definition ContainerLogging :: "('pod, 'z) build_context_scheme \<Rightarrow> string \<Rightarrow> logging_config_spec option" where
  "ContainerLogging ctx name =
     (case (case logging (RoleGroupSpec_GetConfig (bc_group_spec ctx)) of
              Some l \<Rightarrow> Some l
            | None \<Rightarrow> Option.bind (bc_merged ctx) MergedLogging) of
        None \<Rightarrow> None
      | Some l \<Rightarrow> fmlookup (go_map (log_containers l)) name)"

definition RenderContainerLogging :: "handler_context \<Rightarrow> container_logging \<Rightarrow> (err + string \<times> string) option" where
  "RenderContainerLogging ctx d =
     RenderConfigFile (ContainerLogging ctx (cl_container d)) d (vectorLogPipelineActive ctx)"

text \<open>The loop over the producers; \<open>None\<close> is a rendering that does not end.\<close>

fun render_producers ::
    "handler_context \<Rightarrow> string gomap \<Rightarrow> container_logging list \<Rightarrow> (err + string gomap) option" where
  "render_producers ctx data [] = Some (Inr data)"
| "render_producers ctx data (d # ds) =
     (if cl_framework d = [] then render_producers ctx data ds
      else (case RenderContainerLogging ctx d of
          None \<Rightarrow> None
        | Some (Inl e) \<Rightarrow> Some (Inl (Wrapped (FmtErrorf
            (''failed to render logging config for container '' @ cl_container d)) (Some e)))
        | Some (Inr (filename, content)) \<Rightarrow>
            if fmlookup data filename \<noteq> None
            then Some (Inl (PlainError (''logging config file '' @ filename @ '' for container '' @
              cl_container d @ '' collides with another logging entry'')))
            else render_producers ctx (fmupd filename content data) ds))"

definition vector_data :: "handler_context \<Rightarrow> vector_config_data" where
  "vector_data ctx = \<lparr>vd_log_dir = KubedoopLogDir, vd_address = bc_aggregator ctx,
     vd_namespace = bc_namespace ctx, vd_cluster = bc_cluster_name ctx, vd_role = bc_role ctx,
     vd_group = bc_group ctx\<rparr>"

definition add_vector_config :: "handler_context \<Rightarrow> string gomap \<Rightarrow> err + string gomap" where
  "add_vector_config ctx data =
     (if vectorLogPipelineActive ctx \<and> bc_aggregator ctx \<noteq> []
      then (case RenderVectorConfig (vector_data ctx) of
          Inl e \<Rightarrow> Inl (Wrapped (FmtErrorf ''failed to render vector config'') (Some e))
        | Inr content \<Rightarrow>
            if fmlookup data VectorConfigFileName \<noteq> None
            then Inl (PlainError (''vector config file '' @ VectorConfigFileName @
              '' collides with a logging config file''))
            else Inr (fmupd VectorConfigFileName content data))
      else Inr data)"

definition RenderLoggingConfigMapData ::
    "handler_context \<Rightarrow> container_logging list \<Rightarrow> (err + string gomap) option" where
  "RenderLoggingConfigMapData ctx producers =
     (case ValidateProducers producers of
        Some e \<Rightarrow> Some (Inl (NewValidationError ''logging'' (bc_role ctx) (bc_group ctx) (Some e)))
      | None \<Rightarrow> (case render_producers ctx fmempty producers of
          None \<Rightarrow> None
        | Some (Inl e) \<Rightarrow> Some (Inl e)
        | Some (Inr data) \<Rightarrow> Some (add_vector_config ctx data)))"

definition LogFileTarget :: "handler_context \<Rightarrow> container_logging \<Rightarrow> string" where
  "LogFileTarget ctx d =
     (if \<not> vectorLogPipelineActive ctx then []
      else (let name = (if cl_log_file_name d = []
                        then ContainerLogFileName (cl_framework d) (cl_container d) else cl_log_file_name d)
            in if name = [] then [] else path_join [LogDirFor d, name]))"

section \<open>Properties\<close>

text \<open>Rendering always ends.\<close>

lemma Render_total: "Render gen cfg opts \<noteq> None"
proof -
  have "log4j2LoggerIDs names \<noteq> None" for names
    using logger_ids_found [of "[]" names] by (auto simp: log4j2LoggerIDs_def)
  then have "renderLog4j2 cfg opts \<noteq> None"
    by (simp add: renderLog4j2_def Let_def split: option.split del: not_None_eq)
  then show ?thesis by (cases gen) simp_all
qed

lemma RenderConfigFile_total: "RenderConfigFile spec d file \<noteq> None"
  using Render_total by (auto simp: RenderConfigFile_def Let_def split: sum.split option.split)

lemma render_producers_total: "render_producers ctx data ds \<noteq> None"
  by (induction ds arbitrary: data)
     (auto simp: RenderContainerLogging_def RenderConfigFile_total split: option.split sum.split)

lemma RenderLoggingConfigMapData_total: "RenderLoggingConfigMapData ctx producers \<noteq> None"
proof -
  obtain r where "render_producers ctx fmempty producers = Some r"
    using render_producers_total [of ctx fmempty producers] by blast
  then show ?thesis by (simp add: RenderLoggingConfigMapData_def split: option.split sum.split)
qed

lemma path_join_not_empty: "e \<in> set elems \<Longrightarrow> e \<noteq> [] \<Longrightarrow> path_join elems \<noteq> []"
  by (auto simp: path_join_def path_clean_def Let_def filter_empty_conv)
text \<open>
  A rendered logging configuration writes its rolling file to the path \<open>LogFileTarget\<close> answers, and to the
  console only where that is empty: a product that renders its own file and the framework agree, whether
  the Vector pipeline is there or not. A target lies in the producer's directory under the log root.
\<close>

theorem rendered_to_target:
  assumes "RenderContainerLogging ctx d = Some (Inr (name, content))"
  shows "\<exists>gen. GeneratorFor (cl_framework d) = Inr gen \<and> name = or_default (cl_file_name d) (DefaultFileName gen) \<and>
    Render gen (LogConfigFromSpec (ContainerLogging ctx (cl_container d)))
      ((plain_options (cl_pattern d))\<lparr>FileOutputPath := LogFileTarget ctx d\<rparr>) = Some content \<and>
    (LogFileTarget ctx d \<noteq> [] \<longleftrightarrow> vectorLogPipelineActive ctx)"
proof -
  obtain gen where gen: "GeneratorFor (cl_framework d) = Inr gen"
    using assms by (auto simp: RenderContainerLogging_def RenderConfigFile_def split: sum.splits)
  then have suffix: "LogFileSuffix (cl_framework d) \<noteq> []"
    by (auto simp: GeneratorFor_def LogFileSuffix_def loggingFrameworks_def LoggingFrameworkLog4j_def
        LoggingFrameworkLogback_def LoggingFrameworkLog4j2_def LoggingFrameworkPython_def
        split: option.splits if_splits)
  have plain: "(plain_options p)\<lparr>FileOutputPath := []\<rparr> = plain_options p" for p
    by (simp add: plain_options_def)
  have named: "f = (if cl_log_file_name d = [] then ContainerLogFileName (cl_framework d) (cl_container d)
      else cl_log_file_name d)" if "log_file_name d = Inr f" for f
    using that by (auto simp: log_file_name_def split: if_splits)
  have target: "path_join [LogDirFor d, f] = LogFileTarget ctx d \<and> f \<noteq> []"
    if "vectorLogPipelineActive ctx" "log_file_name d = Inr f" for f
    using named [OF that(2)] that(1) suffix
    by (auto simp: LogFileTarget_def Let_def ContainerLogFileName_def)
  show ?thesis
  proof (cases "vectorLogPipelineActive ctx")
    case True
    with assms gen obtain f where f: "log_file_name d = Inr f"
      and content: "name = or_default (cl_file_name d) (DefaultFileName gen)"
        "Render gen (LogConfigFromSpec (ContainerLogging ctx (cl_container d)))
          ((plain_options (cl_pattern d))\<lparr>FileOutputPath := path_join [LogDirFor d, f]\<rparr>) = Some content"
      by (cases "log_file_name d")
         (auto simp: RenderContainerLogging_def RenderConfigFile_def Let_def split: option.splits)
    moreover have "LogFileTarget ctx d \<noteq> []"
    proof -
      have "LogDirFor d \<noteq> []"
        using path_join_not_empty [of KubedoopLogDir "[KubedoopLogDir, LogDirSegment d]"]
        by (simp add: LogDirFor_def KubedoopLogDir_def)
      then show ?thesis
        using target [OF True f] path_join_not_empty [of f "[LogDirFor d, f]"] by simp
    qed
    ultimately show ?thesis using gen target [OF True f] True by auto
  next
    case False
    with assms gen show ?thesis
      by (auto simp: RenderContainerLogging_def RenderConfigFile_def Let_def LogFileTarget_def plain
          split: option.splits)
  qed
qed
section \<open>An example\<close>

definition vector_on :: role_group_config_spec where
  "vector_on = empty_config\<lparr>logging := Some \<lparr>log_containers = None, enable_vector_agent = Some True\<rparr>\<rparr>"

definition python_producer :: container_logging where
  "python_producer = \<lparr>cl_container = ''main'', cl_framework = ''python'', cl_file_name = [], cl_pattern = [],
     cl_log_file_name = [], cl_log_dir_name = []\<rparr>"

definition vector_context :: handler_context where
  "vector_context = handler_context_of ((example_context ''data'' ''a'' fmempty)
     \<lparr>bc_group_spec := plain_group_spec\<lparr>rg_config := Some vector_on\<rparr>, bc_merged := Some NewMergedConfig,
      bc_declaration := no_declaration\<lparr>MainContainerName := ''main'', LogProducers := [python_producer]\<rparr>,
      bc_sidecars := Some \<lparr>vp_config_map = ''hdfs-data-a'', vp_producers = [python_producer],
        vp_log_volume_size = []\<rparr>, bc_aggregator := ''vector:6000'', bc_vector_active := True\<rparr>)"

theorem rendered_to_target_witness: "LogFileTarget vector_context python_producer \<noteq> []"
proof -
  have active: "vectorLogPipelineActive vector_context" by code_simp
  moreover have "GeneratorFor (cl_framework python_producer) = Inr PythonGenerator" by code_simp
  ultimately obtain name content
    where "RenderContainerLogging vector_context python_producer = Some (Inr (name, content))"
    by (simp add: RenderContainerLogging_def RenderConfigFile_def Let_def validateLogDirName_def
        log_file_name_def python_producer_def)
  with active show ?thesis using rendered_to_target by blast
qed

end
