(* ===== verification/Durations.thy ===== *)
theory Durations
  imports Text Errors "HOL-Library.Word" "HOL-Library.Signed_Division"
begin

text \<open>
  \<open>time.ParseDuration\<close> of the standard library, and 64-bit arithmetic. A duration is its number of
  nanoseconds. The fraction of a number is scaled in double arithmetic, the parameter \<open>scaled\<close>: for the
  digits \<open>f\<close>, the unit and the number of digits, \<open>uint64(float64(f) * (float64(unit) / scale))\<close>.
\<close>

definition wrap64 :: "int \<Rightarrow> int" where
  "wrap64 n = sint (word_of_int n :: 64 word)"

lemma wrap64_small: "- (2 ^ 63) \<le> n \<Longrightarrow> n < 2 ^ 63 \<Longrightarrow> wrap64 n = n"
  unfolding wrap64_def sint_sbintrunc' by (simp add: signed_take_bit_int_eq_self)

section \<open>Numbers\<close>

definition is_digit :: "char \<Rightarrow> bool" where
  "is_digit c \<longleftrightarrow> (let n = of_char c :: nat in 48 \<le> n \<and> n \<le> 57)"

definition digit_nat :: "char \<Rightarrow> nat" where "digit_nat c = of_char c - 48"

text \<open>The leading digits; \<open>None\<close> is an overflow.\<close>

fun leading_value :: "nat \<Rightarrow> string \<Rightarrow> nat option" where
  "leading_value x [] = Some x"
| "leading_value x (c # cs) =
     (if x > 2 ^ 63 div 10 then None
      else (let y = x * 10 + digit_nat c in if y > 2 ^ 63 then None else leading_value y cs))"

text \<open>The digits of a fraction that fit, and their number.\<close>

fun fraction_value :: "nat \<Rightarrow> nat \<Rightarrow> string \<Rightarrow> nat \<times> nat" where
  "fraction_value x k [] = (x, k)"
| "fraction_value x k (c # cs) =
     (if x > (2 ^ 63 - 1) div 10 then (x, k)
      else (let y = x * 10 + digit_nat c in if y > 2 ^ 63 then (x, k) else fraction_value y (Suc k) cs))"

definition micro_sign :: string where "micro_sign = [CHR 0xC2, CHR 0xB5]"
definition greek_mu :: string where "greek_mu = [CHR 0xCE, CHR 0xBC]"

definition unit_nanoseconds :: "string \<Rightarrow> nat option" where
  "unit_nanoseconds u = map_of
     [(''ns'', 1), (''us'', 1000), (micro_sign @ ''s'', 1000), (greek_mu @ ''s'', 1000), (''ms'', 1000000),
      (''s'', 1000000000), (''m'', 60 * 1000000000), (''h'', 3600 * 1000000000)] u"

section \<open>The parser\<close>

definition in_number :: "char \<Rightarrow> bool" where "in_number c \<longleftrightarrow> c = CHR ''.'' \<or> is_digit c"

text \<open>The digits after the point, and the text after the number.\<close>

definition fraction_digits :: "string \<Rightarrow> string" where
  "fraction_digits s =
     (let s1 = dropWhile is_digit s in if s1 \<noteq> [] \<and> hd s1 = CHR ''.'' then takeWhile is_digit (tl s1) else [])"

definition after_number :: "string \<Rightarrow> string" where
  "after_number s =
     (let s1 = dropWhile is_digit s in if s1 \<noteq> [] \<and> hd s1 = CHR ''.'' then dropWhile is_digit (tl s1) else s1)"

text \<open>One number with its unit, and the text after it. Sums of unsigned 64-bit numbers wrap.\<close>

definition duration_part :: "(nat \<Rightarrow> nat \<Rightarrow> nat \<Rightarrow> nat) \<Rightarrow> string \<Rightarrow> (nat \<times> string) option" where
  "duration_part scaled s =
     (let digits = takeWhile is_digit s; fdigits = fraction_digits s; s2 = after_number s;
          (f, k) = fraction_value 0 0 fdigits;
          u = takeWhile (\<lambda>c. \<not> in_number c) s2; rest = dropWhile (\<lambda>c. \<not> in_number c) s2
      in case leading_value 0 digits of
           None \<Rightarrow> None
         | Some v \<Rightarrow>
             if digits = [] \<and> fdigits = [] then None
             else if u = [] then None
             else (case unit_nanoseconds u of
                 None \<Rightarrow> None
               | Some n \<Rightarrow>
                   if v > 2 ^ 63 div n then None
                   else (let w = (v * n + (if f > 0 then scaled f n k else 0)) mod 2 ^ 64
                         in if f > 0 \<and> w > 2 ^ 63 then None else Some (w, rest))))"

lemma after_number_shorter: "length (after_number s) \<le> length s"
proof -
  have "length (dropWhile is_digit (tl (dropWhile is_digit s))) \<le> length (dropWhile is_digit s)"
    using length_dropWhile_le [of is_digit "tl (dropWhile is_digit s)"] by simp
  with length_dropWhile_le [of is_digit s] show ?thesis by (simp add: after_number_def Let_def)
qed

lemma duration_part_shorter:
  "duration_part scaled s = Some (w, rest) \<Longrightarrow> length rest < length s"
proof -
  assume "duration_part scaled s = Some (w, rest)"
  then have "takeWhile (\<lambda>c. \<not> in_number c) (after_number s) \<noteq> []"
      "rest = dropWhile (\<lambda>c. \<not> in_number c) (after_number s)"
    unfolding duration_part_def Let_def by (simp_all split: option.splits if_splits prod.splits)
  then have "length rest < length (after_number s)"
    by (metis append_Nil length_append length_greater_0_conv less_add_same_cancel2 takeWhile_dropWhile_id)
  with after_number_shorter [of s] show ?thesis by simp
qed

function duration_parts :: "(nat \<Rightarrow> nat \<Rightarrow> nat \<Rightarrow> nat) \<Rightarrow> nat \<Rightarrow> string \<Rightarrow> nat option" where
  "duration_parts scaled d s =
     (if s = [] then Some d
      else if \<not> in_number (hd s) then None
      else (case duration_part scaled s of
          None \<Rightarrow> None
        | Some (w, rest) \<Rightarrow> (let d' = (d + w) mod 2 ^ 64
            in if d' > 2 ^ 63 then None else duration_parts scaled d' rest)))"
  by pat_completeness auto

termination
  by (relation "measure (\<lambda>(_, _, s). length s)") (auto dest: duration_part_shorter)

declare duration_parts.simps [simp del]

definition invalid_duration :: "string \<Rightarrow> err" where
  "invalid_duration s = PlainError (''time: invalid duration '' @ s)"

definition ParseDuration :: "(nat \<Rightarrow> nat \<Rightarrow> nat \<Rightarrow> nat) \<Rightarrow> string \<Rightarrow> err + duration" where
  "ParseDuration scaled s =
     (let neg = (s \<noteq> [] \<and> hd s = CHR ''-'');
          body = (if s \<noteq> [] \<and> (hd s = CHR ''-'' \<or> hd s = CHR ''+'') then tl s else s)
      in if body = ''0'' then Inr 0
         else if body = [] then Inl (invalid_duration s)
         else (case duration_parts scaled 0 body of
             None \<Rightarrow> Inl (invalid_duration s)
           | Some d \<Rightarrow>
               if neg then Inr (- int d)
               else if d > 2 ^ 63 - 1 then Inl (invalid_duration s)
               else Inr (int d)))"

lemma ParseDuration_bounded: "ParseDuration scaled s = Inr d \<Longrightarrow> d < 2 ^ 63"
  by (auto simp: ParseDuration_def Let_def split: if_splits option.splits)

section \<open>Writing a duration\<close>

text \<open>
  \<open>Duration.String\<close>: the digits of a fraction without trailing zeros, and the parts from hours to
  nanoseconds. The absolute value of a 64-bit number is taken in the unsigned range, where it always fits.
\<close>

definition padded :: "nat \<Rightarrow> nat \<Rightarrow> string" where
  "padded k n = (let d = decimal n in replicate (k - length d) (CHR ''0'') @ d)"

definition trim_zeros :: "string \<Rightarrow> string" where
  "trim_zeros s = rev (dropWhile (\<lambda>c. c = CHR ''0'') (rev s))"

definition fraction_text :: "nat \<Rightarrow> nat \<Rightarrow> string" where
  "fraction_text k n = (let d = trim_zeros (padded k n) in if d = [] then [] else CHR ''.'' # d)"

definition seconds_text :: "nat \<Rightarrow> string" where
  "seconds_text u =
     (let s = u div 1000000000; m = s div 60; h = m div 60
      in (if h > 0 then decimal h @ ''h'' else []) @ (if m > 0 then decimal (m mod 60) @ ''m'' else []) @
         decimal (s mod 60) @ fraction_text 9 (u mod 1000000000) @ ''s'')"

definition duration_text :: "int \<Rightarrow> string" where
  "duration_text d =
     (let u = nat \<bar>d\<bar>
      in if u = 0 then ''0s''
         else (if d < 0 then ''-'' else []) @
           (if u \<ge> 1000000000 then seconds_text u
            else if u < 1000 then decimal u @ ''ns''
            else if u < 1000000 then decimal (u div 1000) @ fraction_text 3 (u mod 1000) @ micro_sign @ ''s''
            else decimal (u div 1000000) @ fraction_text 6 (u mod 1000000) @ ''ms''))"

lemma duration_texts:
  "duration_text 0 = ''0s''" "duration_text 86400000000000 = ''24h0m0s''" "duration_text 5400000000000 = ''1h30m0s''"
  "duration_text 1500000000 = ''1.5s''" "duration_text (-90000000000) = ''-1m30s''" "duration_text 2000000 = ''2ms''"
  by (simp_all add: duration_text_def seconds_text_def fraction_text_def padded_def trim_zeros_def decimal.simps
      Let_def char_of_def bit_0)

end
