(* ===== verification/Handler.thy ===== *)
theory Handler
  imports HandlerLogging Durations
begin

text \<open>
  What the base handler builds for a role group: \<open>BuildResources\<close> of
  \<open>pkg/reconciler/base_role_group_handler.go\<close> with the ConfigMap, the Services and the StatefulSet, and
  \<open>ServiceTypeFor\<close> of \<open>pkg/listener/service_type.go\<close>.

  The libraries the handler calls are the record \<open>handler_libraries\<close>: the strategic merge of two pod
  templates, the check of label values, the affinity codec and the scaling of a duration's fraction.
\<close>

record handler_libraries =
  hl_platform :: platform
  hl_valid_value :: "string \<Rightarrow> bool"
  hl_merge_patch :: "ktemplate \<Rightarrow> ktemplate \<Rightarrow> err + ktemplate"
  hl_affinity :: affinity_codec
  hl_scaled :: "nat \<Rightarrow> nat \<Rightarrow> nat \<Rightarrow> nat"

section \<open>The ConfigMap\<close>

definition configMountPath :: "base_handler \<Rightarrow> string" where
  "configMountPath h = (if h_mount_path h \<noteq> [] then h_mount_path h else KubedoopConfigDirMount)"

definition generated_files :: "base_handler \<Rightarrow> string gomap gomap \<Rightarrow> err + string gomap" where
  "generated_files h files =
     (case h_generator h of
        Some fs \<Rightarrow> if length (entries files) > 0 then multi_generate_files fs files else Inr fmempty
      | None \<Rightarrow> Inr fmempty)"

text \<open>The files no generator produced, as properties.\<close>

fun fallback_files :: "string gomap \<Rightarrow> (string \<times> string gomap) list \<Rightarrow> err + string gomap" where
  "fallback_files data [] = Inr data"
| "fallback_files data ((filename, cfg) # rest) =
     (if fmlookup data filename \<noteq> None then fallback_files data rest
      else (case properties_marshal NewPropertiesAdapter cfg of
          Inl e \<Rightarrow> Inl (Wrapped (FmtErrorf (''failed to render config file '' @ filename)) (Some e))
        | Inr content \<Rightarrow> fallback_files (fmupd filename content data) rest))"

fun add_logging :: "string gomap \<Rightarrow> (string \<times> string) list \<Rightarrow> err + string gomap" where
  "add_logging data [] = Inr data"
| "add_logging data ((filename, content) # rest) =
     (if fmlookup data filename \<noteq> None
      then Inl (PlainError (''logging config file '' @ filename @ '' collides with an existing ConfigMap key''))
      else add_logging (fmupd filename content data) rest)"

text \<open>A rendering that does not end does not occur: \<open>RenderLoggingConfigMapData_total\<close>.\<close>

definition logging_data :: "handler_context \<Rightarrow> err + string gomap" where
  "logging_data ctx =
     (case RenderLoggingConfigMapData ctx (LogProducers (bc_declaration ctx)) of
        None \<Rightarrow> Inl (PlainError ''unreachable'') | Some r \<Rightarrow> r)"

definition config_data :: "base_handler \<Rightarrow> handler_context \<Rightarrow> string gomap gomap \<Rightarrow> err + string gomap" where
  "config_data h ctx files =
     (case generated_files h files of
        Inl e \<Rightarrow> Inl e
      | Inr generated \<Rightarrow>
          (case fallback_files (put_all (entries generated) fmempty) (entries files) of
             Inl e \<Rightarrow> Inl e
           | Inr data \<Rightarrow>
               (case logging_data ctx of
                  Inl e \<Rightarrow> Inl e
                | Inr logs \<Rightarrow> add_logging data (entries logs))))"

definition buildConfigMap :: "base_handler \<Rightarrow> handler_context \<Rightarrow> string gomap \<Rightarrow> err + kconfig_map" where
  "buildConfigMap h ctx ls =
     (case bc_merged ctx of
        None \<Rightarrow> Inl nil_dereference
      | Some merged \<Rightarrow>
          (case config_data h ctx (ConfigFiles merged) of
             Inl e \<Rightarrow> Inl e
           | Inr data \<Rightarrow> Inr (cm_Build (WithConfigFiles data (cm_WithLabels ls
               (NewConfigMapBuilder (bc_resource ctx) (bc_namespace ctx)))))))"

section \<open>The Services\<close>

definition ListenerClassClusterInternal :: string where "ListenerClassClusterInternal = ''cluster-internal''"
definition ListenerClassExternalStable :: string where "ListenerClassExternalStable = ''external-stable''"
definition ListenerClassExternalUnstable :: string where "ListenerClassExternalUnstable = ''external-unstable''"

definition ServiceTypeFor :: "string \<Rightarrow> service_type" where
  "ServiceTypeFor cls =
     (if cls = ListenerClassExternalUnstable then ServiceTypeNodePort
      else if cls = ListenerClassExternalStable then ServiceTypeLoadBalancer
      else ServiceTypeClusterIP)"

definition buildHeadlessService ::
    "platform \<Rightarrow> base_handler \<Rightarrow> handler_context \<Rightarrow> string gomap \<Rightarrow> kservice" where
  "buildHeadlessService pf h ctx ls =
     svc_Build (svc_WithPorts (ServicePorts (bc_declaration ctx))
       (WithPublishNotReadyAddresses (PublishNotReadyAddresses (bc_declaration ctx))
         (svc_WithSelector (buildSelectorLabels pf h ctx)
           (svc_WithLabels ls
             (NewHeadlessServiceBuilder (headless_name (bc_resource ctx)) (bc_namespace ctx))))))"

definition buildService ::
    "platform \<Rightarrow> base_handler \<Rightarrow> handler_context \<Rightarrow> string gomap \<Rightarrow> service_port list \<Rightarrow> kservice" where
  "buildService pf h ctx ls ports =
     (let b = svc_WithPorts ports (svc_WithSelector (buildSelectorLabels pf h ctx)
            (svc_WithLabels ls (NewServiceBuilder (bc_resource ctx) (bc_namespace ctx))));
          cls = ListenerClass (bc_declaration ctx)
      in svc_Build (if cls \<noteq> [] then WithServiceType (ServiceTypeFor cls) b else b))"

section \<open>The StatefulSet\<close>

definition add_provider :: "volume_provider option \<Rightarrow> sts_builder \<Rightarrow> sts_builder" where
  "add_provider vp b =
     (case vp of
        None \<Rightarrow> b
      | Some (vs, ms) \<Rightarrow> fold AddVolumeMount ms (fold AddVolume vs b))"

definition wireVolumes :: "base_handler \<Rightarrow> handler_context \<Rightarrow> sts_builder \<Rightarrow> sts_builder" where
  "wireVolumes h ctx b =
     fold add_provider (hc_volume_providers ctx)
       (AddVolumeMount (read_only_mount ConfigVolumeName (configMountPath h))
         (AddVolume \<lparr>kv_name = ConfigVolumeName, kv_source = config_map_source (bc_resource ctx)\<rparr> b))"

definition applyDeclaredContainerFields :: "role_declaration \<Rightarrow> sts_builder \<Rightarrow> sts_builder" where
  "applyDeclaredContainerFields d b =
     (let b1 = (if length (decl_command d) > 0 then WithCommand (decl_command d) b else b);
          b2 = (if Lifecycle d \<noteq> None then WithLifecycle (Lifecycle d) b1 else b1);
          b3 = (if length (decl_env d) > 0 then WithBaseEnvVars (decl_env d) b2 else b2);
          b4 = (if ReadinessProbe d \<noteq> None then WithReadinessProbe (ReadinessProbe d) b3 else b3);
          b5 = (if LivenessProbe d \<noteq> None then WithLivenessProbe (LivenessProbe d) b4 else b4)
      in if StartupProbe d \<noteq> None then WithStartupProbe (StartupProbe d) b5 else b5)"

definition is_stopped :: "generic_cluster_spec \<Rightarrow> bool" where
  "is_stopped spec \<longleftrightarrow>
     (case spec_cluster_operation spec of None \<Rightarrow> False | Some cop \<Rightarrow> op_stopped cop)"

definition effective_replicas :: "generic_cluster_spec \<Rightarrow> role_group_spec \<Rightarrow> int" where
  "effective_replicas spec g = (if is_stopped spec then 0 else GetReplicas g)"

text \<open>The builder before the role group's config.\<close>

definition base_builder :: "platform \<Rightarrow> base_handler \<Rightarrow> handler_context \<Rightarrow> string gomap \<Rightarrow> sts_builder" where
  "base_builder pf h ctx ls =
     (let b = WithPorts (ContainerPorts (bc_declaration ctx)) (WithConfig (bc_merged ctx)
            (WithImage (ri_reference (bc_image ctx)) (ri_pull_policy (bc_image ctx))
              (WithReplicas (effective_replicas (bc_spec ctx) (bc_group_spec ctx))
                (WithSelectorLabels (buildSelectorLabels pf h ctx)
                  (WithLabels ls (NewStatefulSetBuilder (bc_resource ctx) (bc_namespace ctx)))))));
          b' = (if bc_service_account ctx \<noteq> [] then WithServiceAccount (bc_service_account ctx) b else b)
      in if ri_pull_secret_name (bc_image ctx) \<noteq> []
         then WithImagePullSecretName (ri_pull_secret_name (bc_image ctx)) b' else b')"
definition with_resources ::
    "role_declaration \<Rightarrow> role_group_config_spec \<Rightarrow> sts_builder \<Rightarrow> sts_builder" where
  "with_resources d cfg b =
     (case resources cfg of
        None \<Rightarrow> b
      | Some r \<Rightarrow>
          (let b' = WithResources (Some r) b
           in case (DataVolume d, res_storage r) of
                (Some dv, Some s) \<Rightarrow> WithNamedStorage (dv_name dv) (Some s) (dv_mount_path dv) b'
              | _ \<Rightarrow> b'))"

definition config_error :: "string \<Rightarrow> handler_context \<Rightarrow> err option \<Rightarrow> err" where
  "config_error what ctx cause = Wrapped (FmtErrorf (''invalid '' @ what @ '' in role group config (role '' @
     bc_role ctx @ '', group '' @ bc_group ctx @ '')'')) cause"

definition with_affinity ::
    "affinity_codec \<Rightarrow> handler_context \<Rightarrow> role_group_config_spec \<Rightarrow> sts_builder \<Rightarrow> err + sts_builder" where
  "with_affinity ac ctx cfg b =
     (case affinity cfg of
        Some (Some raw) \<Rightarrow>
          if length raw > 0
          then (case DecodeAffinity ac (affinity cfg) of
              Inl e \<Rightarrow> Inl (config_error ''affinity'' ctx (Some e))
            | Inr a \<Rightarrow> Inr (WithAffinity a b))
          else Inr b
      | _ \<Rightarrow> Inr b)"

text \<open>\<open>int64((d + time.Second - 1) / time.Second)\<close>, the sums in 64 bits.\<close>

definition grace_seconds :: "duration \<Rightarrow> int" where
  "grace_seconds d = wrap64 (wrap64 (d + second) - 1) sdiv second"

definition with_grace_period ::
    "(nat \<Rightarrow> nat \<Rightarrow> nat \<Rightarrow> nat) \<Rightarrow> handler_context \<Rightarrow> role_group_config_spec \<Rightarrow> sts_builder \<Rightarrow> err + sts_builder" where
  "with_grace_period scaled ctx cfg b =
     (let timeout = GetGracefulShutdownTimeout (Some cfg)
      in case ParseDuration scaled timeout of
           Inl e \<Rightarrow> Inl (config_error (''gracefulShutdownTimeout '' @ timeout) ctx (Some e))
         | Inr d \<Rightarrow>
             if d \<le> 0
             then Inl (config_error (''gracefulShutdownTimeout '' @ timeout) ctx
               (Some (PlainError ''must be a positive duration'')))
             else Inr (WithTerminationGracePeriod (grace_seconds d) b))"

text \<open>What follows the config: security, overrides, volumes, the container's name and declared fields.\<close>

definition finished_builder ::
    "base_handler \<Rightarrow> handler_context \<Rightarrow> ktemplate merged_config \<Rightarrow> sts_builder \<Rightarrow> sts_builder" where
  "finished_builder h ctx merged b =
     (let (sc, psc) = resolveSecurityContext h;
          b3 = WithEnableServiceLinks False (WithSecurityContext sc psc b);
          b4 = (if MergedPodOverrides merged \<noteq> None then WithPodOverrides (MergedPodOverrides merged) b3 else b3);
          b5 = wireVolumes h ctx b4;
          name = MainContainerName (bc_declaration ctx);
          b6 = (if name \<noteq> [] then WithMainContainerName name b5 else b5)
      in applyDeclaredContainerFields (bc_declaration ctx) b6)"

text \<open>The builder the StatefulSet is made from.\<close>

definition configured_builder ::
    "handler_libraries \<Rightarrow> base_handler \<Rightarrow> handler_context \<Rightarrow> string gomap \<Rightarrow> err + sts_builder" where
  "configured_builder lib h ctx ls =
     (let cfg = RoleGroupSpec_GetConfig (bc_group_spec ctx)
      in case with_affinity (hl_affinity lib) ctx cfg
             (with_resources (bc_declaration ctx) cfg (base_builder (hl_platform lib) h ctx ls)) of
           Inl e \<Rightarrow> Inl e
         | Inr b1 \<Rightarrow>
             (case with_grace_period (hl_scaled lib) ctx cfg b1 of
                Inl e \<Rightarrow> Inl e
              | Inr b2 \<Rightarrow>
                  (case bc_merged ctx of
                     None \<Rightarrow> Inl nil_dereference
                   | Some merged \<Rightarrow> Inr (finished_builder h ctx merged b2))))"

definition on_pod :: "(kpod \<Rightarrow> kpod) \<Rightarrow> built_sts \<Rightarrow> built_sts" where
  "on_pod f sts = sts\<lparr>bs_template := (bs_template sts)\<lparr>kt_spec := f (kt_spec (bs_template sts))\<rparr>\<rparr>"

definition build_manager :: "base_handler \<Rightarrow> handler_context \<Rightarrow> sidecar_manager option" where
  "build_manager h ctx = (case hc_manager ctx of None \<Rightarrow> h_sidecars h | Some m \<Rightarrow> Some m)"

definition inject_sidecars :: "base_handler \<Rightarrow> handler_context \<Rightarrow> built_sts \<Rightarrow> err + built_sts" where
  "inject_sidecars h ctx sts =
     (case build_manager h ctx of
        None \<Rightarrow> Inr sts
      | Some m \<Rightarrow>
          (case InjectAll m (kt_spec (bs_template sts)) of
             (Inl e, _) \<Rightarrow> Inl (NewValidationError ''sidecar'' (bc_role ctx) (bc_group ctx) (Some e))
           | (Inr _, pod) \<Rightarrow> Inr (on_pod (\<lambda>_. pod) sts)))"

definition image_error :: "string \<Rightarrow> kcontainer \<Rightarrow> err" where
  "image_error what c = PlainError (what @ '' '' @ kc_name c @
     '' has no image: a podOverrides container must either address an existing container by name or be fully specified'')"

definition missing_image :: "kpod \<Rightarrow> err option" where
  "missing_image pod =
     (case find (\<lambda>c. kc_image c = []) (kp_containers pod) of
        Some c \<Rightarrow> Some (image_error ''container'' c)
      | None \<Rightarrow> map_option (image_error ''init container'') (find (\<lambda>c. kc_image c = []) (kp_init pod)))"

definition buildStatefulSet ::
    "handler_libraries \<Rightarrow> base_handler \<Rightarrow> handler_context \<Rightarrow> string gomap \<Rightarrow> err + built_sts" where
  "buildStatefulSet lib h ctx ls =
     (case configured_builder lib h ctx ls of
        Inl e \<Rightarrow> Inl e
      | Inr b \<Rightarrow>
          (case Build (hl_merge_patch lib) b of (sts, violations) \<Rightarrow>
             if length violations > 0
             then Inl (NewValidationError ''podOverrides'' (bc_role ctx) (bc_group ctx) (Some (Joined violations)))
             else (case inject_sidecars h ctx sts of
                 Inl e \<Rightarrow> Inl e
               | Inr sts' \<Rightarrow>
                   (case missing_image (kt_spec (bs_template sts')) of
                      Some e \<Rightarrow> Inl e
                    | None \<Rightarrow> Inr sts'))))"

section \<open>All resources\<close>

record built_resources =
  br_config_map :: kconfig_map
  br_headless_service :: kservice
  br_service :: "kservice option"
  br_stateful_set :: built_sts

text \<open>The product image reaches the sidecars of the pass, or of a copy of the handler's own manager.\<close>

definition propagate_image :: "base_handler \<Rightarrow> handler_context \<Rightarrow> err + handler_context" where
  "propagate_image h ctx =
     (case (case hc_manager ctx of Some m \<Rightarrow> Some m | None \<Rightarrow> map_option CloneForBuild (h_sidecars h)) of
        None \<Rightarrow> Inr ctx
      | Some m \<Rightarrow>
          (let img = ri_reference (bc_image ctx)
           in case SetProductImage img (ri_pull_policy (bc_image ctx)) m of
                Inl e \<Rightarrow>
                  Inl (if img = []
                       then NewValidationError ''image'' (bc_role ctx) (bc_group ctx)
                         (Some (Wrapped (FmtErrorf ''no image resolved for this role'') (Some e)))
                       else Wrapped (FmtErrorf ''failed to set product image on sidecars'') (Some e))
              | Inr m' \<Rightarrow> Inr (ctx\<lparr>hc_manager := Some m'\<rparr>)))"

definition handler_labels :: "handler_libraries \<Rightarrow> base_handler \<Rightarrow> handler_context \<Rightarrow> string gomap" where
  "handler_labels lib h ctx = buildLabels (hl_platform lib) (hl_valid_value lib) h ctx"

text \<open>The resources, and the context with the manager that was used.\<close>

definition BuildResources ::
    "handler_libraries \<Rightarrow> base_handler \<Rightarrow> handler_context \<Rightarrow> err + built_resources \<times> handler_context" where
  "BuildResources lib h ctx0 =
     (case propagate_image h ctx0 of
        Inl e \<Rightarrow> Inl e
      | Inr ctx \<Rightarrow>
          (let ls = handler_labels lib h ctx; ports = ServicePorts (bc_declaration ctx)
           in case buildConfigMap h ctx ls of
                Inl e \<Rightarrow> Inl (Wrapped (FmtErrorf ''failed to build ConfigMap'') (Some e))
              | Inr cm \<Rightarrow>
                  (case buildStatefulSet lib h ctx ls of
                     Inl e \<Rightarrow> Inl (Wrapped (FmtErrorf ''failed to build StatefulSet'') (Some e))
                   | Inr sts \<Rightarrow> Inr (\<lparr>br_config_map = cm,
                       br_headless_service = buildHeadlessService (hl_platform lib) h ctx ls,
                       br_service = (if length ports > 0
                         then Some (buildService (hl_platform lib) h ctx ls ports) else None),
                       br_stateful_set = sts\<rparr>, ctx))))"
end
