(* ===== verification/HandlerSafety.thy ===== *)
theory HandlerSafety
  imports Handler WritesSafety
begin

text \<open>
  What the base handler guarantees of the resources it builds, and their handover to the write phase.
\<close>

section \<open>The resources as the write phase sees them\<close>

text \<open>
  The write phase treats most of an object as opaque JSON. Its marshalling is the record of parameters
  \<open>resource_encoder\<close>.
\<close>

record resource_encoder =
  enc_container :: "kcontainer \<Rightarrow> string"
  enc_volume :: "kvolume \<Rightarrow> string"
  enc_pod :: "kpod \<Rightarrow> string"
  enc_claim :: "kclaim \<Rightarrow> string"
  enc_stateful_set :: "built_sts \<Rightarrow> string"
  enc_service :: "kservice \<Rightarrow> string"

definition coarse_container :: "resource_encoder \<Rightarrow> kcontainer \<Rightarrow> container" where
  "coarse_container enc c = \<lparr>c_name = kc_name c, c_mounts = kc_mounts c, c_rest = enc_container enc c\<rparr>"

definition coarse_pod :: "resource_encoder \<Rightarrow> kpod \<Rightarrow> pod_spec" where
  "coarse_pod enc pod = \<lparr>init_containers = map (coarse_container enc) (kp_init pod),
     containers = map (coarse_container enc) (kp_containers pod),
     volumes = map (\<lambda>v. \<lparr>vol_name = kv_name v, vol_rest = enc_volume enc v\<rparr>) (kp_volumes pod),
     pod_rest = enc_pod enc pod\<rparr>"

definition coarse_template :: "resource_encoder \<Rightarrow> ktemplate \<Rightarrow> pod_template" where
  "coarse_template enc t = \<lparr>tpl_labels = kt_labels t, tpl_annotations = kt_annotations t,
     tpl_spec = coarse_pod enc (kt_spec t)\<rparr>"

definition coarse_sts :: "resource_encoder \<Rightarrow> built_sts \<Rightarrow> sts_spec" where
  "coarse_sts enc s = \<lparr>sts_replicas = Some (bs_replicas s),
     sts_selector = Some \<lparr>match_labels = bs_selector s, match_expressions = []\<rparr>,
     sts_service_name = bs_service_name s, sts_template = coarse_template enc (bs_template s),
     sts_claims = map (\<lambda>c. \<lparr>pvc_name = claim_name c, pvc_volume_mode = None, pvc_status = [],
       pvc_rest = enc_claim enc c\<rparr>) (bs_claims s),
     sts_policy = bs_pod_management s, sts_rest = enc_stateful_set enc s\<rparr>"

definition coarse_service :: "resource_encoder \<Rightarrow> kservice \<Rightarrow> service_spec" where
  "coarse_service enc s = \<lparr>cluster_ip = ks_cluster_ip s, cluster_ips = [], ip_families = [],
     ip_family_policy = None, health_check_node_port = 0, load_balancer_class = None,
     svc_ports = ks_ports s, svc_rest = enc_service enc s\<rparr>"

definition config_map_object :: "kconfig_map \<Rightarrow> named_object" where
  "config_map_object c = \<lparr>labels = cm_labels c, annotations = cm_annotations c,
     payload = ConfigMap (cm_data c) (cm_binary c), no_name = cm_name c, no_namespace = cm_namespace c,
     no_kind = KConfigMap\<rparr>"

definition service_object :: "resource_encoder \<Rightarrow> kservice \<Rightarrow> named_object" where
  "service_object enc s = \<lparr>labels = ks_labels s, annotations = ks_annotations s,
     payload = Service (coarse_service enc s), no_name = ks_name s, no_namespace = ks_namespace s,
     no_kind = KService\<rparr>"

definition sts_object :: "resource_encoder \<Rightarrow> built_sts \<Rightarrow> named_object" where
  "sts_object enc s = \<lparr>labels = bs_labels s, annotations = bs_annotations s,
     payload = StatefulSet (coarse_sts enc s), no_name = bs_name s, no_namespace = bs_namespace s,
     no_kind = KStatefulSet\<rparr>"

definition as_resources :: "resource_encoder \<Rightarrow> built_resources \<Rightarrow> role_group_resources" where
  "as_resources enc rs = \<lparr>rr_config_map = Some (config_map_object (br_config_map rs)),
     rr_headless_service = Some (service_object enc (br_headless_service rs)),
     rr_service = map_option (service_object enc) (br_service rs),
     rr_stateful_set = Some (sts_object enc (br_stateful_set rs)),
     rr_pdb = None, rr_metrics_service = None, rr_extras = []\<rparr>"

definition group_id_of :: "('pod, 'z) build_context_scheme \<Rightarrow> group_id" where
  "group_id_of ctx = \<lparr>gi_cluster = bc_cluster_name ctx, gi_namespace = bc_namespace ctx,
     gi_role = bc_role ctx, gi_group = bc_group ctx, gi_resource = bc_resource ctx\<rparr>"

text \<open>
  The base handler as the reconciler calls it. The sidecars' checks run later, with a client for the
  cluster's namespace, if any sidecar is registered (\<open>validateSidecars\<close>).
\<close>

definition sidecar_checks :: "handler_context \<Rightarrow> env \<Rightarrow> unit run option" where
  "sidecar_checks ctx env =
     (case hc_manager ctx of
        None \<Rightarrow> None
      | Some m \<Rightarrow> if \<not> HasSidecars m then None else Some (ValidateAll (WithClient (bc_namespace ctx) m) env))"

definition base_handler_build :: "handler_libraries \<Rightarrow> base_handler \<Rightarrow> resource_encoder \<Rightarrow> env
    \<Rightarrow> ktemplate build_context \<Rightarrow> (role_group_resources \<times> unit run option) pass_run" where
  "base_handler_build lib h enc env ctx =
     (case BuildResources lib h (handler_context_of ctx) of
        Inl e \<Rightarrow> throwE e
      | Inr (rs, c) \<Rightarrow> returnE (as_resources enc rs, sidecar_checks c env))"

text \<open>The adapter for plain functions; one that is not set builds nothing.\<close>

definition no_resources :: role_group_resources where
  "no_resources = \<lparr>rr_config_map = None, rr_headless_service = None, rr_service = None,
     rr_stateful_set = None, rr_pdb = None, rr_metrics_service = None, rr_extras = []\<rparr>"

definition RoleGroupHandlerFuncs_BuildResources ::
    "('pod build_context \<Rightarrow> (role_group_resources \<times> unit run option) pass_run) option
      \<Rightarrow> 'pod build_context \<Rightarrow> (role_group_resources \<times> unit run option) pass_run" where
  "RoleGroupHandlerFuncs_BuildResources f ctx =
     (case f of None \<Rightarrow> returnE (no_resources, None) | Some g \<Rightarrow> g ctx)"

section \<open>Builders\<close>

text \<open>The loops over volumes in closed form.\<close>

definition provided_volumes :: "volume_provider option list \<Rightarrow> kvolume list" where
  "provided_volumes vps = concat (map (\<lambda>vp. case vp of None \<Rightarrow> [] | Some (vs, _) \<Rightarrow> vs) vps)"

definition provided_mounts :: "volume_provider option list \<Rightarrow> volume_mount list" where
  "provided_mounts vps = concat (map (\<lambda>vp. case vp of None \<Rightarrow> [] | Some (_, ms) \<Rightarrow> ms) vps)"

lemma fold_AddVolume: "fold AddVolume vs b = b\<lparr>sb_volumes := sb_volumes b @ vs\<rparr>"
  by (induction vs arbitrary: b) (simp_all add: AddVolume_def)

lemma fold_AddVolumeMount: "fold AddVolumeMount ms b = b\<lparr>sb_mounts := sb_mounts b @ ms\<rparr>"
  by (induction ms arbitrary: b) (simp_all add: AddVolumeMount_def)

lemma fold_add_provider:
  "fold add_provider vps b = b\<lparr>sb_volumes := sb_volumes b @ provided_volumes vps,
     sb_mounts := sb_mounts b @ provided_mounts vps\<rparr>"
  by (induction vps arbitrary: b)
     (auto simp: add_provider_def fold_AddVolume fold_AddVolumeMount provided_volumes_def provided_mounts_def
       split: option.split)

definition config_mount :: "base_handler \<Rightarrow> volume_mount" where
  "config_mount h = read_only_mount ConfigVolumeName (configMountPath h)"

lemma wireVolumes_closed:
  "wireVolumes h ctx b = b
     \<lparr>sb_volumes := sb_volumes b @ [\<lparr>kv_name = ConfigVolumeName, kv_source = config_map_source (bc_resource ctx)\<rparr>]
        @ provided_volumes (hc_volume_providers ctx),
      sb_mounts := sb_mounts b @ [config_mount h] @ provided_mounts (hc_volume_providers ctx)\<rparr>"
  by (simp add: wireVolumes_def fold_add_provider AddVolume_def AddVolumeMount_def config_mount_def)

lemmas builder_methods = WithLabels_def WithSelectorLabels_def WithReplicas_def WithImage_def WithConfig_def
  WithPorts_def WithServiceAccount_def WithImagePullSecretName_def NewStatefulSetBuilder_def
  WithResources_def WithNamedStorage_def WithAffinity_def WithTerminationGracePeriod_def
  WithSecurityContext_def WithEnableServiceLinks_def WithPodOverrides_def WithMainContainerName_def
  WithCommand_def WithLifecycle_def WithBaseEnvVars_def WithReadinessProbe_def WithLivenessProbe_def
  WithStartupProbe_def

text \<open>What no step of the configuration touches.\<close>

definition same_identity :: "sts_builder \<Rightarrow> sts_builder \<Rightarrow> bool" where
  "same_identity a b \<longleftrightarrow> sb_name b = sb_name a \<and> sb_namespace b = sb_namespace a \<and>
     sb_labels b = sb_labels a \<and> sb_selector_labels b = sb_selector_labels a \<and> sb_replicas b = sb_replicas a"

lemma same_identity_trans: "same_identity a b \<Longrightarrow> same_identity b c \<Longrightarrow> same_identity a c"
  by (simp add: same_identity_def)

lemma with_resources_identity: "same_identity b (with_resources d cfg b)"
  by (simp add: with_resources_def same_identity_def builder_methods Let_def split: option.split)

lemma with_affinity_identity: "with_affinity ac ctx cfg b = Inr b' \<Longrightarrow> same_identity b b'"
  by (auto simp: with_affinity_def same_identity_def builder_methods split: option.splits if_splits sum.splits)

lemma with_grace_identity: "with_grace_period scaled ctx cfg b = Inr b' \<Longrightarrow> same_identity b b'"
  by (auto simp: with_grace_period_def same_identity_def builder_methods Let_def split: if_splits sum.splits)

lemma applyDeclared_identity: "same_identity b (applyDeclaredContainerFields d b)"
  by (simp add: applyDeclaredContainerFields_def same_identity_def builder_methods Let_def)

lemma applyDeclared_mounts:
  "sb_mounts (applyDeclaredContainerFields d b) = sb_mounts b"
  "sb_volumes (applyDeclaredContainerFields d b) = sb_volumes b"
  by (simp_all add: applyDeclaredContainerFields_def builder_methods Let_def)

text \<open>What \<open>wireVolumes\<close> puts into a pod.\<close>

definition wired_mounts :: "base_handler \<Rightarrow> handler_context \<Rightarrow> volume_mount list" where
  "wired_mounts h ctx = config_mount h # provided_mounts (hc_volume_providers ctx)"

definition wired_volumes :: "handler_context \<Rightarrow> kvolume list" where
  "wired_volumes ctx = \<lparr>kv_name = ConfigVolumeName, kv_source = config_map_source (bc_resource ctx)\<rparr> #
     provided_volumes (hc_volume_providers ctx)"

definition wired :: "base_handler \<Rightarrow> handler_context \<Rightarrow> sts_builder \<Rightarrow> bool" where
  "wired h ctx b \<longleftrightarrow> set (wired_mounts h ctx) \<subseteq> set (sb_mounts b) \<and> set (wired_volumes ctx) \<subseteq> set (sb_volumes b)"

lemma finished_builder_correct:
  "same_identity b (finished_builder h ctx merged b)" "wired h ctx (finished_builder h ctx merged b)"
proof -
  obtain sc psc where sec: "resolveSecurityContext h = (sc, psc)" by fastforce
  let ?b4 = "let b3 = WithEnableServiceLinks False (WithSecurityContext sc psc b)
    in if MergedPodOverrides merged \<noteq> None then WithPodOverrides (MergedPodOverrides merged) b3 else b3"
  let ?name = "MainContainerName (bc_declaration ctx)"
  let ?b6 = "if ?name \<noteq> [] then WithMainContainerName ?name (wireVolumes h ctx ?b4) else wireVolumes h ctx ?b4"
  have fin: "finished_builder h ctx merged b = applyDeclaredContainerFields (bc_declaration ctx) ?b6"
    by (simp add: finished_builder_def sec Let_def)
  have "same_identity b ?b6" "wired h ctx ?b6"
    by (simp_all add: wireVolumes_closed builder_methods same_identity_def Let_def wired_def wired_mounts_def
        wired_volumes_def) blast
  then show "same_identity b (finished_builder h ctx merged b)" "wired h ctx (finished_builder h ctx merged b)"
    unfolding fin wired_def applyDeclared_mounts using applyDeclared_identity same_identity_trans by blast+
qed

lemma configured_builder_correct:
  assumes "configured_builder lib h ctx ls = Inr b"
  shows "same_identity (base_builder (hl_platform lib) h ctx ls) b" and "wired h ctx b"
proof -
  let ?cfg = "RoleGroupSpec_GetConfig (bc_group_spec ctx)"
  let ?b0 = "base_builder (hl_platform lib) h ctx ls"
  let ?r = "with_resources (bc_declaration ctx) ?cfg ?b0"
  from assms obtain b1 where b1: "with_affinity (hl_affinity lib) ctx ?cfg ?r = Inr b1"
    by (auto simp: configured_builder_def Let_def split: sum.splits)
  with assms obtain b2 where b2: "with_grace_period (hl_scaled lib) ctx ?cfg b1 = Inr b2"
    by (auto simp: configured_builder_def Let_def split: sum.splits)
  with assms b1 obtain merged where merged: "bc_merged ctx = Some merged"
    by (auto simp: configured_builder_def Let_def split: option.splits)
  have start: "same_identity ?b0 b2"
    using with_resources_identity with_affinity_identity [OF b1] with_grace_identity [OF b2]
      same_identity_trans by blast
  have "b = finished_builder h ctx merged b2"
    using assms b1 b2 merged by (simp add: configured_builder_def Let_def)
  then show "same_identity ?b0 b" "wired h ctx b"
    using start finished_builder_correct same_identity_trans by blast+
qed

section \<open>The StatefulSet that comes out\<close>

lemma Build_base: "Build mp b = (sts, errs) \<Longrightarrow> sts = (build_base b)\<lparr>bs_template := bs_template sts\<rparr>"
  by (auto simp: Build_def applyPodOverrides_def Let_def split: option.splits sum.splits)

lemma inject_sidecars_pod:
  "inject_sidecars h ctx sts = Inr sts' \<Longrightarrow> \<exists>pod. sts' = on_pod (\<lambda>_. pod) sts"
proof -
  assume "inject_sidecars h ctx sts = Inr sts'"
  then have "sts' = sts \<or> (\<exists>pod. sts' = on_pod (\<lambda>_. pod) sts)"
    by (auto simp: inject_sidecars_def split: option.splits prod.splits sum.splits)
  moreover have "sts = on_pod (\<lambda>_. kt_spec (bs_template sts)) sts" by (simp add: on_pod_def)
  ultimately show ?thesis by metis
qed

lemma buildStatefulSet_steps:
  assumes "buildStatefulSet lib h ctx ls = Inr out"
  obtains b sts where "configured_builder lib h ctx ls = Inr b" "Build (hl_merge_patch lib) b = (sts, [])"
    "inject_sidecars h ctx sts = Inr out" "missing_image (kt_spec (bs_template out)) = None"
  using assms by (auto simp: buildStatefulSet_def split: sum.splits prod.splits option.splits if_splits)

lemma missing_image_None:
  "missing_image pod = None \<longleftrightarrow> (\<forall>c \<in> set (kp_containers pod) \<union> set (kp_init pod). kc_image c \<noteq> [])"
proof -
  have "find (\<lambda>c. kc_image c = []) cs = None \<longleftrightarrow> (\<forall>c \<in> set cs. kc_image c \<noteq> [])" for cs :: "kcontainer list"
    by (auto simp: find_None_iff)
  moreover have "missing_image pod = None \<longleftrightarrow> find (\<lambda>c. kc_image c = []) (kp_containers pod) = None \<and>
      find (\<lambda>c. kc_image c = []) (kp_init pod) = None"
    by (simp add: missing_image_def split: option.split)
  ultimately show ?thesis by (simp add: ball_Un)
qed

lemma selector_not_empty: "buildSelectorLabels pf h ctx \<noteq> fmempty"
proof -
  have "fmlookup (buildSelectorLabels pf h ctx) (if h_label_domain h = [] then marker_key pf ctx
      else RoleGroupLabelKey (h_label_domain h)) \<noteq> None"
    by (simp add: buildSelectorLabels_def frameworkSelectorLabels_def identityLabels_def)
  then show ?thesis by auto
qed

lemma base_builder_identity:
  "sb_name (base_builder pf h ctx ls) = bc_resource ctx"
  "sb_namespace (base_builder pf h ctx ls) = bc_namespace ctx"
  "sb_selector_labels (base_builder pf h ctx ls) = buildSelectorLabels pf h ctx"
  "sb_labels (base_builder pf h ctx ls) = fmadd ls (buildSelectorLabels pf h ctx)"
  "sb_replicas (base_builder pf h ctx ls) = effective_replicas (bc_spec ctx) (bc_group_spec ctx)"
  by (simp_all add: base_builder_def Let_def builder_methods put_all_fmadd)

lemma buildStatefulSet_fields:
  assumes "buildStatefulSet lib h ctx ls = Inr out"
  shows "bs_name out = bc_resource ctx" "bs_namespace out = bc_namespace ctx"
    "bs_service_name out = headless_name (bc_resource ctx)"
    "bs_selector out = buildSelectorLabels (hl_platform lib) h ctx"
    "bs_replicas out = effective_replicas (bc_spec ctx) (bc_group_spec ctx)"
    "bs_labels out = fmadd ls (buildSelectorLabels (hl_platform lib) h ctx)"
    "selector_matches (bs_selector out) (kt_labels (bs_template out))"
proof -
  from assms obtain b sts where b: "configured_builder lib h ctx ls = Inr b"
    and sts: "Build (hl_merge_patch lib) b = (sts, [])" and out: "inject_sidecars h ctx sts = Inr out"
    by (rule buildStatefulSet_steps)
  obtain t where t: "sts = (build_base b)\<lparr>bs_template := t\<rparr>" using Build_base [OF sts] by metis
  obtain pod where pod: "out = on_pod (\<lambda>_. pod) sts" using inject_sidecars_pod [OF out] by blast
  note identity = configured_builder_correct(1) [OF b, unfolded same_identity_def base_builder_identity]
  show "bs_name out = bc_resource ctx" "bs_namespace out = bc_namespace ctx"
    "bs_service_name out = headless_name (bc_resource ctx)"
    "bs_replicas out = effective_replicas (bc_spec ctx) (bc_group_spec ctx)"
    "bs_labels out = fmadd ls (buildSelectorLabels (hl_platform lib) h ctx)"
    "bs_selector out = buildSelectorLabels (hl_platform lib) h ctx"
    using identity selector_not_empty [of "hl_platform lib" h ctx] by (simp_all add: pod t on_pod_def build_base_def headless_name_def
        selectorMatchLabels_def)
  have "selector_ok b"
    using identity selector_not_empty [of "hl_platform lib" h ctx]
    by (auto simp: selector_ok_def selectorMatchLabels_def selector_matches_iff fmlookup_fmadd
        simp del: fmlookup_add split: option.split)
  from Build_selector [OF this sts] show "selector_matches (bs_selector out) (kt_labels (bs_template out))"
    by (simp add: pod on_pod_def)
qed

text \<open>The name of the primary container.\<close>

lemma main_container_steps:
  "sb_main_container (base_builder pf h ctx ls) = []"
  "sb_main_container (with_resources d cfg b) = sb_main_container b"
  "with_affinity ac ctx cfg b = Inr b1 \<Longrightarrow> sb_main_container b1 = sb_main_container b"
  "with_grace_period scaled ctx cfg b = Inr b1 \<Longrightarrow> sb_main_container b1 = sb_main_container b"
  "sb_main_container (applyDeclaredContainerFields d b) = sb_main_container b"
  by (auto simp: base_builder_def with_resources_def with_affinity_def with_grace_period_def
      applyDeclaredContainerFields_def builder_methods Let_def split: option.splits if_splits sum.splits)

definition primary_name :: "('pod, 'z) build_context_scheme \<Rightarrow> string" where
  "primary_name ctx =
     (if MainContainerName (bc_declaration ctx) \<noteq> [] then MainContainerName (bc_declaration ctx) else bc_resource ctx)"

lemma configured_primary:
  assumes "configured_builder lib h ctx ls = Inr b"
  shows "primaryContainerName b = primary_name ctx"
proof -
  from assms obtain b1 b2 merged
    where "with_affinity (hl_affinity lib) ctx (RoleGroupSpec_GetConfig (bc_group_spec ctx))
        (with_resources (bc_declaration ctx) (RoleGroupSpec_GetConfig (bc_group_spec ctx))
          (base_builder (hl_platform lib) h ctx ls)) = Inr b1"
      and "with_grace_period (hl_scaled lib) ctx (RoleGroupSpec_GetConfig (bc_group_spec ctx)) b1 = Inr b2"
      and b: "b = finished_builder h ctx merged b2"
    by (auto simp: configured_builder_def Let_def split: sum.splits option.splits)
  then have "sb_main_container b2 = []" by (simp add: main_container_steps)
  moreover obtain sc psc where "resolveSecurityContext h = (sc, psc)" by fastforce
  ultimately have "sb_main_container b = MainContainerName (bc_declaration ctx)"
    by (simp add: b finished_builder_def Let_def main_container_steps wireVolumes_closed builder_methods)
  moreover have "sb_name b = bc_resource ctx"
    using configured_builder_correct(1) [OF assms] by (simp add: same_identity_def base_builder_identity)
  ultimately show ?thesis by (simp add: primaryContainerName_def primary_name_def)
qed

lemma propagate_image_context:
  "propagate_image h ctx = Inr ctx' \<Longrightarrow> \<exists>m. ctx' = ctx\<lparr>hc_manager := m\<rparr>"
proof -
  assume "propagate_image h ctx = Inr ctx'"
  then have "ctx' = ctx \<or> (\<exists>m. ctx' = ctx\<lparr>hc_manager := Some m\<rparr>)"
    by (auto simp: propagate_image_def Let_def split: option.splits sum.splits if_splits)
  moreover have "ctx = ctx\<lparr>hc_manager := hc_manager ctx\<rparr>" by simp
  ultimately show ?thesis by metis
qed

lemma BuildResources_steps:
  assumes "BuildResources lib h ctx = Inr (rs, ctx')"
  obtains m where "ctx' = ctx\<lparr>hc_manager := m\<rparr>"
    "buildConfigMap h ctx' (handler_labels lib h ctx') = Inr (br_config_map rs)"
    "buildStatefulSet lib h ctx' (handler_labels lib h ctx') = Inr (br_stateful_set rs)"
    "br_headless_service rs = buildHeadlessService (hl_platform lib) h ctx' (handler_labels lib h ctx')"
    "br_service rs = (if ServicePorts (bc_declaration ctx) = [] then None
       else Some (buildService (hl_platform lib) h ctx' (handler_labels lib h ctx') (ServicePorts (bc_declaration ctx))))"
proof -
  from assms obtain c where c: "propagate_image h ctx = Inr c"
    by (auto simp: BuildResources_def split: sum.splits)
  then obtain m where m: "c = ctx\<lparr>hc_manager := m\<rparr>" using propagate_image_context by blast
  with assms c show thesis
    by (auto simp: BuildResources_def Let_def split: sum.splits intro!: that [of m])
qed
section \<open>Services\<close>

lemma svc_WithPorts_closed: "svc_WithPorts ps b = b\<lparr>svb_ports := svb_ports b @ ps\<rparr>"
  unfolding svc_WithPorts_def by (induction ps arbitrary: b) (simp_all add: AddServicePort_def)

lemmas service_methods = svc_WithPorts_closed svc_WithSelector_def svc_WithLabels_def
  WithPublishNotReadyAddresses_def NewHeadlessServiceBuilder_def NewServiceBuilder_def svc_Build_def
  put_all_fmadd

lemma WithServiceType_keeps:
  "svb_name (WithServiceType t b) = svb_name b" "svb_namespace (WithServiceType t b) = svb_namespace b"
  "svb_selector (WithServiceType t b) = svb_selector b" "svb_labels (WithServiceType t b) = svb_labels b"
  by (cases t, simp_all)+

lemma fmadd_empty_left [simp]: "fmadd fmempty m = m"
  by simp

lemma buildHeadlessService_fields:
  "ks_name (buildHeadlessService pf h ctx ls) = headless_name (bc_resource ctx)"
  "ks_namespace (buildHeadlessService pf h ctx ls) = bc_namespace ctx"
  "ks_selector (buildHeadlessService pf h ctx ls) = buildSelectorLabels pf h ctx"
  "ks_cluster_ip (buildHeadlessService pf h ctx ls) = ClusterIPNone"
  by (simp_all add: buildHeadlessService_def service_methods)

lemma buildService_fields:
  "ks_name (buildService pf h ctx ls ports) = bc_resource ctx"
  "ks_namespace (buildService pf h ctx ls ports) = bc_namespace ctx"
  "ks_selector (buildService pf h ctx ls ports) = buildSelectorLabels pf h ctx"
  by (simp_all add: buildService_def Let_def service_methods WithServiceType_keeps)

lemma buildConfigMap_fields:
  "buildConfigMap h ctx ls = Inr cm \<Longrightarrow> cm_name cm = bc_resource ctx \<and> cm_namespace cm = bc_namespace ctx"
  by (auto simp: buildConfigMap_def cm_Build_def WithConfigFiles_def cm_WithLabels_def NewConfigMapBuilder_def
      split: option.splits sum.splits)

lemma selector_manager: "buildSelectorLabels pf h (ctx\<lparr>hc_manager := m\<rparr>) = buildSelectorLabels pf h ctx"
  by (simp add: buildSelectorLabels_def frameworkSelectorLabels_def identityLabels_def marker_key_def)

section \<open>Properties\<close>

text \<open>
  C21. What the handler builds fits the slots of the write phase: whenever it returns resources, the check before
  the first write finds nothing to object to, because every object carries the derived name of its slot and
  lives in the cluster's namespace.
\<close>

theorem BuildResources_accepted:
  assumes "BuildResources lib h ctx = Inr (rs, ctx')"
  shows "validateRoleGroupResources (group_id_of ctx) (as_resources enc rs) = None"
proof -
  from assms obtain m where ctx': "ctx' = ctx\<lparr>hc_manager := m\<rparr>"
    and cm: "buildConfigMap h ctx' (handler_labels lib h ctx') = Inr (br_config_map rs)"
    and sts: "buildStatefulSet lib h ctx' (handler_labels lib h ctx') = Inr (br_stateful_set rs)"
    and svcs: "br_headless_service rs = buildHeadlessService (hl_platform lib) h ctx' (handler_labels lib h ctx')"
      "br_service rs = (if ServicePorts (bc_declaration ctx) = [] then None
         else Some (buildService (hl_platform lib) h ctx' (handler_labels lib h ctx') (ServicePorts (bc_declaration ctx))))"
    by (rule BuildResources_steps)
  show ?thesis
    using buildConfigMap_fields [OF cm] buildStatefulSet_fields(1,2) [OF sts]
    by (simp add: validateRoleGroupResources_def fixed_slots_def slot_error_def as_resources_def group_id_of_def
        config_map_object_def service_object_def sts_object_def svcs buildHeadlessService_fields
        buildService_fields ctx')
qed

text \<open>
  C11. The resources of one build belong together: the StatefulSet selects the pods of its own template, the
  Services select the same pods, the StatefulSet names the headless Service, and no container, not even one
  from an override or a sidecar, lacks an image. A stopped cluster runs no pods.
\<close>

theorem BuildResources_consistent:
  assumes "BuildResources lib h ctx = Inr (rs, ctx')"
  shows "(let s = br_stateful_set rs; sel = buildSelectorLabels (hl_platform lib) h ctx;
              pod = kt_spec (bs_template s)
    in bs_selector s = sel \<and> selector_matches sel (kt_labels (bs_template s)) \<and>
       ks_selector (br_headless_service rs) = sel \<and> ks_cluster_ip (br_headless_service rs) = ClusterIPNone \<and>
       bs_service_name s = ks_name (br_headless_service rs) \<and>
       (case br_service rs of None \<Rightarrow> True | Some svc \<Rightarrow> ks_selector svc = sel) \<and>
       (\<forall>c. c \<in> set (kp_containers pod) \<union> set (kp_init pod) \<longrightarrow> kc_image c \<noteq> []) \<and>
       bs_replicas s = (if is_stopped (bc_spec ctx) then 0 else GetReplicas (bc_group_spec ctx)))"
proof -
  from assms obtain m where ctx': "ctx' = ctx\<lparr>hc_manager := m\<rparr>"
    and sts: "buildStatefulSet lib h ctx' (handler_labels lib h ctx') = Inr (br_stateful_set rs)"
    and svcs: "br_headless_service rs = buildHeadlessService (hl_platform lib) h ctx' (handler_labels lib h ctx')"
      "br_service rs = (if ServicePorts (bc_declaration ctx) = [] then None
         else Some (buildService (hl_platform lib) h ctx' (handler_labels lib h ctx') (ServicePorts (bc_declaration ctx))))"
    by (rule BuildResources_steps)
  from sts have "missing_image (kt_spec (bs_template (br_stateful_set rs))) = None"
    by (rule buildStatefulSet_steps)
  then have images: "\<forall>c. c \<in> set (kp_containers (kt_spec (bs_template (br_stateful_set rs)))) \<union>
      set (kp_init (kt_spec (bs_template (br_stateful_set rs)))) \<longrightarrow> kc_image c \<noteq> []"
    unfolding missing_image_None by blast
  note fields = buildStatefulSet_fields [OF sts, unfolded ctx' selector_manager]
  show ?thesis
    unfolding Let_def svcs using fields images
    by (simp add: ctx' buildHeadlessService_fields buildService_fields selector_manager effective_replicas_def)
qed
section \<open>Stopping a cluster\<close>

text \<open>Replicas and cluster spec pass through every step of the build.\<close>

lemma labels_spec:
  "buildSelectorLabels pf h (ctx\<lparr>bc_spec := s\<rparr>) = buildSelectorLabels pf h ctx"
  "handler_labels lib h (ctx\<lparr>bc_spec := s\<rparr>) = handler_labels lib h ctx"
  by (simp_all add: buildSelectorLabels_def handler_labels_def buildLabels_def frameworkSelectorLabels_def
      identityLabels_def marker_key_def)

lemma base_builder_spec:
  "base_builder pf h (ctx\<lparr>bc_spec := s\<rparr>) ls =
    (base_builder pf h ctx ls)\<lparr>sb_replicas := effective_replicas s (bc_group_spec ctx)\<rparr>"
  by (simp add: base_builder_def Let_def builder_methods labels_spec)

lemma with_resources_replicas:
  "with_resources d cfg (b\<lparr>sb_replicas := n\<rparr>) = (with_resources d cfg b)\<lparr>sb_replicas := n\<rparr>"
  by (simp add: with_resources_def builder_methods Let_def split: option.split)

lemma with_affinity_replicas:
  "with_affinity ac (ctx\<lparr>bc_spec := s\<rparr>) cfg (b\<lparr>sb_replicas := n\<rparr>) =
    map_sum id (\<lambda>x. x\<lparr>sb_replicas := n\<rparr>) (with_affinity ac ctx cfg b)"
  by (simp add: with_affinity_def builder_methods config_error_def split: option.split sum.split)

lemma with_grace_replicas:
  "with_grace_period scaled (ctx\<lparr>bc_spec := s\<rparr>) cfg (b\<lparr>sb_replicas := n\<rparr>) =
    map_sum id (\<lambda>x. x\<lparr>sb_replicas := n\<rparr>) (with_grace_period scaled ctx cfg b)"
  by (simp add: with_grace_period_def builder_methods config_error_def Let_def split: sum.split)

lemma applyDeclared_replicas:
  "applyDeclaredContainerFields d (b\<lparr>sb_replicas := n\<rparr>) = (applyDeclaredContainerFields d b)\<lparr>sb_replicas := n\<rparr>"
  by (simp add: applyDeclaredContainerFields_def builder_methods Let_def)

lemma finished_replicas:
  "finished_builder h (ctx\<lparr>bc_spec := s\<rparr>) merged (b\<lparr>sb_replicas := n\<rparr>) =
    (finished_builder h ctx merged b)\<lparr>sb_replicas := n\<rparr>"
proof -
  obtain sc psc where sec: "resolveSecurityContext h = (sc, psc)" by fastforce
  show ?thesis
    unfolding finished_builder_def Let_def sec applyDeclared_replicas [symmetric] prod.case
    by (rule arg_cong2 [where f = applyDeclaredContainerFields])
       (simp_all add: wireVolumes_closed builder_methods)
qed

lemma configured_builder_spec:
  "configured_builder lib h (ctx\<lparr>bc_spec := s\<rparr>) ls = map_sum id
    (\<lambda>x. x\<lparr>sb_replicas := effective_replicas s (bc_group_spec ctx)\<rparr>) (configured_builder lib h ctx ls)"
  by (simp add: configured_builder_def Let_def base_builder_spec with_resources_replicas with_affinity_replicas
      with_grace_replicas finished_replicas split: sum.split option.split)

lemma primary_replicas: "primaryContainerName (b\<lparr>sb_replicas := n\<rparr>) = primaryContainerName b"
  by (simp add: primaryContainerName_def)

lemma build_base_replicas: "build_base (b\<lparr>sb_replicas := n\<rparr>) = (build_base b)\<lparr>bs_replicas := n\<rparr>"
  by (simp add: build_base_def buildPodSpec_def buildContainer_def primaryContainerName_def
      selectorMatchLabels_def podManagementPolicy_def buildLivenessProbe_def buildReadinessProbe_def
      buildStartupProbe_def buildDefaultTCPReadinessProbe_def)

lemma Build_replicas:
  "Build mp (b\<lparr>sb_replicas := n\<rparr>) = map_prod (\<lambda>x. x\<lparr>bs_replicas := n\<rparr>) id (Build mp b)"
  by (simp add: Build_def applyPodOverrides_def build_base_replicas primary_replicas selectorMatchLabels_def
      Let_def split: option.split sum.split)

lemma inject_sidecars_replicas:
  "inject_sidecars h (ctx\<lparr>bc_spec := s\<rparr>) (sts\<lparr>bs_replicas := n\<rparr>) =
    map_sum id (\<lambda>x. x\<lparr>bs_replicas := n\<rparr>) (inject_sidecars h ctx sts)"
  by (simp add: inject_sidecars_def build_manager_def on_pod_def split: option.split prod.split sum.split)

lemma buildStatefulSet_spec:
  "buildStatefulSet lib h (ctx\<lparr>bc_spec := s\<rparr>) ls = map_sum id
    (\<lambda>x. x\<lparr>bs_replicas := effective_replicas s (bc_group_spec ctx)\<rparr>) (buildStatefulSet lib h ctx ls)"
proof (cases "configured_builder lib h ctx ls")
  case (Inl e)
  then show ?thesis by (simp add: buildStatefulSet_def configured_builder_spec)
next
  case (Inr b)
  obtain sts errs where built: "Build (hl_merge_patch lib) b = (sts, errs)" by fastforce
  show ?thesis
  proof (cases "inject_sidecars h ctx sts")
    case (Inl e)
    with Inr built show ?thesis
      by (simp add: buildStatefulSet_def configured_builder_spec Build_replicas inject_sidecars_replicas)
  next
    case (Inr out)
    with \<open>configured_builder lib h ctx ls = Inr b\<close> built show ?thesis
      by (simp add: buildStatefulSet_def configured_builder_spec Build_replicas inject_sidecars_replicas
          split: option.split)
  qed
qed

lemma logging_spec_field:
  "vectorLogPipelineActive (ctx\<lparr>bc_spec := s\<rparr>) = vectorLogPipelineActive ctx"
  "RenderContainerLogging (ctx\<lparr>bc_spec := s\<rparr>) d = RenderContainerLogging ctx d"
  "vector_data (ctx\<lparr>bc_spec := s\<rparr>) = vector_data ctx"
  by (simp_all add: vectorLogPipelineActive_def vectorEnabledFor_def RenderContainerLogging_def
      ContainerLogging_def vector_data_def cong: option.case_cong)

lemma render_producers_spec:
  "render_producers (ctx\<lparr>bc_spec := s\<rparr>) data ds = render_producers ctx data ds"
  by (induction ds arbitrary: data) (simp_all add: logging_spec_field split: option.split sum.split)

lemma buildConfigMap_spec: "buildConfigMap h (ctx\<lparr>bc_spec := s\<rparr>) ls = buildConfigMap h ctx ls"
proof -
  have vector: "add_vector_config (ctx\<lparr>bc_spec := s\<rparr>) data = add_vector_config ctx data" for data
    by (simp add: add_vector_config_def logging_spec_field)
  have "RenderLoggingConfigMapData (ctx\<lparr>bc_spec := s\<rparr>) ds = RenderLoggingConfigMapData ctx ds" for ds
    unfolding RenderLoggingConfigMapData_def vector render_producers_spec by (simp split: option.split)
  then have "logging_data (ctx\<lparr>bc_spec := s\<rparr>) = logging_data ctx"
    by (simp add: logging_data_def)
  then show ?thesis
    by (simp add: buildConfigMap_def config_data_def split: option.split sum.split)
qed

text \<open>
  C20. Stopping a cluster, and any other edit of the cluster spec after the context's group spec was folded, only
  changes the number of replicas of what is built: every object is still there with the same content, and
  resuming restores the declared number.
\<close>

theorem stopping_only_scales:
  "BuildResources lib h (ctx\<lparr>bc_spec := s\<rparr>) = map_sum id
    (\<lambda>(rs, c). (rs\<lparr>br_stateful_set := (br_stateful_set rs)
       \<lparr>bs_replicas := if is_stopped s then 0 else GetReplicas (bc_group_spec ctx)\<rparr>\<rparr>, c\<lparr>bc_spec := s\<rparr>))
    (BuildResources lib h ctx)"
proof (cases "propagate_image h ctx")
  case (Inl e)
  then have "propagate_image h (ctx\<lparr>bc_spec := s\<rparr>) = Inl e"
    by (auto simp: propagate_image_def Let_def split: option.splits sum.splits if_splits)
  with Inl show ?thesis by (simp add: BuildResources_def)
next
  case (Inr c)
  then have image: "propagate_image h (ctx\<lparr>bc_spec := s\<rparr>) = Inr (c\<lparr>bc_spec := s\<rparr>)"
    by (auto simp: propagate_image_def Let_def split: option.splits sum.splits if_splits)
  obtain m where c: "c = ctx\<lparr>hc_manager := m\<rparr>" using propagate_image_context [OF Inr] by blast
  have svcs: "buildHeadlessService pf h (c\<lparr>bc_spec := s\<rparr>) ls = buildHeadlessService pf h c ls"
    "buildService pf h (c\<lparr>bc_spec := s\<rparr>) ls ports = buildService pf h c ls ports" for pf ls ports
    by (simp_all add: buildHeadlessService_def buildService_def labels_spec)
  show ?thesis
    unfolding BuildResources_def image Inr sum.case Let_def labels_spec buildConfigMap_spec buildStatefulSet_spec svcs
    by (simp add: c effective_replicas_def split: sum.split)
qed
section \<open>An example\<close>

definition example_libraries :: handler_libraries where
  "example_libraries = \<lparr>hl_platform = plain_platform, hl_valid_value = (\<lambda>_. True),
     hl_merge_patch = (\<lambda>base over. Inr base), hl_affinity = sample_codec, hl_scaled = (\<lambda>_ _ _. 0)\<rparr>"

definition example_with :: "volume_provider option list \<Rightarrow> handler_context" where
  "example_with vps = (handler_context_of
     ((example_context ''data'' ''a'' fmempty)\<lparr>bc_merged := Some NewMergedConfig\<rparr>))\<lparr>hc_volume_providers := vps\<rparr>"

definition example_handler_context :: handler_context where
  "example_handler_context = example_with []"

lemma parse_timeout: "ParseDuration scaled DefaultGracefulShutdownTimeout = Inr (30 * second)"
  by (simp add: DefaultGracefulShutdownTimeout_def ParseDuration_def duration_parts.simps duration_part_def in_number_def is_digit_def
      fraction_digits_def after_number_def digit_nat_def unit_nanoseconds_def micro_sign_def greek_mu_def second_def Let_def)

lemma example_with_fields:
  "bc_merged (example_with vps) = Some NewMergedConfig"
  "hc_manager (example_with vps) = Some NewSidecarManager"
  "hc_pipeline (example_with vps) = Some False"
  "bc_group_spec (example_with vps) = plain_group_spec"
  "bc_image (example_with vps) = \<lparr>ri_reference = ''hdfs:3'', ri_pull_policy = [],
       ri_pull_secret_name = [], ri_product_version = ''3.4''\<rparr>"
  "bc_declaration (example_with vps) = no_declaration"
  "hc_volume_providers (example_with vps) = vps"
  "bc_resource (example_with vps) = ''hdfs-data-a''"
  "bc_spec (example_with vps) = \<lparr>spec_image = None, spec_cluster_operation = None, spec_roles = fmempty\<rparr>"
  by (simp_all add: example_with_def handler_context_of_def handler_context.defs build_context.defs example_context_def reconciler_manager_def)

lemmas example_fields = example_with_fields [of "[]", folded example_handler_context_def]

lemma example_builder:
  obtains b where "configured_builder example_libraries NewBaseRoleGroupHandler (example_with vps) ls = Inr b"
    "sb_pod_overrides b = None" "sb_image b = ''hdfs:3''" "sb_init_containers b = []"
  by (simp add: configured_builder_def example_with_fields plain_group_spec_def RoleGroupSpec_GetConfig_def empty_config_def
    with_affinity_def with_grace_period_def GetGracefulShutdownTimeout_def parse_timeout second_def
    finished_builder_def resolveSecurityContext_def NewBaseRoleGroupHandler_def NewMergedConfig_def no_declaration_def
    wireVolumes_closed builder_methods applyDeclaredContainerFields_def with_resources_def base_builder_def Let_def)

lemma inject_none: "InjectAll NewSidecarManager pod = (Inr (), pod)"
  by (simp add: InjectAll_def injectionOrder_def ListProviders_def NewSidecarManager_def returnE_def keys_def)

lemma example_stateful_set_with:
  obtains out b where "buildStatefulSet example_libraries NewBaseRoleGroupHandler (example_with vps) ls = Inr out"
     "kp_containers (kt_spec (bs_template out)) = [buildContainer b]" "kp_init (kt_spec (bs_template out)) = []"
     "primaryContainerName b = ''hdfs-data-a''"
proof -
  obtain b where b: "configured_builder example_libraries NewBaseRoleGroupHandler (example_with vps) ls = Inr b"
    "sb_pod_overrides b = None" "sb_image b = ''hdfs:3''" "sb_init_containers b = []"
    by (rule example_builder)
  show thesis
    using configured_primary [OF b(1)] b
    by (intro that [of "build_base b" b])
       (simp_all add: buildStatefulSet_def Build_def inject_sidecars_def build_manager_def example_with_fields inject_none
         missing_image_def build_base_def buildPodSpec_def buildContainer_def on_pod_def primary_name_def no_declaration_def)
qed

lemmas example_stateful_set = example_stateful_set_with [of "[]", folded example_handler_context_def]

lemma example_config_map:
  "\<exists>cm. buildConfigMap NewBaseRoleGroupHandler example_handler_context ls = Inr cm"
  by (simp add: buildConfigMap_def example_fields config_data_def generated_files_def NewBaseRoleGroupHandler_def NewMergedConfig_def
      logging_data_def RenderLoggingConfigMapData_def no_declaration_def ValidateProducers_def add_vector_config_def vectorLogPipelineActive_def)

lemma SetProductImage_empty: "img \<noteq> [] \<Longrightarrow> SetProductImage img policy NewSidecarManager = Inr NewSidecarManager"
proof -
  have "collect_map f (fmempty :: 'v gomap) = fmempty" for f :: "string \<Rightarrow> 'v \<Rightarrow> 'w option"
    by (rule fmap_ext) (simp add: collect_map_lookup)
  then show "img \<noteq> [] \<Longrightarrow> SetProductImage img policy NewSidecarManager = Inr NewSidecarManager"
    by (simp add: SetProductImage_def NewSidecarManager_def)
qed

lemma example_image: "propagate_image NewBaseRoleGroupHandler example_handler_context = Inr example_handler_context"
proof -
  have "c\<lparr>hc_manager := m\<rparr> = c" if "hc_manager c = m" for c :: handler_context and m
    using that by auto
  then show ?thesis by (simp add: propagate_image_def example_fields SetProductImage_empty)
qed

lemma example_builds: "\<exists>rs c. BuildResources example_libraries NewBaseRoleGroupHandler example_handler_context = Inr (rs, c)"
  by (rule example_stateful_set [of "handler_labels example_libraries NewBaseRoleGroupHandler example_handler_context"])
    (use example_config_map [of "handler_labels example_libraries NewBaseRoleGroupHandler example_handler_context"] in 
      \<open>auto simp: BuildResources_def example_image Let_def\<close>)

definition example_encoder :: resource_encoder where
  "example_encoder = \<lparr>enc_container = (\<lambda>_. []), enc_volume = (\<lambda>_. []), enc_pod = (\<lambda>_. []), enc_claim = (\<lambda>_. []),
     enc_stateful_set = (\<lambda>_. []), enc_service = (\<lambda>_. [])\<rparr>"

theorem BuildResources_accepted_witness:
  "\<exists>rs c. BuildResources example_libraries NewBaseRoleGroupHandler example_handler_context = Inr (rs, c) \<and>
    validateRoleGroupResources (group_id_of example_handler_context) (as_resources example_encoder rs) = None"
  using example_builds BuildResources_accepted by blast

theorem BuildResources_consistent_witness:
  "\<exists>rs c. BuildResources example_libraries NewBaseRoleGroupHandler example_handler_context = Inr (rs, c) \<and>
    bs_replicas (br_stateful_set rs) = 3"
proof -
  obtain rs c where built: "BuildResources example_libraries NewBaseRoleGroupHandler example_handler_context = Inr (rs, c)"
    using example_builds by blast
  have "bs_replicas (br_stateful_set rs) = 3"
    using BuildResources_consistent [OF built]
    by (simp add: example_fields is_stopped_def plain_group_spec_def GetReplicas_def Let_def)
  with built show ?thesis by blast
qed

end
