(* ===== verification/HandlerConfig.thy ===== *)
theory HandlerConfig
  imports HandlerSafety
begin

text \<open>
  The configuration of a role group on its way into the pod: the files of the ConfigMap, its mount in the
  primary container and the grace period.
\<close>

section \<open>The files\<close>

lemma generate_each_correct:
  assumes "generate_each f xs data = Inr out" and "distinct (map fst xs)"
  shows "(\<forall>k c. (k, c) \<in> set xs \<longrightarrow> (\<exists>t. f k c = Inr t \<and> fmlookup out k = Some t)) \<and>
    (\<forall>k. k \<notin> fst ` set xs \<longrightarrow> fmlookup out k = fmlookup data k)"
  using assms
proof (induction xs arbitrary: data)
  case (Cons x xs)
  obtain k c where x: "x = (k, c)" by fastforce
  with Cons.prems obtain t where t: "f k c = Inr t" and rest: "generate_each f xs (fmupd k t data) = Inr out"
    by (auto split: sum.splits)
  with Cons.IH [OF rest] Cons.prems(2) x show ?case by (auto simp: image_iff)
qed simp

lemma fallback_files_correct:
  assumes "fallback_files data xs = Inr out" and "distinct (map fst xs)"
  shows "(\<forall>k c. (k, c) \<in> set xs \<longrightarrow> fmlookup data k = None \<longrightarrow>
      (\<exists>t. properties_marshal NewPropertiesAdapter c = Inr t \<and> fmlookup out k = Some t)) \<and>
    (\<forall>k. k \<notin> fst ` set xs \<or> fmlookup data k \<noteq> None \<longrightarrow> fmlookup out k = fmlookup data k)"
  using assms
proof (induction xs arbitrary: data)
  case (Cons x xs)
  obtain k c where x: "x = (k, c)" by fastforce
  show ?case
  proof (cases "fmlookup data k")
    case (Some v)
    with Cons.prems x have "fallback_files data xs = Inr out" by simp
    from Cons.IH [OF this] Cons.prems(2) x Some show ?thesis by (auto simp: image_iff)
  next
    case None
    with Cons.prems x obtain t where t: "properties_marshal NewPropertiesAdapter c = Inr t"
      and rest: "fallback_files (fmupd k t data) xs = Inr out"
      by (auto split: sum.splits)
    have "k \<notin> fst ` set xs" "distinct (map fst xs)" using Cons.prems(2) x by auto
    with Cons.IH [OF rest] x t None show ?thesis by (auto simp: image_iff)
  qed
qed simp

lemma add_logging_correct:
  assumes "add_logging data xs = Inr out" and "distinct (map fst xs)"
  shows "(\<forall>k v. (k, v) \<in> set xs \<longrightarrow> fmlookup data k = None \<and> fmlookup out k = Some v) \<and>
    (\<forall>k. k \<notin> fst ` set xs \<longrightarrow> fmlookup out k = fmlookup data k)"
  using assms
proof (induction xs arbitrary: data)
  case (Cons x xs)
  obtain k v where x: "x = (k, v)" by fastforce
  with Cons.prems have fresh: "fmlookup data k = None" and rest: "add_logging (fmupd k v data) xs = Inr out"
    by (auto split: if_splits)
  have "k \<notin> fst ` set xs" "distinct (map fst xs)" using Cons.prems(2) x by auto
  with Cons.IH [OF rest] x fresh show ?case by (auto simp: image_iff split: if_splits)
qed simp

text \<open>How a file the user or the product configured is rendered.\<close>

definition rendered_file :: "base_handler \<Rightarrow> string \<Rightarrow> string gomap \<Rightarrow> err + string" where
  "rendered_file h name cfg =
     (case h_generator h of
        Some fs \<Rightarrow> multi_generate fs name cfg | None \<Rightarrow> properties_marshal NewPropertiesAdapter cfg)"

lemma entries_lookup: "(k, v) \<in> set (entries m) \<longleftrightarrow> fmlookup m k = Some v"
  by (simp add: set_entries)

lemma fst_image: "k \<in> fst ` S \<longleftrightarrow> (\<exists>v. (k, v) \<in> S)"
  by force

lemma entries_keys: "k \<in> fst ` set (entries m) \<longleftrightarrow> fmlookup m k \<noteq> None"
  unfolding fst_image entries_lookup by simp

lemma fmdom_eq_iff: "fmdom a = fmdom b \<longleftrightarrow> (\<forall>k. fmlookup a k = None \<longleftrightarrow> fmlookup b k = None)"
  by (metis fmdom_notD fmdom_notI fset_eqI)

lemma config_files_rendered:
  assumes "generated_files h files = Inr generated"
    and "fallback_files (put_all (entries generated) fmempty) (entries files) = Inr data"
  shows "fmdom data = fmdom files"
    and "fmlookup files name = Some cfg \<Longrightarrow> \<exists>t. rendered_file h name cfg = Inr t \<and> fmlookup data name = Some t"
proof -
  let ?start = "put_all (entries generated) fmempty"
  have start: "fmlookup ?start k = fmlookup generated k" for k by (simp add: put_all_fmadd)
  have gen: "(\<forall>k. fmlookup files k = None \<longrightarrow> fmlookup generated k = None) \<and>
      (h_generator h \<noteq> None \<longrightarrow> (\<forall>k c. fmlookup files k = Some c \<longrightarrow>
        (\<exists>t. rendered_file h k c = Inr t \<and> fmlookup generated k = Some t))) \<and>
      (h_generator h = None \<longrightarrow> generated = fmempty)"
  proof (cases "h_generator h")
    case None
    with assms(1) show ?thesis by (simp add: generated_files_def)
  next
    case (Some fs)
    show ?thesis
    proof (cases "entries files = []")
      case True
      then have "files = fmempty" by (metis entries_lookup fmap_ext fmempty_lookup list.set(1) empty_iff option.exhaust)
      with Some assms(1) True show ?thesis by (simp add: generated_files_def)
    next
      case False
      with Some assms(1) have "generate_each (multi_generate fs) (entries files) fmempty = Inr generated"
        by (simp add: generated_files_def multi_generate_files_def)
      from generate_each_correct [OF this distinct_fst_entries] Some show ?thesis
        by (simp add: entries_lookup entries_keys rendered_file_def)
    qed
  qed
  note fb = fallback_files_correct [OF assms(2) distinct_fst_entries, unfolded entries_lookup entries_keys start]
  have found: "\<exists>t. rendered_file h k c = Inr t \<and> fmlookup data k = Some t" if "fmlookup files k = Some c" for k c
  proof (cases "h_generator h")
    case None
    with gen fb that show ?thesis by (auto simp: rendered_file_def)
  next
    case (Some fs)
    with gen that obtain t where "rendered_file h k c = Inr t" "fmlookup generated k = Some t"
      by (metis option.distinct(1))
    with fb show ?thesis by auto
  qed
  then show "fmlookup files name = Some cfg \<Longrightarrow> \<exists>t. rendered_file h name cfg = Inr t \<and> fmlookup data name = Some t"
    by blast
  have "fmlookup data k = None \<longleftrightarrow> fmlookup files k = None" for k
    using found [of k] fb gen by (cases "fmlookup files k") auto
  then show "fmdom data = fmdom files"
    by (simp add: fmdom_eq_iff)
qed

text \<open>
  C16. The ConfigMap of a role group holds exactly the files of the merged configuration and the logging entries,
  and the two never meet: each configured file with the text its generator, or the properties format, gives
  it, and each logging entry as it was rendered. A file name that both claim is an error, not an overwrite.
\<close>

theorem config_map_complete:
  assumes "buildConfigMap h ctx ls = Inr cm" and "bc_merged ctx = Some merged"
  shows "\<exists>logs. logging_data ctx = Inr logs \<and> fmdom (ConfigFiles merged) |\<inter>| fmdom logs = {||} \<and>
    fmdom (cm_data cm) = fmdom (ConfigFiles merged) |\<union>| fmdom logs \<and>
    (\<forall>k v. fmlookup logs k = Some v \<longrightarrow> fmlookup (cm_data cm) k = Some v) \<and>
    (\<forall>k cfg. fmlookup (ConfigFiles merged) k = Some cfg \<longrightarrow>
       (\<exists>t. rendered_file h k cfg = Inr t \<and> fmlookup (cm_data cm) k = Some t))"
proof -
  let ?files = "ConfigFiles merged"
  from assms obtain generated data logs out where gen: "generated_files h ?files = Inr generated"
    and data: "fallback_files (put_all (entries generated) fmempty) (entries ?files) = Inr data"
    and logs: "logging_data ctx = Inr logs" and out: "add_logging data (entries logs) = Inr out"
    and cm: "cm_data cm = out"
    by (auto simp: buildConfigMap_def config_data_def cm_Build_def WithConfigFiles_def cm_WithLabels_def
        NewConfigMapBuilder_def put_all_fmadd split: sum.splits)
  note files = config_files_rendered [OF gen data]
  note add = add_logging_correct [OF out distinct_fst_entries, unfolded entries_lookup entries_keys]
  have apart: "fmlookup logs k = None" if "fmlookup ?files k = Some cfg" for k cfg
    using add files(2) [OF that] by (metis option.distinct(1) option.exhaust)
  have "fmlookup out k \<noteq> None \<longleftrightarrow> fmlookup data k \<noteq> None \<or> fmlookup logs k \<noteq> None" for k
    using add by (metis option.distinct(1) option.exhaust)
  then have "fmdom out = fmdom data |\<union>| fmdom logs"
    by (intro fset_eqI) (simp add: fmlookup_dom_iff)
  moreover have "fmdom ?files |\<inter>| fmdom logs = {||}"
    using apart by (auto simp: fmlookup_dom_iff)
  moreover have "\<exists>t. rendered_file h k cfg = Inr t \<and> fmlookup out k = Some t"
    if "fmlookup ?files k = Some cfg" for k cfg
    using files(2) [OF that] apart [OF that] add by auto
  ultimately show ?thesis using logs cm files(1) add by auto
qed

section \<open>The grace period\<close>

lemma second_pos: "0 < second" by (simp add: second_def)

lemma grace_seconds_exact:
  assumes "0 < d" and "d < 2 ^ 63 - second"
  shows "grace_seconds d = (d + second - 1) div second"
proof -
  have "wrap64 (d + second) = d + second" "wrap64 (d + second - 1) = d + second - 1"
    using assms second_pos by (simp_all add: wrap64_small)
  then show ?thesis
    using assms(1) second_pos by (simp add: grace_seconds_def signed_divide_int_def)
qed

text \<open>
  A grace period is the declared timeout in whole seconds, rounded up, so it is never zero; this holds as
  long as the timeout is a second below the largest duration there is.
\<close>

theorem grace_period_rounds_up:
  assumes "with_grace_period scaled ctx cfg b = Inr b'"
    and "ParseDuration scaled (GetGracefulShutdownTimeout (Some cfg)) = Inr d" and "d < 2 ^ 63 - second"
  shows "\<exists>s. sb_grace b' = Some s \<and> 1 \<le> s \<and> d \<le> s * second \<and> (s - 1) * second < d"
proof -
  from assms(1,2) have d: "0 < d" and b': "sb_grace b' = Some (grace_seconds d)"
    by (auto simp: with_grace_period_def Let_def WithTerminationGracePeriod_def split: if_splits)
  let ?s = "grace_seconds d"
  have s: "?s = (d + second - 1) div second" by (rule grace_seconds_exact [OF d assms(3)])
  have "?s * second + (d + second - 1) mod second = d + second - 1"
    unfolding s by (rule div_mult_mod_eq)
  moreover have "0 \<le> (d + second - 1) mod second" "(d + second - 1) mod second < second"
    using second_pos by simp_all
  ultimately have upper: "d \<le> ?s * second" and lower: "(?s - 1) * second < d"
    by (simp_all add: left_diff_distrib)
  have "1 \<le> ?s"
  proof (rule ccontr)
    assume "\<not> 1 \<le> ?s"
    then have "?s * second \<le> 0" using second_pos by (simp add: mult_nonpos_nonneg)
    with upper d show False by simp
  qed
  with b' upper lower show ?thesis by blast
qed

text \<open>Closer to the bound the sum overflows, and the grace period is negative.\<close>

lemma grace_period_overflows:
  "ParseDuration scaled ''9223372036s'' = Inr 9223372036000000000"
  "grace_seconds 9223372036000000000 = - 9223372036"
  by (simp_all add: ParseDuration_def duration_parts.simps duration_part_def in_number_def is_digit_def
      fraction_digits_def after_number_def digit_nat_def unit_nanoseconds_def micro_sign_def greek_mu_def
      grace_seconds_def wrap64_def second_def Let_def)

section \<open>The mount\<close>

lemma find_key_mounts_added:
  "list_all2 mounts_added cs ds \<Longrightarrow> find_key kc_name n ds = Some d \<Longrightarrow>
    \<exists>c. find_key kc_name n cs = Some c \<and> mounts_added c d"
  by (induction rule: list_all2_induct) (auto simp: mounts_added_name split: if_splits)

lemma cleared_container:
  "\<exists>bc \<in> set (allPodContainers (clearSupersededUnions (bs_template (build_base b)) over)).
    kc_name bc = primaryContainerName b \<and> kc_mounts bc = sb_mounts b"
  by (auto simp: allPodContainers_def clearSupersededUnions_def clearSupersededContainerUnions_def build_base_def
      buildPodSpec_def buildContainer_def Let_def split: option.split)

lemma built_mounts:
  assumes "Build mp b = (sts, [])" and "find_key kc_name (primaryContainerName b) (allPodContainers (bs_template sts)) = Some c"
    and "primaryContainerName b \<notin> set (init_names (kt_spec (bs_template sts)))" and "m \<in> set (sb_mounts b)"
  shows "\<exists>m' \<in> set (kc_mounts c). mount_name m' = mount_name m \<and> mount_path m' = mount_path m"
proof (cases "sb_pod_overrides b")
  case None
  with assms(1) have sts: "sts = build_base b" by (simp add: Build_def)
  then have "find_key kc_name (primaryContainerName b) (sb_init_containers b) = None"
    using assms(3) by (auto simp: build_base_def buildPodSpec_def init_names_def find_key_None)
  with assms(2,4) sts show ?thesis
    by (auto simp: build_base_def buildPodSpec_def allPodContainers_def buildContainer_def)
next
  case (Some over)
  let ?base = "clearSupersededUnions (bs_template (build_base b)) (name_unnamed (primaryContainerName b) over)"
  from Some assms(1) obtain merged where "mp ?base (name_unnamed (primaryContainerName b) over) = Inr merged"
    and check: "checkPodOverrideMountInvariants ?base merged (bs_claims (build_base b)) = []"
    and sts: "kt_spec (bs_template sts) = kt_spec merged"
    by (auto simp: Build_def applyPodOverrides_def Let_def split: sum.splits)
  obtain bc where "bc \<in> set (allPodContainers ?base)" "kc_name bc = primaryContainerName b"
    "kc_mounts bc = sb_mounts b"
    using cleared_container by blast
  moreover have "find_key kc_name (primaryContainerName b) (allPodContainers merged) = Some c"
    using assms(2) sts by (simp add: allPodContainers_def)
  ultimately have "mount_at c (mount_path m) = Some (mount_name m)"
    using check [unfolded mount_invariants_iff, THEN conjunct1] assms(4) by metis
  then obtain m' where "find_key mount_path (mount_path m) (rev (kc_mounts c)) = Some m'" "mount_name m' = mount_name m"
    by (auto simp: mount_at_def)
  then show ?thesis using find_key_SomeD [of mount_path "mount_path m" "rev (kc_mounts c)" m'] by auto
qed

lemma inject_sidecars_grows:
  assumes "inject_sidecars h ctx sts = Inr out"
    and "case build_manager h ctx of None \<Rightarrow> True | Some m \<Rightarrow> manager_ok m"
  shows "pod_grows (kt_spec (bs_template sts)) (kt_spec (bs_template out)) \<and> bs_claims out = bs_claims sts"
proof (cases "build_manager h ctx")
  case None
  with assms(1) show ?thesis by (simp add: inject_sidecars_def pods.refl)
next
  case (Some m)
  with assms(1) obtain u pod where "InjectAll m (kt_spec (bs_template sts)) = (Inr u, pod)"
    and "kt_spec (bs_template out) = pod" "bs_claims out = bs_claims sts"
    by (auto simp: inject_sidecars_def on_pod_def split: prod.splits sum.splits)
  moreover have "manager_ok m" using assms(2) Some by simp
  ultimately show ?thesis using inject_each_correct unfolding InjectAll_def by blast
qed

text \<open>A mount of the builder's volumes names a volume or a claim of the built StatefulSet.\<close>

lemma built_declared:
  assumes "Build mp b = (sts, [])" and "c \<in> set (allPodContainers (bs_template sts))" and "m \<in> set (kc_mounts c)"
    and "mount_name m \<in> kv_name ` set (sb_volumes b)"
  shows "mount_name m \<in> kv_name ` set (kp_volumes (kt_spec (bs_template sts))) \<union> claim_name ` set (bs_claims sts)"
proof (cases "sb_pod_overrides b")
  case None
  with assms(1,4) show ?thesis by (auto simp: Build_def build_base_def buildPodSpec_def)
next
  case (Some over)
  let ?base = "clearSupersededUnions (bs_template (build_base b)) (name_unnamed (primaryContainerName b) over)"
  from Some assms(1) obtain merged where
    check: "checkPodOverrideMountInvariants ?base merged (bs_claims (build_base b)) = []"
    and sts: "kt_spec (bs_template sts) = kt_spec merged" "bs_claims sts = bs_claims (build_base b)"
    by (auto simp: Build_def applyPodOverrides_def Let_def split: sum.splits)
  from assms(2) sts have "c \<in> set (allPodContainers merged)" by (simp add: allPodContainers_def)
  with assms(3) show ?thesis unfolding sts
    by (rule check [unfolded mount_invariants_iff, THEN conjunct2, THEN bspec, THEN bspec, rotated])
qed

text \<open>
  A mount of the config volume or of a provider is in the primary container of the finished StatefulSet, and its
  volume is there, whatever the pod overrides and the sidecars did, for sidecars that keep their contract. Of a
  name that an init container took as well nothing is claimed.
\<close>

lemma wired_reaches_primary:
  assumes "buildStatefulSet lib h ctx ls = Inr out"
    and "case build_manager h ctx of None \<Rightarrow> True | Some m \<Rightarrow> manager_ok m"
    and "find_key kc_name (primary_name ctx) (kp_containers (kt_spec (bs_template out))) = Some c"
    and "primary_name ctx \<notin> set (init_names (kt_spec (bs_template out)))"
    and "m \<in> set (wired_mounts h ctx)" and "mount_name m \<in> kv_name ` set (wired_volumes ctx)"
  shows "(\<exists>m' \<in> set (kc_mounts c). mount_name m' = mount_name m \<and> mount_path m' = mount_path m) \<and>
    mount_name m \<in> kv_name ` set (kp_volumes (kt_spec (bs_template out))) \<union> claim_name ` set (bs_claims out)"
proof -
  from assms(1) obtain b sts where b: "configured_builder lib h ctx ls = Inr b"
    and sts: "Build (hl_merge_patch lib) b = (sts, [])" and out: "inject_sidecars h ctx sts = Inr out"
    by (rule buildStatefulSet_steps)
  have name: "primaryContainerName b = primary_name ctx" by (rule configured_primary [OF b])
  have grows: "pod_grows (kt_spec (bs_template sts)) (kt_spec (bs_template out))" "bs_claims out = bs_claims sts"
    using inject_sidecars_grows [OF out assms(2)] by simp_all
  obtain c0 where c0: "find_key kc_name (primary_name ctx) (kp_containers (kt_spec (bs_template sts))) = Some c0"
    and added: "mounts_added c0 c"
    using find_key_mounts_added assms(3) grows(1) unfolding pod_grows_def by blast
  have init: "primary_name ctx \<notin> set (init_names (kt_spec (bs_template sts)))"
    using grows(1) assms(4) set_mono_prefix unfolding pod_grows_def by blast
  then have "find_key kc_name (primary_name ctx) (kp_init (kt_spec (bs_template sts))) = None"
    by (simp add: init_names_def find_key_None)
  then have found: "find_key kc_name (primary_name ctx) (allPodContainers (bs_template sts)) = Some c0"
    using c0 by (simp add: allPodContainers_def)
  have wired: "m \<in> set (sb_mounts b)" "mount_name m \<in> kv_name ` set (sb_volumes b)"
    using configured_builder_correct(2) [OF b] assms(5,6) by (auto simp: wired_def)
  obtain m' where m': "m' \<in> set (kc_mounts c0)" "mount_name m' = mount_name m" "mount_path m' = mount_path m"
    using built_mounts [OF sts, unfolded name, OF found init wired(1)] by blast
  have "mount_name m \<in> kv_name ` set (kp_volumes (kt_spec (bs_template sts))) \<union> claim_name ` set (bs_claims sts)"
    using built_declared [OF sts _ m'(1)] m'(2) wired(2) found find_key_SomeD [OF found] by simp
  moreover have "set (kp_volumes (kt_spec (bs_template sts))) \<subseteq> set (kp_volumes (kt_spec (bs_template out)))"
    using grows(1) set_mono_prefix unfolding pod_grows_def by blast
  moreover have "m' \<in> set (kc_mounts c)"
    using added m'(1) set_mono_prefix unfolding mounts_added_def by blast
  ultimately show ?thesis using m' grows(2) by auto
qed

text \<open>The manager the reconciler makes keeps the contract, and the image of the product does not change that.\<close>

lemma reconciler_manager_ok: "manager_ok (reconciler_manager v)"
  by (auto simp: reconciler_manager_def manager_ok_New intro!: manager_ok_Register vector.sidecar_provider_axioms
      split: option.split)

lemma SetProductImage_ok: "manager_ok m \<Longrightarrow> SetProductImage img policy m = Inr m' \<Longrightarrow> manager_ok m'"
  by (auto simp: SetProductImage_def manager_ok_iff split: if_splits)

section \<open>Examples\<close>

theorem config_map_complete_witness:
  "\<exists>cm. buildConfigMap NewBaseRoleGroupHandler example_handler_context fmempty = Inr cm \<and>
    fmdom (ConfigFiles (NewMergedConfig :: ktemplate merged_config)) |\<subseteq>| fmdom (cm_data cm)"
proof -
  obtain cm where cm: "buildConfigMap NewBaseRoleGroupHandler example_handler_context fmempty = Inr cm"
    using example_config_map by blast
  from config_map_complete [OF this example_fields(1)] cm show ?thesis by blast
qed

theorem grace_period_rounds_up_witness:
  "\<exists>s. sb_grace (WithTerminationGracePeriod (grace_seconds (30 * second)) (NewStatefulSetBuilder [] [])) = Some s \<and>
    30 * second \<le> s * second"
  using grace_period_rounds_up [of "\<lambda>_ _ _. 0" example_handler_context empty_config "NewStatefulSetBuilder [] []"
      "WithTerminationGracePeriod (grace_seconds (30 * second)) (NewStatefulSetBuilder [] [])" "30 * second"]
  by (simp add: with_grace_period_def GetGracefulShutdownTimeout_def empty_config_def parse_timeout Let_def)
     (auto simp: second_def)

end
