(* ===== verification/CsiVolumes.thy ===== *)
theory CsiVolumes
  imports StatefulSetBuilder Logging
begin

text \<open>
  What the secret and the listener provisioner share: the volume both make, the mounts, and the contract
  under which the framework puts them into a pod (\<open>reconciler.VolumeProvider\<close>). A panic of the code is an
  error of the model. A registration is a value, so what is registered is not changed afterwards.
\<close>

definition panics :: "string \<Rightarrow> err" where "panics message = PlainError (''panic: '' @ message)"

section \<open>Paths\<close>

definition IsAbs :: "string \<Rightarrow> bool" where "IsAbs p \<longleftrightarrow> p \<noteq> [] \<and> hd p = slash"

lemma path_clean_absolute: "IsAbs p \<Longrightarrow> IsAbs (path_clean p)"
  by (simp add: IsAbs_def path_clean_def Let_def)

text \<open>The components a rooted path is made of.\<close>

definition components :: "string \<Rightarrow> string list" where
  "components p = clean_components True [] (split_on slash p)"

lemma split_on_nonempty [simp]: "split_on c s \<noteq> []"
  by (induction s) (auto split: list.split)

lemma split_on_snoc: "c \<notin> set s \<Longrightarrow> split_on c (p @ c # s) = split_on c p @ [s]"
  by (induction p) (auto simp: split_on_free split: list.split)

lemma clean_components_snoc:
  "bare s \<Longrightarrow> clean_components True acc (cs @ [s]) = clean_components True acc cs @ [s]"
  by (induction "True" acc cs rule: clean_components.induct)
     (auto simp: bare_def split: list.splits)

lemma path_join_bare:
  assumes "IsAbs base" and "bare s"
  shows "path_join [base, s] = slash # join_strings [slash] (components base @ [s])"
proof -
  have "base \<noteq> []" "s \<noteq> []" "slash \<notin> set s" using assms by (auto simp: IsAbs_def bare_def)
  with assms show ?thesis
    by (simp add: path_join_def path_clean_def components_def IsAbs_def split_on_snoc clean_components_snoc Let_def)
qed

lemma join_strings_snoc_inj: "join_strings sep (xs @ [a]) = join_strings sep (xs @ [b]) \<longleftrightarrow> a = b"
proof (induction xs)
  case (Cons x xs)
  then show ?case by (cases xs) simp_all
qed simp

lemma path_join_inj:
  assumes "IsAbs base" and "bare s" and "bare t"
  shows "path_join [base, s] = path_join [base, t] \<longleftrightarrow> s = t"
  using assms by (simp add: path_join_bare join_strings_snoc_inj)

lemma path_join_absolute: "IsAbs base \<Longrightarrow> bare s \<Longrightarrow> IsAbs (path_join [base, s])"
  by (simp add: path_join_bare) (simp add: IsAbs_def)

section \<open>Volumes and mounts\<close>

text \<open>The ephemeral volume of a CSI storage class.\<close>

definition csi_volume :: "string \<Rightarrow> string gomap \<Rightarrow> string \<Rightarrow> quantity \<Rightarrow> kvolume" where
  "csi_volume name annots class request =
     \<lparr>kv_name = name, kv_source = ephemeral_source
       \<lparr>ct_annotations = annots, ct_access_modes = [''ReadWriteOnce''], ct_storage_class = class,
        ct_volume_mode = ''Filesystem'', ct_request = request\<rparr>\<rparr>"

definition csi_mount :: "string \<Rightarrow> string \<Rightarrow> volume_mount" where
  "csi_mount base name = read_only_mount name (path_join [base, name])"

text \<open>\<open>AutoInject\<close>: the volumes, then the mounts.\<close>

definition inject_volumes :: "kvolume list \<times> volume_mount list \<Rightarrow> sts_builder \<Rightarrow> sts_builder" where
  "inject_volumes provided b = fold AddVolumeMount (snd provided) (fold AddVolume (fst provided) b)"

lemma inject_volumes_fields:
  "sb_volumes (inject_volumes p b) = sb_volumes b @ fst p"
  "sb_mounts (inject_volumes p b) = sb_mounts b @ snd p"
proof -
  have m: "fold AddVolumeMount ms b = b\<lparr>sb_mounts := sb_mounts b @ ms\<rparr>" for ms and b :: sts_builder
    by (induction ms arbitrary: b) (simp_all add: AddVolumeMount_def)
  have v: "fold AddVolume vs b = b\<lparr>sb_volumes := sb_volumes b @ vs\<rparr>" for vs and b :: sts_builder
    by (induction vs arbitrary: b) (simp_all add: AddVolume_def)
  show "sb_volumes (inject_volumes p b) = sb_volumes b @ fst p"
    "sb_mounts (inject_volumes p b) = sb_mounts b @ snd p"
    by (simp_all add: inject_volumes_def m v)
qed

text \<open>
  The contract of a provisioner: every registered name has one volume, mounted read-only below an absolute
  directory, at the path the provisioner answers for the name.
\<close>

definition provided_under :: "string \<Rightarrow> string list \<Rightarrow> kvolume list \<Rightarrow> volume_mount list \<Rightarrow> bool" where
  "provided_under base names vs ms \<longleftrightarrow>
     distinct names \<and> map kv_name vs = names \<and> ms = map (csi_mount base) names"

locale provisioner =
  fixes names :: "'p \<Rightarrow> string list"
    and base :: "'p \<Rightarrow> string"
    and volumes :: "'p \<Rightarrow> err + kvolume list"
    and mounts :: "'p \<Rightarrow> volume_mount list"
    and path_of :: "'p \<Rightarrow> string \<Rightarrow> err + string"
    and valid :: "'p \<Rightarrow> bool"
  assumes valid_base: "valid p \<Longrightarrow> IsAbs (base p)"
    and valid_names: "valid p \<Longrightarrow> distinct (names p)"
    and volumes_named: "volumes p = Inr vs \<Longrightarrow> map kv_name vs = names p"
    and mounts_at: "mounts p = map (csi_mount (base p)) (names p)"
    and path_registered: "valid p \<Longrightarrow> n \<in> set (names p) \<Longrightarrow> path_of p n = Inr (path_join [base p, n])"
    and path_unknown: "valid p \<Longrightarrow> n \<notin> set (names p) \<Longrightarrow> \<exists>e. path_of p n = Inl e"
begin

lemma provides: "valid p \<Longrightarrow> volumes p = Inr vs \<Longrightarrow> provided_under (base p) (names p) vs (mounts p)"
  by (simp add: provided_under_def valid_names volumes_named mounts_at)

lemma every_mount_backed: "volumes p = Inr vs \<Longrightarrow> map mount_name (mounts p) = map kv_name vs"
  by (simp add: mounts_at volumes_named csi_mount_def read_only_mount_def comp_def)

lemma mount_backed: "volumes p = Inr vs \<Longrightarrow> m \<in> set (mounts p) \<Longrightarrow> mount_name m \<in> kv_name ` set vs"
  using every_mount_backed [of p vs] by (metis imageI image_set)

lemma mount_paths_distinct:
  assumes "valid p" and "list_all bare (names p)"
  shows "distinct (map mount_path (mounts p))"
proof -
  have "mount_path \<circ> csi_mount (base p) = (\<lambda>n. path_join [base p, n])"
    by (simp add: fun_eq_iff csi_mount_def read_only_mount_def)
  moreover have "inj_on (\<lambda>n. path_join [base p, n]) (set (names p))"
    using assms by (auto intro!: inj_onI simp: path_join_inj valid_base list_all_iff)
  ultimately show ?thesis using valid_names [OF assms(1)] by (simp add: mounts_at distinct_map)
qed

lemma mount_paths_absolute:
  assumes "valid p" and "list_all bare (names p)"
  shows "list_all (\<lambda>m. IsAbs (mount_path m)) (mounts p)"
  using assms
  by (auto simp: mounts_at list_all_iff csi_mount_def read_only_mount_def path_join_absolute valid_base)

lemma path_is_mounted:
  assumes "valid p" and "path_of p n = Inr d"
  shows "read_only_mount n d \<in> set (mounts p)"
proof -
  from assms have n: "n \<in> set (names p)" using path_unknown by force
  with assms have "d = path_join [base p, n]" using path_registered by force
  with n show ?thesis by (auto simp: mounts_at csi_mount_def)
qed

end

end
