(* ===== verification/SecretVolumes.thy ===== *)
theory SecretVolumes
  imports CsiVolumes Durations
begin

text \<open>
  Secret volumes (\<open>pkg/security/secret_provisioner.go\<close>, \<open>secret_class.go\<close>): what a product registers, the
  annotations the secret-operator reads, and the scope syntax. A factor is its \<open>%v\<close> text, because a float is
  only ever printed; a quantity text is checked by the parameter \<open>valid_quantity\<close>, for \<open>resource.MustParse\<close>.
\<close>

section \<open>Constants\<close>

definition KubedoopDomain :: string where "KubedoopDomain = ''kubedoop.dev''"

definition SecretAPIGroup :: string where "SecretAPIGroup = ''secrets.'' @ KubedoopDomain"
definition secret_key :: "string \<Rightarrow> string" where "secret_key name = SecretAPIGroup @ ''/'' @ name"

definition SecretStorageClass :: string where "SecretStorageClass = SecretAPIGroup"
definition SecretClassAnnotation :: string where "SecretClassAnnotation = secret_key ''class''"
definition SecretClassScopeAnnotation :: string where "SecretClassScopeAnnotation = secret_key ''scope''"
definition AnnotationSecretsFormat :: string where "AnnotationSecretsFormat = secret_key ''format''"
definition AnnotationSecretsPKCS12Password :: string where
  "AnnotationSecretsPKCS12Password = secret_key ''tlsPKCS12Password''"
definition AnnotationSecretsCertLifetime :: string where
  "AnnotationSecretsCertLifetime = secret_key ''autoTlsCertLifetime''"
definition AnnotationSecretsCertJitterFactor :: string where
  "AnnotationSecretsCertJitterFactor = secret_key ''autoTlsCertJitterFactor''"
definition AnnotationSecretsCertRestartBuffer :: string where
  "AnnotationSecretsCertRestartBuffer = secret_key ''autoTlsCertRestartBuffer''"
definition AnnotationSecretsKerberosServiceNames :: string where
  "AnnotationSecretsKerberosServiceNames = secret_key ''kerberosServiceNames''"

lemmas secret_annotations = SecretClassAnnotation_def SecretClassScopeAnnotation_def AnnotationSecretsFormat_def
  AnnotationSecretsPKCS12Password_def AnnotationSecretsCertLifetime_def AnnotationSecretsCertJitterFactor_def
  AnnotationSecretsCertRestartBuffer_def AnnotationSecretsKerberosServiceNames_def secret_key_def

definition CommonDelimiter :: char where "CommonDelimiter = CHR '',''"
definition KerberosServiceNamesDelimiter :: char where "KerberosServiceNamesDelimiter = CommonDelimiter"

definition TLSPEM :: string where "TLSPEM = ''tls-pem''"
definition TLSP12 :: string where "TLSP12 = ''tls-p12''"
definition Kerberos :: string where "Kerberos = ''kerberos''"

definition PodScope :: string where "PodScope = ''pod''"
definition NodeScope :: string where "NodeScope = ''node''"
definition ServiceScope :: string where "ServiceScope = ''service''"
definition ListenerVolumeScope :: string where "ListenerVolumeScope = ''listener-volume''"

definition KubedoopMountDir :: string where "KubedoopMountDir = ''/kubedoop/mount/''"
definition KubedoopSecretDir :: string where "KubedoopSecretDir = ''/kubedoop/secret/''"
definition defaultSecretStorageSize :: string where "defaultSecretStorageSize = ''10Mi''"

section \<open>Scopes\<close>

definition equals_sign :: char where "equals_sign = CHR ''=''"

lemmas scope_chars = CommonDelimiter_def equals_sign_def

text \<open>\<open>strings.Cut(entry, "=")\<close>: the text before and after the first separator.\<close>

definition cut :: "string \<Rightarrow> string \<times> string" where
  "cut entry = (takeWhile (\<lambda>c. c \<noteq> equals_sign) entry, tl (dropWhile (\<lambda>c. c \<noteq> equals_sign) entry))"

lemma cut_bare: "equals_sign \<notin> set k \<Longrightarrow> cut k = (k, [])"
proof -
  assume "equals_sign \<notin> set k"
  then have "\<forall>c \<in> set k. c \<noteq> equals_sign" by auto
  then show ?thesis by (simp add: cut_def takeWhile_eq_all_conv dropWhile_eq_Nil_conv [THEN iffD2])
qed

lemma cut_named: "equals_sign \<notin> set k \<Longrightarrow> cut (k @ equals_sign # v) = (k, v)"
proof -
  assume "equals_sign \<notin> set k"
  then have "\<forall>c \<in> set k. c \<noteq> equals_sign" by auto
  then show ?thesis by (simp add: cut_def takeWhile_append2 dropWhile_append2)
qed

definition scope_entries :: "string \<Rightarrow> (string \<times> string) list" where
  "scope_entries scope = map cut (split_on CommonDelimiter scope)"

definition namedScopes :: "string list" where "namedScopes = [ServiceScope, ListenerVolumeScope]"

definition scope_entry_error :: "string \<Rightarrow> string \<times> string \<Rightarrow> err option" where
  "scope_entry_error scope entry =
     (case entry of (key, v) \<Rightarrow>
        if key = [] then Some (PlainError (''secret scope '' @ scope @ '' contains an empty entry''))
        else if key \<in> set namedScopes \<and> v = []
        then Some (PlainError (''secret scope entry must be '' @ key @ ''=<name>'')) else None)"

fun first_entry_error :: "string \<Rightarrow> (string \<times> string) list \<Rightarrow> err option" where
  "first_entry_error scope [] = None"
| "first_entry_error scope (e # es) =
     (case scope_entry_error scope e of Some x \<Rightarrow> Some x | None \<Rightarrow> first_entry_error scope es)"

definition validateScope :: "string \<Rightarrow> err option" where
  "validateScope scope = (if scope = [] then None else first_entry_error scope (scope_entries scope))"

text \<open>The scope of a credential in a custom resource (\<open>commons/v1alpha1\<close>).\<close>

record credentials_scope =
  scope_node :: bool
  scope_pod :: bool
  scope_services :: "string list"
  scope_listener_volumes :: "string list"

record credentials =
  cred_scope :: "credentials_scope option"
  cred_class :: string

definition scopeNameUsable :: "string \<Rightarrow> bool" where
  "scopeNameUsable name \<longleftrightarrow> name \<noteq> [] \<and> CommonDelimiter \<notin> set name \<and> equals_sign \<notin> set name"

definition named_entries :: "string \<Rightarrow> string list \<Rightarrow> string list" where
  "named_entries key names = map (\<lambda>n. key @ equals_sign # n) (filter scopeNameUsable names)"

definition ScopeString :: "credentials_scope option \<Rightarrow> string" where
  "ScopeString scope =
     (case scope of
        None \<Rightarrow> []
      | Some s \<Rightarrow> join_strings [CommonDelimiter]
          ((if scope_node s then [NodeScope] else []) @ (if scope_pod s then [PodScope] else []) @
           named_entries ServiceScope (scope_services s) @
           named_entries ListenerVolumeScope (scope_listener_volumes s)))"

text \<open>What a scope annotation grants; without the annotation, nothing.\<close>

definition granted :: "string \<Rightarrow> (string \<times> string) list" where
  "granted scope = (if scope = [] then [] else scope_entries scope)"

definition requested :: "credentials_scope \<Rightarrow> (string \<times> string) list" where
  "requested s = (if scope_node s then [(''node'', [])] else []) @ (if scope_pod s then [(''pod'', [])] else []) @
     map (Pair ''service'') (scope_services s) @ map (Pair ''listener-volume'') (scope_listener_volumes s)"

text \<open>
  Which requests the syntax of the annotation can carry: the bare scopes, and a name that is not empty and
  contains neither the delimiter of the entries nor the separator of key and name.
\<close>

definition expressible :: "string \<times> string \<Rightarrow> bool" where
  "expressible entry \<longleftrightarrow> fst entry \<in> {''node'', ''pod''} \<or>
     (snd entry \<noteq> [] \<and> CHR '','' \<notin> set (snd entry) \<and> CHR ''='' \<notin> set (snd entry))"

lemma requested_expressible:
  "list_all (\<lambda>n. n \<noteq> [] \<and> CHR '','' \<notin> set n \<and> CHR ''='' \<notin> set n) (scope_services s @ scope_listener_volumes s) \<Longrightarrow>
   filter expressible (requested s) = requested s"
  by (auto simp: requested_def expressible_def list_all_iff filter_id_conv)

lemma split_join:
  "xs \<noteq> [] \<Longrightarrow> list_all (\<lambda>x. c \<notin> set x) xs \<Longrightarrow> split_on c (join_strings [c] xs) = xs"
proof (induction xs rule: list_nonempty_induct)
  case (cons x xs)
  then obtain y ys where "xs = y # ys" by (cases xs) auto
  with cons show ?case by (simp add: split_on_first)
qed (simp add: split_on_free)

definition rendered :: "string \<times> string \<Rightarrow> string" where
  "rendered entry = (case entry of (key, v) \<Rightarrow> if v = [] then key else key @ equals_sign # v)"

definition plain_entry :: "string \<times> string \<Rightarrow> bool" where
  "plain_entry entry \<longleftrightarrow> fst entry \<noteq> [] \<and> CommonDelimiter \<notin> set (fst entry @ snd entry) \<and>
     equals_sign \<notin> set (fst entry) \<and> (fst entry \<in> set namedScopes \<longrightarrow> snd entry \<noteq> [])"

lemma cut_rendered: "plain_entry entry \<Longrightarrow> cut (rendered entry) = entry"
  by (cases entry) (auto simp: rendered_def plain_entry_def cut_bare cut_named)

lemma rendered_free: "plain_entry entry \<Longrightarrow> CommonDelimiter \<notin> set (rendered entry) \<and> rendered entry \<noteq> []"
  by (cases entry) (auto simp: rendered_def plain_entry_def scope_chars)

lemma join_nonempty: "xs \<noteq> [] \<Longrightarrow> list_all (\<lambda>x. x \<noteq> []) xs \<Longrightarrow> join_strings sep xs \<noteq> []"
  by (cases "(sep, xs)" rule: join_strings.cases) auto

lemma granted_rendered:
  assumes "list_all plain_entry es"
  shows "granted (join_strings [CommonDelimiter] (map rendered es)) = es"
proof (cases "es = []")
  case False
  have free: "list_all (\<lambda>x. CommonDelimiter \<notin> set x) (map rendered es)"
    and ne: "list_all (\<lambda>x. x \<noteq> []) (map rendered es)"
    using assms rendered_free by (auto simp: list_all_iff)
  have "map (cut \<circ> rendered) es = es"
    using assms cut_rendered by (intro map_idI) (auto simp: list_all_iff)
  with False free ne show ?thesis
    by (simp add: granted_def scope_entries_def split_join join_nonempty)
qed (simp add: granted_def)

lemma first_entry_error_None: "first_entry_error scope es = None \<longleftrightarrow> list_all (\<lambda>e. scope_entry_error scope e = None) es"
  by (induction es) (auto split: option.split)

lemma validateScope_iff:
  "validateScope scope = None \<longleftrightarrow>
    list_all (\<lambda>(key, v). key \<noteq> [] \<and> (key \<in> set namedScopes \<longrightarrow> v \<noteq> [])) (granted scope)"
  by (auto simp: validateScope_def granted_def first_entry_error_None list_all_iff scope_entry_error_def
      split: if_splits)

lemma requested_plain: "list_all plain_entry (filter expressible (requested s))"
  by (auto simp: requested_def expressible_def list_all_iff plain_entry_def namedScopes_def
      ServiceScope_def ListenerVolumeScope_def scope_chars)

lemma named_entries_rendered:
  "key \<notin> {''node'', ''pod''} \<Longrightarrow> named_entries key ns = map rendered (filter expressible (map (Pair key) ns))"
  by (induction ns) (auto simp: named_entries_def rendered_def scopeNameUsable_def expressible_def scope_chars)

lemma ScopeString_rendered:
  "ScopeString (Some s) = join_strings [CommonDelimiter] (map rendered (filter expressible (requested s)))"
  by (simp add: ScopeString_def requested_def named_entries_rendered rendered_def expressible_def
      NodeScope_def PodScope_def ServiceScope_def ListenerVolumeScope_def)

text \<open>
  C23. The scope annotation of a credential grants what its custom resource requests, in order, and nothing
  else: the node and pod scopes if they are set, and every service and listener volume whose name the
  annotation can carry, so no entry a name could smuggle in. A name that is empty or contains a comma or an
  equals sign is the one thing left out, as the code decides: such a request is withheld. The check of the
  provisioner accepts the annotation.
\<close>

theorem ScopeString_exact:
  "granted (ScopeString (Some s)) = filter expressible (requested s) \<and> validateScope (ScopeString (Some s)) = None"
proof
  show granted: "granted (ScopeString (Some s)) = filter expressible (requested s)"
    by (simp add: ScopeString_rendered granted_rendered requested_plain)
  show "validateScope (ScopeString (Some s)) = None"
    using requested_plain [of s] by (auto simp: validateScope_iff granted list_all_iff plain_entry_def)
qed

lemma ScopeString_valid: "validateScope (ScopeString scope) = None"
proof (cases scope)
  case None
  then show ?thesis by (simp add: ScopeString_def validateScope_def)
next
  case (Some s)
  with requested_plain [of s] show ?thesis
    by (auto simp: ScopeString_rendered validateScope_iff granted_rendered list_all_iff plain_entry_def)
qed

section \<open>Registrations\<close>

record secret_registration =
  sr_volume :: string
  sr_class :: string
  sr_format :: string
  sr_scope :: string
  sr_password :: string
  sr_storage :: string
  sr_lifetime :: "duration option"
  sr_jitter :: "string option"
  sr_buffer :: "duration option"
  sr_kerberos :: "string list"
  sr_extra :: "string gomap"

definition pod_and_node :: string where "pod_and_node = PodScope @ CommonDelimiter # NodeScope"

definition registration :: "string \<Rightarrow> string \<Rightarrow> secret_registration" where
  "registration volume class = \<lparr>sr_volume = volume, sr_class = class, sr_format = [], sr_scope = [],
     sr_password = [], sr_storage = defaultSecretStorageSize, sr_lifetime = None, sr_jitter = None,
     sr_buffer = None, sr_kerberos = [], sr_extra = fmempty\<rparr>"

definition TLS :: "string \<Rightarrow> string \<Rightarrow> secret_registration" where
  "TLS volume class = (registration volume class)
     \<lparr>sr_format := TLSP12, sr_scope := pod_and_node, sr_password := ''changeit''\<rparr>"

definition TLSPEMFormat :: "string \<Rightarrow> string \<Rightarrow> secret_registration" where
  "TLSPEMFormat volume class = (registration volume class)\<lparr>sr_format := TLSPEM, sr_scope := pod_and_node\<rparr>"

definition KerberosVolume :: "string \<Rightarrow> string \<Rightarrow> string \<Rightarrow> string list \<Rightarrow> err + secret_registration" where
  "KerberosVolume volume class service additional =
     (if service = [] then Inl (panics ''serviceName is required for Kerberos volume'')
      else Inr ((registration volume class)
        \<lparr>sr_format := Kerberos, sr_scope := pod_and_node, sr_kerberos := service # additional\<rparr>))"

definition ServiceTLS :: "string \<Rightarrow> string \<Rightarrow> string \<Rightarrow> secret_registration" where
  "ServiceTLS volume class service = (registration volume class)
     \<lparr>sr_format := TLSP12, sr_password := ''changeit'',
      sr_scope := pod_and_node @ CommonDelimiter # ''service='' @ service\<rparr>"

definition ListenerVolume :: "string \<Rightarrow> string \<Rightarrow> string \<Rightarrow> string \<Rightarrow> err + secret_registration" where
  "ListenerVolume volume class listener format =
     (if listener = [] then Inl (panics ''listenerVolumeName is required for listener volume scope'')
      else Inr ((registration volume class)
        \<lparr>sr_format := format, sr_scope := ListenerVolumeScope @ equals_sign # listener\<rparr>))"

definition Custom :: "string \<Rightarrow> string \<Rightarrow> string \<Rightarrow> secret_registration" where
  "Custom volume class format = (registration volume class)\<lparr>sr_format := format, sr_scope := pod_and_node\<rparr>"

definition CredentialsVolume :: "string \<Rightarrow> string \<Rightarrow> secret_registration" where
  "CredentialsVolume volume class = registration volume class"

definition WithScope :: "string \<Rightarrow> secret_registration \<Rightarrow> err + secret_registration" where
  "WithScope scope r =
     (case validateScope scope of Some e \<Rightarrow> Inl (Wrapped (FmtErrorf ''panic'') (Some e))
      | None \<Rightarrow> Inr (r\<lparr>sr_scope := scope\<rparr>))"

definition WithPassword :: "string \<Rightarrow> secret_registration \<Rightarrow> secret_registration" where
  "WithPassword password r = r\<lparr>sr_password := password\<rparr>"

definition WithNoPassword :: "secret_registration \<Rightarrow> secret_registration" where
  "WithNoPassword r = r\<lparr>sr_password := []\<rparr>"

definition WithStorageSize :: "string \<Rightarrow> secret_registration \<Rightarrow> secret_registration" where
  "WithStorageSize storage r = r\<lparr>sr_storage := storage\<rparr>"

definition WithCertLifetime :: "duration \<Rightarrow> secret_registration \<Rightarrow> secret_registration" where
  "WithCertLifetime lifetime r = r\<lparr>sr_lifetime := Some lifetime\<rparr>"

definition WithCertJitter :: "string \<Rightarrow> secret_registration \<Rightarrow> secret_registration" where
  "WithCertJitter factor r = r\<lparr>sr_jitter := Some factor\<rparr>"

definition WithCertBuffer :: "duration \<Rightarrow> secret_registration \<Rightarrow> secret_registration" where
  "WithCertBuffer buffer r = r\<lparr>sr_buffer := Some buffer\<rparr>"

definition WithKerberosServiceNames :: "string list \<Rightarrow> secret_registration \<Rightarrow> secret_registration" where
  "WithKerberosServiceNames names r = r\<lparr>sr_kerberos := names\<rparr>"

definition WithExtraAnnotation :: "string \<Rightarrow> string \<Rightarrow> secret_registration \<Rightarrow> secret_registration" where
  "WithExtraAnnotation key v r = r\<lparr>sr_extra := fmupd key v (sr_extra r)\<rparr>"

definition put_some :: "('a \<Rightarrow> string) \<Rightarrow> string \<Rightarrow> 'a option \<Rightarrow> string gomap \<Rightarrow> string gomap" where
  "put_some text_of key x m = (case x of None \<Rightarrow> m | Some v \<Rightarrow> fmupd key (text_of v) m)"

definition secret_buildAnnotations :: "secret_registration \<Rightarrow> string gomap" where
  "secret_buildAnnotations r =
     (let m1 = fmupd SecretClassAnnotation (sr_class r) fmempty;
          m2 = put_if (sr_scope r \<noteq> []) SecretClassScopeAnnotation (sr_scope r) m1;
          m3 = put_if (sr_format r \<noteq> []) AnnotationSecretsFormat (sr_format r) m2;
          m4 = put_if (sr_password r \<noteq> [] \<and> sr_format r = TLSP12) AnnotationSecretsPKCS12Password (sr_password r) m3;
          m5 = put_some duration_text AnnotationSecretsCertLifetime (sr_lifetime r) m4;
          m6 = put_some id AnnotationSecretsCertJitterFactor (sr_jitter r) m5;
          m7 = put_some duration_text AnnotationSecretsCertRestartBuffer (sr_buffer r) m6;
          m8 = put_if (length (sr_kerberos r) > 0) AnnotationSecretsKerberosServiceNames
                 (join_strings [KerberosServiceNamesDelimiter] (sr_kerberos r)) m7
      in put_all (entries (sr_extra r)) m8)"

definition secret_buildVolume :: "(string \<Rightarrow> bool) \<Rightarrow> secret_registration \<Rightarrow> err + kvolume" where
  "secret_buildVolume valid_quantity r =
     (if valid_quantity (sr_storage r)
      then Inr (csi_volume (sr_volume r) (secret_buildAnnotations r) SecretStorageClass (sr_storage r))
      else Inl (panics (''cannot parse '' @ sr_storage r)))"

section \<open>The provisioner\<close>

record secret_provisioner =
  sp_registrations :: "secret_registration list"
  sp_names :: "string fset"
  sp_base :: string

definition NewSecretProvisioner :: secret_provisioner where
  "NewSecretProvisioner = \<lparr>sp_registrations = [], sp_names = {||}, sp_base = KubedoopMountDir\<rparr>"

definition secret_WithMountBasePath :: "string \<Rightarrow> secret_provisioner \<Rightarrow> err + secret_provisioner" where
  "secret_WithMountBasePath base p =
     (if base = [] then Inr p
      else if \<not> IsAbs base then Inl (panics (''secret mount base path '' @ base @ '' must be absolute''))
      else Inr (p\<lparr>sp_base := path_clean base\<rparr>))"

fun secret_Register :: "secret_registration list \<Rightarrow> secret_provisioner \<Rightarrow> err + secret_provisioner" where
  "secret_Register [] p = Inr p"
| "secret_Register (r # rs) p =
     (if sr_volume r |\<in>| sp_names p
      then Inl (panics (''secret volume '' @ sr_volume r @ '' is already registered''))
      else (case validateScope (sr_scope r) of
          Some e \<Rightarrow> Inl (Wrapped (FmtErrorf (''panic: secret volume '' @ sr_volume r)) (Some e))
        | None \<Rightarrow> secret_Register rs (p\<lparr>sp_names := finsert (sr_volume r) (sp_names p),
                               sp_registrations := sp_registrations p @ [r]\<rparr>)))"

definition secret_mountPath :: "secret_provisioner \<Rightarrow> string \<Rightarrow> string" where
  "secret_mountPath p volume = path_join [sp_base p, volume]"

text \<open>A list of results, the first error winning.\<close>

fun collect_all :: "(err + 'a) list \<Rightarrow> err + 'a list" where
  "collect_all [] = Inr []"
| "collect_all (x # xs) = (case x of Inl e \<Rightarrow> Inl e | Inr a \<Rightarrow> map_sum id (Cons a) (collect_all xs))"

definition secret_Volumes :: "(string \<Rightarrow> bool) \<Rightarrow> secret_provisioner \<Rightarrow> err + kvolume list" where
  "secret_Volumes valid_quantity p = collect_all (map (secret_buildVolume valid_quantity) (sp_registrations p))"

definition secret_VolumeMounts :: "secret_provisioner \<Rightarrow> volume_mount list" where
  "secret_VolumeMounts p = map (\<lambda>r. read_only_mount (sr_volume r) (secret_mountPath p (sr_volume r))) (sp_registrations p)"

definition secret_Path :: "secret_provisioner \<Rightarrow> string \<Rightarrow> err + string" where
  "secret_Path p volume =
     (if volume \<in> set (map sr_volume (sp_registrations p)) then Inr (secret_mountPath p volume)
      else Inl (PlainError (''secret volume '' @ volume @ '' not registered'')))"

definition secret_AutoInject :: "(string \<Rightarrow> bool) \<Rightarrow> secret_provisioner \<Rightarrow> sts_builder \<Rightarrow> err + sts_builder" where
  "secret_AutoInject valid_quantity p b = map_sum id (\<lambda>vs. inject_volumes (vs, secret_VolumeMounts p) b) (secret_Volumes valid_quantity p)"

section \<open>What a provisioner provides\<close>

definition secret_names :: "secret_provisioner \<Rightarrow> string list" where
  "secret_names p = map sr_volume (sp_registrations p)"

definition secrets_valid :: "secret_provisioner \<Rightarrow> bool" where
  "secrets_valid p \<longleftrightarrow> IsAbs (sp_base p) \<and> distinct (secret_names p) \<and> fset (sp_names p) = set (secret_names p) \<and>
     list_all (\<lambda>r. validateScope (sr_scope r) = None) (sp_registrations p)"

lemma NewSecretProvisioner_valid: "secrets_valid NewSecretProvisioner"
  by (simp add: secrets_valid_def NewSecretProvisioner_def secret_names_def KubedoopMountDir_def IsAbs_def slash_def)

lemma WithMountBasePath_valid:
  "secret_WithMountBasePath base p = Inr p' \<Longrightarrow> secrets_valid p \<Longrightarrow> secrets_valid p' \<and> secret_names p' = secret_names p"
  by (auto simp: secret_WithMountBasePath_def secrets_valid_def secret_names_def path_clean_absolute split: if_splits)

lemma Register_valid:
  "secret_Register rs p = Inr p' \<Longrightarrow> secrets_valid p \<Longrightarrow>
    secrets_valid p' \<and> secret_names p' = secret_names p @ map sr_volume rs \<and> sp_base p' = sp_base p \<and>
    sp_registrations p' = sp_registrations p @ rs"
proof (induction rs arbitrary: p)
  case Nil
  then show ?case by simp
next
  case (Cons r rs)
  let ?q = "p\<lparr>sp_names := finsert (sr_volume r) (sp_names p), sp_registrations := sp_registrations p @ [r]\<rparr>"
  from Cons.prems(1) have new: "sr_volume r |\<notin>| sp_names p" "validateScope (sr_scope r) = None"
    and step: "secret_Register rs ?q = Inr p'"
    by (auto split: if_splits option.splits)
  from new Cons.prems(2) have "secrets_valid ?q"
    by (auto simp: secrets_valid_def secret_names_def)
  from Cons.IH [OF step this] show ?case by (simp add: secret_names_def)
qed

lemma Register_ok:
  assumes "distinct (map sr_volume rs)" and "set (map sr_volume rs) \<inter> fset (sp_names p) = {}"
    and "list_all (\<lambda>r. validateScope (sr_scope r) = None) rs"
  shows "\<exists>p'. secret_Register rs p = Inr p'"
  using assms
proof (induction rs arbitrary: p)
  case (Cons r rs)
  then have "sr_volume r |\<notin>| sp_names p" by auto
  with Cons show ?case by auto
qed simp

lemma collect_all_Inr: "collect_all xs = Inr ys \<longleftrightarrow> map Inr ys = xs"
proof (induction xs arbitrary: ys)
  case (Cons x xs)
  show ?case
  proof (cases x)
    case (Inr a)
    have "map_sum id (Cons a) (collect_all xs) = Inr ys \<longleftrightarrow> (\<exists>zs. ys = a # zs \<and> collect_all xs = Inr zs)"
      by (cases "collect_all xs") auto
    with Inr Cons.IH show ?thesis by (cases ys) auto
  qed auto
qed auto

lemma buildVolume_named: "secret_buildVolume ok r = Inr v \<Longrightarrow> kv_name v = sr_volume r"
  by (auto simp: secret_buildVolume_def csi_volume_def split: if_splits)

lemma built_names: "map Inr vs = map (secret_buildVolume ok) rs \<Longrightarrow> map kv_name vs = map sr_volume rs"
proof (induction rs arbitrary: vs)
  case (Cons r rs)
  then obtain v ws where "vs = v # ws" "secret_buildVolume ok r = Inr v" "map Inr ws = map (secret_buildVolume ok) rs"
    by (cases vs) auto
  with Cons.IH buildVolume_named [of ok r v] show ?case by simp
qed simp

lemma secret_volumes_named: "secret_Volumes ok p = Inr vs \<Longrightarrow> map kv_name vs = secret_names p"
  by (simp add: secret_Volumes_def collect_all_Inr secret_names_def built_names)

interpretation secrets: provisioner secret_names sp_base "secret_Volumes valid_quantity" secret_VolumeMounts
    secret_Path secrets_valid
  by unfold_locales
     (auto simp: secrets_valid_def secret_volumes_named secret_VolumeMounts_def secret_names_def csi_mount_def
       secret_mountPath_def secret_Path_def)

end
