(* ===== verification/ListenerVolumes.thy ===== *)
theory ListenerVolumes
  imports CsiVolumes SecretVolumes
begin

text \<open>
  Listener volumes (\<open>pkg/listener/provisioner.go\<close>, \<open>registration.go\<close>, \<open>volume_builder.go\<close>): what a product
  registers, the annotations the listener-operator reads, the volumes and the mounts.
\<close>

definition ListenerAPIGroup :: string where "ListenerAPIGroup = ''listeners.'' @ KubedoopDomain"
definition ListenerStorageClass :: string where "ListenerStorageClass = ListenerAPIGroup"
definition ListenerClassAnnotation :: string where "ListenerClassAnnotation = ListenerAPIGroup @ ''/class''"
definition AnnotationListenerName :: string where "AnnotationListenerName = ListenerAPIGroup @ ''/listenerName''"
definition KubedoopListenerDir :: string where "KubedoopListenerDir = ''/kubedoop/listener/''"

section \<open>Registrations\<close>

record listener_registration =
  lr_volume :: string
  lr_class :: string
  lr_listener :: string

definition NewVolume :: "string \<Rightarrow> string \<Rightarrow> listener_registration" where
  "NewVolume name class = \<lparr>lr_volume = name, lr_class = class, lr_listener = []\<rparr>"

definition WithListenerName :: "string \<Rightarrow> listener_registration \<Rightarrow> listener_registration" where
  "WithListenerName name r = r\<lparr>lr_listener := name\<rparr>"

definition listener_buildAnnotations :: "listener_registration \<Rightarrow> string gomap" where
  "listener_buildAnnotations r =
     put_if (lr_listener r \<noteq> []) AnnotationListenerName (lr_listener r)
       (put_if (lr_class r \<noteq> []) ListenerClassAnnotation (lr_class r) fmempty)"

definition listener_buildVolume :: "listener_registration \<Rightarrow> kvolume" where
  "listener_buildVolume r =
     csi_volume (lr_volume r) (listener_buildAnnotations r) ListenerStorageClass ''1Mi''"

section \<open>The provisioner\<close>

record listener_provisioner =
  lp_registrations :: "listener_registration list"
  lp_names :: "string fset"
  lp_base :: string

definition NewProvisioner :: listener_provisioner where
  "NewProvisioner = \<lparr>lp_registrations = [], lp_names = {||}, lp_base = KubedoopListenerDir\<rparr>"

definition listener_WithMountBasePath :: "string \<Rightarrow> listener_provisioner \<Rightarrow> err + listener_provisioner" where
  "listener_WithMountBasePath base p =
     (if base = [] then Inr p
      else if \<not> IsAbs base then Inl (panics (''listener mount base path '' @ base @ '' must be absolute''))
      else Inr (p\<lparr>lp_base := path_clean base\<rparr>))"

text \<open>A nil registration is \<open>None\<close>.\<close>

fun RegisterVolume :: "listener_registration option list \<Rightarrow> listener_provisioner \<Rightarrow> err + listener_provisioner" where
  "RegisterVolume [] p = Inr p"
| "RegisterVolume (None # rs) p = Inl (panics ''listener volume registration must not be nil'')"
| "RegisterVolume (Some r # rs) p =
     (if lr_volume r |\<in>| lp_names p
      then Inl (panics (''listener volume '' @ lr_volume r @ '' is already registered''))
      else if lr_class r = [] \<and> lr_listener r = []
      then Inl (panics (''listener volume '' @ lr_volume r @ '' must set a listener class or a listener name''))
      else RegisterVolume rs (p\<lparr>lp_names := finsert (lr_volume r) (lp_names p),
                               lp_registrations := lp_registrations p @ [r]\<rparr>))"

definition listener_Volumes :: "listener_provisioner \<Rightarrow> kvolume list" where
  "listener_Volumes p = map listener_buildVolume (lp_registrations p)"

definition listener_mountPath :: "listener_provisioner \<Rightarrow> string \<Rightarrow> string" where
  "listener_mountPath p volume = path_join [lp_base p, volume]"

definition listener_VolumeMounts :: "listener_provisioner \<Rightarrow> volume_mount list" where
  "listener_VolumeMounts p = map (\<lambda>r. read_only_mount (lr_volume r) (listener_mountPath p (lr_volume r))) (lp_registrations p)"

definition listener_AutoInject :: "listener_provisioner \<Rightarrow> sts_builder \<Rightarrow> sts_builder" where
  "listener_AutoInject p b = inject_volumes (listener_Volumes p, listener_VolumeMounts p) b"

definition listener_Path :: "listener_provisioner \<Rightarrow> string \<Rightarrow> err + string" where
  "listener_Path p volume =
     (if volume |\<in>| lp_names p then Inr (listener_mountPath p volume)
      else Inl (PlainError (''listener volume '' @ volume @ '' not registered'')))"

definition MustPath :: "(string \<Rightarrow> err + string) \<Rightarrow> string \<Rightarrow> err + string" where
  "MustPath path_of volume =
     (case path_of volume of Inl e \<Rightarrow> Inl (Wrapped (FmtErrorf ''panic'') (Some e)) | Inr d \<Rightarrow> Inr d)"

section \<open>What it provides\<close>

definition listener_names :: "listener_provisioner \<Rightarrow> string list" where
  "listener_names p = map lr_volume (lp_registrations p)"

definition listeners_valid :: "listener_provisioner \<Rightarrow> bool" where
  "listeners_valid p \<longleftrightarrow> IsAbs (lp_base p) \<and> distinct (listener_names p) \<and> fset (lp_names p) = set (listener_names p) \<and>
     list_all (\<lambda>r. lr_class r \<noteq> [] \<or> lr_listener r \<noteq> []) (lp_registrations p)"

lemma NewProvisioner_valid: "listeners_valid NewProvisioner"
  by (simp add: listeners_valid_def NewProvisioner_def listener_names_def KubedoopListenerDir_def IsAbs_def slash_def)

lemma listener_WithMountBasePath_valid:
  "listener_WithMountBasePath base p = Inr p' \<Longrightarrow> listeners_valid p \<Longrightarrow> listeners_valid p'"
  by (auto simp: listener_WithMountBasePath_def listeners_valid_def listener_names_def path_clean_absolute split: if_splits)

lemma RegisterVolume_valid:
  "RegisterVolume rs p = Inr p' \<Longrightarrow> listeners_valid p \<Longrightarrow>
    listeners_valid p' \<and> lp_base p' = lp_base p \<and> None \<notin> set rs \<and>
    lp_registrations p' = lp_registrations p @ map the rs"
proof (induction rs arbitrary: p)
  case Nil
  then show ?case by simp
next
  case (Cons x rs)
  show ?case
  proof (cases x)
    case None
    with Cons.prems(1) show ?thesis by simp
  next
    case (Some r)
    let ?q = "p\<lparr>lp_names := finsert (lr_volume r) (lp_names p), lp_registrations := lp_registrations p @ [r]\<rparr>"
    from Cons.prems(1) Some have new: "lr_volume r |\<notin>| lp_names p" "lr_class r \<noteq> [] \<or> lr_listener r \<noteq> []"
      and step: "RegisterVolume rs ?q = Inr p'"
      by (auto split: if_splits)
    from new Cons.prems(2) have "listeners_valid ?q"
      by (auto simp: listeners_valid_def listener_names_def)
    from Cons.IH [OF step this] Some show ?thesis by simp
  qed
qed

interpretation listeners: provisioner listener_names lp_base "\<lambda>p. Inr (listener_Volumes p)" listener_VolumeMounts
    listener_Path listeners_valid
  by unfold_locales
     (auto simp: listeners_valid_def listener_Volumes_def listener_VolumeMounts_def listener_names_def csi_mount_def
       listener_mountPath_def listener_Path_def listener_buildVolume_def csi_volume_def comp_def)

text \<open>Every listener volume tells the operator which listener it wants.\<close>

lemma listener_annotated:
  assumes "listeners_valid p" and "r \<in> set (lp_registrations p)"
  shows "listener_buildAnnotations r \<noteq> fmempty"
  using assms by (auto simp: listeners_valid_def list_all_iff listener_buildAnnotations_def put_if_def)

end
