(* ===== verification/HandlerVolumes.thy ===== *)
theory HandlerVolumes
  imports HandlerConfig ListenerVolumes
begin

text \<open>
  The volumes of a product on their way into a pod: the secret and listener provisioners are the volume
  providers of \<open>role_group_handler.go\<close>, and what they answer for a path is what the finished pod mounts.
\<close>

definition secret_provider :: "(string \<Rightarrow> bool) \<Rightarrow> secret_provisioner \<Rightarrow> err + volume_provider" where
  "secret_provider valid_quantity p =
     map_sum id (\<lambda>vs. (vs, secret_VolumeMounts p)) (secret_Volumes valid_quantity p)"

definition listener_provider :: "listener_provisioner \<Rightarrow> volume_provider" where
  "listener_provider p = (listener_Volumes p, listener_VolumeMounts p)"

definition mounted_at :: "built_sts \<Rightarrow> kcontainer \<Rightarrow> string \<Rightarrow> string \<Rightarrow> bool" where
  "mounted_at sts c name dir \<longleftrightarrow>
     (\<exists>m \<in> set (kc_mounts c). mount_name m = name \<and> mount_path m = dir) \<and>
     name \<in> kv_name ` set (kp_volumes (kt_spec (bs_template sts))) \<union> claim_name ` set (bs_claims sts)"

lemma provided_reaches_primary:
  assumes "buildStatefulSet lib h ctx ls = Inr out"
    and "case build_manager h ctx of None \<Rightarrow> True | Some m \<Rightarrow> manager_ok m"
    and "find_key kc_name (primary_name ctx) (kp_containers (kt_spec (bs_template out))) = Some c"
    and "primary_name ctx \<notin> set (init_names (kt_spec (bs_template out)))"
    and "Some (vs, ms) \<in> set (hc_volume_providers ctx)" and "read_only_mount n d \<in> set ms" and "n \<in> kv_name ` set vs"
  shows "mounted_at out c n d"
proof -
  have "read_only_mount n d \<in> set (wired_mounts h ctx)" "n \<in> kv_name ` set (wired_volumes ctx)"
    using assms(5-7) by (force simp: wired_mounts_def provided_mounts_def wired_volumes_def provided_volumes_def)+
  then show ?thesis
    using wired_reaches_primary [OF assms(1-4), of "read_only_mount n d"]
    by (simp add: mounted_at_def read_only_mount_def)
qed

text \<open>
  C9. The configuration and the product's own volumes reach the product: in the finished StatefulSet the primary
  container, under the name the declaration or the resource gives it, mounts the config volume at the config
  path, and every secret and listener volume of a registered provisioner at the path the provisioner answers for
  it, and these volumes are there, whatever the pod overrides and the sidecars did, for sidecars that keep their
  contract. Of a name that an init container took as well nothing is claimed.
\<close>

theorem config_reaches_primary:
  assumes built: "buildStatefulSet lib h ctx ls = Inr out"
    and manager: "case build_manager h ctx of None \<Rightarrow> True | Some m \<Rightarrow> manager_ok m"
    and primary: "find_key kc_name (primary_name ctx) (kp_containers (kt_spec (bs_template out))) = Some c"
    and not_init: "primary_name ctx \<notin> set (init_names (kt_spec (bs_template out)))"
  shows "mounted_at out c ConfigVolumeName (configMountPath h) \<and>
    (\<forall>valid_quantity p vp n d. secrets_valid p \<longrightarrow> secret_provider valid_quantity p = Inr vp \<longrightarrow>
      Some vp \<in> set (hc_volume_providers ctx) \<longrightarrow> secret_Path p n = Inr d \<longrightarrow> mounted_at out c n d) \<and>
    (\<forall>p n d. listeners_valid p \<longrightarrow> Some (listener_provider p) \<in> set (hc_volume_providers ctx) \<longrightarrow>
      listener_Path p n = Inr d \<longrightarrow> mounted_at out c n d)"
proof (intro conjI allI impI)
  show "mounted_at out c ConfigVolumeName (configMountPath h)"
    using wired_reaches_primary [OF built manager primary not_init, of "config_mount h"]
    by (simp add: mounted_at_def wired_mounts_def wired_volumes_def config_mount_def read_only_mount_def)
next
  fix valid_quantity p vp n d
  assume sp: "secrets_valid p" "secret_provider valid_quantity p = Inr vp" "Some vp \<in> set (hc_volume_providers ctx)"
    "secret_Path p n = Inr d"
  then obtain vs where vs: "secret_Volumes valid_quantity p = Inr vs" "vp = (vs, secret_VolumeMounts p)"
    by (auto simp: secret_provider_def map_sum_def split: sum.splits)
  have "read_only_mount n d \<in> set (secret_VolumeMounts p)" by (rule secrets.path_is_mounted [OF sp(1,4)])
  with secrets.mount_backed [OF vs(1) this] show "mounted_at out c n d"
    using provided_reaches_primary [OF built manager primary not_init] sp(3) vs(2)
    by (simp add: read_only_mount_def)
next
  fix p n d
  assume lp: "listeners_valid p" "Some (listener_provider p) \<in> set (hc_volume_providers ctx)" "listener_Path p n = Inr d"
  have "read_only_mount n d \<in> set (listener_VolumeMounts p)" by (rule listeners.path_is_mounted [OF lp(1,3)])
  with listeners.mount_backed [OF refl this] show "mounted_at out c n d"
    using provided_reaches_primary [OF built manager primary not_init] lp(2)
    by (simp add: read_only_mount_def listener_provider_def)
qed

section \<open>Example\<close>

text \<open>A product that registers one TLS secret.\<close>

definition tls_provisioner :: secret_provisioner where
  "tls_provisioner = \<lparr>sp_registrations = [TLS ''server-tls'' ''tls''], sp_names = {|''server-tls''|},
     sp_base = KubedoopMountDir\<rparr>"

lemma tls_registered: "secret_Register [TLS ''server-tls'' ''tls''] NewSecretProvisioner = Inr tls_provisioner"
  by (simp add: TLS_def registration_def NewSecretProvisioner_def tls_provisioner_def pod_and_node_def validateScope_def
      scope_entries_def cut_def PodScope_def NodeScope_def scope_chars scope_entry_error_def namedScopes_def
      ServiceScope_def ListenerVolumeScope_def)

lemma tls_valid: "secrets_valid tls_provisioner"
  using Register_valid [OF tls_registered NewSecretProvisioner_valid] by simp

theorem config_reaches_primary_witness:
  "\<exists>vp out c. secret_provider (\<lambda>_. True) tls_provisioner = Inr vp \<and>
    buildStatefulSet example_libraries NewBaseRoleGroupHandler (example_with [Some vp]) fmempty = Inr out \<and>
    c \<in> set (kp_containers (kt_spec (bs_template out))) \<and>
    mounted_at out c ''config'' ''/kubedoop/mount/config/'' \<and> mounted_at out c ''server-tls'' ''/kubedoop/mount/server-tls''"
proof -
  obtain vp where vp: "secret_provider (\<lambda>_. True) tls_provisioner = Inr vp"
    by (simp add: secret_provider_def secret_Volumes_def tls_provisioner_def secret_buildVolume_def)
  obtain out b where out: "buildStatefulSet example_libraries NewBaseRoleGroupHandler (example_with [Some vp]) fmempty = Inr out"
    and pod: "kp_containers (kt_spec (bs_template out)) = [buildContainer b]" "kp_init (kt_spec (bs_template out)) = []"
    and name: "primaryContainerName b = ''hdfs-data-a''"
    by (rule example_stateful_set_with)
  have primary: "primary_name (example_with [Some vp]) = ''hdfs-data-a''"
    by (simp add: primary_name_def example_with_fields no_declaration_def)
  have tls_path: "secret_Path tls_provisioner ''server-tls'' = Inr ''/kubedoop/mount/server-tls''"
    by (simp add: secret_Path_def tls_provisioner_def TLS_def registration_def secret_mountPath_def path_join_def
        path_clean_def KubedoopMountDir_def slash_def Let_def)
  have config: "ConfigVolumeName = ''config''" "configMountPath NewBaseRoleGroupHandler = ''/kubedoop/mount/config/''"
    by (simp_all add: ConfigVolumeName_def configMountPath_def NewBaseRoleGroupHandler_def KubedoopConfigDirMount_def)
  have "case build_manager NewBaseRoleGroupHandler (example_with [Some vp]) of None \<Rightarrow> True | Some m \<Rightarrow> manager_ok m"
    by (simp add: build_manager_def example_with_fields manager_ok_New)
  moreover have "find_key kc_name (primary_name (example_with [Some vp])) (kp_containers (kt_spec (bs_template out))) =
      Some (buildContainer b)"
    using pod name primary by (simp add: buildContainer_def)
  moreover have "primary_name (example_with [Some vp]) \<notin> set (init_names (kt_spec (bs_template out)))"
    using pod by (simp add: init_names_def)
  ultimately have all: "mounted_at out (buildContainer b) ConfigVolumeName (configMountPath NewBaseRoleGroupHandler) \<and>
      (\<forall>valid_quantity p vp' n d. secrets_valid p \<longrightarrow> secret_provider valid_quantity p = Inr vp' \<longrightarrow>
        Some vp' \<in> set (hc_volume_providers (example_with [Some vp])) \<longrightarrow> secret_Path p n = Inr d \<longrightarrow>
        mounted_at out (buildContainer b) n d)"
    using config_reaches_primary [OF out] by blast
  have "Some vp \<in> set (hc_volume_providers (example_with [Some vp]))" by (simp add: example_with_fields)
  with all tls_valid vp tls_path config have "mounted_at out (buildContainer b) ''config'' ''/kubedoop/mount/config/''"
    "mounted_at out (buildContainer b) ''server-tls'' ''/kubedoop/mount/server-tls''" by metis+
  with vp out pod show ?thesis by auto
qed

end
