(* ===== verification/S3.thy ===== *)
theory S3
  imports SecretVolumes SidecarProviders
begin

text \<open>
  Resolving the S3 connections and buckets a custom resource names (\<open>pkg/s3\<close>): the inline or reference
  chain, the endpoint, the Hadoop properties, and the volume that delivers the credentials. The client's
  reads are a parameter: what it answers for a namespace and a name.
\<close>

section \<open>Types\<close>

record ca_cert =
  ca_secret_class :: string
  ca_web_pki :: bool

record tls_verification =
  tv_none :: bool
  tv_server :: "ca_cert option option"

record s3_tls =
  tls_verification :: "tls_verification option"

record s3_connection_spec =
  sc_credentials :: "credentials option"
  sc_host :: string
  sc_port :: int
  sc_path_style :: bool
  sc_tls :: "s3_tls option"
  sc_region :: string

record s3_bucket_connection =
  bcn_reference :: string
  bcn_inline :: "s3_connection_spec option"

record s3_bucket_spec =
  bu_name :: string
  bu_connection :: "s3_bucket_connection option"

record s3_client =
  get_connection :: "string \<Rightarrow> string \<Rightarrow> err + s3_connection_spec"
  get_bucket :: "string \<Rightarrow> string \<Rightarrow> err + s3_bucket_spec"

text \<open>The endpoint URL is its scheme and host.\<close>

record connection_info =
  ci_scheme :: string
  ci_host :: string
  ci_region :: string
  ci_path_style :: bool
  ci_tls :: "s3_tls option"
  ci_credentials :: "credentials option"

record bucket_info = connection_info +
  bi_bucket :: string

section \<open>Resolution\<close>

definition resolveConnectionSpec ::
    "s3_client \<Rightarrow> string \<Rightarrow> s3_connection_spec option \<Rightarrow> string \<Rightarrow> err + s3_connection_spec" where
  "resolveConnectionSpec c namespace inline reference =
     (if inline \<noteq> None \<and> reference \<noteq> []
      then Inl (PlainError ''invalid S3 connection: inline and reference are mutually exclusive'')
      else if reference \<noteq> []
      then (case get_connection c namespace reference of
          Inl e \<Rightarrow> Inl (Wrapped (FmtErrorf (''failed to get referenced S3Connection '' @ reference)) (Some e))
        | Inr spec \<Rightarrow> Inr spec)
      else (case inline of
          Some spec \<Rightarrow> Inr spec
        | None \<Rightarrow> Inl (PlainError ''invalid S3 connection: neither inline nor reference is set'')))"

definition connectionInfoFromSpec :: "s3_connection_spec \<Rightarrow> connection_info" where
  "connectionInfoFromSpec spec =
     \<lparr>ci_scheme = (if sc_tls spec \<noteq> None then ''https'' else ''http''),
      ci_host = sc_host spec @ (if sc_port spec \<noteq> 0 then '':'' @ int_text (sc_port spec) else []),
      ci_region = sc_region spec, ci_path_style = sc_path_style spec, ci_tls = sc_tls spec,
      ci_credentials = sc_credentials spec\<rparr>"

definition ResolveConnection ::
    "s3_client \<Rightarrow> string \<Rightarrow> s3_connection_spec option \<Rightarrow> string \<Rightarrow> err + connection_info" where
  "ResolveConnection c namespace inline reference =
     (case resolveConnectionSpec c namespace inline reference of
        Inl e \<Rightarrow> Inl e
      | Inr spec \<Rightarrow> Inr (connectionInfoFromSpec spec))"

text \<open>The bucket of the pair, before its connection is followed.\<close>

definition resolve_bucket_spec ::
    "s3_client \<Rightarrow> string \<Rightarrow> s3_bucket_spec option \<Rightarrow> string \<Rightarrow> err + s3_bucket_spec" where
  "resolve_bucket_spec c namespace inline reference =
     (if inline \<noteq> None \<and> reference \<noteq> []
      then Inl (PlainError ''invalid S3 bucket: inline and reference are mutually exclusive'')
      else if reference \<noteq> []
      then (case get_bucket c namespace reference of
          Inl e \<Rightarrow> Inl (Wrapped (FmtErrorf (''failed to get referenced S3Bucket '' @ reference)) (Some e))
        | Inr spec \<Rightarrow> Inr spec)
      else (case inline of
          None \<Rightarrow> Inl (PlainError ''invalid S3 bucket: neither inline nor reference is set'')
        | Some spec \<Rightarrow> Inr spec))"

definition ResolveBucket ::
    "s3_client \<Rightarrow> string \<Rightarrow> s3_bucket_spec option \<Rightarrow> string \<Rightarrow> err + bucket_info" where
  "ResolveBucket c namespace inline reference =
     (case resolve_bucket_spec c namespace inline reference of
        Inl e \<Rightarrow> Inl e
      | Inr spec \<Rightarrow>
          (case bu_connection spec of
             None \<Rightarrow> Inl (PlainError (''invalid S3 bucket '' @ bu_name spec @ '': no connection is set''))
           | Some pair \<Rightarrow>
               (case ResolveConnection c namespace (bcn_inline pair) (bcn_reference pair) of
                  Inl e \<Rightarrow> Inl e
                | Inr conn \<Rightarrow> Inr (connection_info.extend conn (bucket_info.fields (bu_name spec))))))"

section \<open>Rendering\<close>

definition TLSEnabled :: "('z) connection_info_scheme \<Rightarrow> bool" where "TLSEnabled c \<longleftrightarrow> ci_tls c \<noteq> None"

definition format_bool :: "bool \<Rightarrow> string" where "format_bool b = (if b then ''true'' else ''false'')"

definition endpoint_url :: "('z) connection_info_scheme \<Rightarrow> string" where
  "endpoint_url c = url_string (ci_scheme c) (ci_host c) []"

definition S3AProperties :: "('z) connection_info_scheme \<Rightarrow> string gomap" where
  "S3AProperties c =
     (let props = fmupd ''fs.s3a.connection.ssl.enabled'' (format_bool (TLSEnabled c))
            (fmupd ''fs.s3a.path.style.access'' (format_bool (ci_path_style c))
              (fmupd ''fs.s3a.endpoint'' (endpoint_url c) fmempty))
      in if ci_region c \<noteq> [] then fmupd ''fs.s3a.endpoint.region'' (ci_region c) props else props)"

definition S3AURI :: "bucket_info \<Rightarrow> string \<Rightarrow> string" where
  "S3AURI b key = url_string ''s3a'' (bi_bucket b) key"

section \<open>Credentials\<close>

definition AccessKeyFile :: string where "AccessKeyFile = ''ACCESS_KEY''"
definition SecretKeyFile :: string where "SecretKeyFile = ''SECRET_KEY''"
definition DefaultCredentialsVolumeName :: string where "DefaultCredentialsVolumeName = ''s3-credentials''"

definition credentials_registration :: "string \<Rightarrow> credentials \<Rightarrow> err + secret_registration" where
  "credentials_registration volume cred =
     (let r = CredentialsVolume volume (cred_class cred); scope = ScopeString (cred_scope cred)
      in if scope \<noteq> [] then WithScope scope r else Inr r)"

definition CredentialsProvisioner ::
    "('z) connection_info_scheme \<Rightarrow> string \<Rightarrow> err + secret_provisioner option" where
  "CredentialsProvisioner c volume =
     (case ci_credentials c of
        None \<Rightarrow> Inr None
      | Some cred \<Rightarrow>
          (case credentials_registration volume cred of
             Inl e \<Rightarrow> Inl e
           | Inr r \<Rightarrow>
               (case secret_WithMountBasePath KubedoopSecretDir NewSecretProvisioner of
                  Inl e \<Rightarrow> Inl e
                | Inr p \<Rightarrow> map_sum id Some (secret_Register [r] p))))"

definition CredentialsMountPath :: "string \<Rightarrow> string" where
  "CredentialsMountPath volume = path_join [KubedoopSecretDir, volume]"

definition export_line :: "string \<Rightarrow> string \<Rightarrow> string" where
  "export_line variable path = ''export '' @ variable @ ''='' @ [double_quote] @ ''$(cat '' @ path @ '')'' @ [double_quote]"

definition CredentialsExportScript :: "string \<Rightarrow> string" where
  "CredentialsExportScript mount_dir =
     export_line ''AWS_ACCESS_KEY_ID'' (path_join [mount_dir, AccessKeyFile]) @ [newline] @
     export_line ''AWS_SECRET_ACCESS_KEY'' (path_join [mount_dir, SecretKeyFile])"

section \<open>Theorems\<close>

text \<open>The one value an inline or reference pair stands for.\<close>

definition chosen :: "(string \<Rightarrow> err + 'a) \<Rightarrow> 'a option \<Rightarrow> string \<Rightarrow> 'a \<Rightarrow> bool" where
  "chosen get inline reference x \<longleftrightarrow>
     inline = Some x \<and> reference = [] \<or> inline = None \<and> reference \<noteq> [] \<and> get reference = Inr x"

lemma resolveConnectionSpec_chosen:
  "resolveConnectionSpec c ns inline reference = Inr spec \<longleftrightarrow> chosen (get_connection c ns) inline reference spec"
  by (cases inline) (auto simp: resolveConnectionSpec_def chosen_def split: sum.splits)

lemma resolve_bucket_spec_chosen:
  "resolve_bucket_spec c ns inline reference = Inr spec \<longleftrightarrow> chosen (get_bucket c ns) inline reference spec"
  by (cases inline) (auto simp: resolve_bucket_spec_def chosen_def split: sum.splits)

lemma ResolveConnection_iff:
  "ResolveConnection c ns inline reference = Inr info \<longleftrightarrow>
    (\<exists>spec. chosen (get_connection c ns) inline reference spec \<and> info = connectionInfoFromSpec spec)"
  by (auto simp: ResolveConnection_def resolveConnectionSpec_chosen [symmetric] split: sum.splits)


text \<open>
  The Hadoop properties agree with the connection: SSL is on exactly for an https endpoint, the addressing
  style and the region are the connection's, and without a region there is none.
\<close>

lemma S3AProperties_lookup:
  "fmlookup (S3AProperties c) ''fs.s3a.endpoint'' = Some (endpoint_url c)"
  "fmlookup (S3AProperties c) ''fs.s3a.path.style.access'' = Some (format_bool (ci_path_style c))"
  "fmlookup (S3AProperties c) ''fs.s3a.connection.ssl.enabled'' = Some (format_bool (TLSEnabled c))"
  "fmlookup (S3AProperties c) ''fs.s3a.endpoint.region'' = (if ci_region c \<noteq> [] then Some (ci_region c) else None)"
  by (simp_all add: S3AProperties_def Let_def)

lemma S3AProperties_scheme:
  assumes "ResolveConnection c ns inline reference = Inr info"
  shows "TLSEnabled info \<longleftrightarrow> ci_scheme info = ''https''"
  using assms by (auto simp: ResolveConnection_iff connectionInfoFromSpec_def TLSEnabled_def split: if_splits)

lemma secret_dir_clean: "path_clean KubedoopSecretDir = ''/kubedoop/secret''"
  by (simp add: path_clean_def KubedoopSecretDir_def slash_def Let_def)

lemma credentials_path: "path_join [''/kubedoop/secret'', volume] = CredentialsMountPath volume"
proof (cases "volume = []")
  case True
  then show ?thesis by (simp add: CredentialsMountPath_def path_join_def path_clean_def KubedoopSecretDir_def slash_def)
next
  case False
  then show ?thesis
    by (simp add: CredentialsMountPath_def path_join_def path_clean_def KubedoopSecretDir_def slash_def Let_def
        split: list.split)
qed

lemma credentials_registration_ok:
  "credentials_registration volume cred =
    Inr ((CredentialsVolume volume (cred_class cred))\<lparr>sr_scope := ScopeString (cred_scope cred)\<rparr>)"
  by (simp add: credentials_registration_def WithScope_def ScopeString_valid CredentialsVolume_def registration_def
      Let_def)

lemma secret_dir_absolute: "IsAbs KubedoopSecretDir" "KubedoopSecretDir \<noteq> []"
  by (simp_all add: KubedoopSecretDir_def IsAbs_def slash_def)

lemma CredentialsProvisioner_closed:
  "CredentialsProvisioner c volume =
    (case ci_credentials c of
       None \<Rightarrow> Inr None
     | Some cred \<Rightarrow> Inr (Some \<lparr>sp_registrations = [(CredentialsVolume volume (cred_class cred))
           \<lparr>sr_scope := ScopeString (cred_scope cred)\<rparr>],
         sp_names = {|volume|}, sp_base = ''/kubedoop/secret''\<rparr>))"
  by (simp add: CredentialsProvisioner_def credentials_registration_ok secret_WithMountBasePath_def
      NewSecretProvisioner_def secret_dir_clean secret_dir_absolute ScopeString_valid CredentialsVolume_def
      registration_def split: option.split)

text \<open>Under the secret directory a plain volume name is a directory, and a file of it a path with no dots.\<close>

lemma CredentialsMountPath_plain: "bare volume \<Longrightarrow> CredentialsMountPath volume = ''/kubedoop/secret/'' @ volume"
  by (simp add: CredentialsMountPath_def path_join_bare secret_dir_absolute components_def)
    (simp add: KubedoopSecretDir_def slash_def)

lemma mounted_file:
  assumes "bare volume" and "bare name"
  shows "path_join [''/kubedoop/secret/'' @ volume, name] = ''/kubedoop/secret/'' @ volume @ slash # name"
proof -
  have "slash \<notin> set volume" using assms(1) by (simp add: bare_def)
  then have "split_on slash (''/kubedoop/secret/'' @ volume) = [[], ''kubedoop'', ''secret'', volume]"
    by (simp add: slash_def split_on_free)
  then have "components (''/kubedoop/secret/'' @ volume) = [''kubedoop'', ''secret'', volume]"
    using clean_components_snoc [OF assms(1), of "[]" "[[], ''kubedoop'', ''secret'']"] by (simp add: components_def)
  with assms show ?thesis by (simp add: path_join_bare IsAbs_def slash_def)
qed

lemma CredentialsExportScript_plain:
  assumes "bare volume"
  shows "CredentialsExportScript (''/kubedoop/secret/'' @ volume) =
    ''export AWS_ACCESS_KEY_ID='' @ [CHR 0x22] @ ''$(cat /kubedoop/secret/'' @ volume @ ''/ACCESS_KEY)'' @ [CHR 0x22] @ [CHR 0x0A] @
    ''export AWS_SECRET_ACCESS_KEY='' @ [CHR 0x22] @ ''$(cat /kubedoop/secret/'' @ volume @ ''/SECRET_KEY)'' @ [CHR 0x22]"
proof -
  have "bare AccessKeyFile" "bare SecretKeyFile"
    by (simp_all add: bare_def AccessKeyFile_def SecretKeyFile_def slash_def)
  with assms show ?thesis
    by (simp add: CredentialsExportScript_def export_line_def mounted_file del: append_Cons)
      (simp add: AccessKeyFile_def SecretKeyFile_def slash_def double_quote_def newline_def)
qed

text \<open>
  C27. Credentials are always delivered: whatever the custom resource requests, building the provisioner does
  not panic; it has one volume, of the secret class of the credentials, whose scope annotation grants every
  requested scope but the names the annotation cannot carry, mounted read-only under the secret directory; and
  the export script made for that mount path exports the two variables from the two files of that directory,
  for a volume name that is a plain path component. Without credentials there is no provisioner.
\<close>

theorem CredentialsProvisioner_delivers:
  "case ci_credentials c of
     None \<Rightarrow> CredentialsProvisioner c volume = Inr None
   | Some cred \<Rightarrow> \<exists>p r m. CredentialsProvisioner c volume = Inr (Some p) \<and> secrets_valid p \<and> sp_registrations p = [r] \<and>
       sr_class r = cred_class cred \<and>
       granted (sr_scope r) =
         (case cred_scope cred of None \<Rightarrow> [] | Some s \<Rightarrow> filter expressible (requested s)) \<and>
       secret_VolumeMounts p = [m] \<and> m = read_only_mount volume (CredentialsMountPath volume) \<and>
       secret_Path p volume = Inr (mount_path m) \<and>
       (bare volume \<longrightarrow> mount_path m = ''/kubedoop/secret/'' @ volume \<and>
         CredentialsExportScript (mount_path m) =
           ''export AWS_ACCESS_KEY_ID='' @ [CHR 0x22] @ ''$(cat '' @ mount_path m @ ''/ACCESS_KEY)'' @ [CHR 0x22] @ [CHR 0x0A] @
           ''export AWS_SECRET_ACCESS_KEY='' @ [CHR 0x22] @ ''$(cat '' @ mount_path m @ ''/SECRET_KEY)'' @ [CHR 0x22])"
proof (cases "ci_credentials c")
  case None
  then show ?thesis by (simp add: CredentialsProvisioner_closed)
next
  case (Some cred)
  have "granted (ScopeString (cred_scope cred)) =
      (case cred_scope cred of None \<Rightarrow> [] | Some s \<Rightarrow> filter expressible (requested s))"
  proof (cases "cred_scope cred")
    case None
    then show ?thesis by (simp add: ScopeString_def granted_def)
  next
    case (Some s)
    then show ?thesis by (simp add: ScopeString_rendered granted_rendered requested_plain)
  qed
  with Some CredentialsExportScript_plain [of volume] show ?thesis
    by (simp add: CredentialsProvisioner_closed secrets_valid_def secret_names_def IsAbs_def slash_def
        ScopeString_valid secret_VolumeMounts_def secret_Path_def secret_mountPath_def credentials_path
        CredentialsVolume_def registration_def read_only_mount_def CredentialsMountPath_plain)
qed

definition minio_credentials :: credentials where
  "minio_credentials = \<lparr>cred_scope = Some \<lparr>scope_node = False, scope_pod = True,
     scope_services = [''minio'', ''a,node''], scope_listener_volumes = []\<rparr>, cred_class = ''s3-class''\<rparr>"

definition minio_spec :: s3_connection_spec where
  "minio_spec = \<lparr>sc_credentials = Some minio_credentials,
     sc_host = ''minio'', sc_port = 9000, sc_path_style = True, sc_tls = None, sc_region = ''us-east-1''\<rparr>"

theorem CredentialsProvisioner_delivers_witness:
  "\<exists>p r m. CredentialsProvisioner (connectionInfoFromSpec minio_spec) ''s3-credentials'' = Inr (Some p) \<and>
     sp_registrations p = [r] \<and> granted (sr_scope r) = [(''pod'', []), (''service'', ''minio'')] \<and>
     secret_VolumeMounts p = [m] \<and> mount_path m = ''/kubedoop/secret/'' @ ''s3-credentials'' \<and>
     CredentialsExportScript (mount_path m) =
       ''export AWS_ACCESS_KEY_ID='' @ [CHR 0x22] @ ''$(cat '' @ mount_path m @ ''/ACCESS_KEY)'' @ [CHR 0x22] @ [CHR 0x0A] @
       ''export AWS_SECRET_ACCESS_KEY='' @ [CHR 0x22] @ ''$(cat '' @ mount_path m @ ''/SECRET_KEY)'' @ [CHR 0x22]"
proof -
  have plain: "bare ''s3-credentials''" by (simp add: bare_def slash_def)
  have cred: "ci_credentials (connectionInfoFromSpec minio_spec) = Some minio_credentials"
    by (simp add: connectionInfoFromSpec_def minio_spec_def)
  have scopes: "(case cred_scope minio_credentials of None \<Rightarrow> [] | Some s \<Rightarrow> filter expressible (requested s)) =
      [(''pod'', []), (''service'', ''minio'')]"
    by (simp add: minio_credentials_def requested_def expressible_def)
  from CredentialsProvisioner_delivers [of "connectionInfoFromSpec minio_spec" "''s3-credentials''",
      unfolded cred option.case scopes] plain
  show ?thesis by blast
qed

lemma endpoint_example:
  "endpoint_url (connectionInfoFromSpec \<lparr>sc_credentials = None, sc_host = ''minio'', sc_port = 9000,
     sc_path_style = True, sc_tls = None, sc_region = ''us-east-1''\<rparr>) = ''http://minio:9000''"
  by (simp add: endpoint_url_def connectionInfoFromSpec_def url_string_def url_escape_def url_unreserved_def
      host_plain_def escaped_path_def int_text_def decimal.simps char_of_def bit_0)

end
