(* ===== verification/Ensured.thy ===== *)
theory Ensured
  imports Rbac
begin

text \<open>
  Objects a product ensures beside the resources of its role groups: generated secrets
  (\<open>pkg/reconciler/generated_secret.go\<close>), written once and never rewritten, and discovery ConfigMaps
  (\<open>discovery.go\<close>), rewritten to the data of the pass. What a key generator answers if it is called in
  a run is a value; the reports of a write are the keys whose generator failed.
\<close>

section \<open>Options\<close>

record ensure_options =
  eo_product :: string
  eo_labels :: "string gomap"
  eo_annotations :: "string gomap"

record secret_options = ensure_options +
  eo_type :: string

definition no_secret_options :: secret_options where
  "no_secret_options = \<lparr>eo_product = [], eo_labels = fmempty, eo_annotations = fmempty, eo_type = []\<rparr>"

definition no_discovery_options :: ensure_options where
  "no_discovery_options = \<lparr>eo_product = [], eo_labels = fmempty, eo_annotations = fmempty\<rparr>"

definition WithGeneratedSecretProductName :: "string \<Rightarrow> secret_options \<Rightarrow> secret_options" where
  "WithGeneratedSecretProductName product o' = o'\<lparr>eo_product := product\<rparr>"

definition WithGeneratedSecretExtraLabels :: "string gomap \<Rightarrow> secret_options \<Rightarrow> secret_options" where
  "WithGeneratedSecretExtraLabels ls o' = o'\<lparr>eo_labels := put_all (entries ls) (eo_labels o')\<rparr>"

definition WithGeneratedSecretAnnotations :: "string gomap \<Rightarrow> secret_options \<Rightarrow> secret_options" where
  "WithGeneratedSecretAnnotations as o' = o'\<lparr>eo_annotations := put_all (entries as) (eo_annotations o')\<rparr>"

definition WithGeneratedSecretType :: "string \<Rightarrow> secret_options \<Rightarrow> secret_options" where
  "WithGeneratedSecretType t o' = o'\<lparr>eo_type := t\<rparr>"

definition WithDiscoveryProductName :: "string \<Rightarrow> ensure_options \<Rightarrow> ensure_options" where
  "WithDiscoveryProductName product o' = o'\<lparr>eo_product := product\<rparr>"

definition WithDiscoveryExtraLabels :: "string gomap \<Rightarrow> ensure_options \<Rightarrow> ensure_options" where
  "WithDiscoveryExtraLabels ls o' = o'\<lparr>eo_labels := put_all (entries ls) (eo_labels o')\<rparr>"

definition WithDiscoveryAnnotations :: "string gomap \<Rightarrow> ensure_options \<Rightarrow> ensure_options" where
  "WithDiscoveryAnnotations as o' = o'\<lparr>eo_annotations := put_all (entries as) (eo_annotations o')\<rparr>"

text \<open>The labels of an ensured object: the framework's own are set last.\<close>

definition ensured_labels :: "string \<Rightarrow> ('z) ensure_options_scheme \<Rightarrow> string gomap" where
  "ensured_labels owner o' =
     put_if (eo_product o' \<noteq> []) LabelKubernetesName (eo_product o')
       (fmupd LabelKubernetesManagedBy managedByValue
         (fmupd LabelKubernetesInstance owner (put_all (entries (eo_labels o')) fmempty)))"

section \<open>Generated secrets\<close>

type_synonym generators = "(err + string) gomap"

definition SecretTypeOpaque :: string where "SecretTypeOpaque = ''Opaque''"

definition secret_key_of :: "string \<Rightarrow> key" where "secret_key_of name = (KExtra ''Secret'', name)"

fun secret_data :: "payload \<Rightarrow> string gomap" where
  "secret_data (Secret data t) = data"
| "secret_data _ = fmempty"

fun secret_type :: "payload \<Rightarrow> string" where
  "secret_type (Secret data t) = t"
| "secret_type _ = []"

definition generation_error :: "string \<Rightarrow> string \<Rightarrow> err \<Rightarrow> err" where
  "generation_error name key e =
     Wrapped (FmtErrorf (''generated secret '' @ name @ '': generating key '' @ key)) (Some e)"

text \<open>The loop over the generators, in key order; the report names a key that could not be generated.\<close>

fun generate_missing ::
    "string \<Rightarrow> (string \<times> (err + string)) list \<Rightarrow> string gomap \<Rightarrow> (err + string gomap) \<times> string list" where
  "generate_missing name [] data = (Inr data, [])"
| "generate_missing name ((key, g) # rest) data =
     (if fmlookup data key \<noteq> None then generate_missing name rest data
      else (case g of
          Inl e \<Rightarrow> (Inl (generation_error name key e), [key])
        | Inr v \<Rightarrow> generate_missing name rest (fmupd key v data)))"

text \<open>An object without a creation timestamp is one no server has stored: its version is zero.\<close>

definition secret_mutate ::
    "platform \<Rightarrow> string \<Rightarrow> string gomap \<Rightarrow> secret_options \<Rightarrow> generators \<Rightarrow> live \<Rightarrow> (err + live) \<times> string list" where
  "secret_mutate pf name ls o' gens x =
     (case generate_missing name (entries gens) (secret_data (payload x)) of
        (Inl e, failed) \<Rightarrow> (Inl e, failed)
      | (Inr data, failed) \<Rightarrow>
          (let t = (if lv_version x = 0 then (if eo_type o' = [] then SecretTypeOpaque else eo_type o')
                    else secret_type (payload x))
           in (set_owner pf (x\<lparr>labels := ls, annotations := put_all (entries (eo_annotations o')) (annotations x),
                 payload := Secret data t\<rparr>), failed)))"

definition IsAlreadyExists :: "err \<Rightarrow> bool" where
  "IsAlreadyExists e \<longleftrightarrow> errors_as as_status e = Some AlreadyExists"

text \<open>The object a create-or-update leaves in its argument: what it wrote, or what it read.\<close>

definition left_object :: "env \<Rightarrow> key \<Rightarrow> world \<Rightarrow> op_result \<Rightarrow> world \<Rightarrow> err + live" where
  "left_object env k w res w1 =
     found (if res = OpNone then fmlookup (cache env (calls w) (objs w)) k else fmlookup (objs w1) k)"

definition EnsureGeneratedSecret ::
    "platform \<Rightarrow> env \<Rightarrow> string option \<Rightarrow> string \<Rightarrow> generators \<Rightarrow> (secret_options \<Rightarrow> secret_options) list \<Rightarrow> live run" where
  "EnsureGeneratedSecret pf env owner name gens opts w =
     (case owner of
        None \<Rightarrow> (Inl (PlainError (''generated secret '' @ name @ '': owner must not be nil'')), w)
      | Some owner_name \<Rightarrow>
          if name = [] then (Inl (PlainError ''generated secret: name must not be empty''), w)
          else if fmdom gens = {||}
          then (Inl (PlainError (''generated secret '' @ name @ '': at least one key generator is required'')), w)
          else
            (let o' = fold (\<lambda>f. f) opts no_secret_options; k = secret_key_of name
             in case create_or_update id env k (empty_live (Secret fmempty []))
                    (secret_mutate pf name (ensured_labels owner_name o') o' gens) w of
                  (Inl e, failed, w1) \<Rightarrow>
                    if failed \<noteq> [] then (Inl e, w1)
                    else if \<not> IsAlreadyExists e
                    then (Inl (Wrapped (FmtErrorf (''ensuring generated secret '' @ name)) (Some e)), w1)
                    else wrapE (\<lambda>e. Wrapped (FmtErrorf (''re-reading generated secret '' @ name)) (Some e))
                           (client_get env k) w1
                | (Inr res, _, w1) \<Rightarrow> (left_object env k w res w1, w1)))"

section \<open>Discovery ConfigMaps\<close>

fun config_map_binary :: "payload \<Rightarrow> string gomap" where
  "config_map_binary (ConfigMap d b) = b"
| "config_map_binary _ = fmempty"

definition discovery_mutate ::
    "platform \<Rightarrow> string gomap \<Rightarrow> ensure_options \<Rightarrow> string gomap \<Rightarrow> live \<Rightarrow> (err + live) \<times> string list" where
  "discovery_mutate pf ls o' data x =
     (set_owner pf (x\<lparr>labels := ls, annotations := put_all (entries (eo_annotations o')) (annotations x),
        payload := ConfigMap data (config_map_binary (payload x))\<rparr>), [])"

definition EnsureDiscoveryConfigMap ::
    "platform \<Rightarrow> env \<Rightarrow> string \<Rightarrow> string \<Rightarrow> string gomap \<Rightarrow> (ensure_options \<Rightarrow> ensure_options) list \<Rightarrow> unit run" where
  "EnsureDiscoveryConfigMap pf env owner name data opts w =
     (if name = [] then (Inl (PlainError ''discovery configmap name must not be empty''), w)
      else
        (let o' = fold (\<lambda>f. f) opts no_discovery_options
         in case create_or_update id env (KConfigMap, name) (empty_live (ConfigMap fmempty fmempty))
                (discovery_mutate pf (ensured_labels owner o') o' data) w of
              (Inl e, _, w1) \<Rightarrow>
                (Inl (Wrapped (FmtErrorf (''failed to ensure discovery configmap '' @ name)) (Some e)), w1)
            | (Inr _, _, w1) \<Rightarrow> (Inr (), w1)))"

section \<open>What a write leaves\<close>

text \<open>
  Two objects with one resource version are the same object; the cache may be behind the store but does not
  make objects up. \<open>SetControllerReference\<close> reads and writes the owner references only, changes nothing the
  second time, and its errors are no answers of the API server.
\<close>

definition versioned :: "env \<Rightarrow> bool" where
  "versioned env \<longleftrightarrow> (\<forall>n s k x y. fmlookup (cache env n s) k = Some x \<longrightarrow> fmlookup s k = Some y \<longrightarrow>
     lv_version x = lv_version y \<longrightarrow> x = y)"

definition owner_references :: "platform \<Rightarrow> ((string \<times> bool) list \<Rightarrow> err + (string \<times> bool) list) \<Rightarrow> bool" where
  "owner_references pf f \<longleftrightarrow> (\<forall>x. set_owner pf x =
     (case f (lv_owners x) of Inl e \<Rightarrow> Inl e | Inr os \<Rightarrow> Inr (x\<lparr>lv_owners := os\<rparr>))) \<and>
     (\<forall>os os'. f os = Inr os' \<longrightarrow> f os' = Inr os') \<and>
     (\<forall>os e. f os = Inl e \<longrightarrow> \<not> IsAlreadyExists e)"

definition stored_as :: "nat \<Rightarrow> bool \<Rightarrow> int \<Rightarrow> live \<Rightarrow> live" where
  "stored_as v d r x = x\<lparr>lv_version := v, lv_deleting := d, lv_status_replicas := r\<rparr>"

lemma stored_as_fields [simp]:
  "labels (stored_as v d r x) = labels x" "annotations (stored_as v d r x) = annotations x"
  "payload (stored_as v d r x) = payload x" "lv_owners (stored_as v d r x) = lv_owners x"
  "lv_version (stored_as v d r x) = v"
  by (simp_all add: stored_as_def)

lemma empty_live_fields [simp]: "payload (empty_live p) = p" "lv_owners (empty_live p) = []"
  by (simp_all add: empty_live_def fresh_def)

text \<open>
  The store after a create-or-update: as before, or the new object created, or the object the cache answered,
  which still has the version of the stored one, changed.
\<close>

definition left_by ::
    "env \<Rightarrow> key \<Rightarrow> live \<Rightarrow> (live \<Rightarrow> (err + live) \<times> string list) \<Rightarrow> world \<Rightarrow> world \<Rightarrow> bool" where
  "left_by env k obj mutate w w' \<longleftrightarrow> objs w' = objs w \<or>
     (\<exists>new report. fmlookup (objs w) k = None \<and> mutate obj = (Inr new, report) \<and>
        (\<exists>n. objs w' = fmupd k (created env n new) (objs w))) \<or>
     (\<exists>x y new report. fmlookup (objs w) k = Some y \<and> got env k x w \<and> mutate x = (Inr new, report) \<and>
        lv_version y = lv_version new \<and> (\<exists>n. objs w' = fmupd k (updated env n y new) (objs w)))"

lemma api_create_left:
  assumes "api_create env k new w = (r, w')"
  shows "objs w' = objs w \<or> fmlookup (objs w) k = None \<and> objs w' = fmupd k (created env (calls w) new) (objs w)"
  using assms by (auto simp: api_create_def request_def Let_def split: option.splits)

lemma api_update_left:
  assumes "api_update env k new w = (r, w')"
  shows "objs w' = objs w \<or> (\<exists>y. fmlookup (objs w) k = Some y \<and> lv_version y = lv_version new \<and>
    objs w' = fmupd k (updated env (calls w) y new) (objs w))"
  using assms by (auto simp: api_update_def request_def Let_def split: option.splits if_splits)

lemma create_or_update_left:
  assumes "create_or_update g env k obj mutate w = (res, report, w')"
  shows "left_by env k obj mutate w w'"
proof -
  obtain r w1 where get: "client_get env k w = (r, w1)" by fastforce
  have o: "objs w1 = objs w" using client_get_objs [of env k w] get by simp
  show ?thesis
  proof (cases r)
    case (Inl e)
    obtain m rep where m: "mutate obj = (m, rep)" by fastforce
    show ?thesis
    proof (cases m)
      case n: (Inr new)
      obtain r2 w2 where c: "api_create env k new w1 = (r2, w2)" by fastforce
      have "w' = w1 \<or> w' = w2"
        using assms Inl get m n c by (cases r2) (auto simp: create_or_update_def split: if_splits)
      with api_create_left [OF c] o m n show ?thesis unfolding left_by_def by auto
    qed (use assms Inl get m o in \<open>auto simp: create_or_update_def left_by_def split: if_splits\<close>)
  next
    case (Inr x)
    obtain m rep where m: "mutate x = (m, rep)" by fastforce
    show ?thesis
    proof (cases m)
      case n: (Inr new)
      obtain r2 w2 where u: "api_update env k new w1 = (r2, w2)" by fastforce
      have "w' = w1 \<or> w' = w2"
        using assms Inr get m n u by (cases r2) (auto simp: create_or_update_def split: if_splits)
      then show ?thesis
      proof
        assume "w' = w2"
        have "got env k x w" using client_get_got [OF get [unfolded Inr]] .
        with api_update_left [OF u] o m n show ?thesis
          unfolding left_by_def \<open>w' = w2\<close> by (elim disjE) (fastforce, metis)
      qed (simp add: left_by_def o)
    qed (use assms Inr get m o in \<open>auto simp: create_or_update_def left_by_def split: if_splits\<close>)
  qed
qed

section \<open>A secret is written once\<close>

lemma generate_missing_correct:
  "generate_missing name gs data = (Inr data', failed) \<Longrightarrow>
    failed = [] \<and> data \<subseteq>\<^sub>f data' \<and> fst ` set gs \<subseteq> fset (fmdom data')"
proof (induction gs arbitrary: data)
  case Nil
  then show ?case by (simp add: fmsubset.rep_eq)
next
  case (Cons a gs)
  obtain key g where a: "a = (key, g)" by fastforce
  show ?case
  proof (cases "fmlookup data key")
    case (Some v)
    with Cons.prems a have "failed = [] \<and> data \<subseteq>\<^sub>f data' \<and> fst ` set gs \<subseteq> fset (fmdom data')"
      by (intro Cons.IH) simp
    with Some a show ?thesis by (auto simp: fmsubset_alt_def dest: fmdomI)
  next
    case None
    with Cons.prems a obtain v where g: "g = Inr v" by (auto split: sum.splits)
    with None Cons.prems a have step: "failed = [] \<and> fmupd key v data \<subseteq>\<^sub>f data' \<and> fst ` set gs \<subseteq> fset (fmdom data')"
      by (intro Cons.IH) simp
    then have "fmlookup data' key = Some v" by (auto simp: fmsubset_alt_def fmpred_upd)
    moreover have "data \<subseteq>\<^sub>f data'"
      using step None unfolding fmsubset.rep_eq map_le_def
      by (metis domIff fmupd_lookup)
    ultimately show ?thesis using step a by (auto dest: fmdomI)
  qed
qed


lemma secret_mutate_keeps:
  assumes "owner_references pf f" and "secret_mutate pf name ls o' gens x = (Inr y, report)"
  shows "secret_data (payload x) \<subseteq>\<^sub>f secret_data (payload y) \<and> lv_version y = lv_version x \<and>
    fmdom gens |\<subseteq>| fmdom (secret_data (payload y)) \<and>
    (lv_version x \<noteq> 0 \<longrightarrow> secret_type (payload y) = secret_type (payload x))"
proof -
  obtain r failed where g: "generate_missing name (entries gens) (secret_data (payload x)) = (r, failed)" by fastforce
  with assms(2) obtain data where r: "r = Inr data"
    by (cases r) (auto simp: secret_mutate_def)
  have "secret_data (payload x) \<subseteq>\<^sub>f data \<and> fst ` set (entries gens) \<subseteq> fset (fmdom data)"
    using generate_missing_correct [of name "entries gens"] g r by blast
  moreover have "fst ` set (entries gens) = fset (fmdom gens)" by (force simp: set_entries fmlookup_dom_iff)
  ultimately show ?thesis
    using assms g r by (auto simp: secret_mutate_def owner_references_def Let_def split: sum.splits)
qed

lemma secret_mutate_payload:
  assumes "owner_references pf f" and "secret_mutate pf name ls o' gens x = (Inr y, report)"
  shows "\<exists>data t. payload y = Secret data t"
proof -
  obtain r failed where g: "generate_missing name (entries gens) (secret_data (payload x)) = (r, failed)" by fastforce
  with assms show ?thesis
    by (cases r) (auto simp: secret_mutate_def owner_references_def Let_def split: sum.splits)
qed

lemma EnsureGeneratedSecret_left:
  "EnsureGeneratedSecret pf env owner name gens opts w = (r, w') \<Longrightarrow>
    objs w' = objs w \<or> (\<exists>ls o'. left_by env (secret_key_of name) (empty_live (Secret fmempty []))
      (secret_mutate pf name ls o' gens) w w')"
proof -
  assume run: "EnsureGeneratedSecret pf env owner name gens opts w = (r, w')"
  show ?thesis
  proof (cases "owner = None \<or> name = [] \<or> fmdom gens = {||}")
    case True
    with run have "w' = w" by (auto simp: EnsureGeneratedSecret_def split: option.splits if_splits)
    then show ?thesis by simp
  next
    case False
    then obtain n where n: "owner = Some n" "name \<noteq> []" "fmdom gens \<noteq> {||}" by auto
    define o' where "o' = fold (\<lambda>f. f) opts no_secret_options"
    let ?m = "secret_mutate pf name (ensured_labels n o') o' gens"
    obtain res failed w1 where c: "create_or_update id env (secret_key_of name) (empty_live (Secret fmempty [])) ?m w
        = (res, failed, w1)" by (metis prod_cases3)
    have left: "left_by env (secret_key_of name) (empty_live (Secret fmempty [])) ?m w w1"
      by (rule create_or_update_left [OF c])
    have "w' = w1 \<or> (\<exists>r2. wrapE (\<lambda>e. Wrapped (FmtErrorf (''re-reading generated secret '' @ name)) (Some e))
        (client_get env (secret_key_of name)) w1 = (r2, w'))"
      using run n c by (cases res) (auto simp: EnsureGeneratedSecret_def Let_def o'_def [symmetric] split: if_splits)
    moreover have "objs (snd (wrapE h (client_get env k) w1)) = objs w1" for h k
      using client_get_objs [of env k w1]
      by (auto simp: wrapE_def handleE_def throwE_def returnE_def split: prod.splits sum.splits)
    ultimately have "objs w' = objs w1" by (metis snd_conv)
    with left show ?thesis unfolding left_by_def by metis
  qed
qed


text \<open>
  C24. A generated secret is never rewritten. Whatever requests fail, however far the cache is behind and
  whoever else reconciles, a run that finds a secret in the store leaves it there with every value it had and
  with its type, and touches no other object.
\<close>

theorem EnsureGeneratedSecret_keeps:
  assumes "versioned env" and "owner_references pf f"
    and "EnsureGeneratedSecret pf env owner name gens opts w = (r, w')"
    and "fmlookup (objs w) (secret_key_of name) = Some y" and "0 < lv_version y"
  shows "(\<exists>y'. fmlookup (objs w') (secret_key_of name) = Some y' \<and>
      secret_data (payload y) \<subseteq>\<^sub>f secret_data (payload y') \<and>
      secret_type (payload y') = secret_type (payload y)) \<and>
    (\<forall>k. k \<noteq> secret_key_of name \<longrightarrow> fmlookup (objs w') k = fmlookup (objs w) k)"
proof -
  consider (same) "objs w' = objs w"
    | (left) ls o' where "left_by env (secret_key_of name) (empty_live (Secret fmempty []))
        (secret_mutate pf name ls o' gens) w w'"
    using EnsureGeneratedSecret_left [OF assms(3)] by blast
  then show ?thesis
  proof cases
    case same
    with assms(4) show ?thesis by (simp add: fmsubset.rep_eq)
  next
    case left
    then consider "objs w' = objs w"
      | x new report n where "got env (secret_key_of name) x w"
          and "secret_mutate pf name ls o' gens x = (Inr new, report)" and "lv_version y = lv_version new"
          and "objs w' = fmupd (secret_key_of name) (updated env n y new) (objs w)"
      unfolding left_by_def using assms(4) by auto
    then show ?thesis
    proof cases
      case 1
      with assms(4) show ?thesis by (simp add: fmsubset.rep_eq)
    next
      case 2
      note kept = secret_mutate_keeps [OF assms(2) 2(2)]
      with 2(1,3) assms(1,4) have "x = y" unfolding versioned_def got_def by metis
      moreover have "payload (updated env n y new) = payload new"
        using secret_mutate_payload [OF assms(2) 2(2)] by (auto simp: updated_payload)
      ultimately show ?thesis using kept 2(4) assms(5) by simp
    qed
  qed
qed

section \<open>Ensuring twice\<close>

text \<open>
  The contract of a mutate function whose object settles: after a write with inputs \<open>i\<close>, inputs that ask for
  nothing more find nothing to change. \<open>fits\<close> names the objects it can change.
\<close>

definition no_defaults_for :: "payload \<Rightarrow> bool" where
  "no_defaults_for p \<longleftrightarrow> (\<forall>env n. admitted env n p = p)"

lemma no_defaults_for_plain [simp]:
  "no_defaults_for (ConfigMap d b)" "no_defaults_for (Secret d t)" "no_defaults_for (ServiceAccount s)"
  "no_defaults_for (RBACRole rs)" "no_defaults_for (RBACBinding r ss)"
  by (simp_all add: no_defaults_for_def)

locale settling =
  fixes mutate :: "platform \<Rightarrow> 'i \<Rightarrow> live \<Rightarrow> (err + live) \<times> string list"
    and covers :: "'i \<Rightarrow> 'i \<Rightarrow> bool" and fits :: "platform \<Rightarrow> 'i \<Rightarrow> live \<Rightarrow> bool"
  assumes version: "owner_references pf f \<Longrightarrow> mutate pf i x = (Inr y, report) \<Longrightarrow> lv_version y = lv_version x"
    and unchanged: "owner_references pf f \<Longrightarrow> covers i i' \<Longrightarrow> fits pf i x \<Longrightarrow> mutate pf i x = (Inr x, report) \<Longrightarrow>
      fst (mutate pf i' x) = Inr x"
    and settled: "owner_references pf f \<Longrightarrow> covers i i' \<Longrightarrow> fits pf i x \<Longrightarrow> mutate pf i x = (Inr y, report) \<Longrightarrow>
      fst (mutate pf i' (stored_as (Suc v) d r y)) = Inr (stored_as (Suc v) d r y)"
    and stated: "owner_references pf f \<Longrightarrow> fits pf i x \<Longrightarrow> mutate pf i x = (Inr y, report) \<Longrightarrow>
      payload y = payload x \<or> no_defaults_for (payload y)"

text \<open>No request fails and the cache is the store.\<close>

definition undisturbed :: "env \<Rightarrow> bool" where
  "undisturbed env \<longleftrightarrow> fault env = (\<lambda>_. None) \<and> cache env = (\<lambda>_ s. s)"

definition current_or :: "live \<Rightarrow> key \<Rightarrow> world \<Rightarrow> live" where
  "current_or obj k w = (case fmlookup (objs w) k of None \<Rightarrow> obj | Some x \<Rightarrow> x)"

lemma undisturbed_write:
  assumes "undisturbed env" and "mutate (current_or obj k w) = (Inr y, report)"
    and "lv_version y = lv_version (current_or obj k w)"
    and "payload y = payload (current_or obj k w) \<or> no_defaults_for (payload y)" and "no_defaults_for (payload obj)"
  shows "\<exists>res w1 z. create_or_update g env k obj mutate w = (Inr res, report, w1) \<and>
    fmlookup (objs w1) k = Some z \<and> left_object env k w res w1 = Inr z \<and>
    (z = y \<and> current_or obj k w = y \<or> (\<exists>v d r. z = stored_as (Suc v) d r y))"
proof (cases "fmlookup (objs w) k")
  case None
  then have "no_defaults_for (payload y)" using assms(4,5) by (auto simp: current_or_def)
  then have "created env n y = stored_as (Suc 0) False 0 y" for n
    by (simp add: created_def stored_as_def no_defaults_for_def)
  with None assms show ?thesis
    by (auto simp: create_or_update_def client_get_def api_create_def request_def Let_def undisturbed_def
        found_def left_object_def current_or_def IsNotFound_def)
next
  case (Some x)
  then have "updated env n x y = (if y = x then x
      else stored_as (Suc (lv_version x)) (lv_deleting y) (lv_status_replicas y) y)" for n
    using assms(4) by (auto simp: updated_plain stored_as_def current_or_def no_defaults_for_def)
  with Some assms show ?thesis
    by (cases "y = x") (auto simp: create_or_update_def client_get_def api_update_def request_def Let_def
        undisturbed_def found_def left_object_def current_or_def)
qed

lemma undisturbed_unchanged:
  assumes "undisturbed env" and "fmlookup (objs w) k = Some z" and "mutate z = (Inr z, report)"
  shows "create_or_update g env k obj mutate w = (Inr OpNone, report, w\<lparr>calls := Suc (calls w)\<rparr>) \<and>
    left_object env k w OpNone w' = Inr z"
  using assms by (simp add: create_or_update_def client_get_def request_def Let_def undisturbed_def found_def
      left_object_def)

context settling
begin

lemma settles:
  assumes "owner_references pf f" and "undisturbed env" and "covers i i'" and "fits pf i (current_or obj k w)"
    and "mutate pf i (current_or obj k w) = (Inr y, report)" and "no_defaults_for (payload obj)"
  shows "\<exists>res w1 z report'. create_or_update g env k obj (mutate pf i) w = (Inr res, report, w1) \<and>
    fmlookup (objs w1) k = Some z \<and> left_object env k w res w1 = Inr z \<and>
    (z = y \<or> (\<exists>v d r. z = stored_as (Suc v) d r y)) \<and>
    create_or_update g' env k obj' (mutate pf i') w1 = (Inr OpNone, report', w1\<lparr>calls := Suc (calls w1)\<rparr>) \<and>
    (\<forall>w2. left_object env k w1 OpNone w2 = Inr z)"
proof -
  obtain res w1 z where first: "create_or_update g env k obj (mutate pf i) w = (Inr res, report, w1)"
      "fmlookup (objs w1) k = Some z" "left_object env k w res w1 = Inr z"
    and z: "z = y \<and> current_or obj k w = y \<or> (\<exists>v d r. z = stored_as (Suc v) d r y)"
    using undisturbed_write [where mutate = "mutate pf i" and g = g, OF assms(2,5) version [OF assms(1,5)] stated [OF assms(1,4,5)] assms(6)]
    by (elim exE conjE)
  from z assms have "fst (mutate pf i' z) = Inr z" by (auto intro: unchanged settled)
  then obtain report' where "mutate pf i' z = (Inr z, report')" by (metis prod.collapse)
  note second = undisturbed_unchanged [where mutate = "mutate pf i'", OF assms(2) first(2) this]
  have "z = y \<or> (\<exists>v d r. z = stored_as (Suc v) d r y)" using z by blast
  with first second show ?thesis by (intro exI conjI) (assumption | rule second [THEN conjunct1] | rule allI second [THEN conjunct2])+
qed

end


lemma generate_missing_none:
  "fst ` set gs \<subseteq> fset (fmdom data) \<Longrightarrow> generate_missing name gs data = (Inr data, [])"
  by (induction gs) (auto simp: fmlookup_dom_iff)

lemma put_all_again [simp]: "put_all (entries as) (put_all (entries as) m) = put_all (entries as) m"
  by (rule fmap_ext) (auto simp: fold_upd_entries)

lemma owner_referencesD:
  assumes "owner_references pf f" and "set_owner pf x = Inr y"
  shows "y = x\<lparr>lv_owners := lv_owners y\<rparr>" and "f (lv_owners y) = Inr (lv_owners y)"
  using assms by (auto simp: owner_references_def split: sum.splits)

lemma owner_again:
  "owner_references pf f \<Longrightarrow> f (lv_owners x) = Inr (lv_owners x) \<Longrightarrow> set_owner pf x = Inr x"
  by (simp add: owner_references_def)

definition secret_inputs_cover ::
    "string \<times> string gomap \<times> secret_options \<times> generators \<Rightarrow> string \<times> string gomap \<times> secret_options \<times> generators \<Rightarrow> bool" where
  "secret_inputs_cover = (\<lambda>(n, ls, o', gens) (n', ls', o'', gens').
     ls' = ls \<and> o'' = o' \<and> fmdom gens' |\<subseteq>| fmdom gens)"

definition secret_write ::
    "platform \<Rightarrow> string \<times> string gomap \<times> secret_options \<times> generators \<Rightarrow> live \<Rightarrow> (err + live) \<times> string list" where
  "secret_write pf = (\<lambda>(n, ls, o', gens). secret_mutate pf n ls o' gens)"

lemma secret_mutate_written:
  assumes "owner_references pf f" and "secret_mutate pf n ls o' gens x = (Inr y, report)"
    and "fmdom gens' |\<subseteq>| fmdom gens" and "labels z = labels y" and "annotations z = annotations y"
    and "payload z = payload y" and "lv_owners z = lv_owners y" and "lv_version z \<noteq> 0 \<or> z = x"
  shows "fst (secret_mutate pf n' ls o' gens' z) = Inr z"
proof -
  obtain data failed where g: "generate_missing n (entries gens) (secret_data (payload x)) = (Inr data, failed)"
    using assms(2) by (auto simp: secret_mutate_def split: prod.splits sum.splits)
  let ?t = "if lv_version x = 0 then (if eo_type o' = [] then SecretTypeOpaque else eo_type o') else secret_type (payload x)"
  let ?x = "x\<lparr>labels := ls, annotations := put_all (entries (eo_annotations o')) (annotations x), payload := Secret data ?t\<rparr>"
  have set: "set_owner pf ?x = Inr y" using assms(2) g by (simp add: secret_mutate_def Let_def)
  note y = owner_referencesD [OF assms(1) set]
  have "labels y = ls" "annotations y = put_all (entries (eo_annotations o')) (annotations x)" "payload y = Secret data ?t"
    by (subst y(1), simp)+
  note z = this [folded assms(4-6)]
  have "fst ` set (entries gens') \<subseteq> fset (fmdom data)"
  proof -
    have "fst ` set (entries gens') = fset (fmdom gens')" "fst ` set (entries gens) = fset (fmdom gens)"
      by (force simp: set_entries fmlookup_dom_iff)+
    moreover have "fst ` set (entries gens) \<subseteq> fset (fmdom data)" using generate_missing_correct [OF g] by simp
    ultimately show ?thesis using assms(3) by (simp add: less_eq_fset.rep_eq)
  qed
  then have none: "generate_missing n' (entries gens') data = (Inr data, [])" by (rule generate_missing_none)
  have t: "(if lv_version z = 0 then (if eo_type o' = [] then SecretTypeOpaque else eo_type o') else ?t) = ?t"
    using assms(8) by auto
  have same: "z\<lparr>labels := ls, annotations := put_all (entries (eo_annotations o')) (annotations z), payload := Secret data ?t\<rparr> = z"
    using z by simp
  have "set_owner pf z = Inr z" using owner_again [OF assms(1)] y(2) assms(7) by simp
  moreover have "secret_mutate pf n' ls o' gens' z = (set_owner pf
      (z\<lparr>labels := ls, annotations := put_all (entries (eo_annotations o')) (annotations z), payload := Secret data ?t\<rparr>), [])"
    by (simp only: secret_mutate_def z(3) secret_data.simps secret_type.simps none prod.case sum.case Let_def t)
  ultimately show ?thesis unfolding same by simp
qed

interpretation secrets_settle: settling secret_write secret_inputs_cover "\<lambda>_ _ _. True"
proof (unfold_locales, goal_cases)
  case (1 pf f i x y report)
  then show ?case by (cases i) (auto simp: secret_write_def dest: secret_mutate_keeps)
next
  case (2 pf f i i' x report)
  then show ?case
    by (cases i; cases i') (auto simp: secret_write_def secret_inputs_cover_def intro: secret_mutate_written)
next
  case (3 pf f i i' x y report v d r)
  then show ?case
    by (cases i; cases i') (auto simp: secret_write_def secret_inputs_cover_def intro!: secret_mutate_written)
next
  case (4 pf f i x y report)
  then show ?case by (cases i) (auto simp: secret_write_def dest!: secret_mutate_payload)
qed

definition discovery_write ::
    "platform \<Rightarrow> string gomap \<times> ensure_options \<times> string gomap \<Rightarrow> live \<Rightarrow> (err + live) \<times> string list" where
  "discovery_write pf = (\<lambda>(ls, o', data). discovery_mutate pf ls o' data)"

lemma discovery_mutate_written:
  assumes "owner_references pf f" and "discovery_mutate pf ls o' data x = (Inr y, report)"
    and "labels z = labels y" and "annotations z = annotations y" and "payload z = payload y" and "lv_owners z = lv_owners y"
  shows "fst (discovery_mutate pf ls o' data z) = Inr z"
proof -
  let ?x = "x\<lparr>labels := ls, annotations := put_all (entries (eo_annotations o')) (annotations x),
    payload := ConfigMap data (config_map_binary (payload x))\<rparr>"
  have set: "set_owner pf ?x = Inr y" using assms(2) by (simp add: discovery_mutate_def)
  note y = owner_referencesD [OF assms(1) set]
  have "labels y = ls" "annotations y = put_all (entries (eo_annotations o')) (annotations x)"
      "payload y = ConfigMap data (config_map_binary (payload x))"
    by (subst y(1), simp)+
  note z = this [folded assms(3-5)]
  have "set_owner pf z = Inr z" using owner_again [OF assms(1)] y(2) assms(6) by simp
  moreover have same: "z\<lparr>labels := ls, annotations := put_all (entries (eo_annotations o')) (annotations z),
      payload := ConfigMap data (config_map_binary (payload z))\<rparr> = z"
    using z by simp
  ultimately show ?thesis unfolding discovery_mutate_def same by simp
qed

interpretation discovery_settles: settling discovery_write "(=)" "\<lambda>_ _ _. True"
proof (unfold_locales, goal_cases)
  case (1 pf f i x y report)
  then show ?case
    by (cases i) (auto simp: discovery_write_def discovery_mutate_def owner_references_def split: sum.splits)
next
  case (2 pf f i i' x report)
  then show ?case by (cases i) (auto simp: discovery_write_def intro: discovery_mutate_written)
next
  case (3 pf f i i' x y report v d r)
  then show ?case by (cases i) (auto simp: discovery_write_def intro!: discovery_mutate_written)
next
  case (4 pf f i x y report)
  then show ?case
    by (cases i) (auto simp: discovery_write_def discovery_mutate_def owner_references_def split: sum.splits)
qed


section \<open>Properties\<close>

definition owner_accepts :: "((string \<times> bool) list \<Rightarrow> err + (string \<times> bool) list) \<Rightarrow> key \<Rightarrow> world \<Rightarrow> bool" where
  "owner_accepts f k w \<longleftrightarrow>
     (case f (case fmlookup (objs w) k of None \<Rightarrow> [] | Some x \<Rightarrow> lv_owners x) of Inl e \<Rightarrow> False | Inr os \<Rightarrow> True)"

definition generators_answer :: "generators \<Rightarrow> bool" where
  "generators_answer gens \<longleftrightarrow> list_all (\<lambda>(k, g). case g of Inl e \<Rightarrow> False | Inr v \<Rightarrow> True) (entries gens)"

lemma fmdom_fmempty: "fmdom m = {||} \<longleftrightarrow> m = fmempty"
  by (metis fmdom_empty fmrestrict_fset_dom fmrestrict_fset_null)

lemma generate_missing_total:
  "list_all (\<lambda>(k, g). case g of Inl e \<Rightarrow> False | Inr v \<Rightarrow> True) gs \<Longrightarrow> \<exists>data'. generate_missing name gs data = (Inr data', [])"
proof (induction gs arbitrary: data)
  case (Cons a gs)
  then show ?case by (cases a) (auto split: sum.splits)
qed simp

lemma owner_accepts_set:
  assumes "owner_references pf f" and "owner_accepts f k w"
    and "lv_owners x = lv_owners (current_or obj k w)" and "lv_owners obj = []"
  shows "\<exists>y. set_owner pf x = Inr y"
  using assms by (auto simp: owner_accepts_def owner_references_def current_or_def
      split: option.splits sum.splits)

text \<open>
  C25. Generated once: on an undisturbed cluster, when the generators answer and the owner reference can be set,
  the secret is returned with every key asked for; the next run returns the same secret after one read,
  whatever its generators would answer, as long as it asks for no other key.
\<close>

theorem EnsureGeneratedSecret_once:
  assumes "undisturbed env" and "owner_references pf f" and "owner_accepts f (secret_key_of name) w"
    and "generators_answer gens" and "name \<noteq> []" and "gens' \<noteq> fmempty" and "fmdom gens' |\<subseteq>| fmdom gens"
  shows "\<exists>s w1. EnsureGeneratedSecret pf env (Some owner) name gens opts w = (Inr s, w1) \<and>
    fmlookup (objs w1) (secret_key_of name) = Some s \<and> fmdom gens |\<subseteq>| fmdom (secret_data (payload s)) \<and>
    EnsureGeneratedSecret pf env (Some owner) name gens' opts w1 = (Inr s, w1\<lparr>calls := Suc (calls w1)\<rparr>)"
proof -
  define o' where "o' = fold (\<lambda>f. f) opts no_secret_options"
  define k where "k = secret_key_of name"
  let ?obj = "empty_live (Secret fmempty [])" and ?ls = "ensured_labels owner o'"
  let ?x = "current_or ?obj k w"
  have ne: "fmdom gens' \<noteq> {||}" "fmdom gens \<noteq> {||}" using assms(6,7) by (auto simp: fmdom_fmempty)
  obtain data where g: "generate_missing name (entries gens) (secret_data (payload ?x)) = (Inr data, [])"
    using generate_missing_total assms(4) unfolding generators_answer_def by blast
  obtain y where y: "secret_mutate pf name ?ls o' gens ?x = (Inr y, [])"
  proof -
    let ?t = "if lv_version ?x = 0 then (if eo_type o' = [] then SecretTypeOpaque else eo_type o') else secret_type (payload ?x)"
    have "\<exists>y. set_owner pf (?x\<lparr>labels := ?ls, annotations := put_all (entries (eo_annotations o')) (annotations ?x),
        payload := Secret data ?t\<rparr>) = Inr y"
      using assms(3) by (intro owner_accepts_set [OF assms(2), where obj = ?obj and k = k and w = w])
        (simp_all add: k_def)
    with g that show ?thesis by (auto simp: secret_mutate_def Let_def)
  qed
  have mw: "secret_write pf (name, ?ls, o', gens) = secret_mutate pf name ?ls o' gens" for gens
    by (simp add: secret_write_def fun_eq_iff)
  have "secret_inputs_cover (name, ?ls, o', gens) (name, ?ls, o', gens')"
    using assms(7) by (simp add: secret_inputs_cover_def)
  from secrets_settle.settles [OF assms(2,1) this TrueI, of ?obj k w y "[]" id id ?obj] y no_defaults_for_plain(2)
  obtain res w1 z report' where
    run: "create_or_update id env k ?obj (secret_mutate pf name ?ls o' gens) w = (Inr res, [], w1)"
      "fmlookup (objs w1) k = Some z" "left_object env k w res w1 = Inr z"
      "create_or_update id env k ?obj (secret_mutate pf name ?ls o' gens') w1 =
        (Inr OpNone, report', w1\<lparr>calls := Suc (calls w1)\<rparr>)"
      "\<forall>w2. left_object env k w1 OpNone w2 = Inr z"
    and z: "z = y \<or> (\<exists>v d r. z = stored_as (Suc v) d r y)"
    unfolding mw empty_live_fields by blast
  have "fmdom gens |\<subseteq>| fmdom (secret_data (payload z))"
    using secret_mutate_keeps [OF assms(2) y] z by auto
  with run ne assms(5) show ?thesis
    by (simp add: EnsureGeneratedSecret_def Let_def o'_def [symmetric] k_def [symmetric])
qed

text \<open>
  A discovery ConfigMap settles: on an undisturbed cluster whose owner reference can be set, the map is
  stored with exactly the data of the pass, and ensuring the same data again only reads.
\<close>

theorem EnsureDiscoveryConfigMap_settles:
  assumes "undisturbed env" and "owner_references pf f" and "owner_accepts f (KConfigMap, name) w" and "name \<noteq> []"
  shows "\<exists>x w1. EnsureDiscoveryConfigMap pf env owner name data opts w = (Inr (), w1) \<and>
    fmlookup (objs w1) (KConfigMap, name) = Some x \<and>
    payload x = ConfigMap data (config_map_binary (payload (current_or (empty_live (ConfigMap fmempty fmempty)) (KConfigMap, name) w))) \<and>
    EnsureDiscoveryConfigMap pf env owner name data opts w1 = (Inr (), w1\<lparr>calls := Suc (calls w1)\<rparr>)"
proof -
  define o' where "o' = fold (\<lambda>f. f) opts no_discovery_options"
  let ?obj = "empty_live (ConfigMap fmempty fmempty)" and ?ls = "ensured_labels owner o'"
  let ?x = "current_or ?obj (KConfigMap, name) w"
  obtain y where y: "discovery_mutate pf ?ls o' data ?x = (Inr y, [])"
  proof -
    have "\<exists>y. set_owner pf (?x\<lparr>labels := ?ls, annotations := put_all (entries (eo_annotations o')) (annotations ?x),
        payload := ConfigMap data (config_map_binary (payload ?x))\<rparr>) = Inr y"
      by (rule owner_accepts_set [OF assms(2,3), where obj = ?obj]) simp_all
    with that show ?thesis by (auto simp: discovery_mutate_def)
  qed
  have mw: "discovery_write pf (?ls, o', data) = discovery_mutate pf ?ls o' data"
    by (simp add: discovery_write_def)
  from discovery_settles.settles [OF assms(2,1) refl TrueI, of "(?ls, o', data)" ?obj "(KConfigMap, name)" w y "[]" id id ?obj] y
    no_defaults_for_plain(1)
  obtain res w1 z report' where
    run: "create_or_update id env (KConfigMap, name) ?obj (discovery_mutate pf ?ls o' data) w = (Inr res, [], w1)"
      "fmlookup (objs w1) (KConfigMap, name) = Some z"
      "create_or_update id env (KConfigMap, name) ?obj (discovery_mutate pf ?ls o' data) w1 =
        (Inr OpNone, report', w1\<lparr>calls := Suc (calls w1)\<rparr>)"
    and z: "z = y \<or> (\<exists>v d r. z = stored_as (Suc v) d r y)"
    unfolding mw empty_live_fields by blast
  have "payload y = ConfigMap data (config_map_binary (payload ?x))"
    using y by (subst owner_referencesD(1) [OF assms(2)]) (auto simp: discovery_mutate_def)
  with z have "payload z = ConfigMap data (config_map_binary (payload ?x))" by auto
  with run assms(4) show ?thesis
    by (simp add: EnsureDiscoveryConfigMap_def Let_def o'_def [symmetric])
qed


section \<open>Witnesses\<close>

definition one_secret :: world where
  "one_secret = leftover\<lparr>objs := fmupd (secret_key_of ''cookie'')
     ((empty_live (Secret (fmupd ''key'' ''old'' fmempty) SecretTypeOpaque))\<lparr>lv_version := 3\<rparr>) (objs leftover)\<rparr>"

definition two_keys :: generators where
  "two_keys = fmupd ''key'' (Inr ''fresh'') (fmupd ''other'' (Inr ''added'') fmempty)"

lemma two_keys_answer: "generators_answer two_keys"
  by (auto simp: generators_answer_def two_keys_def list_all_iff split: if_splits sum.splits)

lemma plain_owner: "owner_references plain_platform (\<lambda>_. Inr [(''uid-1'', True)])"
  by (simp add: owner_references_def plain_platform_def)

lemma quiet_undisturbed: "undisturbed quiet_env"
  by (simp add: undisturbed_def quiet_env_def)

text \<open>A cache that is empty: the read finds nothing, the create meets the object.\<close>

theorem EnsureGeneratedSecret_keeps_witness:
  "\<exists>y'. fmlookup (objs (snd (EnsureGeneratedSecret plain_platform (quiet_env\<lparr>cache := (\<lambda>_ _. fmempty)\<rparr>) (Some ''c'')
      ''cookie'' two_keys [] one_secret))) (secret_key_of ''cookie'') = Some y' \<and>
    fmlookup (secret_data (payload y')) ''key'' = Some ''old''"
proof -
  let ?env = "quiet_env\<lparr>cache := (\<lambda>_ _. fmempty)\<rparr>"
  obtain r w' where run: "EnsureGeneratedSecret plain_platform ?env (Some ''c'') ''cookie'' two_keys [] one_secret = (r, w')"
    by fastforce
  have "versioned ?env" by (simp add: versioned_def)
  from EnsureGeneratedSecret_keeps [OF this plain_owner run, of
      "(empty_live (Secret (fmupd ''key'' ''old'' fmempty) SecretTypeOpaque))\<lparr>lv_version := 3\<rparr>"]
  obtain y' where "fmlookup (objs w') (secret_key_of ''cookie'') = Some y'"
    and "fmupd ''key'' ''old'' fmempty \<subseteq>\<^sub>f secret_data (payload y')"
    by (auto simp: one_secret_def)
  then show ?thesis unfolding run by (auto simp: fmsubset_alt_def fmpred_upd)
qed

theorem EnsureGeneratedSecret_once_witness:
  "\<exists>s w1. EnsureGeneratedSecret plain_platform quiet_env (Some ''c'') ''cookie'' two_keys [] one_secret = (Inr s, w1) \<and>
    EnsureGeneratedSecret plain_platform quiet_env (Some ''c'') ''cookie'' (fmupd ''key'' (Inl (PlainError ''down'')) fmempty) []
      w1 = (Inr s, w1\<lparr>calls := Suc (calls w1)\<rparr>)"
  using EnsureGeneratedSecret_once [OF quiet_undisturbed plain_owner, of "''cookie''" one_secret two_keys
      "fmupd ''key'' (Inl (PlainError ''down'')) fmempty" "''c''" "[]"] two_keys_answer
  by (fastforce simp: owner_accepts_def two_keys_def fmupd_idem dest: arg_cong [where f = fmdom])

theorem EnsureDiscoveryConfigMap_settles_witness:
  "\<exists>w1. EnsureDiscoveryConfigMap plain_platform quiet_env ''c'' ''discovery'' (fmupd ''KAFKA'' ''a:1'' fmempty) [] leftover
      = (Inr (), w1) \<and>
    EnsureDiscoveryConfigMap plain_platform quiet_env ''c'' ''discovery'' (fmupd ''KAFKA'' ''a:1'' fmempty) [] w1
      = (Inr (), w1\<lparr>calls := Suc (calls w1)\<rparr>)"
  using EnsureDiscoveryConfigMap_settles [OF quiet_undisturbed plain_owner, of "''discovery''" leftover "''c''"
      "fmupd ''KAFKA'' ''a:1'' fmempty" "[]"]
  by (fastforce simp: owner_accepts_def)

end
