(* ===== verification/K8sUtil.thy ===== *)
theory K8sUtil
  imports Ensured
begin

text \<open>
  The client wrappers of \<open>pkg/util/k8s_util.go\<close> over the requests of the cluster model. \<open>CreateOrUpdate\<close> is with the
  writes of a reconcile pass; a caller's update function changes the object it is given.
\<close>

section \<open>Requests with a wrapped error\<close>

definition failed_to :: "string \<Rightarrow> key \<Rightarrow> err \<Rightarrow> err" where
  "failed_to what k e = Wrapped (FmtErrorf (''failed to '' @ what @ '' '' @ snd k)) (Some e)"

definition DeleteIfExists :: "env \<Rightarrow> key \<Rightarrow> unit run" where
  "DeleteIfExists env k = or_missing (failed_to ''delete'' k) (api_delete env k) () returnE"

definition util_Get :: "env \<Rightarrow> key \<Rightarrow> live run" where
  "util_Get env k = wrapE (failed_to ''get'' k) (client_get env k)"

definition util_List :: "env \<Rightarrow> (key \<Rightarrow> live \<Rightarrow> bool) \<Rightarrow> (key \<times> live) list run" where
  "util_List env P = wrapE (\<lambda>e. Wrapped (FmtErrorf ''failed to list resources'') (Some e)) (client_list env P)"

definition util_Create :: "env \<Rightarrow> key \<Rightarrow> live \<Rightarrow> unit run" where
  "util_Create env k x = wrapE (failed_to ''create'' k) (api_create env k x)"

definition util_Update :: "env \<Rightarrow> key \<Rightarrow> live \<Rightarrow> unit run" where
  "util_Update env k x = wrapE (failed_to ''update'' k) (api_update env k x)"

definition ResourceExists :: "env \<Rightarrow> key \<Rightarrow> bool run" where
  "ResourceExists env k = handleE (client_get env k)
     (\<lambda>e. if IsNotFound e then returnE False else throwE e) (\<lambda>_. returnE True)"

definition ApplyOwnership :: "platform \<Rightarrow> live \<Rightarrow> err + live" where
  "ApplyOwnership pf owned = (case set_owner pf owned of
       Inl e \<Rightarrow> Inl (Wrapped (FmtErrorf ''failed to set controller reference'') (Some e))
     | Inr x \<Rightarrow> Inr x)"

text \<open>The reads of the base handler.\<close>

definition FetchConfigMap :: "env \<Rightarrow> string \<Rightarrow> live run" where
  "FetchConfigMap env name = handleE (client_get env (KConfigMap, name)) throwE returnE"

definition FetchSecret :: "env \<Rightarrow> string \<Rightarrow> live run" where
  "FetchSecret env name = handleE (client_get env (secret_key_of name)) throwE returnE"

section \<open>Retrying on a conflict\<close>

text \<open>Five attempts: one and four more.\<close>

definition defaultBackoff :: nat where "defaultBackoff = 4"

definition update_once :: "env \<Rightarrow> key \<Rightarrow> (live \<Rightarrow> err + live) \<Rightarrow> unit run" where
  "update_once env k updateFn = bindE (client_get env k) (\<lambda>x.
     case updateFn x of Inl e \<Rightarrow> throwE e | Inr y \<Rightarrow> api_update env k y)"

definition UpdateWithRetry :: "env \<Rightarrow> key \<Rightarrow> (live \<Rightarrow> err + live) \<Rightarrow> unit run" where
  "UpdateWithRetry env k updateFn = retry_on_conflict defaultBackoff (update_once env k updateFn)"

section \<open>What an attempt does\<close>

text \<open>An update function leaves the resource version to the API server.\<close>

definition leaves_version :: "(live \<Rightarrow> err + live) \<Rightarrow> bool" where
  "leaves_version f \<longleftrightarrow> (\<forall>x y. f x = Inr y \<longrightarrow> lv_version y = lv_version x)"

definition updated_by :: "env \<Rightarrow> key \<Rightarrow> (live \<Rightarrow> err + live) \<Rightarrow> world \<Rightarrow> world \<Rightarrow> bool" where
  "updated_by env k f w w' \<longleftrightarrow> (\<exists>x y n. fmlookup (objs w) k = Some x \<and> f x = Inr y \<and>
     objs w' = fmupd k (updated env n x y) (objs w))"

definition attempt :: "env \<Rightarrow> nat \<Rightarrow> key \<Rightarrow> (live \<Rightarrow> err + live) \<Rightarrow> world \<Rightarrow> (err + unit) \<times> world \<Rightarrow> bool" where
  "attempt env n k f w rw \<longleftrightarrow> calls w < calls (snd rw) \<and> calls (snd rw) \<le> calls w + n \<and>
     (case fst rw of Inl e \<Rightarrow> objs (snd rw) = objs w | Inr _ \<Rightarrow> updated_by env k f w (snd rw))"

lemma update_once_attempt:
  assumes "versioned env" and "leaves_version f"
  shows "attempt env 2 k f w (update_once env k f w)"
proof -
  obtain r w1 where get: "client_get env k w = (r, w1)" by fastforce
  have w1: "objs w1 = objs w" "calls w1 = Suc (calls w)"
    using get by (auto simp: client_get_def request_def Let_def split: option.splits)
  show ?thesis
  proof (cases r)
    case (Inl e)
    with get w1 show ?thesis by (simp add: attempt_def update_once_def bindE_def handleE_def throwE_def)
  next
    case (Inr x)
    note got = client_get_got [OF get [unfolded Inr]]
    show ?thesis
    proof (cases "f x")
      case (Inl e)
      with \<open>r = Inr x\<close> get w1 show ?thesis by (simp add: attempt_def update_once_def bindE_def handleE_def throwE_def)
    next
      case y: (Inr y)
      have step: "update_once env k f w = api_update env k y w1"
        using \<open>r = Inr x\<close> get y by (simp add: update_once_def bindE_def handleE_def)
      obtain s w2 where u: "api_update env k y w1 = (s, w2)" by fastforce
      have "calls w2 = Suc (calls w1)" and fails: "\<And>e. s = Inl e \<Longrightarrow> objs w2 = objs w1"
        using u by (auto simp: api_update_def request_def Let_def split: option.splits if_splits)
      moreover have "updated_by env k f w w2" if "s = Inr ()"
      proof -
        from u that obtain z where z: "fmlookup (objs w1) k = Some z" "lv_version z = lv_version y"
            "objs w2 = fmupd k (updated env (calls w1) z y) (objs w1)"
          by (auto simp: api_update_def request_def Let_def split: option.splits if_splits)
        have "lv_version y = lv_version x" using assms(2) y by (simp add: leaves_version_def)
        with assms(1) got z w1 have "x = z" unfolding versioned_def got_def by metis
        with y z w1 show ?thesis by (auto simp: updated_by_def)
      qed
      ultimately show ?thesis using w1 u step by (auto simp: attempt_def split: sum.splits)
    qed
  qed
qed

lemma attempt_again:
  assumes "attempt env m k f w (Inl e, w1)" and "attempt env n k f w1 rw"
  shows "attempt env (m + n) k f w rw"
  using assms by (auto simp: attempt_def updated_by_def split: sum.splits)

lemma retry_attempt:
  assumes "\<And>w. attempt env m k f w (g w)"
  shows "attempt env (m * Suc n) k f w (retry_on_conflict n g w)"
proof (induction n arbitrary: w)
  case 0
  show ?case using assms by simp
next
  case (Suc n)
  obtain r w1 where g: "g w = (r, w1)" by fastforce
  note first = assms [of w, unfolded g]
  have final: "attempt env (m * Suc (Suc n)) k f w (r, w1)"
    using first by (auto simp: attempt_def)
  show ?case
  proof (cases r)
    case (Inl e)
    have "attempt env (m * Suc (Suc n)) k f w (retry_on_conflict n g w1)"
      using attempt_again [OF first [unfolded Inl] Suc [of w1]] by (simp add: algebra_simps)
    with Inl g final show ?thesis by (auto simp: handleE_def throwE_def)
  next
    case (Inr a)
    with g final show ?thesis by (simp add: handleE_def returnE_def)
  qed
qed

section \<open>Property\<close>

text \<open>
  C38. An update with retries loses nothing: it ends after at most ten requests; when it reports success the update
  function was applied exactly once, to the object that was stored, however stale the copies it read on the way,
  and what the store holds is what the API server makes of its result: the server's defaults filled in, and the
  version moved unless nothing changed; when it fails the store is as it was.
\<close>

theorem UpdateWithRetry_once:
  assumes "versioned env" and "leaves_version f" and "UpdateWithRetry env k f w = (r, w')"
  shows "calls w' \<le> calls w + 10 \<and>
    (case r of
       Inl e \<Rightarrow> objs w' = objs w
     | Inr _ \<Rightarrow> (\<exists>x y n. fmlookup (objs w) k = Some x \<and> f x = Inr y \<and>
         objs w' = fmupd k (updated env n x y) (objs w)))"
  using retry_attempt [of env 2 k f "update_once env k f" defaultBackoff w] update_once_attempt [OF assms(1,2)] assms(3)
  by (simp add: UpdateWithRetry_def attempt_def updated_by_def defaultBackoff_def split: sum.splits)

text \<open>The first read answers an older copy, the second the stored one.\<close>

definition lagging :: env where
  "lagging = quiet_env\<lparr>cache := (\<lambda>n s. if n < 2 then fmmap (\<lambda>x.
     if lv_version x = 0 then x else x\<lparr>lv_version := lv_version x - 1, labels := fmempty\<rparr>) s else s)\<rparr>"

lemma lagging_versioned: "versioned lagging"
  by (auto simp: versioned_def lagging_def split: if_splits)

definition relabel :: "live \<Rightarrow> err + live" where
  "relabel x = Inr (x\<lparr>labels := fmupd ''seen'' ''yes'' (labels x)\<rparr>)"

definition labelled :: world where
  "labelled = leftover\<lparr>objs := fmupd (KConfigMap, ''a'')
     ((empty_live (ConfigMap fmempty fmempty))\<lparr>lv_version := 3, labels := fmupd ''kept'' ''yes'' fmempty\<rparr>) fmempty\<rparr>"

lemma relabel_leaves: "leaves_version relabel"
  by (auto simp: leaves_version_def relabel_def)

lemma relabel_succeeds: "fst (UpdateWithRetry lagging (KConfigMap, ''a'') relabel labelled) = Inr ()"
  by code_simp

theorem UpdateWithRetry_once_witness:
  "case fmlookup (objs (snd (UpdateWithRetry lagging (KConfigMap, ''a'') relabel labelled))) (KConfigMap, ''a'') of
     None \<Rightarrow> False
   | Some x \<Rightarrow> fmlookup (labels x) ''kept'' = Some ''yes'' \<and> fmlookup (labels x) ''seen'' = Some ''yes'' \<and> lv_version x = 4"
proof -
  obtain r w' where run: "UpdateWithRetry lagging (KConfigMap, ''a'') relabel labelled = (r, w')" by fastforce
  then have "r = Inr ()" using relabel_succeeds by simp
  with UpdateWithRetry_once [OF lagging_versioned relabel_leaves run]
  obtain n where "objs w' = fmupd (KConfigMap, ''a'') (updated lagging n
      ((empty_live (ConfigMap fmempty fmempty))\<lparr>lv_version := 3, labels := fmupd ''kept'' ''yes'' fmempty\<rparr>)
      ((empty_live (ConfigMap fmempty fmempty))\<lparr>lv_version := 3,
        labels := fmupd ''seen'' ''yes'' (fmupd ''kept'' ''yes'' fmempty)\<rparr>)) (objs labelled)"
    by (auto simp: labelled_def relabel_def)
  moreover have "fmupd ''seen'' ''yes'' (fmupd ''kept'' ''yes'' fmempty) \<noteq> fmupd ''kept'' (''yes'' :: string) fmempty"
    by (auto dest: arg_cong [where f = "\<lambda>m. fmlookup m ''seen''"])
  ultimately show ?thesis
    unfolding run by (auto simp: updated_plain dest: arg_cong [where f = labels])
qed

end
