(* ===== verification/Settled.thy ===== *)
theory Settled
  imports Ensured
begin

text \<open>
  Applying twice. A handler leaves out what the API server fills in, so a second apply of an unchanged spec may
  send an update; what it asks for is what is stored, and the server answers it with the stored object. The laws
  of the server below are what that takes. The mutate functions of the ServiceAccount and of the workload
  permissions (\<open>workload_rbac.go\<close>) have nothing the server fills in and satisfy the contract \<open>settling\<close>.
\<close>

section \<open>Copying onto the result\<close>

text \<open>
  What the copy needs of a desired object and of the object it is copied onto: one kind with a copy of its own,
  containers and ports with names of their own, claim names enumerated in one order.
\<close>

definition copyable :: "(string fset \<Rightarrow> string list) \<Rightarrow> payload \<Rightarrow> payload \<Rightarrow> bool" where
  "copyable rng d l = (case l of
       StatefulSet ls \<Rightarrow> (case d of
           StatefulSet ds \<Rightarrow> range_ok rng \<and> distinct (container_names (sts_template ls)) \<and>
             distinct (container_names (sts_template ds))
         | _ \<Rightarrow> False)
     | ConfigMap _ _ \<Rightarrow> (case d of ConfigMap _ _ \<Rightarrow> True | _ \<Rightarrow> False)
     | Service _ \<Rightarrow> (case d of Service ds \<Rightarrow> ports_valid (svc_ports ds) | _ \<Rightarrow> False)
     | ServiceAccount _ \<Rightarrow> True
     | Job _ \<Rightarrow> (case d of Job _ \<Rightarrow> True | _ \<Rightarrow> False)
     | PodDisruptionBudget _ \<Rightarrow> (case d of PodDisruptionBudget _ \<Rightarrow> True | _ \<Rightarrow> False)
     | _ \<Rightarrow> False)"

lemma copyJobState_again:
  "copyJobState d l = (s, ignored) \<Longrightarrow> copyJobState d s = (s, ignored)"
  by (auto simp: copyJobState_def)

lemma copyServiceState_again:
  "copyServiceState d l = (s, ignored) \<Longrightarrow> ports_valid (svc_ports d) \<Longrightarrow> copyServiceState d s = (s, ignored)"
  by (drule (1) copyServiceState_correct) simp

lemma copyable_typed: "copyable rng d l \<Longrightarrow> typed_kind l \<noteq> None \<and> (typed_kind l = Some ''ServiceAccount'' \<or> typed_kind d = typed_kind l)"
  by (cases l; cases d) (simp_all add: copyable_def typed_kind_def)

lemma copyDesiredState_copyable:
  assumes "copyable rng (payload d) (payload l)"
  shows "\<exists>s ignored. copyDesiredState rng conv d l = Inr (s, ignored) \<and> labels s = labels d \<and>
    annotations s = fmadd (annotations l) (annotations d) \<and>
    payload_copied rng (payload d) (payload l) (payload s) ignored"
proof -
  note t = copyable_typed [OF assms]
  then obtain s ignored where c: "copyDesiredState rng conv d l = Inr (s, ignored)"
      "payload_copied rng (payload d) (payload l) (payload s) ignored"
    using copyDesiredState_typed [where l = l and rng = rng and conv = conv and d = d] by (fastforce split: sum.splits)
  moreover have "labels s = labels d \<and> annotations s = fmadd (annotations l) (annotations d)"
    using t by (intro copyDesiredState_metadata [OF c(1)]) (simp add: wholesale_def)
  ultimately show ?thesis by blast
qed

lemma payload_copied_again:
  assumes "copyable rng d l" and "payload_copied rng d l p ignored"
  shows "copyable rng d p \<and> (payload_copied rng d p q ignored' \<longrightarrow> q = p \<and> ignored' = ignored)"
proof (cases l)
  case (StatefulSet ls)
  with assms obtain ds where d: "d = StatefulSet ds" by (cases d) (simp_all add: copyable_def)
  obtain s i where c: "copyStatefulSetState rng ds ls = (s, i)" by fastforce
  have ok: "range_ok rng" "distinct (container_names (sts_template ls))" "distinct (container_names (sts_template ds))"
    using assms(1) StatefulSet d by (simp_all add: copyable_def)
  have "container_names (sts_template s) = container_names (sts_template ds)"
    using copyStatefulSetState_parts(7) [OF ok c] .
  with copyStatefulSetState_idempotent [OF ok c] ok assms(2) StatefulSet d c show ?thesis
    by (auto simp: payload_copied_def copyable_def)
next
  case (Service ls)
  with assms obtain ds where d: "d = Service ds" by (cases d) (simp_all add: copyable_def)
  obtain s i where c: "copyServiceState ds ls = (s, i)" by fastforce
  with assms Service d copyServiceState_again [OF c] show ?thesis by (auto simp: payload_copied_def copyable_def)
next
  case (Job ls)
  with assms obtain ds where d: "d = Job ds" by (cases d) (simp_all add: copyable_def)
  obtain s i where c: "copyJobState ds ls = (s, i)" by fastforce
  with assms Job d copyJobState_again [OF c] show ?thesis by (auto simp: payload_copied_def copyable_def)
qed (use assms in \<open>cases d; simp add: payload_copied_def copyable_def\<close>)+

section \<open>What the server fills in\<close>

text \<open>
  A StatefulSet: what is stated stays, the claims and the policy are filled in from themselves, a claim gains
  only what the comparison of claims leaves aside, and a set that is sent with the stored claims and policy is
  stored as before.
\<close>

definition mounts_of :: "pod_template \<Rightarrow> (string \<times> volume_mount list) list" where
  "mounts_of t = map (\<lambda>c. (c_name c, c_mounts c)) (allContainers t)"

definition fills_sts :: "(sts_spec \<Rightarrow> sts_spec) \<Rightarrow> bool" where
  "fills_sts D \<longleftrightarrow> (\<forall>s.
     sts_selector (D s) = sts_selector s \<and> sts_service_name (D s) = sts_service_name s \<and>
     tpl_annotations (sts_template (D s)) = tpl_annotations (sts_template s) \<and>
     mounts_of (sts_template (D s)) = mounts_of (sts_template s) \<and>
     map pvc_name (sts_claims (D s)) = map pvc_name (sts_claims s) \<and>
     list_all2 (\<lambda>c filled. claimTemplateAsRequested c filled = c) (sts_claims s) (sts_claims (D s)) \<and>
     (\<forall>t. (sts_claims t = sts_claims s \<longrightarrow> sts_claims (D t) = sts_claims (D s)) \<and>
       (sts_policy t = sts_policy s \<longrightarrow> sts_policy (D t) = sts_policy (D s))) \<and>
     D (s\<lparr>sts_claims := sts_claims (D s), sts_policy := sts_policy (D s)\<rparr>) = D s)"

text \<open>
  A Service: the ports keep their names, numbers and stated node ports, and a Service that is sent with what was
  allocated for it is stored as before, whichever request it is.
\<close>

definition with_allocated :: "service_spec \<Rightarrow> service_spec \<Rightarrow> service_spec" where
  "with_allocated s t = s\<lparr>cluster_ip := cluster_ip t, cluster_ips := cluster_ips t, ip_families := ip_families t,
     ip_family_policy := ip_family_policy t, health_check_node_port := health_check_node_port t,
     load_balancer_class := load_balancer_class t,
     svc_ports := map2 (\<lambda>p q. p\<lparr>node_port := node_port q\<rparr>) (svc_ports s) (svc_ports t)\<rparr>"

definition same_port :: "service_port \<Rightarrow> service_port \<Rightarrow> bool" where
  "same_port p q \<longleftrightarrow> port_name q = port_name p \<and> port_number q = port_number p \<and>
     (node_port p \<noteq> 0 \<longrightarrow> node_port q = node_port p)"

definition fills_service :: "(nat \<Rightarrow> service_spec \<Rightarrow> service_spec) \<Rightarrow> bool" where
  "fills_service F \<longleftrightarrow> (\<forall>n s. list_all2 same_port (svc_ports s) (svc_ports (F n s)) \<and>
     (\<forall>m. F m (with_allocated s (F n s)) = F n s))"

text \<open>A Job: one that is sent with the stored selector, template and completions is stored as before.\<close>

definition fills_job :: "(nat \<Rightarrow> job_spec \<Rightarrow> job_spec) \<Rightarrow> bool" where
  "fills_job J \<longleftrightarrow> (\<forall>n m s. J m (fst (copyJobState s (J n s))) = J n s)"

definition stored_sts :: "env \<Rightarrow> sts_spec \<Rightarrow> sts_spec" where
  "stored_sts env s = (df_sts (server env) s)\<lparr>sts_replicas := default_replicas (sts_replicas s)\<rparr>"

definition server_fills :: "env \<Rightarrow> bool" where
  "server_fills env \<longleftrightarrow> fills_sts (stored_sts env) \<and> fills_service (df_service (server env)) \<and>
     fills_job (df_job (server env))"

text \<open>A stored payload has its defaults.\<close>

definition filled_in :: "env \<Rightarrow> payload \<Rightarrow> bool" where
  "filled_in env p \<longleftrightarrow> (\<forall>n. admitted env n p = p)"

section \<open>Copying onto what was filled in\<close>

lemma claimTemplateNames_names: "map pvc_name cs = map pvc_name ds \<Longrightarrow> claimTemplateNames cs = claimTemplateNames ds"
  by (simp add: claimTemplateNames_def)

text \<open>Restoring the mounts of preserved claims looks at the mounts of the live containers only.\<close>

lemma restoreVolumeMount_mounts:
  assumes "mounts_of lt = mounts_of lt'"
  shows "restoreVolumeMount name lt t = restoreVolumeMount name lt' t"
proof -
  have "restoreVolumeMount name x t = fold (\<lambda>(n, ms) t. updateTemplateContainer n
      (\<lambda>c. c\<lparr>c_mounts := fold (restore_mount name) ms (c_mounts c)\<rparr>) t) (mounts_of x) t" for x
    by (simp add: restoreVolumeMount_def mounts_of_def fold_map comp_def)
  then show ?thesis using assms by simp
qed

lemma reconcileClaimVolumeMounts_mounts:
  assumes "map pvc_name lc = map pvc_name lc'" and "mounts_of lt = mounts_of lt'"
  shows "reconcileClaimVolumeMounts rng t dc lc (Some lt) = reconcileClaimVolumeMounts rng t dc lc' (Some lt')"
  using claimTemplateNames_names [OF assms(1)] restoreVolumeMount_mounts [OF assms(2)]
  by (simp add: reconcileClaimVolumeMounts_def Let_def cong: if_cong)

lemma sts_copied_onto_filled:
  assumes c: "copyStatefulSetState rng d s = (s, ignored)" and D: "fills_sts D"
    and same: "claimTemplatesDiffer (sts_claims d) (sts_claims (D s)) = claimTemplatesDiffer (sts_claims d) (sts_claims s)"
  shows "fst (copyStatefulSetState rng d (D s)) = s\<lparr>sts_claims := sts_claims (D s), sts_policy := sts_policy (D s)\<rparr>"
proof -
  have kept: "sts_selector (D s) = sts_selector s" "sts_service_name (D s) = sts_service_name s"
    "tpl_annotations (sts_template (D s)) = tpl_annotations (sts_template s)"
    "mounts_of (sts_template (D s)) = mounts_of (sts_template s)"
    "map pvc_name (sts_claims (D s)) = map pvc_name (sts_claims s)"
    using D unfolding fills_sts_def by blast+
  note mounts = reconcileClaimVolumeMounts_mounts [OF kept(5,4), of rng "sts_template d" "sts_claims d"]
  have s: "fst (copyStatefulSetState rng d s) = s" using c by simp
  have "fst (copyStatefulSetState rng d (D s)) =
      (fst (copyStatefulSetState rng d s))\<lparr>sts_claims := sts_claims (D s), sts_policy := sts_policy (D s)\<rparr>"
    by (cases "claimTemplatesDiffer (sts_claims d) (sts_claims s)")
      (simp_all add: copyStatefulSetState_def Let_def same kept mounts)
  then show ?thesis unfolding s .
qed

lemma claims_as_requested:
  "list_all2 (\<lambda>c filled. claimTemplateAsRequested c filled = c) cs ds \<Longrightarrow> \<not> claimTemplatesDiffer cs ds"
  by (auto simp: claimTemplatesDiffer_def list_all2_conv_all_nth in_set_zip list_ex_iff)

lemma as_requested_self: "\<not> claimTemplatesDiffer cs cs"
  by (auto simp: claimTemplatesDiffer_def claimTemplateAsRequested_def list_ex_iff in_set_zip)

lemma sts_settles:
  assumes ok: "range_ok rng" "distinct (container_names (sts_template l))" "distinct (container_names (sts_template d))"
    and D: "fills_sts D" and l: "l = d \<or> D l = l" and c: "copyStatefulSetState rng d l = (s, ignored)"
  shows "D (fst (copyStatefulSetState rng d (D s))) = D s"
proof -
  have "sts_preserved s = sts_preserved l" using copyStatefulSetState_parts(1) [OF ok c] .
  then have sl: "sts_claims s = sts_claims l" "sts_policy s = sts_policy l" by (simp_all add: sts_preserved_def)
  have "claimTemplatesDiffer (sts_claims d) (sts_claims (D s)) = claimTemplatesDiffer (sts_claims d) (sts_claims s)"
  proof (cases "l = d")
    case True
    have "list_all2 (\<lambda>c filled. claimTemplateAsRequested c filled = c) (sts_claims s) (sts_claims (D s))"
      using D unfolding fills_sts_def by blast
    from claims_as_requested [OF this] True sl as_requested_self [of "sts_claims s"] show ?thesis by simp
  next
    case False
    then have "D l = l" using l by simp
    moreover have "sts_claims (D s) = sts_claims (D l)" using D sl unfolding fills_sts_def by metis
    ultimately show ?thesis using sl by simp
  qed
  note onto = sts_copied_onto_filled [OF copyStatefulSetState_idempotent [OF ok c] D this]
  have "D (s\<lparr>sts_claims := sts_claims (D s), sts_policy := sts_policy (D s)\<rparr>) = D s"
    using D unfolding fills_sts_def by blast
  then show ?thesis by (simp only: onto)
qed

lemma found_at:
  assumes "ports_valid ds" and "list_all2 same_port ds ts" and "i < length ds"
  shows "findServicePort ts (ds ! i) = Some (ts ! i)"
proof -
  have len: "length ts = length ds" using assms(2) by (simp add: list_all2_lengthD)
  have at: "port_name (ts ! j) = port_name (ds ! j)" "port_number (ts ! j) = port_number (ds ! j)" if "j < length ds" for j
    using assms(2) that by (auto simp: list_all2_conv_all_nth same_port_def)
  have named: "find_key port_name (port_name (ds ! i)) ts = Some (ts ! i)"
  proof -
    have "port_name (ts ! j) \<noteq> port_name (ds ! i)" if "j < i" for j
      using assms(1,3) that at [of j] nth_eq_iff_index_eq [of "map port_name ds" j i] by (auto simp: ports_valid_def)
    then show ?thesis using assms(3) len at by (auto simp: find_key_def find_Some_iff intro!: exI [of _ i])
  qed
  show ?thesis
  proof (cases "port_name (ds ! i) = []")
    case False
    with named show ?thesis by (simp add: findServicePort_def)
  next
    case True
    then have "length ds = 1" using assms(1,3) by (cases "length ds \<le> 1") (auto simp: ports_valid_def)
    then have "ts = [ts ! 0]" "i = 0" using len assms(3) by (cases ts; simp)+
    then have "find_key port_number (port_number (ds ! i)) ts = Some (ts ! i)"
      using at [of 0] \<open>length ds = 1\<close> by (metis find_key_simps(2) less_one)
    with True show ?thesis by (simp add: findServicePort_def)
  qed
qed

lemma service_settles:
  assumes F: "fills_service F" and valid: "ports_valid (svc_ports d)"
  shows "F m (fst (copyServiceState d (F n (fst (copyServiceState d l))))) = F n (fst (copyServiceState d l))"
proof -
  let ?s = "fst (copyServiceState d l)"
  let ?t = "F n ?s"
  have ports: "svc_ports ?s = map (carry_node_port (svc_ports l)) (svc_ports d)" by (simp add: copyServiceState_def)
  have carried: "same_port p (carry_node_port ls p)" for ls p
    by (auto simp: same_port_def carry_node_port_def split: option.split)
  have st: "list_all2 same_port (svc_ports ?s) (svc_ports ?t)" using F unfolding fills_service_def by blast
  have dt: "list_all2 same_port (svc_ports d) (svc_ports ?t)"
    using st carried by (fastforce simp: ports list_all2_conv_all_nth same_port_def)
  have "map (carry_node_port (svc_ports ?t)) (svc_ports d) =
      map2 (\<lambda>p q. p\<lparr>node_port := node_port q\<rparr>) (svc_ports ?s) (svc_ports ?t)"
  proof (rule nth_equalityI)
    show len: "length (map (carry_node_port (svc_ports ?t)) (svc_ports d)) =
        length (map2 (\<lambda>p q. p\<lparr>node_port := node_port q\<rparr>) (svc_ports ?s) (svc_ports ?t))"
      using dt by (simp add: ports list_all2_lengthD)
    fix i assume "i < length (map (carry_node_port (svc_ports ?t)) (svc_ports d))"
    then have i: "i < length (svc_ports d)" "i < length (svc_ports ?t)" using list_all2_lengthD [OF dt] by simp_all
    have same: "same_port (svc_ports d ! i) (svc_ports ?t ! i)" using dt i by (simp add: list_all2_conv_all_nth)
    have "carry_node_port (svc_ports ?t) (svc_ports d ! i) = (svc_ports d ! i)\<lparr>node_port := node_port (svc_ports ?t ! i)\<rparr>"
      using found_at [OF valid dt i(1)] same by (simp add: carry_node_port_def same_port_def)
    moreover have "(carry_node_port (svc_ports l) (svc_ports d ! i))\<lparr>node_port := v\<rparr> = (svc_ports d ! i)\<lparr>node_port := v\<rparr>" for v
      by (simp add: carry_node_port_def split: option.split)
    ultimately show "map (carry_node_port (svc_ports ?t)) (svc_ports d) ! i =
        map2 (\<lambda>p q. p\<lparr>node_port := node_port q\<rparr>) (svc_ports ?s) (svc_ports ?t) ! i"
      using i by (simp add: ports)
  qed
  then have "fst (copyServiceState d ?t) = with_allocated ?s ?t"
    by (simp add: copyServiceState_def with_allocated_def)
  then show ?thesis using F unfolding fills_service_def by simp
qed

lemma job_settles:
  assumes "fills_job J"
  shows "J m (fst (copyJobState d (J n (fst (copyJobState d l))))) = J n (fst (copyJobState d l))"
proof -
  have "fst (copyJobState d t) = fst (copyJobState (fst (copyJobState d l)) t)" for t by (simp add: copyJobState_def)
  then show ?thesis using assms unfolding fills_job_def by metis
qed

lemma admitted_settles:
  assumes env: "server_fills env" and cp: "copyable rng d l" and l: "l = d \<or> filled_in env l"
    and p: "payload_copied rng d l p ignored"
  shows "copyable rng d (admitted env n p) \<and>
    (payload_copied rng d (admitted env n p) q ignored' \<longrightarrow> admitted env m q = admitted env n p)"
proof -
  note again = payload_copied_again [OF cp p]
  show ?thesis
  proof (cases l)
    case (StatefulSet ls)
    with cp obtain ds where d: "d = StatefulSet ds" by (cases d) (simp_all add: copyable_def)
    obtain s i where c: "copyStatefulSetState rng ds ls = (s, i)" by fastforce
    have ok: "range_ok rng" "distinct (container_names (sts_template ls))" "distinct (container_names (sts_template ds))"
      using cp StatefulSet d by (simp_all add: copyable_def)
    have D: "fills_sts (stored_sts env)" using env by (simp add: server_fills_def)
    have ps: "p = StatefulSet s" using p StatefulSet d c by (simp add: payload_copied_def)
    have adm: "admitted env k (StatefulSet x) = StatefulSet (stored_sts env x)" for k x
      by (simp add: admitted_def stored_sts_def)
    have "ls = ds \<or> stored_sts env ls = ls" using l StatefulSet d by (simp add: filled_in_def adm)
    note settled = sts_settles [OF ok D this c]
    have "map fst (mounts_of (sts_template (stored_sts env s))) = map fst (mounts_of (sts_template s))"
      using D unfolding fills_sts_def by metis
    then have "container_names (sts_template (stored_sts env s)) = container_names (sts_template ds)"
      using copyStatefulSetState_parts(7) [OF ok c] by (simp add: mounts_of_def container_names_def comp_def)
    with settled ok show ?thesis by (simp add: ps adm d copyable_def payload_copied_def)
  next
    case (Service ls)
    with cp obtain ds where d: "d = Service ds" by (cases d) (simp_all add: copyable_def)
    have F: "fills_service (df_service (server env))" using env by (simp add: server_fills_def)
    have "ports_valid (svc_ports ds)" using cp Service d by (simp add: copyable_def)
    with service_settles [OF F this] p Service d show ?thesis
      by (auto simp: payload_copied_def copyable_def admitted_def)
  next
    case (Job ls)
    with cp obtain ds where d: "d = Job ds" by (cases d) (simp_all add: copyable_def)
    have J: "fills_job (df_job (server env))" using env by (simp add: server_fills_def)
    with job_settles [OF J] p Job d show ?thesis
      by (auto simp: payload_copied_def copyable_def admitted_def)
  qed (use again p cp in \<open>cases d; auto simp: payload_copied_def copyable_def\<close>)+
qed

section \<open>The mutate functions\<close>

lemma set_owner_payload:
  "owner_references pf f \<Longrightarrow> set_owner pf x = Inr y \<Longrightarrow> labels y = labels x \<and> annotations y = annotations x \<and>
    payload y = payload x \<and> lv_version y = lv_version x"
  by (auto simp: owner_references_def split: sum.splits)

lemma fresh_owners [simp]: "lv_owners (fresh d) = []"
  by (simp add: fresh_def)

lemma with_as_object [simp]:
  "as_object (with_object d x) = d" "with_object (as_object x) x = x" "lv_owners (with_object d x) = lv_owners x"
  "lv_version (with_object d x) = lv_version x" "labels (with_object d x) = labels d"
  "payload (as_object x) = payload x" "as_object (stored_as v del r x) = as_object x"
  by (simp_all add: as_object_def with_object_def stored_as_def)

definition account_write :: "platform \<Rightarrow> string \<times> string \<times> string gomap \<Rightarrow> live \<Rightarrow> (err + live) \<times> string list" where
  "account_write pf = (\<lambda>(cluster, name, ls). service_account_mutate pf cluster name ls)"

lemma account_again:
  assumes "owner_references pf f" and "account_write pf i x = (Inr y, report)" and "labels z = labels y"
    and "lv_owners z = lv_owners y"
  shows "fst (account_write pf i z) = Inr z"
proof -
  obtain cluster name ls where i: "i = (cluster, name, ls)" by (cases i)
  have set: "set_owner pf (x\<lparr>labels := identity_labels cluster ls\<rparr>) = Inr y"
    using assms(2) by (auto simp: i account_write_def service_account_mutate_def split: sum.splits if_splits)
  have "labels z = identity_labels cluster ls" using set_owner_payload [OF assms(1) set] assms(3) by simp
  then have same: "z\<lparr>labels := identity_labels cluster ls\<rparr> = z" by simp
  have "set_owner pf z = Inr z"
    using owner_referencesD(2) [OF assms(1) set] assms(4) by (intro owner_again [OF assms(1)]) simp
  then show ?thesis by (simp add: i account_write_def service_account_mutate_def same)
qed

interpretation account_settles: settling account_write "(=)" "\<lambda>_ _ _. True"
proof (unfold_locales, goal_cases)
  case (1 pf f i x y report)
  then show ?case
    by (cases i) (auto simp: account_write_def service_account_mutate_def dest: set_owner_payload split: sum.splits if_splits)
next
  case (2 pf f i i' x report)
  then show ?case by (auto intro: account_again)
next
  case (3 pf f i i' x y report v d r)
  then show ?case by (auto intro!: account_again)
next
  case (4 pf f i x y report)
  then show ?case
    by (cases i) (auto simp: account_write_def service_account_mutate_def dest: set_owner_payload split: sum.splits if_splits)
qed

interpretation role_settles: settling role_mutate "(=)" "\<lambda>_ i _. no_defaults_for (payload i)"
  by unfold_locales
    (auto simp: role_mutate_def owner_references_def split: sum.splits)

definition binding_write :: "platform \<Rightarrow> string \<times> role_ref \<times> object \<Rightarrow> live \<Rightarrow> (err + live) \<times> string list" where
  "binding_write pf = (\<lambda>(name, want, desired). binding_mutate pf name want desired)"


lemma binding_written:
  assumes "set_owner pf x = Inr x1" and "binding_mutate pf name want desired x = (Inr y, report)"
  shows "y = x1\<lparr>labels := labels desired, payload := RBACBinding want (binding_subjects desired)\<rparr>"
  using assms by (cases "binding_ref x1 = no_ref"; cases "binding_ref x1 = want") (simp_all add: binding_mutate_def)

lemma binding_again:
  assumes "owner_references pf f" and "binding_mutate pf name want desired x = (Inr y, report)"
    and "labels z = labels y" and "payload z = payload y" and "lv_owners z = lv_owners y"
  shows "fst (binding_mutate pf name want desired z) = Inr z"
proof -
  obtain x1 where x1: "set_owner pf x = Inr x1"
    using assms(2) by (cases "set_owner pf x") (simp_all add: binding_mutate_def)
  note y = binding_written [OF x1 assms(2)]
  have "set_owner pf z = Inr z"
    using owner_referencesD(2) [OF assms(1) x1] assms(5) y by (intro owner_again [OF assms(1)]) simp
  moreover have "z\<lparr>labels := labels desired, payload := RBACBinding want (binding_subjects desired)\<rparr> = z"
    using y assms(3,4) by simp
  moreover have "binding_ref z = want" using y assms(4) by (simp add: binding_ref_def)
  ultimately show ?thesis by (cases "want = no_ref") (simp_all add: binding_mutate_def)
qed

interpretation binding_settles: settling binding_write "(=)" "\<lambda>_ _ _. True"
proof (unfold_locales, goal_cases)
  case (1 pf f i x y report)
  obtain name want desired where i: "i = (name, want, desired)" by (cases i)
  with 1 obtain x1 where "set_owner pf x = Inr x1"
    by (cases "set_owner pf x") (simp_all add: binding_write_def binding_mutate_def)
  with 1 i binding_written [of pf x x1 name want desired y report] show ?case
    by (auto simp: binding_write_def dest: set_owner_payload)
next
  case (2 pf f i i' x report)
  then show ?case by (cases i) (auto simp: binding_write_def intro: binding_again)
next
  case (3 pf f i i' x y report v d r)
  then show ?case by (cases i) (auto simp: binding_write_def intro!: binding_again)
next
  case (4 pf f i x y report)
  obtain name want desired where i: "i = (name, want, desired)" by (cases i)
  with 4 obtain x1 where "set_owner pf x = Inr x1"
    by (cases "set_owner pf x") (simp_all add: binding_write_def binding_mutate_def)
  with 4 i binding_written [of pf x x1 name want desired y report] show ?case
    by (simp add: binding_write_def)
qed

section \<open>Two writes\<close>

definition stored_by :: "env \<Rightarrow> nat \<Rightarrow> live option \<Rightarrow> live \<Rightarrow> live" where
  "stored_by env n before new = (case before of None \<Rightarrow> created env n new | Some x \<Rightarrow> updated env n x new)"

lemma fmupd_same: "fmlookup m k = Some x \<Longrightarrow> fmupd k x m = m"
  by (rule fmap_ext) auto

lemma undisturbed_stores:
  assumes "undisturbed env" and "mutate (current_or obj k w) = (Inr y, report)"
    and "lv_version y = lv_version (current_or obj k w)"
  shows "\<exists>res w1 n. create_or_update g env k obj mutate w = (Inr res, report, w1) \<and>
    objs w1 = fmupd k (stored_by env n (fmlookup (objs w) k) y) (objs w) \<and> calls w1 \<le> calls w + 2 \<and>
    applied_events w1 = applied_events w \<and> (res = OpCreated \<longrightarrow> fmlookup (objs w) k = None)"
proof (cases "fmlookup (objs w) k")
  case None
  with assms show ?thesis
    by (auto simp: create_or_update_def client_get_def api_create_def request_def Let_def undisturbed_def
        found_def current_or_def IsNotFound_def stored_by_def)
next
  case (Some x)
  with assms show ?thesis
    by (cases "y = x") (auto simp: create_or_update_def client_get_def api_update_def request_def Let_def
        undisturbed_def found_def current_or_def stored_by_def fmupd_same)
qed

lemma undisturbed_read_version: "undisturbed env \<Longrightarrow> fmlookup (objs w) k = Some x \<Longrightarrow> read_version env k w = lv_version x"
  by (simp add: undisturbed_def read_version_def client_get_def request_def Let_def found_def)

lemma applyResource_run:
  assumes "CreateOrUpdate env k (fresh d) (apply_mutate pf d) w = (Inr res, ignored, w1)"
  shows "\<exists>w2. applyResource pf env k d w = (Inr (), w2) \<and> objs w2 = objs w1 \<and> calls w2 = calls w1 \<and>
    (applied_events w2 = applied_events w1 \<or> res = OpCreated \<or>
     res = OpUpdated \<and> returned_version k w1 \<noteq> read_version env k w)"
  using assms by (cases res) (simp_all add: applyResource_def Let_def emitWarning_def emitApplied_def)

lemma apply_mutate_writes:
  assumes "owner_references pf f" and "set_owner pf x = Inr x1"
    and "copyable (mount_range pf) (payload d) (payload x)"
  shows "\<exists>y ignored. apply_mutate pf d x = (Inr y, ignored) \<and> y = x1\<lparr>labels := labels d,
      annotations := fmadd (annotations x) (annotations d), payload := payload y\<rparr> \<and>
    payload_copied (mount_range pf) (payload d) (payload x) (payload y) ignored"
proof -
  note x1 = set_owner_payload [OF assms(1,2)]
  then have "copyable (mount_range pf) (payload d) (payload (as_object x1))" using assms(3) by simp
  from copyDesiredState_copyable [OF this, where conv = "converter pf"] obtain s ignored where
    "copyDesiredState (mount_range pf) (converter pf) d (as_object x1) = Inr (s, ignored)" "labels s = labels d"
    "annotations s = fmadd (annotations x) (annotations d)"
    "payload_copied (mount_range pf) (payload d) (payload x) (payload s) ignored"
    using x1 by (auto simp: as_object_def)
  then show ?thesis using assms(2) by (auto simp: apply_mutate_def with_object_def)
qed

text \<open>What a second apply asks for is what the server has stored.\<close>

lemma apply_again:
  assumes owner: "owner_references pf f" "f (lv_owners z) = Inr (lv_owners z)" and env: "server_fills env"
    and l: "copyable (mount_range pf) (payload d) l" "l = payload d \<or> filled_in env l"
    and p: "payload_copied (mount_range pf) (payload d) l p ignored"
    and z: "labels z = labels d" "annotations z = fmadd as (annotations d)" "payload z = admitted env n p"
  shows "\<exists>y report. apply_mutate pf d z = (Inr y, report) \<and> lv_version y = lv_version z \<and> updated env m z y = z"
proof -
  have set: "set_owner pf z = Inr z" using owner by (rule owner_again)
  note s = admitted_settles [OF env l p, of n, folded z(3)]
  obtain y report where y: "apply_mutate pf d z = (Inr y, report)"
      "y = z\<lparr>labels := labels d, annotations := fmadd (annotations z) (annotations d), payload := payload y\<rparr>"
      "payload_copied (mount_range pf) (payload d) (payload z) (payload y) report"
    using apply_mutate_writes [OF owner(1) set s [THEN conjunct1]] by (elim exE conjE)
  have ann: "fmadd (annotations z) (annotations d) = annotations z"
    unfolding z(2) by (rule fmadd_again)
  have "z\<lparr>labels := labels d, annotations := fmadd (annotations z) (annotations d), payload := q\<rparr> = z\<lparr>payload := q\<rparr>" for q
    unfolding ann z(1) [symmetric] by simp
  then have yz: "y = z\<lparr>payload := payload y\<rparr>" by (rule trans [OF y(2)])
  have "admitted env m (payload y) = payload z" using s y(3) by blast
  moreover have "y\<lparr>payload := payload z\<rparr> = z" by (subst yz) simp
  ultimately have "updated env m z y = z" by (simp add: updated_def Let_def)
  moreover have "lv_version y = lv_version z" by (subst yz) simp
  ultimately show ?thesis using y(1) by blast
qed

section \<open>Properties\<close>

definition undisturbing :: "world \<Rightarrow> world \<Rightarrow> bool" where
  "undisturbing w w' \<longleftrightarrow> objs w' = objs w \<and> applied_events w' = applied_events w \<and> calls w' \<le> calls w + 2"


section \<open>Witness\<close>

text \<open>A server that fills in the update strategy, the policy of the pods and the mode and phase of a claim.\<close>

definition fill_claim :: "pvc \<Rightarrow> pvc" where
  "fill_claim c = c\<lparr>pvc_volume_mode := Some (case pvc_volume_mode c of None \<Rightarrow> ''Filesystem'' | Some m \<Rightarrow> m),
     pvc_status := (if pvc_status c = [] then ''Pending'' else pvc_status c)\<rparr>"

definition fill_sts :: "sts_spec \<Rightarrow> sts_spec" where
  "fill_sts s = s\<lparr>sts_claims := map fill_claim (sts_claims s),
     sts_policy := (if sts_policy s = [] then ''OrderedReady'' else sts_policy s),
     sts_rest := (if sts_rest s = [] then ''RollingUpdate'' else sts_rest s)\<rparr>"

definition filling_env :: env where
  "filling_env = quiet_env\<lparr>server := no_defaults\<lparr>df_sts := fill_sts\<rparr>\<rparr>"

lemma fill_claim_again [simp]: "fill_claim (fill_claim c) = fill_claim c"
  by (cases c) (auto simp: fill_claim_def)

lemma fill_claim_requested: "claimTemplateAsRequested c (fill_claim c) = c"
  by (cases c) (auto simp: fill_claim_def claimTemplateAsRequested_def split: option.split)

lemma filling_sts: "fills_sts (stored_sts filling_env)"
proof -
  have stored: "stored_sts filling_env s = (fill_sts s)\<lparr>sts_replicas := default_replicas (sts_replicas s)\<rparr>" for s
    by (simp add: stored_sts_def filling_env_def no_defaults_def)
  have names: "pvc_name (fill_claim c) = pvc_name c" for c by (simp add: fill_claim_def)
  show ?thesis
    by (auto simp: fills_sts_def stored fill_sts_def fill_claim_requested list_all2_conv_all_nth comp_def names)
qed

lemma filling_service: "fills_service (df_service (server filling_env))"
proof -
  have "with_allocated s s = s" for s
  proof -
    have "map2 (\<lambda>p q. p\<lparr>node_port := node_port q\<rparr>) ps ps = ps" for ps :: "service_port list"
      by (induction ps) simp_all
    then show ?thesis by (simp add: with_allocated_def)
  qed
  then show ?thesis
    by (simp add: fills_service_def filling_env_def no_defaults_def same_port_def list_all2_same)
qed

lemma filling_fills: "server_fills filling_env"
  using filling_sts filling_service
  by (simp add: server_fills_def fills_job_def copyJobState_def) (simp add: filling_env_def no_defaults_def)

lemma filling_undisturbed: "undisturbed filling_env"
  by (simp add: undisturbed_def filling_env_def quiet_env_def)

text \<open>A StatefulSet over a stored one whose claims differ; it leaves the update strategy to the server.\<close>

definition sorted_platform :: platform where "sorted_platform = plain_platform\<lparr>mount_range := sorted_range\<rparr>"

definition scaled_up :: object where
  "scaled_up = \<lparr>labels = fmempty, annotations = fmempty, payload = StatefulSet (sample_sts 3 ''app=a'' [] [])\<rparr>"

definition running :: world where
  "running = leftover\<lparr>objs := fmupd (KStatefulSet, ''c-r-a'')
     ((empty_live (StatefulSet (fill_sts sample_live)))\<lparr>lv_version := 2\<rparr>) (objs leftover)\<rparr>"

lemma running_filled: "filled_in filling_env (StatefulSet (fill_sts sample_live))"
  by (simp add: filled_in_def admitted_def filling_env_def no_defaults_def fill_sts_def sample_live_def sample_sts_def
      default_replicas_def)


text \<open>The second apply does send an update, and the version stays.\<close>

lemma second_apply_updates:
  "let w1 = snd (applyResource sorted_platform filling_env (KStatefulSet, ''c-r-a'') scaled_up running);
       w2 = snd (applyResource sorted_platform filling_env (KStatefulSet, ''c-r-a'') scaled_up w1)
   in map_option lv_version (fmlookup (objs w1) (KStatefulSet, ''c-r-a'')) = Some 3 \<and>
      map_option lv_version (fmlookup (objs w2) (KStatefulSet, ''c-r-a'')) = Some 3 \<and>
      calls w2 = calls w1 + 2 \<and> length (applied_events w1) = 1 \<and> length (applied_events w2) = 1"
  by code_simp

end
