(* ===== verification/ProductConfig.thy ===== *)
theory ProductConfig
  imports Prelude Errors
begin

text \<open>
  The product's half of a config block: \<open>FoldProductConfig\<close> and \<open>ValidateProductConfigType\<close> of
  \<open>pkg/reconciler/config_fold.go\<close>, over the values package \<open>reflect\<close> shows. A reference value carries
  the address of what it points to, so that what two values share can be stated; a copy allocates from a
  counter of free addresses.
\<close>

section \<open>Reflected values\<close>

text \<open>The identity of a named type: the path of its package and the name it prints with.\<close>

record type_id =
  ty_package :: string
  ty_printed :: string

text \<open>
  \<open>NilV\<close> is a nil pointer, slice, map or interface; a float is its bits; the fields of a struct say whether they
  are exported. \<open>OpaqueV\<close> is a function, a channel or an unsafe pointer.
\<close>

datatype gval =
    BoolV bool
  | NumV int
  | FloatV nat
  | StringV string
  | NilV
  | PtrV nat gval
  | SliceV nat "gval list"
  | ArrayV "gval list"
  | MapV nat "(gval \<times> gval) list"
  | IfaceV gval
  | StructV type_id "(bool \<times> gval) list"
  | OpaqueV nat

text \<open>\<open>reflect.Value.IsZero\<close>.\<close>

fun IsZero :: "gval \<Rightarrow> bool" where
  "IsZero (BoolV b) = (\<not> b)"
| "IsZero (NumV n) = (n = 0)"
| "IsZero (FloatV bits) = (bits = 0)"
| "IsZero (StringV s) = (s = [])"
| "IsZero NilV = True"
| "IsZero (ArrayV vs) = list_all IsZero vs"
| "IsZero (StructV t fs) = list_all (\<lambda>(e, v). IsZero v) fs"
| "IsZero _ = False"

text \<open>
  \<open>deepCopyValue\<close>. The \<open>DeepCopy\<close> method a struct type has for its values, found by reflection, is a parameter.
\<close>

type_synonym copiers = "type_id \<Rightarrow> (gval \<Rightarrow> nat \<Rightarrow> gval \<times> nat) option"

fun deepCopyValue :: "copiers \<Rightarrow> gval \<Rightarrow> nat \<Rightarrow> gval \<times> nat"
  and deepCopyValues :: "copiers \<Rightarrow> gval list \<Rightarrow> nat \<Rightarrow> gval list \<times> nat"
  and deepCopyEntries :: "copiers \<Rightarrow> (gval \<times> gval) list \<Rightarrow> nat \<Rightarrow> (gval \<times> gval) list \<times> nat"
  and deepCopyFields :: "copiers \<Rightarrow> (bool \<times> gval) list \<Rightarrow> nat \<Rightarrow> (bool \<times> gval) list \<times> nat" where
  "deepCopyValue c (PtrV a v) n = (case deepCopyValue c v (Suc n) of (w, m) \<Rightarrow> (PtrV n w, m))"
| "deepCopyValue c (SliceV a vs) n = (case deepCopyValues c vs (Suc n) of (ws, m) \<Rightarrow> (SliceV n ws, m))"
| "deepCopyValue c (ArrayV vs) n = (case deepCopyValues c vs n of (ws, m) \<Rightarrow> (ArrayV ws, m))"
| "deepCopyValue c (MapV a es) n = (case deepCopyEntries c es (Suc n) of (fs, m) \<Rightarrow> (MapV n fs, m))"
| "deepCopyValue c (IfaceV v) n = (case deepCopyValue c v n of (w, m) \<Rightarrow> (IfaceV w, m))"
| "deepCopyValue c (StructV t fs) n =
     (case c t of
        Some copy \<Rightarrow> copy (StructV t fs) n
      | None \<Rightarrow> (case deepCopyFields c fs n of (gs, m) \<Rightarrow> (StructV t gs, m)))"
| "deepCopyValue c (BoolV b) n = (BoolV b, n)"
| "deepCopyValue c (NumV i) n = (NumV i, n)"
| "deepCopyValue c (FloatV bits) n = (FloatV bits, n)"
| "deepCopyValue c (StringV s) n = (StringV s, n)"
| "deepCopyValue c NilV n = (NilV, n)"
| "deepCopyValue c (OpaqueV a) n = (OpaqueV a, n)"
| "deepCopyValues c [] n = ([], n)"
| "deepCopyValues c (v # vs) n =
     (case deepCopyValue c v n of (w, m) \<Rightarrow> case deepCopyValues c vs m of (ws, k) \<Rightarrow> (w # ws, k))"
| "deepCopyEntries c [] n = ([], n)"
| "deepCopyEntries c ((key, v) # es) n =
     (case deepCopyValue c v n of (w, m) \<Rightarrow> case deepCopyEntries c es m of (fs, k) \<Rightarrow> ((key, w) # fs, k))"
| "deepCopyFields c [] n = ([], n)"
| "deepCopyFields c ((exported, v) # fs) n =
     (case (if exported then deepCopyValue c v n else (v, n)) of (w, m) \<Rightarrow>
        case deepCopyFields c fs m of (gs, k) \<Rightarrow> ((exported, w) # gs, k))"

section \<open>Types\<close>

text \<open>
  A basic kind is one of the bare scalars; \<open>TOther\<close> is a kind the validation does not name. Two struct types
  are the same when their identities are; what a message shows is the printed name alone.
\<close>

datatype gtype =
    TBasic string
  | TRefused string
  | TStruct type_id
  | TPtr gtype
  | TSlice gtype
  | TArray nat gtype
  | TMap gtype gtype
  | TOther string

record struct_field =
  sf_name :: string
  sf_anonymous :: bool
  sf_exported :: bool
  sf_type :: gtype
  sf_tag :: string
  sf_zero :: gval

datatype product_type = NotStruct string | StructType string "struct_field list"

definition commons_package :: string where
  "commons_package = ''github.com/zncdatadev/operator-go/pkg/apis/commons/v1alpha1''"

definition commonConfigType :: gtype where
  "commonConfigType = TPtr (TStruct \<lparr>ty_package = commons_package, ty_printed = ''v1alpha1.RoleGroupConfigSpec''\<rparr>)"

definition ConfigFoldTag :: string where "ConfigFoldTag = ''kubedoop''"

definition ConfigFoldAtomic :: string where "ConfigFoldAtomic = ''atomic''"

definition isEmbeddedCommonConfig :: "struct_field \<Rightarrow> bool" where
  "isEmbeddedCommonConfig f \<longleftrightarrow> sf_anonymous f \<and> sf_type f = commonConfigType"

definition resource_package :: string where "resource_package = ''k8s.io/apimachinery/pkg/api/resource''"
definition meta_package :: string where "meta_package = ''k8s.io/apimachinery/pkg/apis/meta/v1''"
definition runtime_package :: string where "runtime_package = ''k8s.io/apimachinery/pkg/runtime''"

definition opaqueLeafTypes :: "type_id list" where
  "opaqueLeafTypes =
     [\<lparr>ty_package = resource_package, ty_printed = ''resource.Quantity''\<rparr>,
      \<lparr>ty_package = meta_package, ty_printed = ''v1.Duration''\<rparr>,
      \<lparr>ty_package = meta_package, ty_printed = ''v1.Time''\<rparr>,
      \<lparr>ty_package = meta_package, ty_printed = ''v1.MicroTime''\<rparr>,
      \<lparr>ty_package = runtime_package, ty_printed = ''runtime.RawExtension''\<rparr>]"

definition hasAtomicTag :: "struct_field \<Rightarrow> bool" where
  "hasAtomicTag f \<longleftrightarrow> sf_tag f = ConfigFoldAtomic"

datatype problem =
    Unexported string
  | RefusedKind string string
  | BareScalar string string
  | BareLeaf string string
  | Composite string string

text \<open>The problem of one field; the order of the checks is that of the loop.\<close>

definition field_problem :: "struct_field \<Rightarrow> problem option" where
  "field_problem f =
     (if isEmbeddedCommonConfig f then None
      else if \<not> sf_exported f then Some (Unexported (sf_name f))
      else (case sf_type f of
          TRefused kind \<Rightarrow> Some (RefusedKind (sf_name f) kind)
        | TBasic t \<Rightarrow> Some (BareScalar (sf_name f) t)
        | TStruct t \<Rightarrow>
            (if t \<in> set opaqueLeafTypes then Some (BareLeaf (sf_name f) (ty_printed t))
             else if \<not> hasAtomicTag f then Some (Composite (sf_name f) (ty_printed t)) else None)
        | TPtr (TStruct t) \<Rightarrow>
            (if t \<in> set opaqueLeafTypes then None
             else if \<not> hasAtomicTag f then Some (Composite (sf_name f) (CHR ''*'' # ty_printed t)) else None)
        | _ \<Rightarrow> None))"

definition problem_text :: "problem \<Rightarrow> string" where
  "problem_text p = (case p of
       Unexported f \<Rightarrow> ''field '' @ f @ '' is unexported: the fold cannot read it and the API server never sees it''
     | RefusedKind f k \<Rightarrow> ''field '' @ f @ '' has kind '' @ k @ '': no honest zero test and no safe copy''
     | BareScalar f t \<Rightarrow> ''field '' @ f @ '' is a bare '' @ t @ '': the fold cannot tell a stated zero from an absent value, make it *'' @ t
     | BareLeaf f t \<Rightarrow> ''field '' @ f @ '' is a bare '' @ t @ '': it has a statable zero, make it *'' @ t
     | Composite f t \<Rightarrow> ''field '' @ f @ '' is a composite ('' @ t @ ''): the fold would replace it wholesale and drop the sibling fields a user did not restate. Flatten it into scalar pointers, or tag it '' @
         CHR 0x60 # ConfigFoldTag @ CHR '':'' # CHR 0x22 # ConfigFoldAtomic @ [CHR 0x22, CHR 0x60] @ '' to accept wholesale replacement'')"

definition ValidateProductConfigType :: "product_type \<Rightarrow> err option" where
  "ValidateProductConfigType t =
     (case t of
        NotStruct name \<Rightarrow> Some (PlainError (''product config type '' @ name @ '' must be a struct''))
      | StructType name fs \<Rightarrow>
          (let problems = List.map_filter field_problem fs
           in if length problems > 0
              then Some (PlainError (''product config type '' @ name @ '' cannot be folded:'' @
                     concat (map (\<lambda>p. CHR 0x0A # ''  - '' @ problem_text p) problems)))
              else None))"

section \<open>The fold\<close>

text \<open>Field \<open>i\<close> of the highest layer that states it; the layers come lowest first.\<close>

definition stated_field :: "gval list list \<Rightarrow> nat \<Rightarrow> gval option" where
  "stated_field given i = find (\<lambda>v. \<not> IsZero v) (map (\<lambda>l. l ! i) (rev given))"

fun fold_fields :: "copiers \<Rightarrow> gval list list \<Rightarrow> nat \<Rightarrow> struct_field list \<Rightarrow> nat \<Rightarrow> gval list \<times> nat" where
  "fold_fields c given i [] n = ([], n)"
| "fold_fields c given i (f # fs) n =
     (case (if \<not> sf_exported f \<or> isEmbeddedCommonConfig f then (sf_zero f, n)
            else (case stated_field given i of None \<Rightarrow> (sf_zero f, n) | Some v \<Rightarrow> deepCopyValue c v n)) of
        (w, m) \<Rightarrow> (case fold_fields c given (Suc i) fs m of (ws, k) \<Rightarrow> (w # ws, k)))"

definition type_fields :: "product_type \<Rightarrow> struct_field list" where
  "type_fields t = (case t of NotStruct _ \<Rightarrow> [] | StructType _ fs \<Rightarrow> fs)"

definition FoldProductConfig ::
    "copiers \<Rightarrow> product_type \<Rightarrow> gval list option list \<Rightarrow> nat \<Rightarrow> err + gval list \<times> nat" where
  "FoldProductConfig c t layers n =
     (case ValidateProductConfigType t of
        Some e \<Rightarrow> Inl e
      | None \<Rightarrow> Inr (fold_fields c (List.map_filter id layers) 0 (type_fields t) n))"


section \<open>Copies share nothing\<close>

text \<open>Two values with the same contents differ in their addresses only.\<close>

fun readdress :: "nat \<Rightarrow> gval \<Rightarrow> gval" where
  "readdress a (PtrV b v) = PtrV a (readdress a v)"
| "readdress a (SliceV b vs) = SliceV a (map (readdress a) vs)"
| "readdress a (ArrayV vs) = ArrayV (map (readdress a) vs)"
| "readdress a (MapV b es) = MapV a (map (\<lambda>(k, v). (readdress a k, readdress a v)) es)"
| "readdress a (IfaceV v) = IfaceV (readdress a v)"
| "readdress a (StructV t fs) = StructV t (map (\<lambda>(e, v). (e, readdress a v)) fs)"
| "readdress a (OpaqueV b) = OpaqueV a"
| "readdress a v = v"

definition same_contents :: "gval \<Rightarrow> gval \<Rightarrow> bool" where
  "same_contents v w \<longleftrightarrow> readdress 0 v = readdress 0 w"

fun addresses :: "gval \<Rightarrow> nat set" where
  "addresses (PtrV a v) = insert a (addresses v)"
| "addresses (SliceV a vs) = insert a (\<Union> (addresses ` set vs))"
| "addresses (ArrayV vs) = \<Union> (addresses ` set vs)"
| "addresses (MapV a es) = insert a (\<Union> ((\<lambda>(k, v). addresses k \<union> addresses v) ` set es))"
| "addresses (IfaceV v) = addresses v"
| "addresses (StructV t fs) = \<Union> ((\<lambda>(e, v). addresses v) ` set fs)"
| "addresses (OpaqueV a) = {a}"
| "addresses _ = {}"

text \<open>What a \<open>DeepCopy\<close> method promises.\<close>

definition proper_copiers :: "copiers \<Rightarrow> bool" where
  "proper_copiers c \<longleftrightarrow> (\<forall>t copy v n w m. c t = Some copy \<longrightarrow> copy v n = (w, m) \<longrightarrow>
     same_contents w v \<and> n \<le> m \<and> addresses w \<subseteq> {n..<m})"

text \<open>
  Reflection copies what it can reach. What hides from it, and stays as it was: what an unexported field refers
  to in a struct without a method of its own, a key of a map, and an opaque value.
\<close>

fun hidden :: "copiers \<Rightarrow> gval \<Rightarrow> nat set" where
  "hidden c (PtrV a v) = hidden c v"
| "hidden c (SliceV a vs) = \<Union> (hidden c ` set vs)"
| "hidden c (ArrayV vs) = \<Union> (hidden c ` set vs)"
| "hidden c (MapV a es) = \<Union> ((\<lambda>(k, v). addresses k \<union> hidden c v) ` set es)"
| "hidden c (IfaceV v) = hidden c v"
| "hidden c (StructV t fs) =
     (if c t = None then \<Union> ((\<lambda>(e, v). if e then hidden c v else addresses v) ` set fs) else {})"
| "hidden c (OpaqueV a) = {a}"
| "hidden c _ = {}"

text \<open>The addresses of a copy: what hides in the original, and new ones.\<close>

definition copied :: "nat \<Rightarrow> nat \<Rightarrow> nat set \<Rightarrow> nat set \<Rightarrow> bool" where
  "copied n m H A \<longleftrightarrow> n \<le> m \<and> H \<subseteq> A \<and> A \<subseteq> {n..<m} \<union> H"

lemma copied_same [simp]: "copied n n A A"
  by (simp add: copied_def)

lemma copied_Un: "copied n m H A \<Longrightarrow> copied m k J B \<Longrightarrow> copied n k (H \<union> J) (A \<union> B)"
  by (auto simp: copied_def)

lemma copied_insert: "copied (Suc n) m H A \<Longrightarrow> copied n m H (insert n A)"
  by (auto simp: copied_def)

lemma copied_key: "copied n m H A \<Longrightarrow> copied n m (K \<union> H) (K \<union> A)"
  by (auto simp: copied_def)

lemma copied_old: "copied n m H A \<Longrightarrow> H \<subseteq> {..<n} \<Longrightarrow> A \<inter> {..<n} = H"
  by (auto simp: copied_def)

lemma copied_mono: "copied n m H A \<Longrightarrow> k \<le> n \<Longrightarrow> m \<le> l \<Longrightarrow> copied k l H A"
  by (auto simp: copied_def)

lemma readdress_copy:
  assumes "proper_copiers c" and "c t = Some copy" and "copy v n = (w, m)"
  shows "readdress 0 w = readdress 0 v \<and> copied n m {} (addresses w)"
  using assms by (auto simp: proper_copiers_def same_contents_def copied_def)

lemma deepCopy_copied:
  "proper_copiers c \<Longrightarrow> deepCopyValue c v n = (w, m) \<Longrightarrow>
     readdress 0 w = readdress 0 v \<and> copied n m (hidden c v) (addresses w)"
  "proper_copiers c \<Longrightarrow> deepCopyValues c vs n = (ws, m) \<Longrightarrow>
     map (readdress 0) ws = map (readdress 0) vs \<and>
     copied n m (\<Union> (hidden c ` set vs)) (\<Union> (addresses ` set ws))"
  "proper_copiers c \<Longrightarrow> deepCopyEntries c es n = (es', m) \<Longrightarrow>
     map (\<lambda>(k, v). (readdress 0 k, readdress 0 v)) es' = map (\<lambda>(k, v). (readdress 0 k, readdress 0 v)) es \<and>
     copied n m (\<Union> ((\<lambda>(k, v). addresses k \<union> hidden c v) ` set es))
       (\<Union> ((\<lambda>(k, v). addresses k \<union> addresses v) ` set es'))"
  "proper_copiers c \<Longrightarrow> deepCopyFields c fs n = (fs', m) \<Longrightarrow>
     map (\<lambda>(e, v). (e, readdress 0 v)) fs' = map (\<lambda>(e, v). (e, readdress 0 v)) fs \<and>
     copied n m (\<Union> ((\<lambda>(e, v). if e then hidden c v else addresses v) ` set fs))
       (\<Union> ((\<lambda>(e, v). addresses v) ` set fs'))"
proof (induction c v n and c vs n and c es n and c fs n arbitrary: w m and ws m and es' m and fs' m
    rule: deepCopyValue_deepCopyValues_deepCopyEntries_deepCopyFields.induct)
  case (6 c t fs n)
  then show ?case by (cases "c t") (auto dest: readdress_copy split: prod.splits)
qed (fastforce intro: copied_Un copied_insert copied_key split: prod.splits if_splits)+

lemma hidden_addresses: "hidden c v \<subseteq> addresses v"
  by (induction c v rule: hidden.induct) (fastforce split: if_splits)+

lemma zero_addresses: "IsZero v \<Longrightarrow> addresses v = {}"
  by (induction v rule: IsZero.induct) (auto simp: list_all_iff split: prod.splits)

text \<open>A struct without a method of its own whose unexported field is a reference keeps sharing it.\<close>

lemma deepCopy_shares_unexported:
  "deepCopyValue (\<lambda>_. None) (StructV t [(False, PtrV 3 v)]) n = (StructV t [(False, PtrV 3 v)], n)"
  by simp

section \<open>The fold, field by field\<close>

definition field_default :: "gval option \<Rightarrow> struct_field \<Rightarrow> gval" where
  "field_default v f = (case v of None \<Rightarrow> sf_zero f | Some w \<Rightarrow> w)"

text \<open>The embedded half is left zero; any other field has the contents of a value.\<close>

definition field_result :: "struct_field \<Rightarrow> gval \<Rightarrow> gval \<Rightarrow> bool" where
  "field_result f v w \<longleftrightarrow> (if isEmbeddedCommonConfig f then v = sf_zero f else same_contents v w)"

text \<open>What a field of the result may share with what was there before the fold.\<close>

definition field_hidden :: "copiers \<Rightarrow> struct_field \<Rightarrow> gval \<Rightarrow> nat set" where
  "field_hidden c f v = (if isEmbeddedCommonConfig f then {} else hidden c v)"

definition field_copied :: "copiers \<Rightarrow> nat \<Rightarrow> nat \<Rightarrow> struct_field \<Rightarrow> gval \<Rightarrow> gval \<Rightarrow> bool" where
  "field_copied c n m f w v \<longleftrightarrow> field_result f w v \<and> copied n m (field_hidden c f v) (addresses w)"

lemma fold_fields_correct:
  assumes "proper_copiers c"
  shows "fold_fields c given i fs n = (out, m) \<Longrightarrow> \<forall>f \<in> set fs. IsZero (sf_zero f) \<Longrightarrow>
    \<forall>f \<in> set fs. isEmbeddedCommonConfig f \<or> sf_exported f \<Longrightarrow>
    length out = length fs \<and> n \<le> m \<and>
    (\<forall>j < length fs. field_copied c n m (fs ! j) (out ! j) (field_default (stated_field given (i + j)) (fs ! j)))"
proof (induction fs arbitrary: i n out m)
  case Nil
  then show ?case by simp
next
  case (Cons f fs)
  obtain w k where w: "(if \<not> sf_exported f \<or> isEmbeddedCommonConfig f then (sf_zero f, n)
      else (case stated_field given i of None \<Rightarrow> (sf_zero f, n) | Some v \<Rightarrow> deepCopyValue c v n)) = (w, k)" by fastforce
  obtain ws where ws: "fold_fields c given (Suc i) fs k = (ws, m)" and out: "out = w # ws"
    using Cons.prems(1) w by (auto split: prod.splits)
  have z: "addresses (sf_zero f) = {}" "hidden c (sf_zero f) = {}"
    using Cons.prems(2) zero_addresses [of "sf_zero f"] hidden_addresses [of c "sf_zero f"] by simp_all
  have head: "n \<le> k \<and> field_copied c n k f w (field_default (stated_field given i) f)"
    using w z Cons.prems(3) deepCopy_copied(1) [OF assms]
    by (auto simp: same_contents_def field_default_def field_result_def field_copied_def field_hidden_def
        split: if_splits option.splits) (auto simp: copied_def)
  have tail: "length ws = length fs \<and> k \<le> m \<and>
      (\<forall>j < length fs. field_copied c k m (fs ! j) (ws ! j) (field_default (stated_field given (Suc i + j)) (fs ! j)))"
    by (intro Cons.IH [OF ws]) (use Cons.prems(2,3) in simp_all)
  have "field_copied c n m ((f # fs) ! j) (out ! j) (field_default (stated_field given (i + j)) ((f # fs) ! j))"
    if "j < length (f # fs)" for j
    using that head tail out by (cases j) (auto simp: field_copied_def intro: copied_mono)
  then show ?case using head tail out by simp
qed

section \<open>The rule\<close>

text \<open>
  The reference: fields of a nilable kind are stated when they are not nil, the others when they are not zero,
  and each layer replaces what the layers below it state.
\<close>

fun nilable :: "gtype \<Rightarrow> bool" where
  "nilable (TPtr t) = True"
| "nilable (TSlice t) = True"
| "nilable (TMap k t) = True"
| "nilable _ = False"

fun has_kind :: "gtype \<Rightarrow> gval \<Rightarrow> bool" where
  "has_kind (TPtr t) v = (case v of NilV \<Rightarrow> True | PtrV a w \<Rightarrow> True | _ \<Rightarrow> False)"
| "has_kind (TSlice t) v = (case v of NilV \<Rightarrow> True | SliceV a ws \<Rightarrow> True | _ \<Rightarrow> False)"
| "has_kind (TMap k t) v = (case v of NilV \<Rightarrow> True | MapV a es \<Rightarrow> True | _ \<Rightarrow> False)"
| "has_kind _ v = True"

definition states :: "struct_field \<Rightarrow> gval \<Rightarrow> bool" where
  "states f v = (if nilable (sf_type f) then v \<noteq> NilV else \<not> IsZero v)"

definition effective :: "struct_field \<Rightarrow> gval list \<Rightarrow> gval" where
  "effective f vs = fold (\<lambda>v acc. if states f v then v else acc) vs (sf_zero f)"

text \<open>A layer is a value of the type: one value per field, of the kind of the field.\<close>

definition layer_of :: "product_type \<Rightarrow> gval list \<Rightarrow> bool" where
  "layer_of t l \<longleftrightarrow> list_all2 (\<lambda>f v. has_kind (sf_type f) v) (type_fields t) l"

definition zeroed :: "product_type \<Rightarrow> bool" where
  "zeroed t \<longleftrightarrow> list_all (\<lambda>f. IsZero (sf_zero f)) (type_fields t)"

lemma fold_last: "fold (\<lambda>v acc. if P v then v else acc) vs z = (case find P (rev vs) of None \<Rightarrow> z | Some v \<Rightarrow> v)"
  by (induction vs rule: rev_induct) auto

lemma states_IsZero: "has_kind (sf_type f) v \<Longrightarrow> states f v \<longleftrightarrow> \<not> IsZero v"
  by (cases "sf_type f"; cases v) (auto simp: states_def)

lemma find_same: "(\<And>x. x \<in> set xs \<Longrightarrow> P x = Q x) \<Longrightarrow> find P xs = find Q xs"
  by (induction xs) auto

lemma effective_stated:
  assumes "\<forall>l \<in> set given. has_kind (sf_type f) (l ! i)"
  shows "effective f (map (\<lambda>l. l ! i) given) = field_default (stated_field given i) f"
proof -
  have "find (states f) (rev (map (\<lambda>l. l ! i) given)) = find (\<lambda>v. \<not> IsZero v) (rev (map (\<lambda>l. l ! i) given))"
    using assms by (intro find_same) (auto simp: states_IsZero)
  then show ?thesis
    unfolding effective_def fold_last stated_field_def field_default_def by (simp add: rev_map)
qed

lemma validated_field:
  "ValidateProductConfigType t = None \<Longrightarrow> f \<in> set (type_fields t) \<Longrightarrow> field_problem f = None"
proof -
  assume "ValidateProductConfigType t = None" and f: "f \<in> set (type_fields t)"
  then have "List.map_filter field_problem (type_fields t) = []"
    by (auto simp: ValidateProductConfigType_def type_fields_def Let_def split: product_type.splits if_splits)
  with f show ?thesis using in_map_filter [of _ field_problem "type_fields t"] by (cases "field_problem f") auto
qed

lemma validated_exported:
  "ValidateProductConfigType t = None \<Longrightarrow> f \<in> set (type_fields t) \<Longrightarrow> isEmbeddedCommonConfig f \<or> sf_exported f"
  by (drule (1) validated_field) (auto simp: field_problem_def split: if_splits)

text \<open>A field for which nil is the one value that states nothing, and the kinds accepted besides.\<close>

definition accepted_kind :: "struct_field \<Rightarrow> bool" where
  "accepted_kind f \<longleftrightarrow> nilable (sf_type f) \<or> ((\<exists>s. sf_type f = TStruct s) \<and> hasAtomicTag f) \<or>
     (\<exists>n e. sf_type f = TArray n e) \<or> (\<exists>k. sf_type f = TOther k)"

lemma validated_kind:
  "ValidateProductConfigType t = None \<Longrightarrow> f \<in> set (type_fields t) \<Longrightarrow> accepted_kind f"
  by (drule (1) validated_field, cases "sf_type f")
    (auto simp: accepted_kind_def field_problem_def isEmbeddedCommonConfig_def commonConfigType_def split: if_splits)

text \<open>The values the layers that are there give field \<open>i\<close>, lowest first.\<close>

definition given_at :: "gval list option list \<Rightarrow> nat \<Rightarrow> gval list" where
  "given_at layers i = map (\<lambda>l. l ! i) (List.map_filter id layers)"

lemma FoldProductConfig_fields:
  assumes "ValidateProductConfigType t = None" and "zeroed t" and "proper_copiers c"
    and "\<forall>l. Some l \<in> set layers \<longrightarrow> layer_of t l"
  shows "\<exists>out m. FoldProductConfig c t layers n = Inr (out, m) \<and> length out = length (type_fields t) \<and>
    (\<forall>i < length (type_fields t). field_copied c n m (type_fields t ! i) (out ! i)
       (effective (type_fields t ! i) (given_at layers i)))"
proof -
  let ?given = "List.map_filter id layers"
  obtain out m where run: "fold_fields c ?given 0 (type_fields t) n = (out, m)" by fastforce
  have "\<forall>l \<in> set ?given. layer_of t l"
    using assms(4) by (auto simp: in_map_filter)
  then have l: "has_kind (sf_type (type_fields t ! i)) (l ! i)"
    if "l \<in> set ?given" "i < length (type_fields t)" for l i
    using that by (auto simp: layer_of_def list_all2_conv_all_nth)
  have "length out = length (type_fields t) \<and> n \<le> m \<and>
    (\<forall>i < length (type_fields t). field_copied c n m (type_fields t ! i) (out ! i)
      (field_default (stated_field ?given (0 + i)) (type_fields t ! i)))"
    using assms(2) validated_exported [OF assms(1)]
    by (intro fold_fields_correct [OF assms(3) run]) (auto simp: zeroed_def list_all_iff)
  moreover have "effective (type_fields t ! i) (given_at layers i) = field_default (stated_field ?given (0 + i)) (type_fields t ! i)"
    if "i < length (type_fields t)" for i
    using effective_stated [of ?given "type_fields t ! i" i] l that by (simp add: given_at_def)
  ultimately show ?thesis using assms(1) run by (simp add: FoldProductConfig_def)
qed

text \<open>The effective value is the zero value or the one some layer gives.\<close>

lemma effective_given: "effective f vs = sf_zero f \<or> effective f vs \<in> set vs"
  by (induction vs rule: rev_induct) (auto simp: effective_def)

lemma hidden_old:
  assumes "zeroed t" and "\<forall>l. Some l \<in> set layers \<longrightarrow> layer_of t l"
    and "\<forall>l. Some l \<in> set layers \<longrightarrow> \<Union> (addresses ` set l) \<subseteq> {..<n}" and i: "i < length (type_fields t)"
  shows "field_hidden c (type_fields t ! i) (effective (type_fields t ! i) (given_at layers i)) \<subseteq> {..<n}"
proof -
  let ?v = "effective (type_fields t ! i) (given_at layers i)"
  have zero: "addresses (sf_zero (type_fields t ! i)) = {}"
    using assms(1) i by (intro zero_addresses) (auto simp: zeroed_def list_all_iff)
  have "addresses ?v \<subseteq> {..<n}"
  proof (cases "?v \<in> set (given_at layers i)")
    case True
    then obtain l where l: "Some l \<in> set layers" "?v = l ! i" by (auto simp: given_at_def in_map_filter)
    with assms(2) i have "l ! i \<in> set l" by (auto simp: layer_of_def list_all2_conv_all_nth)
    with assms(3) l show ?thesis by auto
  next
    case False
    with effective_given [of "type_fields t ! i" "given_at layers i"] zero show ?thesis by auto
  qed
  then show ?thesis using hidden_addresses [of c ?v] by (auto simp: field_hidden_def)
qed

section \<open>Properties\<close>

text \<open>
  C31. Presence wins: for every type the validation accepts, and whatever the layers hold, the fold returns, and
  each product field has the contents the layers give it one after the other, a layer taking a field over when
  it states it; the embedded framework half is left zero. What states a field: in a field of a nilable kind a
  value that is not nil, so that a stated zero counts; in the others a value that is not the zero value, so that
  a zero counts as nothing stated. Every accepted field is of a nilable kind, but for arrays, kinds the
  validation does not name, and bare structs that are tagged atomic.
\<close>

theorem FoldProductConfig_precedence:
  assumes "ValidateProductConfigType t = None" and "zeroed t" and "proper_copiers c"
    and "\<forall>l. Some l \<in> set layers \<longrightarrow> layer_of t l"
  shows "\<exists>out m. FoldProductConfig c t layers n = Inr (out, m) \<and> length out = length (type_fields t) \<and>
    (\<forall>i < length (type_fields t).
       field_result (type_fields t ! i) (out ! i) (effective (type_fields t ! i) (given_at layers i)) \<and>
       accepted_kind (type_fields t ! i))"
proof -
  have "accepted_kind (type_fields t ! i)" if "i < length (type_fields t)" for i
    using that by (intro validated_kind [OF assms(1)] nth_mem)
  with FoldProductConfig_fields [OF assms, of n] show ?thesis by (auto simp: field_copied_def)
qed

text \<open>
  C32. What the result of a fold shares with memory that was there before, the layers and with them the custom
  resource in the cache: field by field exactly what hides from reflection in the value that wins, that is what
  an unexported field refers to in a struct without a \<open>DeepCopy\<close> of its own, what a map key refers to, and
  opaque values. Where nothing hides, every address is one the fold allocated, so that writing through the
  resolved value cannot reach a layer.
\<close>

theorem FoldProductConfig_fresh:
  assumes "ValidateProductConfigType t = None" and "zeroed t" and "proper_copiers c"
    and "\<forall>l. Some l \<in> set layers \<longrightarrow> layer_of t l"
    and "\<forall>l. Some l \<in> set layers \<longrightarrow> \<Union> (addresses ` set l) \<subseteq> {..<n}"
    and "FoldProductConfig c t layers n = Inr (out, m)" and "i < length (type_fields t)"
  shows "addresses (out ! i) \<inter> {..<n} =
      field_hidden c (type_fields t ! i) (effective (type_fields t ! i) (given_at layers i)) \<and>
    (\<forall>l. Some l \<in> set layers \<longrightarrow> addresses (out ! i) \<inter> \<Union> (addresses ` set l) \<subseteq>
      field_hidden c (type_fields t ! i) (effective (type_fields t ! i) (given_at layers i)))"
proof -
  have "copied n m (field_hidden c (type_fields t ! i) (effective (type_fields t ! i) (given_at layers i)))
      (addresses (out ! i))"
    using FoldProductConfig_fields [OF assms(1-4), of n] assms(6,7) by (auto simp: field_copied_def)
  from copied_old [OF this hidden_old [OF assms(2,4,5,7)]] assms(5) show ?thesis by blast
qed

section \<open>Witnesses\<close>

definition env_var_type :: type_id where
  "env_var_type = \<lparr>ty_package = ''k8s.io/api/core/v1'', ty_printed = ''v1.EnvVar''\<rparr>"

definition meta_time_type :: type_id where
  "meta_time_type = \<lparr>ty_package = meta_package, ty_printed = ''v1.Time''\<rparr>"

definition go_time_type :: type_id where
  "go_time_type = \<lparr>ty_package = ''time'', ty_printed = ''time.Time''\<rparr>"

definition zk_config :: product_type where
  "zk_config = StructType ''v1alpha1.ConfigSpec''
     [\<lparr>sf_name = ''RoleGroupConfigSpec'', sf_anonymous = True, sf_exported = True, sf_type = commonConfigType,
        sf_tag = [], sf_zero = NilV\<rparr>,
      \<lparr>sf_name = ''TickTime'', sf_anonymous = False, sf_exported = True, sf_type = TPtr (TBasic ''int32''),
        sf_tag = [], sf_zero = NilV\<rparr>,
      \<lparr>sf_name = ''Env'', sf_anonymous = False, sf_exported = True, sf_type = TSlice (TStruct env_var_type),
        sf_tag = [], sf_zero = NilV\<rparr>,
      \<lparr>sf_name = ''Since'', sf_anonymous = False, sf_exported = True, sf_type = TPtr (TStruct meta_time_type),
        sf_tag = [], sf_zero = NilV\<rparr>]"

text \<open>A time keeps the pointer to its location in an unexported field.\<close>

definition zk_layers :: "gval list option list" where
  "zk_layers =
     [Some [NilV, PtrV 1 (NumV 2000), SliceV 2 [StructV env_var_type [(True, StringV ''A''), (True, PtrV 3 (StringV ''b''))]],
       PtrV 6 (StructV meta_time_type [(True, StructV go_time_type
         [(False, NumV 5), (False, NumV 7), (False, PtrV 7 (StringV ''UTC''))])])],
      None,
      Some [PtrV 4 (BoolV True), PtrV 5 (NumV 0), NilV, NilV]]"

text \<open>The one method found on values: that of a quantity.\<close>

definition quantity_copier :: copiers where
  "quantity_copier t = (if t = \<lparr>ty_package = resource_package, ty_printed = ''resource.Quantity''\<rparr> then Some (\<lambda>v n. (readdress n v, Suc n)) else None)"

lemma readdress_readdress [simp]: "readdress a (readdress b v) = readdress a v"
  by (induction b v rule: readdress.induct) auto

lemma readdress_addresses: "addresses (readdress a v) \<subseteq> {a}"
  by (induction a v rule: readdress.induct) fastforce+

lemma quantity_copier_proper: "proper_copiers quantity_copier"
  using readdress_addresses by (auto simp: proper_copiers_def quantity_copier_def same_contents_def split: if_splits)

lemma zk_valid: "ValidateProductConfigType zk_config = None" and zk_zeroed: "zeroed zk_config"
  by code_simp+

lemma zk_layers_formed:
  "\<forall>l. Some l \<in> set zk_layers \<longrightarrow> layer_of zk_config l"
  by (auto simp: zk_layers_def layer_of_def zk_config_def type_fields_def commonConfigType_def)

theorem FoldProductConfig_precedence_witness:
  "\<exists>out m. FoldProductConfig quantity_copier zk_config zk_layers 10 = Inr (out, m) \<and> same_contents (out ! 1) (PtrV 5 (NumV 0))"
proof -
  obtain out m where out: "FoldProductConfig quantity_copier zk_config zk_layers 10 = Inr (out, m)"
    and f: "\<forall>i < length (type_fields zk_config). field_result (type_fields zk_config ! i) (out ! i)
         (effective (type_fields zk_config ! i) (given_at zk_layers i))"
    using FoldProductConfig_precedence [OF zk_valid zk_zeroed quantity_copier_proper zk_layers_formed, of 10] by blast
  have "effective (type_fields zk_config ! 1) (given_at zk_layers 1) = PtrV 5 (NumV 0)"
    by code_simp
  with f [rule_format, of 1] out show ?thesis
    by (simp add: field_result_def zk_config_def type_fields_def isEmbeddedCommonConfig_def)
qed

text \<open>The environment is the fold's own; the location of the time is that of the layer.\<close>

theorem FoldProductConfig_fresh_witness:
  "case FoldProductConfig quantity_copier zk_config zk_layers 10 of
     Inl e \<Rightarrow> False
   | Inr (out, m) \<Rightarrow> addresses (out ! 2) \<inter> {..<10} = {} \<and> addresses (out ! 3) \<inter> {..<10} = {7}"
proof -
  obtain out m where out: "FoldProductConfig quantity_copier zk_config zk_layers 10 = Inr (out, m)"
    using FoldProductConfig_fields [OF zk_valid zk_zeroed quantity_copier_proper zk_layers_formed, of 10] by blast
  have old: "\<forall>l. Some l \<in> set zk_layers \<longrightarrow> \<Union> (addresses ` set l) \<subseteq> {..<10}" by (auto simp: zk_layers_def)
  have four: "2 < length (type_fields zk_config)" "3 < length (type_fields zk_config)"
    by (simp_all add: zk_config_def type_fields_def)
  note shared = FoldProductConfig_fresh [OF zk_valid zk_zeroed quantity_copier_proper zk_layers_formed old out]
  have "effective (type_fields zk_config ! 2) (given_at zk_layers 2) =
      SliceV 2 [StructV env_var_type [(True, StringV ''A''), (True, PtrV 3 (StringV ''b''))]]"
    and "effective (type_fields zk_config ! 3) (given_at zk_layers 3) =
      PtrV 6 (StructV meta_time_type [(True, StructV go_time_type
         [(False, NumV 5), (False, NumV 7), (False, PtrV 7 (StringV ''UTC''))])])"
    by code_simp+
  with shared [OF four(1)] shared [OF four(2)] show ?thesis unfolding out
    by (simp add: field_hidden_def zk_config_def type_fields_def isEmbeddedCommonConfig_def quantity_copier_def
        env_var_type_def meta_time_type_def go_time_type_def resource_package_def meta_package_def)
qed

end
