(* ===== verification/Webhooks.thy ===== *)
theory Webhooks
  imports Images Text
begin

text \<open>
  Admission of a custom resource: \<open>pkg/webhook\<close>. A defaulter changes the resource it is given, a validator
  answers warnings and an error; the type assertion of the adapters is the sum of the expected type and the name
  of another one. Admission itself belongs to controller-runtime.
\<close>

section \<open>Defaulters and validators\<close>

type_synonym 'cr defaulting = "'cr \<Rightarrow> err option \<times> 'cr"
type_synonym answer = "string list \<times> err option"

datatype 'cr ProductDefaulter =
    NoOpDefaulter
  | FuncDefaulter "'cr defaulting option"
  | OtherDefaulter "'cr defaulting"

definition defaulter_Default :: "'cr ProductDefaulter \<Rightarrow> 'cr defaulting" where
  "defaulter_Default d cr = (case d of
       NoOpDefaulter \<Rightarrow> (None, cr)
     | FuncDefaulter None \<Rightarrow> (None, cr)
     | FuncDefaulter (Some f) \<Rightarrow> f cr
     | OtherDefaulter f \<Rightarrow> f cr)"

datatype 'cr ProductValidator =
    NoOpValidator
  | FuncValidator "('cr \<Rightarrow> err option) option"
  | OtherValidator "'cr \<Rightarrow> answer" "'cr \<Rightarrow> 'cr \<Rightarrow> answer" "'cr \<Rightarrow> answer"

definition validator_ValidateCreate :: "'cr ProductValidator \<Rightarrow> 'cr \<Rightarrow> answer" where
  "validator_ValidateCreate v cr = (case v of
       NoOpValidator \<Rightarrow> ([], None)
     | FuncValidator None \<Rightarrow> ([], None)
     | FuncValidator (Some f) \<Rightarrow> ([], f cr)
     | OtherValidator create update delete \<Rightarrow> create cr)"

definition validator_ValidateUpdate :: "'cr ProductValidator \<Rightarrow> 'cr \<Rightarrow> 'cr \<Rightarrow> answer" where
  "validator_ValidateUpdate v oldCR newCR = (case v of
       NoOpValidator \<Rightarrow> ([], None)
     | FuncValidator None \<Rightarrow> ([], None)
     | FuncValidator (Some f) \<Rightarrow> ([], f newCR)
     | OtherValidator create update delete \<Rightarrow> update oldCR newCR)"

definition validator_ValidateDelete :: "'cr ProductValidator \<Rightarrow> 'cr \<Rightarrow> answer" where
  "validator_ValidateDelete v cr = (case v of
       NoOpValidator \<Rightarrow> ([], None)
     | FuncValidator f \<Rightarrow> ([], None)
     | OtherValidator create update delete \<Rightarrow> delete cr)"

definition ConfigValidationError :: "string \<Rightarrow> err \<Rightarrow> err" where
  "ConfigValidationError fld e = Wrapped (FmtErrorf (''configuration validation failed for '' @ fld)) (Some e)"

definition ValidateFieldLength :: "string \<Rightarrow> string \<Rightarrow> int \<Rightarrow> int \<Rightarrow> err option" where
  "ValidateFieldLength v fieldName minLength maxLength =
     (if int (length v) < minLength \<or> int (length v) > maxLength
      then Some (ConfigValidationError fieldName 
         (PlainError (fieldName @ '': length must be between '' @ int_text minLength @ '' and '' @ int_text maxLength @ '' characters'')))
      else None)"

definition ValidateNonEmptyMap :: "string gomap \<Rightarrow> string \<Rightarrow> err option" where
  "ValidateNonEmptyMap m fieldName =
     (if fmdom m = {||}
      then Some (ConfigValidationError fieldName (PlainError (fieldName @ '': map cannot be empty'')))
      else None)"

section \<open>The manager and the adapters\<close>

record 'cr WebhookManager =
  wm_defaulter :: "'cr ProductDefaulter option"
  wm_validator :: "'cr ProductValidator option"

definition NewWebhookManager :: "'cr WebhookManager" where
  "NewWebhookManager = \<lparr>wm_defaulter = Some NoOpDefaulter, wm_validator = Some NoOpValidator\<rparr>"

definition WithDefaulter :: "'cr ProductDefaulter option \<Rightarrow> 'cr WebhookManager \<Rightarrow> 'cr WebhookManager" where
  "WithDefaulter d m = (if d \<noteq> None then m\<lparr>wm_defaulter := d\<rparr> else m)"

definition WithValidator :: "'cr ProductValidator option \<Rightarrow> 'cr WebhookManager \<Rightarrow> 'cr WebhookManager" where
  "WithValidator v m = (if v \<noteq> None then m\<lparr>wm_validator := v\<rparr> else m)"

definition ApplyDefaults :: "'cr WebhookManager \<Rightarrow> 'cr defaulting" where
  "ApplyDefaults m cr = (case wm_defaulter m of
       None \<Rightarrow> (None, cr)
     | Some d \<Rightarrow> (case defaulter_Default d cr of
           (Some e, cr') \<Rightarrow> (Some (Wrapped (FmtErrorf ''failed to apply defaults'') (Some e)), cr')
         | (None, cr') \<Rightarrow> (None, cr')))"

definition manager_Validate :: "'cr WebhookManager \<Rightarrow> 'cr \<Rightarrow> err option" where
  "manager_Validate m cr = (case wm_validator m of
       None \<Rightarrow> None
     | Some v \<Rightarrow> (case snd (validator_ValidateCreate v cr) of
           Some e \<Rightarrow> Some (Wrapped (FmtErrorf ''validation failed'') (Some e))
         | None \<Rightarrow> None))"

definition HasDefaulter :: "'cr WebhookManager \<Rightarrow> bool" where
  "HasDefaulter m \<longleftrightarrow> (case wm_defaulter m of Some NoOpDefaulter \<Rightarrow> False | _ \<Rightarrow> True)"

definition HasValidator :: "'cr WebhookManager \<Rightarrow> bool" where
  "HasValidator m \<longleftrightarrow> (case wm_validator m of Some NoOpValidator \<Rightarrow> False | _ \<Rightarrow> True)"

text \<open>An object that is not of the resource's type is known by the name of its type.\<close>

definition unexpected :: "string \<Rightarrow> string \<Rightarrow> string \<Rightarrow> err" where
  "unexpected t what other = PlainError (''expected '' @ t @ what @ '', got '' @ other)"

definition adapter_Default ::
    "string \<Rightarrow> 'cr ProductDefaulter \<Rightarrow> string + 'cr \<Rightarrow> err option \<times> (string + 'cr)" where
  "adapter_Default t d obj = (case obj of
       Inl other \<Rightarrow> (Some (unexpected t [] other), obj)
     | Inr cr \<Rightarrow> map_prod id Inr (defaulter_Default d cr))"

definition adapter_ValidateCreate :: "string \<Rightarrow> 'cr ProductValidator \<Rightarrow> string + 'cr \<Rightarrow> answer" where
  "adapter_ValidateCreate t v obj = (case obj of
       Inl other \<Rightarrow> ([], Some (unexpected t [] other))
     | Inr cr \<Rightarrow> validator_ValidateCreate v cr)"

definition adapter_ValidateUpdate ::
    "string \<Rightarrow> 'cr ProductValidator \<Rightarrow> string + 'cr \<Rightarrow> string + 'cr \<Rightarrow> answer" where
  "adapter_ValidateUpdate t v oldObj newObj = (case oldObj of
       Inl other \<Rightarrow> ([], Some (unexpected t '' for oldObj'' other))
     | Inr oldCR \<Rightarrow> (case newObj of
           Inl other \<Rightarrow> ([], Some (unexpected t '' for newObj'' other))
         | Inr newCR \<Rightarrow> validator_ValidateUpdate v oldCR newCR))"

definition adapter_ValidateDelete :: "string \<Rightarrow> 'cr ProductValidator \<Rightarrow> string + 'cr \<Rightarrow> answer" where
  "adapter_ValidateDelete t v obj = (case obj of
       Inl other \<Rightarrow> ([], Some (unexpected t [] other))
     | Inr cr \<Rightarrow> validator_ValidateDelete v cr)"

section \<open>Collected errors\<close>

text \<open>A value is the text \<open>%v\<close> prints.\<close>

record validation_error =
  ve_field :: string
  ve_message :: string
  ve_value :: "string option"

definition validation_error_text :: "validation_error \<Rightarrow> string" where
  "validation_error_text e = (case ve_value e of
       Some v \<Rightarrow> ve_field e @ '': '' @ ve_message e @ '' (got '' @ v @ '')''
     | None \<Rightarrow> ve_field e @ '': '' @ ve_message e)"

definition NewValidationError :: "string \<Rightarrow> string \<Rightarrow> validation_error" where
  "NewValidationError fld message = \<lparr>ve_field = fld, ve_message = message, ve_value = None\<rparr>"

definition NewValidationErrorWithValue :: "string \<Rightarrow> string \<Rightarrow> string option \<Rightarrow> validation_error" where
  "NewValidationErrorWithValue fld message v = \<lparr>ve_field = fld, ve_message = message, ve_value = v\<rparr>"

definition validation_errors_text :: "validation_error list \<Rightarrow> string" where
  "validation_errors_text errs =
     (if length errs = 0 then ''no validation errors'' else join_strings ''; '' (map validation_error_text errs))"

definition errors_Add :: "string \<Rightarrow> string \<Rightarrow> validation_error list \<Rightarrow> validation_error list" where
  "errors_Add fld message errs = errs @ [NewValidationError fld message]"

definition errors_AddWithValue ::
    "string \<Rightarrow> string \<Rightarrow> string option \<Rightarrow> validation_error list \<Rightarrow> validation_error list" where
  "errors_AddWithValue fld message v errs = errs @ [NewValidationErrorWithValue fld message v]"

definition HasErrors :: "validation_error list \<Rightarrow> bool" where
  "HasErrors errs \<longleftrightarrow> length errs > 0"

definition errors_ToError :: "validation_error list \<Rightarrow> err option" where
  "errors_ToError errs = (if length errs = 0 then None else Some (PlainError (validation_errors_text errs)))"

datatype field_error =
    FieldRequired "string list" string
  | FieldNotSupported "string list" string "string list"
  | FieldInvalid "string list" "string option" string

definition errors_ToStatusError :: "validation_error list \<Rightarrow> field_error list option" where
  "errors_ToStatusError errs =
     (if length errs = 0 then None
      else Some (map (\<lambda>e. FieldInvalid [ve_field e] (ve_value e) (ve_message e)) errs))"

definition errors_Merge :: "validation_error list list \<Rightarrow> validation_error list" where
  "errors_Merge errsList = concat errsList"

section \<open>The image of a cluster\<close>

definition pull_policies :: "string list" where
  "pull_policies = [''Always'', ''Never'', PullIfNotPresent]"

definition validateImageSpec :: "image_spec \<Rightarrow> string list \<Rightarrow> field_error list" where
  "validateImageSpec img path =
     (if image_custom img \<noteq> [] then []
      else
        (if image_repo img = []
         then [FieldRequired (path @ [''repo'']) ''repo is required when custom image is not set''] else []) @
        (if image_product_version img = []
         then [FieldRequired (path @ [''productVersion'']) ''productVersion is required when custom image is not set''] else []) @
        (if image_kubedoop_version img = []
         then [FieldRequired (path @ [''kubedoopVersion'']) ''kubedoopVersion is required when custom image is not set''] else []) @
        (if image_pull_policy img \<noteq> [] \<and> image_pull_policy img \<notin> set pull_policies
         then [FieldNotSupported (path @ [''pullPolicy'']) (image_pull_policy img) pull_policies] else []))"

definition ValidateGenericClusterSpec :: "generic_cluster_spec option \<Rightarrow> string list \<Rightarrow> field_error list" where
  "ValidateGenericClusterSpec spec path =
     (case spec of
        None \<Rightarrow> []
      | Some s \<Rightarrow> (case spec_image s of None \<Rightarrow> [] | Some img \<Rightarrow> validateImageSpec img (path @ [''image''])))"

definition DefaultGenericClusterSpec :: "generic_cluster_spec option \<Rightarrow> image_spec option \<Rightarrow> generic_cluster_spec option" where
  "DefaultGenericClusterSpec spec defaultImage =
     (case spec of
        None \<Rightarrow> None
      | Some s \<Rightarrow>
          (let s1 = (if spec_image s = None \<and> defaultImage \<noteq> None then s\<lparr>spec_image := defaultImage\<rparr> else s)
           in Some (case spec_image s1 of
                None \<Rightarrow> s1
              | Some img \<Rightarrow>
                  if image_pull_policy img = []
                  then s1\<lparr>spec_image := Some (img\<lparr>image_pull_policy := PullIfNotPresent\<rparr>)\<rparr>
                  else s1)))"

section \<open>Properties\<close>

text \<open>The pull policy of a custom image is not looked at.\<close>

lemma custom_image_any_policy:
  "image_custom img \<noteq> [] \<Longrightarrow> validateImageSpec (img\<lparr>image_pull_policy := p\<rparr>) path = []"
  by (simp add: validateImageSpec_def)

text \<open>A policy the defaulting writes hides the one the product declares.\<close>

lemma defaulting_hides_policy:
  "DefaultGenericClusterSpec (Some s) d = Some s' \<Longrightarrow> spec_image s = Some img \<Longrightarrow> image_pull_policy img = [] \<Longrightarrow>
    ResolvedPullPolicy (spec_image s') defaults = PullIfNotPresent"
  by (auto simp: DefaultGenericClusterSpec_def ResolvedPullPolicy_def image_or_zero_def Let_def PullIfNotPresent_def)

text \<open>
  C37. What admission lets through needs no further defaults: defaulting is idempotent and keeps every part of an
  image the user stated, and an image that is then admitted resolves the same whatever defaults the product has,
  to its custom reference or to the reference its parts spell; only a tag no registry takes can still fail.
\<close>

theorem admitted_image_resolves:
  assumes "DefaultGenericClusterSpec (Some s) d = Some s'" and "ValidateGenericClusterSpec (Some s') path = []"
    and "spec_image s' = Some img" and "productName \<noteq> []"
  shows "DefaultGenericClusterSpec (Some s') d = Some s' \<and>
    (case spec_image s of None \<Rightarrow> True | Some u \<Rightarrow>
       img = u\<lparr>image_pull_policy := (if image_pull_policy u = [] then PullIfNotPresent else image_pull_policy u)\<rparr>) \<and>
    ResolveImage (spec_image s') productName defaults =
      (if image_custom img \<noteq> [] then Inr (image_custom img)
       else (let tag = image_product_version img @ ''-kubedoop'' @ image_kubedoop_version img in
         case validateImageTag tag (image_product_version img) (image_kubedoop_version img) of
           Some e \<Rightarrow> Inl (unresolvable productName (Some e))
         | None \<Rightarrow> Inr (image_repo img @ ''/'' @ productName @ '':'' @ tag)))"
proof -
  have policy: "image_pull_policy img \<noteq> []"
    using assms(1,3) by (auto simp: DefaultGenericClusterSpec_def Let_def PullIfNotPresent_def split: option.splits if_splits)
  then have idem: "DefaultGenericClusterSpec (Some s') d = Some s'"
    using assms(3) by (simp add: DefaultGenericClusterSpec_def)
  have kept: "case spec_image s of None \<Rightarrow> True | Some u \<Rightarrow>
       img = u\<lparr>image_pull_policy := (if image_pull_policy u = [] then PullIfNotPresent else image_pull_policy u)\<rparr>"
    using assms(1,3) by (auto simp: DefaultGenericClusterSpec_def Let_def split: option.splits if_splits)
  have "image_custom img = [] \<Longrightarrow> image_repo img \<noteq> [] \<and> image_product_version img \<noteq> [] \<and> image_kubedoop_version img \<noteq> []"
    using assms(2,3) by (auto simp: ValidateGenericClusterSpec_def validateImageSpec_def split: if_splits)
  with idem kept assms(3,4) show ?thesis
    by (auto simp: ResolveImage_def image_or_zero_def stated_def image_tag_def Let_def)
qed

theorem admitted_image_resolves_witness:
  "ResolveImage (Some (no_image\<lparr>image_repo := ''quay.io/zncdatadev'', image_product_version := ''3.9'',
     image_kubedoop_version := ''0.1'', image_pull_policy := PullIfNotPresent\<rparr>)) ''zookeeper'' no_image =
   Inr ''quay.io/zncdatadev/zookeeper:3.9-kubedoop0.1''"
proof -
  let ?u = "no_image\<lparr>image_repo := ''quay.io/zncdatadev'', image_product_version := ''3.9'', image_kubedoop_version := ''0.1''\<rparr>"
  let ?s = "\<lparr>spec_image = Some ?u, spec_cluster_operation = None, spec_roles = fmempty\<rparr>"
  let ?img = "?u\<lparr>image_pull_policy := PullIfNotPresent\<rparr>"
  have "DefaultGenericClusterSpec (Some ?s) None = Some (?s\<lparr>spec_image := Some ?img\<rparr>)" by code_simp
  moreover have "ValidateGenericClusterSpec (Some (?s\<lparr>spec_image := Some ?img\<rparr>)) [''spec''] = []" by code_simp
  moreover have "validateImageTag ''3.9-kubedoop0.1'' ''3.9'' ''0.1'' = None" by code_simp
  ultimately show ?thesis
    using admitted_image_resolves [of ?s None "?s\<lparr>spec_image := Some ?img\<rparr>" "[''spec'']" ?img "''zookeeper''" no_image]
    by (simp add: no_image_def)
qed

end
