(* ===== verification/Spec2Isabelle.thy ===== *)
theory Spec2Isabelle
  imports Extensions ClusterStatus ConfigMerge ConfigFold Apply Naming Health CleanerSafety CleanerLedger
    CleanerDrain CleanerProgress CleanerRequeue Images WritesSafety Logging LogFiles Vector Roles Rbac BuildContext
    ReconcileSafety ReconcileOutcome ConfigGenerator HandlerVolumes S3 K8sUtil Settled ProductConfig Webhooks
begin

text \<open>
  Operator-go is the framework of the Kubedoop operators: a product supplies a custom resource, a handler
  that builds the objects of a role group and optional hooks, and the framework runs the reconcile loop.
  This library models the loop and the parts it calls, in the order of a pass:

  \<^item> \<open>Prelude\<close>, \<open>Text\<close>: Go maps as finite maps, range loops, text as bytes and its scanning, the conversion to
    runes and back.
  \<^item> \<open>Errors\<close> (\<open>pkg/common/errors.go\<close>, \<open>pkg/reconciler/errors.go\<close>): errors as trees, and which trees are
    a wait rather than a failure.
  \<^item> \<open>Extensions\<close> (\<open>pkg/common/extension_registry.go\<close>): registration, order and execution of hooks over any
    state.
  \<^item> \<open>ClusterSpec\<close>, \<open>ClusterStatus\<close>, \<open>Images\<close> (\<open>pkg/apis/commons/v1alpha1\<close>, \<open>resolved_image.go\<close>): the API
    types, the conditions and the record of role groups, the resolution of the container image.
  \<^item> \<open>ConfigMerge\<close> (\<open>pkg/config/merger.go\<close>), \<open>ConfigFold\<close> (\<open>config_fold.go\<close>, \<open>affinity.go\<close>,
    \<open>MergeLoggingSpec\<close>): layering of overrides and of the workload configuration; \<open>ProductConfig\<close>
    (\<open>FoldProductConfig\<close> of \<open>config_fold.go\<close>): the product's half, over reflected values with addresses.
  \<^item> \<open>PropertiesFormat\<close>, \<open>EnvFormat\<close>, \<open>IniFormat\<close>, \<open>XmlFormat\<close>, \<open>ConfigGenerator\<close> (\<open>pkg/config\<close>): writing
    and reading configuration files, and the choice of the format by the name of the file.
  \<^item> \<open>Naming\<close> (\<open>generic_reconciler.go\<close>, \<open>pkg/constant\<close>): derived names and labels.
  \<^item> \<open>Logging\<close>, \<open>LogFiles\<close> (\<open>pkg/productlogging\<close>), \<open>Vector\<close> (\<open>pkg/vector\<close>): log producers,
    their configuration files, the aggregator address.
  \<^item> \<open>Roles\<close> (\<open>role_declaration.go\<close>, \<open>dependency.go\<close>, \<open>role_group_resolver.go\<close>): what a product declares.
  \<^item> \<open>Api\<close>: the API server, the operations of the client and their control flow (below).
  \<^item> \<open>Apply\<close> (\<open>apply.go\<close>), \<open>Writes\<close> (\<open>applyResource\<close>, \<open>applyResources\<close> and the reclaims of
    \<open>generic_reconciler.go\<close>, \<open>pkg/util/k8s_util.go\<close>), \<open>Rbac\<close> (\<open>workload_rbac.go\<close>): writing objects.
  \<^item> \<open>Health\<close> (\<open>health.go\<close>), \<open>Cleaner\<close> (\<open>cleaner.go\<close>): the verdict on the workload, the teardown of role
    groups that left the spec.
  \<^item> \<open>BuildContext\<close>, \<open>Reconcile\<close> (\<open>generic_reconciler.go\<close>): the reconciler, the context of a role group, the
    pass, the status writes, the entry point.
  \<^item> \<open>PodTypes\<close>: pods, containers, services and the other objects the builders assemble.
  \<^item> \<open>StatefulSetBuilder\<close>, \<open>Builders\<close> (\<open>pkg/builder\<close>), \<open>PodSecurity\<close> (\<open>pkg/security/pod_security.go\<close>): one
    function per builder method, and what \<open>Build\<close> makes of them, pod overrides included.
  \<^item> \<open>Sidecar\<close>, \<open>SidecarProviders\<close> (\<open>pkg/sidecar\<close>), \<open>VectorProvider\<close>, \<open>VectorConfig\<close> (\<open>pkg/vector\<close>): the sidecar
    manager, its providers, the agent's configuration file.
  \<^item> \<open>Durations\<close> (\<open>time.ParseDuration\<close>), \<open>HandlerLabels\<close>, \<open>HandlerLogging\<close>, \<open>Handler\<close>
    (\<open>base_role_group_handler.go\<close>, \<open>role_group_handler.go\<close>): the handler the framework supplies, from the context
    of a role group to its ConfigMap, Services and StatefulSet; \<open>HandlerSafety\<close>, \<open>HandlerConfig\<close>: its theorems
    and its place in the pass.
  \<^item> \<open>CsiVolumes\<close>, \<open>SecretVolumes\<close> (\<open>pkg/security\<close>), \<open>ListenerVolumes\<close> (\<open>pkg/listener\<close>): the provisioners of
    secret and listener volumes; \<open>HandlerVolumes\<close>: what of them reaches the pod the handler builds.
  \<^item> \<open>S3\<close> (\<open>pkg/s3\<close>): resolution of connections and buckets, their properties and their credentials.
  \<^item> \<open>Ensured\<close> (\<open>generated_secret.go\<close>, \<open>discovery.go\<close>): the objects hooks ensure; \<open>Settled\<close>: writes
    repeated over an unchanged spec; \<open>K8sUtil\<close>
    (\<open>pkg/util/k8s_util.go\<close>): the client wrappers; \<open>Webhooks\<close> (\<open>pkg/webhook\<close>): defaulting and validation.

  \<^bold>\<open>State.\<close> The \<open>world\<close> of \<open>Api\<close> holds the objects of one namespace by kind and name with their owners,
  labels, versions and deletion marks, the stored custom resource, a count of the requests sent, and the events.
  An \<open>env\<close> is what the code does not control: which requests fail and how, what the cache answers for the
  present store (\<open>faithful\<close>, \<open>honest\<close>, \<open>cache_owners\<close> and \<open>cache_refusals\<close> name what a theorem needs of it), the
  clock, and what the API server fills in (\<open>server\<close>): a created object is stored with its defaults, and an update
  that changes nothing once they are filled in keeps the object and its resource version.
  An operation maps a state to a result or an error and a new state; a pass works on the world and the
  custom resource in memory. Every \<open>if err != nil\<close> of the code is a branch.

  \<^bold>\<open>Parameters.\<close> What is not in the repository is an argument: \<open>SetControllerReference\<close>, the object codec
  and error texts (\<open>platform\<close>), pod templates (\<open>pod_codec\<close>), affinity (\<open>affinity_codec\<close>), digests, time
  formats, YAML and the XML reader (\<open>libraries\<close>), and the product: hooks, providers, resolver and handler,
  which may be any function of the pass. Theorems that need the product to behave say so
  (\<open>product_within\<close>). What the health pass reads is a record of answers. The handler takes the strategic merge
  of pod templates (\<open>hl_merge_patch\<close>), the check of label values (\<open>hl_valid_value\<close>), fractions of a duration
  (\<open>hl_scaled\<close>) and the marshalling of what it built (\<open>resource_encoder\<close>); the merge is unconstrained, so what
  is shown of a finished pod holds whatever an override does. \<open>S3\<close> takes the answers of the client, the secret
  volumes the quantity parser, \<open>ProductConfig\<close> the \<open>DeepCopy\<close> methods of struct values;
  its types have an identity (\<open>type_id\<close>) beside the name they print.

  \<^bold>\<open>Interfaces.\<close> \<open>frame\<close> and \<open>world_frame\<close> are the contract "every run relates the state before and after",
  closed under the control flow once and interpreted for each safety argument (ownership in \<open>CleanerSafety\<close>
  and \<open>WritesSafety\<close>, deference to other controllers in \<open>Rbac\<close>, frozen objects in \<open>ReconcileSafety\<close>, the
  status in \<open>ReconcileOutcome\<close>). \<open>config_codec\<close> is the contract of a file format, interpreted for the three
  formats of the repository. \<open>sidecar_provider\<close> is the contract of an injection (the pod only grows, under the
  provider's name), interpreted for the static container, the JMX exporter, oauth2-proxy and Vector.
  \<open>provisioner\<close> (\<open>CsiVolumes\<close>) is the contract of a volume provisioner, interpreted for secrets and listeners;
  \<open>settling\<close> (\<open>Ensured\<close>) that of a mutate function that finds nothing left to do, interpreted for generated
  secrets, discovery ConfigMaps, the ServiceAccount, the Role and its binding (\<open>Settled\<close>).

  \<^bold>\<open>What is shown.\<close> \<open>ReconcileSafety\<close>: no pass touches an object another controller owns; a paused or deleted
  cluster is frozen. \<open>ReconcileOutcome\<close>: what a pass reports, that failures, failed requests included, reach the
  stored status when the status write gets through, that
  the loops over roles and groups are best effort. \<open>WritesSafety\<close>, \<open>Rbac\<close>: writes stay inside the declared
  identities, bindings are never repointed. \<open>CleanerSafety\<close> to \<open>CleanerRequeue\<close>: the teardown spares what is
  not its own, drains before it deletes as long as the cache is current (\<open>CleanerDrain\<close> has the run where it is not),
  keeps its ledger until nothing is left, gets there, and is retried.
  \<open>Apply\<close>: a write keeps what the API server or another writer owns and repeats without change.
  \<open>ConfigFold\<close>, \<open>ConfigMerge\<close>, \<open>Images\<close>: the highest layer that states a value wins. The format theories:
  round trips on valid UTF-8, and what is left of other bytes. \<open>Errors\<close>, \<open>Extensions\<close>, \<open>Health\<close>, \<open>ClusterStatus\<close>, \<open>Naming\<close>: each operation against what it
  promises. \<open>HandlerLabels\<close>: the selectors of two groups never share a pod. \<open>HandlerSafety\<close>, \<open>HandlerConfig\<close>: what
  the handler builds is accepted by the write phase, is consistent, carries its whole configuration and mounts
  it. \<open>Ensured\<close>: a generated value is never rewritten, and ensuring twice only reads. \<open>Settled\<close>: applying
  again may send an update for what the server defaulted, but changes no object and reports nothing. \<open>K8sUtil\<close>: a retried update
  is applied once, to the stored object. \<open>ProductConfig\<close>: presence wins, and the result shares with the layers
  exactly what hides from reflection, nothing where nothing hides. \<open>SecretVolumes\<close>, \<open>S3\<close>: the requested scope
  survives its encoding but for the names the annotation cannot carry, credentials arrive where the export script
  reads them. \<open>Webhooks\<close>: an admitted image resolves without further defaults. \<open>Sidecar\<close> to \<open>VectorProvider\<close>: the order of injection and what each provider leaves in the pod.

  \<^bold>\<open>Bounds.\<close> There is no fuel: every loop of the code runs over a list. The one retry loop,
  \<open>retry.RetryOnConflict\<close>, has the steps of the code's backoff, \<open>DefaultBackoffRetries\<close> and \<open>defaultBackoff\<close>. Durations and
  counts are mathematical integers where the code's values stay far below 64 bits; the parsed grace period and
  the byte counts of log sizes, which may exceed them, wrap around as in the code.

  \<^bold>\<open>Differences.\<close> A Go map is visited in key order where the code's order is unspecified; lemmas show where
  the order cannot matter, and the mount restoration of \<open>Apply\<close> takes the order as a parameter because there it
  does. A \<open>versioned\<close> cache may lag but invents no object. Message texts are shortened; a text a condition or an error carries is a parameter or the text of the
  code. Loggers, metrics and panics are left out; one request is one step, so a pass interleaves with nothing but
  what \<open>env\<close> says.

  \<^bold>\<open>Not modelled.\<close> Serving admission requests (controller-runtime) and the Prometheus series; the YAML adapter
  (a third-party library) and the XML reader; remote command execution (\<open>exec_util.go\<close>); \<open>ValidateEndpointFormat\<close>,
  which is \<open>url.Parse\<close>; \<open>GenerateCookieSecret\<close>, which draws random bytes; the patch and status wrappers of
  \<open>K8sUtil\<close>; the authentication and database types, which the framework does not read beyond the fields \<open>Roles\<close>
  checks; generated and test code, the test utilities and the example operator.
\<close>

end
